(* ===== verification/Kaya_Base.thy ===== *)
theory Kaya_Base
  imports Main "HOL-Library.Product_Lexorder" "HOL-Library.Sublist"
begin

text \<open>
  The prelude of the development: the Python idioms that every component of the program uses
  (instants and durations, text handling, ordered de-duplication, first match, integers read from
  text) as executable functions, with the lemmas the component theories share. Python text is a
  \<open>string\<close>; the case functions are the ASCII ones, which is what the program's status tokens use.
\<close>

named_theorems py_simps \<open>equations that evaluate the Python idioms of the prelude\<close>

section \<open>Instants\<close>

text \<open>
  A \<open>datetime\<close> is its distance from the epoch in microseconds, the resolution of Python's type,
  so \<open>timedelta\<close> arithmetic and comparisons are exact.
\<close>

type_synonym time = int

definition seconds :: "int \<Rightarrow> time" where
  "seconds n = n * 1000000"

definition minutes :: "int \<Rightarrow> time" where
  "minutes n = seconds (60 * n)"

lemma seconds_mono [simp]: "seconds m \<le> seconds n \<longleftrightarrow> m \<le> n"
  by (simp add: seconds_def)

lemma seconds_nonneg [simp]: "0 \<le> seconds n \<longleftrightarrow> 0 \<le> n"
  by (simp add: seconds_def)

lemma seconds_add: "seconds (m + n) = seconds m + seconds n"
  by (simp add: seconds_def algebra_simps)

section \<open>Optional values\<close>

text \<open>Python's \<open>a or b\<close> where a missing value is \<open>None\<close>.\<close>

fun or_else :: "'a option \<Rightarrow> 'a option \<Rightarrow> 'a option" where
  "or_else (Some x) _ = Some x"
| "or_else None y = y"

lemma or_else_None_right [simp]: "or_else x None = x"
  by (cases x) simp_all

lemma or_else_eq_None [simp]: "or_else x y = None \<longleftrightarrow> x = None \<and> y = None"
  by (cases x) simp_all

lemma or_else_assoc: "or_else (or_else x y) z = or_else x (or_else y z)"
  by (cases x) simp_all

text \<open>An empty Python string is false: \<open>value or default\<close> on text.\<close>

definition text_or :: "string \<Rightarrow> string \<Rightarrow> string" where
  "text_or s d = (if s = [] then d else s)"

definition opt_text_or :: "string option \<Rightarrow> string \<Rightarrow> string" where
  "opt_text_or s d = (case s of None \<Rightarrow> d | Some t \<Rightarrow> text_or t d)"

section \<open>Ordered de-duplication\<close>

text \<open>\<open>list(dict.fromkeys(xs))\<close> keeps the first occurrence of every element, in order.\<close>

fun dict_fromkeys :: "'a list \<Rightarrow> 'a list" where
  "dict_fromkeys [] = []"
| "dict_fromkeys (x # xs) = x # dict_fromkeys (removeAll x xs)"

lemma set_dict_fromkeys [simp]: "set (dict_fromkeys xs) = set xs"
  by (induction xs rule: dict_fromkeys.induct) auto

lemma distinct_dict_fromkeys [simp]: "distinct (dict_fromkeys xs)"
  by (induction xs rule: dict_fromkeys.induct) auto

lemma dict_fromkeys_Nil_iff [simp]: "dict_fromkeys xs = [] \<longleftrightarrow> xs = []"
  by (cases xs) simp_all

lemma dict_fromkeys_distinct: "distinct xs \<Longrightarrow> dict_fromkeys xs = xs"
  by (induction xs rule: dict_fromkeys.induct) (auto simp: removeAll_id)

section \<open>First match\<close>

text \<open>\<open>next((x for x in xs if p(x)), None)\<close> is the library's \<open>find\<close>.\<close>

lemma find_SomeD: "find p xs = Some x \<Longrightarrow> x \<in> set xs \<and> p x"
  by (auto simp: find_Some_iff)

lemma find_None_conv: "find p xs = None \<longleftrightarrow> (\<forall>x \<in> set xs. \<not> p x)"
  by (auto simp: find_None_iff)

lemma find_map_same:
  assumes "\<And>x. x \<in> set xs \<Longrightarrow> p (f x) = p x"
  shows "find p (map f xs) = map_option f (find p xs)"
  using assms by (induction xs) auto

text \<open>\<open>min(xs, key=k)\<close>: the first element with the least key.\<close>

definition min_by :: "('a \<Rightarrow> int) \<Rightarrow> 'a list \<Rightarrow> 'a option" where
  "min_by k xs = (case sort_key k xs of [] \<Rightarrow> None | x # _ \<Rightarrow> Some x)"

lemma min_by_Some:
  assumes "min_by k xs = Some x"
  shows "x \<in> set xs" and "y \<in> set xs \<Longrightarrow> k x \<le> k y"
proof -
  from assms obtain ys where ys: "sort_key k xs = x # ys" by (auto simp: min_by_def split: list.splits)
  then have "set xs = set (x # ys)" by (metis set_sort)
  then show "x \<in> set xs" by simp
  have "sorted (map k (x # ys))" using ys sorted_sort_key [of k xs] by simp
  with \<open>set xs = set (x # ys)\<close> show "y \<in> set xs \<Longrightarrow> k x \<le> k y" by auto
qed

lemma min_by_None [simp]: "min_by k xs = None \<longleftrightarrow> xs = []"
proof -
  have "sort_key k xs = [] \<longleftrightarrow> xs = []" by (metis set_empty set_sort)
  then show ?thesis by (auto simp: min_by_def split: list.splits)
qed

section \<open>Text\<close>

definition is_upper :: "char \<Rightarrow> bool" where
  "is_upper c \<longleftrightarrow> 65 \<le> (of_char c :: nat) \<and> of_char c \<le> (90::nat)"

definition is_lower :: "char \<Rightarrow> bool" where
  "is_lower c \<longleftrightarrow> 97 \<le> (of_char c :: nat) \<and> of_char c \<le> (122::nat)"

definition is_digit :: "char \<Rightarrow> bool" where
  "is_digit c \<longleftrightarrow> 48 \<le> (of_char c :: nat) \<and> of_char c \<le> (57::nat)"

definition is_space :: "char \<Rightarrow> bool" where
  "is_space c \<longleftrightarrow> of_char c \<in> {9, 10, 11, 12, 13, 28, 29, 30, 31, 32 :: nat}"

definition upper_char :: "char \<Rightarrow> char" where
  "upper_char c = (if is_lower c then char_of (of_char c - 32 :: nat) else c)"

definition lower_char :: "char \<Rightarrow> char" where
  "lower_char c = (if is_upper c then char_of (of_char c + 32 :: nat) else c)"

definition upper :: "string \<Rightarrow> string" where
  "upper s = map upper_char s"

definition lower :: "string \<Rightarrow> string" where
  "lower s = map lower_char s"

definition lstrip :: "string \<Rightarrow> string" where
  "lstrip s = dropWhile is_space s"

definition strip :: "string \<Rightarrow> string" where
  "strip s = rev (dropWhile is_space (rev (dropWhile is_space s)))"

definition startswith :: "string \<Rightarrow> string \<Rightarrow> bool" where
  "startswith p s \<longleftrightarrow> prefix p s"

text \<open>\<open>p in s\<close> for text.\<close>

fun contains :: "string \<Rightarrow> string \<Rightarrow> bool" where
  "contains p [] = (p = [])"
| "contains p (x # xs) = (prefix p (x # xs) \<or> contains p xs)"

text \<open>\<open>s.split(c)\<close> for a one-character separator, and \<open>sep.join(parts)\<close>.\<close>

fun split_on :: "char \<Rightarrow> string \<Rightarrow> string list" where
  "split_on c [] = [[]]"
| "split_on c (x # xs) =
     (if x = c then [] # split_on c xs
      else (case split_on c xs of [] \<Rightarrow> [[x]] | p # ps \<Rightarrow> (x # p) # ps))"

fun join :: "string \<Rightarrow> string list \<Rightarrow> string" where
  "join sep [] = []"
| "join sep [x] = x"
| "join sep (x # y # ys) = x @ sep @ join sep (y # ys)"

lemma split_on_not_Nil [simp]: "split_on c s \<noteq> []"
  by (cases s) (auto split: list.splits)

lemma join_Cons: "ps \<noteq> [] \<Longrightarrow> join sep (p # ps) = p @ sep @ join sep ps"
  by (cases ps) simp_all

lemma join_split_on [simp]: "join [c] (split_on c s) = s"
proof (induction s)
  case Nil
  then show ?case by simp
next
  case (Cons x xs)
  then obtain p ps where ps: "split_on c xs = p # ps"
    by (cases "split_on c xs") auto
  have cons: "join [c] ((x # p) # ps) = x # join [c] (p # ps)"
    by (cases ps) simp_all
  show ?case
  proof (cases "x = c")
    case True
    with Cons ps show ?thesis by simp
  next
    case False
    with Cons ps cons show ?thesis by simp
  qed
qed

lemma split_on_parts: "p \<in> set (split_on c s) \<Longrightarrow> c \<notin> set p"
proof (induction s arbitrary: p)
  case Nil
  then show ?case by simp
next
  case (Cons x xs)
  then show ?case by (auto split: if_splits list.splits)
qed

lemma split_on_id: "c \<notin> set s \<Longrightarrow> split_on c s = [s]"
  by (induction s) auto

lemma split_on_append:
  "c \<notin> set p \<Longrightarrow> split_on c (p @ c # s) = p # split_on c s"
  by (induction p) auto

section \<open>Decimal text\<close>

fun digits_of :: "nat \<Rightarrow> string" where
  "digits_of n = (if n < 10 then [char_of (48 + n)] else digits_of (n div 10) @ [char_of (48 + n mod 10)])"

declare digits_of.simps [simp del]

text \<open>\<open>str(n)\<close> for an integer.\<close>

definition str_int :: "int \<Rightarrow> string" where
  "str_int n = (if n < 0 then CHR ''-'' # digits_of (nat (- n)) else digits_of (nat n))"

definition digit_value :: "char \<Rightarrow> nat" where
  "digit_value c = of_char c - 48"

text \<open>
  \<open>int(text)\<close> with base ten: surrounding white space, one optional sign, then decimal digits
  that may be grouped by single underscores. \<open>None\<close> is Python's \<open>ValueError\<close>. The flag of the
  scanner says whether the character before was a digit, so that an underscore is accepted only
  between two digits.
\<close>

fun scan_digits :: "bool \<Rightarrow> nat \<Rightarrow> string \<Rightarrow> nat option" where
  "scan_digits after acc [] = (if after then Some acc else None)"
| "scan_digits after acc (c # cs) =
     (if is_digit c then scan_digits True (10 * acc + digit_value c) cs
      else if c = CHR ''_'' \<and> after then scan_digits False acc cs
      else None)"

definition parse_int :: "string \<Rightarrow> int option" where
  "parse_int text =
     (case strip text of
        [] \<Rightarrow> None
      | c # cs \<Rightarrow>
          if c = CHR ''-'' then map_option (\<lambda>n. - int n) (scan_digits False 0 cs)
          else if c = CHR ''+'' then map_option int (scan_digits False 0 cs)
          else map_option int (scan_digits False 0 (c # cs)))"

lemma is_digit_char_of [simp]: "n < (10::nat) \<Longrightarrow> is_digit (char_of (48 + n))"
  by (simp add: is_digit_def)

lemma digit_value_char_of [simp]: "n < (10::nat) \<Longrightarrow> digit_value (char_of (48 + n)) = n"
  by (simp add: digit_value_def)

lemma digits_of_digits: "c \<in> set (digits_of n) \<Longrightarrow> is_digit c"
proof (induction n rule: digits_of.induct)
  case (1 n)
  show ?case
  proof (cases "n < 10")
    case True
    with "1.prems" show ?thesis by (simp add: digits_of.simps [of n])
  next
    case False
    with "1.prems" "1.IH" show ?thesis by (auto simp: digits_of.simps [of n])
  qed
qed

lemma scan_digits_run:
  "(\<forall>c \<in> set xs. is_digit c) \<Longrightarrow>
   scan_digits True acc (xs @ ys) = scan_digits True (foldl (\<lambda>a c. 10 * a + digit_value c) acc xs) ys"
  by (induction xs arbitrary: acc) simp_all

lemma scan_digits_append:
  "(\<forall>c \<in> set xs. is_digit c) \<Longrightarrow> xs \<noteq> [] \<Longrightarrow>
   scan_digits b acc (xs @ ys) = scan_digits True (foldl (\<lambda>a c. 10 * a + digit_value c) acc xs) ys"
  by (cases xs) (simp_all add: scan_digits_run)

lemma digits_of_not_Nil [simp]: "digits_of n \<noteq> []"
  by (subst digits_of.simps) simp

lemma foldl_digits_of: "foldl (\<lambda>a c. 10 * a + digit_value c) 0 (digits_of n) = n"
proof (induction n rule: digits_of.induct)
  case (1 n)
  show ?case
  proof (cases "n < 10")
    case True
    then show ?thesis by (simp add: digits_of.simps [of n])
  next
    case False
    with "1.IH" show ?thesis by (simp add: digits_of.simps [of n])
  qed
qed

lemma scan_digits_digits_of: "scan_digits b 0 (digits_of n) = Some n"
  using scan_digits_append [of "digits_of n" b 0 "[]"] digits_of_digits [of _ n]
  by (simp add: foldl_digits_of)

text \<open>White space of Latin-1 text, as \<open>str.split\<close> sees it; \<open>" ".join(s.split())\<close>.\<close>

definition is_space1 :: "char \<Rightarrow> bool" where
  "is_space1 c \<longleftrightarrow> is_space c \<or> of_char c \<in> {133, 160 :: nat}"

definition is_digit1 :: "char \<Rightarrow> bool" where
  "is_digit1 c \<longleftrightarrow> is_digit c \<or> of_char c \<in> {178, 179, 185 :: nat}"

definition strip_chars :: "(char \<Rightarrow> bool) \<Rightarrow> string \<Rightarrow> string" where
  "strip_chars p s = rev (dropWhile p (rev (dropWhile p s)))"

abbreviation strip1 :: "string \<Rightarrow> string" where
  "strip1 \<equiv> strip_chars is_space1"

definition is_control :: "char \<Rightarrow> bool" where
  "is_control c \<longleftrightarrow> (of_char c :: nat) < 32"

lemma is_space1_code [code]:
  "is_space1 (Char b0 b1 b2 b3 b4 b5 b6 b7) \<longleftrightarrow>
     (\<not> b7 \<and> \<not> b6 \<and> \<not> b5 \<and> \<not> b4 \<and> b3 \<and> (if b2 then \<not> b1 else b1 \<or> b0)) \<or>
     (\<not> b7 \<and> \<not> b6 \<and> \<not> b5 \<and> b4 \<and> b3 \<and> b2) \<or> (\<not> b7 \<and> \<not> b6 \<and> b5 \<and> \<not> b4 \<and> \<not> b3 \<and> \<not> b2 \<and> \<not> b1 \<and> \<not> b0) \<or>
     (b7 \<and> \<not> b6 \<and> \<not> b5 \<and> \<not> b4 \<and> \<not> b3 \<and> b2 \<and> \<not> b1 \<and> b0) \<or> (b7 \<and> \<not> b6 \<and> b5 \<and> \<not> b4 \<and> \<not> b3 \<and> \<not> b2 \<and> \<not> b1 \<and> \<not> b0)"
  by (cases b0; cases b1; cases b2; cases b3; cases b4; cases b5; cases b6; cases b7)
     (simp_all add: is_space1_def is_space_def)

lemma is_control_code [code]: "is_control (Char b0 b1 b2 b3 b4 b5 b6 b7) \<longleftrightarrow> \<not> b7 \<and> \<not> b6 \<and> \<not> b5"
  by (cases b0; cases b1; cases b2; cases b3; cases b4; cases b5; cases b6; cases b7) (simp_all add: is_control_def)

fun words_from :: "string \<Rightarrow> string \<Rightarrow> string list" where
  "words_from w [] = (if w = [] then [] else [w])"
| "words_from w (c # cs) =
     (if is_space1 c then (if w = [] then words_from [] cs else w # words_from [] cs) else words_from (w @ [c]) cs)"

definition squeeze :: "string \<Rightarrow> string" where
  "squeeze s = join '' '' (words_from [] s)"

definition is_word :: "string \<Rightarrow> bool" where
  "is_word w \<longleftrightarrow> w \<noteq> [] \<and> \<not> list_ex is_space1 w"

lemma words_from_words:
  "\<not> list_ex is_space1 w \<Longrightarrow> list_all is_word (words_from w s)"
  by (induction w s rule: words_from.induct) (auto simp: is_word_def)

lemma words_from_word:
  "\<not> list_ex is_space1 p \<Longrightarrow> words_from w (p @ s) = words_from (w @ p) s"
  by (induction p arbitrary: w) auto

lemma is_space1_blank [simp]: "is_space1 (CHR '' '')"
  by (simp add: is_space1_def is_space_def)

lemma words_from_join:
  "list_all is_word ws \<Longrightarrow> words_from [] (join '' '' ws) = ws"
proof (induction ws)
  case (Cons w ws)
  then have ws: "list_all is_word ws" and "is_word w"
    by simp_all
  then have w: "w \<noteq> []" "\<not> list_ex is_space1 w"
    by (simp_all only: is_word_def simp_thms)
  show ?case
  proof (cases "ws = []")
    case True
    with w show ?thesis
      using words_from_word [of w "[]" "[]"] by simp
  next
    case False
    with w ws Cons.IH show ?thesis
      using words_from_word [of w "[]" "'' '' @ join '' '' ws"] by (simp add: join_Cons)
  qed
qed simp

lemma squeeze_squeeze [simp]: "squeeze (squeeze s) = squeeze s"
  by (simp add: squeeze_def words_from_join words_from_words)

section \<open>Dictionaries\<close>

text \<open>\<open>d[key] = value\<close> on an insertion-ordered dictionary.\<close>

fun dict_put :: "'k \<Rightarrow> 'v \<Rightarrow> ('k \<times> 'v) list \<Rightarrow> ('k \<times> 'v) list" where
  "dict_put k v [] = [(k, v)]"
| "dict_put k v ((a, b) # xs) = (if a = k then (a, v) # xs else (a, b) # dict_put k v xs)"

lemma map_of_dict_put: "map_of (dict_put k v xs) a = (if a = k then Some v else map_of xs a)"
  by (induction k v xs rule: dict_put.induct) auto

lemma fst_set_dict_put: "fst ` set (dict_put k v xs) = insert k (fst ` set xs)"
  by (induction k v xs rule: dict_put.induct) auto

lemma distinct_dict_put: "distinct (map fst xs) \<Longrightarrow> distinct (map fst (dict_put k v xs))"
proof (induction k v xs rule: dict_put.induct)
  case (2 k v a b xs)
  have "a \<notin> fst ` set (dict_put k v xs)" if "a \<noteq> k"
    using 2(2) that by (simp add: fst_set_dict_put)
  with 2 show ?case by auto
qed simp

text \<open>The key an \<open>INTEGER PRIMARY KEY\<close> column gives to a new row: one more than the largest in use.\<close>

definition next_rowid :: "int list \<Rightarrow> int" where
  "next_rowid ids = foldr max ids 0 + 1"

lemma next_rowid_fresh: "i \<in> set ids \<Longrightarrow> i < next_rowid ids"
proof -
  have "i \<in> set ids \<Longrightarrow> i \<le> foldr max ids 0" by (induction ids) auto
  then show "i \<in> set ids \<Longrightarrow> i < next_rowid ids" by (simp add: next_rowid_def)
qed

lemma next_rowid_not_in [simp]: "next_rowid ids \<notin> set ids"
  using next_rowid_fresh by blast

lemma length_filter_map_le:
  "(\<And>x. x \<in> set xs \<Longrightarrow> P (f x) \<Longrightarrow> P x) \<Longrightarrow> length (filter P (map f xs)) \<le> length (filter P xs)"
  by (induction xs) (auto simp: le_SucI)

section \<open>Things that end\<close>

text \<open>
  The contract of everything that can be closed for good (a login session, a recipient's session, a shared package, a queued
  request): a step of the program never reopens what is closed, and what is closed is not usable at any time.
\<close>

locale closable =
  fixes step :: "'s \<Rightarrow> 's \<Rightarrow> bool" and closed :: "'s \<Rightarrow> 'k \<Rightarrow> bool" and usable :: "'s \<Rightarrow> time \<Rightarrow> 'k \<Rightarrow> bool"
  assumes closed_step: "step s s' \<Longrightarrow> closed s k \<Longrightarrow> closed s' k"
    and closed_unusable: "closed s k \<Longrightarrow> \<not> usable s t k"
begin

lemma closed_steps: "step\<^sup>*\<^sup>* s s' \<Longrightarrow> closed s k \<Longrightarrow> closed s' k"
  by (induction rule: rtranclp_induct) (auto dest: closed_step)

lemma closed_for_good: "step\<^sup>*\<^sup>* s s' \<Longrightarrow> closed s k \<Longrightarrow> \<not> usable s' t k"
  using closed_steps closed_unusable by blast

end

end
