(* ===== verification/HA_Model.thy ===== *)
theory HA_Model
  imports Kaya_Base
begin

text \<open>
  The database rows of the High Availability module (\<open>app/models/models.py\<close>): the cluster, its two
  Pi-hole nodes, the agent credential, the lease replication state and its snapshots, the failover
  and maintenance runs, the synchronisation runs and the event log. A nullable column is an
  \<open>option\<close>; a relationship of the cluster is a list (or an \<open>option\<close> where \<open>uselist=False\<close>) kept
  inside the cluster record, so that one \<open>ha_cluster\<close> value is the whole state an operation of the
  module reads and writes. A node is referred to by its primary key, as the foreign keys do.

  Columns that no operation of the module's decision logic reads or writes (audit timestamps,
  API base URLs, backup references) are left out. A JSON column is
  kept parsed, as the typed record of the keys the module writes into it.
\<close>

section \<open>Nodes\<close>

record ha_agent_credential =
  registered_at :: "time option"
  revoked_at :: "time option"

record ha_node =
  node_id :: int
  node_public_id :: string
  display_name :: string
  management_host :: "string option"
  role :: string
  desired_role :: string
  network_interface :: "string option"
  vrrp_priority :: "int option"
  agent_version :: "string option"
  last_heartbeat_at :: "time option"
  observed_role :: "string option"
  observed_generation :: int
  vip_owned :: bool
  vip_stable_since :: "time option"
  dhcp_running :: bool
  dhcp_configured :: "bool option"
  dhcp_listener_active :: "bool option"
  ftl_active :: "bool option"
  dhcp_runtime_state :: string
  dhcp_observation_status :: string
  dhcp_observed_at :: "time option"
  last_report_sequence :: int
  last_agent_reported_at :: "time option"
  dns_healthy :: "bool option"
  peer_reachable :: "bool option"
  peer_icmp_probe_status :: "string option"
  peer_dns_reachable :: "bool option"
  resolver_manager :: "string option"
  resolver_nameservers :: "string list"
  resolver_observation_status :: "string option"
  resolver_repair_generation :: int
  resolver_repair_status :: "string option"
  resolver_repair_last_error :: "string option"
  last_peer_attempt_at :: "time option"
  last_peer_success_at :: "time option"
  last_peer_dns_attempt_at :: "time option"
  last_peer_dns_success_at :: "time option"
  lease_generation :: int
  config_generation :: int
  recovery_state :: string
  recovery_started_at :: "time option"
  recovery_stable_since :: "time option"
  node_keepalived_status :: string
  keepalived_config_checksum :: "string option"
  keepalived_last_error :: "string option"
  keepalived_runtime_state :: string
  advertised_dns :: "string list option"
  agent_credential :: "ha_agent_credential option"

section \<open>Leases\<close>

record ha_lease_replication_state =
  lr_source_node_id :: "int option"
  lr_target_node_id :: "int option"
  lr_status :: string
  desired_generation :: int
  applied_generation :: int
  lr_lease_count :: int
  difference_count :: int
  conflict_count :: int
  last_event_at :: "time option"
  last_full_reconciliation_at :: "time option"
  last_applied_at :: "time option"
  lr_last_error :: "string option"

record ha_lease_snapshot =
  sn_source_node_id :: int
  sn_target_node_id :: int
  sn_generation :: int
  sn_checksum :: string
  sn_encrypted_payload :: string
  sn_lease_count :: int
  sn_status :: string
  sn_staged_at :: "time option"

section \<open>Failover runs\<close>

text \<open>
  The phases and statuses of a controlled transition. The columns are text in the database, and
  \<open>ha_failover.py\<close> is the only module that writes them; \<open>phase_name\<close> gives the stored text back.
\<close>

datatype run_phase =
    WAITING_FOR_LEASES
  | DEMOTING_SOURCE
  | VERIFYING_SOURCE_DHCP_RELEASE
  | MOVING_VIP
  | PROMOTING_TARGET
  | VERIFYING_TARGET
  | COMPLETE
  | PHASE_FAILED_SAFE
  | ROLLBACK_DEMOTING_TARGET
  | VERIFYING_ROLLBACK_TARGET_RELEASE
  | ROLLBACK_MOVING_VIP
  | ROLLBACK_PROMOTING_SOURCE
  | ROLLBACK_VERIFYING_SOURCE
  | PHASE_ROLLED_BACK

datatype run_status = RUNNING | ROLLING_BACK | FAILED_SAFE | SUCCEEDED | ROLLED_BACK

fun phase_name :: "run_phase \<Rightarrow> string" where
  "phase_name WAITING_FOR_LEASES = ''WAITING_FOR_LEASES''"
| "phase_name DEMOTING_SOURCE = ''DEMOTING_SOURCE''"
| "phase_name VERIFYING_SOURCE_DHCP_RELEASE = ''VERIFYING_SOURCE_DHCP_RELEASE''"
| "phase_name MOVING_VIP = ''MOVING_VIP''"
| "phase_name PROMOTING_TARGET = ''PROMOTING_TARGET''"
| "phase_name VERIFYING_TARGET = ''VERIFYING_TARGET''"
| "phase_name COMPLETE = ''COMPLETE''"
| "phase_name PHASE_FAILED_SAFE = ''FAILED_SAFE''"
| "phase_name ROLLBACK_DEMOTING_TARGET = ''ROLLBACK_DEMOTING_TARGET''"
| "phase_name VERIFYING_ROLLBACK_TARGET_RELEASE = ''VERIFYING_ROLLBACK_TARGET_RELEASE''"
| "phase_name ROLLBACK_MOVING_VIP = ''ROLLBACK_MOVING_VIP''"
| "phase_name ROLLBACK_PROMOTING_SOURCE = ''ROLLBACK_PROMOTING_SOURCE''"
| "phase_name ROLLBACK_VERIFYING_SOURCE = ''ROLLBACK_VERIFYING_SOURCE''"
| "phase_name PHASE_ROLLED_BACK = ''ROLLED_BACK''"

text \<open>What a published notification leaves behind: its event type, its status and the outbox row.\<close>

record notification_diagnostic =
  nd_event_type :: string
  nd_status :: string
  nd_outbox_id :: "int option"

text \<open>The parsed \<open>report_json\<close> column of a run.\<close>

record run_report =
  rep_transition_kind :: "string option"
  rep_starting_vip_owner :: "string option"
  rep_target :: "string option"
  rep_preferred_node :: "string option"
  rep_automatic :: bool
  rep_verification_started_at :: "time option"
  rep_vip_move_started_at :: "time option"
  rep_warnings :: "string list"
  rep_verification_attempts :: "(string \<times> int) list"
  rep_dhcp_self_heal_attempts :: int
  rep_rollback_dhcp_self_heal_attempts :: int
  rep_dhcp_release_repair_attempts :: int
  rep_rollback_dhcp_release_repair_attempts :: int
  rep_notifications :: "(string \<times> notification_diagnostic) list"

definition empty_report :: run_report where
  "empty_report = \<lparr>rep_transition_kind = None, rep_starting_vip_owner = None, rep_target = None,
     rep_preferred_node = None, rep_automatic = False, rep_verification_started_at = None,
     rep_vip_move_started_at = None, rep_warnings = [], rep_verification_attempts = [],
     rep_dhcp_self_heal_attempts = 0, rep_rollback_dhcp_self_heal_attempts = 0,
     rep_dhcp_release_repair_attempts = 0, rep_rollback_dhcp_release_repair_attempts = 0,
     rep_notifications = []\<rparr>"

record ha_failover_run =
  run_id :: int
  run_public_id :: string
  run_source_node_id :: int
  run_target_node_id :: int
  run_preferred_node_id :: "int option"
  run_status :: run_status
  run_phase :: run_phase
  dhcp_managed :: bool
  run_lease_generation :: int
  run_role_generation :: int
  error_redacted :: "string option"
  report :: run_report
  requested_by_user_id :: "int option"
  started_at :: time
  completed_at :: "time option"
  created_at :: time

section \<open>Synchronisation runs\<close>

text \<open>
  A synchronisation run with the parts of its parsed \<open>plan_json\<close> that the recovery logic reads: the
  generation the plan is bound to (\<open>None\<close> is a missing key, \<open>Some None\<close> a value that is not an
  integer) and, for every element of its \<open>groups\<close> list, whether it is a group marked writable
  (\<open>plan_groups = None\<close> stands for a plan without such a list).
\<close>

record ha_sync_run =
  sync_id :: int
  sync_public_id :: string
  sync_source_node_id :: int
  sync_target_node_id :: int
  sync_status :: string
  verified_sync_generation :: "int option option"
  required_sync_generation :: "int option option"
  plan_groups :: "bool list option"
  sync_started_at :: "time option"
  sync_completed_at :: "time option"
  sync_created_at :: time

section \<open>Maintenance runs\<close>

datatype dhcp_action = DHCP_DEMOTE | DHCP_PROMOTE

fun action_name :: "dhcp_action \<Rightarrow> string" where
  "action_name DHCP_DEMOTE = ''DHCP_DEMOTE''"
| "action_name DHCP_PROMOTE = ''DHCP_PROMOTE''"

text \<open>
  Operation, status and phase of a repair of the cluster; \<open>ha_maintenance.py\<close> is the only module that writes these columns.
\<close>

datatype maintenance_operation = RECONCILE | REINITIALISE | DHCP_SELF_HEAL

datatype maintenance_state = M_RUNNING | M_PAUSED | M_SUCCEEDED | M_FAILED_SAFE | M_CANCELLED

datatype maintenance_phase =
    WAITING_FOR_REPORTS
  | BACKING_UP
  | SYNCHRONISING
  | STAGING_DHCP
  | WAITING_FOR_DHCP_STAGE
  | NORMALISING_STANDBY
  | DEMOTING_STANDBY
  | VERIFYING_DHCP_RELEASE
  | REBUILDING_HA
  | WAITING_FOR_VIP
  | PROMOTING_ACTIVE
  | VERIFYING_DHCP_ACTIVATION
  | VERIFYING
  | REPAIRING_DHCP
  | VERIFYING_DHCP_REPAIR
  | RECONCILING
  | MAINTENANCE_COMPLETE
  | MAINTENANCE_PAUSED

fun maintenance_phase_name :: "maintenance_phase \<Rightarrow> string" where
  "maintenance_phase_name WAITING_FOR_REPORTS = ''WAITING_FOR_REPORTS''"
| "maintenance_phase_name BACKING_UP = ''BACKING_UP''"
| "maintenance_phase_name SYNCHRONISING = ''SYNCHRONISING''"
| "maintenance_phase_name STAGING_DHCP = ''STAGING_DHCP''"
| "maintenance_phase_name WAITING_FOR_DHCP_STAGE = ''WAITING_FOR_DHCP_STAGE''"
| "maintenance_phase_name NORMALISING_STANDBY = ''NORMALISING_STANDBY''"
| "maintenance_phase_name DEMOTING_STANDBY = ''DEMOTING_STANDBY''"
| "maintenance_phase_name VERIFYING_DHCP_RELEASE = ''VERIFYING_DHCP_RELEASE''"
| "maintenance_phase_name REBUILDING_HA = ''REBUILDING_HA''"
| "maintenance_phase_name WAITING_FOR_VIP = ''WAITING_FOR_VIP''"
| "maintenance_phase_name PROMOTING_ACTIVE = ''PROMOTING_ACTIVE''"
| "maintenance_phase_name VERIFYING_DHCP_ACTIVATION = ''VERIFYING_DHCP_ACTIVATION''"
| "maintenance_phase_name VERIFYING = ''VERIFYING''"
| "maintenance_phase_name REPAIRING_DHCP = ''REPAIRING_DHCP''"
| "maintenance_phase_name VERIFYING_DHCP_REPAIR = ''VERIFYING_DHCP_REPAIR''"
| "maintenance_phase_name RECONCILING = ''RECONCILING''"
| "maintenance_phase_name MAINTENANCE_COMPLETE = ''COMPLETE''"
| "maintenance_phase_name MAINTENANCE_PAUSED = ''PAUSED''"

text \<open>The parsed \<open>previous_state_json\<close> column: the settings a repair suspends, and the stored state it found.\<close>

record state_snapshot =
  ps_automatic_failover :: bool
  ps_automatic_sync :: bool
  ps_allow_deletions :: bool
  ps_authoritative_node_id :: "int option"
  ps_current_active_node_id :: "int option"
  ps_status :: string

record action_outcome =
  ao_action_type :: dhcp_action
  ao_node_id :: string
  ao_status :: string
  ao_message :: string
  ao_received_at :: time

text \<open>
  The parsed \<open>result_json\<close> column, with the keys that the module reads again. A write of a new document drops all of them;
  keys that are only shown on a page (the inspection, classifications) are left out.
\<close>

record maintenance_result =
  mr_repair_node_id :: "int option"
  mr_action_type :: "dhcp_action option"
  mr_hard_failure_proven :: bool
  mr_drift_signature :: "string option"
  mr_topology_fingerprint :: "string option"
  mr_latch_active :: bool
  mr_progress :: "string list"
  mr_phase_attempts :: "(maintenance_phase \<times> int) list"
  mr_action_result :: "action_outcome option"
  mr_resumed_for :: "time option"

definition empty_maintenance_result :: maintenance_result where
  "empty_maintenance_result = \<lparr>mr_repair_node_id = None, mr_action_type = None, mr_hard_failure_proven = False,
     mr_drift_signature = None, mr_topology_fingerprint = None, mr_latch_active = False, mr_progress = [],
     mr_phase_attempts = [], mr_action_result = None, mr_resumed_for = None\<rparr>"

record ha_maintenance_run =
  mt_id :: int
  mt_public_id :: string
  mt_operation :: maintenance_operation
  mt_status :: maintenance_state
  mt_phase :: maintenance_phase
  mt_desired_active_node_id :: "int option"
  mt_authoritative_node_id :: "int option"
  mt_sync_run_id :: "int option"
  mt_previous :: state_snapshot
  mt_result :: maintenance_result
  mt_error :: "string option"
  mt_requested_by :: "int option"
  mt_phase_started_at :: time
  mt_started_at :: time
  mt_completed_at :: "time option"
  mt_created_at :: time

section \<open>Events and notifications\<close>

record ha_event =
  ev_node_id :: "int option"
  ev_event_type :: string
  ev_severity :: string
  ev_message :: string
  ev_phase :: "string option"
  ev_role_generation :: "int option"
  ev_occurred_at :: time

record ha_notification =
  nt_event_type_id :: string
  nt_title :: string
  nt_message :: string
  nt_deduplication_key :: string
  nt_source_entity_type :: string
  nt_source_entity_id :: string
  nt_created_by_user_id :: "int option"

section \<open>The environment of an operation\<close>

text \<open>
  What an operation of the module takes from outside: one reading of the clock, the digest function
  of \<open>hashlib\<close>, and the outcome of handing a notification to the outbox (\<open>None\<close> is the persistence
  failure that the publishing helper catches).
\<close>

record ha_env =
  env_now :: time
  env_sha256 :: "string \<Rightarrow> string"
  env_enqueue :: "ha_notification \<Rightarrow> int option"

section \<open>Clusters\<close>

record ha_cluster =
  cluster_id :: int
  cluster_public_id :: string
  cluster_name :: string
  provider_key :: string
  deployment_mode_column :: "string option"
  cluster_status :: string
  virtual_ip :: "string option"
  prefix_length :: "int option"
  vrrp_router_id :: "int option"
  authoritative_node_id :: "int option"
  current_active_node_id :: "int option"
  preferred_node_id :: "int option"
  automatic_failover_enabled :: bool
  automatic_failback_enabled :: bool
  automatic_sync_enabled :: bool
  automatic_sync_allow_deletions :: bool
  maintenance_mode :: bool
  cluster_generation :: int
  role_generation :: int
  desired_sync_generation :: int
  keepalived_generation :: int
  keepalived_status :: string
  keepalived_requested_at :: "time option"
  last_failover_at :: "time option"
  nodes :: "ha_node list"
  sync_runs :: "ha_sync_run list"
  lease_replication :: "ha_lease_replication_state option"
  lease_snapshots :: "ha_lease_snapshot list"
  failover_runs :: "ha_failover_run list"
  maintenance_runs :: "ha_maintenance_run list"
  events :: "ha_event list"
  notifications :: "ha_notification list"

text \<open>Following a foreign key into the cluster's node list.\<close>

definition node_by_id :: "ha_cluster \<Rightarrow> int \<Rightarrow> ha_node option" where
  "node_by_id c i = find (\<lambda>n. node_id n = i) (nodes c)"

text \<open>Writing to one row: the update of the node or run with the given primary key.\<close>

definition update_node :: "int \<Rightarrow> (ha_node \<Rightarrow> ha_node) \<Rightarrow> ha_cluster \<Rightarrow> ha_cluster" where
  "update_node i f c = c\<lparr>nodes := map (\<lambda>n. if node_id n = i then f n else n) (nodes c)\<rparr>"

definition update_all_nodes :: "(ha_node \<Rightarrow> ha_node) \<Rightarrow> ha_cluster \<Rightarrow> ha_cluster" where
  "update_all_nodes f c = c\<lparr>nodes := map f (nodes c)\<rparr>"

definition store_run :: "ha_failover_run \<Rightarrow> ha_cluster \<Rightarrow> ha_cluster" where
  "store_run r c = c\<lparr>failover_runs := map (\<lambda>x. if run_id x = run_id r then r else x) (failover_runs c)\<rparr>"

definition add_event :: "ha_event \<Rightarrow> ha_cluster \<Rightarrow> ha_cluster" where
  "add_event e c = c\<lparr>events := events c @ [e]\<rparr>"

section \<open>Well-formed clusters\<close>

text \<open>
  What the primary and foreign keys of the schema promise: node and run ids are unique, and the
  two participants of a run are different nodes of the cluster.
\<close>

definition run_wf :: "ha_cluster \<Rightarrow> ha_failover_run \<Rightarrow> bool" where
  "run_wf c r \<longleftrightarrow>
     run_source_node_id r \<in> node_id ` set (nodes c) \<and>
     run_target_node_id r \<in> node_id ` set (nodes c) \<and>
     run_source_node_id r \<noteq> run_target_node_id r"

definition cluster_wf :: "ha_cluster \<Rightarrow> bool" where
  "cluster_wf c \<longleftrightarrow>
     distinct (map node_id (nodes c)) \<and>
     distinct (map run_id (failover_runs c)) \<and>
     (\<forall>r \<in> set (failover_runs c). run_wf c r)"

lemma distinct_map_unique:
  "distinct (map f xs) \<Longrightarrow> x \<in> set xs \<Longrightarrow> y \<in> set xs \<Longrightarrow> f x = f y \<Longrightarrow> x = y"
  by (auto simp: distinct_map inj_on_def)

lemma node_by_id_SomeD: "node_by_id c i = Some n \<Longrightarrow> n \<in> set (nodes c) \<and> node_id n = i"
  by (auto simp: node_by_id_def dest: find_SomeD)

lemma node_by_id_node_id: "node_by_id c i = Some n \<Longrightarrow> node_id n = i"
  by (simp add: node_by_id_SomeD)

lemma node_by_id_mem:
  "cluster_wf c \<Longrightarrow> n \<in> set (nodes c) \<Longrightarrow> node_by_id c (node_id n) = Some n"
proof -
  assume wf: "cluster_wf c" and n: "n \<in> set (nodes c)"
  then obtain m where m: "find (\<lambda>x. node_id x = node_id n) (nodes c) = Some m"
    by (metis (mono_tags, lifting) find_None_conv not_None_eq)
  then have "m \<in> set (nodes c)" "node_id m = node_id n"
    by (auto dest: find_SomeD)
  with wf n have "m = n"
    by (auto simp: cluster_wf_def intro: distinct_map_unique)
  with m show ?thesis by (simp add: node_by_id_def)
qed

lemma node_by_id_exists:
  "i \<in> node_id ` set (nodes c) \<Longrightarrow> \<exists>n. node_by_id c i = Some n"
  by (cases "node_by_id c i") (auto simp: node_by_id_def find_None_conv)

lemma run_wf_nodes:
  assumes "run_wf c r"
  obtains s t where "node_by_id c (run_source_node_id r) = Some s"
    and "node_by_id c (run_target_node_id r) = Some t" and "node_id s \<noteq> node_id t"
proof -
  from assms obtain s t where st: "node_by_id c (run_source_node_id r) = Some s"
      "node_by_id c (run_target_node_id r) = Some t"
    by (auto simp: run_wf_def dest!: node_by_id_exists)
  with assms have "node_id s \<noteq> node_id t"
    using node_by_id_SomeD [OF st(1)] node_by_id_SomeD [OF st(2)] by (simp add: run_wf_def)
  with st show ?thesis by (rule that)
qed

lemma nodes_update_node [simp]:
  "nodes (update_node i f c) = map (\<lambda>n. if node_id n = i then f n else n) (nodes c)"
  by (simp add: update_node_def)

lemma nodes_update_all_nodes [simp]: "nodes (update_all_nodes f c) = map f (nodes c)"
  by (simp add: update_all_nodes_def)

lemma nodes_store_run [simp]: "nodes (store_run r c) = nodes c"
  by (simp add: store_run_def)

lemma nodes_add_event [simp]: "nodes (add_event e c) = nodes c"
  by (simp add: add_event_def)

lemma failover_runs_add_event [simp]: "failover_runs (add_event e c) = failover_runs c"
  by (simp add: add_event_def)

lemma failover_runs_update [simp]:
  "failover_runs (update_node i f c) = failover_runs c"
  "failover_runs (update_all_nodes f c) = failover_runs c"
  by (simp_all add: update_node_def update_all_nodes_def)

lemma failover_runs_store_run [simp]:
  "failover_runs (store_run r c) = map (\<lambda>x. if run_id x = run_id r then r else x) (failover_runs c)"
  by (simp add: store_run_def)

lemma map_run_id_store [simp]:
  "map (run_id \<circ> (\<lambda>x. if run_id x = run_id r then r else x)) rs = map run_id rs"
  by (induction rs) auto

section \<open>A reference cluster\<close>

text \<open>
  A healthy two-node cluster that manages DHCP, as it stands after a completed deployment: node 1
  holds the virtual IP and serves DHCP, node 2 is a released standby with the current leases
  staged. The component theories evaluate their operations on it.
\<close>

definition standby_node :: "int \<Rightarrow> string \<Rightarrow> time \<Rightarrow> ha_node" where
  "standby_node i name hb =
     \<lparr>node_id = i, node_public_id = name, display_name = name, management_host = Some name,
      role = ''STANDBY'', desired_role = ''STANDBY'', network_interface = Some ''eth0'',
      vrrp_priority = Some 100, agent_version = Some ''0.2.13'', last_heartbeat_at = Some hb,
      observed_role = Some ''STANDBY'', observed_generation = 1, vip_owned = False,
      vip_stable_since = None, dhcp_running = False, dhcp_configured = Some False,
      dhcp_listener_active = Some False, ftl_active = Some True, dhcp_runtime_state = ''STOPPED'',
      dhcp_observation_status = ''FRESH'', dhcp_observed_at = Some hb, last_report_sequence = 1,
      last_agent_reported_at = Some hb, dns_healthy = Some True, peer_reachable = None,
      peer_icmp_probe_status = None, peer_dns_reachable = None, resolver_manager = None, resolver_nameservers = [],
      resolver_observation_status = None, resolver_repair_generation = 0, resolver_repair_status = None, resolver_repair_last_error = None,
      last_peer_attempt_at = None, last_peer_success_at = None,
      last_peer_dns_attempt_at = None, last_peer_dns_success_at = None, lease_generation = 1,
      config_generation = 1, recovery_state = ''STANDBY'', recovery_started_at = None,
      recovery_stable_since = None, node_keepalived_status = ''DEPLOYED'',
      keepalived_config_checksum = None, keepalived_last_error = None,
      keepalived_runtime_state = ''RUNNING'', advertised_dns = None,
      agent_credential = Some \<lparr>registered_at = Some 0, revoked_at = None\<rparr>\<rparr>"

definition serving_node :: "int \<Rightarrow> string \<Rightarrow> time \<Rightarrow> ha_node" where
  "serving_node i name hb = (standby_node i name hb)
     \<lparr>role := ''ACTIVE'', desired_role := ''ACTIVE'', vrrp_priority := Some 150,
      observed_role := Some ''ACTIVE'', vip_owned := True, dhcp_running := True,
      dhcp_configured := Some True, dhcp_listener_active := Some True,
      dhcp_runtime_state := ''RUNNING''\<rparr>"

definition reference_lease_state :: ha_lease_replication_state where
  "reference_lease_state =
     \<lparr>lr_source_node_id = Some 1, lr_target_node_id = Some 2, lr_status = ''CURRENT'',
      desired_generation = 1, applied_generation = 1, lr_lease_count = 0, difference_count = 0,
      conflict_count = 0, last_event_at = None, last_full_reconciliation_at = None,
      last_applied_at = None, lr_last_error = None\<rparr>"

definition reference_cluster :: "time \<Rightarrow> ha_cluster" where
  "reference_cluster hb =
     \<lparr>cluster_id = 1, cluster_public_id = ''c'', cluster_name = ''home'', provider_key = ''pihole'',
      deployment_mode_column = Some ''DNS_DHCP'', cluster_status = ''HEALTHY'',
      virtual_ip = Some ''10.0.0.53'', prefix_length = Some 24, vrrp_router_id = Some 53,
      authoritative_node_id = Some 1,
      current_active_node_id = Some 1, preferred_node_id = Some 1,
      automatic_failover_enabled = False, automatic_failback_enabled = False,
      automatic_sync_enabled = True, automatic_sync_allow_deletions = False,
      maintenance_mode = False, cluster_generation = 1, role_generation = 1,
      desired_sync_generation = 0, keepalived_generation = 1, keepalived_status = ''DEPLOYED'',
      keepalived_requested_at = None, last_failover_at = None,
      nodes = [serving_node 1 ''a'' hb, standby_node 2 ''b'' hb], sync_runs = [],
      lease_replication = Some reference_lease_state, lease_snapshots = [], failover_runs = [], maintenance_runs = [],
      events = [], notifications = []\<rparr>"

text \<open>A run on the reference cluster from node 1 to node 2, and an environment with a fixed clock.\<close>

definition reference_run :: "bool \<Rightarrow> run_status \<Rightarrow> run_phase \<Rightarrow> ha_failover_run" where
  "reference_run managed st ph =
     \<lparr>run_id = 1, run_public_id = ''r'', run_source_node_id = 1, run_target_node_id = 2,
      run_preferred_node_id = Some 1, run_status = st, run_phase = ph, dhcp_managed = managed,
      run_lease_generation = 1, run_role_generation = 1, error_redacted = None, report = empty_report,
      requested_by_user_id = None, started_at = 0, completed_at = None, created_at = 0\<rparr>"

definition reference_env :: "time \<Rightarrow> ha_env" where
  "reference_env now = \<lparr>env_now = now, env_sha256 = (\<lambda>s. s), env_enqueue = (\<lambda>n. Some 1)\<rparr>"

definition reference_runs :: "ha_node list \<Rightarrow> ha_failover_run list \<Rightarrow> ha_cluster" where
  "reference_runs ns rs = (reference_cluster 0)\<lparr>nodes := ns, failover_runs := rs\<rparr>"

text \<open>A node that holds the virtual IP and has released DHCP.\<close>

definition vip_holder :: "int \<Rightarrow> string \<Rightarrow> time \<Rightarrow> ha_node" where
  "vip_holder i name hb = (standby_node i name hb)\<lparr>vip_owned := True, observed_role := Some ''ACTIVE'',
     role := ''ACTIVE'', desired_role := ''ACTIVE''\<rparr>"

lemmas reference_defs = reference_cluster_def serving_node_def standby_node_def reference_lease_state_def

end
