(* ===== verification/HA_Topology.thy ===== *)
theory HA_Topology
  imports HA_Model
begin

text \<open>
  Reconciliation of the reported topology (\<open>app/services/ha_topology.py\<close>): which node reports are
  fresh, what each node's DHCP telemetry proves, who owns the virtual IP and DHCP, and whether the
  topology as a whole is safe. The clock reading \<open>now\<close> is an argument, as the source allows.

  The lemmas show what a caller may conclude from the derived verdicts: an observation is never
  both active and released, an unreadable or stale report proves nothing, and a safe topology has
  exactly one virtual-IP owner which, when the cluster manages DHCP, is also the only DHCP server.
\<close>

section \<open>Deployment mode\<close>

definition DNS_ONLY :: string where
  "DNS_ONLY = ''DNS_ONLY''"

definition DNS_DHCP :: string where
  "DNS_DHCP = ''DNS_DHCP''"

definition FRESH_SECONDS :: int where
  "FRESH_SECONDS = 45"

definition deployment_mode :: "ha_cluster \<Rightarrow> string" where
  "deployment_mode c =
     (case deployment_mode_column c of
        Some m \<Rightarrow> if m = DNS_ONLY \<or> m = DNS_DHCP then m else DNS_DHCP
      | None \<Rightarrow> DNS_DHCP)"

definition pihole_manages_dhcp :: "ha_cluster \<Rightarrow> bool" where
  "pihole_manages_dhcp c \<longleftrightarrow> deployment_mode c = DNS_DHCP"

definition requires_dhcp_validation :: "ha_cluster \<Rightarrow> bool" where
  "requires_dhcp_validation c \<longleftrightarrow> deployment_mode_column c \<noteq> Some DNS_ONLY"

definition lease_continuity_enabled :: "ha_cluster \<Rightarrow> bool" where
  "lease_continuity_enabled c \<longleftrightarrow> deployment_mode_column c \<noteq> Some DNS_ONLY"

definition peer_for :: "ha_cluster \<Rightarrow> ha_node \<Rightarrow> ha_node option" where
  "peer_for c n = find (\<lambda>m. node_id m \<noteq> node_id n) (nodes c)"

section \<open>Observations\<close>

definition heartbeat_is_fresh :: "ha_node \<Rightarrow> time \<Rightarrow> time option \<Rightarrow> int \<Rightarrow> bool" where
  "heartbeat_is_fresh n now since freshness \<longleftrightarrow>
     (case last_heartbeat_at n of
        None \<Rightarrow> False
      | Some hb \<Rightarrow> hb \<ge> now - seconds freshness \<and> (case since of None \<Rightarrow> True | Some s \<Rightarrow> hb \<ge> s))"

datatype observed_state = ACTIVE | RELEASED | INACTIVE | UNKNOWN

record dhcp_obs =
  obs_state :: observed_state
  obs_status :: string
  obs_at :: "time option"
  obs_configured :: "bool option"
  obs_service_active :: "bool option"
  obs_listening :: "bool option"

definition obs_active :: "dhcp_obs \<Rightarrow> bool" where
  "obs_active o1 \<longleftrightarrow> obs_state o1 = ACTIVE"

definition obs_released :: "dhcp_obs \<Rightarrow> bool" where
  "obs_released o1 \<longleftrightarrow> obs_state o1 = RELEASED"

text \<open>What the columns of a node say once its report counts as fresh.\<close>

definition reported_evidence :: "ha_node \<Rightarrow> time option \<Rightarrow> dhcp_obs" where
  "reported_evidence n observed =
     (let status = upper (text_or (dhcp_observation_status n) ''UNKNOWN'')
      in if status \<noteq> ''FRESH'' \<and>
            (dhcp_configured n = None \<or> dhcp_listener_active n = None \<or> ftl_active n = None)
         then \<lparr>obs_state = UNKNOWN, obs_status = status, obs_at = observed,
               obs_configured = None, obs_service_active = None, obs_listening = None\<rparr>
         else
           (let runtime0 = upper (text_or (dhcp_runtime_state n) ''UNKNOWN'');
                runtime = (if runtime0 = ''UNKNOWN'' \<and> status \<noteq> ''FRESH''
                           then (if dhcp_running n then ''RUNNING'' else ''STOPPED'') else runtime0);
                seen = (\<lambda>st lab. \<lparr>obs_state = st, obs_status = lab, obs_at = observed,
                         obs_configured = dhcp_configured n, obs_service_active = ftl_active n,
                         obs_listening = dhcp_listener_active n\<rparr>)
            in if dhcp_listener_active n = Some True \<and> ftl_active n = Some True \<and> runtime = ''RUNNING''
               then seen ACTIVE ''FRESH''
               else if dhcp_listener_active n = Some False \<and> runtime = ''STOPPED''
               then seen RELEASED ''FRESH''
               else if None \<in> {dhcp_configured n, dhcp_listener_active n, ftl_active n} \<or> runtime = ''UNKNOWN''
               then seen UNKNOWN status
               else seen INACTIVE ''FRESH''))"

definition dhcp_observation :: "ha_node \<Rightarrow> time \<Rightarrow> time option \<Rightarrow> int \<Rightarrow> dhcp_obs" where
  "dhcp_observation n now since freshness =
     (let observed = or_else (dhcp_observed_at n) (last_heartbeat_at n);
          stale = (case observed of
                     None \<Rightarrow> True
                   | Some t \<Rightarrow> t < now - seconds freshness \<or>
                              (case since of None \<Rightarrow> False | Some s \<Rightarrow> t < s))
      in if \<not> heartbeat_is_fresh n now since freshness \<or> stale
         then \<lparr>obs_state = UNKNOWN, obs_status = ''STALE'', obs_at = observed,
               obs_configured = None, obs_service_active = None, obs_listening = None\<rparr>
         else reported_evidence n observed)"

section \<open>Reconciliation\<close>

record topology_issue =
  issue_code :: string
  issue_title :: string
  issue_message :: string
  issue_severity :: string
  requires_service_movement :: bool

record reconciled_topology =
  topo_observed_at :: time
  fresh_node_ids :: "int list"
  vip_owner_ids :: "int list"
  dhcp_owner_ids :: "int list"
  dhcp_unknown_node_ids :: "int list"
  issues :: "topology_issue list"
  service_availability :: string
  redundancy_state :: string
  telemetry_state :: string
  configuration_state :: string
  topology_safe :: bool

definition topology_fresh :: "reconciled_topology \<Rightarrow> bool" where
  "topology_fresh t \<longleftrightarrow> length (fresh_node_ids t) = 2"

definition active_node_id :: "reconciled_topology \<Rightarrow> int option" where
  "active_node_id t = (case vip_owner_ids t of [i] \<Rightarrow> Some i | _ \<Rightarrow> None)"

definition mk_issue :: "string \<Rightarrow> string \<Rightarrow> string \<Rightarrow> string \<Rightarrow> bool \<Rightarrow> topology_issue" where
  "mk_issue code title message severity movement =
     \<lparr>issue_code = code, issue_title = title, issue_message = message,
      issue_severity = severity, requires_service_movement = movement\<rparr>"

definition fresh_nodes :: "ha_cluster \<Rightarrow> time \<Rightarrow> time option \<Rightarrow> int \<Rightarrow> ha_node list" where
  "fresh_nodes c now since freshness = filter (\<lambda>n. heartbeat_is_fresh n now since freshness) (nodes c)"

definition vip_owners :: "ha_cluster \<Rightarrow> time \<Rightarrow> time option \<Rightarrow> int \<Rightarrow> ha_node list" where
  "vip_owners c now since freshness = filter vip_owned (fresh_nodes c now since freshness)"

definition dhcp_owners :: "ha_cluster \<Rightarrow> time \<Rightarrow> time option \<Rightarrow> int \<Rightarrow> ha_node list" where
  "dhcp_owners c now since freshness =
     filter (\<lambda>n. obs_active (dhcp_observation n now since freshness)) (fresh_nodes c now since freshness)"

definition dhcp_unknown :: "ha_cluster \<Rightarrow> time \<Rightarrow> time option \<Rightarrow> int \<Rightarrow> ha_node list" where
  "dhcp_unknown c now since freshness =
     filter (\<lambda>n. obs_state (dhcp_observation n now since freshness) = UNKNOWN) (fresh_nodes c now since freshness)"

text \<open>The one virtual-IP owner, where exactly one fresh node reports it.\<close>

definition sole_owner :: "ha_cluster \<Rightarrow> time \<Rightarrow> time option \<Rightarrow> int \<Rightarrow> ha_node option" where
  "sole_owner c now since freshness =
     (case vip_owners c now since freshness of [n] \<Rightarrow> Some n | _ \<Rightarrow> None)"

text \<open>
  The list of issues, in the order the source appends them: node count and staleness, virtual-IP
  ownership, DHCP ownership, ownership mismatch, and the configuration drift of the owner and of
  the other fresh nodes.
\<close>

definition ownership_issues :: "ha_cluster \<Rightarrow> time \<Rightarrow> time option \<Rightarrow> int \<Rightarrow> topology_issue list" where
  "ownership_issues c now since freshness =
     (let fresh = fresh_nodes c now since freshness;
          owners = vip_owners c now since freshness;
          dhcp = dhcp_owners c now since freshness;
          unknown = dhcp_unknown c now since freshness;
          managed = pihole_manages_dhcp c
      in (if length (nodes c) \<noteq> 2
          then [mk_issue ''NODE_COUNT'' ''Cluster node configuration is incomplete''
                  ''A Pi-hole HA cluster requires exactly two existing nodes.'' ''critical'' False]
          else []) @
         (if length fresh \<noteq> length (nodes c)
          then [mk_issue ''STALE_AGENT_STATE'' ''Fresh node inspection is incomplete''
                  (''Waiting for a new signed HA Agent report from '' @
                   text_or (join '', '' (map display_name (filter (\<lambda>n. n \<notin> set fresh) (nodes c)))) ''both nodes'' @ ''.'')
                  ''warning'' False]
          else []) @
         (if length owners > 1
          then [mk_issue ''DUPLICATE_VIP'' ''Virtual IP ownership conflict detected''
                  ''More than one node reports ownership of the DNS Virtual IP.'' ''critical'' True]
          else if fresh \<noteq> [] \<and> owners = []
          then [mk_issue ''NO_VIP_OWNER'' ''No Virtual IP owner reported''
                  ''No current signed node report confirms ownership of the DNS Virtual IP.'' ''critical'' True]
          else []) @
         (if managed \<and> length dhcp > 1
          then [mk_issue ''MULTIPLE_DHCP'' ''Multiple DHCP servers detected''
                  ''More than one node has fresh configuration, FTL and UDP/67 evidence for DHCP. Kaya will not start another DHCP service.'' ''critical'' True]
          else if managed \<and> dhcp = []
          then (if unknown \<noteq> []
                then [mk_issue ''DHCP_TELEMETRY_UNKNOWN'' ''DHCP state needs a fresh observation''
                        (''Kaya could not inspect DHCP completely on '' @ join '', '' (map display_name unknown) @
                         ''. The service is not being reported as stopped.'') ''warning'' False]
                else if fresh \<noteq> []
                then [mk_issue ''NO_DHCP_OWNER'' ''No DHCP service owner reported''
                        ''Both nodes have fresh observations, but neither has DHCP configured and listening on UDP port 67.'' ''critical'' True]
                else [])
          else []) @
         (case (owners, dhcp) of
            ([v], [d]) \<Rightarrow>
              if managed \<and> node_id v \<noteq> node_id d
              then [mk_issue ''OWNERSHIP_MISMATCH'' ''Cluster ownership mismatch''
                      ''The DNS Virtual IP and DHCP service are currently owned by different nodes.'' ''critical'' True]
              else []
          | _ \<Rightarrow> []))"

definition drift_issues :: "ha_cluster \<Rightarrow> time \<Rightarrow> time option \<Rightarrow> int \<Rightarrow> topology_issue list" where
  "drift_issues c now since freshness =
     (case sole_owner c now since freshness of
        None \<Rightarrow> []
      | Some owner \<Rightarrow>
          if \<not> pihole_manages_dhcp c then []
          else
            (let obs = dhcp_observation owner now since freshness
             in if obs_configured obs = Some False
                then [mk_issue ''ACTIVE_DHCP_CONFIGURATION_DISABLED'' ''Active DHCP configuration drift detected''
                        (display_name owner @ '' exclusively owns the Virtual IP but Pi-hole DHCP configuration is disabled.'')
                        (if obs_active obs then ''warning'' else ''critical'') False]
                else if obs_configured obs = Some True \<and> \<not> obs_active obs
                then [mk_issue ''ACTIVE_DHCP_ACTIVATION_INCOMPLETE'' ''Active DHCP service has not converged''
                        (display_name owner @ '' has DHCP enabled but is not listening on UDP port 67.'') ''critical'' False]
                else []) @
            map (\<lambda>standby. mk_issue ''STANDBY_DHCP_CONFIGURATION_ENABLED'' ''Standby DHCP configuration drift detected''
                   (display_name standby @ '' is not serving DHCP, but its Pi-hole DHCP configuration remains enabled.'')
                   ''warning'' False)
              (filter (\<lambda>standby. node_id standby \<noteq> node_id owner \<and>
                         obs_configured (dhcp_observation standby now since freshness) = Some True \<and>
                         obs_released (dhcp_observation standby now since freshness))
                 (fresh_nodes c now since freshness)))"

definition service_ok :: "ha_cluster \<Rightarrow> time \<Rightarrow> time option \<Rightarrow> int \<Rightarrow> bool" where
  "service_ok c now since freshness \<longleftrightarrow>
     (case sole_owner c now since freshness of
        None \<Rightarrow> False
      | Some owner \<Rightarrow>
          dns_healthy owner = Some True \<and>
          (\<not> pihole_manages_dhcp c \<or>
           (case dhcp_owners c now since freshness of [d] \<Rightarrow> node_id d = node_id owner | _ \<Rightarrow> False)))"

definition configuration_consistent :: "ha_cluster \<Rightarrow> time \<Rightarrow> time option \<Rightarrow> int \<Rightarrow> bool" where
  "configuration_consistent c now since freshness \<longleftrightarrow>
     \<not> pihole_manages_dhcp c \<or>
     (case sole_owner c now since freshness of
        None \<Rightarrow> False
      | Some owner \<Rightarrow>
          obs_configured (dhcp_observation owner now since freshness) = Some True \<and>
          list_all (\<lambda>n. node_id n \<noteq> node_id owner \<longrightarrow>
                        obs_configured (dhcp_observation n now since freshness) = Some False)
            (fresh_nodes c now since freshness))"

definition safe_verdict :: "ha_cluster \<Rightarrow> time \<Rightarrow> time option \<Rightarrow> int \<Rightarrow> bool" where
  "safe_verdict c now since freshness \<longleftrightarrow>
     service_ok c now since freshness \<and>
     length (vip_owners c now since freshness) = 1 \<and>
     (\<not> pihole_manages_dhcp c \<or>
      (length (dhcp_owners c now since freshness) = 1 \<and>
       dhcp_unknown c now since freshness = [] \<and>
       (case sole_owner c now since freshness of
          None \<Rightarrow> False
        | Some owner \<Rightarrow>
            list_all (\<lambda>n. if node_id n = node_id owner
                          then obs_active (dhcp_observation n now since freshness)
                          else obs_released (dhcp_observation n now since freshness))
              (fresh_nodes c now since freshness)))) \<and>
     configuration_consistent c now since freshness"

definition reconcile_topology :: "ha_cluster \<Rightarrow> time \<Rightarrow> time option \<Rightarrow> int \<Rightarrow> reconciled_topology" where
  "reconcile_topology c now since freshness =
     (let fresh = fresh_nodes c now since freshness;
          managed = pihole_manages_dhcp c;
          safe = safe_verdict c now since freshness
      in \<lparr>topo_observed_at = now,
          fresh_node_ids = map node_id fresh,
          vip_owner_ids = map node_id (vip_owners c now since freshness),
          dhcp_owner_ids = map node_id (dhcp_owners c now since freshness),
          dhcp_unknown_node_ids = map node_id (dhcp_unknown c now since freshness),
          issues = ownership_issues c now since freshness @ drift_issues c now since freshness,
          service_availability = (if service_ok c now since freshness then ''HEALTHY'' else ''DEGRADED''),
          redundancy_state = (if length fresh = length (nodes c) \<and> safe then ''HEALTHY'' else ''REDUCED''),
          telemetry_state =
            (if length fresh = length (nodes c) \<and> (\<not> managed \<or> dhcp_unknown c now since freshness = [])
             then ''CURRENT'' else ''DEGRADED''),
          configuration_state =
            (if configuration_consistent c now since freshness then ''CONSISTENT'' else ''INCONSISTENT''),
          topology_safe = safe\<rparr>)"

definition advertised_dns_addresses :: "ha_cluster \<Rightarrow> ha_node \<Rightarrow> (string \<times> string) option" where
  "advertised_dns_addresses c n =
     (if \<not> pihole_manages_dhcp c then None
      else
        (case virtual_ip c of
           None \<Rightarrow> None
         | Some vip \<Rightarrow>
             if vip = [] then None
             else
               (case peer_for c n of
                  None \<Rightarrow> None
                | Some peer \<Rightarrow>
                    (case management_host peer of
                       None \<Rightarrow> None
                     | Some host \<Rightarrow> if host = [] then None else Some (vip, host)))))"

section \<open>What an observation proves\<close>

text \<open>
  The evidence two observations can give about a node: it serves DHCP, or it has provably released
  it. Every client of this component relies on the two being exclusive; nothing more is assumed,
  so a node may well prove neither.
\<close>

locale dhcp_evidence =
  fixes serves :: "ha_node \<Rightarrow> bool" and released :: "ha_node \<Rightarrow> bool"
  assumes exclusive: "serves n \<Longrightarrow> \<not> released n"
begin

lemma servers_of_assignment:
  assumes "list_all (\<lambda>n. if node_id n = i then serves n else released n) ns"
  shows "filter serves ns = filter (\<lambda>n. node_id n = i) ns"
  using assms exclusive by (induction ns) (auto split: if_splits)

lemma no_server_among_released:
  assumes "list_all released ns"
  shows "filter serves ns = []"
  using assms exclusive by (induction ns) auto

end

lemmas observation_defs = dhcp_observation_def reported_evidence_def obs_active_def obs_released_def Let_def

lemma observation_active_released_exclusive:
  "obs_active o1 \<Longrightarrow> \<not> obs_released o1"
  by (simp add: obs_active_def obs_released_def)

interpretation evidence: dhcp_evidence
  "\<lambda>n. obs_active (dhcp_observation n now since freshness)"
  "\<lambda>n. obs_released (dhcp_observation n now since freshness)" for now since freshness
  by unfold_locales (rule observation_active_released_exclusive)

lemma observation_activeD:
  assumes "obs_active (dhcp_observation n now since freshness)"
  shows "heartbeat_is_fresh n now since freshness"
    and "dhcp_listener_active n = Some True" and "ftl_active n = Some True"
  using assms by (auto simp: observation_defs split: if_splits)

lemma observation_releasedD:
  assumes "obs_released (dhcp_observation n now since freshness)"
  shows "heartbeat_is_fresh n now since freshness"
    and "dhcp_listener_active n = Some False"
  using assms by (auto simp: observation_defs split: if_splits)

lemma observation_configured:
  "obs_configured (dhcp_observation n now since freshness) = Some b \<Longrightarrow> dhcp_configured n = Some b"
  by (auto simp: observation_defs split: if_splits)

lemma heartbeat_is_fresh_mono:
  "heartbeat_is_fresh n now since f \<Longrightarrow> f \<le> f' \<Longrightarrow> heartbeat_is_fresh n now since f'"
  by (auto simp: heartbeat_is_fresh_def seconds_def split: option.splits)

section \<open>What a reconciled topology proves\<close>

lemma sole_owner_SomeD:
  assumes "sole_owner c now since f = Some n"
  shows "vip_owners c now since f = [n]" and "n \<in> set (nodes c)" and "vip_owned n"
    and "heartbeat_is_fresh n now since f"
proof -
  show eq: "vip_owners c now since f = [n]"
    using assms by (auto simp: sole_owner_def split: list.splits)
  then have "n \<in> set (filter vip_owned (fresh_nodes c now since f))"
    by (simp add: vip_owners_def)
  then show "n \<in> set (nodes c)" and "vip_owned n" and "heartbeat_is_fresh n now since f"
    by (auto simp: fresh_nodes_def)
qed

lemma sole_owner_iff: "sole_owner c now since f = Some n \<longleftrightarrow> vip_owners c now since f = [n]"
  by (auto simp: sole_owner_def split: list.splits)

lemma reconcile_topology_simps [simp]:
  "fresh_node_ids (reconcile_topology c now since f) = map node_id (fresh_nodes c now since f)"
  "vip_owner_ids (reconcile_topology c now since f) = map node_id (vip_owners c now since f)"
  "dhcp_owner_ids (reconcile_topology c now since f) = map node_id (dhcp_owners c now since f)"
  "dhcp_unknown_node_ids (reconcile_topology c now since f) = map node_id (dhcp_unknown c now since f)"
  "topology_safe (reconcile_topology c now since f) = safe_verdict c now since f"
  "issues (reconcile_topology c now since f) = ownership_issues c now since f @ drift_issues c now since f"
  by (simp_all add: reconcile_topology_def Let_def)

lemma safe_verdict_owner:
  assumes "safe_verdict c now since f"
  obtains n where "sole_owner c now since f = Some n" and "dns_healthy n = Some True"
  using assms by (auto simp: safe_verdict_def service_ok_def split: option.splits)

lemma safe_verdict_managed:
  assumes "safe_verdict c now since f" and "pihole_manages_dhcp c"
    and "sole_owner c now since f = Some n"
  shows "list_all (\<lambda>m. if node_id m = node_id n then obs_active (dhcp_observation m now since f)
                       else obs_released (dhcp_observation m now since f)) (fresh_nodes c now since f)"
    and "obs_configured (dhcp_observation n now since f) = Some True"
    and "list_all (\<lambda>m. node_id m \<noteq> node_id n \<longrightarrow>
           obs_configured (dhcp_observation m now since f) = Some False) (fresh_nodes c now since f)"
    and "length (dhcp_owners c now since f) = 1"
  using assms by (auto simp: safe_verdict_def configuration_consistent_def)

lemma safe_verdict_dhcp_owner:
  assumes "safe_verdict c now since f" and "pihole_manages_dhcp c"
    and "sole_owner c now since f = Some n"
  shows "map node_id (dhcp_owners c now since f) = [node_id n]"
proof -
  have "dhcp_owners c now since f = filter (\<lambda>m. node_id m = node_id n) (fresh_nodes c now since f)"
    unfolding dhcp_owners_def
    by (rule evidence.servers_of_assignment [OF safe_verdict_managed(1) [OF assms]])
  moreover obtain d where d: "dhcp_owners c now since f = [d]"
    using safe_verdict_managed(4) [OF assms] by (auto simp: length_Suc_conv)
  ultimately have "d \<in> set (filter (\<lambda>m. node_id m = node_id n) (fresh_nodes c now since f))"
    by (metis list.set_intros(1))
  with d show ?thesis by simp
qed



lemma safe_verdict_no_drift:
  assumes "safe_verdict c now since f"
  shows "drift_issues c now since f = []"
proof -
  from assms obtain n where n: "sole_owner c now since f = Some n" by (rule safe_verdict_owner)
  show ?thesis
  proof (cases "pihole_manages_dhcp c")
    case False
    with n show ?thesis by (simp add: drift_issues_def)
  next
    case True
    note m = safe_verdict_managed [OF assms True n]
    have mem: "n \<in> set (fresh_nodes c now since f)"
      using sole_owner_SomeD [OF n] by (simp add: fresh_nodes_def)
    with m(1) have act: "obs_active (dhcp_observation n now since f)"
      by (auto simp: list_all_iff)
    have "filter (\<lambda>s. node_id s \<noteq> node_id n \<and> obs_configured (dhcp_observation s now since f) = Some True \<and>
            obs_released (dhcp_observation s now since f)) (fresh_nodes c now since f) = []"
      using m(3) by (auto simp: filter_empty_conv list_all_iff)
    with n True m(2) act show ?thesis by (simp add: drift_issues_def)
  qed
qed

lemma safe_verdict_no_ownership_issue:
  assumes "safe_verdict c now since f"
    and "length (nodes c) = 2" and "length (fresh_nodes c now since f) = 2"
  shows "ownership_issues c now since f = []"
proof -
  from assms(1) obtain n where n: "sole_owner c now since f = Some n" by (rule safe_verdict_owner)
  then have own: "vip_owners c now since f = [n]" by (simp add: sole_owner_iff)
  show ?thesis
  proof (cases "pihole_manages_dhcp c")
    case False
    with own assms(2,3) show ?thesis
      by (auto simp: ownership_issues_def Let_def split: list.splits)
  next
    case True
    from safe_verdict_dhcp_owner [OF assms(1) True n]
    obtain d where "dhcp_owners c now since f = [d]" and "node_id d = node_id n"
      by (auto simp: map_eq_Cons_conv)
    with True own assms(2,3) show ?thesis
      by (simp add: ownership_issues_def Let_def)
  qed
qed

text \<open>
  On a two-node cluster whose nodes both report, a safe topology raises no issue at all: the
  list of issues shown to the operator and the safety verdict never contradict each other in that
  direction.
\<close>

theorem topology_safe_no_issues:
  assumes "topology_safe (reconcile_topology c now since f)"
    and "length (nodes c) = 2" and "topology_fresh (reconcile_topology c now since f)"
  shows "issues (reconcile_topology c now since f) = []"
proof -
  from assms have "length (fresh_nodes c now since f) = 2"
    by (simp add: topology_fresh_def)
  with assms show ?thesis
    by (simp add: safe_verdict_no_drift safe_verdict_no_ownership_issue)
qed

theorem topology_safe_no_issues_witness:
  "issues (reconcile_topology (reference_cluster 0) 0 None 120) = []"
proof -
  let ?t = "reconcile_topology (reference_cluster 0) 0 None 120"
  have "topology_safe ?t" "length (nodes (reference_cluster 0)) = 2" "topology_fresh ?t" by code_simp+
  then show ?thesis by (rule topology_safe_no_issues)
qed

lemma observation_stale:
  assumes "\<not> heartbeat_is_fresh n now since f \<or>
           (case or_else (dhcp_observed_at n) (last_heartbeat_at n) of None \<Rightarrow> True
            | Some t \<Rightarrow> t < now - seconds f \<or> (case since of None \<Rightarrow> False | Some s \<Rightarrow> t < s))"
  shows "obs_state (dhcp_observation n now since f) = UNKNOWN"
  using assms by (simp add: dhcp_observation_def Let_def)

lemma observation_widen:
  assumes known: "obs_state (dhcp_observation n now since f) \<noteq> UNKNOWN" and le: "f \<le> f'"
  shows "dhcp_observation n now since f' = dhcp_observation n now since f"
proof -
  from known have fresh: "heartbeat_is_fresh n now since f"
    using observation_stale by blast
  with le have fresh': "heartbeat_is_fresh n now since f'" by (simp add: heartbeat_is_fresh_mono)
  obtain t where t: "or_else (dhcp_observed_at n) (last_heartbeat_at n) = Some t"
    using known observation_stale [of n now since f]
    by (cases "or_else (dhcp_observed_at n) (last_heartbeat_at n)") simp_all
  have ok: "\<not> (t < now - seconds f \<or> (case since of None \<Rightarrow> False | Some s \<Rightarrow> t < s))"
    using known observation_stale [of n now since f] t by auto
  moreover have "now - seconds f' \<le> now - seconds f" using le by simp
  ultimately have "\<not> (t < now - seconds f' \<or> (case since of None \<Rightarrow> False | Some s \<Rightarrow> t < s))"
    by linarith
  with ok fresh fresh' t show ?thesis by (simp add: dhcp_observation_def Let_def)
qed

text \<open>
  A definite DHCP verdict does not depend on the freshness window it was asked for: widening
  the window never turns an active, released or inactive node into anything else, so the callers
  that reconcile with 45 and with 120 seconds cannot contradict each other.
\<close>

theorem dhcp_observation_window_independent:
  assumes "obs_state (dhcp_observation n now since f) \<noteq> UNKNOWN"
    and "obs_state (dhcp_observation n now since f') \<noteq> UNKNOWN"
  shows "dhcp_observation n now since f = dhcp_observation n now since f'"
proof (cases "f \<le> f'")
  case True
  show ?thesis by (rule observation_widen [OF assms(1) True, symmetric])
next
  case False
  then have "f' \<le> f" by simp
  then show ?thesis by (rule observation_widen [OF assms(2)])
qed

theorem dhcp_observation_window_independent_witness:
  "dhcp_observation (serving_node 1 ''a'' 0) (seconds 30) None 45 = dhcp_observation (serving_node 1 ''a'' 0) (seconds 30) None 120"
proof -
  let ?n = "serving_node 1 ''a'' 0"
  have "obs_state (dhcp_observation ?n (seconds 30) None 45) \<noteq> UNKNOWN"
    "obs_state (dhcp_observation ?n (seconds 30) None 120) \<noteq> UNKNOWN" by code_simp+
  then show ?thesis by (rule dhcp_observation_window_independent)
qed

lemma stale_no_fresh_nodes:
  assumes "\<forall>n \<in> set (nodes c). \<forall>t. last_heartbeat_at n = Some t \<longrightarrow> t < now - seconds f"
  shows "fresh_nodes c now since f = []"
  using assms by (auto simp: fresh_nodes_def filter_empty_conv heartbeat_is_fresh_def split: option.splits)

text \<open>
  Silence is never read as health: once every heartbeat is older than the freshness window the
  reconciler reports no owner of the virtual IP or of DHCP, and the topology is neither fresh nor safe.
\<close>

theorem stale_reports_prove_nothing:
  assumes "\<forall>n \<in> set (nodes c). \<forall>t. last_heartbeat_at n = Some t \<longrightarrow> t < now - seconds f"
  shows "vip_owner_ids (reconcile_topology c now since f) = [] \<and>
         dhcp_owner_ids (reconcile_topology c now since f) = [] \<and>
         \<not> topology_fresh (reconcile_topology c now since f) \<and>
         \<not> topology_safe (reconcile_topology c now since f)"
  using stale_no_fresh_nodes [OF assms]
  by (simp add: topology_fresh_def vip_owners_def dhcp_owners_def safe_verdict_def)

theorem stale_reports_prove_nothing_witness:
  "\<not> topology_safe (reconcile_topology (reference_cluster 0) (seconds 121) None 120)"
proof -
  have "\<forall>n \<in> set (nodes (reference_cluster 0)). \<forall>t. last_heartbeat_at n = Some t \<longrightarrow> t < seconds 121 - seconds 120"
    by (simp add: reference_defs seconds_def)
  from stale_reports_prove_nothing [OF this] show ?thesis by simp
qed

end
