(* ===== verification/HA_DHCP_Safety.thy ===== *)
theory HA_DHCP_Safety
  imports HA_Topology
begin

text \<open>
  The gate every DHCP demotion passes (\<open>app/services/ha_dhcp_safety.py\<close>). The decision is a pure
  function of the cluster rows, the node, the requested replacement and the clock. The contract it
  keeps for its clients is stated as the locale \<open>demotion_gate\<close> and discharged for the model of the
  source: the only DHCP server of a cluster loses DHCP only in an explicit handover to another node
  that has been observed, within the freshness window, healthy and with its own DHCP stopped.
\<close>

section \<open>Agent versions\<close>

type_synonym version = "int \<times> int \<times> int"

definition OWNER_PROTECTION_AGENT_VERSION :: version where
  "OWNER_PROTECTION_AGENT_VERSION = (0, 2, 13)"

definition agent_version_tuple :: "string option \<Rightarrow> version" where
  "agent_version_tuple value =
     (case those (map parse_int (take 3 (split_on (CHR ''.'') (opt_text_or value ''0'')))) of
        None \<Rightarrow> (0, 0, 0)
      | Some parts \<Rightarrow>
          (case take 3 (parts @ [0, 0, 0]) of [a, b, d] \<Rightarrow> (a, b, d) | _ \<Rightarrow> (0, 0, 0)))"

section \<open>The decision\<close>

record demotion_decision =
  allowed :: bool
  owner_handover :: bool
  reason :: string

definition decision :: "bool \<Rightarrow> bool \<Rightarrow> string \<Rightarrow> demotion_decision" where
  "decision a h r = \<lparr>allowed = a, owner_handover = h, reason = r\<rparr>"

definition heartbeat_since :: "ha_node \<Rightarrow> time \<Rightarrow> bool" where
  "heartbeat_since n limit \<longleftrightarrow> (case last_heartbeat_at n of None \<Rightarrow> False | Some hb \<Rightarrow> hb \<ge> limit)"

definition services_ready :: "ha_node \<Rightarrow> bool" where
  "services_ready n \<longleftrightarrow> dns_healthy n = Some True \<and> ftl_active n = Some True"

definition failover_service_ready :: "ha_node \<Rightarrow> bool" where
  "failover_service_ready n \<longleftrightarrow>
     node_keepalived_status n = ''DEPLOYED'' \<and> keepalived_runtime_state n = ''RUNNING''"

text \<open>
  The lease condition of the last check: the replacement either already holds the virtual IP with
  local authority over the leases, or it is a side of a current, fully applied replication.
\<close>

definition lease_ready :: "ha_cluster \<Rightarrow> ha_node \<Rightarrow> bool \<Rightarrow> int list \<Rightarrow> bool" where
  "lease_ready c rep local_authority vip_ids \<longleftrightarrow>
     \<not> pihole_manages_dhcp c \<or>
     (vip_ids = [node_id rep] \<and> local_authority) \<or>
     (case lease_replication c of
        None \<Rightarrow> False
      | Some st \<Rightarrow>
          lr_status st = ''CURRENT'' \<and>
          applied_generation st = desired_generation st \<and>
          ((lr_target_node_id st = Some (node_id rep) \<and> lease_generation rep \<ge> desired_generation st) \<or>
           lr_source_node_id st = Some (node_id rep)))"

definition handover_checks ::
  "ha_cluster \<Rightarrow> ha_node \<Rightarrow> ha_node \<Rightarrow> bool \<Rightarrow> time \<Rightarrow> int \<Rightarrow> (bool \<times> string) list" where
  "handover_checks c n rep local_authority now freshness =
     (let topology = reconcile_topology c now None freshness;
          limit = now - seconds freshness;
          rep_obs = dhcp_observation rep now None freshness;
          vips = vip_owner_ids topology
      in [(topology_fresh topology, ''both node observations are not fresh''),
          (vips = [node_id n] \<or> vips = [node_id rep], ''Virtual IP ownership is not exclusive''),
          (dhcp_unknown_node_ids topology = [], ''DHCP ownership is not fully observed''),
          (heartbeat_since n limit, ''the current owner heartbeat is stale''),
          (services_ready n, ''the current owner service health is not ready''),
          (failover_service_ready n, ''the current owner failover service is not ready''),
          (heartbeat_since rep limit, ''the replacement heartbeat is stale''),
          (services_ready rep, ''the replacement service health is not ready''),
          (failover_service_ready rep, ''the replacement failover service is not ready''),
          (config_generation rep \<ge> keepalived_generation c, ''the replacement configuration generation is stale''),
          (vips = [node_id rep] \<or> \<not> vip_owned rep, ''the replacement Virtual IP state is unsafe''),
          (obs_released rep_obs \<and> obs_configured rep_obs = Some False,
             ''the replacement has not proved DHCP is stopped''),
          (lease_ready c rep local_authority vips, ''the replacement lease generation is not ready'')])"

definition authorise_dhcp_demotion ::
  "ha_cluster \<Rightarrow> ha_node \<Rightarrow> ha_node option \<Rightarrow> bool \<Rightarrow> bool \<Rightarrow> time \<Rightarrow> int \<Rightarrow> demotion_decision" where
  "authorise_dhcp_demotion c n replacement handover local_authority now freshness =
     (if agent_version_tuple (agent_version n) < OWNER_PROTECTION_AGENT_VERSION
      then decision False False ''Update this node to HA Agent 0.2.13 before Kaya may issue a DHCP demotion.''
      else
        (let topology = reconcile_topology c now None freshness;
             node_obs = dhcp_observation n now None freshness
         in if dhcp_owner_ids topology \<noteq> [node_id n]
            then (if length (dhcp_owner_ids topology) < 2 \<and> vip_owned n \<and> obs_active node_obs
                  then decision False False ''Current ownership evidence is inconsistent; DHCP demotion was suppressed.''
                  else decision True False ''The node is not the sole active DHCP owner.'')
            else if \<not> handover
            then decision False False ''Routine work cannot disable DHCP on the sole active owner.''
            else
              (case replacement of
                 None \<Rightarrow> decision False False ''The replacement node is not defined for this handover.''
               | Some rep \<Rightarrow>
                   if node_id rep = node_id n
                   then decision False False ''The replacement node is not defined for this handover.''
                   else
                     (case find (\<lambda>(passed, _). \<not> passed) (handover_checks c n rep local_authority now freshness) of
                        Some (_, blocker) \<Rightarrow>
                          decision False False
                            (''The replacement is not ready for atomic handover: '' @ blocker @ ''.'')
                      | None \<Rightarrow>
                          decision True True ''The replacement is ready for the explicit atomic handover.''))))"

section \<open>The contract of the gate\<close>

text \<open>
  What a client that issues DHCP demotions may rely on. \<open>sole c now n\<close>: the cluster's rows show
  \<open>n\<close> as the one DHCP server. \<open>stopped now n\<close>: the node is proved to have DHCP stopped.
\<close>

locale demotion_gate =
  fixes grants :: "ha_cluster \<Rightarrow> time \<Rightarrow> ha_node \<Rightarrow> ha_node option \<Rightarrow> bool \<Rightarrow> bool \<Rightarrow> demotion_decision"
    and sole :: "ha_cluster \<Rightarrow> time \<Rightarrow> ha_node \<Rightarrow> bool"
    and stopped :: "time \<Rightarrow> ha_node \<Rightarrow> bool"
  assumes handover_needed: "allowed (grants c now n rep h l) \<Longrightarrow> sole c now n \<Longrightarrow>
      h \<and> owner_handover (grants c now n rep h l)"
    and replacement_stopped: "owner_handover (grants c now n rep h l) \<Longrightarrow>
      \<exists>r. rep = Some r \<and> node_id r \<noteq> node_id n \<and> stopped now r"
    and handover_allowed: "owner_handover (grants c now n rep h l) \<Longrightarrow> allowed (grants c now n rep h l)"
begin

lemma routine_work_spares_owner: "sole c now n \<Longrightarrow> \<not> allowed (grants c now n rep False l)"
  using handover_needed by blast

lemma owner_demotion_has_stopped_replacement:
  assumes "allowed (grants c now n rep h l)" and "sole c now n"
  shows "\<exists>r. rep = Some r \<and> node_id r \<noteq> node_id n \<and> stopped now r"
  using assms handover_needed replacement_stopped by blast

lemma no_replacement_no_owner_demotion: "sole c now n \<Longrightarrow> \<not> allowed (grants c now n None h l)"
  using owner_demotion_has_stopped_replacement by blast

end

definition sole_dhcp_owner :: "ha_cluster \<Rightarrow> time \<Rightarrow> int \<Rightarrow> ha_node \<Rightarrow> bool" where
  "sole_dhcp_owner c now freshness n \<longleftrightarrow>
     dhcp_owner_ids (reconcile_topology c now None freshness) = [node_id n]"

definition dhcp_stopped :: "time \<Rightarrow> int \<Rightarrow> ha_node \<Rightarrow> bool" where
  "dhcp_stopped now freshness n \<longleftrightarrow>
     obs_released (dhcp_observation n now None freshness) \<and>
     obs_configured (dhcp_observation n now None freshness) = Some False"

lemma find_first_failure_None:
  "find (\<lambda>(passed, _). \<not> passed) xs = None \<longleftrightarrow> list_all fst xs"
  by (induction xs) auto

lemma decision_sel [simp]:
  "allowed (decision a h r) = a" "owner_handover (decision a h r) = h" "reason (decision a h r) = r"
  by (simp_all add: decision_def)

lemma authorise_owner_handoverD:
  assumes "owner_handover (authorise_dhcp_demotion c n rep h l now f)"
  shows "h \<and> sole_dhcp_owner c now f n \<and> OWNER_PROTECTION_AGENT_VERSION \<le> agent_version_tuple (agent_version n) \<and>
         allowed (authorise_dhcp_demotion c n rep h l now f) \<and>
         (\<exists>r. rep = Some r \<and> node_id r \<noteq> node_id n \<and> list_all fst (handover_checks c n r l now f))"
proof -
  from assms have v: "\<not> agent_version_tuple (agent_version n) < OWNER_PROTECTION_AGENT_VERSION"
    by (auto simp: authorise_dhcp_demotion_def)
  from assms v have s: "dhcp_owner_ids (reconcile_topology c now None f) = [node_id n]"
    by (auto simp: authorise_dhcp_demotion_def Let_def split: if_splits)
  from assms v s have h: h
    by (auto simp: authorise_dhcp_demotion_def Let_def split: if_splits)
  from assms v s h obtain r where r: "rep = Some r" and ne: "node_id r \<noteq> node_id n"
    by (auto simp: authorise_dhcp_demotion_def Let_def split: if_splits option.splits)
  from assms v s h r ne have checks: "find (\<lambda>(passed, _). \<not> passed) (handover_checks c n r l now f) = None"
    by (auto simp: authorise_dhcp_demotion_def Let_def split: option.splits)
  with v s h r ne have "allowed (authorise_dhcp_demotion c n rep h l now f)"
    by (simp add: authorise_dhcp_demotion_def Let_def)
  with v s h r ne checks show ?thesis
    by (auto simp: sole_dhcp_owner_def find_first_failure_None not_less)
qed

lemma authorise_allowed_owner:
  assumes "allowed (authorise_dhcp_demotion c n rep h l now f)" and "sole_dhcp_owner c now f n"
  shows "owner_handover (authorise_dhcp_demotion c n rep h l now f)"
  using assms
  by (auto simp: authorise_dhcp_demotion_def sole_dhcp_owner_def Let_def split: if_splits option.splits)

lemma handover_checks_stopped: "list_all fst (handover_checks c n r l now f) \<Longrightarrow> dhcp_stopped now f r"
  by (simp add: handover_checks_def dhcp_stopped_def Let_def)

interpretation gate: demotion_gate
  "\<lambda>c now n rep h l. authorise_dhcp_demotion c n rep h l now freshness"
  "\<lambda>c now n. sole_dhcp_owner c now freshness n"
  "\<lambda>now n. dhcp_stopped now freshness n" for freshness
proof unfold_locales
  fix c now n rep h l
  let ?d = "authorise_dhcp_demotion c n rep h l now freshness"
  show "h \<and> owner_handover ?d" if "allowed ?d" and "sole_dhcp_owner c now freshness n"
    using authorise_allowed_owner [OF that] authorise_owner_handoverD by blast
  show "\<exists>r. rep = Some r \<and> node_id r \<noteq> node_id n \<and> dhcp_stopped now freshness r" if "owner_handover ?d"
    using authorise_owner_handoverD [OF that] handover_checks_stopped by blast
  show "allowed ?d" if "owner_handover ?d"
    using authorise_owner_handoverD [OF that] by blast
qed

section \<open>Properties\<close>

text \<open>
  C4. The sole DHCP server of a cluster is demoted only in an explicit handover, and only to a
  different node: the gate's permission implies that handover was requested, that both nodes
  report, that the virtual IP is held exclusively by the owner or by the replacement, that both
  nodes' DNS, FTL and Keepalived are healthy, and that the replacement's DHCP is observed stopped
  and disabled with the leases ready there.
\<close>

theorem owner_demotion_requires_ready_replacement:
  assumes "allowed (authorise_dhcp_demotion c n rep h l now f)" and "sole_dhcp_owner c now f n"
  shows "h \<and> (\<exists>r. rep = Some r \<and> node_id r \<noteq> node_id n \<and>
           topology_fresh (reconcile_topology c now None f) \<and>
           vip_owner_ids (reconcile_topology c now None f) \<in> {[node_id n], [node_id r]} \<and>
           services_ready n \<and> failover_service_ready n \<and>
           services_ready r \<and> failover_service_ready r \<and> heartbeat_since r (now - seconds f) \<and>
           keepalived_generation c \<le> config_generation r \<and>
           dhcp_listener_active r = Some False \<and> dhcp_configured r = Some False \<and>
           lease_ready c r l (vip_owner_ids (reconcile_topology c now None f)))"
proof -
  have "owner_handover (authorise_dhcp_demotion c n rep h l now f)"
    by (rule authorise_allowed_owner [OF assms])
  from authorise_owner_handoverD [OF this] obtain r where h: h and r: "rep = Some r" "node_id r \<noteq> node_id n"
    and checks: "list_all fst (handover_checks c n r l now f)"
    by blast
  have stop: "dhcp_stopped now f r" by (rule handover_checks_stopped [OF checks])
  then have "dhcp_listener_active r = Some False" and "dhcp_configured r = Some False"
    by (auto simp: dhcp_stopped_def dest: observation_releasedD observation_configured)
  with h r checks show ?thesis
    by (auto simp: handover_checks_def Let_def)
qed

theorem owner_demotion_requires_ready_replacement_witness:
  "topology_fresh (reconcile_topology (reference_cluster 0) 0 None 120) \<and>
   (\<exists>r. Some (standby_node 2 ''b'' 0) = Some r \<and> dhcp_listener_active r = Some False)"
proof -
  let ?c = "reference_cluster 0" and ?n = "serving_node 1 ''a'' 0" and ?r = "standby_node 2 ''b'' 0"
  have "allowed (authorise_dhcp_demotion ?c ?n (Some ?r) True False 0 120)" "sole_dhcp_owner ?c 0 120 ?n"
    by code_simp+
  from owner_demotion_requires_ready_replacement [OF this] show ?thesis by blast
qed

text \<open>
  Routine work never takes DHCP away from the only server: without the handover flag, and with
  no replacement named, the gate refuses whatever the rest of the state says.
\<close>

theorem routine_work_cannot_demote_owner:
  assumes "sole_dhcp_owner c now f n"
  shows "\<not> allowed (authorise_dhcp_demotion c n rep False l now f) \<and>
         \<not> allowed (authorise_dhcp_demotion c n None h l now f)"
  using gate.routine_work_spares_owner [OF assms] gate.no_replacement_no_owner_demotion [OF assms] by simp

theorem routine_work_cannot_demote_owner_witness:
  "\<not> allowed (authorise_dhcp_demotion (reference_cluster 0) (serving_node 1 ''a'' 0) None True False 0 120)"
proof -
  have "sole_dhcp_owner (reference_cluster 0) 0 120 (serving_node 1 ''a'' 0)" by code_simp
  from routine_work_cannot_demote_owner [OF this] show ?thesis by simp
qed

lemma old_agents_never_demoted:
  assumes "agent_version_tuple (agent_version n) < OWNER_PROTECTION_AGENT_VERSION"
  shows "\<not> allowed (authorise_dhcp_demotion c n rep h l now f)"
  using assms by (simp add: authorise_dhcp_demotion_def)

end
