(* ===== verification/HA_Failover.thy ===== *)
theory HA_Failover
  imports HA_DHCP_Safety
begin

text \<open>
  The controlled failover engine (\<open>app/services/ha_failover.py\<close>): readiness, the start of a run,
  the actions it asks the two agents for, the results they report, the periodic advance through the
  phases, safe failure, bounded repair, and rollback.

  A run and its cluster are passed explicitly and returned updated; \<open>db.commit\<close> and \<open>db.refresh\<close>
  are the identity on the explicit state. The two participants of a run are looked up once through
  the foreign keys; \<open>DanglingNode\<close> is the attribute error of a row the schema rules out.
\<close>

datatype failover_error = HAFailoverError string | DanglingNode

section \<open>Selecting runs\<close>

definition active_run :: "ha_failover_run \<Rightarrow> bool" where
  "active_run r \<longleftrightarrow> run_status r = RUNNING \<or> run_status r = ROLLING_BACK"

definition MIN_AGENT_VERSION :: version where
  "MIN_AGENT_VERSION = (0, 2, 7)"

definition AUTOMATIC_AGENT_VERSION :: version where
  "AUTOMATIC_AGENT_VERSION = (0, 2, 7)"

definition FORWARD_PHASES :: "run_phase list" where
  "FORWARD_PHASES = [WAITING_FOR_LEASES, DEMOTING_SOURCE, VERIFYING_SOURCE_DHCP_RELEASE, MOVING_VIP,
     PROMOTING_TARGET, VERIFYING_TARGET, COMPLETE]"

definition ROLLBACK_PHASES :: "run_phase list" where
  "ROLLBACK_PHASES = [ROLLBACK_DEMOTING_TARGET, VERIFYING_ROLLBACK_TARGET_RELEASE, ROLLBACK_MOVING_VIP,
     ROLLBACK_PROMOTING_SOURCE, ROLLBACK_VERIFYING_SOURCE, PHASE_ROLLED_BACK]"

definition failover_version :: "string option \<Rightarrow> version" where
  "failover_version value = agent_version_tuple value"

text \<open>\<open>max\<close> and the stable descending sort both prefer the earlier row among equal timestamps.\<close>

definition newest_first :: "ha_failover_run list \<Rightarrow> ha_failover_run list" where
  "newest_first rs = sort_key (\<lambda>r. - created_at r) rs"

definition latest_failover :: "ha_cluster \<Rightarrow> ha_failover_run option" where
  "latest_failover c = (case newest_first (failover_runs c) of [] \<Rightarrow> None | r # _ \<Rightarrow> Some r)"

definition active_failover :: "ha_cluster \<Rightarrow> ha_failover_run option" where
  "active_failover c = find active_run (newest_first (failover_runs c))"

section \<open>Readiness\<close>

record failover_readiness =
  rd_source :: "ha_node option"
  rd_target :: "ha_node option"
  rd_dhcp_managed :: bool
  blockers :: "string list"
  warnings :: "string list"

definition ready :: "failover_readiness \<Rightarrow> bool" where
  "ready r \<longleftrightarrow> blockers r = []"

definition recent_owners :: "ha_cluster \<Rightarrow> time \<Rightarrow> ha_node list" where
  "recent_owners c now = filter (\<lambda>n. vip_owned n \<and> heartbeat_since n (now - minutes 2)) (nodes c)"

definition version_label :: "version \<Rightarrow> string" where
  "version_label v = (case v of (a, b, d) \<Rightarrow> join ''.'' (map str_int [a, b, d]))"

definition node_blockers :: "time \<Rightarrow> version \<Rightarrow> ha_node \<Rightarrow> string list" where
  "node_blockers now required n =
     (if \<not> heartbeat_since n (now - minutes 2)
      then [''Wait for a recent heartbeat from '' @ display_name n @ ''.''] else []) @
     (if failover_version (agent_version n) < required
      then [''Update '' @ display_name n @ '' to agent '' @ version_label required @
            '' or newer before controlled failover.''] else []) @
     (if dns_healthy n \<noteq> Some True
      then [''Resolve the DNS health warning on '' @ display_name n @ ''.''] else []) @
     (if keepalived_runtime_state n \<noteq> ''RUNNING''
      then [''Keepalived must be running on '' @ display_name n @ ''.''] else [])"

definition dhcp_blockers ::
  "ha_cluster \<Rightarrow> time \<Rightarrow> ha_node option \<Rightarrow> ha_node option \<Rightarrow> string list" where
  "dhcp_blockers c now source target =
     (case lease_replication c of
        None \<Rightarrow> [''Complete the DHCP continuity check before failover.'']
      | Some st \<Rightarrow>
          if lr_status st \<noteq> ''NOT_APPLICABLE'' then
            (if lr_status st \<noteq> ''CURRENT'' \<or> applied_generation st \<noteq> desired_generation st
             then [''The standby lease snapshot must be current.''] else []) @
            (case target of
               None \<Rightarrow> []
             | Some t \<Rightarrow> if lease_generation t \<noteq> desired_generation st
                 then [''Wait for '' @ display_name t @ '' to stage the current lease generation.''] else []) @
            (let topology = reconcile_topology c now None 120
             in if dhcp_unknown_node_ids topology \<noteq> []
                then [''Wait for a fresh DHCP configuration, FTL and UDP/67 observation from both nodes.'']
                else if length (dhcp_owner_ids topology) \<noteq> 1 \<or>
                        (case source of None \<Rightarrow> False | Some s \<Rightarrow> dhcp_owner_ids topology \<noteq> [node_id s])
                then [''Exactly the current VIP owner must report DHCP active before handover.'']
                else [])
          else if list_ex (\<lambda>n. obs_active (dhcp_observation n now None 120)) (nodes c)
          then [''Pi-hole DHCP is configured as external, but an agent reports DHCP active.'']
          else [])"

definition failover_readiness :: "ha_cluster \<Rightarrow> time \<Rightarrow> failover_readiness" where
  "failover_readiness c now =
     (let owners = recent_owners c now;
          source = (case owners of [s] \<Rightarrow> Some s | _ \<Rightarrow> None);
          target = (case source of None \<Rightarrow> None | Some s \<Rightarrow> find (\<lambda>n. node_id n \<noteq> node_id s) (nodes c));
          managed = (case lease_replication c of None \<Rightarrow> False | Some st \<Rightarrow> lr_status st \<noteq> ''NOT_APPLICABLE'');
          required = (if managed then OWNER_PROTECTION_AGENT_VERSION else MIN_AGENT_VERSION);
          found =
            (if length (nodes c) \<noteq> 2 then [''Controlled failover requires exactly two nodes.''] else []) @
            (if length owners \<noteq> 1 then [''Exactly one node must currently own the virtual IP.''] else []) @
            (if keepalived_status c \<noteq> ''DEPLOYED'' \<or> list_ex (\<lambda>n. node_keepalived_status n \<noteq> ''DEPLOYED'') (nodes c)
             then [''Keepalived must be deployed and current on both nodes.''] else []) @
            concat (map (node_blockers now required) (nodes c)) @
            dhcp_blockers c now source target @
            (if active_failover c \<noteq> None then [''A controlled transition is already running.''] else []) @
            (if maintenance_mode c \<and> active_failover c = None then [''Cluster maintenance is in progress.''] else [])
      in \<lparr>rd_source = source, rd_target = target, rd_dhcp_managed = managed,
          blockers = dict_fromkeys found,
          warnings = [''DNS and DHCP may pause briefly while ownership changes.'']\<rparr>)"

definition automatic_failover_blockers :: "ha_cluster \<Rightarrow> time \<Rightarrow> string list" where
  "automatic_failover_blockers c now =
     dict_fromkeys
       (blockers (failover_readiness c now) @
        (if \<not> list_ex (\<lambda>r. run_status r = SUCCEEDED) (failover_runs c)
         then [''Complete one successful controlled failover test first.''] else []) @
        concat (map (\<lambda>n. if failover_version (agent_version n) < AUTOMATIC_AGENT_VERSION
          then [''Update '' @ display_name n @ '' to agent 0.2.7 for ordered DHCP telemetry and verified offline failover.'']
          else []) (nodes c)) @
        (if maintenance_mode c then [''Exit maintenance mode before enabling automatic failover.''] else []))"

definition pending_agent :: "ha_node \<Rightarrow> ha_node" where
  "pending_agent n = n\<lparr>node_keepalived_status := ''PENDING_AGENT'', keepalived_last_error := None\<rparr>"

definition set_automatic_failover ::
  "time \<Rightarrow> ha_cluster \<Rightarrow> bool \<Rightarrow> string \<Rightarrow> bool \<Rightarrow> failover_error + ha_cluster" where
  "set_automatic_failover now c enabled confirmation acknowledged =
     (if enabled \<and> (strip confirmation \<noteq> cluster_name c \<or> \<not> acknowledged)
      then Inl (HAFailoverError (''Type '' @ cluster_name c @ '' and confirm the automatic-failover safety warning.''))
      else if enabled \<and> automatic_failover_blockers c now \<noteq> []
      then Inl (HAFailoverError (join '' '' (automatic_failover_blockers c now)))
      else if automatic_failover_enabled c = enabled then Inr c
      else
        (let c1 = c\<lparr>automatic_failover_enabled := enabled, automatic_failback_enabled := False,
                    cluster_generation := cluster_generation c + 1\<rparr>;
             c2 = (if enabled
                   then update_all_nodes pending_agent
                          (c1\<lparr>keepalived_generation := keepalived_generation c1 + 1,
                              keepalived_status := ''PENDING_AGENT'',
                              keepalived_requested_at := Some now,
                              cluster_status := ''DEPLOYING''\<rparr>)
                   else c1)
         in Inr (add_event
              \<lparr>ev_node_id = None,
               ev_event_type = (if enabled then ''automatic_failover_enabled'' else ''automatic_failover_disabled''),
               ev_severity = (if enabled then ''warning'' else ''info''),
               ev_message = (if enabled
                 then ''Offline automatic failover was enabled. Automatic failback remains disabled.''
                 else ''Offline automatic failover was disabled. Existing DNS and DHCP services were not changed.''),
               ev_phase = None, ev_role_generation = None, ev_occurred_at = now\<rparr> c2)))"

section \<open>Bookkeeping of a run\<close>

definition action_checksum :: "(string \<Rightarrow> string) \<Rightarrow> ha_failover_run \<Rightarrow> ha_node \<Rightarrow> string \<Rightarrow> string" where
  "action_checksum sha r n action_type =
     sha (action_type @ '':'' @ run_public_id r @ '':'' @ str_int (run_role_generation r) @ '':'' @ node_public_id n)"

definition run_event ::
  "ha_env \<Rightarrow> ha_failover_run \<Rightarrow> string \<Rightarrow> string \<Rightarrow> string \<Rightarrow> ha_cluster \<Rightarrow> ha_cluster" where
  "run_event env r event_type severity message =
     add_event \<lparr>ev_node_id = None, ev_event_type = event_type, ev_severity = severity,
       ev_message = message, ev_phase = Some (phase_name (run_phase r)),
       ev_role_generation = Some (run_role_generation r), ev_occurred_at = env_now env\<rparr>"

definition transition_kind :: "ha_failover_run \<Rightarrow> string" where
  "transition_kind r =
     (if upper (opt_text_or (rep_transition_kind (report r)) ''FAILOVER'') = ''FAILBACK''
      then ''FAILBACK'' else ''FAILOVER'')"

text \<open>
  \<open>publish_ha_notification\<close> followed by \<open>record_run_notification_diagnostic\<close>: the row reaches the
  outbox or the failure is swallowed, and the run's report keeps the diagnostic under its stage.
\<close>

definition alist_put :: "string \<Rightarrow> 'v \<Rightarrow> (string \<times> 'v) list \<Rightarrow> (string \<times> 'v) list" where
  "alist_put k v xs =
     (if list_ex (\<lambda>(a, _). a = k) xs then map (\<lambda>(a, b). if a = k then (a, v) else (a, b)) xs
      else xs @ [(k, v)])"

definition publish_and_record ::
  "ha_env \<Rightarrow> string \<Rightarrow> ha_notification \<Rightarrow> ha_cluster \<times> ha_failover_run \<Rightarrow> ha_cluster \<times> ha_failover_run" where
  "publish_and_record env stage nt cr =
     (case cr of (c, r) \<Rightarrow>
        (let outcome = env_enqueue env nt;
             diagnostic = \<lparr>nd_event_type = nt_event_type_id nt,
               nd_status = (case outcome of None \<Rightarrow> ''failed'' | Some _ \<Rightarrow> ''queued''),
               nd_outbox_id = outcome\<rparr>;
             c' = (case outcome of None \<Rightarrow> c | Some _ \<Rightarrow> c\<lparr>notifications := notifications c @ [nt]\<rparr>);
             rep = report r
         in (c', r\<lparr>report := rep\<lparr>rep_notifications :=
                    alist_put (take 40 stage) diagnostic (rep_notifications rep)\<rparr>\<rparr>)))"

definition publish_transition_notification ::
  "ha_env \<Rightarrow> string \<Rightarrow> ha_node \<Rightarrow> ha_cluster \<times> ha_failover_run \<Rightarrow> ha_cluster \<times> ha_failover_run" where
  "publish_transition_notification env stage target cr =
     (case cr of (c, r) \<Rightarrow>
        (let kind = lower (transition_kind r);
             message =
               (if stage = ''started'' then ''Controlled '' @ kind @ '' started for '' @ cluster_name c @ ''.''
                else if stage = ''completed''
                then ''Controlled '' @ kind @ '' completed for '' @ cluster_name c @ '' with '' @ display_name target @ '' active.''
                else ''Controlled '' @ kind @ '' for '' @ cluster_name c @ '' stopped safely. Review the HA operation history.'');
             base = \<lparr>nt_event_type_id = ''pihole.'' @ kind @ ''.'' @ stage,
                nt_title = ''Pi-hole '' @ kind @ '' '' @ stage, nt_message = message,
                nt_deduplication_key = ''pihole:cluster:'' @ cluster_public_id c @ '':'' @ kind @ '':'' @ run_public_id r @ '':'' @ stage,
                nt_source_entity_type = ''ha_failover_run'', nt_source_entity_id = run_public_id r,
                nt_created_by_user_id = requested_by_user_id r\<rparr>;
             degraded = \<lparr>nt_event_type_id = ''pihole.cluster.degraded'',
                nt_title = ''Pi-hole cluster degraded'',
                nt_message = cluster_name c @ '' is degraded after a controlled '' @ kind @ '' stopped safely.'',
                nt_deduplication_key = ''pihole:cluster:'' @ cluster_public_id c @ '':degraded'',
                nt_source_entity_type = ''ha_cluster'', nt_source_entity_id = cluster_public_id c,
                nt_created_by_user_id = requested_by_user_id r\<rparr>
         in if stage \<notin> {''started'', ''completed'', ''failed''} then (c, r)
            else
              (let cr1 = publish_and_record env stage base (c, r)
               in if stage = ''failed'' then publish_and_record env ''cluster_degraded'' degraded cr1 else cr1)))"

definition mark_verification_started :: "time \<Rightarrow> ha_failover_run \<Rightarrow> ha_failover_run" where
  "mark_verification_started now r =
     r\<lparr>report := (report r)\<lparr>rep_verification_started_at := Some now\<rparr>\<rparr>"

definition last_n :: "nat \<Rightarrow> 'a list \<Rightarrow> 'a list" where
  "last_n n xs = drop (length xs - n) xs"

definition record_transition_warning :: "string \<Rightarrow> ha_failover_run \<Rightarrow> ha_failover_run" where
  "record_transition_warning message r =
     (let redacted = take 500 (text_or message ''An intermediate transition step returned an unexpected result.'');
          ws = rep_warnings (report r);
          ws' = (if redacted \<in> set ws then ws else ws @ [redacted])
      in r\<lparr>report := (report r)\<lparr>rep_warnings := last_n 10 ws'\<rparr>\<rparr>)"

definition verification_started_at :: "ha_failover_run \<Rightarrow> time" where
  "verification_started_at r =
     (case rep_verification_started_at (report r) of Some t \<Rightarrow> t | None \<Rightarrow> started_at r)"

definition vip_move_started_at :: "ha_failover_run \<Rightarrow> time" where
  "vip_move_started_at r =
     (case rep_vip_move_started_at (report r) of Some t \<Rightarrow> t | None \<Rightarrow> started_at r)"

text \<open>The node rows of a run's participants, and what the topology verifier reads of them.\<close>

definition node_dhcp_active :: "time \<Rightarrow> ha_node \<Rightarrow> bool" where
  "node_dhcp_active now n \<longleftrightarrow> obs_active (dhcp_observation n now None 120)"

definition node_dhcp_released :: "time \<Rightarrow> ha_node \<Rightarrow> bool" where
  "node_dhcp_released now n \<longleftrightarrow> obs_released (dhcp_observation n now None 120)"

definition dhcp_activation_failure_detail :: "time \<Rightarrow> ha_node \<Rightarrow> string" where
  "dhcp_activation_failure_detail now n =
     (let obs = dhcp_observation n now None 120
      in if obs_status obs \<noteq> ''FRESH'' then display_name n @ '' DHCP observation is unavailable or stale''
         else if obs_configured obs \<noteq> Some True then display_name n @ '' Pi-hole DHCP setting remains disabled''
         else if obs_service_active obs \<noteq> Some True then display_name n @ '' Pi-hole FTL service is not active''
         else if obs_listening obs \<noteq> Some True then display_name n @ '' is not listening on UDP port 67''
         else display_name n @ '' reported DHCP running state that did not converge'')"

definition requested_topology_is_verified :: "time \<Rightarrow> ha_cluster \<Rightarrow> ha_failover_run \<Rightarrow> ha_node \<Rightarrow> bool" where
  "requested_topology_is_verified now c r active \<longleftrightarrow>
     (let topology = reconcile_topology c now None 120
      in vip_owner_ids topology = [node_id active] \<and>
         (\<not> dhcp_managed r \<or> dhcp_owner_ids topology = [node_id active]) \<and>
         (\<not> dhcp_managed r \<or> dhcp_unknown_node_ids topology = []) \<and>
         dns_healthy active = Some True \<and>
         topology_safe topology)"

section \<open>State changes shared by the phases\<close>

definition assign_role :: "int \<Rightarrow> ha_node \<Rightarrow> ha_node" where
  "assign_role target n = pending_agent
     (n\<lparr>desired_role := (if node_id n = target then ''ACTIVE'' else ''STANDBY''),
        vrrp_priority := Some (if node_id n = target then 150 else 100)\<rparr>)"

definition move_vip ::
  "ha_env \<Rightarrow> int \<Rightarrow> ha_cluster \<times> ha_failover_run \<Rightarrow> ha_cluster \<times> ha_failover_run" where
  "move_vip env target cr =
     (case cr of (c, r) \<Rightarrow>
        ((update_all_nodes (assign_role target) c)
           \<lparr>cluster_generation := cluster_generation c + 1,
            keepalived_generation := keepalived_generation c + 1,
            keepalived_status := ''PENDING_AGENT'',
            keepalived_requested_at := Some (env_now env),
            cluster_status := ''DEPLOYING''\<rparr>,
         r\<lparr>report := (report r)\<lparr>rep_vip_move_started_at := Some (env_now env)\<rparr>\<rparr>))"

definition safe_failure ::
  "ha_env \<Rightarrow> string \<Rightarrow> ha_cluster \<times> ha_failover_run \<Rightarrow> ha_cluster \<times> ha_failover_run" where
  "safe_failure env message cr =
     (case cr of (c, r) \<Rightarrow>
        (let r' = r\<lparr>run_status := FAILED_SAFE, run_phase := PHASE_FAILED_SAFE,
                    error_redacted := Some (take 1000 message)\<rparr>
         in (run_event env r' ''controlled_failover_failed_safe'' ''critical'' (take 1000 message)
               (c\<lparr>cluster_status := ''DEGRADED''\<rparr>), r')))"

text \<open>A new role generation, shared by the cluster and the run it fences.\<close>

definition bump_role_generation :: "ha_cluster \<times> ha_failover_run \<Rightarrow> ha_cluster \<times> ha_failover_run" where
  "bump_role_generation cr =
     (case cr of (c, r) \<Rightarrow>
        (c\<lparr>role_generation := role_generation c + 1, cluster_generation := cluster_generation c + 1\<rparr>,
         r\<lparr>run_role_generation := role_generation c + 1\<rparr>))"

definition restore_dhcp_after_failed_vip_move ::
  "ha_env \<Rightarrow> string \<Rightarrow> ha_node \<Rightarrow> ha_cluster \<times> ha_failover_run \<Rightarrow> ha_cluster \<times> ha_failover_run" where
  "restore_dhcp_after_failed_vip_move env message source cr =
     (case cr of (c, r) \<Rightarrow>
        (case bump_role_generation
                (c\<lparr>cluster_status := ''DEGRADED'', maintenance_mode := True\<rparr>,
                 r\<lparr>run_status := ROLLING_BACK, run_phase := ROLLBACK_PROMOTING_SOURCE,
                   error_redacted := Some (take 1000 message)\<rparr>) of
           (c', r') \<Rightarrow>
             (run_event env r' ''controlled_failover_auto_recovery_started'' ''critical''
                (''The virtual IP did not move. '' @ display_name source @
                 '' retained exclusive ownership, so Kaya is restoring DHCP there automatically.'') c', r')))"

text \<open>
  The condition of a repair: fresh reports, the intended node exclusively holds the virtual IP, no
  other node serves DHCP or might, and the intended node is healthy but has not converged.
\<close>

definition dhcp_repair_is_safe :: "time \<Rightarrow> ha_cluster \<Rightarrow> ha_node \<Rightarrow> ha_node \<Rightarrow> bool" where
  "dhcp_repair_is_safe now c active standby \<longleftrightarrow>
     (let topology = reconcile_topology c now None 120;
          active_obs = dhcp_observation active now None 120;
          standby_obs = dhcp_observation standby now None 120
      in topology_fresh topology \<and>
         vip_owner_ids topology = [node_id active] \<and>
         dhcp_unknown_node_ids topology = [] \<and>
         length (dhcp_owner_ids topology) \<le> 1 \<and>
         (dhcp_owner_ids topology = [] \<or> dhcp_owner_ids topology = [node_id active]) \<and>
         dns_healthy active = Some True \<and>
         ftl_active active = Some True \<and>
         obs_released standby_obs \<and>
         obs_configured standby_obs = Some False \<and>
         (obs_configured active_obs \<noteq> Some True \<or> \<not> obs_active active_obs))"

definition queue_safe_dhcp_repair ::
  "ha_env \<Rightarrow> ha_node \<Rightarrow> ha_node \<Rightarrow> bool \<Rightarrow> ha_cluster \<times> ha_failover_run \<Rightarrow>
   (ha_cluster \<times> ha_failover_run) option" where
  "queue_safe_dhcp_repair env active standby rolled_back cr =
     (case cr of (c, r) \<Rightarrow>
        (let rep = report r;
             attempts = (if rolled_back then rep_rollback_dhcp_self_heal_attempts rep
                         else rep_dhcp_self_heal_attempts rep)
         in if \<not> dhcp_repair_is_safe (env_now env) c active standby then None
            else if attempts \<ge> 1 then None
            else
              (let rep1 = (if rolled_back
                           then rep\<lparr>rep_rollback_dhcp_self_heal_attempts := attempts + 1\<rparr>
                           else rep\<lparr>rep_dhcp_self_heal_attempts := attempts + 1\<rparr>);
                   rep2 = rep1\<lparr>rep_warnings := rep_warnings rep1 @
                     [display_name active @ '' owned the Virtual IP but DHCP configuration/runtime had not converged; Kaya queued one safe configuration repair.'']\<rparr>;
                   (c', r1) = bump_role_generation (c, r\<lparr>report := rep2\<rparr>);
                   r' = r1\<lparr>run_phase := (if rolled_back then ROLLBACK_PROMOTING_SOURCE else PROMOTING_TARGET)\<rparr>
               in Some (run_event env r' ''dhcp_configuration_drift_detected'' ''warning''
                          (''Active DHCP configuration drift detected on '' @ display_name active @
                           ''. Standby ownership was verified safe before one bounded repair attempt.'') c', r'))))"

definition queue_safe_dhcp_release_retry ::
  "ha_env \<Rightarrow> ha_node \<Rightarrow> bool \<Rightarrow> ha_cluster \<times> ha_failover_run \<Rightarrow>
   (ha_cluster \<times> ha_failover_run) option" where
  "queue_safe_dhcp_release_retry env n rolled_back cr =
     (case cr of (c, r) \<Rightarrow>
        (let obs = dhcp_observation n (env_now env) None 120;
             rep = report r;
             attempts = (if rolled_back then rep_rollback_dhcp_release_repair_attempts rep
                         else rep_dhcp_release_repair_attempts rep)
         in if obs_status obs \<noteq> ''FRESH'' \<or> obs_listening obs \<noteq> Some False \<or> obs_configured obs = Some False
            then None
            else if attempts \<ge> 1 then None
            else
              (let rep1 = (if rolled_back
                           then rep\<lparr>rep_rollback_dhcp_release_repair_attempts := attempts + 1\<rparr>
                           else rep\<lparr>rep_dhcp_release_repair_attempts := attempts + 1\<rparr>);
                   (c', r1) = bump_role_generation (c, r\<lparr>report := rep1\<rparr>);
                   r' = r1\<lparr>run_phase := (if rolled_back then ROLLBACK_DEMOTING_TARGET else DEMOTING_SOURCE)\<rparr>
               in Some (run_event env r' ''dhcp_configuration_drift_detected'' ''warning''
                          (display_name n @ '' released UDP port 67 but its DHCP configuration remained enabled. Kaya queued one idempotent disable repair before continuing.'') c', r'))))"

definition complete_run ::
  "ha_env \<Rightarrow> bool \<Rightarrow> ha_node \<Rightarrow> ha_node \<Rightarrow> ha_cluster \<times> ha_failover_run \<Rightarrow> ha_cluster \<times> ha_failover_run" where
  "complete_run env rolled_back source target cr =
     (case cr of (c, r) \<Rightarrow>
        (let active = (if rolled_back then source else target);
             standby = (if rolled_back then target else source);
             c1 = update_node (node_id active) (\<lambda>n. n\<lparr>role := ''ACTIVE'', desired_role := ''ACTIVE''\<rparr>) c;
             c2 = update_node (node_id standby) (\<lambda>n. n\<lparr>role := ''STANDBY'', desired_role := ''STANDBY''\<rparr>) c1;
             c3 = update_all_nodes pending_agent c2;
             c4 = c3\<lparr>current_active_node_id := Some (node_id active),
                     authoritative_node_id := Some (node_id active),
                     last_failover_at := Some (env_now env),
                     maintenance_mode := False,
                     cluster_generation := cluster_generation c + 1,
                     keepalived_generation := keepalived_generation c + 1,
                     keepalived_status := ''PENDING_AGENT'',
                     keepalived_requested_at := Some (env_now env),
                     cluster_status := ''DEPLOYING''\<rparr>;
             r' = r\<lparr>run_status := (if rolled_back then ROLLED_BACK else SUCCEEDED),
                    run_phase := (if rolled_back then PHASE_ROLLED_BACK else COMPLETE),
                    completed_at := Some (env_now env),
                    error_redacted := (if rolled_back then error_redacted r else None)\<rparr>;
             kind = transition_kind r';
             event_type = (if rolled_back then ''controlled_failover_rolled_back''
                           else if kind = ''FAILBACK'' then ''controlled_failback_completed''
                           else ''controlled_failover_completed'');
             message = ''Controlled '' @ lower kind @ '' completed with '' @ display_name active @
               '' active. Automatic failback remains disabled.'' @
               (if rep_warnings (report r') \<noteq> [] \<and> \<not> rolled_back
                then '' A transient step warning was retained for diagnostics; the requested final topology was verified.''
                else [])
         in (run_event env r' event_type (if rolled_back then ''warning'' else ''info'') message c4, r')))"

section \<open>Actions for the agents and their results\<close>

record failover_action =
  fa_action_id :: string
  fa_action_type :: dhcp_action
  fa_generation :: int
  fa_checksum :: string
  fa_run_id :: string
  fa_automatic :: bool
  fa_lease_generation :: int
  fa_restore_original :: bool
  fa_owner_handover_authorised :: bool

text \<open>Which action the phase of a run asks of a node, before the demotion gate is consulted.\<close>

definition phase_action :: "ha_failover_run \<Rightarrow> ha_node \<Rightarrow> (dhcp_action \<times> bool) option" where
  "phase_action r n =
     (if run_phase r = DEMOTING_SOURCE \<and> node_id n = run_source_node_id r then Some (DHCP_DEMOTE, False)
      else if run_phase r = PROMOTING_TARGET \<and> node_id n = run_target_node_id r then Some (DHCP_PROMOTE, False)
      else if run_phase r = ROLLBACK_DEMOTING_TARGET \<and> node_id n = run_target_node_id r then Some (DHCP_DEMOTE, False)
      else if run_phase r = ROLLBACK_PROMOTING_SOURCE \<and> node_id n = run_source_node_id r then Some (DHCP_PROMOTE, True)
      else None)"

definition build_action ::
  "ha_env \<Rightarrow> ha_failover_run \<Rightarrow> ha_node \<Rightarrow> dhcp_action \<Rightarrow> bool \<Rightarrow> bool \<Rightarrow> failover_action" where
  "build_action env r n a restore handover =
     \<lparr>fa_action_id = ''failover:'' @ run_public_id r @ '':'' @ lower (action_name a) @ '':'' @ node_public_id n,
      fa_action_type = a, fa_generation = run_role_generation r,
      fa_checksum = action_checksum (env_sha256 env) r n (action_name a),
      fa_run_id = run_public_id r, fa_automatic = False,
      fa_lease_generation = run_lease_generation r, fa_restore_original = restore,
      fa_owner_handover_authorised = handover\<rparr>"

definition desired_failover_action :: "ha_env \<Rightarrow> ha_cluster \<Rightarrow> ha_node \<Rightarrow> failover_action option" where
  "desired_failover_action env c n =
     (case active_failover c of
        None \<Rightarrow> None
      | Some r \<Rightarrow>
          (case phase_action r n of
             None \<Rightarrow> None
           | Some (DHCP_PROMOTE, restore) \<Rightarrow> Some (build_action env r n DHCP_PROMOTE restore False)
           | Some (DHCP_DEMOTE, restore) \<Rightarrow>
               (let replacement = node_by_id c (if run_phase r = DEMOTING_SOURCE
                                                then run_target_node_id r else run_source_node_id r);
                    d = authorise_dhcp_demotion c n replacement True False (env_now env) 120
                in if allowed d then Some (build_action env r n DHCP_DEMOTE restore (owner_handover d))
                   else None)))"

text \<open>The phase that follows a reported action, whatever its outcome.\<close>

fun result_phase :: "run_phase \<Rightarrow> run_phase option" where
  "result_phase DEMOTING_SOURCE = Some VERIFYING_SOURCE_DHCP_RELEASE"
| "result_phase PROMOTING_TARGET = Some VERIFYING_TARGET"
| "result_phase ROLLBACK_DEMOTING_TARGET = Some VERIFYING_ROLLBACK_TARGET_RELEASE"
| "result_phase ROLLBACK_PROMOTING_SOURCE = Some ROLLBACK_VERIFYING_SOURCE"
| "result_phase _ = None"

definition mismatch_error :: failover_error where
  "mismatch_error = HAFailoverError ''The failover result does not match the current transition generation.''"

definition record_failover_action_result ::
  "ha_env \<Rightarrow> ha_cluster \<Rightarrow> ha_node \<Rightarrow> string \<Rightarrow> int \<Rightarrow> string option \<Rightarrow> string \<Rightarrow> string \<Rightarrow>
   failover_error + ha_cluster" where
  "record_failover_action_result env c n action_type generation checksum status message =
     (case (active_failover c, desired_failover_action env c n) of
        (Some r, Some expected) \<Rightarrow>
          if generation \<noteq> run_role_generation r \<or> checksum \<noteq> Some (fa_checksum expected)
          then Inl mismatch_error
          else if status \<noteq> ''APPLIED'' then
            (let r1 = mark_verification_started (env_now env) (record_transition_warning message r)
             in case result_phase (run_phase r1) of
                  Some p \<Rightarrow>
                    (let r2 = r1\<lparr>run_phase := p\<rparr>
                     in Inr (store_run r2 (run_event env r2 ''dhcp_transition_verification_warning'' ''warning''
                          (display_name n @ '' returned an unexpected DHCP transition result. Kaya is inspecting both fixed transition participants before deciding the outcome.'') c)))
                | None \<Rightarrow>
                    (case safe_failure env (text_or message (action_type @ '' failed safely.'')) (c, r1) of
                       (c', r') \<Rightarrow> Inr (store_run r' c')))
          else
            (case result_phase (run_phase r) of
               Some p \<Rightarrow> Inr (store_run (mark_verification_started (env_now env) (r\<lparr>run_phase := p\<rparr>)) c)
             | None \<Rightarrow> Inr c)
      | _ \<Rightarrow> Inl mismatch_error)"

section \<open>Advancing a run\<close>

definition verifying_phase :: "run_phase \<Rightarrow> bool" where
  "verifying_phase p \<longleftrightarrow>
     startswith ''VERIFYING_'' (phase_name p) \<or> p \<in> {VERIFYING_TARGET, ROLLBACK_VERIFYING_SOURCE}"

definition attempts_of :: "ha_failover_run \<Rightarrow> run_phase \<Rightarrow> int" where
  "attempts_of r p =
     (case map_of (rep_verification_attempts (report r)) (phase_name p) of None \<Rightarrow> 0 | Some k \<Rightarrow> k)"

definition count_verification_attempt :: "ha_failover_run \<Rightarrow> ha_failover_run" where
  "count_verification_attempt r =
     (if verifying_phase (run_phase r)
      then r\<lparr>report := (report r)\<lparr>rep_verification_attempts :=
             alist_put (phase_name (run_phase r)) (attempts_of r (run_phase r) + 1)
               (rep_verification_attempts (report r))\<rparr>\<rparr>
      else r)"

definition vip_move_failure :: "ha_cluster \<Rightarrow> ha_node \<Rightarrow> string" where
  "vip_move_failure c expected =
     (let owners = map display_name (filter vip_owned (nodes c));
          deployments = join '', '' (map (\<lambda>n. display_name n @ '': '' @
            lower (map (\<lambda>ch. if ch = CHR ''_'' then CHR '' '' else ch) (node_keepalived_status n))) (nodes c));
          owner_text = (if owners \<noteq> [] then join '', '' owners else ''none reported'')
      in ''Virtual IP handover did not converge within 60 seconds. Expected '' @ display_name expected @
         '' to become the only owner; current owner reports: '' @ owner_text @
         ''. Keepalived deployment reports: '' @ deployments @ ''. Use safe rollback after checking both agents.'')"

text \<open>
  The two release-verification phases: continue with the virtual-IP move once the node has released
  DHCP, retry once, or stop safely after 45 seconds.
\<close>

definition verify_release ::
  "ha_env \<Rightarrow> ha_node \<Rightarrow> int \<Rightarrow> bool \<Rightarrow> ha_cluster \<times> ha_failover_run \<Rightarrow> ha_cluster \<times> ha_failover_run" where
  "verify_release env n next_owner rolled_back cr =
     (case cr of (c, r) \<Rightarrow>
        if node_dhcp_released (env_now env) n then
          (case move_vip env next_owner
                  (c, r\<lparr>run_phase := (if rolled_back then ROLLBACK_MOVING_VIP else MOVING_VIP)\<rparr>) of
             (c', r') \<Rightarrow>
               (run_event env r' ''dhcp_release_verified'' ''info''
                  (display_name n @ '' released DHCP after bounded final-state verification. '' @
                   (if rolled_back then ''Safe rollback is continuing.'' else ''The handover is continuing.'')) c', r'))
        else if env_now env - verification_started_at r > seconds 45 then
          (case queue_safe_dhcp_release_retry env n rolled_back (c, r) of
             Some cr' \<Rightarrow> cr'
           | None \<Rightarrow> safe_failure env
               (display_name n @ '' still reports DHCP configured or UDP port 67 listening after the bounded release window. '' @
                (if rolled_back then ''Rollback stopped to prevent split DHCP.''
                 else ''The transition stopped before another DHCP owner was enabled.'')) (c, r))
        else (c, r))"

definition vip_move_step ::
  "ha_env \<Rightarrow> ha_node \<Rightarrow> ha_node \<Rightarrow> ha_cluster \<times> ha_failover_run \<Rightarrow> ha_cluster \<times> ha_failover_run" where
  "vip_move_step env source target cr =
     (case cr of (c, r) \<Rightarrow>
        (let forward = (run_phase r = MOVING_VIP);
             expected = (if forward then target else source);
             other = (if forward then source else target)
         in if vip_owned expected \<and> \<not> vip_owned other \<and>
               list_all (\<lambda>n. node_keepalived_status n = ''DEPLOYED'') (nodes c)
            then (c, r\<lparr>run_phase :=
                    (if forward then (if dhcp_managed r then PROMOTING_TARGET else VERIFYING_TARGET)
                     else (if dhcp_managed r then ROLLBACK_PROMOTING_SOURCE else ROLLBACK_VERIFYING_SOURCE))\<rparr>)
            else if env_now env - vip_move_started_at r > seconds 60 then
              (if forward \<and> dhcp_managed r \<and> vip_owned source \<and> \<not> vip_owned target \<and>
                  node_dhcp_released (env_now env) target
               then restore_dhcp_after_failed_vip_move env (vip_move_failure c expected) source (c, r)
               else safe_failure env (vip_move_failure c expected) (c, r))
            else (c, r)))"

definition phase_step ::
  "ha_env \<Rightarrow> ha_node \<Rightarrow> ha_node \<Rightarrow> ha_cluster \<times> ha_failover_run \<Rightarrow> ha_cluster \<times> ha_failover_run" where
  "phase_step env source target cr =
     (case cr of (c, r) \<Rightarrow>
        if run_phase r = WAITING_FOR_LEASES \<and>
           (case lease_replication c of None \<Rightarrow> False
            | Some st \<Rightarrow> lr_status st = ''CURRENT'' \<and> applied_generation st \<ge> run_lease_generation r)
        then (c, r\<lparr>run_phase := DEMOTING_SOURCE\<rparr>)
        else if run_phase r = VERIFYING_SOURCE_DHCP_RELEASE
        then verify_release env source (node_id target) False (c, r)
        else if run_phase r = VERIFYING_ROLLBACK_TARGET_RELEASE
        then verify_release env target (node_id source) True (c, r)
        else if run_phase r = ROLLBACK_DEMOTING_TARGET \<and> vip_owned source \<and> \<not> vip_owned target \<and>
                node_dhcp_released (env_now env) target
        then (c, r\<lparr>run_phase := ROLLBACK_PROMOTING_SOURCE\<rparr>)
        else if run_phase r = MOVING_VIP \<or> run_phase r = ROLLBACK_MOVING_VIP
        then vip_move_step env source target (c, r)
        else (c, r))"

definition verify_step ::
  "ha_env \<Rightarrow> ha_node \<Rightarrow> ha_node \<Rightarrow> ha_cluster \<times> ha_failover_run \<Rightarrow> ha_cluster \<times> ha_failover_run" where
  "verify_step env source target cr =
     (case cr of (c, r) \<Rightarrow>
        (let now = env_now env in
         if run_phase r = VERIFYING_TARGET then
           (if requested_topology_is_verified now c r target
            then complete_run env False source target (c, r)
            else if now - verification_started_at r > seconds 30 then
              (case queue_safe_dhcp_repair env target source False (c, r) of
                 Some cr' \<Rightarrow> cr'
               | None \<Rightarrow>
                   (let owners = map display_name (filter (node_dhcp_active now) (nodes c))
                    in safe_failure env (''DHCP failed to start on '' @ display_name target @ '': '' @
                         dhcp_activation_failure_detail now target @
                         ''. Final topology verification did not converge within 30 seconds; current DHCP owners: '' @
                         (if owners \<noteq> [] then join '', '' owners else ''none confirmed'') @ ''.'') (c, r)))
            else (c, r))
         else if run_phase r = ROLLBACK_VERIFYING_SOURCE then
           (if requested_topology_is_verified now c r source
            then complete_run env True source target (c, r)
            else if now - verification_started_at r > seconds 30 then
              (case queue_safe_dhcp_repair env source target True (c, r) of
                 Some cr' \<Rightarrow> cr'
               | None \<Rightarrow> safe_failure env (display_name source @
                   '' did not report a fully restored DNS and DHCP topology within 30 seconds during rollback. Manual recovery is required; Kaya will not enable another DHCP owner.'') (c, r))
            else (c, r))
         else (c, r)))"

definition advance_run ::
  "ha_env \<Rightarrow> ha_node \<Rightarrow> ha_node \<Rightarrow> ha_cluster \<times> ha_failover_run \<Rightarrow> ha_cluster \<times> ha_failover_run" where
  "advance_run env source target cr =
     (case cr of (c, r) \<Rightarrow>
        (let now = env_now env in
         if \<not> dhcp_managed r \<and> pihole_manages_dhcp c then
           publish_transition_notification env ''failed'' target
             (safe_failure env ''The handover was stopped because this Pi-hole cluster manages DHCP, but the transition had been started as DNS-only. No further ownership change was attempted. Use safe rollback to return to the last owner.''
               (c, r\<lparr>dhcp_managed := True\<rparr>))
         else if run_status r = RUNNING \<and> requested_topology_is_verified now c r target then
           publish_transition_notification env ''completed'' target (complete_run env False source target (c, r))
         else if run_status r = ROLLING_BACK \<and> requested_topology_is_verified now c r source then
           complete_run env True source target (c, r)
         else
           (let cr' = verify_step env source target
                        (phase_step env source target (c, count_verification_attempt r))
            in if run_status (snd cr') = SUCCEEDED
               then publish_transition_notification env ''completed'' target cr'
               else if run_status (snd cr') = FAILED_SAFE
               then publish_transition_notification env ''failed'' target cr'
               else cr')))"

definition advance_failover :: "ha_env \<Rightarrow> ha_cluster \<Rightarrow> failover_error + ha_cluster \<times> ha_failover_run option" where
  "advance_failover env c =
     (case active_failover c of
        None \<Rightarrow> Inr (c, None)
      | Some r \<Rightarrow>
          (case (node_by_id c (run_source_node_id r), node_by_id c (run_target_node_id r)) of
             (Some source, Some target) \<Rightarrow>
               (case advance_run env source target (c, r) of
                  (c', r') \<Rightarrow> Inr (store_run r' c', Some r'))
           | _ \<Rightarrow> Inl DanglingNode))"

section \<open>Rollback\<close>

definition recover_unhealthy_active :: "ha_failover_run \<Rightarrow> ha_node \<Rightarrow> ha_node \<Rightarrow> bool" where
  "recover_unhealthy_active r source target \<longleftrightarrow>
     run_status r = SUCCEEDED \<and> vip_owned target \<and> dns_healthy target \<noteq> Some True \<and>
     dns_healthy source = Some True"

definition rollback_run ::
  "ha_env \<Rightarrow> ha_node \<Rightarrow> ha_node \<Rightarrow> ha_cluster \<times> ha_failover_run \<Rightarrow> ha_cluster \<times> ha_failover_run" where
  "rollback_run env source target cr =
     (case cr of (c, r) \<Rightarrow>
        (let now = env_now env;
             unhealthy = recover_unhealthy_active r source target
         in case bump_role_generation (c\<lparr>maintenance_mode := True\<rparr>, r\<lparr>run_status := ROLLING_BACK\<rparr>) of
              (c1, r1) \<Rightarrow>
                (let keeps_vip = (vip_owned source \<and> \<not> vip_owned target) in
                 if keeps_vip \<and> (\<not> dhcp_managed r1 \<or> node_dhcp_active now source)
                 then complete_run env True source target (c1, r1)
                 else if keeps_vip \<and> dhcp_managed r1 \<and> node_dhcp_released now target
                 then
                   (let r2 = r1\<lparr>run_phase := ROLLBACK_PROMOTING_SOURCE,
                               error_redacted := Some (opt_text_or (error_redacted r1)
                                 ''The original node retained the virtual IP and DHCP is being restored there.'')\<rparr>
                    in (run_event env r2 ''controlled_failover_rollback_started'' ''warning''
                          (''Direct DHCP recovery on '' @ display_name source @
                           '' started because it retained exclusive virtual-IP ownership.'') c1, r2))
                 else
                   (let r2 = r1\<lparr>run_phase := ROLLBACK_DEMOTING_TARGET,
                               error_redacted := Some (opt_text_or (error_redacted r1)
                                 (if unhealthy then ''The promoted node reported unhealthy DNS after handover.''
                                  else ''Operator requested rollback.''))\<rparr>
                    in (run_event env r2 ''controlled_failover_rollback_started'' ''warning''
                          (''Rollback to '' @ display_name source @ '' started.'') c1, r2)))))"

definition request_failover_rollback ::
  "ha_env \<Rightarrow> ha_cluster \<Rightarrow> ha_failover_run \<Rightarrow> bool \<Rightarrow> failover_error + ha_cluster" where
  "request_failover_rollback env c r acknowledged =
     (case (node_by_id c (run_source_node_id r), node_by_id c (run_target_node_id r)) of
        (Some source, Some target) \<Rightarrow>
          if \<not> acknowledged \<or> (run_status r \<noteq> FAILED_SAFE \<and> \<not> recover_unhealthy_active r source target)
          then Inl (HAFailoverError ''Confirm rollback of the failed controlled transition.'')
          else (case rollback_run env source target (c, r) of (c', r') \<Rightarrow> Inr (store_run r' c'))
      | _ \<Rightarrow> Inl DanglingNode)"

section \<open>Frame conditions\<close>

named_theorems run_frame \<open>what the shared state changes write and what they leave alone\<close>

lemma run_event_frame [run_frame, simp]:
  "nodes (run_event env r et sev msg c) = nodes c"
  "failover_runs (run_event env r et sev msg c) = failover_runs c"
  "role_generation (run_event env r et sev msg c) = role_generation c"
  "cluster_generation (run_event env r et sev msg c) = cluster_generation c"
  "maintenance_mode (run_event env r et sev msg c) = maintenance_mode c"
  "deployment_mode_column (run_event env r et sev msg c) = deployment_mode_column c"
  by (simp_all add: run_event_def add_event_def)

lemma publish_and_record_frame [run_frame, simp]:
  "nodes (fst (publish_and_record env st nt cr)) = nodes (fst cr)"
  "failover_runs (fst (publish_and_record env st nt cr)) = failover_runs (fst cr)"
  "role_generation (fst (publish_and_record env st nt cr)) = role_generation (fst cr)"
  "cluster_generation (fst (publish_and_record env st nt cr)) = cluster_generation (fst cr)"
  "maintenance_mode (fst (publish_and_record env st nt cr)) = maintenance_mode (fst cr)"
  "run_id (snd (publish_and_record env st nt cr)) = run_id (snd cr)"
  "run_source_node_id (snd (publish_and_record env st nt cr)) = run_source_node_id (snd cr)"
  "run_target_node_id (snd (publish_and_record env st nt cr)) = run_target_node_id (snd cr)"
  "run_status (snd (publish_and_record env st nt cr)) = run_status (snd cr)"
  "run_phase (snd (publish_and_record env st nt cr)) = run_phase (snd cr)"
  "dhcp_managed (snd (publish_and_record env st nt cr)) = dhcp_managed (snd cr)"
  "run_role_generation (snd (publish_and_record env st nt cr)) = run_role_generation (snd cr)"
  "created_at (snd (publish_and_record env st nt cr)) = created_at (snd cr)"
  by (cases cr; simp add: publish_and_record_def Let_def split: option.split)+

lemma publish_transition_notification_frame [run_frame, simp]:
  "nodes (fst (publish_transition_notification env st t cr)) = nodes (fst cr)"
  "failover_runs (fst (publish_transition_notification env st t cr)) = failover_runs (fst cr)"
  "role_generation (fst (publish_transition_notification env st t cr)) = role_generation (fst cr)"
  "cluster_generation (fst (publish_transition_notification env st t cr)) = cluster_generation (fst cr)"
  "maintenance_mode (fst (publish_transition_notification env st t cr)) = maintenance_mode (fst cr)"
  "run_id (snd (publish_transition_notification env st t cr)) = run_id (snd cr)"
  "run_source_node_id (snd (publish_transition_notification env st t cr)) = run_source_node_id (snd cr)"
  "run_target_node_id (snd (publish_transition_notification env st t cr)) = run_target_node_id (snd cr)"
  "run_status (snd (publish_transition_notification env st t cr)) = run_status (snd cr)"
  "run_phase (snd (publish_transition_notification env st t cr)) = run_phase (snd cr)"
  "dhcp_managed (snd (publish_transition_notification env st t cr)) = dhcp_managed (snd cr)"
  "run_role_generation (snd (publish_transition_notification env st t cr)) = run_role_generation (snd cr)"
  "created_at (snd (publish_transition_notification env st t cr)) = created_at (snd cr)"
  by (cases cr; simp add: publish_transition_notification_def Let_def)+

lemma safe_failure_frame [run_frame, simp]:
  "nodes (fst (safe_failure env msg cr)) = nodes (fst cr)"
  "failover_runs (fst (safe_failure env msg cr)) = failover_runs (fst cr)"
  "role_generation (fst (safe_failure env msg cr)) = role_generation (fst cr)"
  "cluster_generation (fst (safe_failure env msg cr)) = cluster_generation (fst cr)"
  "run_id (snd (safe_failure env msg cr)) = run_id (snd cr)"
  "run_source_node_id (snd (safe_failure env msg cr)) = run_source_node_id (snd cr)"
  "run_target_node_id (snd (safe_failure env msg cr)) = run_target_node_id (snd cr)"
  "run_status (snd (safe_failure env msg cr)) = FAILED_SAFE"
  "run_phase (snd (safe_failure env msg cr)) = PHASE_FAILED_SAFE"
  "dhcp_managed (snd (safe_failure env msg cr)) = dhcp_managed (snd cr)"
  "run_role_generation (snd (safe_failure env msg cr)) = run_role_generation (snd cr)"
  "created_at (snd (safe_failure env msg cr)) = created_at (snd cr)"
  by (cases cr; simp add: safe_failure_def Let_def)+

lemma complete_run_frame [run_frame, simp]:
  "failover_runs (fst (complete_run env rb s t cr)) = failover_runs (fst cr)"
  "role_generation (fst (complete_run env rb s t cr)) = role_generation (fst cr)"
  "cluster_generation (fst (complete_run env rb s t cr)) = cluster_generation (fst cr) + 1"
  "maintenance_mode (fst (complete_run env rb s t cr)) = False"
  "run_id (snd (complete_run env rb s t cr)) = run_id (snd cr)"
  "run_source_node_id (snd (complete_run env rb s t cr)) = run_source_node_id (snd cr)"
  "run_target_node_id (snd (complete_run env rb s t cr)) = run_target_node_id (snd cr)"
  "run_status (snd (complete_run env rb s t cr)) = (if rb then ROLLED_BACK else SUCCEEDED)"
  "run_phase (snd (complete_run env rb s t cr)) = (if rb then PHASE_ROLLED_BACK else COMPLETE)"
  "dhcp_managed (snd (complete_run env rb s t cr)) = dhcp_managed (snd cr)"
  "run_role_generation (snd (complete_run env rb s t cr)) = run_role_generation (snd cr)"
  "created_at (snd (complete_run env rb s t cr)) = created_at (snd cr)"
  by (cases cr; simp add: complete_run_def Let_def update_node_def update_all_nodes_def)+

lemma complete_run_node_ids [run_frame, simp]:
  "map node_id (nodes (fst (complete_run env rb s t cr))) = map node_id (nodes (fst cr))"
  by (cases cr) (auto simp: complete_run_def Let_def pending_agent_def)

lemma count_verification_attempt_frame [run_frame, simp]:
  "run_id (count_verification_attempt r) = run_id r"
  "run_source_node_id (count_verification_attempt r) = run_source_node_id r"
  "run_target_node_id (count_verification_attempt r) = run_target_node_id r"
  "run_status (count_verification_attempt r) = run_status r"
  "run_phase (count_verification_attempt r) = run_phase r"
  "dhcp_managed (count_verification_attempt r) = dhcp_managed r"
  "run_role_generation (count_verification_attempt r) = run_role_generation r"
  "created_at (count_verification_attempt r) = created_at r"
  "started_at (count_verification_attempt r) = started_at r"
  by (simp_all add: count_verification_attempt_def)

lemma move_vip_frame [run_frame, simp]:
  "failover_runs (fst (move_vip env i cr)) = failover_runs (fst cr)"
  "role_generation (fst (move_vip env i cr)) = role_generation (fst cr)"
  "map node_id (nodes (fst (move_vip env i cr))) = map node_id (nodes (fst cr))"
  "run_id (snd (move_vip env i cr)) = run_id (snd cr)"
  "run_source_node_id (snd (move_vip env i cr)) = run_source_node_id (snd cr)"
  "run_target_node_id (snd (move_vip env i cr)) = run_target_node_id (snd cr)"
  "run_status (snd (move_vip env i cr)) = run_status (snd cr)"
  "run_phase (snd (move_vip env i cr)) = run_phase (snd cr)"
  "dhcp_managed (snd (move_vip env i cr)) = dhcp_managed (snd cr)"
  "run_role_generation (snd (move_vip env i cr)) = run_role_generation (snd cr)"
  "created_at (snd (move_vip env i cr)) = created_at (snd cr)"
  by (cases cr; simp add: move_vip_def update_all_nodes_def assign_role_def pending_agent_def comp_def)+

lemma mark_verification_started_frame [run_frame, simp]:
  "run_id (mark_verification_started now r) = run_id r"
  "run_status (mark_verification_started now r) = run_status r"
  "run_phase (mark_verification_started now r) = run_phase r"
  "dhcp_managed (mark_verification_started now r) = dhcp_managed r"
  "run_source_node_id (mark_verification_started now r) = run_source_node_id r"
  "run_target_node_id (mark_verification_started now r) = run_target_node_id r"
  "run_role_generation (mark_verification_started now r) = run_role_generation r"
  by (simp_all add: mark_verification_started_def)

lemma record_transition_warning_frame [run_frame, simp]:
  "run_id (record_transition_warning msg r) = run_id r"
  "run_status (record_transition_warning msg r) = run_status r"
  "run_phase (record_transition_warning msg r) = run_phase r"
  "dhcp_managed (record_transition_warning msg r) = dhcp_managed r"
  "run_source_node_id (record_transition_warning msg r) = run_source_node_id r"
  "run_target_node_id (record_transition_warning msg r) = run_target_node_id r"
  "run_role_generation (record_transition_warning msg r) = run_role_generation r"
  by (simp_all add: record_transition_warning_def Let_def)

end
