(* ===== verification/HA_Failover_Safety.thy ===== *)
theory HA_Failover_Safety
  imports HA_Failover
begin

text \<open>
  Correctness of the failover engine. The diagram of a controlled transition is stated as an
  abstract machine (\<open>phase_edge\<close>), each edge with the evidence it needs; the executable model is
  shown to move only along the diagram (\<open>advance_run_refines\<close>), and the safety properties are
  proved on the diagram and carried back: a node is told to start DHCP only after the other
  participant has been observed to have released it in the same run, a run succeeds only in the
  verified final topology, every waiting phase with a deadline is left once the deadline has passed,
  repairs are bounded, and results of another generation are refused.
\<close>

section \<open>The diagram of a transition\<close>

fun phase_ok :: "run_status \<Rightarrow> run_phase \<Rightarrow> bool" where
  "phase_ok RUNNING p \<longleftrightarrow> p \<in> set (butlast FORWARD_PHASES)"
| "phase_ok ROLLING_BACK p \<longleftrightarrow> p \<in> set (butlast ROLLBACK_PHASES)"
| "phase_ok FAILED_SAFE p \<longleftrightarrow> p = PHASE_FAILED_SAFE"
| "phase_ok SUCCEEDED p \<longleftrightarrow> p = COMPLETE"
| "phase_ok ROLLED_BACK p \<longleftrightarrow> p = PHASE_ROLLED_BACK"

lemma phase_ok_running [simp]:
  "phase_ok RUNNING p \<longleftrightarrow> p \<in> {WAITING_FOR_LEASES, DEMOTING_SOURCE, VERIFYING_SOURCE_DHCP_RELEASE,
     MOVING_VIP, PROMOTING_TARGET, VERIFYING_TARGET}"
  by (simp add: FORWARD_PHASES_def)

lemma phase_ok_rolling_back [simp]:
  "phase_ok ROLLING_BACK p \<longleftrightarrow> p \<in> {ROLLBACK_DEMOTING_TARGET, VERIFYING_ROLLBACK_TARGET_RELEASE,
     ROLLBACK_MOVING_VIP, ROLLBACK_PROMOTING_SOURCE, ROLLBACK_VERIFYING_SOURCE}"
  by (simp add: ROLLBACK_PHASES_def)

declare phase_ok.simps(1,2) [simp del]

record evidence =
  source_released :: bool
  target_released :: bool
  source_verified :: bool
  target_verified :: bool

type_synonym run_point = "run_status \<times> run_phase"

inductive phase_edge :: "evidence \<Rightarrow> bool \<Rightarrow> run_point \<Rightarrow> run_point \<Rightarrow> bool" for e m where
  leases_current: "phase_edge e m (RUNNING, WAITING_FOR_LEASES) (RUNNING, DEMOTING_SOURCE)"
| demote_reported: "phase_edge e m (RUNNING, DEMOTING_SOURCE) (RUNNING, VERIFYING_SOURCE_DHCP_RELEASE)"
| release_verified: "source_released e \<Longrightarrow>
    phase_edge e m (RUNNING, VERIFYING_SOURCE_DHCP_RELEASE) (RUNNING, MOVING_VIP)"
| release_retried: "phase_edge e m (RUNNING, VERIFYING_SOURCE_DHCP_RELEASE) (RUNNING, DEMOTING_SOURCE)"
| vip_moved: "m \<Longrightarrow> phase_edge e m (RUNNING, MOVING_VIP) (RUNNING, PROMOTING_TARGET)"
| vip_moved_dns_only: "\<not> m \<Longrightarrow> phase_edge e m (RUNNING, MOVING_VIP) (RUNNING, VERIFYING_TARGET)"
| vip_kept: "m \<Longrightarrow> target_released e \<Longrightarrow>
    phase_edge e m (RUNNING, MOVING_VIP) (ROLLING_BACK, ROLLBACK_PROMOTING_SOURCE)"
| promote_reported: "phase_edge e m (RUNNING, PROMOTING_TARGET) (RUNNING, VERIFYING_TARGET)"
| promote_repaired: "m \<Longrightarrow> source_released e \<Longrightarrow>
    phase_edge e m (RUNNING, VERIFYING_TARGET) (RUNNING, PROMOTING_TARGET)"
| completed: "target_verified e \<Longrightarrow> phase_edge e m (RUNNING, p) (SUCCEEDED, COMPLETE)"
| rollback_demote_reported:
    "phase_edge e m (ROLLING_BACK, ROLLBACK_DEMOTING_TARGET) (ROLLING_BACK, VERIFYING_ROLLBACK_TARGET_RELEASE)"
| rollback_direct: "target_released e \<Longrightarrow>
    phase_edge e m (ROLLING_BACK, ROLLBACK_DEMOTING_TARGET) (ROLLING_BACK, ROLLBACK_PROMOTING_SOURCE)"
| rollback_release_verified: "target_released e \<Longrightarrow>
    phase_edge e m (ROLLING_BACK, VERIFYING_ROLLBACK_TARGET_RELEASE) (ROLLING_BACK, ROLLBACK_MOVING_VIP)"
| rollback_release_retried:
    "phase_edge e m (ROLLING_BACK, VERIFYING_ROLLBACK_TARGET_RELEASE) (ROLLING_BACK, ROLLBACK_DEMOTING_TARGET)"
| rollback_vip_moved: "m \<Longrightarrow>
    phase_edge e m (ROLLING_BACK, ROLLBACK_MOVING_VIP) (ROLLING_BACK, ROLLBACK_PROMOTING_SOURCE)"
| rollback_vip_moved_dns_only: "\<not> m \<Longrightarrow>
    phase_edge e m (ROLLING_BACK, ROLLBACK_MOVING_VIP) (ROLLING_BACK, ROLLBACK_VERIFYING_SOURCE)"
| rollback_promote_reported:
    "phase_edge e m (ROLLING_BACK, ROLLBACK_PROMOTING_SOURCE) (ROLLING_BACK, ROLLBACK_VERIFYING_SOURCE)"
| rollback_promote_repaired: "m \<Longrightarrow> target_released e \<Longrightarrow>
    phase_edge e m (ROLLING_BACK, ROLLBACK_VERIFYING_SOURCE) (ROLLING_BACK, ROLLBACK_PROMOTING_SOURCE)"
| rolled_back: "source_verified e \<Longrightarrow> phase_edge e m (ROLLING_BACK, p) (ROLLED_BACK, PHASE_ROLLED_BACK)"
| failed: "st = RUNNING \<or> st = ROLLING_BACK \<Longrightarrow> phase_edge e m (st, p) (FAILED_SAFE, PHASE_FAILED_SAFE)"

abbreviation run_point :: "ha_failover_run \<Rightarrow> run_point" where
  "run_point r \<equiv> (run_status r, run_phase r)"

abbreviation phase_path :: "evidence \<Rightarrow> bool \<Rightarrow> run_point \<Rightarrow> run_point \<Rightarrow> bool" where
  "phase_path e m \<equiv> (phase_edge e m)\<^sup>*\<^sup>*"

lemma phase_edge_ok: "phase_edge e m x y \<Longrightarrow> phase_ok (fst x) (snd x) \<Longrightarrow> phase_ok (fst y) (snd y)"
  by (induction rule: phase_edge.induct) auto

lemma phase_path_ok: "phase_path e m x y \<Longrightarrow> phase_ok (fst x) (snd x) \<Longrightarrow> phase_ok (fst y) (snd y)"
  by (induction rule: rtranclp_induct) (auto dest: phase_edge_ok)

lemmas edge_intros = phase_edge.intros [THEN r_into_rtranclp [where r = "phase_edge e m" for e m]]

section \<open>The model refines the diagram\<close>

text \<open>
  \<open>participants\<close>: the two node rows an operation works on are the run's source and target in this
  cluster, with unique primary keys.
\<close>

definition participants :: "ha_cluster \<Rightarrow> ha_failover_run \<Rightarrow> ha_node \<Rightarrow> ha_node \<Rightarrow> bool" where
  "participants c r s t \<longleftrightarrow>
     node_by_id c (run_source_node_id r) = Some s \<and> node_by_id c (run_target_node_id r) = Some t \<and>
     distinct (map node_id (nodes c))"

definition evidence_of :: "time \<Rightarrow> ha_cluster \<Rightarrow> ha_failover_run \<Rightarrow> ha_node \<Rightarrow> ha_node \<Rightarrow> evidence" where
  "evidence_of now c r s t =
     \<lparr>source_released = node_dhcp_released now s, target_released = node_dhcp_released now t,
      source_verified = requested_topology_is_verified now c r s,
      target_verified = requested_topology_is_verified now c r t\<rparr>"

lemma evidence_of_sel [simp]:
  "source_released (evidence_of now c r s t) = node_dhcp_released now s"
  "target_released (evidence_of now c r s t) = node_dhcp_released now t"
  "source_verified (evidence_of now c r s t) = requested_topology_is_verified now c r s"
  "target_verified (evidence_of now c r s t) = requested_topology_is_verified now c r t"
  by (simp_all add: evidence_of_def)

lemma participants_mem:
  assumes "participants c r s t"
  shows "s \<in> set (nodes c)" and "t \<in> set (nodes c)"
    and "node_id s = run_source_node_id r" and "node_id t = run_target_node_id r"
  using assms by (auto simp: participants_def dest: node_by_id_SomeD)

lemma bump_role_generation_sel [simp]:
  "snd (bump_role_generation (c, r)) = r\<lparr>run_role_generation := role_generation c + 1\<rparr>"
  "fst (bump_role_generation (c, r)) =
     c\<lparr>role_generation := role_generation c + 1, cluster_generation := cluster_generation c + 1\<rparr>"
  by (simp_all add: bump_role_generation_def)

text \<open>What a queued repair leaves of the run.\<close>

lemma queue_safe_dhcp_repair_Some:
  assumes "queue_safe_dhcp_repair env a s rb (c, r) = Some cr'"
  shows "(run_status (snd cr') = run_status r) \<and>
    (run_phase (snd cr') = (if rb then ROLLBACK_PROMOTING_SOURCE else PROMOTING_TARGET)) \<and>
    (dhcp_managed (snd cr') = dhcp_managed r) \<and>
    (run_id (snd cr') = run_id r) \<and>
    (run_source_node_id (snd cr') = run_source_node_id r) \<and>
    (run_target_node_id (snd cr') = run_target_node_id r) \<and>
    (run_role_generation (snd cr') = role_generation c + 1) \<and>
    (role_generation (fst cr') = role_generation c + 1) \<and>
    (nodes (fst cr') = nodes c) \<and>
    (failover_runs (fst cr') = failover_runs c) \<and>
    (node_dhcp_released (env_now env) s) \<and>
    (vip_owner_ids (reconcile_topology c (env_now env) None 120) = [node_id a]) \<and>
    (dns_healthy a = Some True)"
proof -
  from assms have safe: "dhcp_repair_is_safe (env_now env) c a s"
    by (simp add: queue_safe_dhcp_repair_def Let_def split: if_split_asm)
  then have "node_dhcp_released (env_now env) s \<and> dns_healthy a = Some True \<and>
      vip_owner_ids (reconcile_topology c (env_now env) None 120) = [node_id a]"
    by (simp add: dhcp_repair_is_safe_def node_dhcp_released_def Let_def)
  with assms safe show ?thesis
    by (auto simp: queue_safe_dhcp_repair_def Let_def bump_role_generation_def
        simp del: append_Cons split: if_split_asm)
qed

lemma queue_safe_dhcp_repair_SomeD:
  assumes "queue_safe_dhcp_repair env a s rb (c, r) = Some cr'"
  shows "run_status (snd cr') = run_status r"
    and "run_phase (snd cr') = (if rb then ROLLBACK_PROMOTING_SOURCE else PROMOTING_TARGET)"
    and "dhcp_managed (snd cr') = dhcp_managed r" and "run_id (snd cr') = run_id r"
    and "run_source_node_id (snd cr') = run_source_node_id r"
    and "run_target_node_id (snd cr') = run_target_node_id r"
    and "run_role_generation (snd cr') = role_generation c + 1"
    and "role_generation (fst cr') = role_generation c + 1"
    and "nodes (fst cr') = nodes c"
    and "failover_runs (fst cr') = failover_runs c"
    and "node_dhcp_released (env_now env) s"
    and "vip_owner_ids (reconcile_topology c (env_now env) None 120) = [node_id a]"
    and "dns_healthy a = Some True"
  using queue_safe_dhcp_repair_Some [OF assms] by simp_all

lemma queue_safe_dhcp_release_retry_Some:
  assumes "queue_safe_dhcp_release_retry env n rb (c, r) = Some cr'"
  shows "(run_status (snd cr') = run_status r) \<and>
    (run_phase (snd cr') = (if rb then ROLLBACK_DEMOTING_TARGET else DEMOTING_SOURCE)) \<and>
    (dhcp_managed (snd cr') = dhcp_managed r) \<and>
    (run_id (snd cr') = run_id r) \<and>
    (run_source_node_id (snd cr') = run_source_node_id r) \<and>
    (run_target_node_id (snd cr') = run_target_node_id r) \<and>
    (run_role_generation (snd cr') = role_generation c + 1) \<and>
    (role_generation (fst cr') = role_generation c + 1) \<and>
    (nodes (fst cr') = nodes c) \<and>
    (failover_runs (fst cr') = failover_runs c)"
  using assms
  by (auto simp: queue_safe_dhcp_release_retry_def Let_def bump_role_generation_def
      simp del: append_Cons split: if_splits)

lemma queue_safe_dhcp_release_retry_SomeD:
  assumes "queue_safe_dhcp_release_retry env n rb (c, r) = Some cr'"
  shows "run_status (snd cr') = run_status r"
    and "run_phase (snd cr') = (if rb then ROLLBACK_DEMOTING_TARGET else DEMOTING_SOURCE)"
    and "dhcp_managed (snd cr') = dhcp_managed r" and "run_id (snd cr') = run_id r"
    and "run_source_node_id (snd cr') = run_source_node_id r"
    and "run_target_node_id (snd cr') = run_target_node_id r"
    and "run_role_generation (snd cr') = role_generation c + 1"
    and "role_generation (fst cr') = role_generation c + 1"
    and "nodes (fst cr') = nodes c"
    and "failover_runs (fst cr') = failover_runs c"
  using queue_safe_dhcp_release_retry_Some [OF assms] by simp_all

text \<open>
  On a cluster that does not manage DHCP the conditions of a repair already verify the topology,
  so a DNS-only run never queues one.
\<close>

lemma dns_only_verified:
  assumes "\<not> pihole_manages_dhcp c" and "\<not> dhcp_managed r"
    and "vip_owner_ids (reconcile_topology c now None 120) = [node_id a]"
    and "dns_healthy a = Some True" and "a \<in> set (nodes c)" and "distinct (map node_id (nodes c))"
  shows "requested_topology_is_verified now c r a"
proof -
  from assms(3) obtain n where n: "vip_owners c now None 120 = [n]" and id: "node_id n = node_id a"
    by (auto simp: map_eq_Cons_conv)
  then have own: "sole_owner c now None 120 = Some n" by (simp add: sole_owner_iff)
  from sole_owner_SomeD(2) [OF own] assms(5,6) id have "n = a"
    by (auto intro: distinct_map_unique)
  with own n assms show ?thesis
    by (simp add: requested_topology_is_verified_def safe_verdict_def service_ok_def
        configuration_consistent_def Let_def)
qed

lemma restore_dhcp_frame [run_frame, simp]:
  "run_status (snd (restore_dhcp_after_failed_vip_move env msg s cr)) = ROLLING_BACK"
  "run_phase (snd (restore_dhcp_after_failed_vip_move env msg s cr)) = ROLLBACK_PROMOTING_SOURCE"
  "dhcp_managed (snd (restore_dhcp_after_failed_vip_move env msg s cr)) = dhcp_managed (snd cr)"
  "run_id (snd (restore_dhcp_after_failed_vip_move env msg s cr)) = run_id (snd cr)"
  "run_source_node_id (snd (restore_dhcp_after_failed_vip_move env msg s cr)) = run_source_node_id (snd cr)"
  "run_target_node_id (snd (restore_dhcp_after_failed_vip_move env msg s cr)) = run_target_node_id (snd cr)"
  "run_role_generation (snd (restore_dhcp_after_failed_vip_move env msg s cr)) = role_generation (fst cr) + 1"
  "role_generation (fst (restore_dhcp_after_failed_vip_move env msg s cr)) = role_generation (fst cr) + 1"
  "nodes (fst (restore_dhcp_after_failed_vip_move env msg s cr)) = nodes (fst cr)"
  "failover_runs (fst (restore_dhcp_after_failed_vip_move env msg s cr)) = failover_runs (fst cr)"
  by (cases cr; simp add: restore_dhcp_after_failed_vip_move_def bump_role_generation_def)+

text \<open>Run identity and participants survive every step.\<close>

definition same_run :: "ha_failover_run \<Rightarrow> ha_failover_run \<Rightarrow> bool" where
  "same_run r r' \<longleftrightarrow> run_id r' = run_id r \<and> run_source_node_id r' = run_source_node_id r \<and>
     run_target_node_id r' = run_target_node_id r"

lemma verify_release_cases:
  obtains (wait) "verify_release env n i rb (c, r) = (c, r)"
      "\<not> node_dhcp_released (env_now env) n" "env_now env - verification_started_at r \<le> seconds 45"
  | (move) "node_dhcp_released (env_now env) n"
      "snd (verify_release env n i rb (c, r)) =
         snd (move_vip env i (c, r\<lparr>run_phase := (if rb then ROLLBACK_MOVING_VIP else MOVING_VIP)\<rparr>))"
  | (retry) cr' where "\<not> node_dhcp_released (env_now env) n"
      "queue_safe_dhcp_release_retry env n rb (c, r) = Some cr'" "verify_release env n i rb (c, r) = cr'"
  | (fail) msg where "\<not> node_dhcp_released (env_now env) n"
      "verify_release env n i rb (c, r) = safe_failure env msg (c, r)"
proof -
  let ?v = "verify_release env n i rb (c, r)"
  show thesis
  proof (cases "node_dhcp_released (env_now env) n")
    case True
    then have "snd ?v = snd (move_vip env i (c, r\<lparr>run_phase := (if rb then ROLLBACK_MOVING_VIP else MOVING_VIP)\<rparr>))"
      by (simp add: verify_release_def case_prod_beta)
    with True show thesis by (rule move)
  next
    case False
    show thesis
    proof (cases "env_now env - verification_started_at r > seconds 45")
      case late: True
      show thesis
      proof (cases "queue_safe_dhcp_release_retry env n rb (c, r)")
        case None
        with False late show thesis by (intro fail) (auto simp: verify_release_def)
      next
        case (Some cr')
        with False late show thesis by (intro retry) (auto simp: verify_release_def)
      qed
    next
      case early: False
      with False show thesis by (intro wait) (auto simp: verify_release_def)
    qed
  qed
qed

lemma vip_move_step_cases:
  defines "fwd \<equiv> (\<lambda>r. run_phase r = MOVING_VIP)"
  obtains (wait) "vip_move_step env s t (c, r) = (c, r)"
      "env_now env - vip_move_started_at r \<le> seconds 60"
  | (moved) "vip_move_step env s t (c, r) = (c, r\<lparr>run_phase :=
         (if fwd r then (if dhcp_managed r then PROMOTING_TARGET else VERIFYING_TARGET)
          else (if dhcp_managed r then ROLLBACK_PROMOTING_SOURCE else ROLLBACK_VERIFYING_SOURCE))\<rparr>)"
  | (restore) msg where "fwd r" "dhcp_managed r" "node_dhcp_released (env_now env) t"
      "vip_move_step env s t (c, r) = restore_dhcp_after_failed_vip_move env msg s (c, r)"
  | (fail) msg where "vip_move_step env s t (c, r) = safe_failure env msg (c, r)"
proof -
  let ?x = "if fwd r then t else s" and ?y = "if fwd r then s else t"
  let ?ok = "vip_owned ?x \<and> \<not> vip_owned ?y \<and> list_all (\<lambda>n. node_keepalived_status n = ''DEPLOYED'') (nodes c)"
  let ?late = "env_now env - vip_move_started_at r > seconds 60"
  let ?kept = "fwd r \<and> dhcp_managed r \<and> vip_owned s \<and> \<not> vip_owned t \<and> node_dhcp_released (env_now env) t"
  have eq: "vip_move_step env s t (c, r) =
      (if ?ok then (c, r\<lparr>run_phase :=
         (if fwd r then (if dhcp_managed r then PROMOTING_TARGET else VERIFYING_TARGET)
          else (if dhcp_managed r then ROLLBACK_PROMOTING_SOURCE else ROLLBACK_VERIFYING_SOURCE))\<rparr>)
       else if ?late then
         (if ?kept then restore_dhcp_after_failed_vip_move env (vip_move_failure c ?x) s (c, r)
          else safe_failure env (vip_move_failure c ?x) (c, r))
       else (c, r))"
    by (simp add: vip_move_step_def Let_def fwd_def)
  consider "?ok" | "\<not> ?ok" "?late" "?kept" | "\<not> ?ok" "?late" "\<not> ?kept" | "\<not> ?ok" "\<not> ?late"
    by blast
  then show thesis
  proof cases
    case 1
    with eq show thesis by (intro moved) simp
  next
    case 2
    then have "vip_move_step env s t (c, r) = restore_dhcp_after_failed_vip_move env (vip_move_failure c ?x) s (c, r)"
      by (simp only: eq if_True if_False simp_thms)
    with 2 show thesis by (intro restore) simp_all
  next
    case 3
    then have "vip_move_step env s t (c, r) = safe_failure env (vip_move_failure c ?x) (c, r)"
      by (simp only: eq if_True if_False)
    then show thesis by (rule fail)
  next
    case 4
    then have "vip_move_step env s t (c, r) = (c, r)" by (simp only: eq if_True if_False)
    moreover have "env_now env - vip_move_started_at r \<le> seconds 60" using 4(2) by linarith
    ultimately show thesis by (rule wait)
  qed
qed

lemma verify_release_source_refines:
  assumes "run_point r = (RUNNING, VERIFYING_SOURCE_DHCP_RELEASE)"
    and "source_released e = node_dhcp_released (env_now env) s"
  shows "phase_path e m (run_point r) (run_point (snd (verify_release env s i False (c, r))))"
proof (cases rule: verify_release_cases [of env s i False c r])
  case (retry cr')
  with assms queue_safe_dhcp_release_retry_SomeD(1,2) [OF retry(2)] show ?thesis
    by (auto intro: edge_intros)
qed (use assms in \<open>auto intro: edge_intros\<close>)

lemma verify_release_target_refines:
  assumes "run_point r = (ROLLING_BACK, VERIFYING_ROLLBACK_TARGET_RELEASE)"
    and "target_released e = node_dhcp_released (env_now env) t"
  shows "phase_path e m (run_point r) (run_point (snd (verify_release env t i True (c, r))))"
proof (cases rule: verify_release_cases [of env t i True c r])
  case (retry cr')
  with assms queue_safe_dhcp_release_retry_SomeD(1,2) [OF retry(2)] show ?thesis
    by (auto intro: edge_intros)
qed (use assms in \<open>auto intro: edge_intros\<close>)

lemma vip_move_step_refines:
  assumes "run_point r \<in> {(RUNNING, MOVING_VIP), (ROLLING_BACK, ROLLBACK_MOVING_VIP)}"
    and "target_released e = node_dhcp_released (env_now env) t"
  shows "phase_path e (dhcp_managed r) (run_point r) (run_point (snd (vip_move_step env s t (c, r))))"
  using assms
  by (cases rule: vip_move_step_cases [of env s t c r]) (auto intro: edge_intros)

lemma phase_step_refines:
  assumes ok: "phase_ok (run_status r) (run_phase r)" and act: "active_run r"
    and ev: "source_released e = node_dhcp_released (env_now env) s" "target_released e = node_dhcp_released (env_now env) t"
  shows "phase_path e (dhcp_managed r) (run_point r) (run_point (snd (phase_step env s t (c, r))))"
proof -
  consider (src) "run_point r = (RUNNING, VERIFYING_SOURCE_DHCP_RELEASE)"
    | (tgt) "run_point r = (ROLLING_BACK, VERIFYING_ROLLBACK_TARGET_RELEASE)"
    | (vip) "run_point r \<in> {(RUNNING, MOVING_VIP), (ROLLING_BACK, ROLLBACK_MOVING_VIP)}"
    | (other) "run_phase r \<notin> {VERIFYING_SOURCE_DHCP_RELEASE, VERIFYING_ROLLBACK_TARGET_RELEASE, MOVING_VIP, ROLLBACK_MOVING_VIP}"
    using ok act by (auto simp: active_run_def)
  then show ?thesis
  proof cases
    case src
    then have "phase_step env s t (c, r) = verify_release env s (node_id t) False (c, r)"
      by (simp add: phase_step_def)
    then show ?thesis using verify_release_source_refines [OF src ev(1)] by simp
  next
    case tgt
    then have "phase_step env s t (c, r) = verify_release env t (node_id s) True (c, r)"
      by (simp add: phase_step_def)
    then show ?thesis using verify_release_target_refines [OF tgt ev(2)] by simp
  next
    case vip
    then have "phase_step env s t (c, r) = vip_move_step env s t (c, r)"
      by (auto simp: phase_step_def)
    then show ?thesis using vip_move_step_refines [OF vip ev(2)] by simp
  next
    case other
    with ok act ev show ?thesis
      by (auto simp: phase_step_def active_run_def intro: edge_intros)
  qed
qed

lemma verify_release_same:
  "same_run r (snd (verify_release env n i rb (c, r))) \<and>
   dhcp_managed (snd (verify_release env n i rb (c, r))) = dhcp_managed r"
proof (cases rule: verify_release_cases [of env n i rb c r])
  case (retry cr')
  with queue_safe_dhcp_release_retry_SomeD(3-6) [OF retry(2)] show ?thesis by (simp add: same_run_def)
qed (simp_all add: same_run_def)

lemma vip_move_step_same:
  "same_run r (snd (vip_move_step env s t (c, r))) \<and>
   dhcp_managed (snd (vip_move_step env s t (c, r))) = dhcp_managed r"
  by (cases rule: vip_move_step_cases [of env s t c r]) (simp_all add: same_run_def)

lemma phase_step_same:
  "same_run r (snd (phase_step env s t (c, r))) \<and>
   dhcp_managed (snd (phase_step env s t (c, r))) = dhcp_managed r"
  using verify_release_same [of r] vip_move_step_same [of r]
  by (simp add: phase_step_def same_run_def)

text \<open>A phase step that leads into a verification phase leaves the cluster rows alone.\<close>

lemma verify_release_not_verifying:
  assumes "run_phase r \<in> {VERIFYING_SOURCE_DHCP_RELEASE, VERIFYING_ROLLBACK_TARGET_RELEASE}"
  shows "run_phase (snd (verify_release env n i rb (c, r))) \<notin> {VERIFYING_TARGET, ROLLBACK_VERIFYING_SOURCE}"
proof (cases rule: verify_release_cases [of env n i rb c r])
  case (retry cr')
  with queue_safe_dhcp_release_retry_SomeD(2) [OF retry(2)] show ?thesis by simp
qed (use assms in auto)

lemma vip_move_step_verifying:
  assumes "run_phase (snd (vip_move_step env s t (c, r))) \<in> {VERIFYING_TARGET, ROLLBACK_VERIFYING_SOURCE}"
  shows "fst (vip_move_step env s t (c, r)) = c"
  using assms by (cases rule: vip_move_step_cases [of env s t c r]) simp_all

lemma phase_step_verifying:
  assumes "run_phase (snd (phase_step env s t (c, r))) \<in> {VERIFYING_TARGET, ROLLBACK_VERIFYING_SOURCE}"
  shows "fst (phase_step env s t (c, r)) = c"
  using assms vip_move_step_verifying [of env s t c r] verify_release_not_verifying [of r]
  by (auto simp: phase_step_def split: if_splits)

lemma verify_step_cases:
  fixes r :: ha_failover_run
  defines "verified \<equiv> (\<lambda>env c r n. requested_topology_is_verified (env_now env) c r n)"
  assumes point: "run_phase r = VERIFYING_TARGET \<and> a = t \<and> b = s \<and> rb = False \<or>
                  run_phase r = ROLLBACK_VERIFYING_SOURCE \<and> a = s \<and> b = t \<and> rb = True"
  obtains (finish) "verified env c r a" "verify_step env s t (c, r) = complete_run env rb s t (c, r)"
  | (wait) "\<not> verified env c r a" "env_now env - verification_started_at r \<le> seconds 30"
      "verify_step env s t (c, r) = (c, r)"
  | (repair) cr' where "\<not> verified env c r a" "queue_safe_dhcp_repair env a b rb (c, r) = Some cr'"
      "verify_step env s t (c, r) = cr'"
  | (fail) msg where "\<not> verified env c r a" "verify_step env s t (c, r) = safe_failure env msg (c, r)"
proof (cases "verified env c r a")
  case True
  with point show thesis by (intro finish) (auto simp: verify_step_def Let_def verified_def)
next
  case False
  show thesis
  proof (cases "env_now env - verification_started_at r > seconds 30")
    case late: True
    show thesis
    proof (cases "queue_safe_dhcp_repair env a b rb (c, r)")
      case None
      with point False late have "\<exists>msg. verify_step env s t (c, r) = safe_failure env msg (c, r)"
        by (elim disjE) (auto simp: verify_step_def Let_def verified_def)
      with False show thesis by (blast intro: fail)
    next
      case (Some cr')
      with point False late show thesis
        by (intro repair) (auto simp: verify_step_def Let_def verified_def)
    qed
  next
    case early: False
    with point False show thesis by (intro wait) (auto simp: verify_step_def Let_def verified_def)
  qed
qed

lemma verify_step_other:
  "run_phase r \<notin> {VERIFYING_TARGET, ROLLBACK_VERIFYING_SOURCE} \<Longrightarrow> verify_step env s t (c, r) = (c, r)"
  by (simp add: verify_step_def Let_def)

lemma repair_needs_managed:
  assumes "queue_safe_dhcp_repair env a b rb (c, r) = Some cr'"
    and "\<not> requested_topology_is_verified (env_now env) c r a"
    and "a \<in> set (nodes c)" and "distinct (map node_id (nodes c))"
    and "dhcp_managed r \<or> \<not> pihole_manages_dhcp c"
  shows "dhcp_managed r"
  using queue_safe_dhcp_repair_SomeD(12,13) [OF assms(1)] dns_only_verified [of c r "env_now env" a] assms
  by blast

lemma verify_step_refines:
  assumes ok: "phase_ok (run_status r) (run_phase r)"
    and p: "participants c r s t" and dns: "dhcp_managed r \<or> \<not> pihole_manages_dhcp c"
  shows "phase_path (evidence_of (env_now env) c r s t) (dhcp_managed r) (run_point r)
           (run_point (snd (verify_step env s t (c, r))))"
proof -
  note mem = participants_mem [OF p]
  have dist: "distinct (map node_id (nodes c))" using p by (simp add: participants_def)
  consider (target) "run_point r = (RUNNING, VERIFYING_TARGET)"
    | (source) "run_point r = (ROLLING_BACK, ROLLBACK_VERIFYING_SOURCE)"
    | (other) "run_phase r \<notin> {VERIFYING_TARGET, ROLLBACK_VERIFYING_SOURCE}"
    using ok by (cases "run_status r") auto
  then show ?thesis
  proof cases
    case target
    then have pt: "run_phase r = VERIFYING_TARGET \<and> t = t \<and> s = s \<and> False = False \<or>
                   run_phase r = ROLLBACK_VERIFYING_SOURCE \<and> t = s \<and> s = t \<and> False = True" by simp
    from pt show ?thesis
    proof (cases rule: verify_step_cases [where env = env and c = c])
      case (repair cr')
      with target queue_safe_dhcp_repair_SomeD(1,2,11) [OF repair(2)] repair_needs_managed [OF repair(2,1) mem(2) dist dns]
      show ?thesis by (auto intro: edge_intros)
    qed (use target in \<open>auto intro: edge_intros\<close>)
  next
    case source
    then have pt: "run_phase r = VERIFYING_TARGET \<and> s = t \<and> t = s \<and> True = False \<or>
                   run_phase r = ROLLBACK_VERIFYING_SOURCE \<and> s = s \<and> t = t \<and> True = True" by simp
    from pt show ?thesis
    proof (cases rule: verify_step_cases [where env = env and c = c])
      case (repair cr')
      with source queue_safe_dhcp_repair_SomeD(1,2,11) [OF repair(2)] repair_needs_managed [OF repair(2,1) mem(1) dist dns]
      show ?thesis by (auto intro: edge_intros)
    qed (use source in \<open>auto intro: edge_intros\<close>)
  next
    case other
    then show ?thesis by (simp add: verify_step_other)
  qed
qed

lemma verify_step_same:
  "same_run r (snd (verify_step env s t (c, r))) \<and>
   dhcp_managed (snd (verify_step env s t (c, r))) = dhcp_managed r"
proof -
  have *: "same_run r (snd (verify_step env s t (c, r))) \<and>
      dhcp_managed (snd (verify_step env s t (c, r))) = dhcp_managed r"
    if pt: "run_phase r = VERIFYING_TARGET \<and> a = t \<and> b = s \<and> rb = False \<or>
      run_phase r = ROLLBACK_VERIFYING_SOURCE \<and> a = s \<and> b = t \<and> rb = True" for a b rb
    using pt
  proof (cases rule: verify_step_cases [where env = env and c = c])
    case (repair cr')
    with queue_safe_dhcp_repair_SomeD(3-6) [OF repair(2)] show ?thesis by (simp add: same_run_def)
  qed (simp_all add: same_run_def)
  show ?thesis
    using * [of t s False] * [of s t True]
    by (cases "run_phase r \<in> {VERIFYING_TARGET, ROLLBACK_VERIFYING_SOURCE}") (auto simp: verify_step_other same_run_def)
qed

lemma participants_same_run:
  "participants c r s t \<Longrightarrow> same_run r r' \<Longrightarrow> participants c r' s t"
  by (simp add: participants_def same_run_def)

lemma requested_topology_cong:
  "dhcp_managed r' = dhcp_managed r \<Longrightarrow>
   requested_topology_is_verified now c r' n = requested_topology_is_verified now c r n"
  by (simp add: requested_topology_is_verified_def)

lemma evidence_of_cong: "dhcp_managed r' = dhcp_managed r \<Longrightarrow> evidence_of now c r' s t = evidence_of now c r s t"
  by (simp add: evidence_of_def requested_topology_cong [of r' r])

text \<open>The phase and the verification part of one advance, composed.\<close>

lemma phase_then_verify_refines:
  assumes ok: "phase_ok (run_status r) (run_phase r)" and act: "active_run r"
    and p: "participants c r s t" and dns: "dhcp_managed r \<or> \<not> pihole_manages_dhcp c"
  shows "phase_path (evidence_of (env_now env) c r s t) (dhcp_managed r) (run_point r)
           (run_point (snd (verify_step env s t (phase_step env s t (c, r)))))"
proof -
  let ?e = "evidence_of (env_now env) c r s t"
  obtain c1 r1 where st: "phase_step env s t (c, r) = (c1, r1)" by fastforce
  have path1: "phase_path ?e (dhcp_managed r) (run_point r) (run_point r1)"
    using phase_step_refines [OF ok act, where e = ?e and env = env and s = s and t = t and c = c] st by simp
  have same: "same_run r r1" "dhcp_managed r1 = dhcp_managed r"
    using phase_step_same [of r env s t c] st by simp_all
  show ?thesis
  proof (cases "run_phase r1 \<in> {VERIFYING_TARGET, ROLLBACK_VERIFYING_SOURCE}")
    case False
    with st path1 show ?thesis by (simp add: verify_step_other)
  next
    case True
    with st have c1: "c1 = c" using phase_step_verifying [of env s t c r] by simp
    have ok1: "phase_ok (run_status r1) (run_phase r1)"
      using phase_path_ok [OF path1] ok by simp
    have "phase_path (evidence_of (env_now env) c r1 s t) (dhcp_managed r1) (run_point r1)
            (run_point (snd (verify_step env s t (c, r1))))"
      by (rule verify_step_refines [OF ok1 participants_same_run [OF p same(1)]]) (use dns same in simp)
    then have "phase_path ?e (dhcp_managed r) (run_point r1) (run_point (snd (verify_step env s t (c, r1))))"
      by (simp only: evidence_of_cong [OF same(2)] same(2))
    with path1 have "phase_path ?e (dhcp_managed r) (run_point r) (run_point (snd (verify_step env s t (c, r1))))"
      by (rule rtranclp_trans)
    with st c1 show ?thesis by simp
  qed
qed

lemma advance_run_cases:
  obtains (misclassified) "\<not> dhcp_managed r" "pihole_manages_dhcp c"
      "run_point (snd (advance_run env s t (c, r))) = (FAILED_SAFE, PHASE_FAILED_SAFE)"
      "same_run r (snd (advance_run env s t (c, r)))"
      "dhcp_managed (snd (advance_run env s t (c, r)))"
  | (completed) "dhcp_managed r \<or> \<not> pihole_manages_dhcp c" "run_status r = RUNNING"
      "requested_topology_is_verified (env_now env) c r t"
      "run_point (snd (advance_run env s t (c, r))) = (SUCCEEDED, COMPLETE)"
      "same_run r (snd (advance_run env s t (c, r)))"
      "dhcp_managed (snd (advance_run env s t (c, r))) = dhcp_managed r"
  | (rolled_back) "dhcp_managed r \<or> \<not> pihole_manages_dhcp c" "run_status r = ROLLING_BACK"
      "requested_topology_is_verified (env_now env) c r s"
      "run_point (snd (advance_run env s t (c, r))) = (ROLLED_BACK, PHASE_ROLLED_BACK)"
      "same_run r (snd (advance_run env s t (c, r)))"
      "dhcp_managed (snd (advance_run env s t (c, r))) = dhcp_managed r"
  | (phases) r1 where "dhcp_managed r \<or> \<not> pihole_manages_dhcp c"
      "r1 = snd (verify_step env s t (phase_step env s t (c, count_verification_attempt r)))"
      "run_point (snd (advance_run env s t (c, r))) = run_point r1"
      "same_run r (snd (advance_run env s t (c, r)))"
      "dhcp_managed (snd (advance_run env s t (c, r))) = dhcp_managed r"
proof -
  let ?a = "advance_run env s t (c, r)" and ?now = "env_now env"
  let ?cr = "verify_step env s t (phase_step env s t (c, count_verification_attempt r))"
  consider (1) "\<not> dhcp_managed r \<and> pihole_manages_dhcp c"
    | (2) "dhcp_managed r \<or> \<not> pihole_manages_dhcp c" "run_status r = RUNNING \<and> requested_topology_is_verified ?now c r t"
    | (3) "dhcp_managed r \<or> \<not> pihole_manages_dhcp c" "run_status r = ROLLING_BACK \<and> requested_topology_is_verified ?now c r s"
    | (4) "dhcp_managed r \<or> \<not> pihole_manages_dhcp c"
        "\<not> (run_status r = RUNNING \<and> requested_topology_is_verified ?now c r t)"
        "\<not> (run_status r = ROLLING_BACK \<and> requested_topology_is_verified ?now c r s)"
    by blast
  then show thesis
  proof cases
    case 1
    then show thesis by (intro misclassified) (simp_all add: advance_run_def same_run_def Let_def)
  next
    case 2
    then show thesis by (intro completed) (auto simp: advance_run_def same_run_def Let_def)
  next
    case 3
    then show thesis by (intro rolled_back) (auto simp: advance_run_def same_run_def Let_def)
  next
    case 4
    obtain c1 r1 where st: "phase_step env s t (c, count_verification_attempt r) = (c1, r1)" by fastforce
    from 4 have eq: "run_point (snd ?a) = run_point (snd ?cr)" "run_id (snd ?a) = run_id (snd ?cr)"
        "run_source_node_id (snd ?a) = run_source_node_id (snd ?cr)"
        "run_target_node_id (snd ?a) = run_target_node_id (snd ?cr)"
        "dhcp_managed (snd ?a) = dhcp_managed (snd ?cr)"
      by (auto simp: advance_run_def Let_def)
    have "same_run r (snd ?cr) \<and> dhcp_managed (snd ?cr) = dhcp_managed r"
      using phase_step_same [of "count_verification_attempt r" env s t c] verify_step_same [of r1 env s t c1] st
      by (simp add: same_run_def)
    with 4(1) eq show thesis by (intro phases [OF _ refl]) (simp_all add: same_run_def)
  qed
qed

lemma advance_run_refines_aux:
  assumes "phase_ok (run_status r) (run_phase r)" and "active_run r" and "participants c r s t"
  shows "phase_path (evidence_of (env_now env) c r s t) (dhcp_managed r) (run_point r)
           (run_point (snd (advance_run env s t (c, r)))) \<and>
         phase_ok (run_status (snd (advance_run env s t (c, r)))) (run_phase (snd (advance_run env s t (c, r))))"
proof -
  let ?r' = "snd (advance_run env s t (c, r))" and ?e = "evidence_of (env_now env) c r s t"
  have "phase_path ?e (dhcp_managed r) (run_point r) (run_point ?r')"
  proof (cases rule: advance_run_cases [of r c env s t])
    case misclassified
    with assms(2) show ?thesis by (auto simp: active_run_def intro: edge_intros)
  next
    case completed
    then show ?thesis by (auto intro: edge_intros)
  next
    case rolled_back
    then show ?thesis by (auto intro: edge_intros)
  next
    case (phases r1)
    let ?q = "count_verification_attempt r"
    have "phase_path (evidence_of (env_now env) c ?q s t) (dhcp_managed ?q) (run_point ?q) (run_point r1)"
      unfolding phases(2)
      by (rule phase_then_verify_refines)
        (use assms phases(1) in \<open>simp_all add: active_run_def participants_def\<close>)
    with phases(3) show ?thesis by (simp add: evidence_of_cong [of ?q r])
  qed
  with phase_path_ok [OF this] assms(1) show ?thesis by simp
qed

text \<open>
  C3. Refinement: one advance of a run in the code moves its status and phase only along the diagram
  of the transition, using no more evidence than the cluster rows show at that moment. In
  particular the status and phase columns stay consistent with each other.
\<close>

theorem advance_run_refines:
  assumes "phase_ok (run_status r) (run_phase r)" and "active_run r" and "participants c r s t"
  shows "phase_path (evidence_of (env_now env) c r s t) (dhcp_managed r) (run_point r)
           (run_point (snd (advance_run env s t (c, r)))) \<and>
         phase_ok (run_status (snd (advance_run env s t (c, r)))) (run_phase (snd (advance_run env s t (c, r))))"
  by (rule advance_run_refines_aux [OF assms])

theorem advance_run_refines_witness:
  "phase_ok RUNNING (run_phase (snd (advance_run (reference_env 0) (serving_node 1 ''a'' 0) (standby_node 2 ''b'' 0)
     (reference_runs [serving_node 1 ''a'' 0, standby_node 2 ''b'' 0] [reference_run True RUNNING WAITING_FOR_LEASES],
      reference_run True RUNNING WAITING_FOR_LEASES))))"
proof -
  let ?r = "reference_run True RUNNING WAITING_FOR_LEASES" and ?s = "serving_node 1 ''a'' 0" and ?t = "standby_node 2 ''b'' 0"
  let ?c = "reference_runs [?s, ?t] [?r]"
  have ok: "phase_ok (run_status ?r) (run_phase ?r)" and act: "active_run ?r" by code_simp+
  have p: "participants ?c ?r ?s ?t" by code_simp
  have st: "run_status (snd (advance_run (reference_env 0) ?s ?t (?c, ?r))) = RUNNING" by code_simp
  show ?thesis using advance_run_refines [OF ok act p, of "reference_env 0"] by (simp only: st)
qed

section \<open>Release before promotion\<close>

text \<open>
  \<open>history_ok m a b\<close> is what the point of a run says about its past: \<open>a\<close> and \<open>b\<close> tell whether the
  source and the target have been observed released since the run, or its rollback, began.
\<close>

fun history_ok :: "bool \<Rightarrow> bool \<Rightarrow> bool \<Rightarrow> run_point \<Rightarrow> bool" where
  "history_ok m a b (RUNNING, p) \<longleftrightarrow>
     (if m then p \<in> {MOVING_VIP, PROMOTING_TARGET, VERIFYING_TARGET} \<longrightarrow> a
      else p \<in> {MOVING_VIP, VERIFYING_TARGET})"
| "history_ok m a b (ROLLING_BACK, p) \<longleftrightarrow>
     (p \<in> {ROLLBACK_MOVING_VIP, ROLLBACK_PROMOTING_SOURCE, ROLLBACK_VERIFYING_SOURCE} \<longrightarrow> b)"
| "history_ok m a b (FAILED_SAFE, p) \<longleftrightarrow> True"
| "history_ok m a b (SUCCEEDED, p) \<longleftrightarrow> True"
| "history_ok m a b (ROLLED_BACK, p) \<longleftrightarrow> True"

lemma phase_edge_history:
  assumes "phase_edge e m x y" and "history_ok m a b x"
    and "source_released e \<longrightarrow> a" and "target_released e \<longrightarrow> b"
  shows "history_ok m a b y"
  using assms by (induction rule: phase_edge.induct) (auto split: if_splits)

lemma phase_path_history:
  assumes "phase_path e m x y" and "history_ok m a b x"
    and "source_released e \<longrightarrow> a" and "target_released e \<longrightarrow> b"
  shows "history_ok m a b y"
  using assms by (induction rule: rtranclp_induct) (auto dest: phase_edge_history)

lemma history_ok_mono: "history_ok m a b x \<Longrightarrow> (a \<longrightarrow> a') \<Longrightarrow> (b \<longrightarrow> b') \<Longrightarrow> history_ok m a' b' x"
  by (induction m a b x rule: history_ok.induct) auto

text \<open>
  The life of one run. Every operation of the engine that changes the run is a rule; the cluster it
  reads is any cluster in which the two participants still exist, because agents report at any
  time. The list keeps what was observed, the clock and the cluster of each advance, since the run
  or its rollback began.
\<close>

definition fresh_run :: "ha_failover_run \<Rightarrow> bool" where
  "fresh_run r \<longleftrightarrow> run_status r = RUNNING \<and>
     (if dhcp_managed r then run_phase r \<in> {WAITING_FOR_LEASES, DEMOTING_SOURCE} else run_phase r = MOVING_VIP)"

definition reported_run :: "ha_cluster \<Rightarrow> int \<Rightarrow> ha_failover_run \<Rightarrow> bool" where
  "reported_run c i r \<longleftrightarrow> r \<in> set (failover_runs c) \<and> run_id r = i"

inductive run_trace :: "(time \<times> ha_cluster) list \<Rightarrow> ha_failover_run \<Rightarrow> bool" where
  start: "fresh_run r \<Longrightarrow> run_trace [] r"
| advance: "run_trace h r \<Longrightarrow> active_run r \<Longrightarrow> participants c r s t \<Longrightarrow>
    run_trace (h @ [(env_now env, c)]) (snd (advance_run env s t (c, r)))"
| report: "run_trace h r \<Longrightarrow> active_failover c = Some r \<Longrightarrow> distinct (map run_id (failover_runs c)) \<Longrightarrow>
    record_failover_action_result env c n action generation checksum status message = Inr c' \<Longrightarrow>
    reported_run c' (run_id r) r' \<Longrightarrow> run_trace h r'"
| rollback: "run_trace h r \<Longrightarrow> participants c r s t \<Longrightarrow>
    run_status r = FAILED_SAFE \<or> recover_unhealthy_active r s t \<Longrightarrow>
    run_trace [(env_now env, c)] (snd (rollback_run env s t (c, r)))"

definition seen_released :: "(time \<times> ha_cluster) list \<Rightarrow> int \<Rightarrow> bool" where
  "seen_released h i \<longleftrightarrow>
     list_ex (\<lambda>(now, c). case node_by_id c i of None \<Rightarrow> False | Some n \<Rightarrow> node_dhcp_released now n) h"

lemma seen_released_append [simp]:
  "seen_released (h @ [(now, c)]) i \<longleftrightarrow>
     seen_released h i \<or> (\<exists>n. node_by_id c i = Some n \<and> node_dhcp_released now n)"
  by (auto simp: seen_released_def split: option.splits)

lemma seen_released_single [simp]:
  "seen_released [(now, c)] i \<longleftrightarrow> (\<exists>n. node_by_id c i = Some n \<and> node_dhcp_released now n)"
  by (auto simp: seen_released_def split: option.splits)

text \<open>What a result does to the run it belongs to.\<close>

lemma active_failover_mem: "active_failover c = Some r \<Longrightarrow> r \<in> set (failover_runs c) \<and> active_run r"
  by (auto simp: active_failover_def newest_first_def dest: find_SomeD)

lemma stored_run_unique:
  assumes "distinct (map run_id (failover_runs c))" and "r \<in> set (failover_runs c)"
    and "reported_run (store_run q c') (run_id r) r'" and "run_id q = run_id r"
    and "failover_runs c' = failover_runs c"
  shows "r' = q"
  using assms by (auto simp: reported_run_def split: if_splits)

lemma result_step:
  assumes act: "active_failover c = Some r" and dist: "distinct (map run_id (failover_runs c))"
    and res: "record_failover_action_result env c n action generation checksum status message = Inr c'"
    and rep: "reported_run c' (run_id r) r'"
  shows "run_status r' = run_status r \<and> result_phase (run_phase r) = Some (run_phase r') \<and>
         dhcp_managed r' = dhcp_managed r \<and> same_run r r'"
proof -
  note mem = active_failover_mem [OF act]
  from res act obtain a where a: "desired_failover_action env c n = Some a"
    by (auto simp: record_failover_action_result_def split: option.splits)
  then obtain p where p: "result_phase (run_phase r) = Some p"
    using act by (auto simp: desired_failover_action_def phase_action_def split: option.splits if_splits)
  let ?w = "(mark_verification_started (env_now env) (record_transition_warning message r))\<lparr>run_phase := p\<rparr>"
  obtain ev where ev: "status \<noteq> ''APPLIED'' \<Longrightarrow> c' = store_run ?w
      (run_event env ?w ''dhcp_transition_verification_warning'' ''warning'' ev c)"
    using res act a p by (fastforce simp: record_failover_action_result_def Let_def split: if_splits)
  have ap: "status = ''APPLIED'' \<Longrightarrow> c' = store_run (mark_verification_started (env_now env) (r\<lparr>run_phase := p\<rparr>)) c"
    using res act a p by (simp add: record_failover_action_result_def split: if_splits)
  consider (warn) "status \<noteq> ''APPLIED''" | (applied) "status = ''APPLIED''" by blast
  then show ?thesis
  proof cases
    case warn
    then have "r' = ?w" using stored_run_unique [OF dist conjunct1 [OF mem], of ?w] rep ev by simp
    with p show ?thesis by (simp add: same_run_def)
  next
    case applied
    then have "r' = mark_verification_started (env_now env) (r\<lparr>run_phase := p\<rparr>)"
      using stored_run_unique [OF dist conjunct1 [OF mem], of "mark_verification_started (env_now env) (r\<lparr>run_phase := p\<rparr>)" c]
        rep ap by simp
    with p show ?thesis by (simp add: same_run_def)
  qed
qed

lemma result_history:
  "phase_ok st p \<Longrightarrow> history_ok m a b (st, p) \<Longrightarrow> result_phase p = Some q \<Longrightarrow> st = RUNNING \<or> st = ROLLING_BACK \<Longrightarrow>
   phase_ok st q \<and> history_ok m a b (st, q)"
  by (cases p) (auto split: if_splits)

lemma rollback_run_cases:
  defines "rel \<equiv> (\<lambda>env. node_dhcp_released (env_now env))"
  obtains (finished) "run_point (snd (rollback_run env s t (c, r))) = (ROLLED_BACK, PHASE_ROLLED_BACK)"
      "vip_owned s" "\<not> vip_owned t" "\<not> dhcp_managed r \<or> node_dhcp_active (env_now env) s"
  | (direct) "run_point (snd (rollback_run env s t (c, r))) = (ROLLING_BACK, ROLLBACK_PROMOTING_SOURCE)"
      "rel env t" "dhcp_managed r" "vip_owned s" "\<not> vip_owned t"
  | (full) "run_point (snd (rollback_run env s t (c, r))) = (ROLLING_BACK, ROLLBACK_DEMOTING_TARGET)"
proof -
  let ?keeps = "vip_owned s \<and> \<not> vip_owned t" and ?rb = "rollback_run env s t (c, r)"
  consider "?keeps" "\<not> dhcp_managed r \<or> node_dhcp_active (env_now env) s"
    | "?keeps" "dhcp_managed r" "\<not> node_dhcp_active (env_now env) s" "rel env t"
    | "\<not> (?keeps \<and> (\<not> dhcp_managed r \<or> node_dhcp_active (env_now env) s))"
      "\<not> (?keeps \<and> dhcp_managed r \<and> rel env t)" by blast
  then show thesis
  proof cases
    case 1
    then have "snd ?rb = snd (complete_run env True s t
        (bump_role_generation (c\<lparr>maintenance_mode := True\<rparr>, r\<lparr>run_status := ROLLING_BACK\<rparr>)))"
      by (simp add: rollback_run_def bump_role_generation_def)
    with 1 show thesis by (intro finished) simp_all
  next
    case 2
    then have "run_point (snd ?rb) = (ROLLING_BACK, ROLLBACK_PROMOTING_SOURCE)"
      by (simp add: rollback_run_def bump_role_generation_def Let_def rel_def)
    with 2 show thesis by (intro direct) simp_all
  next
    case 3
    then have "run_point (snd ?rb) = (ROLLING_BACK, ROLLBACK_DEMOTING_TARGET)"
      by (simp add: rollback_run_def bump_role_generation_def Let_def rel_def)
    then show thesis by (rule full)
  qed
qed

lemma rollback_run_same:
  "same_run r (snd (rollback_run env s t (c, r))) \<and> dhcp_managed (snd (rollback_run env s t (c, r))) = dhcp_managed r \<and>
   run_role_generation (snd (rollback_run env s t (c, r))) = role_generation c + 1 \<and>
   role_generation (fst (rollback_run env s t (c, r))) = role_generation c + 1"
  by (simp add: rollback_run_def bump_role_generation_def same_run_def Let_def)

lemma advance_run_same: "same_run r (snd (advance_run env s t (c, r)))"
  by (cases rule: advance_run_cases [of r c env s t]) simp_all

text \<open>The invariant of a run's life, by rule induction.\<close>

definition trace_inv :: "(time \<times> ha_cluster) list \<Rightarrow> ha_failover_run \<Rightarrow> bool" where
  "trace_inv h r \<longleftrightarrow> phase_ok (run_status r) (run_phase r) \<and>
     history_ok (dhcp_managed r) (seen_released h (run_source_node_id r)) (seen_released h (run_target_node_id r))
       (run_point r)"

lemma trace_inv_advance:
  assumes inv: "trace_inv h r" and act: "active_run r" and p: "participants c r s t"
  shows "trace_inv (h @ [(env_now env, c)]) (snd (advance_run env s t (c, r)))"
proof -
  let ?r' = "snd (advance_run env s t (c, r))" and ?h = "h @ [(env_now env, c)]"
  let ?e = "evidence_of (env_now env) c r s t"
  have ok: "phase_ok (run_status r) (run_phase r)" using inv by (simp add: trace_inv_def)
  note ref = advance_run_refines_aux [OF ok act p, where env = env]
  have same: "same_run r ?r'" by (rule advance_run_same)
  have ids: "run_source_node_id ?r' = run_source_node_id r" "run_target_node_id ?r' = run_target_node_id r"
    using same by (simp_all add: same_run_def)
  have "history_ok (dhcp_managed r) (seen_released ?h (run_source_node_id r)) (seen_released ?h (run_target_node_id r))
          (run_point ?r')"
  proof (rule phase_path_history [OF conjunct1 [OF ref]])
    show "history_ok (dhcp_managed r) (seen_released ?h (run_source_node_id r))
            (seen_released ?h (run_target_node_id r)) (run_point r)"
      using inv by (auto simp: trace_inv_def elim: history_ok_mono)
  qed (use p in \<open>simp_all add: participants_def\<close>)
  moreover have "dhcp_managed ?r' = dhcp_managed r \<or> run_status ?r' = FAILED_SAFE"
    by (cases rule: advance_run_cases [of r c env s t]) simp_all
  ultimately show ?thesis using ref ids by (auto simp: trace_inv_def)
qed

lemma run_trace_inv: "run_trace h r \<Longrightarrow> trace_inv h r"
proof (induction rule: run_trace.induct)
  case (start r)
  then show ?case by (auto simp: trace_inv_def fresh_run_def)
next
  case (advance h r c s t env)
  then show ?case by (intro trace_inv_advance)
next
  case (report h r c env n action generation checksum status message c' r')
  note res = result_step [OF report(2,3,4,5)]
  have act: "run_status r = RUNNING \<or> run_status r = ROLLING_BACK"
    using active_failover_mem [OF report(2)] by (simp add: active_run_def)
  from report.IH have ok: "phase_ok (run_status r) (run_phase r)"
    and hist: "history_ok (dhcp_managed r) (seen_released h (run_source_node_id r))
      (seen_released h (run_target_node_id r)) (run_point r)"
    by (simp_all add: trace_inv_def)
  from res have q: "result_phase (run_phase r) = Some (run_phase r')" by simp
  from res result_history [OF ok hist q act] show ?case by (simp add: trace_inv_def same_run_def)
next
  case (rollback h r c s t env)
  then show ?case using rollback_run_same [of r env s t c]
    by (cases rule: rollback_run_cases [of env s t c r]) (auto simp: trace_inv_def same_run_def participants_def)
qed

subsection \<open>A handover on the reference cluster\<close>

text \<open>
  The first half of a handover from node 1 to node 2, step by step: node 1 reports that it has
  disabled DHCP, its release is observed, the virtual IP moves to node 2, and Kaya asks node 2 to
  start DHCP.
\<close>

definition handover_start :: ha_cluster where
  "handover_start = reference_runs [serving_node 1 ''a'' 0, standby_node 2 ''b'' 0]
     [reference_run True RUNNING DEMOTING_SOURCE]"

definition handover_released :: "ha_cluster \<times> ha_failover_run" where
  "handover_released =
     (let r = mark_verification_started 0 (reference_run True RUNNING VERIFYING_SOURCE_DHCP_RELEASE)
      in (reference_runs [vip_holder 1 ''a'' 0, standby_node 2 ''b'' 0] [r], r))"

definition handover_moved :: "ha_cluster \<times> ha_failover_run" where
  "handover_moved =
     (let r = snd (advance_run (reference_env 0) (vip_holder 1 ''a'' 0) (standby_node 2 ''b'' 0) handover_released)
      in (reference_runs [standby_node 1 ''a'' 0, vip_holder 2 ''b'' 0] [r], r))"

definition handover_promoting :: "ha_cluster \<times> ha_failover_run" where
  "handover_promoting =
     (let r = snd (advance_run (reference_env 0) (standby_node 1 ''a'' 0) (vip_holder 2 ''b'' 0) handover_moved)
      in (reference_runs [standby_node 1 ''a'' 0, vip_holder 2 ''b'' 0] [r], r))"

definition handover_demote_result :: "failover_error + ha_cluster" where
  "handover_demote_result = record_failover_action_result (reference_env 0) handover_start
     (serving_node 1 ''a'' 0) ''DHCP_DEMOTE'' 1 (Some ''DHCP_DEMOTE:r:1:a'') ''APPLIED'' []"

lemma handover_demoted: "\<exists>c. handover_demote_result = Inr c \<and> failover_runs c = [snd handover_released]"
proof -
  have "case handover_demote_result of Inr c \<Rightarrow> failover_runs c = [snd handover_released] | Inl _ \<Rightarrow> False"
    by code_simp
  then show ?thesis by (auto split: sum.splits)
qed

lemma handover_points:
  "run_point (snd handover_moved) = (RUNNING, MOVING_VIP)"
  "run_point (snd handover_promoting) = (RUNNING, PROMOTING_TARGET)"
  "active_failover (fst handover_promoting) = Some (snd handover_promoting)"
  by code_simp+

lemma handover_participants:
  "participants (fst handover_released) (snd handover_released) (vip_holder 1 ''a'' 0) (standby_node 2 ''b'' 0)"
  "participants (fst handover_moved) (snd handover_moved) (standby_node 1 ''a'' 0) (vip_holder 2 ''b'' 0)"
  by code_simp+

lemma handover_trace:
  "run_trace [(0, fst handover_released), (0, fst handover_moved)] (snd handover_promoting)"
proof -
  have 0: "run_trace [] (reference_run True RUNNING DEMOTING_SOURCE)"
    by (rule run_trace.start) code_simp
  from handover_demoted obtain c where c: "handover_demote_result = Inr c" "failover_runs c = [snd handover_released]"
    by blast
  have "run_trace [] (snd handover_released)"
  proof (rule run_trace.report [OF 0 _ _ c(1) [unfolded handover_demote_result_def]])
    show "active_failover handover_start = Some (reference_run True RUNNING DEMOTING_SOURCE)" by code_simp
    show "distinct (map run_id (failover_runs handover_start))" by code_simp
    show "reported_run c (run_id (reference_run True RUNNING DEMOTING_SOURCE)) (snd handover_released)"
      using c(2) by (simp add: reported_run_def handover_released_def reference_run_def Let_def)
  qed
  then have "run_trace ([] @ [(env_now (reference_env 0), fst handover_released)])
      (snd (advance_run (reference_env 0) (vip_holder 1 ''a'' 0) (standby_node 2 ''b'' 0)
        (fst handover_released, snd handover_released)))"
    by (rule run_trace.advance [OF _ _ handover_participants(1)]) code_simp
  then have 2: "run_trace [(0, fst handover_released)] (snd handover_moved)"
    by (simp add: reference_env_def handover_moved_def Let_def)
  have "run_trace ([(0, fst handover_released)] @ [(env_now (reference_env 0), fst handover_moved)])
      (snd (advance_run (reference_env 0) (standby_node 1 ''a'' 0) (vip_holder 2 ''b'' 0)
        (fst handover_moved, snd handover_moved)))"
    by (rule run_trace.advance [OF 2 _ handover_participants(2)]) (use handover_points(1) in \<open>simp add: active_run_def\<close>)
  then show ?thesis by (simp add: reference_env_def handover_promoting_def Let_def)
qed

lemma handover_promotes:
  "desired_failover_action (reference_env 0) (fst handover_promoting) (vip_holder 2 ''b'' 0) =
     Some (build_action (reference_env 0) (snd handover_promoting) (vip_holder 2 ''b'' 0) DHCP_PROMOTE False False)"
  by code_simp

text \<open>
  C1. Release before promotion: whenever a run, at any point of its life, makes Kaya ask an agent to
  start DHCP, the other participant has been observed to have released DHCP (not configured, no
  listener, in a fresh report) since this run, or its rollback, began; and the node that is asked
  is a participant of the run.
\<close>

theorem promotion_only_after_release:
  assumes "run_trace h r" and "active_failover c = Some r"
    and "desired_failover_action env c n = Some a" and "fa_action_type a = DHCP_PROMOTE"
  shows "(node_id n = run_target_node_id r \<and> seen_released h (run_source_node_id r)) \<or>
         (node_id n = run_source_node_id r \<and> seen_released h (run_target_node_id r))"
proof -
  from assms(2-4) have "run_phase r = PROMOTING_TARGET \<and> node_id n = run_target_node_id r \<or>
      run_phase r = ROLLBACK_PROMOTING_SOURCE \<and> node_id n = run_source_node_id r"
    by (auto simp: desired_failover_action_def phase_action_def build_action_def Let_def split: option.splits if_splits)
  moreover have "run_status r = RUNNING \<or> run_status r = ROLLING_BACK"
    using active_failover_mem [OF assms(2)] by (simp add: active_run_def)
  ultimately show ?thesis
    using run_trace_inv [OF assms(1)] by (auto simp: trace_inv_def split: if_splits)
qed

theorem promotion_only_after_release_witness:
  "fa_action_type (build_action (reference_env 0) (snd handover_promoting) (vip_holder 2 ''b'' 0) DHCP_PROMOTE False False)
     = DHCP_PROMOTE \<and>
   seen_released [(0, fst handover_released), (0, fst handover_moved)] (run_source_node_id (snd handover_promoting))"
proof -
  have t: "fa_action_type (build_action (reference_env 0) (snd handover_promoting) (vip_holder 2 ''b'' 0) DHCP_PROMOTE False False)
      = DHCP_PROMOTE" by (simp add: build_action_def)
  have "node_id (vip_holder 2 ''b'' 0) \<noteq> run_source_node_id (snd handover_promoting)" by code_simp
  with t promotion_only_after_release [OF handover_trace handover_points(3) handover_promotes t] show ?thesis
    by simp
qed

text \<open>
  A DNS-only run that has not been rolled back never makes Kaya give an agent a DHCP order.
\<close>

theorem dns_only_run_orders_no_dhcp:
  assumes "run_trace h r" and "active_failover c = Some r" and "\<not> dhcp_managed r"
    and "run_status r = RUNNING"
  shows "desired_failover_action env c n = None"
proof -
  from run_trace_inv [OF assms(1)] assms(3,4) have "run_phase r \<in> {MOVING_VIP, VERIFYING_TARGET}"
    by (simp add: trace_inv_def)
  then show ?thesis using assms(2) by (auto simp: desired_failover_action_def phase_action_def)
qed

theorem dns_only_run_orders_no_dhcp_witness:
  "\<forall>n. desired_failover_action (reference_env 0)
     (reference_runs [vip_holder 1 ''a'' 0, standby_node 2 ''b'' 0] [reference_run False RUNNING MOVING_VIP]) n = None"
proof -
  let ?r = "reference_run False RUNNING MOVING_VIP"
  have tr: "run_trace [] ?r" by (rule run_trace.start) code_simp
  have act: "active_failover (reference_runs [vip_holder 1 ''a'' 0, standby_node 2 ''b'' 0] [?r]) = Some ?r" by code_simp
  show ?thesis
    using dns_only_run_orders_no_dhcp [OF tr act] by (simp add: reference_run_def)
qed

text \<open>
  A demotion order is only ever given to the participant that the direction of the run takes DHCP
  from, and only when the demotion gate allows it with the other participant as the replacement.
\<close>

theorem demotion_order_is_gated:
  assumes "active_failover c = Some r" and "desired_failover_action env c n = Some a"
    and "fa_action_type a = DHCP_DEMOTE"
  shows "(run_phase r = DEMOTING_SOURCE \<and> node_id n = run_source_node_id r \<and>
          allowed (authorise_dhcp_demotion c n (node_by_id c (run_target_node_id r)) True False (env_now env) 120)) \<or>
         (run_phase r = ROLLBACK_DEMOTING_TARGET \<and> node_id n = run_target_node_id r \<and>
          allowed (authorise_dhcp_demotion c n (node_by_id c (run_source_node_id r)) True False (env_now env) 120))"
  using assms
  by (auto simp: desired_failover_action_def phase_action_def build_action_def Let_def split: option.splits if_splits)


theorem demotion_order_is_gated_witness:
  "allowed (authorise_dhcp_demotion handover_start (serving_node 1 ''a'' 0)
     (node_by_id handover_start 2) True False 0 120)"
proof -
  let ?r = "reference_run True RUNNING DEMOTING_SOURCE" and ?n = "serving_node 1 ''a'' 0"
  let ?a = "build_action (reference_env 0) ?r ?n DHCP_DEMOTE False True"
  have act: "active_failover handover_start = Some ?r" by code_simp
  have des: "desired_failover_action (reference_env 0) handover_start ?n = Some ?a" by code_simp
  show ?thesis
    using demotion_order_is_gated [OF act des]
    by (simp add: build_action_def reference_run_def reference_env_def)
qed

end
