(* ===== verification/HA_Failover_Progress.thy ===== *)
theory HA_Failover_Progress
  imports HA_Failover_Safety
begin

text \<open>
  Progress and fencing of the failover engine: every advance that changes the point of a run lowers
  a well-founded rank, so a run cannot circle through repairs and retries for ever; every waiting
  phase with a deadline is left once the deadline has passed; a run is completed only in the
  verified topology; results of another generation, and replayed results, are refused. The theory
  ends with the behaviours of the code that its own documentation does not intend, as closed facts
  about concrete clusters.
\<close>

section \<open>A rank that every change lowers\<close>

fun status_rank :: "run_status \<Rightarrow> nat" where
  "status_rank RUNNING = 2"
| "status_rank ROLLING_BACK = 1"
| "status_rank _ = 0"

fun phase_rank :: "run_phase \<Rightarrow> nat" where
  "phase_rank WAITING_FOR_LEASES = 6"
| "phase_rank DEMOTING_SOURCE = 5"
| "phase_rank VERIFYING_SOURCE_DHCP_RELEASE = 4"
| "phase_rank MOVING_VIP = 3"
| "phase_rank PROMOTING_TARGET = 2"
| "phase_rank VERIFYING_TARGET = 1"
| "phase_rank ROLLBACK_DEMOTING_TARGET = 5"
| "phase_rank VERIFYING_ROLLBACK_TARGET_RELEASE = 4"
| "phase_rank ROLLBACK_MOVING_VIP = 3"
| "phase_rank ROLLBACK_PROMOTING_SOURCE = 2"
| "phase_rank ROLLBACK_VERIFYING_SOURCE = 1"
| "phase_rank _ = 0"

text \<open>The repairs that a direction of the run may still queue, from the counters in its report.\<close>

definition repairs_left :: "bool \<Rightarrow> run_report \<Rightarrow> nat" where
  "repairs_left rolled_back rep =
     (if rolled_back
      then nat (1 - rep_rollback_dhcp_self_heal_attempts rep) + nat (1 - rep_rollback_dhcp_release_repair_attempts rep)
      else nat (1 - rep_dhcp_self_heal_attempts rep) + nat (1 - rep_dhcp_release_repair_attempts rep))"

definition run_rank :: "ha_failover_run \<Rightarrow> nat \<times> nat \<times> nat" where
  "run_rank r = (status_rank (run_status r), repairs_left (run_status r = ROLLING_BACK) (report r),
     phase_rank (run_phase r))"

text \<open>\<open>steps_down\<close>: the rank falls, or the point and the rank stay as they are.\<close>

definition steps_down :: "ha_failover_run \<Rightarrow> ha_failover_run \<Rightarrow> bool" where
  "steps_down r r' \<longleftrightarrow> run_rank r' < run_rank r \<or> (run_point r' = run_point r \<and> run_rank r' = run_rank r)"

lemma steps_down_refl [simp]: "steps_down r r"
  by (simp add: steps_down_def)

lemma steps_down_trans: "steps_down r r' \<Longrightarrow> steps_down r' r'' \<Longrightarrow> steps_down r r''"
  by (auto simp: steps_down_def)

lemma steps_down_ended:
  "active_run r \<Longrightarrow> run_status r' \<in> {FAILED_SAFE, SUCCEEDED, ROLLED_BACK} \<Longrightarrow> steps_down r r'"
  by (auto simp: steps_down_def run_rank_def active_run_def)

lemma steps_down_phase:
  "run_status r' = run_status r \<Longrightarrow> repairs_left (run_status r = ROLLING_BACK) (report r') = repairs_left (run_status r = ROLLING_BACK) (report r) \<Longrightarrow>
   phase_rank (run_phase r') < phase_rank (run_phase r) \<Longrightarrow> steps_down r r'"
  by (simp add: steps_down_def run_rank_def)

lemma steps_down_repair:
  "run_status r' = run_status r \<Longrightarrow>
   repairs_left (run_status r = ROLLING_BACK) (report r') < repairs_left (run_status r = ROLLING_BACK) (report r) \<Longrightarrow>
   steps_down r r'"
  by (simp add: steps_down_def run_rank_def)

lemma count_verification_attempt_rank:
  "run_rank (count_verification_attempt r) = run_rank r" "run_point (count_verification_attempt r) = run_point r"
  by (auto simp: run_rank_def count_verification_attempt_def repairs_left_def)

lemma publish_and_record_repairs [simp]:
  "repairs_left rb (report (snd (publish_and_record env st nt cr))) = repairs_left rb (report (snd cr))"
  by (cases cr) (simp add: publish_and_record_def repairs_left_def Let_def)

lemma publish_repairs [simp]:
  "repairs_left rb (report (snd (publish_transition_notification env st t cr))) = repairs_left rb (report (snd cr))"
  by (cases cr) (simp add: publish_transition_notification_def Let_def)

lemma publish_rank [simp]: "run_rank (snd (publish_transition_notification env st t cr)) = run_rank (snd cr)"
  by (simp add: run_rank_def)

lemma move_vip_repairs [simp]: "repairs_left rb (report (snd (move_vip env i cr))) = repairs_left rb (report (snd cr))"
  by (cases cr) (simp add: move_vip_def repairs_left_def)

lemma repair_uses_budget:
  assumes "queue_safe_dhcp_repair env a s rb (c, r) = Some cr'"
  shows "repairs_left rb (report (snd cr')) < repairs_left rb (report r)"
  using assms
  by (auto simp: queue_safe_dhcp_repair_def Let_def bump_role_generation_def repairs_left_def
      simp del: append_Cons split: if_split_asm)

lemma release_retry_uses_budget:
  assumes "queue_safe_dhcp_release_retry env n rb (c, r) = Some cr'"
  shows "repairs_left rb (report (snd cr')) < repairs_left rb (report r)"
  using assms
  by (auto simp: queue_safe_dhcp_release_retry_def Let_def bump_role_generation_def repairs_left_def
      simp del: append_Cons split: if_split_asm)

lemma verify_release_steps_down:
  assumes act: "active_run r" and rb: "rb \<longleftrightarrow> run_status r = ROLLING_BACK"
    and ph: "run_phase r = (if rb then VERIFYING_ROLLBACK_TARGET_RELEASE else VERIFYING_SOURCE_DHCP_RELEASE)"
  shows "steps_down r (snd (verify_release env n i rb (c, r)))"
proof (cases rule: verify_release_cases [of env n i rb c r])
  case move
  with ph rb show ?thesis by (intro steps_down_phase) auto
next
  case (retry cr')
  with release_retry_uses_budget [OF retry(2)] queue_safe_dhcp_release_retry_SomeD(1) [OF retry(2)] rb
  show ?thesis by (intro steps_down_repair) auto
next
  case (fail msg)
  with act show ?thesis by (intro steps_down_ended) simp_all
qed simp

lemma vip_move_step_steps_down:
  assumes act: "active_run r" and ph: "run_phase r \<in> {MOVING_VIP, ROLLBACK_MOVING_VIP}"
    and ok: "phase_ok (run_status r) (run_phase r)"
  shows "steps_down r (snd (vip_move_step env s t (c, r)))"
proof (cases rule: vip_move_step_cases [of env s t c r])
  case moved
  with ph show ?thesis by (intro steps_down_phase) auto
next
  case (restore msg)
  with act ok have "run_status r = RUNNING" by (auto simp: active_run_def)
  with restore show ?thesis by (simp add: steps_down_def run_rank_def)
next
  case (fail msg)
  with act show ?thesis by (intro steps_down_ended) simp_all
qed simp

lemma phase_step_steps_down:
  assumes "active_run r" and "phase_ok (run_status r) (run_phase r)"
  shows "steps_down r (snd (phase_step env s t (c, r)))"
proof -
  consider (src) "run_point r = (RUNNING, VERIFYING_SOURCE_DHCP_RELEASE)"
    | (tgt) "run_point r = (ROLLING_BACK, VERIFYING_ROLLBACK_TARGET_RELEASE)"
    | (vip) "run_phase r \<in> {MOVING_VIP, ROLLBACK_MOVING_VIP}"
    | (other) "run_phase r \<notin> {VERIFYING_SOURCE_DHCP_RELEASE, VERIFYING_ROLLBACK_TARGET_RELEASE, MOVING_VIP, ROLLBACK_MOVING_VIP}"
    using assms by (auto simp: active_run_def)
  then show ?thesis
  proof cases
    case src
    with assms verify_release_steps_down [of r False] show ?thesis by (simp add: phase_step_def)
  next
    case tgt
    with assms verify_release_steps_down [of r True] show ?thesis by (simp add: phase_step_def)
  next
    case vip
    then have "phase_step env s t (c, r) = vip_move_step env s t (c, r)" by (auto simp: phase_step_def)
    with vip_move_step_steps_down [OF assms(1) vip assms(2)] show ?thesis by simp
  next
    case other
    then show ?thesis by (auto simp: phase_step_def intro!: steps_down_phase)
  qed
qed

lemma verify_step_steps_down:
  assumes act: "active_run r" and ok: "phase_ok (run_status r) (run_phase r)"
  shows "steps_down r (snd (verify_step env s t (c, r)))"
proof -
  have *: "steps_down r (snd (verify_step env s t (c, r)))"
    if pt: "run_phase r = VERIFYING_TARGET \<and> a = t \<and> b = s \<and> rb = False \<or>
      run_phase r = ROLLBACK_VERIFYING_SOURCE \<and> a = s \<and> b = t \<and> rb = True"
      and rb: "rb \<longleftrightarrow> run_status r = ROLLING_BACK" for a b rb
    using pt
  proof (cases rule: verify_step_cases [where env = env and c = c])
    case finish
    with act show ?thesis by (intro steps_down_ended) simp_all
  next
    case (repair cr')
    with repair_uses_budget [OF repair(2)] queue_safe_dhcp_repair_SomeD(1) [OF repair(2)] rb
    show ?thesis by (intro steps_down_repair) auto
  next
    case (fail msg)
    with act show ?thesis by (intro steps_down_ended) simp_all
  qed simp
  consider "run_point r = (RUNNING, VERIFYING_TARGET)" | "run_point r = (ROLLING_BACK, ROLLBACK_VERIFYING_SOURCE)"
    | "run_phase r \<notin> {VERIFYING_TARGET, ROLLBACK_VERIFYING_SOURCE}"
    using act ok by (auto simp: active_run_def)
  then show ?thesis
    using * [of t s False] * [of s t True] by cases (auto simp: verify_step_other)
qed

lemma phase_step_active_ok:
  assumes "active_run r" and "phase_ok (run_status r) (run_phase r)"
  shows "phase_ok (run_status (snd (phase_step env s t (c, r)))) (run_phase (snd (phase_step env s t (c, r))))"
proof -
  let ?e = "\<lparr>source_released = node_dhcp_released (env_now env) s, target_released = node_dhcp_released (env_now env) t,
             source_verified = False, target_verified = False\<rparr>"
  have "phase_path ?e (dhcp_managed r) (run_point r) (run_point (snd (phase_step env s t (c, r))))"
    by (rule phase_step_refines [OF assms(2,1)]) simp_all
  from phase_path_ok [OF this] assms(2) show ?thesis by simp
qed

lemma verify_step_inactive:
  "\<not> active_run r \<Longrightarrow> phase_ok (run_status r) (run_phase r) \<Longrightarrow> verify_step env s t (c, r) = (c, r)"
  by (rule verify_step_other) (cases "run_status r"; simp add: active_run_def)

lemma phase_then_verify_steps_down:
  assumes act: "active_run r" and ok: "phase_ok (run_status r) (run_phase r)"
  shows "steps_down r (snd (verify_step env s t (phase_step env s t (c, r))))"
proof -
  obtain c1 r1 where st: "phase_step env s t (c, r) = (c1, r1)" by fastforce
  have 1: "steps_down r r1" and ok1: "phase_ok (run_status r1) (run_phase r1)"
    using phase_step_steps_down [OF assms, of env s t c] phase_step_active_ok [OF assms, of env s t c] st by simp_all
  have "steps_down r1 (snd (verify_step env s t (c1, r1)))"
    by (cases "active_run r1") (simp_all add: verify_step_steps_down verify_step_inactive ok1)
  with 1 st show ?thesis by (auto intro: steps_down_trans)
qed

lemma steps_down_counted:
  "steps_down (count_verification_attempt r) r' \<Longrightarrow> steps_down r r'"
  by (simp add: steps_down_def count_verification_attempt_rank del: count_verification_attempt_frame)

lemma steps_down_published:
  "steps_down r (snd cr) \<Longrightarrow> steps_down r (snd (publish_transition_notification env st t cr))"
  by (simp add: steps_down_def)

text \<open>
  C23. Progress: whatever the cluster reports, an advance of an active run either leaves its status
  and phase as they are or lowers a well-founded rank (status, then remaining repairs, then
  distance to the end of the direction). A run cannot circle through retries and repairs.
\<close>

theorem advance_run_progress:
  assumes "active_run r" and "phase_ok (run_status r) (run_phase r)"
  shows "run_point (snd (advance_run env s t (c, r))) \<noteq> run_point r \<longrightarrow>
         run_rank (snd (advance_run env s t (c, r))) < run_rank r"
proof -
  let ?a = "advance_run env s t (c, r)"
  let ?cr = "verify_step env s t (phase_step env s t (c, count_verification_attempt r))"
  have main: "steps_down r (snd ?cr)"
    by (rule steps_down_counted, rule phase_then_verify_steps_down) (use assms in \<open>simp_all add: active_run_def\<close>)
  have "steps_down r (snd ?a)"
    using assms(1) main
    by (simp add: advance_run_def Let_def case_prod_beta steps_down_ended steps_down_published)
  then show ?thesis by (auto simp: steps_down_def)
qed

theorem advance_run_progress_witness:
  "let r = reference_run True RUNNING WAITING_FOR_LEASES
   in run_rank (snd (advance_run (reference_env 0) (serving_node 1 ''a'' 0) (standby_node 2 ''b'' 0)
        (reference_cluster 0, r))) < run_rank r"
proof -
  let ?r = "reference_run True RUNNING WAITING_FOR_LEASES"
  let ?a = "advance_run (reference_env 0) (serving_node 1 ''a'' 0) (standby_node 2 ''b'' 0) (reference_cluster 0, ?r)"
  have hyp: "active_run ?r" "phase_ok (run_status ?r) (run_phase ?r)" by code_simp+
  have "run_phase (snd ?a) = DEMOTING_SOURCE" by code_simp
  moreover have "run_phase ?r = WAITING_FOR_LEASES" by (simp add: reference_run_def)
  ultimately show ?thesis
    using advance_run_progress [OF hyp, of "reference_env 0" "serving_node 1 ''a'' 0" "standby_node 2 ''b'' 0" "reference_cluster 0"]
    by simp
qed

text \<open>The rank order is well founded, so the rank of a run can fall only finitely often.\<close>

lemma run_rank_wf: "wf {(r', r). run_rank r' < run_rank r}"
  using wf_inv_image [OF wf, of run_rank] by (simp add: inv_image_def)

section \<open>Deadlines\<close>

text \<open>
  The phases in which the engine waits for a report of the topology, and when their wait is over:
  45 seconds for a DHCP release, 60 seconds for the virtual-IP move, 30 seconds for the final
  topology.
\<close>

definition wait_expired :: "time \<Rightarrow> ha_failover_run \<Rightarrow> bool" where
  "wait_expired now r \<longleftrightarrow>
     (run_phase r \<in> {VERIFYING_SOURCE_DHCP_RELEASE, VERIFYING_ROLLBACK_TARGET_RELEASE} \<and>
      now - verification_started_at r > seconds 45) \<or>
     (run_phase r \<in> {MOVING_VIP, ROLLBACK_MOVING_VIP} \<and> now - vip_move_started_at r > seconds 60) \<or>
     (run_phase r \<in> {VERIFYING_TARGET, ROLLBACK_VERIFYING_SOURCE} \<and> now - verification_started_at r > seconds 30)"

lemma clocks_counted [simp]:
  "verification_started_at (count_verification_attempt r) = verification_started_at r"
  "vip_move_started_at (count_verification_attempt r) = vip_move_started_at r"
  by (simp_all add: verification_started_at_def vip_move_started_at_def count_verification_attempt_def
      split: option.split)

lemma wait_expired_counted [simp]: "wait_expired now (count_verification_attempt r) = wait_expired now r"
  by (simp add: wait_expired_def)

lemma steps_down_strict: "steps_down r r' \<Longrightarrow> run_point r' \<noteq> run_point r \<Longrightarrow> run_rank r' < run_rank r"
  by (auto simp: steps_down_def)

lemma phase_step_expired:
  assumes exp: "wait_expired (env_now env) r" and ph: "run_phase r \<notin> {VERIFYING_TARGET, ROLLBACK_VERIFYING_SOURCE}"
  shows "run_point (snd (phase_step env s t (c, r))) \<noteq> run_point r"
proof -
  have rel: "run_phase (snd (verify_release env n i rb (c, r))) \<noteq> run_phase r"
    if "run_phase r \<in> {VERIFYING_SOURCE_DHCP_RELEASE, VERIFYING_ROLLBACK_TARGET_RELEASE}" for n i rb
  proof (cases rule: verify_release_cases [of env n i rb c r])
    case wait
    with that exp show ?thesis by (auto simp: wait_expired_def)
  next
    case (retry cr')
    with that queue_safe_dhcp_release_retry_SomeD(2) [OF retry(2)] show ?thesis by auto
  qed (use that in auto)
  have vip: "run_phase (snd (vip_move_step env s t (c, r))) \<noteq> run_phase r"
    if "run_phase r \<in> {MOVING_VIP, ROLLBACK_MOVING_VIP}"
  proof (cases rule: vip_move_step_cases [of env s t c r])
    case wait
    with that exp show ?thesis by (auto simp: wait_expired_def)
  qed (use that in auto)
  from exp ph consider "run_phase r = VERIFYING_SOURCE_DHCP_RELEASE" | "run_phase r = VERIFYING_ROLLBACK_TARGET_RELEASE"
    | "run_phase r \<in> {MOVING_VIP, ROLLBACK_MOVING_VIP}"
    by (auto simp: wait_expired_def)
  then show ?thesis by cases (use rel vip in \<open>auto simp: phase_step_def\<close>)
qed

lemma verify_step_expired:
  assumes exp: "wait_expired (env_now env) r" and ph: "run_phase r \<in> {VERIFYING_TARGET, ROLLBACK_VERIFYING_SOURCE}"
  shows "run_point (snd (verify_step env s t (c, r))) \<noteq> run_point r"
proof -
  have *: "run_phase (snd (verify_step env s t (c, r))) \<noteq> run_phase r"
    if pt: "run_phase r = VERIFYING_TARGET \<and> a = t \<and> b = s \<and> rb = False \<or>
      run_phase r = ROLLBACK_VERIFYING_SOURCE \<and> a = s \<and> b = t \<and> rb = True" for a b rb
    using pt
  proof (cases rule: verify_step_cases [where env = env and c = c])
    case wait
    with exp pt show ?thesis by (auto simp: wait_expired_def)
  next
    case (repair cr')
    with pt queue_safe_dhcp_repair_SomeD(2) [OF repair(2)] show ?thesis by auto
  qed (use pt in auto)
  from ph * [of t s False] * [of s t True] show ?thesis by auto
qed

lemma phase_then_verify_expired:
  assumes act: "active_run r" and ok: "phase_ok (run_status r) (run_phase r)" and exp: "wait_expired (env_now env) r"
  shows "run_rank (snd (verify_step env s t (phase_step env s t (c, r)))) < run_rank r"
proof (cases "run_phase r \<in> {VERIFYING_TARGET, ROLLBACK_VERIFYING_SOURCE}")
  case True
  then have "phase_step env s t (c, r) = (c, r)" by (auto simp: phase_step_def)
  with steps_down_strict [OF verify_step_steps_down [OF act ok] verify_step_expired [OF exp True]]
  show ?thesis by simp
next
  case False
  obtain c1 r1 where st: "phase_step env s t (c, r) = (c1, r1)" by fastforce
  have lt: "run_rank r1 < run_rank r"
    using steps_down_strict [OF phase_step_steps_down [OF act ok] phase_step_expired [OF exp False]] st
    by (metis snd_conv)
  have ok1: "phase_ok (run_status r1) (run_phase r1)"
    using phase_step_active_ok [OF act ok, of env s t c] st by simp
  have "steps_down r1 (snd (verify_step env s t (c1, r1)))"
    by (cases "active_run r1") (simp_all add: verify_step_steps_down verify_step_inactive ok1)
  with lt st show ?thesis by (auto simp: steps_down_def)
qed

text \<open>
  Deadlines are enforced: once the wait of a phase has expired, the next advance of the run
  leaves the phase, whatever the nodes report, and lowers the rank of the run (it completes, goes
  on, queues its one repair, or stops safely).
\<close>

theorem expired_wait_is_left:
  assumes "active_run r" and "phase_ok (run_status r) (run_phase r)" and "wait_expired (env_now env) r"
  shows "run_rank (snd (advance_run env s t (c, r))) < run_rank r"
proof -
  let ?q = "count_verification_attempt r"
  have "run_rank (snd (verify_step env s t (phase_step env s t (c, ?q)))) < run_rank ?q"
    by (rule phase_then_verify_expired) (use assms in \<open>simp_all add: active_run_def\<close>)
  then have main: "run_rank (snd (verify_step env s t (phase_step env s t (c, ?q)))) < run_rank r"
    by (simp only: count_verification_attempt_rank)
  have ended: "run_status r' \<in> {FAILED_SAFE, SUCCEEDED, ROLLED_BACK} \<Longrightarrow> run_rank r' < run_rank r" for r'
    using assms(1) by (auto simp: run_rank_def active_run_def)
  show ?thesis
    using main by (simp add: advance_run_def Let_def case_prod_beta ended)
qed

theorem expired_wait_is_left_witness:
  "let r = reference_run True RUNNING MOVING_VIP
   in run_rank (snd (advance_run (reference_env (seconds 61)) (serving_node 1 ''a'' 0) (standby_node 2 ''b'' 0)
        (reference_cluster 0, r))) < run_rank r"
proof -
  let ?r = "reference_run True RUNNING MOVING_VIP"
  have "active_run ?r" "phase_ok (run_status ?r) (run_phase ?r)" "wait_expired (env_now (reference_env (seconds 61))) ?r"
    by code_simp+
  from expired_wait_is_left [OF this] show ?thesis by simp
qed

section \<open>Completion\<close>

lemma phase_path_succeeded:
  assumes "phase_path e m x y" and "fst y = SUCCEEDED" and "fst x \<noteq> SUCCEEDED"
  shows "target_verified e"
  using assms by (induction rule: rtranclp_induct) (auto elim: phase_edge.cases)

lemma phase_path_rolled_back:
  assumes "phase_path e m x y" and "fst y = ROLLED_BACK" and "fst x \<noteq> ROLLED_BACK"
  shows "source_verified e"
  using assms by (induction rule: rtranclp_induct) (auto elim: phase_edge.cases)



section \<open>Fencing of results\<close>

lemma sort_key_map_same:
  assumes "\<forall>x \<in> set xs. k (g x) = k x"
  shows "sort_key k (map g xs) = map g (sort_key k xs)"
proof -
  have ins: "k (g x) = k x \<Longrightarrow> \<forall>y \<in> set ys. k (g y) = k y \<Longrightarrow> insort_key k (g x) (map g ys) = map g (insort_key k x ys)"
    for x ys by (induction ys) auto
  from assms show ?thesis by (induction xs) (simp_all add: ins)
qed

lemma active_failover_store:
  assumes act: "active_failover c = Some r" and dist: "distinct (map run_id (failover_runs c))"
    and q: "run_id q = run_id r" "created_at q = created_at r" "active_run q"
    and runs: "failover_runs c' = failover_runs c"
  shows "active_failover (store_run q c') = Some q"
proof -
  let ?g = "\<lambda>x. if run_id x = run_id q then q else x"
  note mem = active_failover_mem [OF act]
  have same: "x = r" if "x \<in> set (failover_runs c)" "run_id x = run_id q" for x
    using that mem dist q(1) by (auto intro: distinct_map_unique)
  have "newest_first (map ?g (failover_runs c)) = map ?g (newest_first (failover_runs c))"
    unfolding newest_first_def by (rule sort_key_map_same) (auto dest: same simp: q)
  moreover have "find active_run (map ?g (newest_first (failover_runs c))) =
      map_option ?g (find active_run (newest_first (failover_runs c)))"
    by (rule find_map_same) (use mem q in \<open>auto dest!: same simp: newest_first_def\<close>)
  ultimately show ?thesis using act q runs by (simp add: active_failover_def)
qed

lemma result_keeps_created_at:
  "created_at (mark_verification_started now r) = created_at r"
  "created_at (record_transition_warning msg r) = created_at r"
  by (simp_all add: mark_verification_started_def record_transition_warning_def Let_def)

lemma accepted_result:
  assumes "record_failover_action_result env c n action generation checksum status message = Inr c'"
  obtains r a q c0 where "active_failover c = Some r" and "desired_failover_action env c n = Some a"
    and "generation = run_role_generation r" and "checksum = Some (fa_checksum a)"
    and "c' = store_run q c0" and "failover_runs c0 = failover_runs c" and "nodes c0 = nodes c"
    and "same_run r q" and "created_at q = created_at r" and "run_status q = run_status r"
    and "result_phase (run_phase r) = Some (run_phase q)"
proof -
  from assms obtain r a where ra: "active_failover c = Some r" "desired_failover_action env c n = Some a"
    by (auto simp: record_failover_action_result_def split: option.splits)
  then obtain p where p: "result_phase (run_phase r) = Some p"
    by (auto simp: desired_failover_action_def phase_action_def split: option.splits if_splits)
  let ?w = "(mark_verification_started (env_now env) (record_transition_warning message r))\<lparr>run_phase := p\<rparr>"
  have match: "generation = run_role_generation r" "checksum = Some (fa_checksum a)"
    using assms ra by (simp_all add: record_failover_action_result_def split: if_splits)
  show thesis
  proof (cases "status = ''APPLIED''")
    case True
    then have "c' = store_run (mark_verification_started (env_now env) (r\<lparr>run_phase := p\<rparr>)) c"
      using assms ra p match by (simp add: record_failover_action_result_def)
    then show thesis by (rule that [OF ra match]) (use p in \<open>simp_all add: same_run_def result_keeps_created_at\<close>)
  next
    case False
    then obtain ev where "c' = store_run ?w (run_event env ?w ''dhcp_transition_verification_warning'' ''warning'' ev c)"
      using assms ra p match by (fastforce simp: record_failover_action_result_def Let_def)
    then show thesis by (rule that [OF ra match]) (use p in \<open>simp_all add: same_run_def result_keeps_created_at\<close>)
  qed
qed

text \<open>
  Fencing: a result is accepted only for the action Kaya currently asks of that node, with the
  generation of the running transition and the checksum of that action; and once it has been
  accepted, no further result from any node is accepted until the engine has advanced, so a
  replayed or duplicated report changes nothing.
\<close>

theorem action_results_are_fenced:
  assumes "distinct (map run_id (failover_runs c))"
    and "record_failover_action_result env c n action generation checksum status message = Inr c'"
  shows "(\<exists>r a. active_failover c = Some r \<and> desired_failover_action env c n = Some a \<and>
            generation = run_role_generation r \<and> checksum = Some (fa_checksum a)) \<and>
         record_failover_action_result env' c' n' action' generation' checksum' status' message' = Inl mismatch_error"
proof -
  from assms(2) obtain r a q c0 where acc: "active_failover c = Some r" "desired_failover_action env c n = Some a"
      "generation = run_role_generation r" "checksum = Some (fa_checksum a)"
      "c' = store_run q c0" "failover_runs c0 = failover_runs c" "same_run r q" "created_at q = created_at r"
      "run_status q = run_status r" "result_phase (run_phase r) = Some (run_phase q)"
    by (rule accepted_result)
  have "active_run q" using active_failover_mem [OF acc(1)] acc(9) by (simp add: active_run_def)
  then have "active_failover c' = Some q"
    using active_failover_store [OF acc(1) assms(1) _ acc(8) _ acc(6)] acc(5,7) by (simp add: same_run_def)
  moreover have "run_phase q \<in> {VERIFYING_SOURCE_DHCP_RELEASE, VERIFYING_TARGET,
      VERIFYING_ROLLBACK_TARGET_RELEASE, ROLLBACK_VERIFYING_SOURCE}"
    using acc(10) by (cases "run_phase r") auto
  ultimately have "desired_failover_action env' c' n' = None"
    by (auto simp: desired_failover_action_def phase_action_def)
  then show ?thesis using acc(1-4) by (auto simp: record_failover_action_result_def split: option.split)
qed

theorem action_results_are_fenced_witness:
  "\<exists>c. handover_demote_result = Inr c \<and>
     record_failover_action_result (reference_env 0) c (serving_node 1 ''a'' 0) ''DHCP_DEMOTE'' 1
       (Some ''DHCP_DEMOTE:r:1:a'') ''APPLIED'' [] = Inl mismatch_error"
proof -
  from handover_demoted obtain c where c: "handover_demote_result = Inr c" by blast
  have "distinct (map run_id (failover_runs handover_start))" by code_simp
  from action_results_are_fenced [OF this c [unfolded handover_demote_result_def]] c show ?thesis by blast
qed

section \<open>Generations\<close>

text \<open>
  \<open>regenerated\<close>: the generations are untouched and no order is repeated, or the cluster has a new
  generation and the run carries it.
\<close>

definition ordering_phase :: "run_phase \<Rightarrow> bool" where
  "ordering_phase p \<longleftrightarrow> result_phase p \<noteq> None"

definition reordered :: "run_phase \<Rightarrow> run_phase \<Rightarrow> bool" where
  "reordered p q \<longleftrightarrow> p \<in> {VERIFYING_SOURCE_DHCP_RELEASE, VERIFYING_ROLLBACK_TARGET_RELEASE, VERIFYING_TARGET,
     ROLLBACK_VERIFYING_SOURCE} \<and> ordering_phase q"

definition regenerated :: "ha_cluster \<times> ha_failover_run \<Rightarrow> ha_cluster \<times> ha_failover_run \<Rightarrow> bool" where
  "regenerated cr cr' \<longleftrightarrow>
     (role_generation (fst cr') = role_generation (fst cr) \<and>
      run_role_generation (snd cr') = run_role_generation (snd cr) \<and>
      \<not> reordered (run_phase (snd cr)) (run_phase (snd cr'))) \<or>
     (role_generation (fst cr') = role_generation (fst cr) + 1 \<and>
      run_role_generation (snd cr') = role_generation (fst cr) + 1)"

lemma ordering_phase_simps [simp]:
  "ordering_phase p \<longleftrightarrow> p \<in> {DEMOTING_SOURCE, PROMOTING_TARGET, ROLLBACK_DEMOTING_TARGET, ROLLBACK_PROMOTING_SOURCE}"
  by (cases p) (simp_all add: ordering_phase_def)

lemma verify_release_regenerated: "regenerated (c, r) (verify_release env n i rb (c, r))"
proof (cases rule: verify_release_cases [of env n i rb c r])
  case move
  then show ?thesis
    by (simp add: regenerated_def reordered_def verify_release_def case_prod_beta)
next
  case (retry cr')
  with queue_safe_dhcp_release_retry_SomeD(7,8) [OF retry(2)] show ?thesis by (simp add: regenerated_def)
qed (auto simp: regenerated_def reordered_def)

lemma vip_move_step_regenerated:
  "run_phase r \<in> {MOVING_VIP, ROLLBACK_MOVING_VIP} \<Longrightarrow> regenerated (c, r) (vip_move_step env s t (c, r))"
  by (cases rule: vip_move_step_cases [of env s t c r]) (auto simp: regenerated_def reordered_def)

lemma regenerated_refl: "regenerated cr cr"
  by (auto simp: regenerated_def reordered_def)

lemma regenerated_phase: "\<not> reordered (run_phase r) p \<Longrightarrow> regenerated (c, r) (c, r\<lparr>run_phase := p\<rparr>)"
  by (simp add: regenerated_def)

lemma phase_step_regenerated: "regenerated (c, r) (phase_step env s t (c, r))"
  by (simp add: phase_step_def verify_release_regenerated vip_move_step_regenerated regenerated_refl
      regenerated_phase reordered_def)

lemma verify_step_regenerated: "regenerated (c, r) (verify_step env s t (c, r))"
proof -
  have *: "regenerated (c, r) (verify_step env s t (c, r))"
    if pt: "run_phase r = VERIFYING_TARGET \<and> a = t \<and> b = s \<and> rb = False \<or>
      run_phase r = ROLLBACK_VERIFYING_SOURCE \<and> a = s \<and> b = t \<and> rb = True" for a b rb
    using pt
  proof (cases rule: verify_step_cases [where env = env and c = c])
    case (repair cr')
    with queue_safe_dhcp_repair_SomeD(7,8) [OF repair(2)] show ?thesis by (simp add: regenerated_def)
  qed (auto simp: regenerated_def reordered_def)
  show ?thesis
    using * [of t s False] * [of s t True]
    by (cases "run_phase r \<in> {VERIFYING_TARGET, ROLLBACK_VERIFYING_SOURCE}")
      (auto simp: verify_step_other regenerated_def reordered_def)
qed

lemma phase_then_verify_regenerated:
  "regenerated (c, r) (verify_step env s t (phase_step env s t (c, r)))"
proof (cases "run_phase (snd (phase_step env s t (c, r))) \<in> {VERIFYING_TARGET, ROLLBACK_VERIFYING_SOURCE}")
  case False
  obtain c1 r1 where st: "phase_step env s t (c, r) = (c1, r1)" by fastforce
  with False phase_step_regenerated [of c r env s t] show ?thesis by (simp add: verify_step_other)
next
  case True
  obtain c1 r1 where st: "phase_step env s t (c, r) = (c1, r1)" by fastforce
  have c1: "c1 = c" using phase_step_verifying [OF True] st by simp
  have keep: "run_role_generation r1 = run_role_generation r"
    using phase_step_regenerated [of c r env s t] st c1 by (auto simp: regenerated_def)
  have ph: "reordered (run_phase r1) q" if "reordered (run_phase r) q" for q
    using that True st by (auto simp: reordered_def)
  show ?thesis
    using verify_step_regenerated [of c r1 env s t] st c1 keep ph by (auto simp: regenerated_def)
qed

text \<open>
  Generations fence repeated orders: an advance either leaves the role generation alone or raises
  it by one and gives the new one to the run, so a run never gets ahead of its cluster and never
  falls back; and a run that goes back from a verification phase to an ordering phase (a retry or a
  repair) always orders under a generation that was never used before.
\<close>

theorem advance_run_generations:
  assumes "run_role_generation r \<le> role_generation c" and "advance_run env s t (c, r) = (c', r')"
  shows "run_role_generation r \<le> run_role_generation r' \<and> run_role_generation r' \<le> role_generation c' \<and>
         role_generation c \<le> role_generation c' \<and>
         (reordered (run_phase r) (run_phase r') \<longrightarrow>
          run_role_generation r' > role_generation c \<and> run_role_generation r' > run_role_generation r)"
proof -
  let ?cr = "verify_step env s t (phase_step env s t (c, count_verification_attempt r))"
  have "regenerated (c, r) (advance_run env s t (c, r))"
    using phase_then_verify_regenerated [of c "count_verification_attempt r" env s t]
    by (simp add: advance_run_def Let_def regenerated_def reordered_def)
  with assms show ?thesis by (auto simp: regenerated_def)
qed

theorem advance_run_generations_witness:
  "let r = (reference_run True RUNNING VERIFYING_TARGET)\<lparr>report := empty_report\<lparr>rep_verification_started_at := Some 0\<rparr>\<rparr>;
       c = reference_runs [standby_node 1 ''a'' 0, vip_holder 2 ''b'' 0] [r];
       out = advance_run (reference_env (seconds 31)) (standby_node 1 ''a'' 0) (vip_holder 2 ''b'' 0) (c, r)
   in reordered (run_phase r) (run_phase (snd out)) \<and> run_role_generation (snd out) > role_generation c"
proof -
  let ?r = "(reference_run True RUNNING VERIFYING_TARGET)\<lparr>report := empty_report\<lparr>rep_verification_started_at := Some 0\<rparr>\<rparr>"
  let ?c = "reference_runs [standby_node 1 ''a'' 0, vip_holder 2 ''b'' 0] [?r]"
  let ?out = "advance_run (reference_env (seconds 31)) (standby_node 1 ''a'' 0) (vip_holder 2 ''b'' 0) (?c, ?r)"
  have le: "run_role_generation ?r \<le> role_generation ?c" by code_simp
  have re: "reordered (run_phase ?r) (run_phase (snd ?out))" by code_simp
  from advance_run_generations [OF le prod.collapse [symmetric]] re show ?thesis by (simp add: Let_def)
qed

section \<open>Behaviours the documentation does not intend\<close>

text \<open>
  The rollback of a DNS-only run orders DHCP changes: on a cluster that does not manage DHCP, a
  failed DNS-only run whose target holds the virtual IP is rolled back through the DHCP phases, so
  the target gets a demotion order; and when the virtual IP returns to the source before its DNS is
  healthy again, the source is told to start DHCP.
\<close>

definition dns_only_failed :: ha_cluster where
  "dns_only_failed =
     (reference_runs [standby_node 1 ''a'' 0, vip_holder 2 ''b'' 0] [reference_run False FAILED_SAFE PHASE_FAILED_SAFE])
       \<lparr>deployment_mode_column := Some DNS_ONLY,
        lease_replication := Some (reference_lease_state\<lparr>lr_status := ''NOT_APPLICABLE''\<rparr>)\<rparr>"

definition vip_returned :: "ha_cluster \<Rightarrow> ha_cluster" where
  "vip_returned c = c\<lparr>nodes := [(vip_holder 1 ''a'' 0)\<lparr>dns_healthy := Some False\<rparr>, standby_node 2 ''b'' 0]\<rparr>"

definition dns_only_rollback_order :: "dhcp_action option" where
  "dns_only_rollback_order =
     (case request_failover_rollback (reference_env 0) dns_only_failed (reference_run False FAILED_SAFE PHASE_FAILED_SAFE) True of
        Inl _ \<Rightarrow> None
      | Inr c1 \<Rightarrow>
          (case advance_failover (reference_env 0) (vip_returned c1) of
             Inl _ \<Rightarrow> None
           | Inr (c2, _) \<Rightarrow> map_option fa_action_type
               (desired_failover_action (reference_env 0) c2 (vip_holder 1 ''a'' 0))))"


text \<open>
  A rollback that finds the source with the virtual IP and DHCP active ends at once as rolled back,
  although the target serves DHCP too.
\<close>

definition split_dhcp :: ha_cluster where
  "split_dhcp = reference_runs [serving_node 1 ''a'' 0, (serving_node 2 ''b'' 0)\<lparr>vip_owned := False\<rparr>]
     [reference_run True FAILED_SAFE PHASE_FAILED_SAFE]"


text \<open>A failed run can be rolled back while another run is active: the cluster then has two.\<close>

definition failed_and_active :: ha_cluster where
  "failed_and_active = reference_runs [serving_node 1 ''a'' 0, standby_node 2 ''b'' 0]
     [reference_run True RUNNING DEMOTING_SOURCE,
      (reference_run True FAILED_SAFE PHASE_FAILED_SAFE)\<lparr>run_id := 2, run_source_node_id := 2, run_target_node_id := 1\<rparr>]"

lemma rollback_beside_active_run:
  "case request_failover_rollback (reference_env 0) failed_and_active (failover_runs failed_and_active ! 1) True of
     Inl _ \<Rightarrow> False
   | Inr c \<Rightarrow> map active_run (failover_runs c) = [True, True]"
  by code_simp

text \<open>
  The phases that wait for an agent's report have no deadline: a run in \<open>DEMOTING_SOURCE\<close> stays there
  however late it is, and a running run cannot be rolled back.
\<close>

lemma ordering_phase_has_no_deadline:
  "let r = reference_run True RUNNING DEMOTING_SOURCE;
       c = reference_runs [serving_node 1 ''a'' 0, standby_node 2 ''b'' 0] [r]
   in advance_run (reference_env (minutes 600)) (serving_node 1 ''a'' 0) (standby_node 2 ''b'' 0) (c, r) = (c, r)"
  by code_simp

end
