(* ===== verification/HA_Recovery.thy ===== *)
theory HA_Recovery
  imports HA_Topology
begin

text \<open>
  Recovery of a node that returns to the cluster (\<open>app/services/ha_recovery.py\<close>): the checks a
  standby has to pass, the synchronisation evidence behind them, the evaluation that moves a node
  through \<open>OFFLINE\<close>, \<open>RECOVERING\<close>, \<open>SYNCHRONISING\<close>, \<open>VERIFYING\<close> and \<open>STANDBY_READY\<close>, and the
  choice of a failback target. The evaluation is read-only towards the nodes: it writes the
  recovery columns, the event log and notifications.
\<close>

section \<open>Constants and results\<close>

definition RECOVERY_HEARTBEAT_SECONDS :: int where
  "RECOVERY_HEARTBEAT_SECONDS = 45"

definition RECOVERY_STABILITY_SECONDS :: int where
  "RECOVERY_STABILITY_SECONDS = 60"

definition RECOVERY_STATES :: "string list" where
  "RECOVERY_STATES = [''OFFLINE'', ''RECOVERING'', ''SYNCHRONISING'', ''VERIFYING'', ''STANDBY_READY'', ''ACTIVE'', ''STANDBY'']"

record recovery_check =
  check_key :: string
  check_label :: string
  passed :: bool
  detail :: string
  required :: bool

record node_recovery =
  nr_node :: ha_node
  nr_state :: string
  nr_checks :: "recovery_check list"
  nr_stability_seconds :: int
  nr_stability_required_seconds :: int

definition nr_ready :: "node_recovery \<Rightarrow> bool" where
  "nr_ready r \<longleftrightarrow> nr_state r = ''STANDBY_READY''"

definition operational_blockers :: "node_recovery \<Rightarrow> string list" where
  "operational_blockers r = map detail (filter (\<lambda>k. required k \<and> \<not> passed k) (nr_checks r))"

text \<open>A dictionary comprehension keeps the last check of a key.\<close>

definition required_check :: "node_recovery \<Rightarrow> string \<Rightarrow> recovery_check option" where
  "required_check r key = find (\<lambda>k. check_key k = key) (rev (filter required (nr_checks r)))"

definition operational_readiness :: "node_recovery \<Rightarrow> string" where
  "operational_readiness r =
     (if list_ex (\<lambda>key. case required_check r key of None \<Rightarrow> True | Some k \<Rightarrow> \<not> passed k)
           [''kaya_heartbeat'', ''agent_identity'']
      then ''UNKNOWN''
      else if operational_blockers r = [] then ''READY'' else ''NOT_READY'')"

definition operationally_ready :: "node_recovery \<Rightarrow> bool" where
  "operationally_ready r \<longleftrightarrow> operational_readiness r = ''READY''"

section \<open>Who is preferred, who is active\<close>

definition recovery_fresh :: "ha_node \<Rightarrow> time \<Rightarrow> bool" where
  "recovery_fresh n now =
     (case last_heartbeat_at n of None \<Rightarrow> False | Some t \<Rightarrow> t \<ge> now - seconds RECOVERY_HEARTBEAT_SECONDS)"

definition preferred_node :: "ha_cluster \<Rightarrow> ha_node option" where
  "preferred_node c =
     (case find (\<lambda>n. Some (node_id n) = preferred_node_id c) (nodes c) of
        Some n \<Rightarrow> Some n
      | None \<Rightarrow>
          (case min_by created_at (failover_runs c) of
             Some r \<Rightarrow> node_by_id c (run_source_node_id r)
           | None \<Rightarrow> or_else (find (\<lambda>n. role n = ''ACTIVE'') (nodes c)) (min_by node_id (nodes c))))"

definition current_active_node :: "ha_cluster \<Rightarrow> time \<Rightarrow> ha_node option" where
  "current_active_node c now =
     (let topology = reconcile_topology c now None RECOVERY_HEARTBEAT_SECONDS
      in find (\<lambda>n. Some (node_id n) = active_node_id topology) (nodes c))"

section \<open>Synchronisation evidence\<close>

definition sync_generation :: "ha_sync_run \<Rightarrow> int option" where
  "sync_generation r =
     (case (case verified_sync_generation r of Some v \<Rightarrow> Some v | None \<Rightarrow> required_sync_generation r) of
        Some (Some v) \<Rightarrow> if v \<ge> 0 then Some v else None
      | _ \<Rightarrow> None)"

definition valid_for_required_generation :: "ha_sync_run \<Rightarrow> ha_cluster \<Rightarrow> bool" where
  "valid_for_required_generation r c \<longleftrightarrow>
     sync_generation r = None \<or> sync_generation r = Some (desired_sync_generation c)"

definition sync_candidates :: "ha_cluster \<Rightarrow> ha_node \<Rightarrow> ha_node \<Rightarrow> ha_sync_run list" where
  "sync_candidates c active target =
     sort_key (\<lambda>r. - sync_created_at r)
       (filter (\<lambda>r. sync_source_node_id r = node_id active \<and> sync_target_node_id r = node_id target) (sync_runs c))"

definition latest_successful_sync :: "ha_cluster \<Rightarrow> ha_node \<Rightarrow> ha_node \<Rightarrow> ha_sync_run option" where
  "latest_successful_sync c active target =
     find (\<lambda>r. sync_status r \<in> {''IN_SYNC'', ''SUCCEEDED''} \<and> valid_for_required_generation r c)
       (sync_candidates c active target)"

definition newer_supported_drift :: "ha_cluster \<Rightarrow> ha_node \<Rightarrow> ha_node \<Rightarrow> ha_sync_run option \<Rightarrow> bool" where
  "newer_supported_drift c active target successful =
     list_ex (\<lambda>r. (sync_generation r = None \<or> sync_generation r = Some (desired_sync_generation c)) \<and>
                  (case plan_groups r of None \<Rightarrow> False | Some gs \<Rightarrow> list_ex id gs))
       (filter (\<lambda>r. case successful of None \<Rightarrow> True | Some s \<Rightarrow> sync_created_at r > sync_created_at s)
          (sync_candidates c active target))"

definition configuration_sync :: "ha_cluster \<Rightarrow> ha_node option \<Rightarrow> ha_node \<Rightarrow> bool" where
  "configuration_sync c active n =
     (case active of
        None \<Rightarrow> False
      | Some a \<Rightarrow>
          if node_id a = node_id n then False
          else
            (case latest_successful_sync c a n of
               None \<Rightarrow> False
             | Some s \<Rightarrow>
                 sync_status s \<in> {''IN_SYNC'', ''SUCCEEDED''} \<and>
                 \<not> newer_supported_drift c a n (Some s) \<and>
                 (case recovery_started_at n of
                    None \<Rightarrow> True
                  | Some t \<Rightarrow> (case sync_completed_at s of Some d \<Rightarrow> d | None \<Rightarrow> sync_created_at s) \<ge> t)))"

definition lease_sync :: "ha_cluster \<Rightarrow> ha_node \<Rightarrow> bool" where
  "lease_sync c n \<longleftrightarrow>
     \<not> pihole_manages_dhcp c \<or>
     (case lease_replication c of
        None \<Rightarrow> False
      | Some st \<Rightarrow> lr_status st = ''CURRENT'' \<and> lr_target_node_id st = Some (node_id n) \<and>
          applied_generation st \<ge> desired_generation st \<and> lease_generation n \<ge> desired_generation st)"

section \<open>The checks\<close>

text \<open>The labels and explanations of the checks, by key.\<close>

definition check_texts :: "(string \<times> string \<times> string) list" where
  "check_texts =
    [(''kaya_heartbeat'', ''Kaya heartbeat'', ''The HA Agent has reported to Kaya recently.''),
     (''agent_identity'', ''HA Agent identity'', ''The registered, non-revoked agent identity is reporting.''),
     (''dns'', ''Local DNS and Pi-hole FTL'', ''Pi-hole answered the agent'' @ [CHR 0x27] @ ''s local DNS probe and FTL is active.''),
     (''network_interface'', ''Expected network interface'', ''The node has the configured HA network interface.''),
     (''keepalived'', ''Local failover service'', ''Keepalived is deployed and running.''),
     (''cluster_generation'', ''Cluster generation'', ''The node recognises the current configuration and role generations.''),
     (''active_runtime'', ''Virtual IP ownership'', ''The Active node is the exclusive DNS Virtual IP owner.''),
     (''dhcp_active'', ''DHCP active state'', ''A fresh Pi-hole configuration, FTL and UDP/67 observation confirms DHCP on the Active node.''),
     (''standby_runtime'', ''Standby ownership'', ''The recovered node is not claiming the DNS Virtual IP.''),
     (''dhcp_safe'', ''DHCP standby state'', ''A fresh Pi-hole configuration and UDP/67 observation confirms DHCP is released on the recovered node.''),
     (''configuration_sync'', ''Pi-hole API, configuration and drift'', ''A post-recovery active-to-standby API comparison or synchronisation completed without supported drift.''),
     (''lease_sync'', ''DHCP generation and lease staging'', ''The standby has staged the current validated DHCP generation.''),
     (''peer_reachability'', ''Peer Network Reachability (optional)'', ''Optional ICMP ping only. An unavailable ping does not affect recovery, failover, failback, DNS health, or Kaya heartbeat status.'')]"

definition the_check :: "string \<Rightarrow> bool \<Rightarrow> bool \<Rightarrow> recovery_check" where
  "the_check key ok req =
     (case map_of check_texts key of
        Some (l, d) \<Rightarrow> \<lparr>check_key = key, check_label = l, passed = ok, detail = d, required = req\<rparr>
      | None \<Rightarrow> \<lparr>check_key = key, check_label = [], passed = ok, detail = [], required = req\<rparr>)"

lemma the_check_sel [simp]:
  "check_key (the_check k ok req) = k" "passed (the_check k ok req) = ok" "required (the_check k ok req) = req"
  by (auto simp: the_check_def split: option.split)

definition nameservers_seen :: "ha_node \<Rightarrow> string list" where
  "nameservers_seen n = take 8 (resolver_nameservers n)"

definition resolver_observed :: "ha_node \<Rightarrow> bool" where
  "resolver_observed n \<longleftrightarrow> resolver_observation_status n = Some ''FRESH''"

definition resolver_safe :: "ha_cluster \<Rightarrow> ha_node \<Rightarrow> bool" where
  "resolver_safe c n \<longleftrightarrow> resolver_observed n \<and>
     (case virtual_ip c of None \<Rightarrow> False | Some v \<Rightarrow> v \<noteq> [] \<and> v \<in> set (nameservers_seen n))"

definition resolver_peer_only :: "ha_cluster \<Rightarrow> ha_node \<Rightarrow> bool" where
  "resolver_peer_only c n \<longleftrightarrow> resolver_observed n \<and>
     (case find (\<lambda>m. node_id m \<noteq> node_id n) (nodes c) of
        None \<Rightarrow> False
      | Some p \<Rightarrow> nameservers_seen n \<noteq> [] \<and>
          (case management_host p of None \<Rightarrow> False
           | Some h \<Rightarrow> list_all (\<lambda>v. v = h) (nameservers_seen n)))"

definition resolver_detail :: "ha_cluster \<Rightarrow> ha_node \<Rightarrow> string" where
  "resolver_detail c n =
     (let vip = (case virtual_ip c of None \<Rightarrow> ''None'' | Some v \<Rightarrow> v);
          current = join '', '' (nameservers_seen n)
      in if resolver_peer_only c n
         then ''Host resolver depends on peer node. Agent reporting may fail during peer outage. Configure host DNS to use HA VIP.''
         else if resolver_safe c n
         then ''Current: '' @ current @ ''. Expected HA DNS Virtual IP: '' @ vip @ ''.''
         else if resolver_observed n
         then ''Current: '' @ text_or current ''none reported'' @ ''. Expected HA DNS Virtual IP: '' @ vip @ ''.''
         else ''Awaiting a resolver report from the current HA Agent. Expected HA DNS Virtual IP: '' @ vip @ ''.'')"

definition resolver_check :: "ha_cluster \<Rightarrow> ha_node \<Rightarrow> recovery_check" where
  "resolver_check c n =
     \<lparr>check_key = ''host_dns_resolver'', check_label = ''Host DNS Resolver'', passed = (\<not> resolver_peer_only c n),
      detail = resolver_detail c n, required = resolver_peer_only c n\<rparr>"

definition agent_reporting :: "ha_node \<Rightarrow> time \<Rightarrow> bool" where
  "agent_reporting n now \<longleftrightarrow> recovery_fresh n now \<and>
     (case agent_credential n of None \<Rightarrow> False | Some k \<Rightarrow> registered_at k \<noteq> None \<and> revoked_at k = None)"

definition nonempty_text :: "string option \<Rightarrow> bool" where
  "nonempty_text s \<longleftrightarrow> (case s of None \<Rightarrow> False | Some t \<Rightarrow> t \<noteq> [])"

text \<open>The checks that the active node and a standby have in common, in the order of the code.\<close>

definition common_checks :: "ha_cluster \<Rightarrow> ha_node \<Rightarrow> time \<Rightarrow> recovery_check list" where
  "common_checks c n now =
     [the_check ''kaya_heartbeat'' (recovery_fresh n now) True,
      the_check ''agent_identity'' (agent_reporting n now) True,
      the_check ''dns'' (dns_healthy n = Some True \<and> ftl_active n = Some True) True,
      the_check ''network_interface'' (nonempty_text (network_interface n)) True,
      the_check ''keepalived'' (node_keepalived_status n = ''DEPLOYED'' \<and> keepalived_runtime_state n = ''RUNNING'') True,
      the_check ''cluster_generation''
        (config_generation n \<ge> keepalived_generation c \<and> observed_generation n \<ge> role_generation c) True,
      resolver_check c n]"

definition recovery_checks :: "ha_cluster \<Rightarrow> ha_node \<Rightarrow> time \<Rightarrow> recovery_check list" where
  "recovery_checks c n now =
     (let active = current_active_node c now;
          observation = dhcp_observation n now None RECOVERY_HEARTBEAT_SECONDS;
          managed = pihole_manages_dhcp c;
          peer = the_check ''peer_reachability'' (peer_reachable n = Some True) False
      in if (case active of None \<Rightarrow> False | Some a \<Rightarrow> node_id n = node_id a)
         then common_checks c n now @
           [the_check ''active_runtime'' (vip_owned n) True,
            the_check ''dhcp_active'' (\<not> managed \<or> obs_active observation) managed,
            peer]
         else common_checks c n now @
           [the_check ''standby_runtime'' (\<not> vip_owned n \<and> observed_role n = Some ''STANDBY'') True,
            the_check ''dhcp_safe'' (\<not> managed \<or> obs_released observation) managed,
            the_check ''configuration_sync'' (configuration_sync c active n) True,
            the_check ''lease_sync'' (lease_sync c n) managed,
            peer])"

section \<open>Evaluation\<close>

text \<open>\<open>int(delta.total_seconds())\<close>: whole seconds, rounded towards zero.\<close>

definition whole_seconds :: "time \<Rightarrow> int" where
  "whole_seconds d = (if d \<ge> 0 then d div 1000000 else - ((- d) div 1000000))"

definition previous_state :: "ha_node \<Rightarrow> string" where
  "previous_state n = (if recovery_state n \<in> set RECOVERY_STATES then recovery_state n else ''STANDBY'')"

definition basic_keys :: "string list" where
  "basic_keys = [''kaya_heartbeat'', ''agent_identity'', ''dns'', ''network_interface'', ''keepalived'',
     ''cluster_generation'', ''standby_runtime'', ''dhcp_safe'']"

definition all_passed :: "string list \<Rightarrow> recovery_check list \<Rightarrow> bool" where
  "all_passed keys checks = list_all (\<lambda>k. required k \<and> check_key k \<in> set keys \<longrightarrow> passed k) checks"

text \<open>The body of the loop over the nodes: the recovery columns of one node.\<close>

definition recover_node :: "ha_cluster \<Rightarrow> ha_node option \<Rightarrow> time \<Rightarrow> int \<Rightarrow> ha_node \<Rightarrow> ha_node" where
  "recover_node c active now stability n =
     (let checks = recovery_checks c n now;
          idle = n\<lparr>recovery_started_at := None, recovery_stable_since := None\<rparr>
      in if (case active of None \<Rightarrow> False | Some a \<Rightarrow> node_id n = node_id a)
         then idle\<lparr>recovery_state := ''ACTIVE''\<rparr>
         else if \<not> recovery_fresh n now then idle\<lparr>recovery_state := ''OFFLINE''\<rparr>
         else
           (let m = (if previous_state n = ''OFFLINE'' \<or> recovery_started_at n = None
                     then n\<lparr>recovery_started_at := Some now\<rparr> else n)
            in if \<not> all_passed basic_keys checks
               then m\<lparr>recovery_state := ''RECOVERING'', recovery_stable_since := None\<rparr>
               else if \<not> all_passed [''configuration_sync'', ''lease_sync''] checks
               then m\<lparr>recovery_state := ''SYNCHRONISING'', recovery_stable_since := None\<rparr>
               else
                 (let since = (case recovery_stable_since m of None \<Rightarrow> now | Some t \<Rightarrow> t)
                  in m\<lparr>recovery_stable_since := Some since,
                       recovery_state := (if whole_seconds (now - since) \<ge> stability
                                          then ''STANDBY_READY'' else ''VERIFYING'')\<rparr>)))"

definition recovery_result :: "ha_cluster \<Rightarrow> time \<Rightarrow> int \<Rightarrow> ha_node \<Rightarrow> ha_node \<Rightarrow> node_recovery" where
  "recovery_result c now stability n m =
     \<lparr>nr_node = m, nr_state = recovery_state m, nr_checks = recovery_checks c n now,
      nr_stability_seconds = max 0 (case recovery_stable_since m of None \<Rightarrow> 0 | Some t \<Rightarrow> whole_seconds (now - t)),
      nr_stability_required_seconds = stability\<rparr>"

text \<open>The event that a change of state leaves in the log.\<close>

definition transition_label :: "ha_node \<Rightarrow> string \<Rightarrow> (string \<times> string \<times> string) option" where
  "transition_label n state = map_of
     [(''OFFLINE'', (''node_offline'', ''warning'', display_name n @ '' stopped reporting to Kaya.'')),
      (''RECOVERING'', (''node_recovered'', ''info'', display_name n @ '' is online and recovery checks have started.'')),
      (''SYNCHRONISING'', (''node_recovery_synchronising'', ''info'', display_name n @ '' is being synchronised from the current active node.'')),
      (''VERIFYING'', (''node_recovery_verifying'', ''info'', display_name n @ '' passed synchronisation checks and entered the stability window.'')),
      (''STANDBY_READY'', (''node_standby_ready'', ''info'', display_name n @ '' is fully recovered and ready for controlled failback.'')),
      (''ACTIVE'', (''node_active'', ''info'', display_name n @ '' is the current active node.'')),
      (''STANDBY'', (''node_standby'', ''info'', display_name n @ '' is operating as standby.''))] state"

definition event_for_transition :: "ha_node \<Rightarrow> time \<Rightarrow> ha_event list" where
  "event_for_transition m now =
     (case transition_label m (recovery_state m) of
        None \<Rightarrow> []
      | Some (event_type, severity, message) \<Rightarrow>
          [\<lparr>ev_node_id = Some (node_id m), ev_event_type = event_type, ev_severity = severity,
            ev_message = message, ev_phase = None, ev_role_generation = None, ev_occurred_at = now\<rparr>])"

record audit_entry =
  audit_action :: string
  audit_entity_id :: string
  audit_detail :: string
  audit_severity :: string

definition recovery_audit :: "string \<Rightarrow> ha_node \<Rightarrow> audit_entry" where
  "recovery_audit previous m =
     \<lparr>audit_action = ''ha_recovery_'' @ lower (recovery_state m), audit_entity_id = node_public_id m,
      audit_detail = display_name m @ '' recovery state changed from '' @ previous @ '' to '' @ recovery_state m @ ''.'',
      audit_severity = (if recovery_state m = ''OFFLINE'' then ''warning'' else ''info'')\<rparr>"

definition incident_key :: "ha_cluster \<Rightarrow> ha_node \<Rightarrow> string" where
  "incident_key c n = ''pihole:cluster:'' @ cluster_public_id c @ '':node:'' @ node_public_id n @ '':unreachable''"

definition publish_ha_notification :: "ha_env \<Rightarrow> ha_notification \<Rightarrow> ha_cluster \<Rightarrow> ha_cluster" where
  "publish_ha_notification env nt c =
     (case env_enqueue env nt of None \<Rightarrow> c | Some _ \<Rightarrow> c\<lparr>notifications := notifications c @ [nt]\<rparr>)"

definition unreachable_notification :: "ha_cluster \<Rightarrow> ha_node \<Rightarrow> ha_notification" where
  "unreachable_notification c n =
     \<lparr>nt_event_type_id = ''pihole.node.unreachable'', nt_title = ''Pi-hole node unreachable'',
      nt_message = display_name n @ '' stopped reporting to Kaya.'',
      nt_deduplication_key = incident_key c n, nt_source_entity_type = ''ha_node'',
      nt_source_entity_id = node_public_id n, nt_created_by_user_id = None\<rparr>"

text \<open>
  The result of an evaluation besides the updated cluster: a recovery per node, the incidents to
  resolve and the audit entries, in the order in which the code writes them.
\<close>

record recovery_outcome =
  ro_results :: "(int \<times> node_recovery) list"
  ro_resolved :: "string list"
  ro_audit :: "audit_entry list"

definition with_preferred :: "ha_cluster \<Rightarrow> ha_cluster" where
  "with_preferred c =
     (case (preferred_node_id c, preferred_node c) of
        (None, Some p) \<Rightarrow> c\<lparr>preferred_node_id := Some (node_id p)\<rparr>
      | _ \<Rightarrow> c)"

definition evaluate_recovery :: "ha_env \<Rightarrow> int \<Rightarrow> ha_cluster \<Rightarrow> ha_cluster \<times> recovery_outcome" where
  "evaluate_recovery env stability c =
     (let now = env_now env;
          c0 = with_preferred c;
          active = current_active_node c0 now;
          pairs = map (\<lambda>n. (n, recover_node c0 active now stability n)) (nodes c0);
          changed = filter (\<lambda>(n, m). previous_state n \<noteq> recovery_state m) pairs;
          c1 = c0\<lparr>nodes := map snd pairs,
                  events := events c0 @ concat (map (\<lambda>(n, m). event_for_transition m now) changed)\<rparr>;
          c2 = fold (\<lambda>m c. publish_ha_notification env (unreachable_notification c m) c)
                 (filter (\<lambda>m. recovery_state m = ''OFFLINE'') (map snd pairs)) c1
      in (c2, \<lparr>ro_results = map (\<lambda>(n, m). (node_id n, recovery_result c0 now stability n m)) pairs,
               ro_resolved = map (\<lambda>(n, m). incident_key c0 m)
                 (filter (\<lambda>(n, m). recovery_state m \<noteq> ''OFFLINE'' \<and> previous_state n = ''OFFLINE'') pairs),
               ro_audit = map (\<lambda>(n, m). recovery_audit (previous_state n) m) changed\<rparr>))"

definition failback_target :: "ha_env \<Rightarrow> ha_cluster \<Rightarrow> ha_cluster \<times> node_recovery option" where
  "failback_target env c =
     (case (current_active_node c (env_now env), preferred_node c) of
        (Some a, Some p) \<Rightarrow>
          if node_id a = node_id p then (c, None)
          else
            (let (c', out) = evaluate_recovery env RECOVERY_STABILITY_SECONDS c
             in (c', map_of (ro_results out) (node_id p)))
      | _ \<Rightarrow> (c, None))"

definition recovery_snapshot :: "ha_cluster \<Rightarrow> time \<Rightarrow> (int \<times> node_recovery) list" where
  "recovery_snapshot c now =
     map (\<lambda>n. (node_id n,
       \<lparr>nr_node = n, nr_state = previous_state n, nr_checks = recovery_checks c n now,
        nr_stability_seconds = max 0 (case recovery_stable_since n of None \<Rightarrow> 0 | Some t \<Rightarrow> whole_seconds (now - t)),
        nr_stability_required_seconds = RECOVERY_STABILITY_SECONDS\<rparr>)) (nodes c)"

section \<open>What readiness means\<close>

text \<open>The checks a standby has to pass at the moment of an evaluation.\<close>

definition standby_checks_pass :: "ha_cluster \<Rightarrow> ha_node option \<Rightarrow> time \<Rightarrow> ha_node \<Rightarrow> bool" where
  "standby_checks_pass c active now n \<longleftrightarrow>
     \<not> (case active of None \<Rightarrow> False | Some a \<Rightarrow> node_id n = node_id a) \<and> recovery_fresh n now \<and>
     all_passed basic_keys (recovery_checks c n now) \<and>
     all_passed [''configuration_sync'', ''lease_sync''] (recovery_checks c n now)"

lemma recover_node_stable:
  "recovery_stable_since (recover_node c active now stab n) =
     (if standby_checks_pass c active now n
      then Some (case recovery_stable_since n of None \<Rightarrow> now | Some t \<Rightarrow> t) else None)"
  by (auto simp: recover_node_def standby_checks_pass_def Let_def)

lemma recover_node_state:
  "recovery_state (recover_node c active now stab n) =
     (if (case active of None \<Rightarrow> False | Some a \<Rightarrow> node_id n = node_id a) then ''ACTIVE''
      else if \<not> recovery_fresh n now then ''OFFLINE''
      else if \<not> all_passed basic_keys (recovery_checks c n now) then ''RECOVERING''
      else if \<not> standby_checks_pass c active now n then ''SYNCHRONISING''
      else if whole_seconds (now - (case recovery_stable_since n of None \<Rightarrow> now | Some t \<Rightarrow> t)) \<ge> stab
      then ''STANDBY_READY'' else ''VERIFYING'')"
  by (simp add: recover_node_def standby_checks_pass_def Let_def)

lemma recover_node_ready:
  "recovery_state (recover_node c active now stab n) = ''STANDBY_READY'' \<longleftrightarrow>
     standby_checks_pass c active now n \<and>
     whole_seconds (now - (case recovery_stable_since n of None \<Rightarrow> now | Some t \<Rightarrow> t)) \<ge> stab"
  unfolding recover_node_state by (auto simp: standby_checks_pass_def)

lemma recover_node_frame:
  "recover_node c active now stab n =
     n\<lparr>recovery_state := recovery_state (recover_node c active now stab n),
       recovery_started_at := recovery_started_at (recover_node c active now stab n),
       recovery_stable_since := recovery_stable_since (recover_node c active now stab n)\<rparr>"
  by (simp add: recover_node_def Let_def)

text \<open>
  The life of a node's recovery columns: reports of its agent leave them alone, an evaluation
  rewrites them, and a completed maintenance run marks the node ready and restarts its clock. The
  list records, per event, the instant and whether the node passed.
\<close>

inductive recovery_history :: "(time \<times> bool) list \<Rightarrow> ha_node \<Rightarrow> bool" where
  unmarked: "recovery_stable_since n = None \<Longrightarrow> recovery_history [] n"
| reported: "recovery_history h n \<Longrightarrow> recovery_stable_since n' = recovery_stable_since n \<Longrightarrow> recovery_history h n'"
| evaluated: "recovery_history h n \<Longrightarrow> active = current_active_node c now \<Longrightarrow>
    recovery_history (h @ [(now, standby_checks_pass c active now n)]) (recover_node c active now stab n)"
| maintained: "recovery_history h n \<Longrightarrow>
    recovery_history (h @ [(now, True)])
      (n\<lparr>recovery_state := ''STANDBY_READY'', recovery_started_at := None, recovery_stable_since := Some now\<rparr>)"

lemma recovery_history_since:
  "recovery_history h n \<Longrightarrow> recovery_stable_since n = Some t \<Longrightarrow>
     \<exists>h1 h2. h = h1 @ (t, True) # h2 \<and> list_all snd h2"
proof (induction arbitrary: t rule: recovery_history.induct)
  case (evaluated h n active c now stab)
  then have pass: "standby_checks_pass c active now n" by (simp add: recover_node_stable split: if_splits)
  show ?case
  proof (cases "recovery_stable_since n")
    case None
    with evaluated(4) pass have "t = now" by (simp add: recover_node_stable)
    with pass show ?thesis by (intro exI [of _ h] exI [of _ "[]"]) simp
  next
    case (Some t')
    with evaluated(4) pass have "t' = t" by (simp add: recover_node_stable)
    with evaluated.IH Some obtain h1 h2 where "h = h1 @ (t, True) # h2" "list_all snd h2" by blast
    with pass show ?thesis by (intro exI [of _ h1] exI [of _ "h2 @ [(now, True)]"]) simp
  qed
next
  case (maintained h n now)
  then show ?case by (intro exI [of _ h] exI [of _ "[]"]) simp
qed auto

text \<open>
  A node is declared ready for failback only after a full stability window of uninterrupted
  health: whatever the node reported before, when an evaluation sets \<open>STANDBY_READY\<close> there is an
  earlier or equal moment, at least the stability period before it, such that the node passed the
  checks at that moment and at every evaluation since.
\<close>

theorem standby_ready_after_stable_window:
  assumes hist: "recovery_history h n" and "active = current_active_node c now"
    and ready: "recovery_state (recover_node c active now stab n) = ''STANDBY_READY''" and "0 \<le> stab"
  shows "\<exists>h1 t h2. h @ [(now, True)] = h1 @ (t, True) # h2 \<and> list_all snd h2 \<and>
           stab \<le> whole_seconds (now - t)"
proof (cases "recovery_stable_since n")
  case None
  with ready assms(4) show ?thesis
    by (intro exI [of _ h] exI [of _ now] exI [of _ "[]"]) (simp add: recover_node_ready)
next
  case (Some t)
  from recovery_history_since [OF hist Some] obtain h1 h2 where "h = h1 @ (t, True) # h2" "list_all snd h2" by blast
  with ready Some show ?thesis
    by (intro exI [of _ h1] exI [of _ t] exI [of _ "h2 @ [(now, True)]"]) (simp add: recover_node_ready)
qed

text \<open>What the checks of a standby require, and the two keys they do not look at.\<close>

lemma standby_checks_unfold:
  assumes "\<not> (case current_active_node c now of None \<Rightarrow> False | Some a \<Rightarrow> node_id n = node_id a)"
  shows "recovery_checks c n now = common_checks c n now @
           [the_check ''standby_runtime'' (\<not> vip_owned n \<and> observed_role n = Some ''STANDBY'') True,
            the_check ''dhcp_safe'' (\<not> pihole_manages_dhcp c \<or> obs_released (dhcp_observation n now None RECOVERY_HEARTBEAT_SECONDS)) (pihole_manages_dhcp c),
            the_check ''configuration_sync'' (configuration_sync c (current_active_node c now) n) True,
            the_check ''lease_sync'' (lease_sync c n) (pihole_manages_dhcp c),
            the_check ''peer_reachability'' (peer_reachable n = Some True) False]"
  using assms by (simp add: recovery_checks_def Let_def)

lemma standby_checks_pass_iff:
  "standby_checks_pass c (current_active_node c now) now n \<longleftrightarrow>
     \<not> (case current_active_node c now of None \<Rightarrow> False | Some a \<Rightarrow> node_id n = node_id a) \<and>
     recovery_fresh n now \<and> agent_reporting n now \<and> dns_healthy n = Some True \<and> ftl_active n = Some True \<and>
     nonempty_text (network_interface n) \<and> node_keepalived_status n = ''DEPLOYED'' \<and>
     keepalived_runtime_state n = ''RUNNING'' \<and> keepalived_generation c \<le> config_generation n \<and>
     role_generation c \<le> observed_generation n \<and> \<not> vip_owned n \<and> observed_role n = Some ''STANDBY'' \<and>
     (pihole_manages_dhcp c \<longrightarrow> obs_released (dhcp_observation n now None RECOVERY_HEARTBEAT_SECONDS)) \<and>
     configuration_sync c (current_active_node c now) n \<and> lease_sync c n"
proof (cases "case current_active_node c now of None \<Rightarrow> False | Some a \<Rightarrow> node_id n = node_id a")
  case True
  then show ?thesis by (simp add: standby_checks_pass_def)
next
  case False
  have "lease_sync c n" if "\<not> pihole_manages_dhcp c" using that by (simp add: lease_sync_def)
  then show ?thesis
    unfolding standby_checks_pass_def standby_checks_unfold [OF False]
    by (auto simp: all_passed_def basic_keys_def common_checks_def resolver_check_def)
qed

text \<open>
  A node that is declared ready is a healthy, released standby: it is not the active node, its
  registered agent reports, DNS and FTL answer, Keepalived runs the current generation, it does not
  hold the virtual IP, a synchronisation from the active node has completed since its recovery
  began and, where the cluster manages DHCP, its UDP/67 listener is off and the current leases are
  staged on it.
\<close>

theorem standby_ready_is_safe_standby:
  assumes "recovery_state (recover_node c (current_active_node c now) now stab n) = ''STANDBY_READY''"
  shows "\<not> vip_owned n \<and> observed_role n = Some ''STANDBY'' \<and> agent_reporting n now \<and>
         dns_healthy n = Some True \<and> ftl_active n = Some True \<and> node_keepalived_status n = ''DEPLOYED'' \<and>
         keepalived_generation c \<le> config_generation n \<and> role_generation c \<le> observed_generation n \<and>
         (\<exists>a. current_active_node c now = Some a \<and> node_id a \<noteq> node_id n \<and>
              (\<exists>s \<in> set (sync_runs c). sync_source_node_id s = node_id a \<and> sync_target_node_id s = node_id n \<and>
                 sync_status s \<in> {''IN_SYNC'', ''SUCCEEDED''})) \<and>
         (pihole_manages_dhcp c \<longrightarrow> dhcp_listener_active n = Some False \<and>
            (\<exists>st. lease_replication c = Some st \<and> lr_status st = ''CURRENT'' \<and>
                  desired_generation st \<le> lease_generation n))"
proof -
  from assms have pass: "standby_checks_pass c (current_active_node c now) now n"
    by (simp add: recover_node_ready)
  note facts = pass [unfolded standby_checks_pass_iff]
  from facts obtain a s where a: "current_active_node c now = Some a" "node_id a \<noteq> node_id n"
    and s: "latest_successful_sync c a n = Some s"
    by (auto simp: configuration_sync_def split: option.splits if_splits)
  from find_SomeD [OF s [unfolded latest_successful_sync_def]] have "s \<in> set (sync_runs c)"
    "sync_source_node_id s = node_id a" "sync_target_node_id s = node_id n" "sync_status s \<in> {''IN_SYNC'', ''SUCCEEDED''}"
    by (auto simp: sync_candidates_def)
  moreover have "dhcp_listener_active n = Some False" if "pihole_manages_dhcp c"
    using facts that by (auto dest: observation_releasedD)
  moreover have "\<exists>st. lease_replication c = Some st \<and> lr_status st = ''CURRENT'' \<and> desired_generation st \<le> lease_generation n"
    if "pihole_manages_dhcp c"
    using facts that by (auto simp: lease_sync_def split: option.splits)
  ultimately show ?thesis using facts a by blast
qed

section \<open>Evaluation does not interfere\<close>

text \<open>What is left of a node or a cluster without the columns that an evaluation may write.\<close>

definition erase_node :: "ha_node \<Rightarrow> ha_node" where
  "erase_node n = n\<lparr>recovery_state := [], recovery_started_at := None, recovery_stable_since := None\<rparr>"

definition erase_cluster :: "ha_cluster \<Rightarrow> ha_cluster" where
  "erase_cluster c = c\<lparr>nodes := map erase_node (nodes c), preferred_node_id := None, events := [], notifications := []\<rparr>"

lemma erase_recover_node [simp]: "erase_node (recover_node c active now stab n) = erase_node n"
  unfolding erase_node_def by (subst recover_node_frame) simp

lemma erase_with_preferred [simp]: "erase_cluster (with_preferred c) = erase_cluster c"
  by (simp add: erase_cluster_def with_preferred_def split: option.split)

lemma erase_publish [simp]: "erase_cluster (publish_ha_notification env nt c) = erase_cluster c"
  by (simp add: erase_cluster_def publish_ha_notification_def split: option.split)

lemma erase_fold_publish [simp]:
  "erase_cluster (fold (\<lambda>m c. publish_ha_notification env (f c m) c) ms c) = erase_cluster c"
  by (induction ms arbitrary: c) simp_all

lemma erase_nodes_events:
  "map erase_node ns = map erase_node (nodes c) \<Longrightarrow> erase_cluster (c\<lparr>nodes := ns, events := es\<rparr>) = erase_cluster c"
  by (simp add: erase_cluster_def)

lemma nodes_with_preferred [simp]: "nodes (with_preferred c) = nodes c"
  by (simp add: with_preferred_def split: option.split)

text \<open>
  Evaluating recovery never interferes with a transition: it writes the recovery columns of the
  nodes, a missing preferred node, the event log and notifications, and leaves every other column
  of the nodes and of the cluster, in particular roles, generations and runs, as it was.
\<close>

theorem evaluation_does_not_interfere:
  "erase_cluster (fst (evaluate_recovery env stab c)) = erase_cluster c"
proof -
  have "map erase_node (map (recover_node (with_preferred c) active now stab) (nodes c)) =
      map erase_node (nodes (with_preferred c))" for active now
    by simp
  then show ?thesis
    by (simp add: evaluate_recovery_def Let_def comp_def erase_nodes_events)
qed

lemma evaluated_nodes:
  "nodes (fst (evaluate_recovery env stab c)) =
     map (recover_node (with_preferred c) (current_active_node (with_preferred c) (env_now env)) (env_now env) stab) (nodes c)"
proof -
  have *: "nodes (fold (\<lambda>m c. publish_ha_notification env (f c m) c) ms c) = nodes c" for f ms c
    by (induction ms arbitrary: c) (simp_all add: publish_ha_notification_def split: option.split)
  show ?thesis by (simp add: evaluate_recovery_def Let_def comp_def *)
qed

text \<open>
  Failback is only offered towards the preferred node, never to the node that is active: the
  recovery that \<open>failback_target\<close> returns belongs to the preferred node, which is a different node
  from the active one.
\<close>

theorem failback_target_is_preferred_standby:
  assumes "failback_target env c = (c', Some r)"
  shows "\<exists>p a. preferred_node c = Some p \<and> current_active_node c (env_now env) = Some a \<and>
           node_id a \<noteq> node_id p \<and> node_id (nr_node r) = node_id p \<and> nr_state r = recovery_state (nr_node r)"
proof -
  from assms obtain a p where ap: "current_active_node c (env_now env) = Some a" "preferred_node c = Some p"
      "node_id a \<noteq> node_id p"
    and r: "map_of (ro_results (snd (evaluate_recovery env RECOVERY_STABILITY_SECONDS c))) (node_id p) = Some r"
    by (auto simp: failback_target_def case_prod_beta split: option.splits if_splits)
  have id: "node_id (recover_node c0 active now stab n) = node_id n" for c0 active now stab n
    by (subst recover_node_frame) simp
  from map_of_SomeD [OF r] have "node_id (nr_node r) = node_id p \<and> nr_state r = recovery_state (nr_node r)"
    by (auto simp: evaluate_recovery_def Let_def recovery_result_def id)
  with ap show ?thesis by blast
qed

section \<open>A recovery on the reference cluster\<close>

text \<open>
  The cluster after a failover: node 2 serves, node 1 is preferred and has come back as a standby;
  a synchronisation from node 2 to node 1 completed at time 0.
\<close>

definition returned_node :: "time \<Rightarrow> time option \<Rightarrow> ha_node" where
  "returned_node hb since = (standby_node 1 ''a'' hb)
     \<lparr>recovery_state := ''VERIFYING'', recovery_started_at := Some 0, recovery_stable_since := since\<rparr>"

definition recovering_cluster :: "time \<Rightarrow> ha_node \<Rightarrow> ha_cluster" where
  "recovering_cluster hb n = (reference_cluster hb)
     \<lparr>nodes := [n, serving_node 2 ''b'' hb],
      lease_replication := Some (reference_lease_state\<lparr>lr_source_node_id := Some 2, lr_target_node_id := Some 1\<rparr>),
      sync_runs := [\<lparr>sync_id = 1, sync_public_id = ''s'', sync_source_node_id = 2, sync_target_node_id = 1, sync_status = ''SUCCEEDED'',
        verified_sync_generation = None, required_sync_generation = None, plan_groups = None,
        sync_started_at = None, sync_completed_at = Some 0, sync_created_at = 0\<rparr>]\<rparr>"

definition ready_after :: "time \<Rightarrow> bool" where
  "ready_after now =
     (let n = returned_node now (Some 0); c = recovering_cluster now n
      in recovery_state (recover_node c (current_active_node c now) now RECOVERY_STABILITY_SECONDS n) = ''STANDBY_READY'')"

lemma ready_after_window: "ready_after (seconds 60)" "\<not> ready_after (seconds 59)"
  by code_simp+

theorem standby_ready_after_stable_window_witness:
  "\<exists>h1 t h2. [(0, True), (seconds 60, True)] = h1 @ (t, True) # h2 \<and> list_all snd h2 \<and> 60 \<le> whole_seconds (seconds 60 - t)"
proof -
  let ?early = "returned_node 0 None" and ?n = "returned_node (seconds 60) (Some 0)"
  let ?before = "recovering_cluster 0 ?early" and ?c = "recovering_cluster (seconds 60) ?n"
  have "recovery_history [] ?early" by (rule recovery_history.unmarked) code_simp
  from recovery_history.evaluated [OF this refl, where c = ?before and now = 0 and stab = 60]
  have h: "recovery_history [(0, standby_checks_pass ?before (current_active_node ?before 0) 0 ?early)]
      (recover_node ?before (current_active_node ?before 0) 0 60 ?early)" by simp
  have "standby_checks_pass ?before (current_active_node ?before 0) 0 ?early" by code_simp
  with h have h1: "recovery_history [(0, True)] (recover_node ?before (current_active_node ?before 0) 0 60 ?early)" by simp
  have since: "recovery_stable_since ?n = recovery_stable_since (recover_node ?before (current_active_node ?before 0) 0 60 ?early)"
    by code_simp
  have hist: "recovery_history [(0, True)] ?n" by (rule recovery_history.reported [OF h1 since])
  have ready: "recovery_state (recover_node ?c (current_active_node ?c (seconds 60)) (seconds 60) 60 ?n) = ''STANDBY_READY''"
    using ready_after_window(1) by (simp add: ready_after_def RECOVERY_STABILITY_SECONDS_def Let_def)
  from standby_ready_after_stable_window [OF hist refl ready] show ?thesis by simp
qed

theorem standby_ready_is_safe_standby_witness:
  "\<not> vip_owned (returned_node (seconds 60) (Some 0)) \<and>
   dhcp_listener_active (returned_node (seconds 60) (Some 0)) = Some False"
proof -
  let ?n = "returned_node (seconds 60) (Some 0)" and ?now = "seconds 60"
  let ?c = "recovering_cluster ?now ?n"
  have ready: "recovery_state (recover_node ?c (current_active_node ?c ?now) ?now 60 ?n) = ''STANDBY_READY''"
    using ready_after_window(1) by (simp add: ready_after_def RECOVERY_STABILITY_SECONDS_def Let_def)
  have "pihole_manages_dhcp ?c" by code_simp
  with standby_ready_is_safe_standby [OF ready] show ?thesis by blast
qed

definition failback_example :: "ha_cluster \<times> node_recovery option" where
  "failback_example = failback_target (reference_env (seconds 60))
     (recovering_cluster (seconds 60) (returned_node (seconds 60) (Some 0)))"

theorem failback_target_is_preferred_standby_witness:
  "\<exists>r. snd failback_example = Some r \<and> node_id (nr_node r) = 1 \<and> nr_ready r"
proof -
  let ?c = "recovering_cluster (seconds 60) (returned_node (seconds 60) (Some 0))"
  have "(case snd failback_example of None \<Rightarrow> False | Some r \<Rightarrow> nr_ready r)" by code_simp
  then obtain c' r where r: "failback_target (reference_env (seconds 60)) ?c = (c', Some r)" "nr_ready r"
    and s: "snd failback_example = Some r"
    by (cases "failback_target (reference_env (seconds 60)) ?c") (auto simp: failback_example_def split: option.splits)
  have p: "map_option node_id (preferred_node ?c) = Some 1" by code_simp
  from failback_target_is_preferred_standby [OF r(1)] p r(2) s show ?thesis by auto
qed

section \<open>Behaviours the checks do not prevent\<close>

text \<open>
  The host-resolver check is required when the host resolves only through its peer, but its key is
  in neither group of keys that the evaluation looks at: a node with that failing required check is
  declared ready, while its operational readiness says it is not.
\<close>

definition peer_resolved_node :: ha_node where
  "peer_resolved_node = (returned_node (seconds 60) (Some 0))
     \<lparr>resolver_nameservers := [''b''], resolver_observation_status := Some ''FRESH''\<rparr>"

definition peer_resolved_result :: node_recovery where
  "peer_resolved_result =
     (let now = seconds 60; c = recovering_cluster now peer_resolved_node; active = current_active_node c now
      in recovery_result c now 60 peer_resolved_node (recover_node c active now 60 peer_resolved_node))"

text \<open>
  A node can be declared ready for failback with a failing required check: the one of its host
  resolver.
\<close>

theorem ready_with_failing_required_check:
  "nr_ready peer_resolved_result \<and> operational_readiness peer_resolved_result = ''NOT_READY''"
  by code_simp

text \<open>
  The first evaluation after an outage judges the synchronisation by the start of the previous
  recovery, which the outage cleared: a node whose last synchronisation is older than the outage
  first enters the stability window and only the next evaluation sends it back to synchronising.
\<close>

definition outage_states :: "string \<times> string" where
  "outage_states =
     (let now = seconds 600;
          n = (standby_node 1 ''a'' now)\<lparr>recovery_state := ''OFFLINE''\<rparr>;
          c = recovering_cluster now n;
          m = recover_node c (current_active_node c now) now 60 n;
          c' = recovering_cluster now m
      in (recovery_state m, recovery_state (recover_node c' (current_active_node c' now) now 60 m)))"

lemma first_evaluation_accepts_old_sync: "outage_states = (''VERIFYING'', ''SYNCHRONISING'')"
  by code_simp

section \<open>Peer diagnostics\<close>

record peer_diagnostic_report =
  pd_status :: string
  pd_display_label :: string
  pd_explanation :: string
  pd_peer_name :: "string option"
  pd_peer_address :: "string option"
  pd_last_attempt_at :: "time option"
  pd_last_success_at :: "time option"
  pd_dns_status :: string
  pd_dns_display_label :: string
  pd_dns_last_attempt_at :: "time option"
  pd_dns_last_success_at :: "time option"
  pd_kaya_status :: string
  pd_kaya_display_label :: string
  pd_kaya_last_heartbeat_at :: "time option"

definition peer_diagnostic :: "ha_node \<Rightarrow> ha_node option \<Rightarrow> time \<Rightarrow> peer_diagnostic_report" where
  "peer_diagnostic n peer now =
     (let (status, label, explanation) =
            (case peer of
               None \<Rightarrow> (''NOT_CONFIGURED'', ''Not configured'', ''No peer node is configured.'')
             | Some p \<Rightarrow>
                 if peer_icmp_probe_status n = Some ''UNAVAILABLE''
                 then (''ICMP_PROBE_UNAVAILABLE'', ''ICMP probe unavailable'',
                   ''The node could not run its local ICMP probe. Check the installed HA Agent service capability and ping package. This does not mean the peer is unreachable.'')
                 else if last_peer_attempt_at n = None
                 then (''NOT_TESTED'', ''Not tested'', ''No ICMP ping result has been reported yet.'')
                 else if peer_icmp_probe_status n = Some ''AVAILABLE'' \<or> peer_reachable n = Some True
                 then (''PING_AVAILABLE'', ''Ping available'',
                   display_name n @ '' received an ICMP response from '' @ display_name p @ ''.'')
                 else (''PING_UNAVAILABLE'', ''Ping unavailable'',
                   ''ICMP may be blocked by the host firewall or network. This is informational and does not mean the peer, DNS, or HA Agent is offline.''));
          (dns_status, dns_label) =
            (if peer_dns_reachable n = Some True then (''REACHABLE'', ''DNS port 53 reachable'')
             else if peer_dns_reachable n = Some False then (''UNREACHABLE'', ''DNS port 53 unavailable'')
             else (''NOT_TESTED'', ''Not tested''));
          (kaya_status, kaya_label) =
            (case peer of
               None \<Rightarrow> (''NOT_REPORTED'', ''Not reported'')
             | Some p \<Rightarrow> if recovery_fresh p now then (''REPORTING'', ''Reporting to Kaya'')
                 else if last_heartbeat_at p \<noteq> None then (''DELAYED'', ''Heartbeat delayed'')
                 else (''NOT_REPORTED'', ''Not reported''))
      in \<lparr>pd_status = status, pd_display_label = label, pd_explanation = explanation,
          pd_peer_name = map_option display_name peer,
          pd_peer_address = (case peer of None \<Rightarrow> None | Some p \<Rightarrow> management_host p),
          pd_last_attempt_at = last_peer_attempt_at n, pd_last_success_at = last_peer_success_at n,
          pd_dns_status = dns_status, pd_dns_display_label = dns_label,
          pd_dns_last_attempt_at = last_peer_dns_attempt_at n, pd_dns_last_success_at = last_peer_dns_success_at n,
          pd_kaya_status = kaya_status, pd_kaya_display_label = kaya_label,
          pd_kaya_last_heartbeat_at = (case peer of None \<Rightarrow> None | Some p \<Rightarrow> last_heartbeat_at p)\<rparr>)"

text \<open>The diagnostics are informational: no ping or port result enters a required recovery check.\<close>

lemma peer_probe_never_required:
  assumes "k \<in> set (recovery_checks c n now)" and "check_key k = ''peer_reachability''"
  shows "\<not> required k"
  using assms by (auto simp: recovery_checks_def common_checks_def resolver_check_def Let_def split: if_splits)

end
