(* ===== verification/Kaya_Net.thy ===== *)
theory Kaya_Net
  imports Kaya_Base
begin

text \<open>
  IPv4 addresses as Python's \<open>ipaddress\<close> module reads and prints them, and the hardware address
  format the program accepts. An address is its number, below \<open>2 ^ 32\<close>.
\<close>

section \<open>IPv4 addresses\<close>

text \<open>
  An octet: one to three ASCII digits, no leading zero unless it is the single digit, at most 255.
\<close>

definition parse_octet :: "string \<Rightarrow> nat option" where
  "parse_octet s =
     (if s = [] \<or> \<not> list_all is_digit s \<or> length s > 3 then None
      else if s \<noteq> ''0'' \<and> hd s = CHR ''0'' then None
      else (let n = foldl (\<lambda>a c. 10 * a + digit_value c) 0 s in if n > 255 then None else Some n))"

definition parse_ipv4 :: "string \<Rightarrow> int option" where
  "parse_ipv4 s =
     (case map parse_octet (split_on (CHR ''.'') s) of
        [Some a, Some b, Some c, Some d] \<Rightarrow> Some (((int a * 256 + int b) * 256 + int c) * 256 + int d)
      | _ \<Rightarrow> None)"

definition format_ipv4 :: "int \<Rightarrow> string" where
  "format_ipv4 n = join ''.'' (map str_int [n div 16777216, n div 65536 mod 256, n div 256 mod 256, n mod 256])"

definition valid_ipv4 :: "string \<Rightarrow> bool" where
  "valid_ipv4 s \<longleftrightarrow> parse_ipv4 s \<noteq> None"

lemma char_of_digit: "is_digit c \<Longrightarrow> char_of (48 + digit_value c) = c"
  by (auto simp: is_digit_def digit_value_def)

lemma digit_value_le: "is_digit c \<Longrightarrow> digit_value c \<le> 9"
  by (auto simp: is_digit_def digit_value_def)

lemma digit_value_0: "is_digit c \<Longrightarrow> digit_value c = 0 \<Longrightarrow> c = CHR ''0''"
proof -
  assume c: "is_digit c" "digit_value c = 0"
  have "char_of (48::nat) = CHR ''0''" by code_simp
  with c char_of_digit [of c] show ?thesis by simp
qed

lemma digits_of_lt10: "n < 10 \<Longrightarrow> digits_of n = [char_of (48 + n)]"
  by (simp add: digits_of.simps)

lemma digits_of_step: "n \<ge> 1 \<Longrightarrow> d < 10 \<Longrightarrow> digits_of (10 * n + d) = digits_of n @ [char_of (48 + d)]"
  by (subst digits_of.simps) simp

lemma parse_octet_digits:
  assumes "parse_octet s = Some n"
  shows "digits_of n = s" and "n \<le> 255"
proof -
  from assms have d: "list_all is_digit s" "s \<noteq> []" "length s \<le> 3" "s = ''0'' \<or> hd s \<noteq> CHR ''0''"
    and n: "n = foldl (\<lambda>a c. 10 * a + digit_value c) 0 s" and le: "n \<le> 255"
    by (auto simp: parse_octet_def Let_def split: if_splits)
  show "n \<le> 255" by (rule le)
  from d(2,3) consider (one) a where "s = [a]" | (two) a b where "s = [a, b]" | (three) a b c where "s = [a, b, c]"
    by (cases s rule: list.exhaust [case_names Nil Cons]) (auto simp: length_Suc_conv le_Suc_eq numeral_eq_Suc)
  then show "digits_of n = s"
  proof cases
    case one
    with d n digit_value_le [of a] show ?thesis by (simp add: digits_of_lt10 char_of_digit)
  next
    case two
    then have a: "digit_value a \<ge> 1" using d digit_value_0 [of a] by (cases "digit_value a") auto
    from two d n a digit_value_le [of a] digit_value_le [of b] show ?thesis
      by (simp add: digits_of_step digits_of_lt10 char_of_digit less_Suc_eq_le)
  next
    case three
    then have a: "digit_value a \<ge> 1" using d digit_value_0 [of a] by (cases "digit_value a") auto
    then have ab: "10 * digit_value a + digit_value b \<ge> 1" by simp
    from three d n a ab digit_value_le [of a] digit_value_le [of b] digit_value_le [of c] show ?thesis
      using digits_of_step [OF ab, of "digit_value c"] by (simp add: digits_of_step digits_of_lt10 char_of_digit)
  qed
qed

lemma hd_digits_of: "n > 0 \<Longrightarrow> hd (digits_of n) \<noteq> CHR ''0''"
proof (induction n rule: digits_of.induct)
  case (1 n)
  show ?case
  proof (cases "n < 10")
    case True
    have "digit_value (CHR ''0'') = 0" by code_simp
    moreover have "digit_value (char_of (48 + n)) = n" using True by simp
    ultimately have "char_of (48 + n) = CHR ''0'' \<Longrightarrow> n = 0" by (simp only:)
    with 1(2) have "char_of (48 + n) \<noteq> CHR ''0''" by blast
    then show ?thesis using True by (simp add: digits_of_lt10)
  next
    case False
    with 1 show ?thesis by (simp add: digits_of.simps [of n])
  qed
qed

lemma length_digits_of: "n < 1000 \<Longrightarrow> length (digits_of n) \<le> 3"
  by (simp add: digits_of.simps [of n] digits_of.simps [of "n div 10"] digits_of_lt10)

lemma digits_of_0: "digits_of 0 = ''0''"
  by code_simp

lemma digits_of_octet: "n \<le> 255 \<Longrightarrow> parse_octet (digits_of n) = Some n"
  using length_digits_of [of n] hd_digits_of [of n] digits_of_digits [of _ n] foldl_digits_of [of n]
  by (cases "n = 0") (auto simp: parse_octet_def list_all_iff digits_of_0 digit_value_def is_digit_def Let_def)

text \<open>Reading back what was printed, and the canonical form of what was read.\<close>

lemma parse_octet_str_int: "0 \<le> n \<Longrightarrow> n \<le> 255 \<Longrightarrow> parse_octet (str_int n) = Some (nat n)"
  by (simp add: str_int_def digits_of_octet)

lemma dot_not_in_str_int: "0 \<le> n \<Longrightarrow> CHR ''.'' \<notin> set (str_int n)"
  using digits_of_digits [of "CHR ''.''" "nat n"] by (auto simp: str_int_def is_digit_def)

lemma ipv4_digits: "((n div 16777216 * 256 + n div 65536 mod 256) * 256 + n div 256 mod 256) * 256 + n mod 256 = (n::int)"
proof -
  have "n div 65536 = n div 256 div 256" "n div 16777216 = n div 256 div 256 div 256"
    by (simp_all add: zdiv_zmult2_eq [symmetric])
  then show ?thesis by (metis div_mult_mod_eq)
qed

lemma parse_ipv4_join:
  assumes "list_all (\<lambda>x. 0 \<le> x \<and> x \<le> 255) [a, b, c, d]"
  shows "parse_ipv4 (join ''.'' (map str_int [a, b, c, d])) = Some (((a * 256 + b) * 256 + c) * 256 + d)"
proof -
  have "split_on (CHR ''.'') (join ''.'' (map str_int [a, b, c, d])) = map str_int [a, b, c, d]"
    using assms by (simp add: split_on_append split_on_id dot_not_in_str_int)
  then show ?thesis using assms by (simp add: parse_ipv4_def parse_octet_str_int)
qed

lemma parse_ipv4_format: "0 \<le> n \<Longrightarrow> n < 2 ^ 32 \<Longrightarrow> parse_ipv4 (format_ipv4 n) = Some n"
proof -
  assume n: "0 \<le> n" "n < 2 ^ 32"
  have m: "0 \<le> m mod 256 \<and> m mod 256 \<le> 255" for m :: int
    using pos_mod_bound [of 256 m] pos_mod_sign [of 256 m] by simp
  have "0 \<le> n div 16777216" using n by (simp add: pos_imp_zdiv_nonneg_iff)
  moreover have "n div 16777216 < 256" using n by (simp add: div_less_iff_less_mult)
  ultimately have "list_all (\<lambda>x. 0 \<le> x \<and> x \<le> 255) [n div 16777216, n div 65536 mod 256, n div 256 mod 256, n mod 256]"
    by (simp only: list.pred_inject m) simp
  from parse_ipv4_join [OF this] show ?thesis by (simp only: format_ipv4_def ipv4_digits)
qed

lemma format_parse_ipv4:
  assumes "parse_ipv4 s = Some n"
  shows "format_ipv4 n = s" and "n < 2 ^ 32" and "0 \<le> n"
proof -
  from assms obtain a b c d where p: "map parse_octet (split_on (CHR ''.'') s) = [Some a, Some b, Some c, Some d]"
    and n: "n = ((int a * 256 + int b) * 256 + int c) * 256 + int d"
    by (auto simp: parse_ipv4_def split: list.splits option.splits)
  from p obtain sa sb sc sd where s: "split_on (CHR ''.'') s = [sa, sb, sc, sd]"
    and o: "parse_octet sa = Some a" "parse_octet sb = Some b" "parse_octet sc = Some c" "parse_octet sd = Some d"
    by (auto simp: map_eq_Cons_conv)
  have le: "int a \<le> 255" "int b \<le> 255" "int c \<le> 255" "int d \<le> 255"
    using parse_octet_digits(2) [OF o(1)] parse_octet_digits(2) [OF o(2)] parse_octet_digits(2) [OF o(3)]
      parse_octet_digits(2) [OF o(4)] by simp_all
  show "n < 2 ^ 32" and "0 \<le> n" using n le by simp_all
  have q: "(x * 256 + int y) div 256 = x" "(x * 256 + int y) mod 256 = int y" if "int y \<le> 255" for x y
    using that by simp_all
  have "n div 256 = (int a * 256 + int b) * 256 + int c" "n mod 256 = int d" unfolding n by (rule q [OF le(4)])+
  moreover have "n div 65536 = n div 256 div 256" "n div 16777216 = n div 256 div 256 div 256"
    by (simp_all add: zdiv_zmult2_eq [symmetric])
  ultimately have "n div 16777216 = int a" "n div 65536 mod 256 = int b" "n div 256 mod 256 = int c" "n mod 256 = int d"
    using q [OF le(3), of "int a * 256 + int b"] q [OF le(2), of "int a"] by (simp_all only:)
  then have "format_ipv4 n = join ''.'' (map str_int [int a, int b, int c, int d])"
    by (simp only: format_ipv4_def)
  also have "\<dots> = join ''.'' [sa, sb, sc, sd]"
    using parse_octet_digits(1) [OF o(1)] parse_octet_digits(1) [OF o(2)] parse_octet_digits(1) [OF o(3)]
      parse_octet_digits(1) [OF o(4)]
    by (simp add: str_int_def)
  also have "\<dots> = s" using join_split_on [of "CHR ''.''" s] s by simp
  finally show "format_ipv4 n = s" .
qed

section \<open>Hardware addresses\<close>

definition is_hex_lower :: "char \<Rightarrow> bool" where
  "is_hex_lower c \<longleftrightarrow> is_digit c \<or> c \<in> {CHR ''a'', CHR ''b'', CHR ''c'', CHR ''d'', CHR ''e'', CHR ''f''}"

text \<open>\<open>^[0-9a-f]{2}(?::[0-9a-f]{2}){5}$\<close>, matched in full.\<close>

definition valid_mac :: "string \<Rightarrow> bool" where
  "valid_mac s \<longleftrightarrow>
     (let ps = split_on (CHR '':'') s
      in length ps = 6 \<and> list_all (\<lambda>p. length p = 2 \<and> list_all is_hex_lower p) ps)"

end
