(* ===== verification/HA_Leases.thy ===== *)
theory HA_Leases
  imports HA_Topology Kaya_Json Kaya_Net "HOL-Library.Multiset"
begin

text \<open>
  Replication of DHCP leases from the active Pi-hole to the standby (\<open>app/services/ha_leases.py\<close>):
  reading the DHCP configuration and the lease table from the Pi-hole's untyped answers, validating
  and normalising the leases, versioned snapshots, and the staging protocol with the standby's
  agent. The answers of the Pi-hole HTTP client are arguments; encryption of a snapshot payload
  (\<open>app.core.security\<close>, which wraps a third-party cipher) is a pair of functions.
\<close>

datatype lease_error = HALeaseError string | LeaseAttributeError

type_synonym json_object = "(string \<times> json) list"

definition MAX_LEASES :: int where
  "MAX_LEASES = 10000"

section \<open>Reading the DHCP configuration\<close>

fun dict_at :: "json \<Rightarrow> string list \<Rightarrow> json_object" where
  "dict_at v [] = (case v of JObj d \<Rightarrow> d | _ \<Rightarrow> [])"
| "dict_at v (k # ks) = (case v of JObj d \<Rightarrow> dict_at (obj_get d k) ks | _ \<Rightarrow> [])"

definition dhcp_payload :: "json \<Rightarrow> json" where
  "dhcp_payload result =
     (let data = (case result of JObj d \<Rightarrow> d | _ \<Rightarrow> []);
          raw = (case obj_get_default data ''configuration'' (JObj data) of
                   JObj c \<Rightarrow> obj_get_default c ''dhcp'' (JObj []) | _ \<Rightarrow> JObj []);
          config = dict_at raw [''config'', ''dhcp'']
      in if config \<noteq> [] then JObj config
         else (let outer = dict_at raw [''config''] in obj_get_default outer ''dhcp'' (JObj outer)))"

definition is_enabled :: "json_object \<Rightarrow> bool" where
  "is_enabled dhcp =
     (let v = obj_get_default dhcp ''active'' (obj_get_default dhcp ''enabled'' (JBool False))
      in v = JBool True \<or> lower (strip (py_str v)) \<in> {''1'', ''true'', ''yes'', ''enabled''})"

definition reservation_candidate :: "json \<Rightarrow> json" where
  "reservation_candidate item =
     (case item of
        JObj d \<Rightarrow> json_or (obj_get d ''ip'') (obj_get d ''address'')
      | JStr s \<Rightarrow> (case find valid_ipv4 (map strip (split_on (CHR '','') s)) of None \<Rightarrow> JNull | Some p \<Rightarrow> JStr p)
      | _ \<Rightarrow> JNull)"

definition reservation_ips :: "json_object \<Rightarrow> string list" where
  "reservation_ips dhcp =
     (case obj_get_default dhcp ''hosts'' (obj_get_default dhcp ''reservations'' (JList [])) of
        JList items \<Rightarrow>
          dict_fromkeys (map py_str (filter (\<lambda>v. truthy v \<and> valid_ipv4 (py_str v)) (map reservation_candidate items)))
      | _ \<Rightarrow> [])"

definition range_fields :: "json_object \<Rightarrow> json \<times> json" where
  "range_fields dhcp =
     (let s = json_or (json_or (obj_get dhcp ''start'') (obj_get dhcp ''range_start'')) (obj_get dhcp ''from'');
          e = json_or (json_or (obj_get dhcp ''end'') (obj_get dhcp ''range_end'')) (obj_get dhcp ''to'');
          (s1, e1) = (if \<not> truthy s then (case obj_get dhcp ''range'' of
                        JObj d \<Rightarrow> (obj_get d ''start'', obj_get d ''end'') | _ \<Rightarrow> (s, e)) else (s, e))
      in if \<not> truthy s1 then (case obj_get dhcp ''range'' of
           JList (a # b # _) \<Rightarrow> (a, b) | _ \<Rightarrow> (s1, e1)) else (s1, e1))"

definition dhcp_range :: "json_object \<Rightarrow> lease_error + (int \<times> int) option" where
  "dhcp_range dhcp =
     (case range_fields dhcp of (s, e) \<Rightarrow>
        if \<not> truthy s \<or> \<not> truthy e then Inr None
        else
          (case (parse_ipv4 (py_str s), parse_ipv4 (py_str e)) of
             (Some lo, Some hi) \<Rightarrow>
               if lo > hi then Inl (HALeaseError ''The main Pi-hole returned an invalid DHCP range.'')
               else Inr (Some (lo, hi))
           | _ \<Rightarrow> Inr None))"

section \<open>Normalising leases\<close>

record lease =
  le_expires :: int
  le_hwaddr :: string
  le_ip :: string
  le_name :: string
  le_clientid :: string

definition objects_of :: "json list \<Rightarrow> json_object list" where
  "objects_of xs = concat (map (\<lambda>v. case v of JObj d \<Rightarrow> [d] | _ \<Rightarrow> []) xs)"

definition lease_rows :: "json \<Rightarrow> lease_error + json_object list" where
  "lease_rows data =
     (case data of
        JList xs \<Rightarrow> Inr (objects_of xs)
      | JObj d \<Rightarrow>
          (case obj_get d ''leases'' of
             JList xs \<Rightarrow> Inr (objects_of xs)
           | _ \<Rightarrow> (case obj_get d ''data'' of
                      JList xs \<Rightarrow> Inr (objects_of xs)
                    | _ \<Rightarrow> Inl (HALeaseError ''The main Pi-hole returned an unrecognised DHCP lease response.'')))
      | _ \<Rightarrow> Inl (HALeaseError ''The main Pi-hole returned an unrecognised DHCP lease response.''))"

definition row_text :: "json_object \<Rightarrow> string \<Rightarrow> string \<Rightarrow> string" where
  "row_text row a b = strip (py_str (json_or (json_or (obj_get row a) (obj_get row b)) (JStr [])))"

definition row_mac :: "json_object \<Rightarrow> string" where
  "row_mac row =
     map (\<lambda>ch. if ch = CHR ''-'' then CHR '':'' else ch)
       (lower (strip (py_str (json_or (json_or (json_or (obj_get row ''hwaddr'') (obj_get row ''mac''))
         (obj_get row ''mac_address'')) (JStr [])))))"

definition row_identity ::
  "(int \<times> int) option \<Rightarrow> string list \<Rightarrow> json_object \<Rightarrow> lease_error + string \<times> string" where
  "row_identity rng reservations row =
     (let text = row_text row ''ip'' ''address''; mac = row_mac row
      in case parse_ipv4 text of
           None \<Rightarrow> Inl (HALeaseError ''Pi-hole returned a lease with an invalid IPv4 address.'')
         | Some n \<Rightarrow>
             (let ip = format_ipv4 n
              in if \<not> valid_mac mac
                 then Inl (HALeaseError (''Pi-hole returned an invalid hardware address for lease '' @ ip @ ''.''))
                 else if (case rng of None \<Rightarrow> False | Some (a, b) \<Rightarrow> \<not> (a \<le> n \<and> n \<le> b)) \<and> ip \<notin> set reservations
                 then Inl (HALeaseError (''Lease '' @ ip @ '' is outside the configured DHCP range and is not a reservation.''))
                 else Inr (ip, mac)))"

definition row_expiry :: "json_object \<Rightarrow> int option" where
  "row_expiry row = map_option (max 0) (py_int (json_or (json_or (obj_get row ''expires'') (obj_get row ''expiry'')) (JInt 0)))"

definition row_lease :: "string \<times> string \<Rightarrow> int \<Rightarrow> json_object \<Rightarrow> lease" where
  "row_lease key ex row =
     \<lparr>le_expires = ex, le_hwaddr = snd key, le_ip = fst key,
      le_name = take 255 (row_text row ''name'' ''hostname''),
      le_clientid = take 255 (row_text row ''clientid'' ''client_id'')\<rparr>"

fun normalise_rows ::
  "(int \<times> int) option \<Rightarrow> string list \<Rightarrow> (string \<rightharpoonup> string) \<Rightarrow> json_object list \<Rightarrow> lease_error + lease list" where
  "normalise_rows rng reservations owners [] = Inr []"
| "normalise_rows rng reservations owners (row # rows) =
     (case row_identity rng reservations row of
        Inl e \<Rightarrow> Inl e
      | Inr (ip, mac) \<Rightarrow>
          if (case owners ip of None \<Rightarrow> False | Some m \<Rightarrow> m \<noteq> mac)
          then Inl (HALeaseError (''Conflicting leases assign '' @ ip @ '' to more than one device.''))
          else
            (case row_expiry row of
               None \<Rightarrow> Inl (HALeaseError (''Pi-hole returned an invalid expiry for lease '' @ ip @ ''.''))
             | Some ex \<Rightarrow>
                 (case normalise_rows rng reservations (owners(ip \<mapsto> mac)) rows of
                    Inl e \<Rightarrow> Inl e
                  | Inr ls \<Rightarrow> Inr (row_lease (ip, mac) ex row # ls))))"

definition lease_order :: "lease \<Rightarrow> int \<times> string" where
  "lease_order l = (case parse_ipv4 (le_ip l) of None \<Rightarrow> 0 | Some n \<Rightarrow> n, le_hwaddr l)"

definition normalise_leases ::
  "json \<Rightarrow> (int \<times> int) option \<Rightarrow> string list \<Rightarrow> lease_error + lease list" where
  "normalise_leases data rng reservations =
     (case lease_rows data of
        Inl e \<Rightarrow> Inl e
      | Inr rows \<Rightarrow>
          if int (length rows) > MAX_LEASES
          then Inl (HALeaseError ''The Pi-hole returned more than the safe limit of 10000 leases.'')
          else
            (case normalise_rows rng reservations Map.empty rows of
               Inl e \<Rightarrow> Inl e
             | Inr ls \<Rightarrow> Inr (sort_key lease_order ls)))"

section \<open>Inspection\<close>

record provider_result =
  pr_ok :: bool
  pr_message :: string
  pr_data :: json

record lease_inspection_inputs =
  li_source_id :: int
  li_source_public_id :: string
  li_target_id :: int
  li_continuity_enabled :: bool
  li_connection :: bool

record lease_plan =
  applicable :: bool
  lp_source_id :: int
  lp_source_public_id :: string
  lp_target_id :: int
  lp_leases :: "lease list"
  lp_reservations :: "string list"
  lp_range :: "(int \<times> int) option"

definition lease_nodes :: "ha_cluster \<Rightarrow> lease_error + ha_node \<times> ha_node" where
  "lease_nodes c =
     (case or_else (find (\<lambda>n. Some (node_id n) = authoritative_node_id c) (nodes c))
             (find (\<lambda>n. role n = ''ACTIVE'') (nodes c)) of
        None \<Rightarrow> Inl (HALeaseError ''Kaya cannot identify the main Pi-hole for lease replication.'')
      | Some s \<Rightarrow>
          (case find (\<lambda>n. node_id n \<noteq> node_id s) (nodes c) of
             None \<Rightarrow> Inl (HALeaseError ''Lease replication requires a standby Pi-hole.'')
           | Some t \<Rightarrow> Inr (s, t)))"

text \<open>\<open>connected\<close> tells whether a connection is configured for the source node.\<close>

definition prepare_lease_inspection :: "ha_cluster \<Rightarrow> (ha_node \<Rightarrow> bool) \<Rightarrow> lease_error + lease_inspection_inputs" where
  "prepare_lease_inspection c connected =
     (case lease_nodes c of
        Inl e \<Rightarrow> Inl e
      | Inr (s, t) \<Rightarrow>
          Inr \<lparr>li_source_id = node_id s, li_source_public_id = node_public_id s, li_target_id = node_id t,
               li_continuity_enabled = lease_continuity_enabled c,
               li_connection = (lease_continuity_enabled c \<and> connected s)\<rparr>)"

definition plan_of ::
  "lease_inspection_inputs \<Rightarrow> bool \<Rightarrow> lease list \<Rightarrow> string list \<Rightarrow> (int \<times> int) option \<Rightarrow> lease_plan" where
  "plan_of inp ok ls res rng =
     \<lparr>applicable = ok, lp_source_id = li_source_id inp, lp_source_public_id = li_source_public_id inp,
      lp_target_id = li_target_id inp, lp_leases = ls, lp_reservations = res, lp_range = rng\<rparr>"

definition inspect_lease_plan ::
  "lease_inspection_inputs \<Rightarrow> provider_result \<Rightarrow> provider_result \<Rightarrow> lease_error + lease_plan" where
  "inspect_lease_plan inp configuration result =
     (if \<not> li_continuity_enabled inp then Inr (plan_of inp False [] [] None)
      else if \<not> li_connection inp then Inl (HALeaseError ''The main Pi-hole connection is unavailable.'')
      else if \<not> pr_ok configuration then Inl (HALeaseError (pr_message configuration))
      else
        (case dhcp_payload (pr_data configuration) of
           JObj dhcp \<Rightarrow>
             (case dhcp_range dhcp of
                Inl e \<Rightarrow> Inl e
              | Inr rng \<Rightarrow>
                  (let res = reservation_ips dhcp
                   in if \<not> is_enabled dhcp then Inr (plan_of inp False [] res rng)
                      else if rng = None
                      then Inl (HALeaseError ''Pi-hole DHCP is enabled, but Kaya could not validate its address range.'')
                      else if \<not> pr_ok result then Inl (HALeaseError (pr_message result))
                      else
                        (case normalise_leases (pr_data result) rng res of
                           Inl e \<Rightarrow> Inl e
                         | Inr ls \<Rightarrow> Inr (plan_of inp True ls res rng))))
         | _ \<Rightarrow> Inl LeaseAttributeError))"

definition inspect_cluster_leases ::
  "ha_cluster \<Rightarrow> (ha_node \<Rightarrow> bool) \<Rightarrow> provider_result \<Rightarrow> provider_result \<Rightarrow> lease_error + lease_plan" where
  "inspect_cluster_leases c connected configuration result =
     (case prepare_lease_inspection c connected of
        Inl e \<Rightarrow> Inl e
      | Inr inp \<Rightarrow> inspect_lease_plan inp configuration result)"

section \<open>Snapshots and the replication state\<close>

definition lease_json :: "lease \<Rightarrow> json" where
  "lease_json l = JObj [(''expires'', JInt (le_expires l)), (''hwaddr'', JStr (le_hwaddr l)), (''ip'', JStr (le_ip l)),
     (''name'', JStr (le_name l)), (''clientid'', JStr (le_clientid l))]"

definition snapshot_payload :: "ha_cluster \<Rightarrow> lease_plan \<Rightarrow> json" where
  "snapshot_payload c plan = JObj [(''version'', JInt 1), (''cluster_id'', JStr (cluster_public_id c)),
     (''source_node_id'', JStr (lp_source_public_id plan)), (''leases'', JList (map lease_json (lp_leases plan)))]"

definition new_lease_state :: ha_lease_replication_state where
  "new_lease_state =
     \<lparr>lr_source_node_id = None, lr_target_node_id = None, lr_status = ''NOT_APPLICABLE'', desired_generation = 0,
      applied_generation = 0, lr_lease_count = 0, difference_count = 0, conflict_count = 0, last_event_at = None,
      last_full_reconciliation_at = None, last_applied_at = None, lr_last_error = None\<rparr>"

definition lease_state :: "ha_cluster \<Rightarrow> ha_lease_replication_state" where
  "lease_state c = (case lease_replication c of None \<Rightarrow> new_lease_state | Some st \<Rightarrow> st)"

definition latest_snapshot :: "ha_cluster \<Rightarrow> ha_lease_snapshot option" where
  "latest_snapshot c = min_by (\<lambda>s. - sn_generation s) (lease_snapshots c)"

text \<open>The functions of \<open>app.core.security\<close> that protect a snapshot.\<close>

record lease_cipher =
  encrypt_secret :: "string \<Rightarrow> string"
  decrypt_secret :: "string \<Rightarrow> string option"

text \<open>The reconciliation of a plan: the new state, and the new snapshot if there is one.\<close>

definition reconcile_plan ::
  "ha_env \<Rightarrow> lease_cipher \<Rightarrow> ha_cluster \<Rightarrow> lease_plan \<Rightarrow> ha_cluster" where
  "reconcile_plan env cipher c plan =
     (let now = env_now env;
          st = (lease_state c)\<lparr>lr_source_node_id := Some (lp_source_id plan), lr_target_node_id := Some (lp_target_id plan),
                 last_full_reconciliation_at := Some now, lr_last_error := None\<rparr>
      in if \<not> applicable plan
         then c\<lparr>lease_replication := Some (st\<lparr>lr_status := ''NOT_APPLICABLE'', lr_lease_count := 0,
                  difference_count := 0, conflict_count := 0\<rparr>)\<rparr>
         else
           (let encoded = json_dumps (snapshot_payload c plan);
                checksum = env_sha256 env encoded;
                latest = latest_snapshot c;
                count = int (length (lp_leases plan));
                unchanged = (case latest of None \<Rightarrow> False | Some s \<Rightarrow> sn_checksum s = checksum);
                st1 = st\<lparr>lr_lease_count := count,
                  difference_count := (if unchanged then 0
                    else max 1 (max count (case latest of None \<Rightarrow> 0 | Some s \<Rightarrow> sn_lease_count s))),
                  conflict_count := 0\<rparr>;
                latest_status = (case latest of None \<Rightarrow> [] | Some s \<Rightarrow> sn_status s)
            in if unchanged \<and> latest_status \<in> {''PENDING'', ''STAGED''}
               then c\<lparr>lease_replication := Some (st1\<lparr>lr_status :=
                      (if latest_status = ''STAGED'' then ''CURRENT'' else ''PENDING'')\<rparr>)\<rparr>
               else
                 (let generation = max (desired_generation st1) (case latest of None \<Rightarrow> 0 | Some s \<Rightarrow> sn_generation s) + 1;
                      snapshot = \<lparr>sn_source_node_id = lp_source_id plan, sn_target_node_id = lp_target_id plan,
                        sn_generation = generation, sn_checksum = checksum,
                        sn_encrypted_payload = encrypt_secret cipher encoded, sn_lease_count = count,
                        sn_status = ''PENDING'', sn_staged_at = None\<rparr>
                  in c\<lparr>lease_snapshots := lease_snapshots c @ [snapshot],
                       lease_replication := Some (st1\<lparr>desired_generation := generation, lr_status := ''PENDING'',
                         last_event_at := Some now\<rparr>)\<rparr>)))"

definition blocked_state :: "ha_env \<Rightarrow> string \<Rightarrow> ha_cluster \<Rightarrow> ha_cluster" where
  "blocked_state env message c =
     c\<lparr>lease_replication := Some ((lease_state c)\<lparr>lr_status := ''BLOCKED'',
        conflict_count := (if contains ''conflict'' (lower message) then 1 else 0),
        lr_last_error := Some (take 1000 message), last_full_reconciliation_at := Some (env_now env)\<rparr>)\<rparr>"

text \<open>
  A failed inspection commits the blocked state and then raises; an error that is not a
  \<open>HALeaseError\<close> leaves only the state row that was flushed before.
\<close>

definition reconcile_cluster_leases ::
  "ha_env \<Rightarrow> lease_cipher \<Rightarrow> ha_cluster \<Rightarrow> lease_error + lease_plan \<Rightarrow>
   ha_cluster \<times> (lease_error + ha_lease_replication_state)" where
  "reconcile_cluster_leases env cipher c inspection =
     (case inspection of
        Inl (HALeaseError message) \<Rightarrow> (blocked_state env message c, Inl (HALeaseError message))
      | Inl LeaseAttributeError \<Rightarrow> (c, Inl LeaseAttributeError)
      | Inr plan \<Rightarrow> (let c' = reconcile_plan env cipher c plan in (c', Inr (lease_state c'))))"

section \<open>Staging on the standby\<close>

record lease_action =
  la_action_id :: string
  la_generation :: int
  la_checksum :: string
  la_snapshot_path :: string

definition snapshot_of :: "ha_cluster \<Rightarrow> int \<Rightarrow> ha_lease_snapshot option" where
  "snapshot_of c generation = find (\<lambda>s. sn_generation s = generation) (lease_snapshots c)"

definition desired_lease_action :: "ha_cluster \<Rightarrow> ha_node \<Rightarrow> lease_action option" where
  "desired_lease_action c n =
     (case lease_replication c of
        None \<Rightarrow> None
      | Some st \<Rightarrow>
          if lr_status st \<noteq> ''PENDING'' \<or> lr_target_node_id st \<noteq> Some (node_id n) then None
          else
            (case snapshot_of c (desired_generation st) of
               None \<Rightarrow> None
             | Some s \<Rightarrow>
                 if sn_status s \<noteq> ''PENDING'' then None
                 else Some
                   \<lparr>la_action_id = ''lease:'' @ cluster_public_id c @ '':'' @ node_public_id n @ '':'' @
                      str_int (sn_generation s) @ '':'' @ take 12 (sn_checksum s),
                    la_generation = sn_generation s, la_checksum = sn_checksum s,
                    la_snapshot_path = ''/api/ha/agent/v1/lease-snapshot/'' @ str_int (sn_generation s)\<rparr>))"

definition lease_result_mismatch :: lease_error where
  "lease_result_mismatch =
     HALeaseError (''The lease result does not match the target'' @ [CHR 0x27] @ ''s current desired generation.'')"

definition lease_checksum_mismatch :: lease_error where
  "lease_checksum_mismatch =
     HALeaseError (''The staged lease checksum does not match Kaya'' @ [CHR 0x27] @ ''s validated snapshot.'')"

text \<open>The document handed to the agent; the payload is the decrypted JSON text.\<close>

definition snapshot_for_agent :: "lease_cipher \<Rightarrow> ha_cluster \<Rightarrow> ha_node \<Rightarrow> int \<Rightarrow> lease_error + int \<times> string \<times> string" where
  "snapshot_for_agent cipher c n generation =
     (case lease_replication c of
        None \<Rightarrow> Inl (HALeaseError ''This lease snapshot is not assigned to this node.'')
      | Some st \<Rightarrow>
          if lr_target_node_id st \<noteq> Some (node_id n) \<or> desired_generation st \<noteq> generation
          then Inl (HALeaseError ''This lease snapshot is not assigned to this node.'')
          else
            (case snapshot_of c generation of
               None \<Rightarrow> Inl (HALeaseError ''The requested lease snapshot is unavailable.'')
             | Some s \<Rightarrow>
                 if sn_status s \<noteq> ''PENDING'' then Inl (HALeaseError ''The requested lease snapshot is unavailable.'')
                 else
                   (case decrypt_secret cipher (sn_encrypted_payload s) of
                      None \<Rightarrow> Inl LeaseAttributeError
                    | Some text \<Rightarrow> Inr (sn_generation s, sn_checksum s, text))))"

text \<open>Writing to the first snapshot with a generation, the row that \<open>snapshot_of\<close> returns.\<close>

fun update_snapshot :: "int \<Rightarrow> (ha_lease_snapshot \<Rightarrow> ha_lease_snapshot) \<Rightarrow> ha_lease_snapshot list \<Rightarrow> ha_lease_snapshot list" where
  "update_snapshot g f [] = []"
| "update_snapshot g f (s # ss) = (if sn_generation s = g then f s # ss else s # update_snapshot g f ss)"

definition record_lease_stage_result ::
  "ha_env \<Rightarrow> ha_cluster \<Rightarrow> ha_node \<Rightarrow> int \<Rightarrow> string option \<Rightarrow> string \<Rightarrow> string \<Rightarrow> lease_error + ha_cluster" where
  "record_lease_stage_result env c n generation checksum status message =
     (case lease_replication c of
        None \<Rightarrow> Inl lease_result_mismatch
      | Some st \<Rightarrow>
          if lr_target_node_id st \<noteq> Some (node_id n) \<or> desired_generation st \<noteq> generation
          then Inl lease_result_mismatch
          else
            (case snapshot_of c generation of
               None \<Rightarrow> Inl lease_checksum_mismatch
             | Some s \<Rightarrow>
                 if status = ''APPLIED'' \<and> checksum \<noteq> Some (sn_checksum s)
                 then Inl lease_checksum_mismatch
                 else if status = ''APPLIED'' then
                   Inr ((update_node (node_id n) (\<lambda>m. m\<lparr>lease_generation := generation\<rparr>) c)
                     \<lparr>lease_snapshots := update_snapshot generation
                        (\<lambda>s. s\<lparr>sn_status := ''STAGED'', sn_staged_at := Some (env_now env)\<rparr>) (lease_snapshots c),
                      lease_replication := Some (st\<lparr>lr_status := ''CURRENT'', applied_generation := generation,
                        difference_count := 0, last_applied_at := Some (env_now env), lr_last_error := None\<rparr>)\<rparr>)
                 else
                   Inr (c\<lparr>lease_snapshots := update_snapshot generation
                        (\<lambda>s. s\<lparr>sn_status := ''FAILED''\<rparr>) (lease_snapshots c),
                      lease_replication := Some (st\<lparr>lr_status := ''ERROR'', lr_last_error := Some (take 1000 message)\<rparr>)\<rparr>)))"

definition latest_snapshot_summary :: "ha_cluster \<Rightarrow> (int \<times> string \<times> string \<times> int \<times> time option) option" where
  "latest_snapshot_summary c =
     map_option (\<lambda>s. (sn_generation s, sn_status s, take 12 (sn_checksum s), sn_lease_count s, sn_staged_at s))
       (latest_snapshot c)"

section \<open>Leases of a reference cluster\<close>

definition example_row :: "string \<Rightarrow> string \<Rightarrow> json" where
  "example_row ip mac = JObj [(''ip'', JStr ip), (''hwaddr'', JStr mac), (''expires'', JInt 60), (''name'', JStr ''pc'')]"

definition example_answer :: "json list" where
  "example_answer = [example_row ''10.0.0.20'' ''AA-BB-CC-00-00-02'', example_row ''10.0.0.9'' ''aa:bb:cc:00:00:01'']"

definition example_lease :: "string \<Rightarrow> string \<Rightarrow> lease" where
  "example_lease ip mac = \<lparr>le_expires = 60, le_hwaddr = mac, le_ip = ip, le_name = ''pc'', le_clientid = []\<rparr>"

definition example_range :: "(int \<times> int) option" where
  "example_range = Some (167772161, 167772190)"

definition example_leases :: "lease list" where
  "example_leases = [example_lease ''10.0.0.9'' ''aa:bb:cc:00:00:01'', example_lease ''10.0.0.20'' ''aa:bb:cc:00:00:02'']"

lemma example_normalised: "normalise_leases (JList example_answer) example_range [] = Inr example_leases"
  by code_simp

section \<open>Normalised leases are valid, conflict-free and independent of the answer's order\<close>

definition lease_ok :: "(int \<times> int) option \<Rightarrow> string list \<Rightarrow> lease \<Rightarrow> bool" where
  "lease_ok rng reservations l \<longleftrightarrow>
     (case parse_ipv4 (le_ip l) of
        None \<Rightarrow> False
      | Some n \<Rightarrow> (case rng of None \<Rightarrow> True | Some (a, b) \<Rightarrow> a \<le> n \<and> n \<le> b) \<or> le_ip l \<in> set reservations) \<and>
     valid_mac (le_hwaddr l) \<and> 0 \<le> le_expires l \<and> length (le_name l) \<le> 255 \<and> length (le_clientid l) \<le> 255"

definition one_device_per_ip :: "lease list \<Rightarrow> bool" where
  "one_device_per_ip ls \<longleftrightarrow> (\<forall>l \<in> set ls. \<forall>l' \<in> set ls. le_ip l = le_ip l' \<longrightarrow> le_hwaddr l = le_hwaddr l')"

definition fits_owners :: "(string \<rightharpoonup> string) \<Rightarrow> lease list \<Rightarrow> bool" where
  "fits_owners owners ls \<longleftrightarrow> (\<forall>l \<in> set ls. owners (le_ip l) = None \<or> owners (le_ip l) = Some (le_hwaddr l))"

text \<open>What one row contributes, without regard to the others.\<close>

definition row_result :: "(int \<times> int) option \<Rightarrow> string list \<Rightarrow> json_object \<Rightarrow> lease option" where
  "row_result rng reservations row =
     (case row_identity rng reservations row of
        Inl e \<Rightarrow> None
      | Inr key \<Rightarrow> map_option (\<lambda>ex. row_lease key ex row) (row_expiry row))"

lemma row_lease_sel [simp]: "le_ip (row_lease k ex row) = fst k" "le_hwaddr (row_lease k ex row) = snd k"
  by (simp_all add: row_lease_def)

lemma one_device_per_ip_subset: "one_device_per_ip ls \<Longrightarrow> set ks \<subseteq> set ls \<Longrightarrow> one_device_per_ip ks"
  unfolding one_device_per_ip_def by blast

lemma fits_owners_Cons:
  "fits_owners owners (l # ls) \<and> one_device_per_ip (l # ls) \<longleftrightarrow>
     (owners (le_ip l) = None \<or> owners (le_ip l) = Some (le_hwaddr l)) \<and>
     fits_owners (owners(le_ip l \<mapsto> le_hwaddr l)) ls \<and> one_device_per_ip ls"
proof
  assume L: "fits_owners owners (l # ls) \<and> one_device_per_ip (l # ls)"
  then have same: "le_hwaddr l = le_hwaddr x" if "x \<in> set ls" "le_ip x = le_ip l" for x
    using that unfolding one_device_per_ip_def by (metis list.set_intros(1,2))
  have "fits_owners (owners(le_ip l \<mapsto> le_hwaddr l)) ls"
    unfolding fits_owners_def
  proof
    fix x assume x: "x \<in> set ls"
    with L same [OF x] show "(owners(le_ip l \<mapsto> le_hwaddr l)) (le_ip x) = None \<or>
        (owners(le_ip l \<mapsto> le_hwaddr l)) (le_ip x) = Some (le_hwaddr x)"
      by (cases "le_ip x = le_ip l") (simp_all add: fits_owners_def)
  qed
  with L show "(owners (le_ip l) = None \<or> owners (le_ip l) = Some (le_hwaddr l)) \<and>
     fits_owners (owners(le_ip l \<mapsto> le_hwaddr l)) ls \<and> one_device_per_ip ls"
    using one_device_per_ip_subset [OF _ set_subset_Cons, of l ls] by (simp add: fits_owners_def)
next
  assume R: "(owners (le_ip l) = None \<or> owners (le_ip l) = Some (le_hwaddr l)) \<and>
     fits_owners (owners(le_ip l \<mapsto> le_hwaddr l)) ls \<and> one_device_per_ip ls"
  have same: "le_hwaddr l = le_hwaddr x" if "x \<in> set ls" "le_ip x = le_ip l" for x
    using R that by (auto simp: fits_owners_def split: if_splits)
  have other: "owners (le_ip x) = None \<or> owners (le_ip x) = Some (le_hwaddr x)" if "x \<in> set ls" for x
    using R that same [OF that] by (cases "le_ip x = le_ip l") (auto simp: fits_owners_def)
  show "fits_owners owners (l # ls) \<and> one_device_per_ip (l # ls)"
  proof
    show "fits_owners owners (l # ls)" using R other by (simp add: fits_owners_def)
    have "le_hwaddr x = le_hwaddr y" if "x \<in> set (l # ls)" "y \<in> set (l # ls)" "le_ip x = le_ip y" for x y
    proof (cases "x = l \<or> y = l")
      case True
      with that same [of x] same [of y] show ?thesis by (metis set_ConsD)
    next
      case False
      with that R show ?thesis unfolding one_device_per_ip_def by (metis set_ConsD)
    qed
    then show "one_device_per_ip (l # ls)" unfolding one_device_per_ip_def by blast
  qed
qed

lemma normalise_rows_iff:
  "normalise_rows rng res owners rows = Inr ls \<longleftrightarrow>
     map (row_result rng res) rows = map Some ls \<and> fits_owners owners ls \<and> one_device_per_ip ls"
proof (induction rows arbitrary: owners ls)
  case Nil
  then show ?case by (auto simp: fits_owners_def one_device_per_ip_def)
next
  case (Cons row rows)
  show ?case
  proof (cases "row_result rng res row")
    case None
    then have "\<nexists>ls. normalise_rows rng res owners (row # rows) = Inr ls"
      by (auto simp: row_result_def split: sum.splits option.splits prod.splits if_splits)
    with None show ?thesis by (cases ls) auto
  next
    case (Some l)
    then obtain ip mac ex where id: "row_identity rng res row = Inr (ip, mac)" and ex: "row_expiry row = Some ex"
      and l: "l = row_lease (ip, mac) ex row"
      by (auto simp: row_result_def split: sum.splits)
    let ?free = "owners ip = None \<or> owners ip = Some mac"
    have eq: "normalise_rows rng res owners (row # rows) = Inr ls \<longleftrightarrow>
        ?free \<and> (\<exists>ls'. ls = l # ls' \<and> normalise_rows rng res (owners(ip \<mapsto> mac)) rows = Inr ls')"
      using id ex l by (auto split: sum.splits option.splits)
    show ?thesis
    proof (cases ls)
      case Nil
      with eq show ?thesis by simp
    next
      case (Cons x ls')
      have "normalise_rows rng res owners (row # rows) = Inr ls \<longleftrightarrow>
          x = l \<and> ?free \<and> map (row_result rng res) rows = map Some ls' \<and>
          fits_owners (owners(ip \<mapsto> mac)) ls' \<and> one_device_per_ip ls'"
        unfolding eq unfolding Cons list.inject Cons.IH [symmetric] by blast
      also have "\<dots> \<longleftrightarrow> map (row_result rng res) (row # rows) = map Some ls \<and> fits_owners owners ls \<and> one_device_per_ip ls"
        using fits_owners_Cons [of owners l ls'] Some Cons l by auto
      finally show ?thesis .
    qed
  qed
qed

lemma row_result_ok:
  assumes "row_result rng res row = Some l"
  shows "lease_ok rng res l"
proof -
  from assms obtain ip mac ex where id: "row_identity rng res row = Inr (ip, mac)" and ex: "row_expiry row = Some ex"
    and l: "l = row_lease (ip, mac) ex row"
    by (auto simp: row_result_def split: sum.splits)
  from id obtain n where n: "parse_ipv4 (row_text row ''ip'' ''address'') = Some n" "ip = format_ipv4 n" "valid_mac mac"
      "(case rng of None \<Rightarrow> True | Some (a, b) \<Rightarrow> a \<le> n \<and> n \<le> b) \<or> ip \<in> set res"
    by (auto simp: row_identity_def Let_def split: option.splits if_splits prod.splits)
  have "parse_ipv4 ip = Some n" using parse_ipv4_format format_parse_ipv4(2,3) [OF n(1)] n(2) by simp
  moreover have "0 \<le> ex" using ex by (auto simp: row_expiry_def)
  ultimately show ?thesis using n l by (auto simp: lease_ok_def row_lease_def)
qed

text \<open>
  Validated leases: when the Pi-hole's answer is accepted, there are at most 10000 leases, in the
  order of address and hardware address; every lease has a well-formed address that lies in the
  configured range or is a reservation, a well-formed hardware address and a non-negative expiry,
  and no address is assigned to two devices.
\<close>

theorem normalised_leases_are_valid:
  assumes "normalise_leases data rng res = Inr ls"
  shows "length ls \<le> 10000 \<and> sorted (map lease_order ls) \<and> list_all (lease_ok rng res) ls \<and> one_device_per_ip ls"
proof -
  from assms obtain rows ks where rows: "lease_rows data = Inr rows" "int (length rows) \<le> MAX_LEASES"
    and ks: "normalise_rows rng res Map.empty rows = Inr ks" and ls: "ls = sort_key lease_order ks"
    by (auto simp: normalise_leases_def split: sum.splits if_splits)
  from ks [unfolded normalise_rows_iff] have m: "map (row_result rng res) rows = map Some ks" and one: "one_device_per_ip ks"
    by simp_all
  have "length ks = length rows" using m by (metis length_map)
  moreover have "lease_ok rng res l" if "l \<in> set ks" for l
  proof -
    from that have "Some l \<in> set (map (row_result rng res) rows)" unfolding m by simp
    then show ?thesis by (auto intro: row_result_ok)
  qed
  ultimately show ?thesis
    using rows(2) one_device_per_ip_subset [OF one, of ls] ls by (simp add: MAX_LEASES_def list_all_iff)
qed

theorem normalised_leases_are_valid_witness:
  "sorted (map lease_order example_leases) \<and> one_device_per_ip example_leases"
  using normalised_leases_are_valid [OF example_normalised] by simp

lemma mset_objects_of: "mset xs = mset ys \<Longrightarrow> mset (objects_of xs) = mset (objects_of ys)"
proof -
  have "mset (objects_of xs) = \<Sum>\<^sub># (image_mset (\<lambda>v. mset (case v of JObj d \<Rightarrow> [d] | _ \<Rightarrow> [])) (mset xs))" for xs
    by (induction xs) (simp_all add: objects_of_def)
  then show "mset xs = mset ys \<Longrightarrow> mset (objects_of xs) = mset (objects_of ys)" by simp
qed



section \<open>The replication state\<close>

text \<open>
  The invariant of the snapshots of a cluster: generations are unique and the newest one is the
  desired generation; a staged snapshot of the desired generation has been applied, and the state is
  \<open>CURRENT\<close> only with such a snapshot; every snapshot is the encrypted text of its checksum.
\<close>

definition leases_inv :: "(string \<Rightarrow> string) \<Rightarrow> lease_cipher \<Rightarrow> ha_cluster \<Rightarrow> bool" where
  "leases_inv sha cipher c \<longleftrightarrow>
     distinct (map sn_generation (lease_snapshots c)) \<and>
     (\<forall>s \<in> set (lease_snapshots c). sn_generation s \<le> desired_generation (lease_state c) \<and>
        (\<exists>text. sn_encrypted_payload s = encrypt_secret cipher text \<and> sn_checksum s = sha text)) \<and>
     (\<forall>s. latest_snapshot c = Some s \<longrightarrow> sn_generation s = desired_generation (lease_state c)) \<and>
     (\<forall>s \<in> set (lease_snapshots c). sn_generation s = desired_generation (lease_state c) \<and> sn_status s = ''STAGED'' \<longrightarrow>
        applied_generation (lease_state c) = desired_generation (lease_state c)) \<and>
     (lr_status (lease_state c) = ''CURRENT'' \<longrightarrow>
        (\<exists>s \<in> set (lease_snapshots c). sn_generation s = desired_generation (lease_state c) \<and> sn_status s = ''STAGED''))"

lemma lease_state_update [simp]: "lease_state (c\<lparr>lease_replication := Some st\<rparr>) = st"
  by (simp add: lease_state_def)

lemma latest_snapshot_cong [simp]: "latest_snapshot (c\<lparr>lease_replication := x\<rparr>) = latest_snapshot c"
  by (simp add: latest_snapshot_def)

lemma latest_snapshot_mem:
  assumes "latest_snapshot c = Some s"
  shows "s \<in> set (lease_snapshots c)" and "x \<in> set (lease_snapshots c) \<Longrightarrow> sn_generation x \<le> sn_generation s"
  using min_by_Some [OF assms [unfolded latest_snapshot_def]] by auto

lemma latest_snapshot_newest:
  assumes "s \<in> set (lease_snapshots c)" and "\<forall>x \<in> set (lease_snapshots c). sn_generation x \<le> sn_generation s"
    and "distinct (map sn_generation (lease_snapshots c))"
  shows "latest_snapshot c = Some s"
proof (cases "latest_snapshot c")
  case None
  with assms(1) show ?thesis by (simp add: latest_snapshot_def)
next
  case (Some t)
  with assms(1,2) latest_snapshot_mem [OF Some] have "t \<in> set (lease_snapshots c)" "sn_generation t = sn_generation s"
    by (auto intro: order_antisym)
  with assms Some show ?thesis by (auto intro: distinct_map_unique)
qed

text \<open>The three outcomes of reconciling a plan.\<close>

lemma reconcile_plan_cases:
  fixes env c plan
  defines "encoded \<equiv> json_dumps (snapshot_payload c plan)"
  obtains (not_applicable) st where "\<not> applicable plan" "reconcile_plan env cipher c plan = c\<lparr>lease_replication := Some st\<rparr>"
      "lr_status st = ''NOT_APPLICABLE''" "desired_generation st = desired_generation (lease_state c)"
      "applied_generation st = applied_generation (lease_state c)"
  | (unchanged) s st where "applicable plan" "latest_snapshot c = Some s" "sn_checksum s = env_sha256 env encoded"
      "sn_status s = ''PENDING'' \<or> sn_status s = ''STAGED''"
      "reconcile_plan env cipher c plan = c\<lparr>lease_replication := Some st\<rparr>"
      "lr_status st = (if sn_status s = ''STAGED'' then ''CURRENT'' else ''PENDING'')"
      "desired_generation st = desired_generation (lease_state c)"
      "applied_generation st = applied_generation (lease_state c)"
  | (changed) st s where "applicable plan"
      "reconcile_plan env cipher c plan = c\<lparr>lease_snapshots := lease_snapshots c @ [s], lease_replication := Some st\<rparr>"
      "lr_status st = ''PENDING''" "desired_generation st = sn_generation s" "lr_target_node_id st = Some (lp_target_id plan)"
      "applied_generation st = applied_generation (lease_state c)"
      "sn_generation s = max (desired_generation (lease_state c)) (case latest_snapshot c of None \<Rightarrow> 0 | Some t \<Rightarrow> sn_generation t) + 1"
      "sn_checksum s = env_sha256 env encoded" "sn_encrypted_payload s = encrypt_secret cipher encoded"
      "sn_status s = ''PENDING''"
      "\<nexists>t. latest_snapshot c = Some t \<and> sn_checksum t = env_sha256 env encoded \<and>
         (sn_status t = ''PENDING'' \<or> sn_status t = ''STAGED'')"
proof -
  let ?st = "(lease_state c)\<lparr>lr_source_node_id := Some (lp_source_id plan), lr_target_node_id := Some (lp_target_id plan),
      last_full_reconciliation_at := Some (env_now env), lr_last_error := None\<rparr>"
  let ?sum = "env_sha256 env encoded" and ?count = "int (length (lp_leases plan))"
  consider (na) "\<not> applicable plan"
    | (same) s where "applicable plan" "latest_snapshot c = Some s" "sn_checksum s = ?sum"
        "sn_status s = ''PENDING'' \<or> sn_status s = ''STAGED''"
    | (new) "applicable plan" "\<not> ((case latest_snapshot c of None \<Rightarrow> False | Some s \<Rightarrow> sn_checksum s = ?sum) \<and>
        (case latest_snapshot c of None \<Rightarrow> [] | Some s \<Rightarrow> sn_status s) \<in> {''PENDING'', ''STAGED''})"
    by (cases "latest_snapshot c") auto
  then show thesis
  proof cases
    case na
    then have eq: "reconcile_plan env cipher c plan = c\<lparr>lease_replication := Some (?st\<lparr>lr_status := ''NOT_APPLICABLE'',
        lr_lease_count := 0, difference_count := 0, conflict_count := 0\<rparr>)\<rparr>"
      by (simp add: reconcile_plan_def Let_def)
    show thesis by (rule not_applicable [OF na eq]) simp_all
  next
    case same
    let ?st1 = "?st\<lparr>lr_lease_count := ?count, difference_count := 0, conflict_count := 0,
        lr_status := (if sn_status s = ''STAGED'' then ''CURRENT'' else ''PENDING'')\<rparr>"
    have eq: "reconcile_plan env cipher c plan = c\<lparr>lease_replication := Some ?st1\<rparr>"
      using same by (auto simp: reconcile_plan_def Let_def encoded_def)
    show thesis by (rule unchanged [OF same eq]) simp_all
  next
    case new
    let ?gen = "max (desired_generation (lease_state c)) (case latest_snapshot c of None \<Rightarrow> 0 | Some t \<Rightarrow> sn_generation t) + 1"
    let ?s = "\<lparr>sn_source_node_id = lp_source_id plan, sn_target_node_id = lp_target_id plan, sn_generation = ?gen,
        sn_checksum = ?sum, sn_encrypted_payload = encrypt_secret cipher encoded, sn_lease_count = ?count,
        sn_status = ''PENDING'', sn_staged_at = None\<rparr>"
    let ?diff = "if (case latest_snapshot c of None \<Rightarrow> False | Some s \<Rightarrow> sn_checksum s = ?sum) then 0
        else max 1 (max ?count (case latest_snapshot c of None \<Rightarrow> 0 | Some s \<Rightarrow> sn_lease_count s))"
    let ?st1 = "?st\<lparr>lr_lease_count := ?count, difference_count := ?diff, conflict_count := 0,
        desired_generation := ?gen, lr_status := ''PENDING'', last_event_at := Some (env_now env)\<rparr>"
    have eq: "reconcile_plan env cipher c plan = c\<lparr>lease_snapshots := lease_snapshots c @ [?s], lease_replication := Some ?st1\<rparr>"
      using new by (simp only: reconcile_plan_def Let_def encoded_def if_False if_True simp_thms) simp
    have "\<nexists>t. latest_snapshot c = Some t \<and> sn_checksum t = ?sum \<and> (sn_status t = ''PENDING'' \<or> sn_status t = ''STAGED'')"
      using new(2) by auto
    then show thesis by (intro changed [OF new(1) eq]) simp_all
  qed
qed

lemma reconcile_plan_inv:
  assumes inv: "leases_inv (env_sha256 env) cipher c"
  shows "leases_inv (env_sha256 env) cipher (reconcile_plan env cipher c plan)"
proof (cases rule: reconcile_plan_cases [of plan env cipher c])
  case (not_applicable st)
  with inv show ?thesis by (auto simp: leases_inv_def)
next
  case (unchanged s st)
  with inv latest_snapshot_mem(1) [OF unchanged(2)] show ?thesis by (auto simp: leases_inv_def)
next
  case (changed st s)
  let ?c = "c\<lparr>lease_snapshots := lease_snapshots c @ [s], lease_replication := Some st\<rparr>"
  have lt: "\<forall>x \<in> set (lease_snapshots c). sn_generation x < sn_generation s"
    using inv changed(7) by (auto simp: leases_inv_def)
  have dist: "distinct (map sn_generation (lease_snapshots ?c))"
    using inv lt by (auto simp: leases_inv_def)
  have "latest_snapshot ?c = Some s"
    by (rule latest_snapshot_newest [OF _ _ dist]) (use lt in auto)
  moreover have "lease_state ?c = st" by (simp add: lease_state_def)
  ultimately show ?thesis
    using inv lt dist changed by (auto simp: leases_inv_def)
qed

lemma reconcile_inv:
  assumes "leases_inv (env_sha256 env) cipher c"
  shows "leases_inv (env_sha256 env) cipher (fst (reconcile_cluster_leases env cipher c inspection))"
proof -
  have "leases_inv (env_sha256 env) cipher (blocked_state env msg c)" for msg
    using assms by (auto simp: leases_inv_def blocked_state_def)
  with assms reconcile_plan_inv [OF assms] show ?thesis
    by (auto simp: reconcile_cluster_leases_def Let_def split: sum.split lease_error.split)
qed

text \<open>Updating the snapshot of one generation.\<close>

lemma update_snapshot_gens [simp]:
  "(\<And>s. sn_generation (f s) = sn_generation s) \<Longrightarrow> map sn_generation (update_snapshot g f ss) = map sn_generation ss"
  by (induction ss) simp_all

lemma set_update_snapshot:
  "distinct (map sn_generation ss) \<Longrightarrow>
   set (update_snapshot g f ss) = (\<lambda>s. if sn_generation s = g then f s else s) ` set ss"
  by (induction ss) (auto simp: image_iff)

lemma latest_snapshot_gens:
  assumes "map sn_generation (lease_snapshots c') = map sn_generation (lease_snapshots c)"
    and "latest_snapshot c' = Some s'"
  shows "\<exists>s. latest_snapshot c = Some s \<and> sn_generation s = sn_generation s'"
proof -
  have set_eq: "sn_generation ` set (lease_snapshots c') = sn_generation ` set (lease_snapshots c)"
    using arg_cong [OF assms(1), of set] by simp
  then obtain s where s: "latest_snapshot c = Some s"
    using latest_snapshot_mem(1) [OF assms(2)] by (cases "latest_snapshot c") (auto simp: latest_snapshot_def)
  have le: "sn_generation x \<le> sn_generation y" if "x \<in> set (lease_snapshots d)" "latest_snapshot e = Some y"
    "sn_generation ` set (lease_snapshots d) = sn_generation ` set (lease_snapshots e)" for d e x y
  proof -
    from that obtain z where "z \<in> set (lease_snapshots e)" "sn_generation z = sn_generation x" by (metis imageE imageI)
    with latest_snapshot_mem(2) [OF that(2)] show ?thesis by metis
  qed
  have "sn_generation s' \<le> sn_generation s"
    by (rule le [OF latest_snapshot_mem(1) [OF assms(2)] s set_eq])
  moreover have "sn_generation s \<le> sn_generation s'"
    by (rule le [OF latest_snapshot_mem(1) [OF s] assms(2) set_eq [symmetric]])
  ultimately show ?thesis using s by auto
qed

text \<open>What an accepted staging result does.\<close>

lemma snapshot_of_mem: "snapshot_of c g = Some s \<Longrightarrow> s \<in> set (lease_snapshots c) \<and> sn_generation s = g"
  by (auto simp: snapshot_of_def dest: find_SomeD)

lemma stage_result_cases:
  assumes "record_lease_stage_result env c n generation checksum status message = Inr c'"
  obtains (staged) st s where "lease_replication c = Some st" "lr_target_node_id st = Some (node_id n)"
      "desired_generation st = generation" "snapshot_of c generation = Some s" "status = ''APPLIED''"
      "checksum = Some (sn_checksum s)"
      "lease_replication c' = Some (st\<lparr>lr_status := ''CURRENT'', applied_generation := generation,
         difference_count := 0, last_applied_at := Some (env_now env), lr_last_error := None\<rparr>)"
      "lease_snapshots c' = update_snapshot generation (\<lambda>s. s\<lparr>sn_status := ''STAGED'', sn_staged_at := Some (env_now env)\<rparr>) (lease_snapshots c)"
      "nodes c' = map (\<lambda>m. if node_id m = node_id n then m\<lparr>lease_generation := generation\<rparr> else m) (nodes c)"
  | (failed) st s where "lease_replication c = Some st" "lr_target_node_id st = Some (node_id n)"
      "desired_generation st = generation" "snapshot_of c generation = Some s" "status \<noteq> ''APPLIED''"
      "lease_replication c' = Some (st\<lparr>lr_status := ''ERROR'', lr_last_error := Some (take 1000 message)\<rparr>)"
      "lease_snapshots c' = update_snapshot generation (\<lambda>s. s\<lparr>sn_status := ''FAILED''\<rparr>) (lease_snapshots c)"
      "nodes c' = nodes c"
proof -
  from assms obtain st s where st: "lease_replication c = Some st" "lr_target_node_id st = Some (node_id n)"
      "desired_generation st = generation" "snapshot_of c generation = Some s"
      "\<not> (status = ''APPLIED'' \<and> checksum \<noteq> Some (sn_checksum s))"
    by (auto simp: record_lease_stage_result_def split: option.splits if_splits)
  show thesis
  proof (cases "status = ''APPLIED''")
    case True
    with st assms show thesis
      by (intro staged [OF st(1-4) True]) (auto simp: record_lease_stage_result_def update_node_def)
  next
    case False
    with st assms show thesis
      by (intro failed [OF st(1-4) False]) (auto simp: record_lease_stage_result_def)
  qed
qed

lemma stage_result_inv:
  assumes inv: "leases_inv sha cipher c"
    and res: "record_lease_stage_result env c n generation checksum status message = Inr c'"
  shows "leases_inv sha cipher c'"
proof -
  have dist: "distinct (map sn_generation (lease_snapshots c))" using inv by (simp add: leases_inv_def)
  have latest: "sn_generation s' = desired_generation (lease_state c)"
    if "map sn_generation (lease_snapshots c') = map sn_generation (lease_snapshots c)" "latest_snapshot c' = Some s'" for s'
    using latest_snapshot_gens [OF that] inv by (auto simp: leases_inv_def)
  show ?thesis
    using res
  proof (cases rule: stage_result_cases)
    case (staged st s)
    have gens: "map sn_generation (lease_snapshots c') = map sn_generation (lease_snapshots c)"
      using staged(8) by simp
    have st: "lease_state c = st" "lease_state c' = st\<lparr>lr_status := ''CURRENT'', applied_generation := generation,
         difference_count := 0, last_applied_at := Some (env_now env), lr_last_error := None\<rparr>"
      using staged by (simp_all add: lease_state_def)
    have "\<exists>x \<in> set (lease_snapshots c'). sn_generation x = generation \<and> sn_status x = ''STAGED''"
    proof (rule bexI)
      let ?f = "\<lambda>s. s\<lparr>sn_status := ''STAGED'', sn_staged_at := Some (env_now env)\<rparr>"
      show "?f s \<in> set (lease_snapshots c')"
        unfolding staged(8) set_update_snapshot [OF dist]
        by (rule image_eqI [of _ _ s]) (use snapshot_of_mem [OF staged(4)] in simp_all)
      show "sn_generation (?f s) = generation \<and> sn_status (?f s) = ''STAGED''"
        using snapshot_of_mem [OF staged(4)] by simp
    qed
    moreover have "\<forall>x \<in> set (lease_snapshots c'). sn_generation x \<le> generation \<and>
        (\<exists>text. sn_encrypted_payload x = encrypt_secret cipher text \<and> sn_checksum x = sha text)"
      using inv staged(3,8) st(1) by (auto simp: leases_inv_def set_update_snapshot [OF dist])
    ultimately show ?thesis
      using gens dist latest [OF gens] staged(3) st by (simp add: leases_inv_def)
  next
    case (failed st s)
    have gens: "map sn_generation (lease_snapshots c') = map sn_generation (lease_snapshots c)"
      using failed(7) by simp
    have st: "lease_state c = st" "lease_state c' = st\<lparr>lr_status := ''ERROR'', lr_last_error := Some (take 1000 message)\<rparr>"
      using failed by (simp_all add: lease_state_def)
    have "\<forall>x \<in> set (lease_snapshots c'). sn_generation x \<le> generation \<and>
        (\<exists>text. sn_encrypted_payload x = encrypt_secret cipher text \<and> sn_checksum x = sha text) \<and>
        (sn_generation x = generation \<longrightarrow> sn_status x \<noteq> ''STAGED'')"
      using inv failed(3,7) st(1) by (auto simp: leases_inv_def set_update_snapshot [OF dist])
    then show ?thesis
      using gens dist latest [OF gens] failed(3) st by (auto simp: leases_inv_def)
  qed
qed

text \<open>The life of a cluster's lease replication.\<close>

inductive lease_run :: "(string \<Rightarrow> string) \<Rightarrow> lease_cipher \<Rightarrow> ha_cluster \<Rightarrow> bool" for sha cipher where
  unreplicated: "lease_replication c = None \<Longrightarrow> lease_snapshots c = [] \<Longrightarrow> lease_run sha cipher c"
| reconciled: "lease_run sha cipher c \<Longrightarrow> env_sha256 env = sha \<Longrightarrow>
    lease_run sha cipher (fst (reconcile_cluster_leases env cipher c inspection))"
| staged: "lease_run sha cipher c \<Longrightarrow>
    record_lease_stage_result env c n generation checksum status message = Inr c' \<Longrightarrow> lease_run sha cipher c'"
| elsewhere: "lease_run sha cipher c \<Longrightarrow> lease_replication c' = lease_replication c \<Longrightarrow>
    lease_snapshots c' = lease_snapshots c \<Longrightarrow> lease_run sha cipher c'"

lemma leases_inv_cong:
  "lease_replication c' = lease_replication c \<Longrightarrow> lease_snapshots c' = lease_snapshots c \<Longrightarrow>
   leases_inv sha cipher c' = leases_inv sha cipher c"
  by (simp add: leases_inv_def lease_state_def latest_snapshot_def)

lemma lease_run_inv: "lease_run sha cipher c \<Longrightarrow> leases_inv sha cipher c"
proof (induction rule: lease_run.induct)
  case (unreplicated c)
  then show ?case by (simp add: leases_inv_def lease_state_def latest_snapshot_def new_lease_state_def min_by_def)
next
  case (reconciled c env inspection)
  then show ?case using reconcile_inv by blast
next
  case (staged c env n generation checksum status message c')
  then show ?case using stage_result_inv by blast
next
  case (elsewhere c c')
  then show ?case using leases_inv_cong [of c' c] by blast
qed

subsection \<open>A staged snapshot\<close>

definition example_cipher :: lease_cipher where
  "example_cipher = \<lparr>encrypt_secret = rev, decrypt_secret = (\<lambda>s. Some (rev s))\<rparr>"

definition example_plan :: lease_plan where
  "example_plan = \<lparr>applicable = True, lp_source_id = 1, lp_source_public_id = ''a'', lp_target_id = 2,
     lp_leases = example_leases, lp_reservations = [], lp_range = example_range\<rparr>"

definition unreplicated_cluster :: ha_cluster where
  "unreplicated_cluster = (reference_cluster 0)\<lparr>lease_replication := None, lease_snapshots := []\<rparr>"

definition pending_cluster :: ha_cluster where
  "pending_cluster = fst (reconcile_cluster_leases (reference_env 0) example_cipher unreplicated_cluster (Inr example_plan))"

lemma unreplicated_run: "lease_run (\<lambda>s. s) example_cipher unreplicated_cluster"
  by (rule lease_run.unreplicated) (simp_all add: unreplicated_cluster_def)

lemma pending_run: "lease_run (\<lambda>s. s) example_cipher pending_cluster"
  unfolding pending_cluster_def
  by (rule lease_run.reconciled [OF unreplicated_run]) (simp add: reference_env_def)

lemma pending_action: "\<exists>a. desired_lease_action pending_cluster (standby_node 2 ''b'' 0) = Some a"
proof -
  have "desired_lease_action pending_cluster (standby_node 2 ''b'' 0) \<noteq> None" by code_simp
  then show ?thesis by blast
qed

lemma example_cipher_inverts: "\<forall>s. decrypt_secret example_cipher (encrypt_secret example_cipher s) = Some s"
  by (simp add: example_cipher_def)

text \<open>
  The lease state can be trusted: from a cluster without leases, and after any sequence of
  reconciliations (with any answers of the Pi-hole) and staging results, the state says \<open>CURRENT\<close>
  only if the desired generation has been applied, and its snapshot is staged on the standby.
\<close>

theorem current_leases_are_staged:
  assumes "lease_run sha cipher c" and "lease_replication c = Some st" and "lr_status st = ''CURRENT''"
  shows "applied_generation st = desired_generation st \<and>
         (\<exists>s \<in> set (lease_snapshots c). sn_generation s = desired_generation st \<and> sn_status s = ''STAGED'')"
proof -
  have st: "lease_state c = st" using assms(2) by (simp add: lease_state_def)
  from lease_run_inv [OF assms(1)] assms(3)
  have cur: "\<exists>s \<in> set (lease_snapshots c). sn_generation s = desired_generation st \<and> sn_status s = ''STAGED''"
    and app: "\<forall>s \<in> set (lease_snapshots c). sn_generation s = desired_generation st \<and> sn_status s = ''STAGED'' \<longrightarrow>
      applied_generation st = desired_generation st"
    by (simp_all add: leases_inv_def st)
  from cur app show ?thesis by blast
qed

theorem current_leases_are_staged_witness:
  "\<exists>c st. record_lease_stage_result (reference_env 0) pending_cluster (standby_node 2 ''b'' 0) 1
       (map_option sn_checksum (latest_snapshot pending_cluster)) ''APPLIED'' [] = Inr c \<and>
     lease_replication c = Some st \<and> applied_generation st = desired_generation st"
proof -
  let ?out = "record_lease_stage_result (reference_env 0) pending_cluster (standby_node 2 ''b'' 0) 1
       (map_option sn_checksum (latest_snapshot pending_cluster)) ''APPLIED'' []"
  have "case ?out of Inl _ \<Rightarrow> False | Inr c \<Rightarrow> map_option lr_status (lease_replication c) = Some ''CURRENT''"
    by code_simp
  then obtain c st where c: "?out = Inr c" "lease_replication c = Some st" "lr_status st = ''CURRENT''"
    by (auto split: sum.splits)
  from current_leases_are_staged [OF lease_run.staged [OF pending_run c(1)] c(2,3)] c show ?thesis by blast
qed

text \<open>
  The standby can fetch exactly what it is asked to stage: whenever Kaya asks a node to stage a
  lease snapshot, fetching that generation returns the snapshot with the announced checksum, the
  checksum is the digest of the returned text, and reporting that checksum as applied makes the
  state current at that generation. Encryption is any cipher whose decryption inverts it.
\<close>

theorem requested_snapshot_is_stageable:
  assumes run: "lease_run sha cipher c" and cipher: "\<forall>text. decrypt_secret cipher (encrypt_secret cipher text) = Some text"
    and act: "desired_lease_action c n = Some a"
  shows "\<exists>text c' st'. snapshot_for_agent cipher c n (la_generation a) = Inr (la_generation a, la_checksum a, text) \<and>
           sha text = la_checksum a \<and>
           record_lease_stage_result env c n (la_generation a) (Some (la_checksum a)) ''APPLIED'' message = Inr c' \<and>
           lease_replication c' = Some st' \<and> lr_status st' = ''CURRENT'' \<and>
           applied_generation st' = la_generation a \<and> desired_generation st' = la_generation a"
proof -
  from act obtain st s where st: "lease_replication c = Some st" "lr_target_node_id st = Some (node_id n)"
      "snapshot_of c (desired_generation st) = Some s" "sn_status s = ''PENDING''"
    and a: "la_generation a = sn_generation s" "la_checksum a = sn_checksum s"
    by (auto simp: desired_lease_action_def split: option.splits if_splits)
  from snapshot_of_mem [OF st(3)] have s: "s \<in> set (lease_snapshots c)" "sn_generation s = desired_generation st" by simp_all
  with lease_run_inv [OF run] obtain p where payload: "sn_encrypted_payload s = encrypt_secret cipher p" "sn_checksum s = sha p"
    by (auto simp: leases_inv_def)
  have "snapshot_for_agent cipher c n (la_generation a) = Inr (la_generation a, la_checksum a, p)"
    using st a s(2) payload(1) cipher by (simp add: snapshot_for_agent_def)
  with payload(2) st a s(2) show ?thesis
    by (simp add: record_lease_stage_result_def update_node_def)
qed

theorem requested_snapshot_is_stageable_witness:
  "\<exists>a p. desired_lease_action pending_cluster (standby_node 2 ''b'' 0) = Some a \<and>
     snapshot_for_agent example_cipher pending_cluster (standby_node 2 ''b'' 0) (la_generation a) =
       Inr (la_generation a, la_checksum a, p) \<and> p = la_checksum a"
proof -
  obtain a where a: "desired_lease_action pending_cluster (standby_node 2 ''b'' 0) = Some a" using pending_action by blast
  from requested_snapshot_is_stageable [OF pending_run example_cipher_inverts a, of "reference_env 0" "[]"] a
  show ?thesis by blast
qed

text \<open>
  Reconciling again without a change of the leases is not a change: after a reconciliation that
  replicates leases, reconciling the same plan adds no snapshot and no generation.
\<close>

theorem reconcile_is_idempotent:
  assumes inv: "lease_run (env_sha256 env) cipher c" and app: "applicable plan"
    and same: "env_sha256 env' = env_sha256 env"
  defines "c1 \<equiv> reconcile_plan env cipher c plan"
  shows "lease_snapshots (reconcile_plan env' cipher c1 plan) = lease_snapshots c1 \<and>
         desired_generation (lease_state (reconcile_plan env' cipher c1 plan)) = desired_generation (lease_state c1)"
proof -
  have i: "leases_inv (env_sha256 env) cipher c1"
    unfolding c1_def by (rule reconcile_plan_inv [OF lease_run_inv [OF inv]])
  have pay: "snapshot_payload c1 plan = snapshot_payload c plan"
    unfolding c1_def snapshot_payload_def by (cases rule: reconcile_plan_cases [of plan env cipher c]) simp_all
  have "\<exists>s. latest_snapshot c1 = Some s \<and> sn_checksum s = env_sha256 env (json_dumps (snapshot_payload c plan)) \<and>
      (sn_status s = ''PENDING'' \<or> sn_status s = ''STAGED'')"
  proof (cases rule: reconcile_plan_cases [of plan env cipher c])
    case (not_applicable st)
    with app show ?thesis by simp
  next
    case (unchanged s st)
    then show ?thesis by (simp add: c1_def)
  next
    case (changed st s)
    have "s \<in> set (lease_snapshots c1)" and "\<forall>x \<in> set (lease_snapshots c1). sn_generation x \<le> sn_generation s"
      using i changed by (auto simp: c1_def leases_inv_def lease_state_def)
    with i have "latest_snapshot c1 = Some s" by (intro latest_snapshot_newest) (simp_all add: leases_inv_def)
    with changed show ?thesis by simp
  qed
  with pay same show ?thesis
    by (cases rule: reconcile_plan_cases [of plan env' cipher c1]) (auto simp: app)
qed

theorem reconcile_is_idempotent_witness:
  "lease_snapshots (reconcile_plan (reference_env 1) example_cipher
     (reconcile_plan (reference_env 0) example_cipher unreplicated_cluster example_plan) example_plan) =
   lease_snapshots (reconcile_plan (reference_env 0) example_cipher unreplicated_cluster example_plan)"
proof -
  have run: "lease_run (env_sha256 (reference_env 0)) example_cipher unreplicated_cluster"
    using unreplicated_run by (simp add: reference_env_def)
  have app: "applicable example_plan" by (simp add: example_plan_def)
  have same: "env_sha256 (reference_env 1) = env_sha256 (reference_env 0)" by (simp add: reference_env_def)
  show ?thesis using reconcile_is_idempotent [OF run app same] by simp
qed

end
