(* ===== verification/HA_Failover_Start.thy ===== *)
theory HA_Failover_Start
  imports HA_Failover_Progress HA_Recovery HA_Leases
begin

text \<open>
  The start of a controlled failover or failback (\<open>start_controlled_failover\<close>) and the status
  document of a run (\<open>failover_status\<close>), the operations of \<open>app/services/ha_failover.py\<close> that
  bring the readiness checks, recovery, configuration synchronisation and lease capture together.
  The synchronisation service and the inspection of the DHCP leases talk to the Pi-hole servers;
  what they answer is an argument.
\<close>

section \<open>The final synchronisation before a failback\<close>

record final_plan =
  fp_status :: string
  fp_blocked :: bool
  fp_deletions :: int

text \<open>\<open>create_live_sync_plan\<close> and \<open>execute_sync\<close>; \<open>Inl\<close> is the message of an \<open>HASyncError\<close>.\<close>

record sync_service =
  ss_plan :: "ha_cluster \<Rightarrow> string + ha_cluster \<times> final_plan"
  ss_execute :: "ha_cluster \<Rightarrow> string + ha_cluster"

datatype start_error = Refused string | Crashed

definition sync_stopped :: "string \<Rightarrow> start_error" where
  "sync_stopped message = Refused (''Final failback synchronisation stopped safely: '' @ message)"

definition final_synchronisation :: "sync_service \<Rightarrow> ha_cluster \<Rightarrow> start_error + ha_cluster" where
  "final_synchronisation svc c =
     (case ss_plan svc c of
        Inl e \<Rightarrow> Inl (sync_stopped e)
      | Inr (c1, plan) \<Rightarrow>
          if fp_status plan \<noteq> ''PLANNED'' then Inr c1
          else if fp_blocked plan \<or> fp_deletions plan \<noteq> 0
          then Inl (Refused ''Final configuration changed and needs review before failback.'')
          else (case ss_execute svc c1 of Inl e \<Rightarrow> Inl (sync_stopped e) | Inr c2 \<Rightarrow> Inr c2))"

text \<open>A failback also needs the recovery of the preferred node to be complete.\<close>

definition failback_refusal :: "node_recovery option \<Rightarrow> start_error" where
  "failback_refusal recovery =
     (let labels = (case recovery of None \<Rightarrow> []
                    | Some r \<Rightarrow> map check_label (filter (\<lambda>ch. required ch \<and> \<not> passed ch) (nr_checks r)));
          why = (if labels \<noteq> [] then join '', '' labels else ''the preferred node has not completed recovery'')
      in Refused (''Controlled failback is not ready: '' @ why @ ''.''))"

definition failback_gate :: "ha_env \<Rightarrow> sync_service \<Rightarrow> ha_cluster \<Rightarrow> ha_cluster \<times> (start_error + unit)" where
  "failback_gate env svc c =
     (case failback_target env c of
        (c1, recovery) \<Rightarrow>
          if (case recovery of None \<Rightarrow> False | Some r \<Rightarrow> nr_ready r) then
            (case final_synchronisation svc c1 of Inl e \<Rightarrow> (c1, Inl e) | Inr c2 \<Rightarrow> (c2, Inr ()))
          else (c1, Inl (failback_refusal recovery)))"

section \<open>Starting a run\<close>

definition is_failback :: "ha_cluster \<Rightarrow> ha_node \<Rightarrow> ha_node \<Rightarrow> bool" where
  "is_failback c source target =
     (case preferred_node_id c of None \<Rightarrow> False | Some p \<Rightarrow> p \<noteq> 0 \<and> node_id target = p \<and> node_id source \<noteq> p)"

text \<open>The final lease capture of a run that moves DHCP; the state is the one the run is bound to.\<close>

definition capture_leases ::
  "ha_env \<Rightarrow> lease_cipher \<Rightarrow> (ha_cluster \<Rightarrow> lease_error + lease_plan) \<Rightarrow> bool \<Rightarrow> ha_cluster \<Rightarrow>
   ha_cluster \<times> (start_error + ha_lease_replication_state option)" where
  "capture_leases env cipher inspect managed c =
     (if \<not> managed then (c, Inr (lease_replication c))
      else
        (case reconcile_cluster_leases env cipher c (inspect c) of
           (c1, Inl (HALeaseError m)) \<Rightarrow> (c1, Inl (Refused (''Final lease capture failed: '' @ m)))
         | (c1, Inl LeaseAttributeError) \<Rightarrow> (c1, Inl Crashed)
         | (c1, Inr st) \<Rightarrow> (c1, Inr (Some st))))"

definition first_phase :: "bool \<Rightarrow> ha_lease_replication_state option \<Rightarrow> run_phase" where
  "first_phase managed st =
     (if managed \<and> (case st of None \<Rightarrow> False | Some s \<Rightarrow> lr_status s \<noteq> ''CURRENT'') then WAITING_FOR_LEASES
      else if managed then DEMOTING_SOURCE else MOVING_VIP)"

definition new_failover_run ::
  "ha_env \<Rightarrow> int \<times> string \<Rightarrow> int \<Rightarrow> bool \<Rightarrow> bool \<Rightarrow> ha_lease_replication_state option \<Rightarrow> ha_node \<Rightarrow> ha_node \<Rightarrow>
   ha_cluster \<Rightarrow> ha_failover_run" where
  "new_failover_run env key user failback managed st source target c =
     \<lparr>run_id = fst key, run_public_id = snd key, run_source_node_id = node_id source, run_target_node_id = node_id target,
      run_preferred_node_id = preferred_node_id c, run_status = RUNNING, run_phase = first_phase managed st,
      dhcp_managed = managed, run_lease_generation = (case st of None \<Rightarrow> 0 | Some s \<Rightarrow> desired_generation s),
      run_role_generation = role_generation c, error_redacted = None,
      report = empty_report\<lparr>rep_starting_vip_owner := Some (node_public_id source), rep_target := Some (node_public_id target),
        rep_preferred_node := map_option node_public_id (find (\<lambda>n. Some (node_id n) = preferred_node_id c) (nodes c)),
        rep_automatic := False, rep_transition_kind := Some (if failback then ''FAILBACK'' else ''FAILOVER'')\<rparr>,
      requested_by_user_id = Some user, started_at = env_now env, completed_at = None, created_at = env_now env\<rparr>"

definition start_event :: "ha_env \<Rightarrow> ha_failover_run \<Rightarrow> bool \<Rightarrow> ha_node \<Rightarrow> ha_node \<Rightarrow> ha_cluster \<Rightarrow> ha_cluster" where
  "start_event env r failback source target =
     (let word = (if failback then ''failback'' else ''failover'')
      in run_event env r (''controlled_'' @ word @ ''_started'') ''warning''
           (''Controlled '' @ word @ '' started from '' @ display_name source @ '' to '' @ display_name target @ ''.''))"

definition launch_run ::
  "ha_env \<Rightarrow> int \<times> string \<Rightarrow> int \<Rightarrow> bool \<Rightarrow> bool \<Rightarrow> ha_lease_replication_state option \<Rightarrow> ha_node \<Rightarrow> ha_node \<Rightarrow>
   ha_cluster \<Rightarrow> ha_cluster \<times> ha_failover_run" where
  "launch_run env key user failback managed st source target c =
     (let c1 = c\<lparr>role_generation := role_generation c + 1, cluster_generation := cluster_generation c + 1, maintenance_mode := True\<rparr>;
          r = new_failover_run env key user failback managed st source target c1;
          c2 = c1\<lparr>failover_runs := failover_runs c1 @ [r]\<rparr>;
          (c3, r3) = (if run_phase r = MOVING_VIP then move_vip env (node_id target) (c2, r) else (c2, r));
          c4 = start_event env r3 failback source target c3;
          (c5, r5) = publish_transition_notification env ''started'' target (c4, r3)
      in (store_run r5 c5, r5))"

definition start_controlled_failover ::
  "ha_env \<Rightarrow> sync_service \<Rightarrow> lease_cipher \<Rightarrow> (ha_cluster \<Rightarrow> lease_error + lease_plan) \<Rightarrow> int \<times> string \<Rightarrow> int \<Rightarrow>
   string \<Rightarrow> bool \<Rightarrow> int \<Rightarrow> ha_cluster \<Rightarrow> ha_cluster \<times> (start_error + ha_failover_run)" where
  "start_controlled_failover env svc cipher inspect key user confirmation acknowledged target c =
     (if \<not> acknowledged \<or> strip confirmation \<noteq> cluster_name c
      then (c, Inl (Refused (''Type '' @ cluster_name c @ '' and confirm the expected interruption before starting.'')))
      else
        (let rd = failover_readiness c (env_now env)
         in case (rd_source rd, rd_target rd) of
              (Some source, Some standby) \<Rightarrow>
                if \<not> ready rd then (c, Inl (Refused (join '' '' (blockers rd))))
                else if target \<noteq> node_id standby then (c, Inl (Refused ''Choose the standby node as the failover target.''))
                else
                  (let failback = is_failback c source standby;
                       (c1, gate) = (if failback then failback_gate env svc c else (c, Inr ()))
                   in case gate of
                        Inl e \<Rightarrow> (c1, Inl e)
                      | Inr _ \<Rightarrow>
                          (case capture_leases env cipher inspect (rd_dhcp_managed rd) c1 of
                             (c2, Inl e) \<Rightarrow> (c2, Inl e)
                           | (c2, Inr st) \<Rightarrow>
                               (case launch_run env key user failback (rd_dhcp_managed rd) st source standby c2 of
                                  (c3, r) \<Rightarrow> (c3, Inr r))))
            | _ \<Rightarrow>
                (c, Inl (Refused (text_or (join '' '' (blockers rd)) ''The cluster is not ready for controlled failover.'')))))"

section \<open>What the steps before the launch leave alone\<close>

lemma evaluate_recovery_runs [simp]:
  "failover_runs (fst (evaluate_recovery env stab c)) = failover_runs c"
  "role_generation (fst (evaluate_recovery env stab c)) = role_generation c"
proof -
  have f: "failover_runs (fold (\<lambda>m c. publish_ha_notification env (g c m) c) ms c) = failover_runs c \<and>
        role_generation (fold (\<lambda>m c. publish_ha_notification env (g c m) c) ms c) = role_generation c" for g ms c
    by (induction ms arbitrary: c) (simp_all add: publish_ha_notification_def split: option.split)
  have w: "failover_runs (with_preferred c) = failover_runs c" "role_generation (with_preferred c) = role_generation c"
    by (simp_all add: with_preferred_def split: option.split)
  show "failover_runs (fst (evaluate_recovery env stab c)) = failover_runs c"
    "role_generation (fst (evaluate_recovery env stab c)) = role_generation c"
    by (simp_all add: evaluate_recovery_def Let_def comp_def f w)
qed

lemma failback_target_runs:
  assumes "failback_target env c = (c', r)"
  shows "failover_runs c' = failover_runs c \<and> role_generation c' = role_generation c"
  using assms evaluate_recovery_runs [of env RECOVERY_STABILITY_SECONDS c]
  by (auto simp: failback_target_def case_prod_beta split: option.splits if_splits)

lemma capture_leases_runs:
  assumes "capture_leases env cipher inspect managed c = (c', out)"
  shows "failover_runs c' = failover_runs c \<and> role_generation c' = role_generation c"
  using assms
  by (auto simp: capture_leases_def reconcile_cluster_leases_def reconcile_plan_def blocked_state_def Let_def
      split: if_splits sum.splits lease_error.splits option.splits)

text \<open>The synchronisation service writes configuration: it keeps runs and role generations.\<close>

definition sync_keeps_runs :: "sync_service \<Rightarrow> bool" where
  "sync_keeps_runs svc \<longleftrightarrow>
     (\<forall>c c' p. ss_plan svc c = Inr (c', p) \<longrightarrow> failover_runs c' = failover_runs c \<and> role_generation c' = role_generation c) \<and>
     (\<forall>c c'. ss_execute svc c = Inr c' \<longrightarrow> failover_runs c' = failover_runs c \<and> role_generation c' = role_generation c)"

lemma failback_gate_spec:
  assumes "failback_gate env svc c = (c', Inr u)" and "sync_keeps_runs svc"
  shows "failover_runs c' = failover_runs c \<and> role_generation c' = role_generation c \<and>
         (\<exists>c1 r. failback_target env c = (c1, Some r) \<and> nr_ready r)"
proof -
  from assms(1) obtain c1 r where t: "failback_target env c = (c1, Some r)" "nr_ready r"
    and s: "final_synchronisation svc c1 = Inr c'"
    by (auto simp: failback_gate_def split: prod.splits option.splits if_splits sum.splits)
  have "failover_runs c' = failover_runs c1 \<and> role_generation c' = role_generation c1"
    using s assms(2) unfolding sync_keeps_runs_def
    by (auto simp: final_synchronisation_def split: sum.splits if_splits)
  with failback_target_runs [OF t(1)] t show ?thesis by auto
qed

lemma capture_leases_state:
  assumes "capture_leases env cipher inspect True c = (c', Inr st)"
  shows "\<exists>x. st = Some x \<and> lease_replication c' = Some x"
  using assms
  by (auto simp: capture_leases_def reconcile_cluster_leases_def reconcile_plan_def lease_state_def Let_def
      split: if_splits sum.splits lease_error.splits)

lemma no_active_iff: "active_failover c = None \<longleftrightarrow> list_all (\<lambda>r. \<not> active_run r) (failover_runs c)"
  by (simp only: active_failover_def newest_first_def find_None_conv list_all_iff set_sort)

lemma find_unique: "x \<in> set xs \<Longrightarrow> p x \<Longrightarrow> (\<And>y. y \<in> set xs \<Longrightarrow> p y \<Longrightarrow> y = x) \<Longrightarrow> find p xs = Some x"
  by (metis find_None_conv find_SomeD option.exhaust)

lemma ready_source_target:
  assumes "ready (failover_readiness c now)" and "rd_source (failover_readiness c now) = Some s"
    and "rd_target (failover_readiness c now) = Some t"
  shows "recent_owners c now = [s] \<and> node_id t \<noteq> node_id s \<and> t \<in> set (nodes c) \<and> active_failover c = None \<and>
         \<not> maintenance_mode c"
proof -
  have s: "recent_owners c now = [s]"
    using assms(2) by (auto simp: failover_readiness_def Let_def split: list.splits)
  then have "find (\<lambda>n. node_id n \<noteq> node_id s) (nodes c) = Some t"
    using assms(3) by (simp add: failover_readiness_def Let_def)
  moreover have "active_failover c = None" "\<not> maintenance_mode c"
    using assms(1) by (auto simp: ready_def failover_readiness_def Let_def split: if_splits)
  ultimately show ?thesis using s by (auto dest: find_SomeD)
qed

section \<open>A started run\<close>

text \<open>What the launch changes of the run and of the run list.\<close>

lemma publish_transition_notification_runs:
  assumes "publish_transition_notification env stage t (c, r) = (c', r')"
  shows "failover_runs c' = failover_runs c \<and> role_generation c' = role_generation c \<and> maintenance_mode c' = maintenance_mode c \<and>
         lease_replication c' = lease_replication c \<and> r' = r\<lparr>report := report r'\<rparr>"
  using assms
  by (auto simp: publish_transition_notification_def publish_and_record_def Let_def split: if_splits option.splits)

lemma launch_run_spec:
  assumes "launch_run env key user fb managed st s t c = (c', r)"
    and "list_all (\<lambda>x. \<not> active_run x \<and> run_id x \<noteq> fst key) (failover_runs c)"
  shows "fresh_run r \<and> run_id r = fst key \<and> run_source_node_id r = node_id s \<and> run_target_node_id r = node_id t \<and>
         dhcp_managed r = managed \<and> run_phase r = first_phase managed st \<and> active_failover c' = Some r \<and>
         role_generation c' = role_generation c + 1 \<and> run_role_generation r = role_generation c' \<and> maintenance_mode c' \<and>
         lease_replication c' = lease_replication c \<and>
         run_lease_generation r = (case st of None \<Rightarrow> 0 | Some x \<Rightarrow> desired_generation x)"
proof -
  define c1 where "c1 = c\<lparr>role_generation := role_generation c + 1, cluster_generation := cluster_generation c + 1, maintenance_mode := True\<rparr>"
  define r1 where "r1 = new_failover_run env key user fb managed st s t c1"
  define c2 where "c2 = c1\<lparr>failover_runs := failover_runs c1 @ [r1]\<rparr>"
  obtain c3 r3 where m: "(if run_phase r1 = MOVING_VIP then move_vip env (node_id t) (c2, r1) else (c2, r1)) = (c3, r3)" by fastforce
  define c4 where "c4 = start_event env r3 fb s t c3"
  obtain c5 r5 where p: "publish_transition_notification env ''started'' t (c4, r3) = (c5, r5)" by fastforce
  have out: "c' = store_run r5 c5" "r = r5"
    using assms(1) m p unfolding launch_run_def Let_def c1_def [symmetric] r1_def [symmetric] c2_def [symmetric]
    by (auto simp: c4_def)
  have m3: "failover_runs c3 = failover_runs c @ [r1] \<and> role_generation c3 = role_generation c + 1 \<and> maintenance_mode c3 \<and>
      lease_replication c3 = lease_replication c \<and>
      r3 = r1\<lparr>report := report r3\<rparr>"
    using m by (auto simp: move_vip_def update_all_nodes_def c2_def c1_def split: if_splits)
  have c4: "failover_runs c4 = failover_runs c3" "role_generation c4 = role_generation c3" "maintenance_mode c4 = maintenance_mode c3"
    "lease_replication c4 = lease_replication c3"
    by (simp_all add: c4_def start_event_def run_event_def add_event_def Let_def del: append_Cons)
  note pp = publish_transition_notification_runs [OF p]
  have "r = r3\<lparr>report := report r\<rparr>" using out(2) pp by simp
  also have "r3 = r1\<lparr>report := report r3\<rparr>" using m3 by blast
  finally obtain rep where r: "r = r1\<lparr>report := rep\<rparr>" by (metis ha_failover_run.update_convs(12) ha_failover_run.surjective)
  have runs: "failover_runs c5 = failover_runs c @ [r1]" using pp c4 m3 by simp
  have others: "map (\<lambda>x. if run_id x = run_id r5 then r5 else x) (failover_runs c) = failover_runs c"
    using assms(2) r out(2) by (intro map_idI) (auto simp: list_all_iff r1_def new_failover_run_def)
  have runs': "failover_runs c' = failover_runs c @ [r]"
  proof -
    have "run_id r1 = run_id r5" using r out(2) by simp
    then show ?thesis unfolding out(1) store_run_def by (simp add: runs others out(2))
  qed
  have act: "active_run r" by (simp add: r r1_def new_failover_run_def active_run_def)
  have "active_failover c' = Some r"
    unfolding active_failover_def newest_first_def runs'
    by (rule find_unique) (use act assms(2) in \<open>auto simp: list_all_iff\<close>)
  moreover have "fresh_run r \<and> run_id r = fst key \<and> run_source_node_id r = node_id s \<and> run_target_node_id r = node_id t \<and>
      dhcp_managed r = managed \<and> run_phase r = first_phase managed st \<and> run_role_generation r = role_generation c + 1 \<and>
      run_lease_generation r = (case st of None \<Rightarrow> 0 | Some x \<Rightarrow> desired_generation x)"
    by (simp add: r r1_def new_failover_run_def fresh_run_def first_phase_def c1_def)
  moreover have "role_generation c' = role_generation c + 1" "maintenance_mode c'" "lease_replication c' = lease_replication c"
    using pp c4 m3 out by (simp_all add: store_run_def)
  ultimately show ?thesis by simp
qed

lemma start_cases:
  assumes "start_controlled_failover env svc cipher inspect key user confirmation ack target c = (c', Inr r)"
  obtains s t c1 c2 st where "ready (failover_readiness c (env_now env))"
    "rd_source (failover_readiness c (env_now env)) = Some s" "rd_target (failover_readiness c (env_now env)) = Some t"
    "target = node_id t" "ack" "strip confirmation = cluster_name c"
    "if is_failback c s t then failback_gate env svc c = (c1, Inr ()) else c1 = c"
    "capture_leases env cipher inspect (rd_dhcp_managed (failover_readiness c (env_now env))) c1 = (c2, Inr st)"
    "launch_run env key user (is_failback c s t) (rd_dhcp_managed (failover_readiness c (env_now env))) st s t c2 = (c', r)"
  using assms unfolding start_controlled_failover_def Let_def
  by (auto split: if_splits option.splits sum.splits prod.splits simp del: append_Cons)

text \<open>
  C20. A transition starts only on a cluster at rest and owns it: the source is the one node that holds the
  virtual IP, the target another node, no other run is active before and the new run is the active
  one after; it carries a new role generation, the cluster is in maintenance, and the run begins in
  the initial state from which the guarantees about its whole life are proved. A failback starts only
  when the recovery of the preferred node is complete, and DHCP is handed over at once only with
  the leases current.
\<close>

theorem started_run_is_exclusive:
  assumes "start_controlled_failover env svc cipher inspect key user confirmation ack target c = (c', Inr r)"
    and "sync_keeps_runs svc" and "fst key \<notin> run_id ` set (failover_runs c)"
  shows "\<exists>s t. recent_owners c (env_now env) = [s] \<and> node_id t \<noteq> node_id s \<and> target = node_id t \<and>
     run_source_node_id r = node_id s \<and> run_target_node_id r = node_id t \<and>
     active_failover c = None \<and> active_failover c' = Some r \<and> run_trace [] r \<and>
     role_generation c' = role_generation c + 1 \<and> run_role_generation r = role_generation c' \<and> maintenance_mode c' \<and>
     (is_failback c s t \<longrightarrow> (\<exists>c1 nr. failback_target env c = (c1, Some nr) \<and> nr_ready nr)) \<and>
     (run_phase r = DEMOTING_SOURCE \<longrightarrow>
        (\<exists>x. lease_replication c' = Some x \<and> lr_status x = ''CURRENT'' \<and> run_lease_generation r = desired_generation x))"
  using assms(1)
proof (rule start_cases)
  fix s t c1 c2 st
  let ?rd = "failover_readiness c (env_now env)"
  assume rd: "ready ?rd" "rd_source ?rd = Some s" "rd_target ?rd = Some t" and tgt: "target = node_id t"
    and gate: "if is_failback c s t then failback_gate env svc c = (c1, Inr ()) else c1 = c"
    and cap: "capture_leases env cipher inspect (rd_dhcp_managed ?rd) c1 = (c2, Inr st)"
    and run: "launch_run env key user (is_failback c s t) (rd_dhcp_managed ?rd) st s t c2 = (c', r)"
  note st = ready_source_target [OF rd]
  have g: "failover_runs c1 = failover_runs c \<and> role_generation c1 = role_generation c \<and>
      (is_failback c s t \<longrightarrow> (\<exists>c1 nr. failback_target env c = (c1, Some nr) \<and> nr_ready nr))"
    using gate failback_gate_spec [of env svc c c1 "()"] assms(2) by (cases "is_failback c s t") auto
  have c2: "failover_runs c2 = failover_runs c" "role_generation c2 = role_generation c"
    using capture_leases_runs [OF cap] g by simp_all
  have "list_all (\<lambda>x. \<not> active_run x \<and> run_id x \<noteq> fst key) (failover_runs c2)"
    using st no_active_iff [of c] assms(3) by (auto simp: c2 list_all_iff) (metis image_eqI)
  note l = launch_run_spec [OF run this]
  have dem: "\<exists>x. lease_replication c' = Some x \<and> lr_status x = ''CURRENT'' \<and> run_lease_generation r = desired_generation x"
    if "run_phase r = DEMOTING_SOURCE"
  proof -
    have m: "rd_dhcp_managed ?rd" "\<forall>x. st = Some x \<longrightarrow> lr_status x = ''CURRENT''"
      using l that by (auto simp: first_phase_def split: if_splits option.splits)
    then obtain x where "st = Some x" "lease_replication c2 = Some x" using capture_leases_state cap by fastforce
    with m(2) l show ?thesis by simp
  qed
  have "run_trace [] r" using l by (simp add: run_trace.start)
  with st g l c2 tgt dem show ?thesis by (intro exI [of _ s] exI [of _ t]) simp
qed

text \<open>A failover of the reference cluster, whose leases have changed since the last snapshot.\<close>

definition idle_sync :: sync_service where
  "idle_sync = \<lparr>ss_plan = (\<lambda>c. Inr (c, \<lparr>fp_status = ''NO_CHANGES'', fp_blocked = False, fp_deletions = 0\<rparr>)), ss_execute = Inr\<rparr>"

definition example_start :: "ha_cluster \<times> (start_error + ha_failover_run)" where
  "example_start = start_controlled_failover (reference_env (seconds 30)) idle_sync example_cipher
     (\<lambda>c. Inr example_plan) (7, ''r7'') 1 '' home '' True 2 (reference_cluster (seconds 30))"

theorem started_run_is_exclusive_witness:
  "case example_start of (c', Inl e) \<Rightarrow> False
   | (c', Inr r) \<Rightarrow> run_phase r = WAITING_FOR_LEASES \<and> active_failover c' = Some r \<and> run_trace [] r"
proof -
  let ?c = "reference_cluster (seconds 30)"
  have v: "case example_start of (c', Inl e) \<Rightarrow> False | (c', Inr r) \<Rightarrow> run_phase r = WAITING_FOR_LEASES" by code_simp
  obtain c' out where s: "example_start = (c', out)" by fastforce
  have "case out of Inl e \<Rightarrow> False | Inr r \<Rightarrow> run_phase r = WAITING_FOR_LEASES" using v unfolding s by simp
  then obtain r where r: "out = Inr r" "run_phase r = WAITING_FOR_LEASES" by (cases out) auto
  have k: "sync_keeps_runs idle_sync" by (simp add: sync_keeps_runs_def idle_sync_def)
  have f: "fst (7 :: int, ''r7'') \<notin> run_id ` set (failover_runs ?c)" by (simp add: reference_cluster_def)
  from s r(1) have "start_controlled_failover (reference_env (seconds 30)) idle_sync example_cipher
     (\<lambda>c. Inr example_plan) (7, ''r7'') 1 '' home '' True 2 ?c = (c', Inr r)" by (simp add: example_start_def)
  from started_run_is_exclusive [OF this k f] have "active_failover c' = Some r \<and> run_trace [] r" by blast
  with r show ?thesis unfolding s by simp
qed

section \<open>The status document\<close>

fun phase_label :: "string \<Rightarrow> string \<Rightarrow> run_phase \<Rightarrow> string" where
  "phase_label src tgt WAITING_FOR_LEASES = ''Capturing the final lease snapshot''"
| "phase_label src tgt DEMOTING_SOURCE = ''Stopping DHCP on the current active node''"
| "phase_label src tgt VERIFYING_SOURCE_DHCP_RELEASE = ''Waiting for '' @ src @ '' to release UDP port 67''"
| "phase_label src tgt MOVING_VIP = ''Moving the virtual IP''"
| "phase_label src tgt PROMOTING_TARGET = ''Importing leases and starting DHCP on the target''"
| "phase_label src tgt VERIFYING_TARGET = ''Verifying the final DNS, DHCP and VIP topology''"
| "phase_label src tgt COMPLETE = ''Controlled failover completed''"
| "phase_label src tgt PHASE_FAILED_SAFE = ''Transition stopped safely''"
| "phase_label src tgt ROLLBACK_DEMOTING_TARGET = ''Ensuring DHCP is stopped on the target''"
| "phase_label src tgt VERIFYING_ROLLBACK_TARGET_RELEASE = ''Waiting for '' @ tgt @ '' to release UDP port 67''"
| "phase_label src tgt ROLLBACK_MOVING_VIP = ''Returning the virtual IP''"
| "phase_label src tgt ROLLBACK_PROMOTING_SOURCE = ''Restoring DHCP on the original node''"
| "phase_label src tgt ROLLBACK_VERIFYING_SOURCE = ''Verifying the restored final topology''"
| "phase_label src tgt PHASE_ROLLED_BACK = ''Original node restored''"

record status_step =
  step_phase :: run_phase
  step_label :: string
  step_state :: string

record status_document =
  sd_running :: bool
  sd_run_id :: string
  sd_status :: run_status
  sd_phase :: run_phase
  sd_message :: string
  sd_error :: "string option"
  sd_warnings :: "string list"
  sd_source :: string
  sd_target :: string
  sd_dhcp_managed :: bool
  sd_transition_kind :: string
  sd_started_at :: time
  sd_completed_at :: "time option"
  sd_progress_percent :: int
  sd_elapsed_seconds :: int
  sd_verification_attempt :: int
  sd_steps :: "status_step list"

definition phases_of :: "ha_failover_run \<Rightarrow> run_phase list" where
  "phases_of r = (if run_status r = ROLLING_BACK \<or> run_phase r \<in> set ROLLBACK_PHASES then ROLLBACK_PHASES else FORWARD_PHASES)"

fun index_of :: "'a \<Rightarrow> 'a list \<Rightarrow> int" where
  "index_of x [] = 0"
| "index_of x (y # ys) = (if x = y then 0 else 1 + index_of x ys)"

definition current_index :: "ha_failover_run \<Rightarrow> int" where
  "current_index r = (if run_phase r \<in> set (phases_of r) then index_of (run_phase r) (phases_of r) else 0)"

definition finished :: "ha_failover_run \<Rightarrow> bool" where
  "finished r \<longleftrightarrow> run_phase r = COMPLETE \<or> run_phase r = PHASE_ROLLED_BACK"

text \<open>\<open>round\<close> to the nearest percentage; a half does not occur with six or five steps.\<close>

definition progress_percent :: "ha_failover_run \<Rightarrow> int" where
  "progress_percent r =
     (if finished r then 100
      else (let d = max 1 (int (length (phases_of r)) - 1) in (200 * current_index r + d) div (2 * d)))"

fun status_steps :: "ha_failover_run \<Rightarrow> string \<Rightarrow> string \<Rightarrow> int \<Rightarrow> run_phase list \<Rightarrow> status_step list" where
  "status_steps r src tgt i [] = []"
| "status_steps r src tgt i (p # ps) =
     \<lparr>step_phase = p, step_label = phase_label src tgt p,
      step_state = (if i < current_index r \<or> finished r then ''complete'' else if i = current_index r then ''current'' else ''pending'')\<rparr>
     # status_steps r src tgt (i + 1) ps"

definition failover_status :: "time \<Rightarrow> ha_failover_run \<Rightarrow> ha_node \<Rightarrow> ha_node \<Rightarrow> status_document" where
  "failover_status now r source target =
     \<lparr>sd_running = active_run r, sd_run_id = run_public_id r, sd_status = run_status r, sd_phase = run_phase r,
      sd_message = phase_label (display_name source) (display_name target) (run_phase r),
      sd_error = error_redacted r, sd_warnings = rep_warnings (report r), sd_source = display_name source,
      sd_target = display_name target, sd_dhcp_managed = dhcp_managed r, sd_transition_kind = transition_kind r,
      sd_started_at = started_at r, sd_completed_at = completed_at r, sd_progress_percent = progress_percent r,
      sd_elapsed_seconds = max 0 ((now - started_at r) div 1000000),
      sd_verification_attempt = attempts_of r (run_phase r),
      sd_steps = status_steps r (display_name source) (display_name target) 0 (phases_of r)\<rparr>"

lemma current_index_bounds: "0 \<le> current_index r \<and> current_index r \<le> int (length (phases_of r)) - 1"
  by (cases "run_phase r") (auto simp: current_index_def phases_of_def FORWARD_PHASES_def ROLLBACK_PHASES_def)

text \<open>The percentage shown is a percentage, and 100 is shown exactly for a run that has finished.\<close>

lemma progress_percent_bounds: "0 \<le> progress_percent r \<and> progress_percent r \<le> 100"
  by (cases "run_phase r")
    (auto simp: progress_percent_def finished_def current_index_def phases_of_def FORWARD_PHASES_def ROLLBACK_PHASES_def Let_def)

lemma progress_percent_finished: "progress_percent r = 100 \<longleftrightarrow> finished r"
  by (cases "run_phase r")
    (auto simp: progress_percent_def finished_def current_index_def phases_of_def FORWARD_PHASES_def ROLLBACK_PHASES_def Let_def)

lemma status_steps_length: "length (status_steps r src tgt i ps) = length ps"
  by (induction ps arbitrary: i) simp_all

end
