(* ===== verification/HA_Agent.thy ===== *)
theory HA_Agent
  imports Kaya_Json
begin

text \<open>
  The node agent (\<open>ha_agent/failover_runtime.py\<close>, \<open>ha_agent/kaya_ha_transition.py\<close>): the checks a node makes on its own before it starts or stops
  DHCP, on an order of the server and on a Keepalived role change. The agent's key-value store is a
  map of JSON values; every privileged command is appended to a log, and what a command answers is an
  argument that may depend on the commands before it. An answer of \<open>None\<close> is an exception of running
  it, such as \<open>subprocess.TimeoutExpired\<close>. The text that a command prints is given by the JSON object
  in it, or by \<open>None\<close> when it is not JSON.
\<close>

type_synonym store = "string \<Rightarrow> json option"
type_synonym obj = "(string \<times> json) list"

datatype agent_command =
    Status | Demote int | Promote int | Automatic_demote int | Automatic_promote int
  | Observe_dns | Arping string string

record command_result =
  returncode :: int
  printed :: "obj option"
  stderr :: string

record agent_event =
  ae_type :: string
  ae_severity :: string
  ae_message :: string
  ae_generation :: int
  ae_automatic :: bool

record agent =
  store :: store
  commands :: "agent_command list"
  agent_events :: "agent_event list"

type_synonym runner = "agent_command list \<Rightarrow> agent_command \<Rightarrow> command_result option"

datatype agent_error = RuntimeRejected string | Uncaught

section \<open>The store\<close>

definition get_value :: "agent \<Rightarrow> string \<Rightarrow> json \<Rightarrow> json" where
  "get_value a k d = (case store a k of None \<Rightarrow> d | Some v \<Rightarrow> v)"

definition put_value :: "string \<Rightarrow> json \<Rightarrow> agent \<Rightarrow> agent" where
  "put_value k v a = a\<lparr>store := (store a)(k \<mapsto> v)\<rparr>"

definition queue_event :: "string \<Rightarrow> string \<Rightarrow> string \<Rightarrow> int \<Rightarrow> bool \<Rightarrow> agent \<Rightarrow> agent" where
  "queue_event ty sev msg generation automatic a =
     a\<lparr>agent_events := agent_events a @ [\<lparr>ae_type = ty, ae_severity = sev, ae_message = msg,
         ae_generation = generation, ae_automatic = automatic\<rparr>]\<rparr>"

definition run_command :: "runner \<Rightarrow> agent_command \<Rightarrow> agent \<Rightarrow> agent \<times> command_result option" where
  "run_command runner cmd a = (a\<lparr>commands := commands a @ [cmd]\<rparr>, runner (commands a) cmd)"

definition output_or_empty :: "command_result \<Rightarrow> obj" where
  "output_or_empty r = (case printed r of None \<Rightarrow> [] | Some kvs \<Rightarrow> kvs)"

definition is_bool :: "json \<Rightarrow> bool" where
  "is_bool v \<longleftrightarrow> v = JBool True \<or> v = JBool False"

text \<open>
  \<open>value in {True, False}\<close>: numbers that equal a truth value are members too, and a list or an object is
  not hashable (\<open>None\<close>).
\<close>

definition bool_member :: "json \<Rightarrow> bool option" where
  "bool_member v =
     (case v of
        JList xs \<Rightarrow> None
      | JObj kvs \<Rightarrow> None
      | JBool b \<Rightarrow> Some True
      | JInt n \<Rightarrow> Some (n = 0 \<or> n = 1)
      | _ \<Rightarrow> Some False)"

text \<open>\<open>" ".join(text.split())[:500]\<close>.\<close>

definition diagnostic_text :: "string \<Rightarrow> string" where
  "diagnostic_text s = take 500 (squeeze s)"

definition failure_suffix :: "command_result \<Rightarrow> string" where
  "failure_suffix r = ''(return code '' @ str_int (returncode r) @ ''; stderr: '' @ text_or (diagnostic_text (stderr r)) ''empty'' @ '').''"

text \<open>\<open>str(value or default)\<close>.\<close>

definition text_or_default :: "json \<Rightarrow> string \<Rightarrow> string" where
  "text_or_default v d = (if truthy v then py_str v else d)"

definition is_checksum :: "string \<Rightarrow> bool" where
  "is_checksum s \<longleftrightarrow> length s = 64 \<and> list_all (\<lambda>c. is_digit c \<or> c \<in> set ''abcdef'') s"

section \<open>DHCP evidence\<close>

definition store_evidence :: "json \<Rightarrow> obj \<Rightarrow> agent \<Rightarrow> agent" where
  "store_evidence now kvs a =
     put_value ''dhcp_running'' (JBool (text_or_default (obj_get kvs ''runtime_state'') ''UNKNOWN'' = ''RUNNING''))
      (put_value ''dhcp_observed_at'' now
      (put_value ''dhcp_observation_status'' (JStr ''FRESH'')
      (put_value ''dhcp_runtime_state'' (JStr (text_or_default (obj_get kvs ''runtime_state'') ''UNKNOWN''))
      (put_value ''ftl_active'' (obj_get kvs ''service_active'')
      (put_value ''dhcp_listener_active'' (obj_get kvs ''listening'')
      (put_value ''dhcp_configured'' (obj_get kvs ''configured'') a))))))"

definition no_evidence :: "json \<Rightarrow> agent \<Rightarrow> agent" where
  "no_evidence now a =
     put_value ''dhcp_observed_at'' now (put_value ''dhcp_observation_status'' (JStr ''UNAVAILABLE'')
      (put_value ''dhcp_runtime_state'' (JStr ''UNKNOWN'') (put_value ''ftl_active'' JNull
      (put_value ''dhcp_listener_active'' JNull (put_value ''dhcp_configured'' JNull a)))))"

text \<open>The membership tests in order; the first that fails or raises decides.\<close>

fun members_of :: "obj \<Rightarrow> string list \<Rightarrow> bool option" where
  "members_of kvs [] = Some True"
| "members_of kvs (k # ks) =
     (case bool_member (obj_get kvs k) of None \<Rightarrow> None | Some False \<Rightarrow> Some False | Some True \<Rightarrow> members_of kvs ks)"

definition refresh_dhcp_state :: "runner \<Rightarrow> json \<Rightarrow> agent \<Rightarrow> agent \<times> agent_error option" where
  "refresh_dhcp_state runner now a =
     (case run_command runner Status a of
        (a1, None) \<Rightarrow> (a1, Some Uncaught)
      | (a1, Some r) \<Rightarrow>
          (let kvs = output_or_empty r
           in if returncode r \<noteq> 0 \<or> obj_get kvs ''observation_status'' \<noteq> JStr ''FRESH'' then (no_evidence now a1, None)
              else
                (case members_of kvs [''configured'', ''listening'', ''service_active''] of
                   None \<Rightarrow> (a1, Some Uncaught)
                 | Some ok \<Rightarrow>
                     if \<not> ok \<or> text_or_default (obj_get kvs ''runtime_state'') ''UNKNOWN'' \<notin> {''RUNNING'', ''STOPPED''}
                     then (a1, Some (RuntimeRejected ''Pi-hole DHCP state returned invalid evidence.''))
                     else (store_evidence now kvs a1, None))))"

section \<open>Orders of the server\<close>

record action_result =
  ar_action_id :: json
  ar_action_type :: string
  ar_generation :: int
  ar_status :: string
  ar_checksum :: json
  ar_backup_reference :: json
  ar_message :: string

datatype dhcp_order = Order_demote | Order_promote

definition order_of :: "json \<Rightarrow> dhcp_order option" where
  "order_of v = (if v = JStr ''DHCP_DEMOTE'' then Some Order_demote else if v = JStr ''DHCP_PROMOTE'' then Some Order_promote else None)"

text \<open>An order names a controlled run or a maintenance run.\<close>

definition names_a_run :: "obj \<Rightarrow> bool" where
  "names_a_run action \<longleftrightarrow> strip (text_or_default (obj_get action ''run_id'') []) \<noteq> [] \<or>
     strip (text_or_default (obj_get action ''maintenance_run_id'') []) \<noteq> []"

definition owns_vip :: "agent \<Rightarrow> bool" where
  "owns_vip a \<longleftrightarrow> get_value a ''vip_owned'' JNull = JBool True \<and> get_value a ''observed_role'' JNull = JStr ''ACTIVE''"

text \<open>The checks before anything changes: the order and its generation, or the refusal.\<close>

definition check_scope :: "agent \<Rightarrow> obj \<Rightarrow> dhcp_order \<Rightarrow> int \<Rightarrow> agent_error + dhcp_order \<times> int \<times> bool" where
  "check_scope a action ord generation =
     (let conf = obj_get_default action ''configuration_only'' (JBool False);
          auth = obj_get_default action ''owner_handover_authorised'' (JBool False)
      in if \<not> is_bool conf \<or> (conf = JBool True \<and> ord \<noteq> Order_promote)
         then Inl (RuntimeRejected ''Kaya supplied an invalid DHCP repair scope.'')
         else if \<not> is_bool auth
         then Inl (RuntimeRejected ''Kaya supplied an invalid DHCP owner-handover authorisation.'')
         else if ord = Order_demote \<and> truthy (get_value a ''dhcp_running'' (JBool False)) \<and>
                 (auth \<noteq> JBool True \<or> \<not> names_a_run action)
         then Inl (RuntimeRejected ''Refusing to disable DHCP on the current sole owner without a verified atomic handover.'')
         else if ord = Order_demote \<and> owns_vip a \<and> auth \<noteq> JBool True
         then Inl (RuntimeRejected ''Rejecting stale DHCP demotion because this node currently owns the VIP.'')
         else if ord = Order_promote \<and> \<not> owns_vip a
         then Inl (RuntimeRejected ''Rejecting stale DHCP promotion because this node no longer owns the VIP.'')
         else Inr (ord, generation, conf = JBool True))"

definition invalid_action :: agent_error where
  "invalid_action = RuntimeRejected ''Kaya supplied an invalid DHCP transition action.''"

definition stale_action :: agent_error where
  "stale_action = RuntimeRejected ''Automatic or stale DHCP transitions are rejected.''"

definition check_order :: "agent \<Rightarrow> obj \<Rightarrow> agent_error + dhcp_order \<times> int \<times> bool" where
  "check_order a action =
     (case py_int (json_or (obj_get action ''generation'') (JInt 0)) of
        None \<Rightarrow> Inl Uncaught
      | Some generation \<Rightarrow>
          (case order_of (obj_get action ''action_type'') of
             None \<Rightarrow> Inl invalid_action
           | Some ord \<Rightarrow>
               if generation < 1 \<or> \<not> is_checksum (text_or_default (obj_get action ''checksum'') []) then Inl invalid_action
               else if obj_get action ''automatic'' \<noteq> JBool False then Inl stale_action
               else
                 (case py_int (get_value a ''failover_generation'' (JInt 0)) of
                    None \<Rightarrow> Inl Uncaught
                  | Some current \<Rightarrow> if generation < current then Inl stale_action else check_scope a action ord generation)))"

definition helper_command :: "dhcp_order \<Rightarrow> int \<Rightarrow> agent_command" where
  "helper_command ord generation = (case ord of Order_demote \<Rightarrow> Demote generation | Order_promote \<Rightarrow> Promote generation)"

definition note_order :: "int \<Rightarrow> int \<Rightarrow> obj \<Rightarrow> bool \<Rightarrow> agent \<Rightarrow> agent" where
  "note_order generation leases action conf a =
     put_value ''failover_configuration_only'' (JBool conf)
      (put_value ''failover_restore_original'' (JBool (truthy (obj_get_default action ''restore_original'' (JBool False))))
      (put_value ''failover_lease_generation'' (JInt leases)
      (put_value ''failover_generation'' (JInt generation) a)))"

definition store_result :: "json \<Rightarrow> obj \<Rightarrow> agent \<Rightarrow> agent" where
  "store_result now kvs a =
     put_value ''dhcp_observed_at'' now
      (put_value ''dhcp_observation_status'' (JStr (text_or_default (obj_get kvs ''observation_status'') ''UNAVAILABLE''))
      (put_value ''dhcp_runtime_state'' (JStr (text_or_default (obj_get kvs ''runtime_state'') ''UNKNOWN''))
      (put_value ''ftl_active'' (obj_get kvs ''service_active'')
      (put_value ''dhcp_listener_active'' (obj_get kvs ''listening'')
      (put_value ''dhcp_configured'' (obj_get kvs ''configured'') a)))))"

definition order_name :: "dhcp_order \<Rightarrow> string" where
  "order_name ord = (case ord of Order_demote \<Rightarrow> ''DHCP_DEMOTE'' | Order_promote \<Rightarrow> ''DHCP_PROMOTE'')"

definition applied_message :: "dhcp_order \<Rightarrow> command_result \<Rightarrow> obj \<Rightarrow> string" where
  "applied_message ord r kvs =
     order_name ord @ '' executed with return code '' @ str_int (returncode r) @ ''; dhcp.active='' @ lower (py_str (obj_get kvs ''configured'')) @
     '', FTL active='' @ lower (py_str (obj_get kvs ''service_active'')) @ '', UDP/67 listening='' @ lower (py_str (obj_get kvs ''listening'')) @
     '', runtime='' @ text_or_default (obj_get kvs ''runtime_state'') ''UNKNOWN'' @ ''.''"

text \<open>What follows the command: its answer is checked, stored and reported.\<close>

definition conclude_order ::
  "json \<Rightarrow> obj \<Rightarrow> dhcp_order \<Rightarrow> int \<Rightarrow> command_result \<Rightarrow> agent \<Rightarrow> agent \<times> (agent_error + action_result)" where
  "conclude_order now action ord generation r a =
     (case printed r of
        None \<Rightarrow> (a, Inl (RuntimeRejected (''The DHCP helper returned an invalid response '' @ failure_suffix r)))
      | Some kvs \<Rightarrow>
          if returncode r \<noteq> 0 \<or> obj_get kvs ''status'' \<noteq> JStr ''applied''
          then (a, Inl (RuntimeRejected (take 500 (text_or_default (obj_get kvs ''message'') ''The DHCP transition failed.'') @ '' '' @ failure_suffix r)))
          else
            (let a1 = store_result now kvs a
             in case bool_member (obj_get kvs ''dhcp_running'') of
                  None \<Rightarrow> (a1, Inl Uncaught)
                | Some b \<Rightarrow>
                    (let a2 = (if b then put_value ''dhcp_running'' (obj_get kvs ''dhcp_running'') a1 else a1)
                     in case map_of action ''action_id'' of
                          None \<Rightarrow> (a2, Inl Uncaught)
                        | Some i \<Rightarrow>
                            (a2, Inr \<lparr>ar_action_id = i, ar_action_type = order_name ord, ar_generation = generation, ar_status = ''APPLIED'',
                                      ar_checksum = obj_get action ''checksum'', ar_backup_reference = obj_get kvs ''backup_reference'',
                                      ar_message = applied_message ord r kvs\<rparr>))))"

definition apply_failover_action ::
  "runner \<Rightarrow> json \<Rightarrow> obj \<Rightarrow> agent \<Rightarrow> agent \<times> (agent_error + action_result)" where
  "apply_failover_action runner now action a =
     (case check_order a action of
        Inl e \<Rightarrow> (a, Inl e)
      | Inr (ord, generation, conf) \<Rightarrow>
          (case py_int (json_or (obj_get action ''lease_generation'') (JInt 0)) of
             None \<Rightarrow> (put_value ''failover_generation'' (JInt generation) a, Inl Uncaught)
           | Some leases \<Rightarrow>
               (case run_command runner (helper_command ord generation) (note_order generation leases action conf a) of
                  (a1, None) \<Rightarrow> (a1, Inl Uncaught)
                | (a1, Some r) \<Rightarrow> conclude_order now action ord generation r a1)))"

section \<open>Role changes of Keepalived\<close>

datatype role_change = Master | Backup | Fault

definition block_message :: string where
  "block_message = ''Automatic promotion was blocked because exclusive virtual-IP ownership could not be established.''"

definition hold_message :: string where
  "hold_message = ''Automatic promotion was blocked because local ownership or DNS health was not safe after the hold-down.''"

text \<open>
  The checks of a promotion after the hold-down, during which the agent goes on writing to the store
  (\<open>meanwhile\<close>). The flag says whether to go on; \<open>None\<close> is an exception.
\<close>

definition promotion_checks ::
  "runner \<Rightarrow> (store \<Rightarrow> store) \<Rightarrow> int \<Rightarrow> agent \<Rightarrow> agent \<times> bool option" where
  "promotion_checks runner meanwhile generation a =
     (if py_int (get_value a ''automatic_hold_down_seconds'' (JInt 10)) = None then (a, None)
      else
        (case run_command runner Observe_dns (a\<lparr>store := meanwhile (store a)\<rparr>) of
           (a1, None) \<Rightarrow> (a1, None)
         | (a1, Some dns) \<Rightarrow>
             (let a2 = put_value ''dns_healthy'' (JBool (returncode dns = 0)) a1;
                  interface = text_or_default (get_value a2 ''network_interface'' (JStr [])) [];
                  vip = hd (split_on (CHR ''/'') (text_or_default (get_value a2 ''desired_virtual_ip'' (JStr [])) []));
                  probe = (interface \<noteq> [] \<and> vip \<noteq> []);
                  (a3, duplicate) = (if probe then run_command runner (Arping interface vip) a2 else (a2, None))
              in if probe \<and> duplicate = None then (a3, None)
                 else if \<not> probe \<or> returncode (the duplicate) \<noteq> 0
                 then (queue_event ''split_brain_prevented'' ''critical'' block_message generation False a3, Some False)
                 else if \<not> (get_value a3 ''observed_role'' JNull = JStr ''ACTIVE'') \<or>
                         \<not> truthy (get_value a3 ''vip_owned'' (JBool False)) \<or> returncode dns \<noteq> 0
                 then (queue_event ''automatic_failover_blocked'' ''critical'' hold_message generation False a3, Some False)
                 else (a3, Some True))))"

definition automatic_command :: "role_change \<Rightarrow> int \<Rightarrow> agent_command" where
  "automatic_command t generation = (if t = Master then Automatic_promote generation else Automatic_demote generation)"

definition finish_automatic :: "json \<Rightarrow> role_change \<Rightarrow> int \<Rightarrow> obj \<Rightarrow> agent \<Rightarrow> agent" where
  "finish_automatic now t generation kvs a =
     (let a1 = (if obj_get kvs ''observation_status'' = JStr ''FRESH''
                then put_value ''dhcp_running'' (JBool (obj_get kvs ''dhcp_running'' = JBool True))
                  (put_value ''dhcp_observed_at'' now (put_value ''dhcp_observation_status'' (JStr ''FRESH'')
                  (put_value ''dhcp_runtime_state'' (obj_get kvs ''runtime_state'') (put_value ''ftl_active'' (obj_get kvs ''service_active'')
                  (put_value ''dhcp_listener_active'' (obj_get kvs ''listening'') (put_value ''dhcp_configured'' (obj_get kvs ''configured'') a))))))
                else a)
      in if t = Master
         then queue_event ''automatic_failover_completed'' ''warning'' ''Local failover completed without requiring Kaya.'' generation True a1
         else queue_event ''automatic_demotion_completed'' ''info'' ''DHCP was disabled locally before this node remained standby.'' generation True a1)"

definition automatic_enabled :: "agent \<Rightarrow> bool" where
  "automatic_enabled a \<longleftrightarrow> truthy (get_value a ''automatic_failover'' (JBool False)) \<and>
     \<not> truthy (get_value a ''maintenance_mode'' (JBool False)) \<and> truthy (get_value a ''dhcp_managed'' (JBool False))"

definition issue_automatic ::
  "runner \<Rightarrow> json \<Rightarrow> role_change \<Rightarrow> int \<Rightarrow> agent \<Rightarrow> agent \<times> agent_error option" where
  "issue_automatic runner now t generation a =
     (case run_command runner (automatic_command t generation) a of
        (a1, None) \<Rightarrow> (a1, Some Uncaught)
      | (a1, Some r) \<Rightarrow>
          (let kvs = output_or_empty r
           in if returncode r \<noteq> 0 \<or> obj_get kvs ''status'' \<noteq> JStr ''applied'' then
                (let (a2, undone) = (if t = Master then run_command runner (Automatic_demote generation) a1 else (a1, Some r))
                 in if undone = None then (a2, Some Uncaught)
                    else (queue_event ''automatic_failover_blocked'' ''critical''
                            (take 500 (text_or_default (obj_get kvs ''message'') ''The local DHCP safety transition failed.''))
                            generation False a2, None))
              else (finish_automatic now t generation kvs a1, None)))"

definition automatic_transition ::
  "runner \<Rightarrow> (store \<Rightarrow> store) \<Rightarrow> json \<Rightarrow> role_change \<Rightarrow> int \<Rightarrow> agent \<Rightarrow> agent \<times> agent_error option" where
  "automatic_transition runner meanwhile now t generation a =
     (if \<not> automatic_enabled a then (a, None)
      else if t = Master then
        (case promotion_checks runner meanwhile generation a of
           (a1, None) \<Rightarrow> (a1, Some Uncaught)
         | (a1, Some False) \<Rightarrow> (a1, None)
         | (a1, Some True) \<Rightarrow> issue_automatic runner now t generation a1)
      else issue_automatic runner now t generation a)"

definition role_of_argument :: "string \<Rightarrow> role_change option" where
  "role_of_argument s = (if s = ''master'' then Some Master else if s = ''backup'' then Some Backup else if s = ''fault'' then Some Fault else None)"

definition note_role :: "string \<Rightarrow> role_change \<Rightarrow> int \<Rightarrow> agent \<Rightarrow> agent" where
  "note_role name t generation a =
     queue_event (''keepalived_'' @ name) (if t = Fault then ''critical'' else ''info'') (''Keepalived reported '' @ name @ '' state.'') generation False
      (put_value ''keepalived_runtime_state'' (JStr (if t = Fault then ''FAULT'' else ''RUNNING''))
      (put_value ''vip_owned'' (JBool (t = Master))
      (put_value ''observed_role'' (JStr (case t of Master \<Rightarrow> ''ACTIVE'' | Backup \<Rightarrow> ''STANDBY'' | Fault \<Rightarrow> ''FAULT'')) a)))"

text \<open>The hook: its exit code and the agent afterwards; code 1 is an uncaught exception.\<close>

definition transition_hook ::
  "runner \<Rightarrow> (store \<Rightarrow> store) \<Rightarrow> json \<Rightarrow> string list \<Rightarrow> agent \<Rightarrow> int \<times> agent" where
  "transition_hook runner meanwhile now args a =
     (case args of
        [name, number] \<Rightarrow>
          (case (role_of_argument name, parse_int number) of
             (Some t, Some generation) \<Rightarrow>
               (case store a ''keepalived_generation'' of
                  None \<Rightarrow> (3, a)
                | Some v \<Rightarrow>
                    (case py_int v of
                       None \<Rightarrow> (1, a)
                     | Some current \<Rightarrow>
                         if current \<noteq> generation then (3, a)
                         else
                           (case automatic_transition runner meanwhile now t generation (note_role name t generation a) of
                              (a1, None) \<Rightarrow> (0, a1)
                            | (a1, Some _) \<Rightarrow> (1, a1))))
           | _ \<Rightarrow> (2, a))
      | _ \<Rightarrow> (2, a))"

section \<open>Orders are guarded on the node\<close>

lemma commands_frame [simp]:
  "commands (put_value k v a) = commands a"
  "commands (queue_event ty sev msg g auto a) = commands a"
  "commands (note_order g l action conf a) = commands a"
  "commands (store_result now kvs a) = commands a"
  "commands (note_role name t g a) = commands a"
  "commands (finish_automatic now t g kvs a) = commands a"
  by (simp_all add: put_value_def queue_event_def note_order_def store_result_def note_role_def finish_automatic_def Let_def)

lemma get_put [simp]: "get_value (put_value k v a) k' d = (if k' = k then v else get_value a k' d)"
  by (simp add: get_value_def put_value_def)

lemma get_commands [simp]: "get_value (a\<lparr>commands := cs\<rparr>) k d = get_value a k d"
  by (simp add: get_value_def)

lemma get_queue [simp]: "get_value (queue_event ty sev msg g auto a) k d = get_value a k d"
  by (simp add: get_value_def queue_event_def)

lemma note_order_generation [simp]: "get_value (note_order g l action conf a) ''failover_generation'' d = JInt g"
  by (simp add: note_order_def)

lemma store_result_generation [simp]:
  "get_value (store_result now kvs a) ''failover_generation'' d = get_value a ''failover_generation'' d"
  by (simp add: store_result_def)

text \<open>What an accepted order has passed.\<close>

definition order_permitted :: "agent \<Rightarrow> obj \<Rightarrow> dhcp_order \<Rightarrow> int \<Rightarrow> bool" where
  "order_permitted a action ord g \<longleftrightarrow>
     obj_get action ''automatic'' = JBool False \<and> 1 \<le> g \<and>
     (\<exists>cur. py_int (get_value a ''failover_generation'' (JInt 0)) = Some cur \<and> cur \<le> g) \<and>
     (ord = Order_promote \<longrightarrow> owns_vip a) \<and>
     (ord = Order_demote \<and> truthy (get_value a ''dhcp_running'' (JBool False)) \<longrightarrow>
        obj_get_default action ''owner_handover_authorised'' (JBool False) = JBool True \<and> names_a_run action) \<and>
     (ord = Order_demote \<and> owns_vip a \<longrightarrow> obj_get_default action ''owner_handover_authorised'' (JBool False) = JBool True)"

lemma check_scope_permitted:
  assumes "check_scope a action ord g = Inr (ord', g', conf)"
  shows "ord' = ord \<and> g' = g \<and> (ord = Order_promote \<longrightarrow> owns_vip a) \<and>
     (ord = Order_demote \<and> truthy (get_value a ''dhcp_running'' (JBool False)) \<longrightarrow>
        obj_get_default action ''owner_handover_authorised'' (JBool False) = JBool True \<and> names_a_run action) \<and>
     (ord = Order_demote \<and> owns_vip a \<longrightarrow> obj_get_default action ''owner_handover_authorised'' (JBool False) = JBool True)"
  using assms unfolding check_scope_def Let_def by (auto split: if_splits)

lemma check_order_permitted:
  assumes "check_order a action = Inr (ord, g, conf)"
  shows "order_permitted a action ord g"
proof -
  from assms obtain cur where "py_int (get_value a ''failover_generation'' (JInt 0)) = Some cur" "\<not> g < cur" "\<not> g < 1"
    "obj_get action ''automatic'' = JBool False" "check_scope a action ord g = Inr (ord, g, conf)"
    unfolding check_order_def
    by (auto split: option.splits if_splits dest: check_scope_permitted)
  with check_scope_permitted [OF this(5)] show ?thesis by (simp add: order_permitted_def)
qed

lemma conclude_order_frame:
  assumes "conclude_order now action ord g r a = (a', out)"
  shows "commands a' = commands a \<and> get_value a' ''failover_generation'' d = get_value a ''failover_generation'' d"
  using assms by (auto simp: conclude_order_def Let_def split: option.splits if_splits)


section \<open>Automatic promotion is guarded\<close>

lemma note_role_enabled [simp]: "automatic_enabled (note_role name t g a) = automatic_enabled a"
  by (simp add: automatic_enabled_def note_role_def)

definition applied :: "command_result \<Rightarrow> bool" where
  "applied r \<longleftrightarrow> returncode r = 0 \<and> obj_get (output_or_empty r) ''status'' = JStr ''applied''"

text \<open>The commands before and at a promotion, with the answers that allowed it.\<close>

definition cleared :: "runner \<Rightarrow> agent_command list \<Rightarrow> string \<Rightarrow> string \<Rightarrow> bool" where
  "cleared runner cs i v \<longleftrightarrow>
     (\<exists>dns dup. runner cs Observe_dns = Some dns \<and> returncode dns = 0 \<and>
        runner (cs @ [Observe_dns]) (Arping i v) = Some dup \<and> returncode dup = 0)"

lemma promotion_checks_pass:
  assumes "promotion_checks runner meanwhile g a = (a', Some True)"
  shows "\<exists>i v. commands a' = commands a @ [Observe_dns, Arping i v] \<and> cleared runner (commands a) i v \<and>
     meanwhile (store a) ''observed_role'' = Some (JStr ''ACTIVE'') \<and>
     truthy (case meanwhile (store a) ''vip_owned'' of None \<Rightarrow> JBool False | Some x \<Rightarrow> x)"
proof -
  obtain dns where dns: "runner (commands a) Observe_dns = Some dns"
    using assms by (auto simp: promotion_checks_def run_command_def split: option.splits if_splits)
  define a2 where "a2 = put_value ''dns_healthy'' (JBool (returncode dns = 0))
      (a\<lparr>store := meanwhile (store a), commands := commands a @ [Observe_dns]\<rparr>)"
  define i where "i = text_or_default (get_value a2 ''network_interface'' (JStr [])) []"
  define v where "v = hd (split_on (CHR ''/'') (text_or_default (get_value a2 ''desired_virtual_ip'' (JStr [])) []))"
  have cs: "commands a2 = commands a @ [Observe_dns]" by (simp add: a2_def)
  have st: "get_value a2 k d = (case meanwhile (store a) k of None \<Rightarrow> d | Some x \<Rightarrow> x)" if "k \<noteq> ''dns_healthy''" for k d
    using that by (simp add: a2_def get_value_def put_value_def)
  from assms dns obtain dup where dup: "runner (commands a2) (Arping i v) = Some dup" "returncode dup = 0" "returncode dns = 0"
    and own: "get_value a2 ''observed_role'' JNull = JStr ''ACTIVE''" "truthy (get_value a2 ''vip_owned'' (JBool False))"
    and a': "a' = a2\<lparr>commands := commands a2 @ [Arping i v]\<rparr>"
    unfolding promotion_checks_def Let_def
    by (auto simp: run_command_def a2_def [symmetric] i_def [symmetric] v_def [symmetric] simp del: get_put
        split: option.splits if_splits)
  have "cleared runner (commands a) i v" using dns dup by (simp add: cleared_def cs)
  moreover have "commands a' = commands a @ [Observe_dns, Arping i v]" by (simp add: a' cs)
  moreover have "meanwhile (store a) ''observed_role'' = Some (JStr ''ACTIVE'')" using own(1) st [of "''observed_role''" JNull]
    by (auto split: option.splits)
  moreover have "truthy (case meanwhile (store a) ''vip_owned'' of None \<Rightarrow> JBool False | Some x \<Rightarrow> x)"
    using own(2) st [of "''vip_owned''" "JBool False"] by simp
  ultimately show ?thesis by blast
qed

lemma promotion_checks_commands:
  assumes "promotion_checks runner meanwhile g a = (a', out)"
  shows "\<exists>cs. commands a' = commands a @ cs \<and> set cs \<subseteq> {Observe_dns} \<union> range (\<lambda>(i, v). Arping i v)"
  using assms unfolding promotion_checks_def Let_def
  by (auto simp: run_command_def image_iff split: option.splits if_splits prod.splits)

lemma issue_automatic_commands:
  assumes "issue_automatic runner now t g a = (a', out)"
  shows "\<exists>rest. commands a' = commands a @ automatic_command t g # rest \<and>
     (rest = [] \<or> rest = [Automatic_demote g]) \<and>
     (t = Master \<longrightarrow> (\<forall>r. runner (commands a) (automatic_command t g) = Some r \<longrightarrow> \<not> applied r \<longrightarrow> rest = [Automatic_demote g]))"
  using assms unfolding issue_automatic_def Let_def
  by (auto simp: run_command_def applied_def split: option.splits if_splits prod.splits)


section \<open>Witnesses\<close>

definition ok_result :: command_result where
  "ok_result = \<lparr>returncode = 0, printed = Some [(''status'', JStr ''applied'')], stderr = []\<rparr>"

definition failing_result :: command_result where
  "failing_result = \<lparr>returncode = 1, printed = None, stderr = []\<rparr>"

definition sample_agent :: agent where
  "sample_agent =
     \<lparr>store = map_of [(''keepalived_generation'', JInt 4), (''automatic_failover'', JBool True), (''dhcp_managed'', JBool True),
        (''network_interface'', JStr ''eth0''), (''desired_virtual_ip'', JStr ''10.0.0.53/24''),
        (''vip_owned'', JBool True), (''observed_role'', JStr ''ACTIVE'')],
      commands = [], agent_events = []\<rparr>"

definition sample_order :: obj where
  "sample_order = [(''action_id'', JStr ''x''), (''action_type'', JStr ''DHCP_PROMOTE''), (''generation'', JInt 3),
     (''checksum'', JStr (concat (replicate 8 ''0123abcd''))), (''automatic'', JBool False)]"


text \<open>All checks pass, but the promotion itself fails: the demotion follows.\<close>

definition failing_promotion :: runner where
  "failing_promotion cs c = Some (case c of Automatic_promote g \<Rightarrow> failing_result | _ \<Rightarrow> ok_result)"


definition hanging_promotion :: runner where
  "hanging_promotion cs c = (case c of Automatic_promote g \<Rightarrow> None | _ \<Rightarrow> Some ok_result)"

text \<open>
  A promotion that does not return in time is not undone: when the promotion helper exceeds its
  timeout, the exception leaves the hook with an error exit before the compensating demotion and
  before any event, while the helper may still be running as root.
\<close>

theorem hanging_promotion_is_not_undone:
  "case transition_hook hanging_promotion id JNull [''master'', ''4''] sample_agent of
     (code, a') \<Rightarrow> code = 1 \<and> last (commands a') = Automatic_promote 4 \<and> Automatic_demote 4 \<notin> set (commands a') \<and>
       map ae_type (agent_events a') = [''keepalived_master'']"
  by code_simp

end
