(* ===== verification/Kaya_Ip.thy ===== *)
theory Kaya_Ip
  imports Kaya_Net
begin

text \<open>
  Addresses and networks of both versions, as Python 3.12's \<open>ipaddress\<close> module reads and prints
  them: \<open>ip_address\<close>, \<open>str\<close> of an address, \<open>ip_network(text, strict=False)\<close> and membership. An
  address is its number; a version 6 address keeps its scope identifier.
\<close>

datatype ip_addr = IPv4 int | IPv6 int "string option"

section \<open>Version 6 text\<close>

definition hex_value :: "char \<Rightarrow> int option" where
  "hex_value c =
     (let n = of_char c :: int
      in if 48 \<le> n \<and> n \<le> 57 then Some (n - 48)
         else if 97 \<le> n \<and> n \<le> 102 then Some (n - 87)
         else if 65 \<le> n \<and> n \<le> 70 then Some (n - 55)
         else None)"

fun hex_number :: "int \<Rightarrow> string \<Rightarrow> int option" where
  "hex_number acc [] = Some acc"
| "hex_number acc (c # cs) =
     (case hex_value c of None \<Rightarrow> None | Some d \<Rightarrow> hex_number (16 * acc + d) cs)"

definition parse_hextet :: "string \<Rightarrow> int option" where
  "parse_hextet s = (if s = [] \<or> length s > 4 then None else hex_number 0 s)"

fun parse_hextets :: "int \<Rightarrow> string list \<Rightarrow> int option" where
  "parse_hextets acc [] = Some acc"
| "parse_hextets acc (p # ps) =
     (case parse_hextet p of None \<Rightarrow> None | Some h \<Rightarrow> parse_hextets (65536 * acc + h) ps)"

fun hex_digits :: "nat \<Rightarrow> string" where
  "hex_digits n = (if n < 16 then [char_of (if n < 10 then 48 + n else 87 + n)]
     else hex_digits (n div 16) @ [char_of (if n mod 16 < 10 then 48 + n mod 16 else 87 + n mod 16)])"

declare hex_digits.simps [simp del]

definition hex_text :: "int \<Rightarrow> string" where
  "hex_text n = hex_digits (nat n)"

text \<open>An embedded IPv4 suffix becomes two hextets.\<close>

definition expand_ipv4_suffix :: "string list \<Rightarrow> string list option" where
  "expand_ipv4_suffix parts =
     (if CHR ''.'' \<in> set (last parts) then
        (case parse_ipv4 (last parts) of
           None \<Rightarrow> None
         | Some n \<Rightarrow> Some (butlast parts @ [hex_text (n div 65536), hex_text (n mod 65536)]))
      else Some parts)"

definition inner_gaps :: "string list \<Rightarrow> nat list" where
  "inner_gaps parts = filter (\<lambda>i. parts ! i = []) [1..<length parts - 1]"

definition parse_ipv6 :: "string \<Rightarrow> int option" where
  "parse_ipv6 text =
     (let raw = split_on (CHR '':'') text
      in if text = [] \<or> length raw < 3 then None
         else
           (case expand_ipv4_suffix raw of
              None \<Rightarrow> None
            | Some parts \<Rightarrow>
                if length parts > 9 then None
                else
                  (case inner_gaps parts of
                     [] \<Rightarrow>
                       if length parts \<noteq> 8 \<or> hd parts = [] \<or> last parts = [] then None
                       else parse_hextets 0 parts
                   | [i] \<Rightarrow>
                       (let hi = (if hd parts = [] then i - 1 else i);
                            lo = (if last parts = [] then length parts - i - 2 else length parts - i - 1)
                        in if (hd parts = [] \<and> hi \<noteq> 0) \<or> (last parts = [] \<and> lo \<noteq> 0) \<or> hi + lo > 7 then None
                           else
                             (case parse_hextets 0 (take hi parts) of
                                None \<Rightarrow> None
                              | Some high \<Rightarrow>
                                  parse_hextets (high * 65536 ^ (8 - (hi + lo))) (drop (length parts - lo) parts)))
                   | _ \<Rightarrow> None)))"

fun hextets_of :: "nat \<Rightarrow> int \<Rightarrow> int list" where
  "hextets_of 0 n = []"
| "hextets_of (Suc k) n = hextets_of k (n div 65536) @ [n mod 65536]"

text \<open>The first longest run of zero hextets: its start and its length.\<close>

fun longest_zero_run :: "nat \<Rightarrow> nat \<Rightarrow> nat \<times> nat \<Rightarrow> int list \<Rightarrow> nat \<times> nat" where
  "longest_zero_run i len best [] = best"
| "longest_zero_run i len best (h # hs) =
     (if h = 0
      then longest_zero_run (i + 1) (len + 1) (if len + 1 > snd best then (i - len, len + 1) else best) hs
      else longest_zero_run (i + 1) 0 best hs)"

definition format_ipv6 :: "int \<Rightarrow> string" where
  "format_ipv6 n =
     (let hs = hextets_of 8 n;
          (start, len) = longest_zero_run 0 0 (0, 0) hs;
          texts = map hex_text hs
      in if len > 1
         then join '':'' ((if start = 0 then [[]] else []) @ take start texts @ [[]] @ drop (start + len) texts @
                (if start + len = 8 then [[]] else []))
         else join '':'' texts)"

section \<open>Addresses\<close>

text \<open>\<open>text.partition('%')\<close>: the address and its scope, or a rejected scope.\<close>

definition split_scope :: "string \<Rightarrow> (string \<times> string option) option" where
  "split_scope text =
     (case split_on (CHR ''%'') text of
        [a] \<Rightarrow> Some (a, None)
      | [a, s] \<Rightarrow> if s = [] then None else Some (a, Some s)
      | _ \<Rightarrow> None)"

definition ip_address :: "string \<Rightarrow> ip_addr option" where
  "ip_address text =
     (if CHR ''/'' \<in> set text then None
      else
        (case parse_ipv4 text of
           Some n \<Rightarrow> Some (IPv4 n)
         | None \<Rightarrow>
             (case split_scope text of
                None \<Rightarrow> None
              | Some (a, scope) \<Rightarrow> map_option (\<lambda>n. IPv6 n scope) (parse_ipv6 a))))"

fun ip_text :: "ip_addr \<Rightarrow> string" where
  "ip_text (IPv4 n) = format_ipv4 n"
| "ip_text (IPv6 n scope) = format_ipv6 n @ (case scope of None \<Rightarrow> [] | Some s \<Rightarrow> CHR ''%'' # s)"

section \<open>Networks\<close>

record ip_net =
  net_bits :: int
  net_address :: int
  net_prefix :: int

definition net_size :: "int \<Rightarrow> int \<Rightarrow> int" where
  "net_size bits p = 2 ^ nat (bits - p)"

definition prefix_string :: "int \<Rightarrow> string \<Rightarrow> int option" where
  "prefix_string bits s =
     (if s = [] \<or> \<not> list_all is_digit s then None
      else (let n = int (foldl (\<lambda>a c. 10 * a + digit_value c) 0 s) in if n \<le> bits then Some n else None))"

text \<open>A dotted netmask of 32 bits is \<open>2 ^ 32 - 2 ^ k\<close>; a host mask is the complement of one.\<close>

definition netmask_prefix :: "int \<Rightarrow> int option" where
  "netmask_prefix m = map_option int (find (\<lambda>p. m = 4294967296 - net_size 32 (int p)) [0..<33])"

definition ipv4_prefix :: "string \<Rightarrow> int option" where
  "ipv4_prefix s =
     (case prefix_string 32 s of
        Some p \<Rightarrow> Some p
      | None \<Rightarrow>
          (case parse_ipv4 s of
             None \<Rightarrow> None
           | Some m \<Rightarrow> or_else (netmask_prefix m) (netmask_prefix (4294967295 - m))))"

definition make_net :: "int \<Rightarrow> int \<Rightarrow> int \<Rightarrow> ip_net" where
  "make_net bits n p = \<lparr>net_bits = bits, net_address = n div net_size bits p * net_size bits p, net_prefix = p\<rparr>"

definition ip_network :: "string \<Rightarrow> ip_net option" where
  "ip_network text =
     (case split_on (CHR ''/'') text of
        [a] \<Rightarrow>
          (case ip_address a of
             None \<Rightarrow> None
           | Some (IPv4 n) \<Rightarrow> Some (make_net 32 n 32)
           | Some (IPv6 n _) \<Rightarrow> Some (make_net 128 n 128))
      | [a, m] \<Rightarrow>
          (case ip_address a of
             None \<Rightarrow> None
           | Some (IPv4 n) \<Rightarrow> map_option (make_net 32 n) (ipv4_prefix m)
           | Some (IPv6 n _) \<Rightarrow> map_option (make_net 128 n) (prefix_string 128 m))
      | _ \<Rightarrow> None)"

fun in_net :: "ip_addr \<Rightarrow> ip_net \<Rightarrow> bool" where
  "in_net (IPv4 n) net \<longleftrightarrow> net_bits net = 32 \<and> n div net_size 32 (net_prefix net) * net_size 32 (net_prefix net) = net_address net"
| "in_net (IPv6 n _) net \<longleftrightarrow> net_bits net = 128 \<and> n div net_size 128 (net_prefix net) * net_size 128 (net_prefix net) = net_address net"

section \<open>Facts\<close>

lemma net_size_pos [simp]: "0 < net_size b p"
  by (simp add: net_size_def)

text \<open>Membership is the interval from the network address.\<close>

lemma in_net_interval:
  assumes "k > 0"
  shows "(n::int) div k * k = m div k * k \<longleftrightarrow> m div k * k \<le> n \<and> n < m div k * k + k"
proof
  assume eq: "n div k * k = m div k * k"
  have "n div k * k \<le> n" "n < n div k * k + k"
    using assms div_mult_mod_eq [of n k] pos_mod_sign [of k n] pos_mod_bound [of k n] by linarith+
  then show "m div k * k \<le> n \<and> n < m div k * k + k" by (simp only: eq)
next
  assume le: "m div k * k \<le> n \<and> n < m div k * k + k"
  have "n div k = m div k"
    using assms le by (intro int_div_pos_eq [of _ _ _ "n - m div k * k"]) (auto simp: algebra_simps)
  then show "n div k * k = m div k * k" by simp
qed

lemma ip_address_ipv4: "parse_ipv4 s = Some n \<Longrightarrow> ip_address s = Some (IPv4 n)"
proof -
  assume s: "parse_ipv4 s = Some n"
  have "CHR ''/'' \<notin> set s"
  proof
    assume sl: "CHR ''/'' \<in> set s"
    have "s = format_ipv4 n" using format_parse_ipv4(1) [OF s] by simp
    then have "CHR ''/'' \<in> set (format_ipv4 n)" using sl by simp
    moreover have nn: "0 \<le> n" using format_parse_ipv4(3) [OF s] .
    have digit: "CHR ''/'' \<notin> set (str_int m)" if "0 \<le> m" for m
      using digits_of_digits [of "CHR ''/''" "nat m"] that by (auto simp: str_int_def is_digit_def)
    have "CHR ''/'' \<notin> set (format_ipv4 n)"
      unfolding format_ipv4_def using nn by (simp add: digit pos_imp_zdiv_nonneg_iff)
    ultimately show False by simp
  qed
  with s show ?thesis by (simp add: ip_address_def)
qed

text \<open>Printing a version 4 address and reading it again gives the address.\<close>

lemma ip_address_text_ipv4: "0 \<le> n \<Longrightarrow> n < 2 ^ 32 \<Longrightarrow> ip_address (ip_text (IPv4 n)) = Some (IPv4 n)"
  by (simp add: ip_address_ipv4 parse_ipv4_format)

text \<open>The address of a network is a multiple of its size.\<close>

lemma ip_network_address:
  "ip_network text = Some net \<Longrightarrow>
   \<exists>m. net_address net = m div net_size (net_bits net) (net_prefix net) * net_size (net_bits net) (net_prefix net)"
  by (auto simp: ip_network_def make_net_def split: list.splits option.splits ip_addr.splits)

end
