(* ===== verification/Flow_Protocol.thy ===== *)
theory Flow_Protocol
  imports Kaya_Ip "HOL-Library.Word"
begin

text \<open>
  Decoding of NetFlow v9 and Cisco NSEL datagrams (\<open>app/services/flow_protocol.py\<close>). A datagram is
  a list of bytes (\<open>8 word\<close>). The decoder's dictionaries are association lists in insertion order.
  Decoding returns the new decoder state together with a result or a \<open>FlowDecodeError\<close>, because the
  code changes its state before it may raise. The monotonic clock is read once per datagram, and
  the conversion of router uptimes to instants, which the code does in floating point with
  \<open>datetime.utcfromtimestamp\<close>, is an argument (\<open>None\<close> is the exception of an instant out of range).
\<close>

type_synonym byte = "8 word"

section \<open>Constants and data\<close>

definition MAX_DATAGRAM_SIZE :: int where "MAX_DATAGRAM_SIZE = 8192"
definition MAX_RECORDS_PER_PACKET :: int where "MAX_RECORDS_PER_PACKET = 512"
definition MAX_TEMPLATE_FIELDS :: int where "MAX_TEMPLATE_FIELDS = 64"
definition MAX_TEMPLATES :: int where "MAX_TEMPLATES = 2048"
definition TEMPLATE_TTL_SECONDS :: int where "TEMPLATE_TTL_SECONDS = 1800"

definition event_type_name :: "int option \<Rightarrow> string option" where
  "event_type_name e =
     (case e of None \<Rightarrow> None
      | Some n \<Rightarrow> map_of [(1, ''create''), (2, ''teardown''), (3, ''denied''), (4, ''alert''), (5, ''update'')] n)"

datatype flow_category =
    Oversized | Truncated_header | Unsupported_version | Record_limit | Exporter_identity
  | Truncated_flowset | Invalid_flowset_length | Truncated_template | Invalid_template
  | Truncated_options_template | Invalid_options_lengths | Invalid_field_length
  | Nonzero_template_padding | Invalid_template_width | Invalid_data_padding
  | Timestamp_out_of_range

record template_field =
  field_id :: int
  field_length :: int

record flow_template =
  template_id :: int
  template_fields :: "template_field list"
  is_options :: bool
  refreshed_at :: time

type_synonym template_key = "string \<times> int \<times> int"

record normalized_flow_record =
  exporter_identity :: string
  source_id :: int
  sequence :: int
  record_index :: int
  observed_at :: time
  flow_start :: "time option"
  flow_end :: "time option"
  source_ip :: "string option"
  destination_ip :: "string option"
  source_port :: "int option"
  destination_port :: "int option"
  protocol :: "int option"
  input_interface :: "int option"
  output_interface :: "int option"
  translated_source_ip :: "string option"
  translated_destination_ip :: "string option"
  translated_source_port :: "int option"
  translated_destination_port :: "int option"
  bytes_total :: "int option"
  packets_total :: "int option"
  direction :: string
  event_type :: "string option"
  connection_id :: "string option"
  cumulative_counters :: bool
  data_quality :: string
  vendor :: "string option"
  extended_event :: "int option"
  forward_bytes :: "int option"
  reverse_bytes :: "int option"
  forward_packets :: "int option"
  reverse_packets :: "int option"

record template_event =
  te_key :: template_key
  te_status :: string
  te_reason :: string
  te_cache_present :: "bool option"

record decode_result =
  records :: "normalized_flow_record list"
  template_count :: int
  unknown_templates :: int
  sequence_gap :: bool
  exporter_restart :: bool
  unknown_template_details :: "(template_key \<times> string) list"
  template_events :: "template_event list"

record decoder =
  max_templates :: int
  template_ttl_seconds :: int
  templates :: "(template_key \<times> flow_template) list"
  last_sequence :: "((string \<times> int) \<times> int) list"
  last_uptime :: "((string \<times> int) \<times> int) list"

definition new_decoder :: "int \<Rightarrow> int \<Rightarrow> decoder" where
  "new_decoder cap ttl =
     \<lparr>max_templates = max 1 (min cap MAX_TEMPLATES), template_ttl_seconds = max 60 (min ttl 86400),
      templates = [], last_sequence = [], last_uptime = []\<rparr>"

section \<open>Reading bytes\<close>

definition be_value :: "byte list \<Rightarrow> int" where
  "be_value bs = foldl (\<lambda>a b. 256 * a + uint b) 0 bs"

definition u16 :: "byte list \<Rightarrow> nat \<Rightarrow> int" where
  "u16 bs i = be_value (take 2 (drop i bs))"

definition u32 :: "byte list \<Rightarrow> nat \<Rightarrow> int" where
  "u32 bs i = be_value (take 4 (drop i bs))"

definition all_zero :: "byte list \<Rightarrow> bool" where
  "all_zero bs = list_all (\<lambda>b. b = 0) bs"

definition ip_of_bytes :: "byte list \<Rightarrow> string option" where
  "ip_of_bytes bs =
     (if length bs = 4 then Some (format_ipv4 (be_value bs))
      else if length bs = 16 then Some (format_ipv6 (be_value bs))
      else None)"

definition timestamp_from_msec :: "int option \<Rightarrow> time option" where
  "timestamp_from_msec v =
     (case v of None \<Rightarrow> None | Some ms \<Rightarrow> if ms < 0 \<or> ms > 4102444800000 then None else Some (ms * 1000))"

section \<open>Templates\<close>

text \<open>The fields of one template: \<open>n\<close> pairs of a 16-bit type and a 16-bit length.\<close>

fun parse_fields :: "nat \<Rightarrow> byte list \<Rightarrow> flow_category + template_field list \<times> byte list" where
  "parse_fields 0 bs = Inr ([], bs)"
| "parse_fields (Suc n) bs =
     (if length bs < 4 then Inl Truncated_template
      else
        (let len = u16 bs 2
         in if len = 0 \<or> len > 2048 then Inl Invalid_field_length
            else
              (case parse_fields n (drop 4 bs) of
                 Inl e \<Rightarrow> Inl e
               | Inr (fs, rest) \<Rightarrow> Inr (\<lparr>field_id = u16 bs 0, field_length = len\<rparr> # fs, rest))))"

text \<open>The head of a template: the number of its fields and what follows the head.\<close>

definition template_head :: "bool \<Rightarrow> byte list \<Rightarrow> flow_category + nat \<times> byte list" where
  "template_head options bs =
     (let tid = u16 bs 0; count = u16 bs 2; rest = drop 4 bs
      in if tid < 256 then Inl Invalid_template
         else if options then
           (if length rest < 2 then Inl Truncated_options_template
            else
              (let scope = count; opt = u16 rest 0; body = drop 2 rest
               in if scope = 0 \<or> scope mod 4 \<noteq> 0 \<or> opt mod 4 \<noteq> 0 then Inl Invalid_options_lengths
                  else if (scope + opt) div 4 > MAX_TEMPLATE_FIELDS \<or> scope + opt > int (length body)
                  then Inl Truncated_options_template
                  else Inr (nat ((scope + opt) div 4), body)))
         else if \<not> (1 \<le> count \<and> count \<le> MAX_TEMPLATE_FIELDS) then Inl Invalid_template
         else Inr (nat count, rest))"

lemma parse_fields_length: "parse_fields n bs = Inr (fs, rest) \<Longrightarrow> length rest \<le> length bs"
proof (induction n arbitrary: bs fs)
  case (Suc n)
  then show ?case
    by (auto simp: Let_def split: if_splits sum.splits) (fastforce dest!: Suc.IH)
qed simp

lemma template_head_length: "template_head opt bs = Inr (n, rest) \<Longrightarrow> length rest \<le> length bs - 4"
  by (auto simp: template_head_def Let_def split: if_splits)

function parse_templates :: "bool \<Rightarrow> byte list \<Rightarrow> flow_category + (int \<times> template_field list) list" where
  "parse_templates options bs =
     (if bs = [] then Inr []
      else if length bs < 4 then (if all_zero bs then Inr [] else Inl Truncated_template)
      else
        (case template_head options bs of
           Inl e \<Rightarrow> Inl e
         | Inr (n, rest) \<Rightarrow>
             (case parse_fields n rest of
                Inl e \<Rightarrow> Inl e
              | Inr (fs, tail) \<Rightarrow>
                  (case parse_templates options tail of
                     Inl e \<Rightarrow> Inl e
                   | Inr ts \<Rightarrow> Inr ((u16 bs 0, fs) # ts)))))"
  by pat_completeness auto

termination
  by (relation "measure (\<lambda>(options, bs). length bs)")
    (auto dest!: template_head_length parse_fields_length)

declare parse_templates.simps [simp del]

definition note_event :: "template_event \<Rightarrow> template_event list \<Rightarrow> template_event list" where
  "note_event e es = (if length es < 32 then es @ [e] else es)"

fun store_templates ::
  "string \<Rightarrow> int \<Rightarrow> bool \<Rightarrow> time \<Rightarrow> (int \<times> template_field list) list \<Rightarrow>
   (template_key \<times> flow_template) list \<times> template_event list \<Rightarrow>
   (template_key \<times> flow_template) list \<times> template_event list" where
  "store_templates exporter source options now [] acc = acc"
| "store_templates exporter source options now ((tid, fs) # ts) (cache, es) =
     (let key = (exporter, source, tid)
      in store_templates exporter source options now ts
           (dict_put key \<lparr>template_id = tid, template_fields = fs, is_options = options, refreshed_at = now\<rparr> cache,
            note_event \<lparr>te_key = key, te_status = ''accepted'',
              te_reason = (if map_of cache key \<noteq> None then ''refresh'' else ''received''), te_cache_present = Some True\<rparr> es))"

section \<open>Data records\<close>

definition record_width :: "template_field list \<Rightarrow> int" where
  "record_width fs = sum_list (map field_length fs)"

text \<open>The fields of one record by field type; a repeated type keeps its last value.\<close>

fun cut_fields :: "template_field list \<Rightarrow> byte list \<Rightarrow> (int \<times> byte list) list \<Rightarrow> (int \<times> byte list) list" where
  "cut_fields [] bs raw = raw"
| "cut_fields (f # fs) bs raw =
     cut_fields fs (drop (nat (field_length f)) bs) (dict_put (field_id f) (take (nat (field_length f)) bs) raw)"

fun cut_records :: "nat \<Rightarrow> template_field list \<Rightarrow> byte list \<Rightarrow> (int \<times> byte list) list list" where
  "cut_records 0 fs bs = []"
| "cut_records (Suc n) fs bs = cut_fields fs bs [] # cut_records n fs (drop (nat (record_width fs)) bs)"

definition data_records :: "byte list \<Rightarrow> template_field list \<Rightarrow> flow_category + (int \<times> byte list) list list" where
  "data_records body fs =
     (let width = record_width fs; len = int (length body)
      in if width \<le> 0 then Inl Invalid_template_width
         else
           (let remainder = len mod width
            in if remainder \<noteq> 0 \<and> (remainder > 3 \<or> \<not> all_zero (drop (nat (len - remainder)) body))
               then Inl Invalid_data_padding
               else Inr (cut_records (nat (len div width)) fs body)))"

section \<open>Normalisation\<close>

definition raw_value :: "(int \<times> byte list) list \<Rightarrow> int list \<Rightarrow> int option" where
  "raw_value raw ids =
     (case find (\<lambda>i. map_of raw i \<noteq> None) ids of
        None \<Rightarrow> None
      | Some i \<Rightarrow>
          (case map_of raw i of
             None \<Rightarrow> None
           | Some bs \<Rightarrow> if length bs \<le> 8 then Some (be_value bs) else None))"

definition raw_address :: "(int \<times> byte list) list \<Rightarrow> int \<Rightarrow> string option" where
  "raw_address raw i = (case map_of raw i of None \<Rightarrow> None | Some bs \<Rightarrow> ip_of_bytes bs)"

type_synonym uptime_clock = "int \<Rightarrow> int \<Rightarrow> int \<Rightarrow> time option"

text \<open>An instant on the router's uptime clock: absent, converted, or out of range.\<close>

definition switched_at :: "uptime_clock \<Rightarrow> int \<Rightarrow> int \<Rightarrow> int option \<Rightarrow> flow_category + time option" where
  "switched_at clock unix_secs uptime v =
     (case v of
        None \<Rightarrow> Inr None
      | Some ms \<Rightarrow> (case clock unix_secs uptime ms of None \<Rightarrow> Inl Timestamp_out_of_range | Some t \<Rightarrow> Inr (Some t)))"

definition opt_sum :: "int option \<Rightarrow> int option \<Rightarrow> int" where
  "opt_sum a b = (case a of None \<Rightarrow> 0 | Some x \<Rightarrow> x) + (case b of None \<Rightarrow> 0 | Some y \<Rightarrow> y)"

record packet_context =
  pc_exporter :: string
  pc_source_id :: int
  pc_sequence :: int
  pc_uptime :: int
  pc_unix_secs :: int

definition normalise_flow ::
  "uptime_clock \<Rightarrow> packet_context \<Rightarrow> int \<Rightarrow> (int \<times> byte list) list \<Rightarrow> flow_category + normalized_flow_record" where
  "normalise_flow clock pc index raw =
     (let event = raw_value raw [233]; fwd_b = raw_value raw [231]; rev_b = raw_value raw [232];
          fwd_p = raw_value raw [298]; rev_p = raw_value raw [299];
          nsel = (fwd_b \<noteq> None \<or> rev_b \<noteq> None \<or> fwd_p \<noteq> None \<or> rev_p \<noteq> None);
          observed = (case timestamp_from_msec (raw_value raw [323]) of Some t \<Rightarrow> t | None \<Rightarrow> seconds (pc_unix_secs pc));
          conn = raw_value raw [148]; inp = raw_value raw [10]; outp = raw_value raw [14];
          total = raw_value raw [1, 85]
      in case (case timestamp_from_msec (raw_value raw [152]) of
                 Some t \<Rightarrow> Inr (Some t)
               | None \<Rightarrow> switched_at clock (pc_unix_secs pc) (pc_uptime pc) (raw_value raw [22])) of
           Inl e \<Rightarrow> Inl e
         | Inr start \<Rightarrow>
             (case switched_at clock (pc_unix_secs pc) (pc_uptime pc) (raw_value raw [21]) of
                Inl e \<Rightarrow> Inl e
              | Inr stop \<Rightarrow> Inr
                  \<lparr>exporter_identity = pc_exporter pc, source_id = pc_source_id pc, sequence = pc_sequence pc,
                   record_index = index, observed_at = observed, flow_start = start, flow_end = stop,
                   source_ip = or_else (raw_address raw 8) (raw_address raw 27),
                   destination_ip = or_else (raw_address raw 12) (raw_address raw 28),
                   source_port = raw_value raw [7], destination_port = raw_value raw [11], protocol = raw_value raw [4],
                   input_interface = inp, output_interface = outp,
                   translated_source_ip = raw_address raw 225, translated_destination_ip = raw_address raw 226,
                   translated_source_port = raw_value raw [227], translated_destination_port = raw_value raw [228],
                   bytes_total = (if nsel then Some (opt_sum fwd_b rev_b) else total),
                   packets_total = (if nsel then Some (opt_sum fwd_p rev_p) else raw_value raw [2, 86]),
                   direction = (if inp \<noteq> None \<or> outp \<noteq> None then ''bidirectional'' else ''unknown''),
                   event_type = event_type_name event, connection_id = map_option str_int conn,
                   cumulative_counters = (\<not> nsel \<and> event \<noteq> None),
                   data_quality = (if (nsel \<and> (fwd_b \<noteq> None \<or> rev_b \<noteq> None)) \<or> (\<not> nsel \<and> total \<noteq> None)
                                   then ''complete'' else ''partial''),
                   vendor = (if event \<noteq> None \<or> conn \<noteq> None then Some ''cisco_nsel'' else None),
                   extended_event = raw_value raw [33002],
                   forward_bytes = fwd_b, reverse_bytes = rev_b, forward_packets = fwd_p, reverse_packets = rev_p\<rparr>))"

fun normalise_records ::
  "uptime_clock \<Rightarrow> packet_context \<Rightarrow> normalized_flow_record list \<Rightarrow> (int \<times> byte list) list list \<Rightarrow>
   flow_category + normalized_flow_record list" where
  "normalise_records clock pc acc [] = Inr acc"
| "normalise_records clock pc acc (raw # raws) =
     (if int (length acc) \<ge> MAX_RECORDS_PER_PACKET then Inl Record_limit
      else
        (case normalise_flow clock pc (int (length acc)) raw of
           Inl e \<Rightarrow> Inl e
         | Inr r \<Rightarrow> normalise_records clock pc (acc @ [r]) raws))"

section \<open>The decoder\<close>

definition template_expired :: "decoder \<Rightarrow> time \<Rightarrow> flow_template \<Rightarrow> bool" where
  "template_expired d now t \<longleftrightarrow> now - refreshed_at t > seconds (template_ttl_seconds d)"

definition evicted_event :: "string \<Rightarrow> template_key \<Rightarrow> template_event" where
  "evicted_event reason key = \<lparr>te_key = key, te_status = ''evicted'', te_reason = reason, te_cache_present = None\<rparr>"

text \<open>Expired templates go first, then the least recently refreshed ones down to the capacity.\<close>

definition prune :: "time \<Rightarrow> decoder \<Rightarrow> decoder \<times> template_event list" where
  "prune now d =
     (let expired = map fst (filter (\<lambda>(k, t). template_expired d now t) (templates d));
          kept = filter (\<lambda>(k, t). k \<notin> set expired) (templates d);
          excess = length kept - nat (max_templates d);
          victims = map fst (take excess (sort_key (\<lambda>(k, t). refreshed_at t) kept));
          final = filter (\<lambda>(k, t). k \<notin> set victims) kept
      in (d\<lparr>templates := final\<rparr>, map (evicted_event ''expired'') expired @ map (evicted_event ''capacity'') victims))"

definition template_flowset ::
  "packet_context \<Rightarrow> time \<Rightarrow> bool \<Rightarrow> byte list \<Rightarrow> decoder \<times> decode_result \<Rightarrow>
   decoder \<times> (flow_category + decode_result)" where
  "template_flowset pc now options body dr =
     (case dr of (d, res) \<Rightarrow>
        (case parse_templates options body of
           Inl e \<Rightarrow> (d, Inl e)
         | Inr ts \<Rightarrow>
             (case store_templates (pc_exporter pc) (pc_source_id pc) options now ts (templates d, template_events res) of
                (cache, es) \<Rightarrow>
                  (d\<lparr>templates := cache\<rparr>,
                   Inr (res\<lparr>template_count := template_count res + int (length ts), template_events := es\<rparr>)))))"

definition unknown_flowset ::
  "template_key \<Rightarrow> bool \<Rightarrow> decode_result \<Rightarrow> decode_result" where
  "unknown_flowset key expired res =
     res\<lparr>unknown_templates := unknown_templates res + 1,
         unknown_template_details :=
           (if length (unknown_template_details res) < 8
            then unknown_template_details res @ [(key, if expired then ''expired_template'' else ''unknown_template'')]
            else unknown_template_details res),
         template_events := note_event \<lparr>te_key = key, te_status = ''lookup_failed'',
           te_reason = (if expired then ''expired'' else ''missing''), te_cache_present = Some False\<rparr> (template_events res)\<rparr>"

definition data_flowset ::
  "uptime_clock \<Rightarrow> packet_context \<Rightarrow> time \<Rightarrow> int \<Rightarrow> byte list \<Rightarrow> decoder \<times> decode_result \<Rightarrow>
   decoder \<times> (flow_category + decode_result)" where
  "data_flowset clock pc now fid body dr =
     (case dr of (d, res) \<Rightarrow>
        (let key = (pc_exporter pc, pc_source_id pc, fid)
         in case map_of (templates d) key of
              None \<Rightarrow> (d, Inr (unknown_flowset key False res))
            | Some t \<Rightarrow>
                if template_expired d now t then (d, Inr (unknown_flowset key True res))
                else if is_options t then (d, Inr res)
                else
                  (case data_records body (template_fields t) of
                     Inl e \<Rightarrow> (d, Inl e)
                   | Inr raws \<Rightarrow>
                       (case normalise_records clock pc (records res) raws of
                          Inl e \<Rightarrow> (d, Inl e)
                        | Inr rs \<Rightarrow> (d, Inr (res\<lparr>records := rs\<rparr>))))))"

definition flowset ::
  "uptime_clock \<Rightarrow> packet_context \<Rightarrow> time \<Rightarrow> int \<Rightarrow> byte list \<Rightarrow> decoder \<times> decode_result \<Rightarrow>
   decoder \<times> (flow_category + decode_result)" where
  "flowset clock pc now fid body dr =
     (if fid = 0 then template_flowset pc now False body dr
      else if fid = 1 then template_flowset pc now True body dr
      else if fid \<ge> 256 then data_flowset clock pc now fid body dr
      else (fst dr, Inr (snd dr)))"

function decode_flowsets ::
  "uptime_clock \<Rightarrow> packet_context \<Rightarrow> time \<Rightarrow> byte list \<Rightarrow> decoder \<Rightarrow> decode_result \<Rightarrow>
   decoder \<times> (flow_category + decode_result)" where
  "decode_flowsets clock pc now bs d res =
     (if bs = [] then (d, Inr res)
      else if length bs < 4 then (d, Inl Truncated_flowset)
      else
        (let fid = u16 bs 0; len = u16 bs 2
         in if len < 4 \<or> len > int (length bs) then (d, Inl Invalid_flowset_length)
            else
              (case flowset clock pc now fid (take (nat len - 4) (drop 4 bs)) (d, res) of
                 (d', Inl e) \<Rightarrow> (d', Inl e)
               | (d', Inr res') \<Rightarrow> decode_flowsets clock pc now (drop (nat len) bs) d' res')))"
  by pat_completeness auto

termination
  by (relation "measure (\<lambda>(clock, pc, now, bs, d, res). length bs)") auto

declare decode_flowsets.simps [simp del]

definition gap_after :: "int option \<Rightarrow> int \<Rightarrow> int \<Rightarrow> bool" where
  "gap_after previous seq count =
     (case previous of None \<Rightarrow> False | Some p \<Rightarrow> (seq - p) mod 4294967296 > max count 1)"

definition restarted :: "int option \<Rightarrow> int \<Rightarrow> bool" where
  "restarted previous uptime = (case previous of None \<Rightarrow> False | Some p \<Rightarrow> uptime + 5000 < p)"

definition empty_result :: "bool \<Rightarrow> bool \<Rightarrow> decode_result" where
  "empty_result gap restart =
     \<lparr>records = [], template_count = 0, unknown_templates = 0, sequence_gap = gap, exporter_restart = restart,
      unknown_template_details = [], template_events = []\<rparr>"

text \<open>The bookkeeping of the header: sequence, uptime, and the templates of a restarted exporter.\<close>

definition begin_packet :: "packet_context \<Rightarrow> int \<Rightarrow> decoder \<Rightarrow> decoder \<times> decode_result" where
  "begin_packet pc count d =
     (let key = (pc_exporter pc, pc_source_id pc);
          restart = restarted (map_of (last_uptime d) key) (pc_uptime pc);
          gap = gap_after (map_of (last_sequence d) key) (pc_sequence pc) count
      in (d\<lparr>templates := (if restart then filter (\<lambda>((e, s, i), t). (e, s) \<noteq> key) (templates d) else templates d),
            last_sequence := dict_put key (pc_sequence pc) (last_sequence d),
            last_uptime := dict_put key (pc_uptime pc) (last_uptime d)\<rparr>,
          empty_result gap restart))"

definition finish_packet :: "time \<Rightarrow> decoder \<Rightarrow> decode_result \<Rightarrow> decoder \<times> decode_result" where
  "finish_packet now d res =
     (case prune now d of (d', es) \<Rightarrow>
        (d', res\<lparr>template_events := template_events res @ take (32 - length (template_events res)) es\<rparr>))"

definition decode ::
  "uptime_clock \<Rightarrow> time \<Rightarrow> decoder \<Rightarrow> byte list \<Rightarrow> string \<Rightarrow> decoder \<times> (flow_category + decode_result)" where
  "decode clock now d datagram exporter =
     (if int (length datagram) > MAX_DATAGRAM_SIZE then (d, Inl Oversized)
      else if length datagram < 20 then (d, Inl Truncated_header)
      else if u16 datagram 0 \<noteq> 9 then (d, Inl Unsupported_version)
      else if u16 datagram 2 > MAX_RECORDS_PER_PACKET then (d, Inl Record_limit)
      else
        (case ip_address exporter of
           None \<Rightarrow> (d, Inl Exporter_identity)
         | Some ip \<Rightarrow>
             (let pc = \<lparr>pc_exporter = ip_text ip, pc_source_id = u32 datagram 16, pc_sequence = u32 datagram 12,
                        pc_uptime = u32 datagram 4, pc_unix_secs = u32 datagram 8\<rparr>;
                  (d1, res) = begin_packet pc (u16 datagram 2) d
              in case decode_flowsets clock pc now (drop 20 datagram) d1 res of
                   (d2, Inl e) \<Rightarrow> (d2, Inl e)
                 | (d2, Inr res') \<Rightarrow> (case finish_packet now d2 res' of (d3, res'') \<Rightarrow> (d3, Inr res'')))))"

end
