(* ===== verification/Flow_Accounting.thy ===== *)
theory Flow_Accounting
  imports Flow_Protocol
begin

text \<open>
  Classification and attribution of a decoded flow (\<open>app/services/flow_accounting.py\<close>): the traffic
  class from the configured WAN interfaces and local networks, the device behind an address at the
  time of the flow, and the retention cut-offs of the rollups. The tables that the code queries are
  lists of rows.
\<close>

section \<open>Classification\<close>

record flow_classification =
  traffic_class :: string
  class_confidence :: string
  class_reason :: "string option"

record traffic_interface =
  interface_index :: "int option"
  is_enabled :: bool
  is_wan :: bool

text \<open>A local network is text from the configuration or a network that was already read.\<close>

type_synonym network_value = "string + ip_net"

definition read_network :: "network_value \<Rightarrow> ip_net option" where
  "read_network v = (case v of Inl s \<Rightarrow> ip_network s | Inr net \<Rightarrow> Some net)"

definition in_network :: "string option \<Rightarrow> ip_net list \<Rightarrow> bool" where
  "in_network v networks =
     (case v of
        None \<Rightarrow> False
      | Some s \<Rightarrow> s \<noteq> [] \<and> (case ip_address s of None \<Rightarrow> False | Some a \<Rightarrow> list_ex (in_net a) networks))"

definition wan_indexes :: "traffic_interface list \<Rightarrow> int list" where
  "wan_indexes interfaces = List.map_filter (\<lambda>i. if is_enabled i \<and> is_wan i then interface_index i else None) interfaces"

definition is_member :: "int option \<Rightarrow> int list \<Rightarrow> bool" where
  "is_member v xs = (case v of None \<Rightarrow> False | Some i \<Rightarrow> i \<in> set xs)"

definition present :: "string option \<Rightarrow> bool" where
  "present v = (case v of None \<Rightarrow> False | Some s \<Rightarrow> s \<noteq> [])"

definition classification :: "string \<Rightarrow> string \<Rightarrow> string option \<Rightarrow> flow_classification" where
  "classification c conf r = \<lparr>traffic_class = c, class_confidence = conf, class_reason = r\<rparr>"

definition classify_flow ::
  "normalized_flow_record \<Rightarrow> traffic_interface list \<Rightarrow> network_value list \<Rightarrow> flow_classification" where
  "classify_flow r interfaces local_networks =
     (let networks = List.map_filter read_network local_networks;
          wan = wan_indexes interfaces;
          input_wan = is_member (input_interface r) wan; output_wan = is_member (output_interface r) wan
      in if input_wan \<and> \<not> output_wan then classification ''wan_inbound'' ''high'' None
         else if output_wan \<and> \<not> input_wan then classification ''wan_outbound'' ''high'' None
         else
           (let source_local = (in_network (source_ip r) networks \<or> in_network (translated_source_ip r) networks);
                destination_local =
                  (in_network (destination_ip r) networks \<or> in_network (translated_destination_ip r) networks)
            in if source_local \<and> destination_local then classification ''internal_lan'' ''high'' None
               else if source_local \<noteq> destination_local
               then classification (if source_local then ''internet_upload'' else ''internet_download'') ''medium'' None
               else if present (translated_source_ip r) \<or> present (translated_destination_ip r)
               then classification ''vpn_tunnel'' ''low'' (Some ''translated_endpoints_without_local_topology'')
               else classification ''unknown'' ''unknown'' (Some ''topology_incomplete'')))"

section \<open>Attribution\<close>

record flow_attribution =
  attr_state :: string
  attr_confidence :: string
  attr_method :: "string option"
  attr_ip_record_id :: "int option"
  attr_dhcp_lease_id :: "int option"
  attr_dns_client_id :: "int option"
  unresolved_reason :: "string option"

record lease_history_row =
  lh_id :: int
  lh_dns_client_id :: "int option"
  lh_ip_address :: string
  lh_started_at :: time
  lh_expires_at :: "time option"

record client_ip_row =
  ci_dns_client_id :: int
  ci_ip_address :: string
  ci_first_seen_at :: time
  ci_last_seen_at :: time

record ip_address_row =
  ip_id :: int
  ip_row_address :: string
  assignment_type :: string

text \<open>The tables, and the linked address record of every recognised device.\<close>

record identity_db =
  lease_history :: "lease_history_row list"
  ip_addresses :: "ip_address_row list"
  client_ips :: "client_ip_row list"
  recognised_devices :: "(int \<times> int option) list"

definition unresolved :: "string \<Rightarrow> flow_attribution" where
  "unresolved reason =
     \<lparr>attr_state = ''unresolved'', attr_confidence = ''none'', attr_method = None, attr_ip_record_id = None,
      attr_dhcp_lease_id = None, attr_dns_client_id = None, unresolved_reason = Some reason\<rparr>"

definition resolved ::
  "string \<Rightarrow> string \<Rightarrow> int option \<Rightarrow> int option \<Rightarrow> int option \<Rightarrow> flow_attribution" where
  "resolved confidence meth ip lease client =
     \<lparr>attr_state = ''resolved'', attr_confidence = confidence, attr_method = Some meth, attr_ip_record_id = ip,
      attr_dhcp_lease_id = lease, attr_dns_client_id = client, unresolved_reason = None\<rparr>"

definition linked_ip :: "identity_db \<Rightarrow> int option \<Rightarrow> int option" where
  "linked_ip db client =
     (case client of
        None \<Rightarrow> None
      | Some c \<Rightarrow> (case map_of (recognised_devices db) c of None \<Rightarrow> None | Some ip \<Rightarrow> ip))"

definition lease_candidates :: "identity_db \<Rightarrow> string \<Rightarrow> time \<Rightarrow> lease_history_row list" where
  "lease_candidates db addr observed =
     filter (\<lambda>l. lh_ip_address l = addr \<and> lh_started_at l \<le> observed \<and>
                  (case lh_expires_at l of None \<Rightarrow> True | Some t \<Rightarrow> t \<ge> observed)) (lease_history db)"

definition history_candidates :: "identity_db \<Rightarrow> string \<Rightarrow> time \<Rightarrow> client_ip_row list" where
  "history_candidates db addr observed =
     filter (\<lambda>h. ci_ip_address h = addr \<and> ci_first_seen_at h \<le> observed \<and> ci_last_seen_at h \<ge> observed) (client_ips db)"

text \<open>The rest of the attribution, when no lease covers the flow.\<close>

definition attribute_without_lease ::
  "identity_db \<Rightarrow> normalized_flow_record \<Rightarrow> string \<Rightarrow> flow_attribution" where
  "attribute_without_lease db r addr =
     (let history = (if present (source_ip r) then history_candidates db addr (observed_at r) else []);
          from_history =
            (case history of
               [] \<Rightarrow> unresolved ''no_time_bounded_identity''
             | [h] \<Rightarrow> resolved ''low'' ''ip_history'' (linked_ip db (Some (ci_dns_client_id h))) None (Some (ci_dns_client_id h))
             | _ \<Rightarrow> unresolved ''ambiguous_ip_history'')
      in case filter (\<lambda>m. ip_row_address m = addr) (ip_addresses db) of
           [m] \<Rightarrow> if lower (assignment_type m) \<noteq> ''dynamic'' then resolved ''medium'' ''managed_ip'' (Some (ip_id m)) None None
                   else from_history
         | _ \<Rightarrow> from_history)"

definition resolve_flow_attribution ::
  "identity_db \<Rightarrow> normalized_flow_record \<Rightarrow> string option \<Rightarrow> flow_attribution" where
  "resolve_flow_attribution db r address =
     (case (if present address then address else source_ip r) of
        None \<Rightarrow> unresolved ''missing_endpoint''
      | Some addr \<Rightarrow>
          if addr = [] then unresolved ''missing_endpoint''
          else
            (case lease_candidates db addr (observed_at r) of
               [lease] \<Rightarrow>
                 resolved ''high'' ''dhcp_lease''
                   (if lh_dns_client_id lease = Some 0 then None else linked_ip db (lh_dns_client_id lease))
                   (Some (lh_id lease)) (lh_dns_client_id lease)
             | [] \<Rightarrow> attribute_without_lease db r addr
             | _ \<Rightarrow> unresolved ''ambiguous_dhcp_history''))"

section \<open>Retention\<close>

definition days :: "int \<Rightarrow> time" where
  "days n = seconds (86400 * n)"

definition retention_cutoffs :: "time \<Rightarrow> int \<Rightarrow> int \<Rightarrow> int \<Rightarrow> (int \<times> time) list" where
  "retention_cutoffs now short_days hourly_days daily_days =
     [(300, now - days short_days), (3600, now - days hourly_days), (86400, now - days daily_days)]"

section \<open>Attribution is never a guess\<close>

lemma attribute_without_lease_cases:
  assumes "attr_state (attribute_without_lease db r addr) = ''resolved''"
  shows "(\<exists>m. filter (\<lambda>m. ip_row_address m = addr) (ip_addresses db) = [m] \<and> lower (assignment_type m) \<noteq> ''dynamic'' \<and>
              attribute_without_lease db r addr = resolved ''medium'' ''managed_ip'' (Some (ip_id m)) None None) \<or>
         (\<exists>h. history_candidates db addr (observed_at r) = [h] \<and>
              attribute_without_lease db r addr =
                resolved ''low'' ''ip_history'' (linked_ip db (Some (ci_dns_client_id h))) None (Some (ci_dns_client_id h)))"
proof -
  let ?m = "filter (\<lambda>m. ip_row_address m = addr) (ip_addresses db)" and ?h = "history_candidates db addr (observed_at r)"
  show ?thesis
  proof (cases "\<exists>m. ?m = [m] \<and> lower (assignment_type m) \<noteq> ''dynamic''")
    case True
    then show ?thesis by (auto simp: attribute_without_lease_def)
  next
    case False
    then have "attribute_without_lease db r addr =
        (case (if present (source_ip r) then ?h else []) of
           [] \<Rightarrow> unresolved ''no_time_bounded_identity''
         | [h] \<Rightarrow> resolved ''low'' ''ip_history'' (linked_ip db (Some (ci_dns_client_id h))) None (Some (ci_dns_client_id h))
         | _ \<Rightarrow> unresolved ''ambiguous_ip_history'')"
      by (auto simp: attribute_without_lease_def Let_def split: list.splits)
    with assms show ?thesis by (auto simp: unresolved_def split: list.splits if_splits)
  qed
qed

text \<open>
  A flow is attributed to a device only on unambiguous evidence: the lease whose period covers the
  flow is the only one for that address; failing any lease, the one managed address record, which is
  not dynamic; failing that, the only address history entry whose period covers the flow. With two
  covering leases the flow stays unresolved, whatever the other tables say.
\<close>

theorem attribution_is_unambiguous:
  assumes "attr_state (resolve_flow_attribution db r address) = ''resolved''"
  shows "\<exists>addr. (if present address then address else source_ip r) = Some addr \<and>
     ((\<exists>l. lease_candidates db addr (observed_at r) = [l] \<and>
           attr_dhcp_lease_id (resolve_flow_attribution db r address) = Some (lh_id l)) \<or>
      lease_candidates db addr (observed_at r) = [] \<and>
      ((\<exists>m. filter (\<lambda>m. ip_row_address m = addr) (ip_addresses db) = [m] \<and> lower (assignment_type m) \<noteq> ''dynamic'' \<and>
            attr_ip_record_id (resolve_flow_attribution db r address) = Some (ip_id m)) \<or>
       (\<exists>h. history_candidates db addr (observed_at r) = [h] \<and>
            attr_dns_client_id (resolve_flow_attribution db r address) = Some (ci_dns_client_id h))))"
proof -
  from assms obtain addr where a: "(if present address then address else source_ip r) = Some addr" "addr \<noteq> []"
    by (auto simp: resolve_flow_attribution_def unresolved_def split: option.splits if_splits)
  show ?thesis
  proof (cases "lease_candidates db addr (observed_at r)")
    case Nil
    then have eq: "resolve_flow_attribution db r address = attribute_without_lease db r addr"
      using a by (simp add: resolve_flow_attribution_def del: if_split_eq1)
    from attribute_without_lease_cases [of db r addr] assms show ?thesis
      unfolding eq using Nil a(1) by (auto simp: resolved_def)
  next
    case (Cons l ls)
    then have "ls = []" using assms a by (cases ls) (auto simp: resolve_flow_attribution_def unresolved_def)
    with Cons a show ?thesis by (auto simp: resolve_flow_attribution_def resolved_def)
  qed
qed

text \<open>
  Traffic is only called internal when both ends are in a configured network and the path
  does not cross exactly one WAN interface; a flow that enters on a WAN interface and leaves on another
  interface is inbound whatever its addresses say. An unreadable network in the configuration is
  as if it were not there.
\<close>

theorem classification_follows_topology:
  "(traffic_class (classify_flow r interfaces nets) = ''internal_lan'' \<longleftrightarrow>
      (is_member (input_interface r) (wan_indexes interfaces) = is_member (output_interface r) (wan_indexes interfaces)) \<and>
      (in_network (source_ip r) (List.map_filter read_network nets) \<or>
       in_network (translated_source_ip r) (List.map_filter read_network nets)) \<and>
      (in_network (destination_ip r) (List.map_filter read_network nets) \<or>
       in_network (translated_destination_ip r) (List.map_filter read_network nets))) \<and>
   (traffic_class (classify_flow r interfaces nets) = ''wan_inbound'' \<longleftrightarrow>
      is_member (input_interface r) (wan_indexes interfaces) \<and> \<not> is_member (output_interface r) (wan_indexes interfaces)) \<and>
   classify_flow r interfaces nets = classify_flow r interfaces (filter (\<lambda>v. read_network v \<noteq> None) nets)"
proof (intro conjI)
  have "List.map_filter read_network (filter (\<lambda>v. read_network v \<noteq> None) nets) = List.map_filter read_network nets"
    by (simp add: List.map_filter_def)
  then show "classify_flow r interfaces nets = classify_flow r interfaces (filter (\<lambda>v. read_network v \<noteq> None) nets)"
    by (simp add: classify_flow_def)
qed (auto simp: classify_flow_def classification_def Let_def)

end
