(* ===== verification/Flow_Collector.thy ===== *)
theory Flow_Collector
  imports Flow_Accounting
begin

text \<open>
  Persistence of decoded flows (\<open>app/services/flow_collector.py\<close> and \<open>app/services/endpoint_traffic.py\<close>):
  replay protection, conversion of cumulative counters to differences, the flow totals, the classified
  rollups and the endpoint usage, with the database session as the application configures it:
  \<open>autoflush=False\<close>, so that rows added or changed in a transaction are not seen by its queries until
  the session is flushed. PostgreSQL and SQLite take the upsert branch of the code, which is the one
  modelled. The hash of the event key and the device accounting of \<open>device_traffic.py\<close> are
  arguments; the offset of the host's local time from UTC is an argument too, because the code
  converts naive instants with \<open>datetime.timestamp\<close>.
\<close>

section \<open>Text of an instant\<close>

definition pad :: "nat \<Rightarrow> int \<Rightarrow> string" where
  "pad w n = (let s = str_int n in replicate (w - length s) (CHR ''0'') @ s)"

text \<open>Year, month and day of a day number since the epoch, in the proleptic Gregorian calendar.\<close>

definition civil :: "int \<Rightarrow> int \<times> int \<times> int" where
  "civil z =
     (let z' = z + 719468; era = z' div 146097; doe = z' mod 146097;
          yoe = (doe - doe div 1460 + doe div 36524 - doe div 146096) div 365;
          doy = doe - (365 * yoe + yoe div 4 - yoe div 100);
          mp = (5 * doy + 2) div 153; m = (if mp < 10 then mp + 3 else mp - 9)
      in (yoe + era * 400 + (if m \<le> 2 then 1 else 0), m, doy - (153 * mp + 2) div 5 + 1))"

definition isoformat :: "time \<Rightarrow> string" where
  "isoformat t =
     (let us = t mod 1000000; secs = t div 1000000; day = secs div 86400; s = secs mod 86400; (y, m, d) = civil day
      in pad 4 y @ ''-'' @ pad 2 m @ ''-'' @ pad 2 d @ ''T'' @ pad 2 (s div 3600) @ '':'' @ pad 2 (s div 60 mod 60) @ '':'' @
         pad 2 (s mod 60) @ (if us = 0 then [] else ''.'' @ pad 6 us))"

section \<open>Tables\<close>

text \<open>Insert a row, or merge it into the row with the same key.\<close>

definition upsert :: "('v \<Rightarrow> 'v \<Rightarrow> 'v) \<Rightarrow> 'k \<Rightarrow> 'v \<Rightarrow> ('k \<times> 'v) list \<Rightarrow> ('k \<times> 'v) list" where
  "upsert merge k v xs = dict_put k (case map_of xs k of None \<Rightarrow> v | Some old \<Rightarrow> merge old v) xs"

record flow_aggregate =
  fa_bytes :: int
  fa_packets :: int
  fa_samples :: int
  fa_quality :: string
  fa_first :: time
  fa_last :: time

definition merge_aggregate :: "flow_aggregate \<Rightarrow> flow_aggregate \<Rightarrow> flow_aggregate" where
  "merge_aggregate old new =
     \<lparr>fa_bytes = fa_bytes old + fa_bytes new, fa_packets = fa_packets old + fa_packets new,
      fa_samples = fa_samples old + fa_samples new,
      fa_quality = (if fa_quality old = ''partial'' \<or> fa_quality new = ''partial'' then ''partial'' else ''complete''),
      fa_first = (if fa_first old > fa_first new then fa_first new else fa_first old),
      fa_last = (if fa_last old < fa_last new then fa_last new else fa_last old)\<rparr>"

record accounting_row =
  ar_bytes :: int
  ar_packets :: int
  ar_samples :: int
  ar_quality :: string
  ar_confidence :: string
  ar_attribution :: string
  ar_unresolved :: "string option"
  ar_first :: time
  ar_last :: time

definition mixed :: "string \<Rightarrow> string \<Rightarrow> string" where
  "mixed old new = (if old = new then old else if old = ''unknown'' then new else ''mixed'')"

definition merge_accounting :: "accounting_row \<Rightarrow> accounting_row \<Rightarrow> accounting_row" where
  "merge_accounting old new =
     \<lparr>ar_bytes = ar_bytes old + ar_bytes new, ar_packets = ar_packets old + ar_packets new,
      ar_samples = ar_samples old + ar_samples new,
      ar_quality = (if ar_quality old = ''partial'' \<or> ar_quality new = ''partial'' then ''partial'' else ar_quality old),
      ar_confidence = mixed (ar_confidence old) (ar_confidence new),
      ar_attribution = mixed (ar_attribution old) (ar_attribution new),
      ar_unresolved = (if ar_unresolved old = None then ar_unresolved new
                       else if ar_unresolved old = ar_unresolved new then ar_unresolved old else Some ''mixed''),
      ar_first = (if ar_first old > ar_first new then ar_first new else ar_first old),
      ar_last = (if ar_last old < ar_last new then ar_last new else ar_last old)\<rparr>"

record endpoint_usage =
  eu_family :: int
  eu_bytes :: int
  eu_packets :: int
  eu_samples :: int
  eu_quality :: string
  eu_last :: time

definition merge_usage :: "endpoint_usage \<Rightarrow> endpoint_usage \<Rightarrow> endpoint_usage" where
  "merge_usage old new =
     old\<lparr>eu_bytes := eu_bytes old + eu_bytes new, eu_packets := eu_packets old + eu_packets new,
         eu_samples := eu_samples old + eu_samples new,
         eu_quality := (if eu_quality new = ''partial'' then ''partial'' else eu_quality old),
         eu_last := (if eu_last new > eu_last old then eu_last new else eu_last old)\<rparr>"

type_synonym aggregate_key = "int \<times> string \<times> time \<times> int \<times> string \<times> string"
type_synonym accounting_key = "int \<times> string \<times> time \<times> int \<times> string"
type_synonym endpoint_key = "string \<times> int \<times> time \<times> int \<times> string \<times> string"
type_synonym counter_key = "int \<times> string \<times> string"

record counter_state =
  last_event_at :: "time option"
  last_bytes :: "int option"
  last_packets :: "int option"
  last_event_type :: "string option"
  counter_expires_at :: time

record collector_state =
  duplicate_events :: int
  out_of_order_events :: int
  packets_accepted :: int
  last_valid_flow_at :: "time option"
  last_aggregate_write_at :: "time option"

text \<open>
  The session: the tables as the database has them, the counter rows that were changed
  (\<open>counter_dirty\<close>) or added (\<open>counter_new\<close>) since the last flush, and the configuration rows.
\<close>

record 'x flow_session =
  collector_states :: "(int \<times> collector_state) list"
  deduplication :: "(string \<times> time) list"
  counter_rows :: "(counter_key \<times> counter_state) list"
  counter_dirty :: "(counter_key \<times> counter_state) list"
  counter_new :: "(counter_key \<times> counter_state) list"
  flow_aggregates :: "(aggregate_key \<times> flow_aggregate) list"
  accounting_rows :: "(accounting_key \<times> accounting_row) list"
  endpoint_rows :: "(endpoint_key \<times> endpoint_usage) list"
  device_traffic :: 'x
  traffic_sources :: "(int \<times> traffic_interface list) list"
  local_networks :: "string list"
  monitoring_enabled :: "bool option"
  identities :: identity_db

datatype session_error = Flush_failed

text \<open>
  A flush fails when a changed row is gone (\<open>StaleDataError\<close>) or an added row breaks the unique
  constraint on source, exporter and connection (\<open>IntegrityError\<close>).
\<close>

definition flush :: "'x flow_session \<Rightarrow> session_error + 'x flow_session" where
  "flush s =
     (if list_ex (\<lambda>(k, c). map_of (counter_rows s) k = None) (counter_dirty s) \<or>
         \<not> distinct (map fst (counter_new s)) \<or>
         list_ex (\<lambda>(k, c). map_of (counter_rows s) k \<noteq> None) (counter_new s)
      then Inl Flush_failed
      else Inr (s\<lparr>counter_rows := foldl (\<lambda>rows (k, c). dict_put k c rows) (counter_rows s) (counter_dirty s) @ counter_new s,
                  counter_dirty := [], counter_new := []\<rparr>))"

text \<open>\<open>_state\<close>: the collector state of a source, created and flushed when it is missing.\<close>

definition fresh_state :: collector_state where
  "fresh_state = \<lparr>duplicate_events = 0, out_of_order_events = 0, packets_accepted = 0,
                  last_valid_flow_at = None, last_aggregate_write_at = None\<rparr>"

definition ensure_state :: "int \<Rightarrow> 'x flow_session \<Rightarrow> session_error + 'x flow_session" where
  "ensure_state sid s =
     (case map_of (collector_states s) sid of
        Some _ \<Rightarrow> Inr s
      | None \<Rightarrow> flush (s\<lparr>collector_states := collector_states s @ [(sid, fresh_state)]\<rparr>))"

definition update_state :: "int \<Rightarrow> (collector_state \<Rightarrow> collector_state) \<Rightarrow> 'x flow_session \<Rightarrow> 'x flow_session" where
  "update_state sid f s =
     (case map_of (collector_states s) sid of
        None \<Rightarrow> s
      | Some st \<Rightarrow> s\<lparr>collector_states := dict_put sid (f st) (collector_states s)\<rparr>)"

section \<open>Replay protection\<close>

definition opt_str :: "('a \<Rightarrow> string) \<Rightarrow> 'a option \<Rightarrow> string" where
  "opt_str f v = (case v of None \<Rightarrow> ''None'' | Some x \<Rightarrow> f x)"

definition event_key :: "(string \<Rightarrow> string) \<Rightarrow> normalized_flow_record \<Rightarrow> int \<Rightarrow> string" where
  "event_key digest r sid =
     digest (join ''|'' [str_int sid, exporter_identity r, str_int (sequence r), str_int (record_index r),
       opt_str id (connection_id r), opt_str id (event_type r), isoformat (observed_at r),
       opt_str str_int (bytes_total r), opt_str str_int (packets_total r)])"

definition DEDUP_RETENTION :: time where "DEDUP_RETENTION = seconds (48 * 3600)"
definition COUNTER_RETENTION :: time where "COUNTER_RETENTION = seconds (2 * 86400)"
definition MAX_RECORD_BATCH :: nat where "MAX_RECORD_BATCH = 512"

definition claim_event :: "string \<Rightarrow> time \<Rightarrow> 'x flow_session \<Rightarrow> ('x flow_session) option" where
  "claim_event key now s =
     (case map_of (deduplication s) key of
        Some _ \<Rightarrow> None
      | None \<Rightarrow> Some (s\<lparr>deduplication := deduplication s @ [(key, now + DEDUP_RETENTION)]\<rparr>))"

section \<open>Buckets\<close>

text \<open>\<open>int(value.timestamp())\<close> of a naive instant, which Python takes as local time; it truncates.\<close>

definition local_epoch :: "(time \<Rightarrow> time) \<Rightarrow> time \<Rightarrow> int" where
  "local_epoch utc_offset t =
     (let x = t - utc_offset t in if x \<ge> 0 then x div 1000000 else - ((- x) div 1000000))"

definition flow_bucket :: "(time \<Rightarrow> time) \<Rightarrow> time \<Rightarrow> int \<Rightarrow> time" where
  "flow_bucket utc_offset t secs =
     (let epoch = local_epoch utc_offset t in seconds (epoch - epoch mod secs))"

definition bucket_start :: "time \<Rightarrow> int \<Rightarrow> time" where
  "bucket_start t secs =
     (let epoch = (if t \<ge> 0 then t div 1000000 else - ((- t) div 1000000)) in seconds (epoch - epoch mod secs))"

section \<open>Endpoint usage\<close>

definition directional :: "normalized_flow_record \<Rightarrow> bool" where
  "directional r \<longleftrightarrow> forward_bytes r \<noteq> None \<or> reverse_bytes r \<noteq> None \<or> forward_packets r \<noteq> None \<or> reverse_packets r \<noteq> None"

definition or_zero :: "int option \<Rightarrow> int" where
  "or_zero v = (case v of None \<Rightarrow> 0 | Some n \<Rightarrow> n)"

definition endpoint_contributions ::
  "normalized_flow_record \<Rightarrow> int \<Rightarrow> int \<Rightarrow> (string option \<times> string \<times> int \<times> int) list" where
  "endpoint_contributions r byte_count packet_count =
     (if directional r then
        (let fb = or_zero (forward_bytes r); fp = or_zero (forward_packets r);
             rb = or_zero (reverse_bytes r); rp = or_zero (reverse_packets r)
         in [(source_ip r, ''upload'', fb, fp), (source_ip r, ''download'', rb, rp),
             (destination_ip r, ''upload'', rb, rp), (destination_ip r, ''download'', fb, fp)])
      else [(source_ip r, ''upload'', byte_count, packet_count), (destination_ip r, ''download'', byte_count, packet_count)])"

type_synonym usage_batch = "(endpoint_key \<times> endpoint_usage) list"

definition usage_networks :: "'x flow_session \<Rightarrow> ip_net list" where
  "usage_networks s =
     (if monitoring_enabled s = Some True then List.map_filter ip_network (take 256 (local_networks s)) else [])"

definition RESOLUTIONS :: "int list" where
  "RESOLUTIONS = [300, 3600, 86400]"

definition ip_version :: "ip_addr \<Rightarrow> int" where
  "ip_version a = (case a of IPv4 n \<Rightarrow> 4 | IPv6 n sc \<Rightarrow> 6)"

text \<open>One contribution merged into the batch at one resolution.\<close>

definition add_usage ::
  "normalized_flow_record \<Rightarrow> string \<Rightarrow> int \<Rightarrow> ip_addr \<Rightarrow> string \<Rightarrow> int \<Rightarrow> int \<Rightarrow> usage_batch \<Rightarrow> int \<Rightarrow> usage_batch" where
  "add_usage r quality sid a direct b p batch secs =
     (let key = (ip_text a, secs, bucket_start (observed_at r) secs, sid, take 45 (exporter_identity r), direct)
      in case map_of batch key of
           None \<Rightarrow>
             dict_put key \<lparr>eu_family = ip_version a, eu_bytes = max 0 b, eu_packets = max 0 p, eu_samples = 1,
               eu_quality = (if quality \<in> {''complete'', ''partial''} then quality else ''partial''),
               eu_last = observed_at r\<rparr> batch
         | Some row \<Rightarrow>
             dict_put key (row\<lparr>eu_bytes := eu_bytes row + max 0 b, eu_packets := eu_packets row + max 0 p,
               eu_samples := eu_samples row + 1, eu_last := max (eu_last row) (observed_at r),
               eu_quality := (if quality \<noteq> ''complete'' then ''partial'' else eu_quality row)\<rparr>) batch)"

text \<open>The address of a contribution that counts: it carries traffic and is in a local network.\<close>

definition counted_address :: "ip_net list \<Rightarrow> string option \<times> string \<times> int \<times> int \<Rightarrow> ip_addr option" where
  "counted_address nets c =
     (case c of (address, direct, b, p) \<Rightarrow>
        if \<not> present address \<or> (b \<le> 0 \<and> p \<le> 0) then None
        else
          (case ip_address (the address) of
             None \<Rightarrow> None
           | Some a \<Rightarrow> if list_ex (in_net a) nets then Some a else None))"

definition add_contribution ::
  "ip_net list \<Rightarrow> normalized_flow_record \<Rightarrow> string \<Rightarrow> int \<Rightarrow> usage_batch \<Rightarrow> string option \<times> string \<times> int \<times> int \<Rightarrow> usage_batch" where
  "add_contribution nets r quality sid batch c =
     (case counted_address nets c of
        None \<Rightarrow> batch
      | Some a \<Rightarrow> (case c of (_, direct, b, p) \<Rightarrow> foldl (add_usage r quality sid a direct b p) batch RESOLUTIONS))"

definition add_endpoint_usage ::
  "'x flow_session \<Rightarrow> normalized_flow_record \<Rightarrow> int \<Rightarrow> int \<Rightarrow> string \<Rightarrow> int \<Rightarrow> usage_batch \<Rightarrow> usage_batch" where
  "add_endpoint_usage s r byte_count packet_count quality sid batch =
     (let nets = usage_networks s
      in if nets = [] \<or> exporter_identity r = [] then batch
         else foldl (add_contribution nets r quality sid) batch (endpoint_contributions r byte_count packet_count))"

definition flush_endpoint_usage :: "usage_batch \<Rightarrow> 'x flow_session \<Rightarrow> 'x flow_session" where
  "flush_endpoint_usage batch s =
     s\<lparr>endpoint_rows := foldl (\<lambda>rows (k, u). upsert merge_usage k u rows) (endpoint_rows s) batch\<rparr>"

section \<open>Aggregates\<close>

definition aggregate ::
  "(time \<Rightarrow> time) \<Rightarrow> normalized_flow_record \<Rightarrow> int \<Rightarrow> int \<Rightarrow> string \<Rightarrow> int \<Rightarrow> 'x flow_session \<Rightarrow> 'x flow_session" where
  "aggregate tz r byte_count packet_count quality sid s =
     (if byte_count \<le> 0 \<and> packet_count \<le> 0 then s
      else s\<lparr>flow_aggregates := upsert merge_aggregate
               (sid, exporter_identity r, flow_bucket tz (observed_at r) 300, 300, direction r, ''flow_total'')
               \<lparr>fa_bytes = byte_count, fa_packets = packet_count, fa_samples = 1, fa_quality = quality,
                fa_first = observed_at r, fa_last = observed_at r\<rparr> (flow_aggregates s)\<rparr>)"

definition accounting_aggregate ::
  "(time \<Rightarrow> time) \<Rightarrow> normalized_flow_record \<Rightarrow> int \<Rightarrow> int \<Rightarrow> string \<Rightarrow> int \<Rightarrow> 'x flow_session \<Rightarrow> 'x flow_session" where
  "accounting_aggregate tz r byte_count packet_count quality sid s =
     (case map_of (traffic_sources s) sid of
        None \<Rightarrow> s
      | Some interfaces \<Rightarrow>
          (let cls = classify_flow r interfaces (map Inl (take 256 (local_networks s)));
               attr = resolve_flow_attribution (identities s) r None;
               row = \<lparr>ar_bytes = byte_count, ar_packets = packet_count, ar_samples = 1, ar_quality = quality,
                      ar_confidence = class_confidence cls, ar_attribution = attr_state attr,
                      ar_unresolved = unresolved_reason attr, ar_first = observed_at r, ar_last = observed_at r\<rparr>
           in s\<lparr>accounting_rows :=
                  foldl (\<lambda>rows secs. upsert merge_accounting
                           (sid, exporter_identity r, flow_bucket tz (observed_at r) secs, secs, traffic_class cls) row rows)
                    (accounting_rows s) [300, 3600, 86400]\<rparr>))"

section \<open>Cumulative counters\<close>

definition visible_counter :: "'x flow_session \<Rightarrow> counter_key \<Rightarrow> counter_state option" where
  "visible_counter s k =
     (case map_of (counter_rows s) k of
        None \<Rightarrow> None
      | Some c \<Rightarrow> (case map_of (counter_dirty s) k of None \<Rightarrow> Some c | Some c' \<Rightarrow> Some c'))"

text \<open>The bytes, packets and quality to account for a record, given the counter the query found.\<close>

definition counter_delta :: "normalized_flow_record \<Rightarrow> counter_state option \<Rightarrow> int \<times> int \<times> string" where
  "counter_delta r c =
     (let total = or_zero (bytes_total r); packets = or_zero (packets_total r);
          (b, q) = (case c of
             None \<Rightarrow> (total, data_quality r)
           | Some st \<Rightarrow>
               (case last_bytes st of
                  None \<Rightarrow> (total, data_quality r)
                | Some l \<Rightarrow> if total \<ge> l then (total - l, data_quality r) else (total, ''partial'')));
          otherwise = (if event_type r = None \<or> event_type r = Some ''create'' then q else ''partial'')
      in case c of
           None \<Rightarrow> (b, packets, otherwise)
         | Some st \<Rightarrow>
             (case (last_packets st, packets_total r) of
                (Some l, Some p) \<Rightarrow> if p \<ge> l then (b, p - l, q) else (b, packets, ''partial'')
              | _ \<Rightarrow> (b, packets, otherwise)))"

definition store_counter :: "counter_key \<Rightarrow> normalized_flow_record \<Rightarrow> time \<Rightarrow> 'x flow_session \<Rightarrow> 'x flow_session" where
  "store_counter k r now s =
     (let c = \<lparr>last_event_at = Some (observed_at r), last_bytes = bytes_total r, last_packets = packets_total r,
               last_event_type = event_type r, counter_expires_at = now + COUNTER_RETENTION\<rparr>
      in if visible_counter s k = None then s\<lparr>counter_new := counter_new s @ [(k, c)]\<rparr>
         else s\<lparr>counter_dirty := dict_put k c (counter_dirty s)\<rparr>)"

definition is_cumulative :: "normalized_flow_record \<Rightarrow> bool" where
  "is_cumulative r \<longleftrightarrow> cumulative_counters r \<and> present (connection_id r) \<and> bytes_total r \<noteq> None"

definition counter_key_of :: "normalized_flow_record \<Rightarrow> int \<Rightarrow> counter_key" where
  "counter_key_of r sid = (sid, exporter_identity r, the (connection_id r))"

definition out_of_order :: "normalized_flow_record \<Rightarrow> counter_state option \<Rightarrow> bool" where
  "out_of_order r c =
     (case c of
        None \<Rightarrow> False
      | Some st \<Rightarrow> (case last_event_at st of None \<Rightarrow> False | Some t \<Rightarrow> observed_at r < t))"

section \<open>Processing records\<close>

record batch_counts =
  bc_accepted :: int
  bc_duplicates :: int
  bc_out_of_order :: int
  bc_aggregates :: int

record 'x batch_run =
  run_session :: "'x flow_session"
  run_counts :: batch_counts
  run_usage :: usage_batch
  run_accepted :: "normalized_flow_record list option"

type_synonym 'x device_step = "normalized_flow_record \<Rightarrow> int \<Rightarrow> int \<Rightarrow> int \<Rightarrow> 'x \<Rightarrow> 'x"

text \<open>What an accepted record writes, once its bytes and packets are known.\<close>

definition account_record ::
  "(time \<Rightarrow> time) \<Rightarrow> 'x device_step \<Rightarrow> time \<Rightarrow> int \<Rightarrow> normalized_flow_record \<Rightarrow> int \<times> int \<times> string \<Rightarrow>
   'x batch_run \<Rightarrow> 'x batch_run" where
  "account_record tz persist now sid r amount run =
     (case amount of (b, p, quality) \<Rightarrow>
        (let b' = max 0 b; p' = max 0 p;
             s1 = accounting_aggregate tz r b' p' quality sid (aggregate tz r b' p' quality sid (run_session run));
             s2 = s1\<lparr>device_traffic := persist r b' p' sid (device_traffic s1)\<rparr>;
             s3 = update_state sid (\<lambda>st. st\<lparr>last_valid_flow_at := Some (observed_at r), last_aggregate_write_at := Some now,
                                              packets_accepted := packets_accepted st + 1\<rparr>) s2
         in run\<lparr>run_session := s3,
                run_usage := add_endpoint_usage s2 r b' p' quality sid (run_usage run),
                run_counts := (run_counts run)\<lparr>bc_accepted := bc_accepted (run_counts run) + 1,
                                               bc_aggregates := bc_aggregates (run_counts run) + 1\<rparr>,
                run_accepted := map_option (\<lambda>rs. if length rs < MAX_RECORD_BATCH then rs @ [r] else rs) (run_accepted run)\<rparr>))"

definition process_record ::
  "(string \<Rightarrow> string) \<Rightarrow> (time \<Rightarrow> time) \<Rightarrow> 'x device_step \<Rightarrow> time \<Rightarrow> int option \<Rightarrow> normalized_flow_record \<Rightarrow>
   'x batch_run \<Rightarrow> session_error + 'x batch_run" where
  "process_record digest tz persist now source r run =
     (let sid = (case source of None \<Rightarrow> source_id r | Some i \<Rightarrow> i); key = event_key digest r sid
      in case ensure_state sid (run_session run) of
           Inl e \<Rightarrow> Inl e
         | Inr s \<Rightarrow>
             (case claim_event key now s of
                None \<Rightarrow> Inr (run\<lparr>run_session := update_state sid (\<lambda>st. st\<lparr>duplicate_events := duplicate_events st + 1\<rparr>) s,
                                 run_counts := (run_counts run)\<lparr>bc_duplicates := bc_duplicates (run_counts run) + 1\<rparr>\<rparr>)
              | Some s1 \<Rightarrow>
                  if is_cumulative r then
                    (let k = counter_key_of r sid; c = visible_counter s1 k
                     in if out_of_order r c
                        then Inr (run\<lparr>run_session := update_state sid (\<lambda>st. st\<lparr>out_of_order_events := out_of_order_events st + 1\<rparr>) s1,
                                      run_counts := (run_counts run)\<lparr>bc_out_of_order := bc_out_of_order (run_counts run) + 1\<rparr>\<rparr>)
                        else Inr (account_record tz persist now sid r (counter_delta r c)
                                    (run\<lparr>run_session := store_counter k r now s1\<rparr>)))
                  else Inr (account_record tz persist now sid r (or_zero (bytes_total r), or_zero (packets_total r), data_quality r)
                              (run\<lparr>run_session := s1\<rparr>))))"

fun process_loop ::
  "(string \<Rightarrow> string) \<Rightarrow> (time \<Rightarrow> time) \<Rightarrow> 'x device_step \<Rightarrow> time \<Rightarrow> int option \<Rightarrow> normalized_flow_record list \<Rightarrow>
   'x batch_run \<Rightarrow> session_error + 'x batch_run" where
  "process_loop digest tz persist now source [] run = Inr run"
| "process_loop digest tz persist now source (r # rs) run =
     (case process_record digest tz persist now source r run of
        Inl e \<Rightarrow> Inl e
      | Inr run' \<Rightarrow> process_loop digest tz persist now source rs run')"

definition new_run :: "bool \<Rightarrow> 'x flow_session \<Rightarrow> 'x batch_run" where
  "new_run discover s =
     \<lparr>run_session = s, run_counts = \<lparr>bc_accepted = 0, bc_duplicates = 0, bc_out_of_order = 0, bc_aggregates = 0\<rparr>,
      run_usage = [], run_accepted = (if discover then Some [] else None)\<rparr>"

definition delete_expired :: "time \<Rightarrow> 'x flow_session \<Rightarrow> 'x flow_session" where
  "delete_expired now s =
     s\<lparr>deduplication := filter (\<lambda>(k, e). \<not> e < now) (deduplication s),
       counter_rows := filter (\<lambda>(k, c). \<not> counter_expires_at c < now) (counter_rows s)\<rparr>"

definition process_records ::
  "(string \<Rightarrow> string) \<Rightarrow> (time \<Rightarrow> time) \<Rightarrow> 'x device_step \<Rightarrow> time \<Rightarrow> int option \<Rightarrow> bool \<Rightarrow> normalized_flow_record list \<Rightarrow>
   'x flow_session \<Rightarrow> session_error + 'x batch_run" where
  "process_records digest tz persist now source discover rs s =
     (case process_loop digest tz persist now source rs (new_run discover s) of
        Inl e \<Rightarrow> Inl e
      | Inr run \<Rightarrow>
          Inr (run\<lparr>run_session := delete_expired now (flush_endpoint_usage (run_usage run) (run_session run))\<rparr>))"

section \<open>Rate limit\<close>

text \<open>The receiver's window: the current second of the monotonic clock and the packets let through in it.\<close>

definition rate_allowed :: "int \<Rightarrow> int \<Rightarrow> int \<times> int \<Rightarrow> bool \<times> int \<times> int" where
  "rate_allowed limit now w =
     (let (window, n) = (if now \<noteq> fst w then (now, 0) else w)
      in if n \<ge> limit then (False, window, n) else (True, window, n + 1))"

fun rate_run :: "int \<Rightarrow> int list \<Rightarrow> int \<times> int \<Rightarrow> (int \<times> bool) list" where
  "rate_run limit [] w = []"
| "rate_run limit (now # ns) w = (case rate_allowed limit now w of (ok, w') \<Rightarrow> (now, ok) # rate_run limit ns w')"

end
