(* ===== verification/Flow_Protocol_Props.thy ===== *)
theory Flow_Protocol_Props
  imports Flow_Protocol "HOL-Library.Multiset"
begin

text \<open>
  Correctness of the NetFlow decoder: what a decoded datagram can cost (bounds on records, events
  and the template cache), exporters that cannot touch each other's templates, exact tiling of a data
  flowset by its records, round trips of templates and records through the wire format, and the
  32-bit wrap-around of the sequence check.
\<close>

section \<open>Dictionaries\<close>

lemma map_of_filter_key:
  "distinct (map fst xs) \<Longrightarrow> map_of (filter (\<lambda>(k, t). P k) xs) a = (if P a then map_of xs a else None)"
proof (induction xs)
  case (Cons x xs)
  obtain k v where x: "x = (k, v)" by fastforce
  with Cons have "map_of xs k = None" by (simp add: map_of_eq_None_iff)
  with Cons x show ?case by auto
qed simp

lemma filter_keys_subset: "fst ` set (filter P xs) \<subseteq> fst ` set xs"
  by auto

lemma distinct_filter_keys: "distinct (map fst xs) \<Longrightarrow> distinct (map fst (filter P xs))"
  by (induction xs) auto

section \<open>Pruning\<close>

lemma length_filter_victims:
  assumes "distinct (map fst xs)" and "mset ys = mset xs"
  shows "length (filter (\<lambda>(k, t). k \<notin> set (map fst (take e ys))) xs) = length xs - e"
proof -
  let ?P = "\<lambda>(k, t). k \<notin> set (map fst (take e ys))"
  have "mset (filter ?P xs) = mset (filter ?P ys)" using assms(2) by (simp add: mset_filter)
  then have "length (filter ?P xs) = length (filter ?P ys)" by (metis size_mset)
  also have "filter ?P ys = filter ?P (take e ys) @ filter ?P (drop e ys)"
    by (metis append_take_drop_id filter_append)
  also have "filter ?P (take e ys) = []" by (force simp: filter_empty_conv)
  also have "filter ?P (drop e ys) = drop e ys"
  proof (rule filter_True)
    have "distinct (map fst ys)"
      using assms by (metis distinct_map mset_eq_imp_distinct_iff mset_map)
    then have "distinct (map fst (take e ys) @ map fst (drop e ys))"
      by (metis append_take_drop_id map_append)
    then show "\<forall>x \<in> set (drop e ys). ?P x" by (auto simp: image_iff) (metis fst_conv disjoint_iff image_eqI)
  qed
  finally have "length (filter ?P xs) = length ys - e" by simp
  moreover have "length ys = length xs" using assms(2) by (metis size_mset)
  ultimately show ?thesis by simp
qed

lemma prune_spec:
  assumes "distinct (map fst (templates d))" and "1 \<le> max_templates d" and "prune now d = (d', es)"
  shows "int (length (templates d')) \<le> max_templates d' \<and> distinct (map fst (templates d')) \<and>
         list_all (\<lambda>(k, t). \<not> template_expired d' now t) (templates d') \<and>
         max_templates d' = max_templates d \<and> template_ttl_seconds d' = template_ttl_seconds d \<and>
         set (templates d') \<subseteq> set (templates d)"
proof -
  define expired where "expired = map fst (filter (\<lambda>(k, t). template_expired d now t) (templates d))"
  define kept where "kept = filter (\<lambda>(k, t). k \<notin> set expired) (templates d)"
  define sorted_kept where "sorted_kept = sort_key (\<lambda>(k, t). refreshed_at t) kept"
  define excess where "excess = length kept - nat (max_templates d)"
  have d': "templates d' = filter (\<lambda>(k, t). k \<notin> set (map fst (take excess sorted_kept))) kept"
    "max_templates d' = max_templates d" "template_ttl_seconds d' = template_ttl_seconds d"
    using assms(3) by (auto simp: prune_def Let_def expired_def kept_def sorted_kept_def excess_def)
  have dk: "distinct (map fst kept)" unfolding kept_def by (rule distinct_filter_keys [OF assms(1)])
  have "length (templates d') = length kept - excess"
    unfolding d' by (rule length_filter_victims [OF dk]) (simp add: sorted_kept_def)
  then have "int (length (templates d')) \<le> max_templates d"
    using assms(2) by (simp add: excess_def)
  moreover have "set (templates d') \<subseteq> set kept" unfolding d' by auto
  moreover have "set kept \<subseteq> set (templates d)" unfolding kept_def by auto
  moreover have "\<not> template_expired d now t" if "(k, t) \<in> set kept" for k t
    using that by (force simp: kept_def expired_def)
  moreover have "template_expired d' = template_expired d"
    by (intro ext) (simp add: template_expired_def d')
  moreover have "distinct (map fst (templates d'))" unfolding d' by (rule distinct_filter_keys [OF dk])
  ultimately show ?thesis using d' by (auto simp: list_all_iff)
qed

section \<open>What a datagram can cost\<close>

definition result_ok :: "decode_result \<Rightarrow> bool" where
  "result_ok res \<longleftrightarrow> int (length (records res)) \<le> 512 \<and> length (template_events res) \<le> 32 \<and>
     length (unknown_template_details res) \<le> 8"

definition decoder_ok :: "decoder \<Rightarrow> bool" where
  "decoder_ok d \<longleftrightarrow> distinct (map fst (templates d)) \<and> 1 \<le> max_templates d \<and> max_templates d \<le> 2048"

lemma note_event_bound: "length es \<le> 32 \<Longrightarrow> length (note_event e es) \<le> 32"
  by (simp add: note_event_def)

lemma store_templates_ok:
  "(distinct (map fst (fst acc)) \<longrightarrow> distinct (map fst (fst (store_templates e s opt now ts acc)))) \<and>
   (length (snd acc) \<le> 32 \<longrightarrow> length (snd (store_templates e s opt now ts acc)) \<le> 32)"
proof (induction e s opt now ts acc rule: store_templates.induct)
  case (2 e s opt now tid fs ts cache es)
  show ?case
    using 2(1) [OF refl]
    by (auto simp: Let_def distinct_dict_put note_event_bound simp del: not_None_eq split del: if_split)
qed simp

lemma normalise_records_bound:
  "normalise_records clock pc acc raws = Inr rs \<Longrightarrow> int (length acc) \<le> 512 \<Longrightarrow> int (length rs) \<le> 512"
  by (induction clock pc acc raws rule: normalise_records.induct)
    (auto simp: MAX_RECORDS_PER_PACKET_def split: if_splits sum.splits)

lemma flowset_ok:
  assumes "flowset clock pc now fid body (d, res) = (d', out)" and "decoder_ok d"
  shows "decoder_ok d' \<and> (case out of Inl e \<Rightarrow> True | Inr res' \<Rightarrow> result_ok res \<longrightarrow> result_ok res')"
proof -
  have t: "decoder_ok d' \<and> (case out of Inl e \<Rightarrow> True | Inr res' \<Rightarrow> result_ok res \<longrightarrow> result_ok res')"
    if "template_flowset pc now opt body (d, res) = (d', out)" for opt
  proof (cases "parse_templates opt body")
    case (Inl e)
    with that assms(2) show ?thesis by (auto simp: template_flowset_def)
  next
    case (Inr ts)
    obtain cache es where st: "store_templates (pc_exporter pc) (pc_source_id pc) opt now ts (templates d, template_events res) = (cache, es)"
      by fastforce
    with store_templates_ok [of "(templates d, template_events res)" "pc_exporter pc" "pc_source_id pc" opt now ts] assms(2)
    have "distinct (map fst cache)" "length (template_events res) \<le> 32 \<Longrightarrow> length es \<le> 32"
      by (simp_all add: decoder_ok_def)
    with that Inr st assms(2) show ?thesis
      by (auto simp: template_flowset_def decoder_ok_def result_ok_def)
  qed
  have u: "result_ok res \<Longrightarrow> result_ok (unknown_flowset key ex res)" for key ex
    by (auto simp: result_ok_def unknown_flowset_def note_event_bound)
  have x: "decoder_ok d' \<and> (case out of Inl e \<Rightarrow> True | Inr res' \<Rightarrow> result_ok res \<longrightarrow> result_ok res')"
    if "data_flowset clock pc now fid body (d, res) = (d', out)"
    using that assms(2) u
    by (auto simp: data_flowset_def Let_def result_ok_def split: option.splits if_splits sum.splits
        dest!: normalise_records_bound)
  from assms(1) consider "template_flowset pc now False body (d, res) = (d', out)"
    | "template_flowset pc now True body (d, res) = (d', out)"
    | "data_flowset clock pc now fid body (d, res) = (d', out)"
    | "d' = d" "out = Inr res"
    by (auto simp: flowset_def split: if_splits)
  then show ?thesis
    by cases (use t x assms(2) in auto)
qed

lemma decode_flowsets_ok:
  "decode_flowsets clock pc now bs d res = (d', out) \<Longrightarrow> decoder_ok d \<Longrightarrow>
   decoder_ok d' \<and> (case out of Inl e \<Rightarrow> True | Inr res' \<Rightarrow> result_ok res \<longrightarrow> result_ok res')"
proof (induction clock pc now bs d res arbitrary: d' out rule: decode_flowsets.induct)
  case (1 clock pc now bs d res)
  let ?fid = "u16 bs 0" and ?len = "u16 bs 2"
  let ?body = "take (nat (u16 bs 2) - 4) (drop 4 bs)"
  show ?case
  proof (cases "bs = [] \<or> length bs < 4 \<or> ?len < 4 \<or> ?len > int (length bs)")
    case True
    with 1(2,3) show ?thesis by (auto simp: decode_flowsets.simps [of clock pc now bs] Let_def split: if_splits)
  next
    case False
    obtain d1 o1 where f: "flowset clock pc now ?fid ?body (d, res) = (d1, o1)" by fastforce
    note fok = flowset_ok [OF f 1(3)]
    show ?thesis
    proof (cases o1)
      case (Inl e)
      with False f 1(2) fok show ?thesis by (auto simp: decode_flowsets.simps [of clock pc now bs] Let_def)
    next
      case (Inr r1)
      with False f 1(2) have "decode_flowsets clock pc now (drop (nat ?len) bs) d1 r1 = (d', out)"
        by (auto simp: decode_flowsets.simps [of clock pc now bs] Let_def)
      from 1(1) [OF _ _ refl refl _ f [symmetric] Inr this] False fok Inr show ?thesis
        by (auto split: sum.splits)
    qed
  qed
qed

lemma begin_packet_ok:
  assumes "decoder_ok d" and "begin_packet pc cnt d = (d', res)"
  shows "decoder_ok d' \<and> result_ok res"
  using assms by (auto simp: begin_packet_def Let_def decoder_ok_def result_ok_def empty_result_def distinct_filter_keys)

text \<open>
  C40. The cost of a datagram is bounded: a decoded datagram yields at most 512 records, 32 template
  events and 8 unknown-template details; afterwards the template cache holds at most its capacity
  (never more than 2048), one entry per template, and no expired one.
\<close>

theorem decoding_is_bounded:
  assumes "decoder_ok d" and "decode clock now d datagram exporter = (d', Inr res)"
  shows "length (records res) \<le> 512 \<and> length (template_events res) \<le> 32 \<and>
         length (unknown_template_details res) \<le> 8 \<and>
         int (length (templates d')) \<le> max_templates d' \<and> decoder_ok d' \<and>
         list_all (\<lambda>(k, t). \<not> template_expired d' now t) (templates d')"
proof -
  from assms(2) obtain pc d1 r1 d2 r2 es where b: "begin_packet pc (u16 datagram 2) d = (d1, r1)"
    and f: "decode_flowsets clock pc now (drop 20 datagram) d1 r1 = (d2, Inr r2)"
    and p: "prune now d2 = (d', es)"
    and res: "res = r2\<lparr>template_events := template_events r2 @ take (32 - length (template_events r2)) es\<rparr>"
    by (auto simp: decode_def finish_packet_def Let_def split: if_splits option.splits prod.splits sum.splits)
  note bo = begin_packet_ok [OF assms(1) b]
  note fo = decode_flowsets_ok [OF f conjunct1 [OF bo]]
  from prune_spec [OF _ _ p] fo have pr: "int (length (templates d')) \<le> max_templates d'"
      "list_all (\<lambda>(k, t). \<not> template_expired d' now t) (templates d')" "distinct (map fst (templates d'))"
      "max_templates d' = max_templates d2"
    by (auto simp: decoder_ok_def)
  with fo have "decoder_ok d'" by (simp add: decoder_ok_def)
  moreover have "result_ok r2" using fo bo by simp
  ultimately show ?thesis using pr(1,2) by (auto simp: res result_ok_def)
qed

section \<open>Exporters are isolated\<close>

text \<open>The cached templates of every exporter but \<open>x\<close>.\<close>

definition foreign :: "string \<Rightarrow> decoder \<Rightarrow> (template_key \<times> flow_template) list" where
  "foreign x d = filter (\<lambda>(k, t). fst k \<noteq> x) (templates d)"

text \<open>Two decoder states agree on everything that is not the exporter's own.\<close>

definition same_elsewhere :: "string \<Rightarrow> decoder \<Rightarrow> decoder \<Rightarrow> bool" where
  "same_elsewhere x d d' \<longleftrightarrow> foreign x d' = foreign x d \<and>
     (\<forall>e s. e \<noteq> x \<longrightarrow> map_of (last_sequence d') (e, s) = map_of (last_sequence d) (e, s) \<and>
                         map_of (last_uptime d') (e, s) = map_of (last_uptime d) (e, s))"

lemma same_elsewhere_refl [simp]: "same_elsewhere x d d"
  by (simp add: same_elsewhere_def)

lemma same_elsewhere_trans: "same_elsewhere x d d1 \<Longrightarrow> same_elsewhere x d1 d2 \<Longrightarrow> same_elsewhere x d d2"
  by (simp add: same_elsewhere_def)

lemma filter_dict_put: "\<not> P k \<Longrightarrow> filter (\<lambda>(k, t). P k) (dict_put k v xs) = filter (\<lambda>(k, t). P k) xs"
  by (induction k v xs rule: dict_put.induct) auto

lemma store_templates_foreign:
  "filter (\<lambda>(k, t). fst k \<noteq> e) (fst (store_templates e s opt now ts acc)) = filter (\<lambda>(k, t). fst k \<noteq> e) (fst acc)"
proof (induction e s opt now ts acc rule: store_templates.induct)
  case (2 e s opt now tid fs ts cache es)
  show ?case
    using 2(1) [OF refl] filter_dict_put [of "\<lambda>k. fst k \<noteq> e" "(e, s, tid)"]
    by (simp add: Let_def del: not_None_eq split del: if_split)
qed simp

lemma template_flowset_elsewhere:
  assumes "template_flowset pc now opt body (d, res) = (d', out)"
  shows "same_elsewhere (pc_exporter pc) d d'"
  using assms store_templates_foreign [where e = "pc_exporter pc"]
  by (auto simp: template_flowset_def same_elsewhere_def foreign_def split: sum.splits prod.splits)
    (metis fst_conv)

lemma flowset_elsewhere:
  assumes "flowset clock pc now fid body (d, res) = (d', out)"
  shows "same_elsewhere (pc_exporter pc) d d'"
  using assms
  by (auto simp: flowset_def data_flowset_def Let_def dest: template_flowset_elsewhere
      split: if_splits option.splits sum.splits)

lemma decode_flowsets_elsewhere:
  "decode_flowsets clock pc now bs d res = (d', out) \<Longrightarrow> same_elsewhere (pc_exporter pc) d d'"
proof (induction clock pc now bs d res rule: decode_flowsets.induct)
  case (1 clock pc now bs d res)
  let ?len = "u16 bs 2" and ?fid = "u16 bs 0"
  let ?body = "take (nat ?len - 4) (drop 4 bs)"
  show ?case
  proof (cases "bs = [] \<or> length bs < 4 \<or> ?len < 4 \<or> ?len > int (length bs)")
    case True
    with 1(2) show ?thesis by (auto simp: decode_flowsets.simps [of clock pc now bs] Let_def split: if_splits)
  next
    case False
    obtain d1 o1 where f: "flowset clock pc now ?fid ?body (d, res) = (d1, o1)" by fastforce
    note s = flowset_elsewhere [OF f]
    show ?thesis
    proof (cases o1)
      case (Inl e)
      with False f 1(2) s show ?thesis by (auto simp: decode_flowsets.simps [of clock pc now bs] Let_def)
    next
      case (Inr r1)
      with False f 1(2) have "decode_flowsets clock pc now (drop (nat ?len) bs) d1 r1 = (d', out)"
        by (auto simp: decode_flowsets.simps [of clock pc now bs] Let_def)
      from 1(1) [OF _ _ refl refl _ f [symmetric] Inr this] False s show ?thesis
        by (auto intro: same_elsewhere_trans)
    qed
  qed
qed

lemma filter_foreign_absorb:
  "filter (\<lambda>(k, t). fst k \<noteq> x) (filter (\<lambda>((e, s, i), t). (e, s) \<noteq> (x, y)) ts) = filter (\<lambda>(k, t). fst k \<noteq> x) ts"
  by (induction ts) auto

lemma begin_packet_elsewhere:
  assumes "begin_packet pc cnt d = (d', res)"
  shows "same_elsewhere (pc_exporter pc) d d'"
  using assms filter_foreign_absorb [of "pc_exporter pc" "pc_source_id pc" "templates d"]
  by (auto simp: begin_packet_def Let_def same_elsewhere_def foreign_def map_of_dict_put)

text \<open>
  Exporters are isolated: whatever datagram an exporter sends, well formed or not, the sequence
  numbers and uptimes of the other exporters are unchanged, no template of theirs is added or altered,
  and a rejected datagram does not even remove one.
\<close>

theorem exporters_are_isolated:
  assumes "ip_address exporter = Some ip" and "decode clock now d datagram exporter = (d', out)"
  shows "set (foreign (ip_text ip) d') \<subseteq> set (foreign (ip_text ip) d) \<and>
         (\<forall>e. out = Inl e \<longrightarrow> foreign (ip_text ip) d' = foreign (ip_text ip) d) \<and>
         (\<forall>e s. e \<noteq> ip_text ip \<longrightarrow>
            map_of (last_sequence d') (e, s) = map_of (last_sequence d) (e, s) \<and>
            map_of (last_uptime d') (e, s) = map_of (last_uptime d) (e, s))"
proof (cases "int (length datagram) > MAX_DATAGRAM_SIZE \<or> length datagram < 20 \<or> u16 datagram 0 \<noteq> 9 \<or>
              u16 datagram 2 > MAX_RECORDS_PER_PACKET")
  case True
  with assms(2) have "d' = d" by (auto simp: decode_def split: if_splits)
  then show ?thesis by simp
next
  case False
  define pc where "pc = \<lparr>pc_exporter = ip_text ip, pc_source_id = u32 datagram 16, pc_sequence = u32 datagram 12,
                        pc_uptime = u32 datagram 4, pc_unix_secs = u32 datagram 8\<rparr>"
  have x [simp]: "pc_exporter pc = ip_text ip" by (simp add: pc_def)
  obtain d1 res where b: "begin_packet pc (u16 datagram 2) d = (d1, res)" by fastforce
  obtain d2 o2 where f: "decode_flowsets clock pc now (drop 20 datagram) d1 res = (d2, o2)" by fastforce
  have s: "same_elsewhere (ip_text ip) d d2"
    using same_elsewhere_trans [OF begin_packet_elsewhere [OF b] decode_flowsets_elsewhere [OF f]] by simp
  show ?thesis
  proof (cases o2)
    case (Inl e)
    with False assms b f have "d' = d2" by (auto simp: decode_def Let_def pc_def [symmetric])
    with s show ?thesis by (simp add: same_elsewhere_def)
  next
    case (Inr r2)
    with False assms b f have "d' = fst (prune now d2)" "\<exists>r. out = Inr r"
      by (auto simp: decode_def Let_def pc_def [symmetric] finish_packet_def split: prod.splits)
    moreover from this(1) have "set (foreign (ip_text ip) d') \<subseteq> set (foreign (ip_text ip) d2)"
        "last_sequence d' = last_sequence d2" "last_uptime d' = last_uptime d2"
      by (auto simp: foreign_def prune_def Let_def)
    ultimately show ?thesis using s by (auto simp: same_elsewhere_def)
  qed
qed

section \<open>Records tile a data flowset\<close>

text \<open>The bytes of a record, and what it means for a record to have the template's shape.\<close>

definition record_bytes :: "(int \<times> byte list) list \<Rightarrow> byte list" where
  "record_bytes raw = concat (map snd raw)"

definition has_shape :: "template_field list \<Rightarrow> (int \<times> byte list) list \<Rightarrow> bool" where
  "has_shape fs raw \<longleftrightarrow> map fst raw = map field_id fs \<and> map (\<lambda>(i, b). int (length b)) raw = map field_length fs"

text \<open>A template whose records can be told apart by field: positive lengths, no repeated type.\<close>

definition plain_template :: "template_field list \<Rightarrow> bool" where
  "plain_template fs \<longleftrightarrow> fs \<noteq> [] \<and> list_all (\<lambda>f. field_length f > 0) fs \<and> distinct (map field_id fs)"

lemma dict_put_fresh: "k \<notin> fst ` set xs \<Longrightarrow> dict_put k v xs = xs @ [(k, v)]"
  by (induction k v xs rule: dict_put.induct) auto

lemma record_width_Cons [simp]: "record_width (f # fs) = field_length f + record_width fs"
  by (simp add: record_width_def)

lemma record_width_Nil [simp]: "record_width [] = 0"
  by (simp add: record_width_def)

lemma record_width_nonneg: "list_all (\<lambda>f. field_length f > 0) fs \<Longrightarrow> record_width fs \<ge> 0"
  by (induction fs) auto

lemma record_width_pos: "plain_template fs \<Longrightarrow> record_width fs > 0"
  by (cases fs) (auto simp: plain_template_def dest: record_width_nonneg)

text \<open>The fields of one record, cut without the dictionary.\<close>

fun cut_plain :: "template_field list \<Rightarrow> byte list \<Rightarrow> (int \<times> byte list) list" where
  "cut_plain [] bs = []"
| "cut_plain (f # fs) bs = (field_id f, take (nat (field_length f)) bs) # cut_plain fs (drop (nat (field_length f)) bs)"

lemma cut_fields_plain:
  "distinct (map field_id fs) \<Longrightarrow> fst ` set raw \<inter> field_id ` set fs = {} \<Longrightarrow>
   cut_fields fs bs raw = raw @ cut_plain fs bs"
proof (induction fs bs raw rule: cut_fields.induct)
  case (2 f fs bs raw)
  then have fresh: "field_id f \<notin> fst ` set raw" by auto
  with 2 show ?case by (auto simp: dict_put_fresh)
qed simp

lemma cut_plain_shape:
  "list_all (\<lambda>f. field_length f > 0) fs \<Longrightarrow> record_width fs \<le> int (length bs) \<Longrightarrow>
   has_shape fs (cut_plain fs bs) \<and> record_bytes (cut_plain fs bs) = take (nat (record_width fs)) bs"
proof (induction fs arbitrary: bs)
  case (Cons f fs)
  then have w: "record_width fs \<ge> 0" and f: "field_length f > 0" by (auto dest: record_width_nonneg)
  with Cons have "record_width fs \<le> int (length (drop (nat (field_length f)) bs))" by simp
  with Cons have "has_shape fs (cut_plain fs (drop (nat (field_length f)) bs)) \<and>
      record_bytes (cut_plain fs (drop (nat (field_length f)) bs)) = take (nat (record_width fs)) (drop (nat (field_length f)) bs)"
    by simp
  with Cons.prems w f show ?case
    by (auto simp: has_shape_def record_bytes_def nat_add_distrib take_add)
qed (simp add: has_shape_def record_bytes_def)

lemma cut_plain_bytes: "has_shape fs raw \<Longrightarrow> cut_plain fs (record_bytes raw @ tail) = raw"
proof (induction fs arbitrary: raw)
  case (Cons f fs)
  then obtain b raw' where "raw = (field_id f, b) # raw'" "int (length b) = field_length f" "has_shape fs raw'"
    by (cases raw) (auto simp: has_shape_def)
  with Cons show ?case by (auto simp: record_bytes_def)
qed (simp add: has_shape_def)

lemma record_bytes_length: "has_shape fs raw \<Longrightarrow> int (length (record_bytes raw)) = record_width fs"
proof (induction fs arbitrary: raw)
  case (Cons f fs)
  then obtain b raw' where "raw = (field_id f, b) # raw'" "int (length b) = field_length f" "has_shape fs raw'"
    by (cases raw) (auto simp: has_shape_def)
  with Cons show ?case by (auto simp: record_bytes_def)
qed (simp add: has_shape_def record_bytes_def)

lemma cut_records_spec:
  assumes "plain_template fs"
  shows "int n * record_width fs \<le> int (length bs) \<Longrightarrow>
         length (cut_records n fs bs) = n \<and> list_all (has_shape fs) (cut_records n fs bs) \<and>
         concat (map record_bytes (cut_records n fs bs)) = take (n * nat (record_width fs)) bs"
proof (induction n arbitrary: bs)
  case (Suc n)
  let ?w = "record_width fs"
  have w: "?w > 0" using assms by (rule record_width_pos)
  from Suc.prems w have fits: "?w \<le> int (length bs)" "int n * ?w \<le> int (length bs) - ?w"
    by (auto simp: algebra_simps) (smt (verit) mult_nonneg_nonneg of_nat_0_le_iff)
  then have "int n * ?w \<le> int (length (drop (nat ?w) bs))" using w by simp
  note ih = Suc.IH [OF this]
  have "cut_fields fs bs [] = cut_plain fs bs"
    using assms by (simp add: cut_fields_plain plain_template_def)
  with ih fits cut_plain_shape [of fs bs] assms show ?case
    by (auto simp: plain_template_def take_add)
qed simp

lemma cut_records_bytes:
  assumes "plain_template fs"
  shows "list_all (has_shape fs) raws \<Longrightarrow> cut_records (length raws) fs (concat (map record_bytes raws) @ tail) = raws"
proof (induction raws)
  case (Cons raw raws)
  then have s: "has_shape fs raw" by simp
  have "cut_fields fs bs [] = cut_plain fs bs" for bs
    using assms by (simp add: cut_fields_plain plain_template_def)
  with Cons s show ?case
    by (simp add: cut_plain_bytes record_bytes_length [symmetric])
qed simp

text \<open>
  A data flowset is exactly its records: with positive field lengths and no repeated field type, the
  records read from a body are those whose fields, laid end to end in template order and at the
  template's lengths, give the body up to at most three zero bytes of padding. So no byte is read
  twice, skipped or invented, and laying records out and reading them back is the identity.
\<close>

theorem data_records_tile_the_body:
  assumes "plain_template fs"
  shows "data_records body fs = Inr raws \<longleftrightarrow>
         list_all (has_shape fs) raws \<and>
         (\<exists>pad. body = concat (map record_bytes raws) @ pad \<and> all_zero pad \<and> length pad \<le> 3 \<and>
                int (length pad) < record_width fs)"
proof
  let ?w = "record_width fs" and ?len = "int (length body)"
  have w: "?w > 0" using assms by (rule record_width_pos)
  assume d: "data_records body fs = Inr raws"
  let ?n = "nat (?len div ?w)"
  have n: "int ?n = ?len div ?w" using w by (simp add: pos_imp_zdiv_nonneg_iff)
  have split: "?len = int ?n * ?w + ?len mod ?w" unfolding n by simp
  from d w have raws: "raws = cut_records ?n fs body"
    and pad: "?len mod ?w = 0 \<or> ?len mod ?w \<le> 3 \<and> all_zero (drop (nat (?len - ?len mod ?w)) body)"
    by (auto simp: data_records_def Let_def split: if_splits)
  have m: "0 \<le> ?len mod ?w" "?len mod ?w < ?w" using w by simp_all
  have "int ?n * ?w \<le> ?len" using split m by simp
  note spec = cut_records_spec [OF assms this]
  have cut: "nat (?len - ?len mod ?w) = ?n * nat ?w"
    using split w by (metis add_diff_cancel_right' n nat_mult_distrib nat_int of_nat_0_le_iff)
  let ?pad = "drop (?n * nat ?w) body"
  have "int (?n * nat ?w) = ?len - ?len mod ?w" using split w by simp
  then have len: "int (length ?pad) = ?len mod ?w" using m by (simp only: length_drop)
  have "all_zero ?pad" using pad len by (auto simp: cut all_zero_def)
  moreover have "body = concat (map record_bytes raws) @ ?pad" using spec raws by simp
  moreover have "length ?pad \<le> 3" "int (length ?pad) < ?w" using pad len m by auto
  ultimately show "list_all (has_shape fs) raws \<and>
         (\<exists>pad. body = concat (map record_bytes raws) @ pad \<and> all_zero pad \<and> length pad \<le> 3 \<and> int (length pad) < ?w)"
    using spec raws by metis
next
  let ?w = "record_width fs"
  have w: "?w > 0" using assms by (rule record_width_pos)
  assume r: "list_all (has_shape fs) raws \<and>
         (\<exists>pad. body = concat (map record_bytes raws) @ pad \<and> all_zero pad \<and> length pad \<le> 3 \<and> int (length pad) < ?w)"
  then obtain pad where pad: "body = concat (map record_bytes raws) @ pad" "all_zero pad" "length pad \<le> 3" "int (length pad) < ?w"
    by blast
  have "int (length (concat (map record_bytes raws))) = int (length raws) * ?w"
    using conjunct1 [OF r] by (induction raws) (auto simp: record_bytes_length algebra_simps)
  then have len: "int (length body) = int (length raws) * ?w + int (length pad)" by (simp add: pad)
  then have q: "int (length body) div ?w = int (length raws)" "int (length body) mod ?w = int (length pad)"
    using pad(4) w by simp_all
  have "drop (nat (int (length body) - int (length pad))) body = pad"
    using pad(1) by (simp add: nat_int_add)
  with q pad w cut_records_bytes [OF assms conjunct1 [OF r], of pad] show "data_records body fs = Inr raws"
    by (auto simp: data_records_def Let_def)
qed

section \<open>Templates round trip through the wire format\<close>

definition be16 :: "int \<Rightarrow> byte list" where
  "be16 n = [word_of_int (n div 256), word_of_int n]"

definition encode_field :: "template_field \<Rightarrow> byte list" where
  "encode_field f = be16 (field_id f) @ be16 (field_length f)"

text \<open>A data template, and an options template whose first \<open>k\<close> fields are its scope.\<close>

definition encode_template :: "int \<times> template_field list \<Rightarrow> byte list" where
  "encode_template t = be16 (fst t) @ be16 (int (length (snd t))) @ concat (map encode_field (snd t))"

definition encode_options_template :: "nat \<Rightarrow> int \<times> template_field list \<Rightarrow> byte list" where
  "encode_options_template k t =
     be16 (fst t) @ be16 (4 * int k) @ be16 (4 * (int (length (snd t)) - int k)) @ concat (map encode_field (snd t))"

definition field_ok :: "template_field \<Rightarrow> bool" where
  "field_ok f \<longleftrightarrow> 0 \<le> field_id f \<and> field_id f < 65536 \<and> 0 < field_length f \<and> field_length f \<le> 2048"

definition template_ok :: "int \<times> template_field list \<Rightarrow> bool" where
  "template_ok t \<longleftrightarrow> 256 \<le> fst t \<and> fst t < 65536 \<and> snd t \<noteq> [] \<and> length (snd t) \<le> 64 \<and> list_all field_ok (snd t)"

lemma be16_length [simp]: "length (be16 n) = 2"
  by (simp add: be16_def)

lemma be_value_be16: "0 \<le> n \<Longrightarrow> n < 65536 \<Longrightarrow> be_value (be16 n) = n"
  by (simp add: be_value_def be16_def uint_word_of_int)

lemma u16_skip: "u16 (be16 m @ bs) (Suc (Suc i)) = u16 bs i"
  by (simp add: u16_def be16_def)

lemma u16_be16 [simp]: "0 \<le> n \<Longrightarrow> n < 65536 \<Longrightarrow> u16 (be16 n @ bs) 0 = n"
  using be_value_be16 [of n] by (simp add: u16_def)

lemma u16_be16_second [simp]: "0 \<le> n \<Longrightarrow> n < 65536 \<Longrightarrow> u16 (be16 m @ be16 n @ bs) 2 = n"
  using u16_skip [of m "be16 n @ bs" 0] by (simp add: numeral_2_eq_2)

lemma drop_be16 [simp]: "drop 4 (be16 m @ be16 n @ bs) = bs" "drop 2 (be16 m @ bs) = bs"
  by (simp_all add: be16_def)

lemma parse_fields_encode:
  "list_all field_ok fs \<Longrightarrow> parse_fields (length fs) (concat (map encode_field fs) @ tail) = Inr (fs, tail)"
proof (induction fs)
  case (Cons f fs)
  then have "field_ok f" by simp
  with Cons show ?case
    by (simp add: encode_field_def field_ok_def del: append_assoc) (simp add: append_assoc)
qed simp

lemma template_head_encode:
  assumes "template_ok t"
  shows "template_head False (encode_template t @ bs) = Inr (length (snd t), concat (map encode_field (snd t)) @ bs)"
  using assms by (simp add: template_head_def encode_template_def template_ok_def Let_def MAX_TEMPLATE_FIELDS_def Suc_le_eq)

lemma encode_fields_length: "length (concat (map encode_field fs)) = 4 * length fs"
  by (induction fs) (auto simp: encode_field_def)

lemma template_head_encode_options:
  assumes "template_ok t" and "0 < k" and "k \<le> length (snd t)"
  shows "template_head True (encode_options_template k t @ bs) = Inr (length (snd t), concat (map encode_field (snd t)) @ bs)"
proof -
  have le: "length (snd t) \<le> 64" and tid: "256 \<le> fst t" "fst t < 65536" using assms(1) by (auto simp: template_ok_def)
  let ?fs = "concat (map encode_field (snd t)) @ bs"
  have o: "u16 (be16 (4 * (int (length (snd t)) - int k)) @ ?fs) 0 = 4 * (int (length (snd t)) - int k)"
    by (rule u16_be16) (use le assms(3) in auto)
  have sum: "4 * int k + 4 * (int (length (snd t)) - int k) = 4 * int (length (snd t))" by simp
  have m: "(4 * (int (length (snd t)) - int k)) mod 4 = 0" by (rule mod_mult_self1_is_0)
  show ?thesis
    using tid le assms(2,3)
    by (simp add: template_head_def encode_options_template_def Let_def MAX_TEMPLATE_FIELDS_def o sum m encode_fields_length
        del: right_diff_distrib_numeral)
qed

lemma parse_templates_step:
  assumes "template_head opt bs = Inr (length fs, concat (map encode_field fs) @ tail)"
    and "list_all field_ok fs" and "length bs \<ge> 4"
  shows "parse_templates opt bs =
         (case parse_templates opt tail of Inl e \<Rightarrow> Inl e | Inr ts \<Rightarrow> Inr ((u16 bs 0, fs) # ts))"
proof -
  from assms(3) have "bs \<noteq> []" "\<not> length bs < 4" by auto
  with assms(1) parse_fields_encode [OF assms(2)] show ?thesis
    by (subst parse_templates.simps) simp
qed

lemma parse_templates_padding: "all_zero pad \<Longrightarrow> length pad \<le> 3 \<Longrightarrow> parse_templates opt pad = Inr []"
  by (subst parse_templates.simps) auto

text \<open>
  Template flowsets round trip: any list of templates with identifiers from 256, one to 64 fields
  and field lengths of at most 2048 bytes is read back from its wire form exactly, for data templates
  and for options templates with any non-empty scope, with up to three bytes of zero padding.
\<close>

theorem templates_round_trip:
  assumes "list_all template_ok ts" and "all_zero pad" and "length pad \<le> 3"
    and "list_all (\<lambda>(k, t). template_ok t \<and> 0 < k \<and> k \<le> length (snd t)) os"
  shows "parse_templates False (concat (map encode_template ts) @ pad) = Inr ts \<and>
         parse_templates True (concat (map (\<lambda>(k, t). encode_options_template k t) os) @ pad) = Inr (map snd os)"
proof
  show "parse_templates False (concat (map encode_template ts) @ pad) = Inr ts"
    using assms(1)
  proof (induction ts)
    case (Cons t ts)
    let ?bs = "encode_template t @ concat (map encode_template ts) @ pad"
    have t: "template_ok t" using Cons.prems by simp
    then have h: "template_head False ?bs = Inr (length (snd t), concat (map encode_field (snd t)) @ concat (map encode_template ts) @ pad)"
      by (rule template_head_encode)
    have "u16 ?bs 0 = fst t" "length ?bs \<ge> 4" "list_all field_ok (snd t)"
      using t by (auto simp: encode_template_def template_ok_def)
    with parse_templates_step [OF h] Cons show ?case by simp
  qed (simp add: parse_templates_padding assms(2,3))
next
  show "parse_templates True (concat (map (\<lambda>(k, t). encode_options_template k t) os) @ pad) = Inr (map snd os)"
    using assms(4)
  proof (induction os)
    case (Cons kt os)
    obtain k t where kt: "kt = (k, t)" by (rule prod.exhaust)
    let ?rest = "concat (map (\<lambda>(k, t). encode_options_template k t) os) @ pad"
    let ?bs = "encode_options_template k t @ ?rest"
    have t: "template_ok t" "0 < k" "k \<le> length (snd t)" using Cons.prems kt by simp_all
    note h = template_head_encode_options [OF t, of ?rest]
    have "u16 ?bs 0 = fst t" "length ?bs \<ge> 4" "list_all field_ok (snd t)"
      using t by (auto simp: encode_options_template_def template_ok_def)
    with parse_templates_step [OF h] Cons kt show ?case by simp
  qed (simp add: parse_templates_padding assms(2,3))
qed

section \<open>Sequence numbers wrap around\<close>

lemma uint_diff_32: "uint (s - p :: 32 word) = (uint s - uint p) mod 4294967296"
  by (simp add: uint_word_ariths)

lemma unat_of_nat_le: "unat (of_nat k :: 32 word) \<le> k"
  by (simp add: unat_of_nat)

text \<open>
  The sequence check is exact on the 32-bit wire counter, wrap-around included: no gap is reported
  exactly when the new number is the previous one advanced by at most \<open>max(count, 1)\<close> in 32-bit
  arithmetic.
\<close>

theorem sequence_gap_wraps:
  fixes p s :: "32 word"
  assumes "0 \<le> cnt" and "cnt \<le> MAX_RECORDS_PER_PACKET"
  shows "\<not> gap_after (Some (uint p)) (uint s) cnt \<longleftrightarrow> (\<exists>k. k \<le> max 1 (nat cnt) \<and> s = p + of_nat k)"
proof -
  define x where "x = s - p"
  have m: "u \<le> max cnt 1 \<longleftrightarrow> nat u \<le> max 1 (nat cnt)" if "0 \<le> u" for u :: int
    using that by linarith
  have gap: "\<not> gap_after (Some (uint p)) (uint s) cnt \<longleftrightarrow> unat x \<le> max 1 (nat cnt)"
    by (simp only: gap_after_def option.case x_def uint_diff_32 [symmetric] not_less unat_eq_nat_uint m [OF uint_ge_0])
  show ?thesis
  proof
    assume "\<not> gap_after (Some (uint p)) (uint s) cnt"
    moreover have "s = p + of_nat (unat x)" by (simp add: x_def)
    ultimately show "\<exists>k. k \<le> max 1 (nat cnt) \<and> s = p + of_nat k" using gap by blast
  next
    assume "\<exists>k. k \<le> max 1 (nat cnt) \<and> s = p + of_nat k"
    then obtain k where k: "k \<le> max 1 (nat cnt)" "x = of_nat k" by (auto simp: x_def)
    have "unat x \<le> k" unfolding k(2) by (rule unat_of_nat_le)
    with k(1) gap show "\<not> gap_after (Some (uint p)) (uint s) cnt" by simp
  qed
qed

text \<open>The counter of an exporter that has just wrapped around.\<close>

theorem sequence_gap_wraps_witness:
  "(\<not> gap_after (Some (uint (4294967290 :: 32 word))) (uint (4 :: 32 word)) 10 \<longleftrightarrow>
    (\<exists>k. k \<le> max 1 (nat 10) \<and> (4 :: 32 word) = 4294967290 + of_nat k))"
  by (rule sequence_gap_wraps) (simp_all add: MAX_RECORDS_PER_PACKET_def)

definition wire_byte :: "int \<Rightarrow> byte" where
  "wire_byte n = word_of_int n"

text \<open>A template with a source address and a byte counter, and a body with one record and two bytes of padding.\<close>

definition sample_fields :: "template_field list" where
  "sample_fields = [\<lparr>field_id = 8, field_length = 4\<rparr>, \<lparr>field_id = 1, field_length = 4\<rparr>]"

definition sample_body :: "byte list" where
  "sample_body = map wire_byte [192, 0, 2, 1, 0, 0, 0, 42, 0, 0]"

definition sample_record :: "(int \<times> byte list) list" where
  "sample_record = [(8, map wire_byte [192, 0, 2, 1]), (1, map wire_byte [0, 0, 0, 42])]"

theorem data_records_tile_the_body_witness:
  "plain_template sample_fields \<and> data_records sample_body sample_fields = Inr [sample_record] \<and>
   list_all (has_shape sample_fields) [sample_record]"
proof -
  have p: "plain_template sample_fields" by code_simp
  have "data_records sample_body sample_fields = Inr [sample_record]" by code_simp
  with p data_records_tile_the_body [OF p, of sample_body "[sample_record]"] show ?thesis by blast
qed

theorem templates_round_trip_witness:
  "parse_templates False (concat (map encode_template [(256, sample_fields)]) @ [0, 0]) = Inr [(256, sample_fields)] \<and>
   parse_templates True (concat (map (\<lambda>(k, t). encode_options_template k t) [(1, (257, sample_fields))]) @ [0, 0]) =
     Inr (map snd [(1 :: nat, (257, sample_fields))])"
  by (rule templates_round_trip) (code_simp, code_simp, simp, code_simp)

definition sample_clock :: uptime_clock where
  "sample_clock unix_secs uptime ms = Some (seconds unix_secs - uptime * 1000 + ms * 1000)"

text \<open>A header with one template flowset for the sample template and one data flowset for it.\<close>

definition sample_header :: "byte list" where
  "sample_header = map wire_byte [0, 9, 0, 2, 0, 0, 0, 100, 0, 0, 0, 200, 0, 0, 0, 7, 0, 0, 0, 1]"

definition sample_datagram :: "byte list" where
  "sample_datagram = sample_header @ map wire_byte [0, 0, 0, 16, 1, 0, 0, 2, 0, 8, 0, 4, 0, 1, 0, 4] @
     map wire_byte [1, 0, 0, 12, 192, 0, 2, 1, 0, 0, 0, 42]"

definition two_templates :: "byte list" where
  "two_templates = sample_header @ map wire_byte [0, 0, 0, 16, 1, 0, 0, 2, 0, 8, 0, 4, 0, 1, 0, 4] @
     map wire_byte [0, 0, 0, 16, 1, 1, 0, 2, 0, 8, 0, 4, 0, 1, 0, 4]"

theorem decoding_is_bounded_witness:
  "case decode sample_clock 0 (new_decoder 1 1800) sample_datagram ''192.0.2.9'' of
     (d', Inl e) \<Rightarrow> False
   | (d', Inr res) \<Rightarrow> map source_ip (records res) = [Some ''192.0.2.1''] \<and> map bytes_total (records res) = [Some 42] \<and>
       int (length (templates d')) \<le> max_templates d'"
proof -
  let ?r = "decode sample_clock 0 (new_decoder 1 1800) sample_datagram ''192.0.2.9''"
  have v: "case ?r of (d', Inl e) \<Rightarrow> False
     | (d', Inr res) \<Rightarrow> map source_ip (records res) = [Some ''192.0.2.1''] \<and> map bytes_total (records res) = [Some 42]"
    by code_simp
  have "decoder_ok (new_decoder 1 1800)" by code_simp
  then show ?thesis using v decoding_is_bounded by (auto split: prod.splits sum.splits)
qed

theorem exporters_are_isolated_witness:
  "case decode sample_clock 0 (new_decoder 8 1800) sample_datagram ''192.0.2.9'' of
     (d', out) \<Rightarrow> set (foreign ''192.0.2.9'' d') \<subseteq> set (foreign ''192.0.2.9'' (new_decoder 8 1800))"
proof -
  obtain d' out where d: "decode sample_clock 0 (new_decoder 8 1800) sample_datagram ''192.0.2.9'' = (d', out)" by fastforce
  have "ip_address ''192.0.2.9'' = Some (the (ip_address ''192.0.2.9''))" "ip_text (the (ip_address ''192.0.2.9'')) = ''192.0.2.9''"
    by code_simp+
  with exporters_are_isolated [OF this(1) d] d show ?thesis by simp
qed

text \<open>
  The capacity is enforced only when a datagram decodes: a datagram with two templates and one
  stray trailing byte is rejected, but both templates stay in a cache whose capacity is one, because the
  pruning at the end of the decoding is never reached. The same datagram without the stray byte
  leaves one.
\<close>

theorem rejected_datagram_overfills_cache:
  "(case decode sample_clock 0 (new_decoder 1 1800) (two_templates @ [0]) ''192.0.2.9'' of
      (d', out) \<Rightarrow> out = Inl Truncated_flowset \<and> max_templates d' = 1 \<and> length (templates d') = 2) \<and>
   (case decode sample_clock 0 (new_decoder 1 1800) two_templates ''192.0.2.9'' of
      (d', out) \<Rightarrow> \<not> isl out \<and> length (templates d') = 1)"
  by code_simp

end
