(* ===== verification/Flow_Collector_Props.thy ===== *)
theory Flow_Collector_Props
  imports Flow_Collector Flow_Protocol_Props
begin

text \<open>
  Correctness of the flow persistence: a replayed datagram is counted once, the flow totals and every
  resolution of the classified rollups grow by the same amount, differences of cumulative
  counters add up to the counter, and the receiver's rate limit holds in every second.
\<close>

section \<open>Tables with an additive column\<close>

definition total :: "('v \<Rightarrow> int) \<Rightarrow> ('k \<Rightarrow> bool) \<Rightarrow> ('k \<times> 'v) list \<Rightarrow> int" where
  "total weight sel xs = sum_list (map (weight \<circ> snd) (filter (sel \<circ> fst) xs))"

lemma total_dict_put:
  "total weight sel (dict_put k v xs) =
   total weight sel xs + (if sel k then weight v - (case map_of xs k of None \<Rightarrow> 0 | Some old \<Rightarrow> weight old) else 0)"
  by (induction k v xs rule: dict_put.induct) (auto simp: total_def)

text \<open>A column that an upsert adds up: the merged row carries the sum of the two.\<close>

locale additive_column =
  fixes merge :: "'v \<Rightarrow> 'v \<Rightarrow> 'v" and weight :: "'v \<Rightarrow> int"
  assumes weight_merge: "weight (merge old new) = weight old + weight new"
begin

lemma total_upsert:
  "total weight sel (upsert merge k v xs) = total weight sel xs + (if sel k then weight v else 0)"
  by (auto simp: upsert_def total_dict_put weight_merge split: option.splits)

lemma total_upserts:
  "total weight sel (foldl (\<lambda>rows x. upsert merge (key x) v rows) xs ks) =
   total weight sel xs + (\<Sum>x\<leftarrow>ks. if sel (key x) then weight v else 0)"
  by (induction ks arbitrary: xs) (simp_all add: total_upsert)

end

interpretation fa_bytes: additive_column merge_aggregate fa_bytes
  by unfold_locales (simp add: merge_aggregate_def)

interpretation fa_packets: additive_column merge_aggregate fa_packets
  by unfold_locales (simp add: merge_aggregate_def)

interpretation ar_bytes: additive_column merge_accounting ar_bytes
  by unfold_locales (simp add: merge_accounting_def)

interpretation ar_packets: additive_column merge_accounting ar_packets
  by unfold_locales (simp add: merge_accounting_def)

section \<open>The rollups agree with the totals\<close>

text \<open>All flow totals, and all rows of one resolution of the rollups.\<close>

definition flow_total :: "(flow_aggregate \<Rightarrow> int) \<Rightarrow> 'x flow_session \<Rightarrow> int" where
  "flow_total weight s = total weight (\<lambda>k. True) (flow_aggregates s)"

definition rollup_total :: "(accounting_row \<Rightarrow> int) \<Rightarrow> int \<Rightarrow> 'x flow_session \<Rightarrow> int" where
  "rollup_total weight secs s = total weight (\<lambda>(sid, ex, start, bucket, cls). bucket = secs) (accounting_rows s)"

lemma aggregate_totals:
  assumes "0 \<le> b" and "0 \<le> p"
  shows "flow_total fa_bytes (aggregate tz r b p q sid s) = flow_total fa_bytes s + b"
    and "flow_total fa_packets (aggregate tz r b p q sid s) = flow_total fa_packets s + p"
  using assms by (auto simp: aggregate_def flow_total_def fa_bytes.total_upsert fa_packets.total_upsert)

lemma accounting_totals:
  assumes "map_of (traffic_sources s) sid \<noteq> None" and "secs \<in> {300, 3600, 86400}"
  shows "rollup_total ar_bytes secs (accounting_aggregate tz r b p q sid s) = rollup_total ar_bytes secs s + b"
    and "rollup_total ar_packets secs (accounting_aggregate tz r b p q sid s) = rollup_total ar_packets secs s + p"
  using assms
  by (auto simp: accounting_aggregate_def rollup_total_def Let_def ar_bytes.total_upserts ar_packets.total_upserts
      simp del: foldl_Cons split: option.splits)

lemma update_state_frame [simp]:
  "flow_aggregates (update_state sid f s) = flow_aggregates s"
  "accounting_rows (update_state sid f s) = accounting_rows s"
  "endpoint_rows (update_state sid f s) = endpoint_rows s"
  "deduplication (update_state sid f s) = deduplication s"
  "traffic_sources (update_state sid f s) = traffic_sources s"
  "counter_rows (update_state sid f s) = counter_rows s"
  "counter_dirty (update_state sid f s) = counter_dirty s"
  "counter_new (update_state sid f s) = counter_new s"
  by (simp_all add: update_state_def split: option.splits)

lemma aggregate_frame [simp]:
  "deduplication (aggregate tz r b p q sid s) = deduplication s"
  "accounting_rows (aggregate tz r b p q sid s) = accounting_rows s"
  "traffic_sources (aggregate tz r b p q sid s) = traffic_sources s"
  "collector_states (aggregate tz r b p q sid s) = collector_states s"
  "counter_rows (aggregate tz r b p q sid s) = counter_rows s"
  "counter_dirty (aggregate tz r b p q sid s) = counter_dirty s"
  "counter_new (aggregate tz r b p q sid s) = counter_new s"
  by (simp_all add: aggregate_def)

lemma accounting_aggregate_frame [simp]:
  "deduplication (accounting_aggregate tz r b p q sid s) = deduplication s"
  "flow_aggregates (accounting_aggregate tz r b p q sid s) = flow_aggregates s"
  "traffic_sources (accounting_aggregate tz r b p q sid s) = traffic_sources s"
  "collector_states (accounting_aggregate tz r b p q sid s) = collector_states s"
  "counter_rows (accounting_aggregate tz r b p q sid s) = counter_rows s"
  "counter_dirty (accounting_aggregate tz r b p q sid s) = counter_dirty s"
  "counter_new (accounting_aggregate tz r b p q sid s) = counter_new s"
  by (simp_all add: accounting_aggregate_def Let_def split: option.splits)

lemma store_counter_frame [simp]:
  "deduplication (store_counter k r now s) = deduplication s"
  "flow_aggregates (store_counter k r now s) = flow_aggregates s"
  "accounting_rows (store_counter k r now s) = accounting_rows s"
  "traffic_sources (store_counter k r now s) = traffic_sources s"
  "collector_states (store_counter k r now s) = collector_states s"
  "counter_rows (store_counter k r now s) = counter_rows s"
  by (simp_all add: store_counter_def Let_def)

lemma account_record_frame [simp]:
  "deduplication (run_session (account_record tz persist now sid r a run)) = deduplication (run_session run)"
  "traffic_sources (run_session (account_record tz persist now sid r a run)) = traffic_sources (run_session run)"
  "counter_rows (run_session (account_record tz persist now sid r a run)) = counter_rows (run_session run)"
  "counter_dirty (run_session (account_record tz persist now sid r a run)) = counter_dirty (run_session run)"
  "counter_new (run_session (account_record tz persist now sid r a run)) = counter_new (run_session run)"
  by (simp_all add: account_record_def Let_def split: prod.splits)

lemma flush_frame:
  assumes "flush s = Inr s'"
  shows "deduplication s' = deduplication s \<and> flow_aggregates s' = flow_aggregates s \<and>
         accounting_rows s' = accounting_rows s \<and> endpoint_rows s' = endpoint_rows s \<and> traffic_sources s' = traffic_sources s \<and>
         collector_states s' = collector_states s \<and> device_traffic s' = device_traffic s"
  using assms by (auto simp: flush_def split: if_splits)

lemma ensure_state_frame:
  assumes "ensure_state sid s = Inr s'"
  shows "deduplication s' = deduplication s \<and> flow_aggregates s' = flow_aggregates s \<and>
         accounting_rows s' = accounting_rows s \<and> endpoint_rows s' = endpoint_rows s \<and> traffic_sources s' = traffic_sources s \<and>
         device_traffic s' = device_traffic s"
  using assms flush_frame [of _ s'] by (force simp: ensure_state_def split: option.splits)

text \<open>Two sessions between which the totals and the rollups grew by the same amounts.\<close>

definition balanced :: "'x flow_session \<Rightarrow> 'x flow_session \<Rightarrow> bool" where
  "balanced s s' \<longleftrightarrow> traffic_sources s' = traffic_sources s \<and>
     (\<forall>secs \<in> {300, 3600, 86400}.
        flow_total fa_bytes s' - flow_total fa_bytes s = rollup_total ar_bytes secs s' - rollup_total ar_bytes secs s \<and>
        flow_total fa_packets s' - flow_total fa_packets s = rollup_total ar_packets secs s' - rollup_total ar_packets secs s)"

lemma balanced_refl [simp]: "balanced s s"
  by (simp add: balanced_def)

lemma balanced_trans: "balanced s1 s2 \<Longrightarrow> balanced s2 s3 \<Longrightarrow> balanced s1 s3"
proof -
  assume a: "balanced s1 s2" and b: "balanced s2 s3"
  have sum: "z - x = w - u" if "y - x = v - u" "z - y = w - v" for x y z u v w :: int
    using that by linarith
  show "balanced s1 s3"
    using a b unfolding balanced_def by (intro conjI ballI) (simp, (meson sum)+)
qed

lemma balanced_same:
  assumes "traffic_sources s' = traffic_sources s" "flow_aggregates s' = flow_aggregates s" "accounting_rows s' = accounting_rows s"
  shows "balanced s s'"
  using assms by (simp add: balanced_def flow_total_def rollup_total_def)

lemma account_record_balanced:
  assumes "map_of (traffic_sources (run_session run)) sid \<noteq> None"
  shows "balanced (run_session run) (run_session (account_record tz persist now sid r a run))"
proof -
  obtain b p q where a: "a = (b, p, q)" by (rule prod_cases3)
  let ?s = "run_session run"
  let ?m = "accounting_aggregate tz r (max 0 b) (max 0 p) q sid (aggregate tz r (max 0 b) (max 0 p) q sid ?s)"
  have "balanced ?s ?m"
    using aggregate_totals [of "max 0 b" "max 0 p" tz r q sid ?s]
      accounting_totals [of "aggregate tz r (max 0 b) (max 0 p) q sid ?s" sid] assms
    by (auto simp: balanced_def flow_total_def rollup_total_def)
  moreover have "balanced ?m (run_session (account_record tz persist now sid r a run))"
    by (rule balanced_same) (simp_all add: account_record_def a Let_def)
  ultimately show ?thesis by (rule balanced_trans)
qed

text \<open>The three outcomes of a record: a replay, an event out of order, or an accepted record.\<close>

abbreviation effective_source :: "int option \<Rightarrow> normalized_flow_record \<Rightarrow> int" where
  "effective_source source r \<equiv> (case source of None \<Rightarrow> source_id r | Some i \<Rightarrow> i)"

lemma process_record_cases:
  assumes "process_record digest tz persist now source r run = Inr run'"
  obtains
    (replay) s where "ensure_state (effective_source source r) (run_session run) = Inr s"
      "claim_event (event_key digest r (effective_source source r)) now s = None"
      "run' = run\<lparr>run_session := update_state (effective_source source r) (\<lambda>st. st\<lparr>duplicate_events := duplicate_events st + 1\<rparr>) s,
                  run_counts := (run_counts run)\<lparr>bc_duplicates := bc_duplicates (run_counts run) + 1\<rparr>\<rparr>"
  | (late) s s1 where "ensure_state (effective_source source r) (run_session run) = Inr s"
      "claim_event (event_key digest r (effective_source source r)) now s = Some s1" "is_cumulative r"
      "out_of_order r (visible_counter s1 (counter_key_of r (effective_source source r)))"
      "run' = run\<lparr>run_session := update_state (effective_source source r) (\<lambda>st. st\<lparr>out_of_order_events := out_of_order_events st + 1\<rparr>) s1,
                  run_counts := (run_counts run)\<lparr>bc_out_of_order := bc_out_of_order (run_counts run) + 1\<rparr>\<rparr>"
  | (accepted) s s1 s2 a where "ensure_state (effective_source source r) (run_session run) = Inr s"
      "claim_event (event_key digest r (effective_source source r)) now s = Some s1"
      "s2 = (if is_cumulative r then store_counter (counter_key_of r (effective_source source r)) r now s1 else s1)"
      "a = (if is_cumulative r then counter_delta r (visible_counter s1 (counter_key_of r (effective_source source r)))
            else (or_zero (bytes_total r), or_zero (packets_total r), data_quality r))"
      "run' = account_record tz persist now (effective_source source r) r a (run\<lparr>run_session := s2\<rparr>)"
  using assms by (auto simp: process_record_def Let_def split: sum.splits option.splits if_splits)

lemma claim_event_frame:
  assumes "claim_event key now s = Some s1"
  shows "traffic_sources s1 = traffic_sources s \<and> flow_aggregates s1 = flow_aggregates s \<and> accounting_rows s1 = accounting_rows s \<and>
         collector_states s1 = collector_states s \<and> deduplication s1 = deduplication s @ [(key, now + DEDUP_RETENTION)] \<and>
         counter_rows s1 = counter_rows s \<and> counter_dirty s1 = counter_dirty s \<and> counter_new s1 = counter_new s"
  using assms by (auto simp: claim_event_def split: option.splits)

lemma process_record_balanced:
  assumes "process_record digest tz persist now source r run = Inr run'"
    and "map_of (traffic_sources (run_session run)) (effective_source source r) \<noteq> None"
  shows "balanced (run_session run) (run_session run')"
  using assms(1)
proof (cases rule: process_record_cases)
  case (replay s)
  with ensure_state_frame [OF replay(1)] show ?thesis by (auto intro!: balanced_same)
next
  case (late s s1)
  with ensure_state_frame [OF late(1)] claim_event_frame [OF late(2)] show ?thesis by (auto intro!: balanced_same)
next
  case (accepted s s1 s2 a)
  have s2: "traffic_sources s2 = traffic_sources (run_session run)" "balanced (run_session run) s2"
    using ensure_state_frame [OF accepted(1)] claim_event_frame [OF accepted(2)] accepted(3) by (auto intro!: balanced_same)
  have "balanced s2 (run_session run')"
    using account_record_balanced [of "run\<lparr>run_session := s2\<rparr>"] assms(2) s2(1) by (simp add: accepted(5))
  with s2(2) show ?thesis by (rule balanced_trans)
qed

lemma process_loop_balanced:
  "process_loop digest tz persist now source rs run = Inr run' \<Longrightarrow>
   list_all (\<lambda>r. map_of (traffic_sources (run_session run)) (effective_source source r) \<noteq> None) rs \<Longrightarrow>
   balanced (run_session run) (run_session run')"
proof (induction digest tz persist now source rs run rule: process_loop.induct)
  case (2 digest tz persist now source r rs run)
  then obtain run1 where p: "process_record digest tz persist now source r run = Inr run1"
    and l: "process_loop digest tz persist now source rs run1 = Inr run'" by (auto split: sum.splits)
  have b: "balanced (run_session run) (run_session run1)" using process_record_balanced [OF p] 2(3) by simp
  then have "traffic_sources (run_session run1) = traffic_sources (run_session run)" by (simp add: balanced_def)
  with 2(1) [OF p l] 2(3) b show ?case by (auto intro: balanced_trans)
qed simp

text \<open>
  The rollups account for the same traffic as the totals: whatever records a datagram carries,
  the flow totals and each of the 5-minute, hourly and daily classified rollups grow by exactly the same
  number of bytes and of packets.
\<close>

theorem rollups_balance:
  assumes "process_records digest tz persist now source discover rs s = Inr run"
    and "list_all (\<lambda>r. map_of (traffic_sources s) (effective_source source r) \<noteq> None) rs"
  shows "\<forall>secs \<in> {300, 3600, 86400}.
     flow_total fa_bytes (run_session run) - flow_total fa_bytes s =
       rollup_total ar_bytes secs (run_session run) - rollup_total ar_bytes secs s \<and>
     flow_total fa_packets (run_session run) - flow_total fa_packets s =
       rollup_total ar_packets secs (run_session run) - rollup_total ar_packets secs s"
proof -
  from assms(1) obtain run1 where l: "process_loop digest tz persist now source rs (new_run discover s) = Inr run1"
    and run: "run_session run = delete_expired now (flush_endpoint_usage (run_usage run1) (run_session run1))"
    by (auto simp: process_records_def split: sum.splits)
  have "balanced s (run_session run1)" using process_loop_balanced [OF l] assms(2) by (simp add: new_run_def)
  moreover have "balanced (run_session run1) (run_session run)"
    by (rule balanced_same) (simp_all add: run delete_expired_def flush_endpoint_usage_def)
  ultimately have "balanced s (run_session run)" by (rule balanced_trans)
  then show ?thesis by (simp add: balanced_def)
qed

section \<open>Replays\<close>

definition seen :: "(string \<Rightarrow> string) \<Rightarrow> int option \<Rightarrow> 'x flow_session \<Rightarrow> normalized_flow_record \<Rightarrow> bool" where
  "seen digest source s r \<longleftrightarrow>
     event_key digest r (effective_source source r) \<in> fst ` set (deduplication s) \<and>
     effective_source source r \<in> fst ` set (collector_states s)"

lemma map_of_Some_key: "k \<in> fst ` set xs \<Longrightarrow> \<exists>v. map_of xs k = Some v"
  by (metis map_of_eq_None_iff not_None_eq)

lemma map_of_Some_in: "map_of xs k = Some v \<Longrightarrow> k \<in> fst ` set xs"
  by (metis map_of_eq_None_iff option.distinct(1))

lemma update_state_keys: "fst ` set (collector_states (update_state sid f s)) = fst ` set (collector_states s)"
  by (auto simp: update_state_def fst_set_dict_put insert_absorb map_of_Some_in split: option.splits)

lemma update_state_more:
  "\<exists>cs. update_state sid f s = s\<lparr>collector_states := cs\<rparr> \<and> fst ` set cs = fst ` set (collector_states s)"
proof (cases "map_of (collector_states s) sid")
  case None
  then show ?thesis by (intro exI [of _ "collector_states s"]) (simp add: update_state_def)
next
  case (Some st)
  then show ?thesis using update_state_keys [of sid f s]
    by (intro exI [of _ "dict_put sid (f st) (collector_states s)"]) (simp add: update_state_def)
qed

lemma replayed_record:
  assumes "seen digest source (run_session run) r"
  shows "\<exists>cs. fst ` set cs = fst ` set (collector_states (run_session run)) \<and>
     process_record digest tz persist now source r run =
       Inr (run\<lparr>run_session := (run_session run)\<lparr>collector_states := cs\<rparr>,
                run_counts := (run_counts run)\<lparr>bc_duplicates := bc_duplicates (run_counts run) + 1\<rparr>\<rparr>)"
proof -
  let ?sid = "effective_source source r"
  obtain st where st: "map_of (collector_states (run_session run)) ?sid = Some st"
    using assms map_of_Some_key by (fastforce simp: seen_def)
  obtain e where e: "map_of (deduplication (run_session run)) (event_key digest r ?sid) = Some e"
    using assms map_of_Some_key by (fastforce simp: seen_def)
  obtain cs where "update_state ?sid (\<lambda>st. st\<lparr>duplicate_events := duplicate_events st + 1\<rparr>) (run_session run) =
      (run_session run)\<lparr>collector_states := cs\<rparr>" "fst ` set cs = fst ` set (collector_states (run_session run))"
    using update_state_more by blast
  then show ?thesis using st e
    by (intro exI [of _ cs]) (simp add: process_record_def ensure_state_def claim_event_def Let_def)
qed

lemma replayed_loop:
  "list_all (seen digest source (run_session run)) rs \<Longrightarrow>
   \<exists>cs. process_loop digest tz persist now source rs run =
     Inr (run\<lparr>run_session := (run_session run)\<lparr>collector_states := cs\<rparr>,
              run_counts := (run_counts run)\<lparr>bc_duplicates := bc_duplicates (run_counts run) + int (length rs)\<rparr>\<rparr>)"
proof (induction rs arbitrary: run)
  case (Cons r rs)
  obtain cs where cs: "fst ` set cs = fst ` set (collector_states (run_session run))"
    and p: "process_record digest tz persist now source r run =
       Inr (run\<lparr>run_session := (run_session run)\<lparr>collector_states := cs\<rparr>,
                run_counts := (run_counts run)\<lparr>bc_duplicates := bc_duplicates (run_counts run) + 1\<rparr>\<rparr>)"
      (is "_ = Inr ?run1")
    using replayed_record [of digest source run r tz persist now] Cons.prems by auto
  have "list_all (seen digest source (run_session ?run1)) rs"
    using Cons.prems cs by (simp add: seen_def list_all_iff)
  from Cons.IH [OF this] p show ?case by (auto simp: algebra_simps)
next
  case Nil
  show ?case by (intro exI [of _ "collector_states (run_session run)"]) simp
qed

text \<open>What a run does to the event keys and the states: it only adds.\<close>

definition marks :: "time \<Rightarrow> 'x flow_session \<Rightarrow> 'x flow_session \<Rightarrow> bool" where
  "marks now s s' \<longleftrightarrow> (\<exists>ks. deduplication s' = deduplication s @ map (\<lambda>k. (k, now + DEDUP_RETENTION)) ks) \<and>
     fst ` set (collector_states s) \<subseteq> fst ` set (collector_states s')"

lemma marks_trans: "marks now s1 s2 \<Longrightarrow> marks now s2 s3 \<Longrightarrow> marks now s1 s3"
  by (auto simp: marks_def map_append [symmetric] simp del: map_append)

lemma marks_seen: "marks now s s' \<Longrightarrow> seen digest source s r \<Longrightarrow> seen digest source s' r"
  by (auto simp: marks_def seen_def)

lemma ensure_state_marks:
  assumes "ensure_state sid s = Inr s'"
  shows "marks now s s' \<and> sid \<in> fst ` set (collector_states s')"
proof (cases "map_of (collector_states s) sid")
  case None
  then have f: "flush (s\<lparr>collector_states := collector_states s @ [(sid, fresh_state)]\<rparr>) = Inr s'"
    using assms by (simp add: ensure_state_def)
  from flush_frame [OF f] show ?thesis by (auto simp: marks_def)
next
  case (Some st)
  then show ?thesis using assms by (auto simp: ensure_state_def marks_def map_of_Some_in)
qed

lemma account_record_states:
  "fst ` set (collector_states (run_session (account_record tz persist now sid r a run))) =
   fst ` set (collector_states (run_session run))"
  by (simp add: account_record_def Let_def update_state_keys split: prod.splits)

lemma claim_event_marks:
  assumes "claim_event key now s = Some s1"
  shows "marks now s s1 \<and> key \<in> fst ` set (deduplication s1)"
  using claim_event_frame [OF assms] by (auto simp: marks_def intro!: exI [of _ "[key]"])

lemma marks_same:
  assumes "deduplication s' = deduplication s" and "fst ` set (collector_states s') = fst ` set (collector_states s)"
  shows "marks now s s'"
  unfolding marks_def by (intro conjI exI [of _ "[]"]) (simp_all add: assms)

lemma process_record_marks:
  assumes "process_record digest tz persist now source r run = Inr run'"
  shows "marks now (run_session run) (run_session run') \<and> seen digest source (run_session run') r"
  using assms
proof (cases rule: process_record_cases)
  case (replay s)
  have "event_key digest r (effective_source source r) \<in> fst ` set (deduplication s)"
    using replay(2) by (auto simp: claim_event_def map_of_Some_in split: option.splits)
  with ensure_state_marks [OF replay(1), of now] replay(3) show ?thesis
    by (auto simp: marks_def seen_def update_state_keys)
next
  case (late s s1)
  note e = ensure_state_marks [OF late(1), of now] and c = claim_event_marks [OF late(2)]
  have "marks now s1 (run_session run')" by (rule marks_same) (simp_all add: late(5) update_state_keys)
  then have "marks now (run_session run) (run_session run')" using e c by (blast intro: marks_trans)
  then show ?thesis
    using e c claim_event_frame [OF late(2)] by (simp add: seen_def late(5) update_state_keys)
next
  case (accepted s s1 s2 a)
  note e = ensure_state_marks [OF accepted(1), of now] and c = claim_event_marks [OF accepted(2)]
  have "marks now s1 (run_session run')" by (rule marks_same) (simp_all add: accepted(3,5) account_record_states)
  then have "marks now (run_session run) (run_session run')" using e c by (blast intro: marks_trans)
  then show ?thesis
    using e c claim_event_frame [OF accepted(2)] by (simp add: seen_def accepted(3,5) account_record_states)
qed

lemma process_loop_marks:
  "process_loop digest tz persist now source rs run = Inr run' \<Longrightarrow>
   marks now (run_session run) (run_session run') \<and> list_all (seen digest source (run_session run')) rs"
proof (induction digest tz persist now source rs run rule: process_loop.induct)
  case (2 digest tz persist now source r rs run)
  then obtain run1 where p: "process_record digest tz persist now source r run = Inr run1"
    and l: "process_loop digest tz persist now source rs run1 = Inr run'" by (auto split: sum.splits)
  from process_record_marks [OF p] 2(1) [OF p l] show ?case by (auto intro: marks_trans marks_seen)
qed (auto simp: marks_def)


section \<open>The rate limit\<close>

definition let_through :: "int \<Rightarrow> (int \<times> bool) list \<Rightarrow> int" where
  "let_through t out = int (length (filter (\<lambda>x. x = (t, True)) out))"

lemma rate_run_times: "map fst (rate_run limit ns w) = ns"
  by (induction ns arbitrary: w) (simp_all split: prod.splits)

lemma rate_run_bound:
  "sorted (fst w # ns) \<Longrightarrow> 0 \<le> snd w \<Longrightarrow> snd w \<le> limit \<Longrightarrow>
   let_through t (rate_run limit ns w) \<le> (if t = fst w then limit - snd w else limit)"
proof (induction limit ns w rule: rate_run.induct)
  case (2 limit now ns w)
  obtain ok win n where r: "rate_allowed limit now w = (ok, win, n)" by (rule prod_cases3)
  have win: "win = now" "0 \<le> n" "n \<le> limit" "n = (if now = fst w then snd w else 0) + (if ok then 1 else 0)"
    using r 2(3,4) by (auto simp: rate_allowed_def Let_def split: if_splits prod.splits)
  have ih: "let_through t (rate_run limit ns (win, n)) \<le> (if t = win then limit - n else limit)"
  proof -
    have "sorted (fst (win, n) # ns)" "0 \<le> snd (win, n)" "snd (win, n) \<le> limit" using 2(2) win(1,2,3) by simp_all
    from 2(1) [OF r [symmetric] this] show ?thesis by (simp only: fst_conv snd_conv)
  qed
  have earlier: "let_through t (rate_run limit ns (win, n)) = 0" if "t < now"
  proof -
    have "t \<notin> set ns" using that 2(2) by force
    then have "t \<notin> fst ` set (rate_run limit ns (win, n))" by (metis rate_run_times set_map)
    then show ?thesis by (force simp: let_through_def filter_empty_conv)
  qed
  have step: "let_through t (rate_run limit (now # ns) w) =
      (if t = now \<and> ok then 1 else 0) + let_through t (rate_run limit ns (win, n))"
    by (auto simp: r let_through_def)
  have le: "fst w \<le> now" using 2(2) by simp
  consider "t = now" | "t < now" | "t > now" by linarith
  then show ?case
  proof cases
    case 1
    then show ?thesis using ih win step 2(3,4) by auto
  next
    case 2
    then show ?thesis using earlier step \<open>snd w \<le> limit\<close> \<open>0 \<le> snd w\<close> by auto
  next
    case 3
    then show ?thesis using ih win step le by auto
  qed
qed (auto simp: let_through_def)

text \<open>
  The packet rate limit holds: on a monotonic clock, however the packets arrive, at most
  \<open>max_packets_per_second\<close> of them are let through in any one second.
\<close>

theorem rate_limit_holds:
  assumes "0 \<le> limit" and "sorted ns" and "list_all (\<lambda>n. 0 \<le> n) ns"
  shows "let_through t (rate_run limit ns (0, 0)) \<le> limit"
proof -
  have "sorted (fst (0 :: int, 0 :: int) # ns)" using assms by (simp add: list_all_iff)
  from rate_run_bound [OF this, of limit t] assms(1)
  have "let_through t (rate_run limit ns (0, 0)) \<le> (if t = 0 then limit - 0 else limit)" by (simp only: fst_conv snd_conv)
  then show ?thesis by (simp split: if_splits)
qed

section \<open>Cumulative counters add up\<close>

text \<open>Deliveries of one record each, every one committed before the next.\<close>

fun deliver ::
  "(string \<Rightarrow> string) \<Rightarrow> (time \<Rightarrow> time) \<Rightarrow> 'x device_step \<Rightarrow> int \<Rightarrow> (time \<times> normalized_flow_record) list \<Rightarrow>
   'x flow_session \<Rightarrow> session_error + 'x flow_session" where
  "deliver digest tz persist sid [] s = Inr s"
| "deliver digest tz persist sid ((now, r) # xs) s =
     (case process_records digest tz persist now (Some sid) False [r] s of
        Inl e \<Rightarrow> Inl e
      | Inr run \<Rightarrow>
          (case flush (run_session run) of Inl e \<Rightarrow> Inl e | Inr s' \<Rightarrow> deliver digest tz persist sid xs s'))"

text \<open>A clean session whose counter for the connection stands at the given bytes and instant.\<close>

definition counter_stands :: "counter_key \<Rightarrow> int \<Rightarrow> time \<Rightarrow> time \<Rightarrow> 'x flow_session \<Rightarrow> bool" where
  "counter_stands k b t expires s \<longleftrightarrow>
     counter_dirty s = [] \<and> counter_new s = [] \<and>
     (\<exists>c. map_of (counter_rows s) k = Some c \<and> last_bytes c = Some b \<and> last_event_at c = Some t \<and> counter_expires_at c = expires)"

definition event_of :: "counter_key \<Rightarrow> normalized_flow_record \<Rightarrow> bool" where
  "event_of k r \<longleftrightarrow> is_cumulative r \<and> counter_key_of r (fst k) = k"

lemma map_of_filter_value: "map_of xs k = Some v \<Longrightarrow> P v \<Longrightarrow> distinct (map fst xs) \<Longrightarrow> map_of (filter (\<lambda>(k, v). P v) xs) k = Some v"
  by (auto simp: map_of_eq_Some_iff distinct_filter_keys)

lemma account_record_total:
  assumes "a = (b, p, q)" and "0 \<le> b"
  shows "flow_total fa_bytes (run_session (account_record tz persist now sid r a run)) = flow_total fa_bytes (run_session run) + b"
  using assms aggregate_totals(1) [of b "max 0 p" tz r q sid "run_session run"]
  by (simp add: account_record_def Let_def flow_total_def)

lemma counter_delta_bytes:
  assumes "last_bytes c = Some l" and "bytes_total r = Some b" and "l \<le> b"
  shows "\<exists>p q. counter_delta r (Some c) = (b - l, p, q)"
  using assms by (auto simp: counter_delta_def or_zero_def Let_def split: option.splits prod.splits)

lemma deliver_one:
  assumes k: "event_of k r" and st: "counter_stands k l t expires s" and dk: "distinct (map fst (counter_rows s))"
    and sid: "fst k \<in> fst ` set (collector_states s)"
    and fresh: "event_key digest r (fst k) \<notin> fst ` set (deduplication s)"
    and b: "bytes_total r = Some b" "l \<le> b" and t: "t \<le> observed_at r" and now: "now \<le> expires"
  shows "\<exists>run s'. process_records digest tz persist now (Some (fst k)) False [r] s = Inr run \<and>
     flush (run_session run) = Inr s' \<and>
     counter_stands k b (observed_at r) (now + COUNTER_RETENTION) s' \<and> distinct (map fst (counter_rows s')) \<and>
     fst k \<in> fst ` set (collector_states s') \<and>
     fst ` set (deduplication s') \<subseteq> insert (event_key digest r (fst k)) (fst ` set (deduplication s)) \<and>
     flow_total fa_bytes s' = flow_total fa_bytes s + (b - l)"
proof -
  let ?sid = "fst k" and ?key = "event_key digest r (fst k)"
  from st obtain c where c: "map_of (counter_rows s) k = Some c" "last_bytes c = Some l" "last_event_at c = Some t"
      "counter_expires_at c = expires" and cl: "counter_dirty s = []" "counter_new s = []"
    by (auto simp: counter_stands_def)
  obtain x where x: "map_of (collector_states s) ?sid = Some x" using map_of_Some_key [OF sid] by blast
  define s1 where "s1 = s\<lparr>deduplication := deduplication s @ [(?key, now + DEDUP_RETENTION)]\<rparr>"
  define c' where "c' = \<lparr>last_event_at = Some (observed_at r), last_bytes = bytes_total r, last_packets = packets_total r,
               last_event_type = event_type r, counter_expires_at = now + COUNTER_RETENTION\<rparr>"
  have vis: "visible_counter s1 k = Some c" using c cl by (simp add: visible_counter_def s1_def)
  define s2 where "s2 = store_counter k r now s1"
  have s2: "s2 = s1\<lparr>counter_dirty := [(k, c')]\<rparr>" using vis cl by (simp add: s2_def store_counter_def c'_def Let_def s1_def)
  define a where "a = counter_delta r (Some c)"
  obtain p q where a: "a = (b - l, p, q)" using counter_delta_bytes [OF c(2) b] a_def by auto
  define run1 where "run1 = account_record tz persist now ?sid r a ((new_run False s)\<lparr>run_session := s2\<rparr>)"
  define s3 where "s3 = delete_expired now (flush_endpoint_usage (run_usage run1) (run_session run1))"
  have none: "map_of (deduplication s) ?key = None" using fresh by (simp add: map_of_eq_None_iff)
  have kk: "counter_key_of r ?sid = k" and cum: "is_cumulative r" using k by (auto simp: event_of_def)
  have inorder: "\<not> out_of_order r (Some c)" using c(3) t by (simp add: out_of_order_def)
  have "process_record digest tz persist now (Some ?sid) r (new_run False s) = Inr run1"
    using x none cum kk inorder vis
    by (simp add: process_record_def ensure_state_def claim_event_def new_run_def Let_def s1_def [symmetric] run1_def
        a_def s2_def)
  then have pr: "process_records digest tz persist now (Some ?sid) False [r] s = Inr (run1\<lparr>run_session := s3\<rparr>)"
    by (simp add: process_records_def s3_def)
  have rows3: "counter_rows s3 = filter (\<lambda>(k, c). \<not> counter_expires_at c < now) (counter_rows s)"
      "counter_dirty s3 = [(k, c')]" "counter_new s3 = []"
    by (simp_all add: s3_def delete_expired_def flush_endpoint_usage_def run1_def s2 s1_def cl)
  have live: "map_of (counter_rows s3) k = Some c"
    unfolding rows3 by (rule map_of_filter_value [OF c(1) _ dk]) (use c(4) now in simp)
  define s' where "s' = s3\<lparr>counter_rows := dict_put k c' (counter_rows s3), counter_dirty := [], counter_new := []\<rparr>"
  have fl: "flush s3 = Inr s'" using live by (simp add: flush_def rows3(2,3) s'_def)
  have "counter_stands k b (observed_at r) (now + COUNTER_RETENTION) s'"
    using b by (simp add: counter_stands_def s'_def map_of_dict_put c'_def)
  moreover have "distinct (map fst (counter_rows s'))"
    unfolding s'_def rows3 by (simp add: distinct_dict_put distinct_filter_keys dk)
  moreover have "fst k \<in> fst ` set (collector_states s')"
    using sid by (simp add: s'_def s3_def delete_expired_def flush_endpoint_usage_def run1_def account_record_states s2 s1_def)
  moreover have "fst ` set (deduplication s') \<subseteq> insert ?key (fst ` set (deduplication s))"
    by (auto simp: s'_def s3_def delete_expired_def flush_endpoint_usage_def run1_def s2 s1_def)
  moreover have "flow_total fa_bytes s' = flow_total fa_bytes s + (b - l)"
    using account_record_total [OF a, of tz persist now ?sid r "(new_run False s)\<lparr>run_session := s2\<rparr>"] b(2)
    by (simp add: s'_def s3_def delete_expired_def flush_endpoint_usage_def run1_def flow_total_def s2 s1_def)
  ultimately show ?thesis using pr fl by (intro exI [of _ "run1\<lparr>run_session := s3\<rparr>"] exI [of _ s']) simp
qed

text \<open>Deliveries of a connection whose counter grows, in order and before the counter row expires.\<close>

fun growing :: "counter_key \<Rightarrow> int \<Rightarrow> time \<Rightarrow> time \<Rightarrow> (time \<times> normalized_flow_record) list \<Rightarrow> bool" where
  "growing k l t expires [] = True"
| "growing k l t expires ((now, r) # xs) =
     (event_of k r \<and> l \<le> or_zero (bytes_total r) \<and> t \<le> observed_at r \<and> now \<le> expires \<and>
      growing k (or_zero (bytes_total r)) (observed_at r) (now + COUNTER_RETENTION) xs)"

text \<open>
  Cumulative counters are counted once: when the events of a connection arrive in order, with a
  counter that does not fall and at most two days apart, every delivery commits and the flow totals
  grow in all by exactly the last counter value less the one on record, however many events there were.
\<close>

theorem cumulative_counters_add_up:
  assumes "counter_stands k l t expires s" and "distinct (map fst (counter_rows s))"
    and "fst k \<in> fst ` set (collector_states s)" and "growing k l t expires xs"
    and "distinct (map (\<lambda>(now, r). event_key digest r (fst k)) xs)"
    and "list_all (\<lambda>(now, r). event_key digest r (fst k) \<notin> fst ` set (deduplication s)) xs"
  shows "\<exists>s'. deliver digest tz persist (fst k) xs s = Inr s' \<and>
     flow_total fa_bytes s' = flow_total fa_bytes s + (if xs = [] then 0 else or_zero (bytes_total (snd (last xs))) - l)"
  using assms
proof (induction xs arbitrary: s l t expires)
  case (Cons x xs)
  obtain now r where x: "x = (now, r)" by fastforce
  obtain b where b: "bytes_total r = Some b" using Cons.prems(4) by (auto simp: x event_of_def is_cumulative_def)
  have fresh: "event_key digest r (fst k) \<notin> fst ` set (deduplication s)" using Cons.prems(6) by (simp add: x)
  from Cons.prems(4) have g: "event_of k r" "l \<le> b" "t \<le> observed_at r" "now \<le> expires"
      "growing k b (observed_at r) (now + COUNTER_RETENTION) xs" by (simp_all add: x b or_zero_def)
  obtain run s1 where pr: "process_records digest tz persist now (Some (fst k)) False [r] s = Inr run"
    and fl: "flush (run_session run) = Inr s1"
    and st: "counter_stands k b (observed_at r) (now + COUNTER_RETENTION) s1" "distinct (map fst (counter_rows s1))"
      "fst k \<in> fst ` set (collector_states s1)"
    and dd: "fst ` set (deduplication s1) \<subseteq> insert (event_key digest r (fst k)) (fst ` set (deduplication s))"
    and tot: "flow_total fa_bytes s1 = flow_total fa_bytes s + (b - l)"
    using deliver_one [OF g(1) Cons.prems(1,2,3) fresh b g(2,3,4)] by blast
  have new: "event_key digest r (fst k) \<notin> (\<lambda>(now, r). event_key digest r (fst k)) ` set xs"
    using Cons.prems(5) by (simp add: x)
  have "event_key digest q (fst k) \<notin> fst ` set (deduplication s1)" if q: "(n, q) \<in> set xs" for n q
  proof -
    have "event_key digest q (fst k) \<noteq> event_key digest r (fst k)" using q new by force
    moreover have "event_key digest q (fst k) \<notin> fst ` set (deduplication s)"
      using Cons.prems(6) q by (auto simp: list_all_iff)
    ultimately show ?thesis using dd by blast
  qed
  then have "list_all (\<lambda>(now, r). event_key digest r (fst k) \<notin> fst ` set (deduplication s1)) xs"
    by (simp add: list_all_iff case_prod_unfold) (metis prod.collapse)
  from Cons.IH [OF st g(5) _ this] Cons.prems(5) obtain s' where
    "deliver digest tz persist (fst k) xs s1 = Inr s'"
    "flow_total fa_bytes s' = flow_total fa_bytes s1 + (if xs = [] then 0 else or_zero (bytes_total (snd (last xs))) - b)"
    by auto
  then show ?case using tot pr fl b by (simp add: x or_zero_def)
qed simp

section \<open>Witnesses\<close>

definition sample_flow :: "int \<Rightarrow> int \<Rightarrow> time \<Rightarrow> normalized_flow_record" where
  "sample_flow index amount at =
     \<lparr>exporter_identity = ''192.0.2.9'', source_id = 1, sequence = 7, record_index = index, observed_at = at,
      flow_start = None, flow_end = None, source_ip = Some ''192.0.2.1'', destination_ip = Some ''203.0.113.5'',
      source_port = None, destination_port = None, protocol = Some 6, input_interface = None, output_interface = None,
      translated_source_ip = None, translated_destination_ip = None, translated_source_port = None,
      translated_destination_port = None, bytes_total = Some amount, packets_total = Some 1, direction = ''unknown'',
      event_type = Some ''update'', connection_id = Some ''5'', cumulative_counters = True, data_quality = ''complete'',
      vendor = Some ''cisco_nsel'', extended_event = None, forward_bytes = None, reverse_bytes = None,
      forward_packets = None, reverse_packets = None\<rparr>"

definition sample_session :: "unit flow_session" where
  "sample_session =
     \<lparr>collector_states = [(1, fresh_state)], deduplication = [], counter_rows = [], counter_dirty = [], counter_new = [],
      flow_aggregates = [], accounting_rows = [], endpoint_rows = [], device_traffic = (),
      traffic_sources = [(1, [])], local_networks = [''192.0.2.0/24''], monitoring_enabled = Some True,
      identities = \<lparr>lease_history = [], ip_addresses = [], client_ips = [], recognised_devices = []\<rparr>\<rparr>"

definition sample_step :: "unit device_step" where
  "sample_step r b p sid x = x"

definition utc :: "time \<Rightarrow> time" where
  "utc t = 0"

theorem rollups_balance_witness:
  "case process_records id utc sample_step 0 (Some 1) False [sample_flow 0 100 0] sample_session of
     Inl e \<Rightarrow> False
   | Inr run \<Rightarrow> flow_total fa_bytes (run_session run) = 100 \<and>
       flow_total fa_bytes (run_session run) - flow_total fa_bytes sample_session =
         rollup_total ar_bytes 3600 (run_session run) - rollup_total ar_bytes 3600 sample_session"
proof -
  let ?p = "process_records id utc sample_step 0 (Some 1) False [sample_flow 0 100 0] sample_session"
  have v: "case ?p of Inl e \<Rightarrow> False | Inr run \<Rightarrow> flow_total fa_bytes (run_session run) = 100" by code_simp
  have src: "list_all (\<lambda>r. map_of (traffic_sources sample_session) (effective_source (Some 1) r) \<noteq> None) [sample_flow 0 100 0]"
    by (simp add: sample_session_def)
  show ?thesis
  proof (cases ?p)
    case (Inr run)
    from v Inr rollups_balance [OF Inr src] show ?thesis by simp
  qed (use v in simp)
qed


theorem rate_limit_holds_witness: "let_through 3 (rate_run 2 [3, 3, 3, 4] (0, 0)) \<le> 2"
  by (rule rate_limit_holds) simp_all

definition sample_counted :: "unit flow_session" where
  "sample_counted = sample_session\<lparr>counter_rows :=
     [((1, ''192.0.2.9'', ''5''), \<lparr>last_event_at = Some 0, last_bytes = Some 100, last_packets = Some 1,
       last_event_type = Some ''update'', counter_expires_at = 90\<rparr>)]\<rparr>"

definition sample_deliveries :: "(time \<times> normalized_flow_record) list" where
  "sample_deliveries = [(80, sample_flow 0 130 10), (81, sample_flow 1 150 20)]"

theorem cumulative_counters_add_up_witness:
  "\<exists>s'. deliver id utc sample_step 1 sample_deliveries sample_counted = Inr s' \<and>
     flow_total fa_bytes s' = flow_total fa_bytes sample_counted + 50"
proof -
  let ?k = "(1 :: int, ''192.0.2.9'', ''5'')"
  have st: "counter_stands ?k 100 0 90 sample_counted" by (simp add: counter_stands_def sample_counted_def sample_session_def)
  have d: "distinct (map fst (counter_rows sample_counted))" by (simp add: sample_counted_def)
  have f: "fst ?k \<in> fst ` set (collector_states sample_counted)" by (simp add: sample_counted_def sample_session_def)
  have g: "growing ?k 100 0 90 sample_deliveries" by code_simp
  have u: "distinct (map (\<lambda>(now, r). event_key id r (fst ?k)) sample_deliveries)" by code_simp
  have n: "list_all (\<lambda>(now, r). event_key id r (fst ?k) \<notin> fst ` set (deduplication sample_counted)) sample_deliveries"
    by (simp add: sample_counted_def sample_session_def sample_deliveries_def)
  have l: "(if sample_deliveries = [] then 0 else or_zero (bytes_total (snd (last sample_deliveries))) - 100) = 50"
    by (simp add: sample_deliveries_def sample_flow_def or_zero_def)
  from cumulative_counters_add_up [OF st d f g u n, of utc sample_step] show ?thesis
    unfolding l by (simp only: fst_conv)
qed

text \<open>
  Two events of a new connection in one datagram cannot be stored: with \<open>autoflush=False\<close> the query
  for the second event does not see the counter row that the first one added, so a second row with
  the same unique key is added and the flush that commits the datagram fails. The same two events in two
  datagrams commit.
\<close>

theorem two_events_of_a_new_connection_fail:
  "(case process_records id utc sample_step 0 (Some 1) False [sample_flow 0 100 0, sample_flow 1 150 1] sample_session of
      Inl e \<Rightarrow> False
    | Inr run \<Rightarrow> bc_accepted (run_counts run) = 2 \<and> isl (flush (run_session run))) \<and>
   \<not> isl (deliver id utc sample_step 1 [(0, sample_flow 0 100 0), (1, sample_flow 1 150 1)] sample_session)"
proof
  show "case process_records id utc sample_step 0 (Some 1) False [sample_flow 0 100 0, sample_flow 1 150 1] sample_session of
      Inl e \<Rightarrow> False
    | Inr run \<Rightarrow> bc_accepted (run_counts run) = 2 \<and> isl (flush (run_session run))" by code_simp
  show "\<not> isl (deliver id utc sample_step 1 [(0, sample_flow 0 100 0), (1, sample_flow 1 150 1)] sample_session)" by code_simp
qed

text \<open>The attribution of the sample flow with one lease that covers it.\<close>

definition sample_identities :: identity_db where
  "sample_identities =
     \<lparr>lease_history = [\<lparr>lh_id = 3, lh_dns_client_id = Some 4, lh_ip_address = ''192.0.2.1'', lh_started_at = 0, lh_expires_at = None\<rparr>],
      ip_addresses = [], client_ips = [], recognised_devices = [(4, Some 8)]\<rparr>"

theorem attribution_is_unambiguous_witness:
  "attr_ip_record_id (resolve_flow_attribution sample_identities (sample_flow 0 100 5) None) = Some 8 \<and>
   (\<exists>addr l. source_ip (sample_flow 0 100 5) = Some addr \<and> lease_candidates sample_identities addr 5 = [l])"
proof -
  have r: "attr_state (resolve_flow_attribution sample_identities (sample_flow 0 100 5) None) = ''resolved''" by code_simp
  have i: "attr_ip_record_id (resolve_flow_attribution sample_identities (sample_flow 0 100 5) None) = Some 8" by code_simp
  have n: "lease_candidates sample_identities ''192.0.2.1'' 5 \<noteq> []" by code_simp
  have a: "source_ip (sample_flow 0 100 5) = Some ''192.0.2.1''" "observed_at (sample_flow 0 100 5) = 5"
    by (simp_all add: sample_flow_def)
  from attribution_is_unambiguous [OF r] n show ?thesis unfolding a by (auto simp: i present_def)
qed

end
