(* ===== verification/Client_IP.thy ===== *)
theory Client_IP
  imports Kaya_Ip
begin

text \<open>
  Who is calling (\<open>app/services/client_ip.py\<close>): the trusted-proxy list, the forwarding headers, the
  original client behind a chain of trusted proxies, and the middleware that rewrites a request's
  scope before the application sees it. Header values are latin-1 text, so the white space and
  digits that Python recognises beyond ASCII are written out.
\<close>

section \<open>The trusted proxies\<close>

definition FORWARDED_HEADER_NAMES :: "string list" where
  "FORWARDED_HEADER_NAMES =
     [''forwarded'', ''x-forwarded-for'', ''x-forwarded-host'', ''x-forwarded-port'', ''x-forwarded-proto'',
      ''x-real-ip'', ''cf-connecting-ip'']"

record client_ip_details =
  client_ip :: "string option"
  immediate_ip :: "string option"
  forwarded_for :: "string option"
  trusted_proxy :: bool
  trusted_proxy_config :: string
  details_source :: string

definition split_trusted_proxies :: "string \<Rightarrow> string list" where
  "split_trusted_proxies value = filter (\<lambda>p. p \<noteq> []) (map strip1 (split_on (CHR '','') value))"

definition validate_trusted_proxies :: "string \<Rightarrow> string list" where
  "validate_trusted_proxies value =
     filter (\<lambda>entry. entry = ''*'' \<or> ip_network entry = None) (split_trusted_proxies value)"

definition entry_trusts :: "ip_addr \<Rightarrow> string \<Rightarrow> bool" where
  "entry_trusts a entry =
     (entry = ''*'' \<or> (case ip_network entry of None \<Rightarrow> False | Some net \<Rightarrow> in_net a net))"

definition ip_is_trusted :: "string option \<Rightarrow> string \<Rightarrow> bool" where
  "ip_is_trusted v trusted =
     (case v of
        None \<Rightarrow> False
      | Some s \<Rightarrow>
          s \<noteq> [] \<and>
          (case ip_address s of
             None \<Rightarrow> False
           | Some a \<Rightarrow> list_ex (entry_trusts a) (split_trusted_proxies trusted)))"

section \<open>Forwarding headers\<close>

text \<open>\<open>host:port\<close> with exactly one colon and a numeric port loses its port.\<close>

definition drop_port :: "string \<Rightarrow> string" where
  "drop_port s =
     (case split_on (CHR '':'') s of
        [host, port] \<Rightarrow> if port \<noteq> [] \<and> list_all is_digit1 port then host else s
      | _ \<Rightarrow> s)"

definition clean_ip :: "string \<Rightarrow> string option" where
  "clean_ip v =
     (let candidate = strip_chars (\<lambda>c. c = CHR ''\"'') (strip1 v)
      in if lower candidate = ''unknown'' \<or> startswith ''_'' candidate then None
         else
           (let host = (if startswith ''['' candidate \<and> CHR '']'' \<in> set candidate
                        then takeWhile (\<lambda>c. c \<noteq> CHR '']'') (drop 1 candidate)
                        else drop_port candidate)
            in map_option ip_text (ip_address host)))"

text \<open>The search for \<open>(?:^|;)\s*for=([^;]+)\<close>: at the start, then after every semicolon.\<close>

definition for_here :: "string \<Rightarrow> string option" where
  "for_here s =
     (let r = dropWhile is_space1 s; v = takeWhile (\<lambda>c. c \<noteq> CHR '';'') (drop 4 r)
      in if lower (take 4 r) = ''for='' \<and> v \<noteq> [] then Some v else None)"

fun for_scan :: "string \<Rightarrow> string option" where
  "for_scan [] = None"
| "for_scan (c # cs) = (if c = CHR '';'' then or_else (for_here cs) (for_scan cs) else for_scan cs)"

definition for_parameter :: "string \<Rightarrow> string option" where
  "for_parameter s = or_else (for_here s) (for_scan s)"

type_synonym headers = "(string \<times> string) list"

text \<open>\<open>{name.lower(): value}\<close>: a repeated header keeps its last value; a missing one is empty.\<close>

definition header :: "headers \<Rightarrow> string \<Rightarrow> string" where
  "header hs name = (case map_of (rev (map (\<lambda>(n, v). (lower n, v)) hs)) name of None \<Rightarrow> [] | Some v \<Rightarrow> v)"

definition single_chain :: "string \<Rightarrow> string list" where
  "single_chain raw = (case clean_ip raw of None \<Rightarrow> [] | Some ip \<Rightarrow> [ip])"

definition forwarded_chain :: "headers \<Rightarrow> string list \<times> string option \<times> string" where
  "forwarded_chain hs =
     (let xff = strip1 (header hs ''x-forwarded-for''); fwd = strip1 (header hs ''forwarded'');
          real = strip1 (header hs ''x-real-ip''); cf = strip1 (header hs ''cf-connecting-ip'')
      in if xff \<noteq> [] then (List.map_filter clean_ip (split_on (CHR '','') xff), Some xff, ''X-Forwarded-For'')
         else if fwd \<noteq> [] then
           (List.map_filter (\<lambda>item. case for_parameter item of None \<Rightarrow> None | Some v \<Rightarrow> clean_ip v)
              (split_on (CHR '','') fwd), Some fwd, ''Forwarded'')
         else if real \<noteq> [] then (single_chain real, Some real, ''X-Real-IP'')
         else if cf \<noteq> [] then (single_chain cf, Some cf, ''CF-Connecting-IP'')
         else ([], None, ''socket''))"

definition original_client :: "string list \<Rightarrow> string \<Rightarrow> string option" where
  "original_client chain trusted =
     (case find (\<lambda>c. \<not> ip_is_trusted (Some c) trusted) (rev chain) of
        Some c \<Rightarrow> Some c
      | None \<Rightarrow> (case chain of [] \<Rightarrow> None | c # _ \<Rightarrow> Some c))"

section \<open>Requests\<close>

record scope =
  scope_type :: string
  scope_client :: "(string \<times> int) option"
  scope_headers :: headers
  scope_scheme :: string
  scope_details :: "client_ip_details option"

definition inspect_client_ip :: "scope \<Rightarrow> string \<Rightarrow> client_ip_details" where
  "inspect_client_ip sc trusted =
     (let imm = map_option fst (scope_client sc);
          (chain, forwarded, src) = forwarded_chain (scope_headers sc);
          proxy = ip_is_trusted imm trusted
      in \<lparr>client_ip = (if proxy \<and> chain \<noteq> [] then original_client chain trusted else imm),
          immediate_ip = imm, forwarded_for = forwarded, trusted_proxy = proxy, trusted_proxy_config = trusted,
          details_source = (if proxy \<and> chain \<noteq> [] then src else ''socket'')\<rparr>)"

definition is_forwarding :: "string \<times> string \<Rightarrow> bool" where
  "is_forwarding nv \<longleftrightarrow> lower (fst nv) \<in> set FORWARDED_HEADER_NAMES"

text \<open>The scope that the middleware passes on.\<close>

definition trusted_proxy_middleware :: "string \<Rightarrow> scope \<Rightarrow> scope" where
  "trusted_proxy_middleware trusted sc =
     (if scope_type sc \<notin> {''http'', ''websocket''} then sc
      else
        (let details = inspect_client_ip sc trusted; sc1 = sc\<lparr>scope_details := Some details\<rparr>
         in if trusted_proxy details then
              (let proto = strip1 (hd (split_on (CHR '','') (header (scope_headers sc) ''x-forwarded-proto'')));
                   sc2 = (case (client_ip details, scope_client sc) of
                            (Some ip, Some (_, port)) \<Rightarrow> if ip \<noteq> [] then sc1\<lparr>scope_client := Some (ip, port)\<rparr> else sc1
                          | _ \<Rightarrow> sc1)
               in if proto \<in> {''http'', ''https'', ''ws'', ''wss''} then sc2\<lparr>scope_scheme := proto\<rparr> else sc2)
            else sc1\<lparr>scope_headers := filter (\<lambda>nv. \<not> is_forwarding nv) (scope_headers sc)\<rparr>))"

definition client_ip_of :: "(unit \<Rightarrow> string) \<Rightarrow> scope \<Rightarrow> string option" where
  "client_ip_of forwarded_allow_ips sc =
     client_ip (case scope_details sc of Some d \<Rightarrow> d | None \<Rightarrow> inspect_client_ip sc (forwarded_allow_ips ()))"

section \<open>Splitting a header list\<close>

lemma split_on_Cons_eq:
  "split_on c (x # s) = (if x = c then [] # split_on c s else (x # hd (split_on c s)) # tl (split_on c s))"
  by (cases "split_on c s") auto

lemma split_on_sep: "split_on c (s @ c # t) = split_on c s @ split_on c t"
proof (induction s)
  case (Cons x s)
  then show ?case by (cases "split_on c s") (auto simp: split_on_Cons_eq simp del: split_on.simps(2))
qed simp

lemma split_on_join: "ps \<noteq> [] \<Longrightarrow> list_all (\<lambda>p. c \<notin> set p) ps \<Longrightarrow> split_on c (join [c] ps) = ps"
proof (induction ps rule: induct_list012)
  case (3 x y zs)
  then show ?case by (simp add: split_on_append)
qed (simp_all add: split_on_id)

lemma split_on_snoc:
  "split_on c (s @ [x]) = (if x = c then split_on c s @ [[]] else butlast (split_on c s) @ [last (split_on c s) @ [x]])"
proof (induction s)
  case (Cons y s)
  have "last (split_on c s) = last (hd (split_on c s) # tl (split_on c s))" by simp
  with Cons show ?case
    by (cases "split_on c s") (auto simp: split_on_Cons_eq simp del: split_on.simps(2))
qed simp

lemma split_on_rev: "split_on c (rev s) = rev (map rev (split_on c s))"
proof (induction s)
  case (Cons x s)
  obtain p ps where ps: "split_on c s = p # ps" by (cases "split_on c s") auto
  with Cons show ?case by (simp add: split_on_snoc butlast_append)
qed simp

lemma split_on_dropWhile:
  assumes "\<not> q c"
  shows "split_on c (dropWhile q s) = dropWhile q (hd (split_on c s)) # tl (split_on c s)"
proof (induction s)
  case (Cons x s)
  then show ?case using assms by (cases "split_on c s") auto
qed simp

section \<open>Stripping\<close>

lemma rstrip_Cons:
  "rev (dropWhile p (rev (y # s))) = (if list_all p (y # s) then [] else y # rev (dropWhile p (rev s)))"
  by (auto simp: dropWhile_append list_all_iff dropWhile_eq_Nil_conv)

lemma dropWhile_rstrip: "dropWhile p (rev (dropWhile p (rev s))) = rev (dropWhile p (rev (dropWhile p s)))"
proof (induction s)
  case (Cons y s)
  have n: "dropWhile p s = []" if "list_all p s" using that by (simp add: list_all_iff dropWhile_eq_Nil_conv)
  show ?case
  proof (cases "p y")
    case True
    show ?thesis
    proof (cases "list_all p s")
      case True
      then have "rev (dropWhile p (rev (y # s))) = []" using \<open>p y\<close> by (simp add: rstrip_Cons del: rev.simps)
      moreover have "dropWhile p (y # s) = []" using n [OF True] \<open>p y\<close> by simp
      ultimately show ?thesis by (simp only: dropWhile.simps rev.simps)
    next
      case False
      then have "rev (dropWhile p (rev (y # s))) = y # rev (dropWhile p (rev s))" by (simp only: rstrip_Cons) simp
      then show ?thesis using Cons \<open>p y\<close> by simp
    qed
  next
    case False
    then show ?thesis by (simp add: rstrip_Cons del: rev.simps)
  qed
qed simp

lemma strip_chars_lstrip [simp]: "strip_chars p (dropWhile p s) = strip_chars p s"
  by (simp add: strip_chars_def)

lemma strip_chars_rstrip [simp]: "strip_chars p (rev (dropWhile p (rev s))) = strip_chars p s"
  by (simp add: strip_chars_def dropWhile_rstrip)

lemma clean_ip_strip [simp]:
  "clean_ip (dropWhile is_space1 s) = clean_ip s" "clean_ip (rev (dropWhile is_space1 (rev s))) = clean_ip s"
  by (simp_all add: clean_ip_def)

lemma map_split_on_lstrip:
  assumes "\<And>s. f (dropWhile q s) = f s" and "\<not> q c"
  shows "map f (split_on c (dropWhile q s)) = map f (split_on c s)"
proof -
  obtain p ps where "split_on c s = p # ps" by (cases "split_on c s") auto
  then show ?thesis using assms by (simp add: split_on_dropWhile)
qed

lemma map_split_on_strip:
  assumes "\<And>s. f (dropWhile q s) = f s" and "\<And>s. f (rev (dropWhile q (rev s))) = f s" and "\<not> q c"
  shows "map f (split_on c (strip_chars q s)) = map f (split_on c s)"
proof -
  let ?w = "dropWhile q s"
  have r: "(f \<circ> rev) (dropWhile q x) = (f \<circ> rev) x" for x
    using assms(2) [of "rev x"] by simp
  have "map f (split_on c (strip_chars q s)) = rev (map (f \<circ> rev) (split_on c (dropWhile q (rev ?w))))"
    by (simp add: strip_chars_def split_on_rev rev_map)
  also have "\<dots> = rev (map (f \<circ> rev) (split_on c (rev ?w)))"
    by (subst map_split_on_lstrip [of "f \<circ> rev" q]) (rule r assms(3) refl)+
  also have "\<dots> = map f (split_on c ?w)" by (simp add: split_on_rev rev_map)
  also have "\<dots> = map f (split_on c s)" by (rule map_split_on_lstrip) (rule assms)+
  finally show ?thesis .
qed

lemma map_filter_via_map: "List.map_filter f xs = List.map_filter id (map f xs)"
  by (simp add: List.map_filter_def comp_def filter_map)

lemma comma_not_space [simp]: "\<not> is_space1 (CHR '','')"
  by code_simp

lemma chain_strip:
  "List.map_filter clean_ip (split_on (CHR '','') (strip1 v)) = List.map_filter clean_ip (split_on (CHR '','') v)"
proof -
  have "map clean_ip (split_on (CHR '','') (strip1 v)) = map clean_ip (split_on (CHR '','') v)"
    by (rule map_split_on_strip) simp_all
  then show ?thesis by (metis map_filter_via_map)
qed

lemma clean_ip_empty: "clean_ip [] = None"
  by code_simp

lemma map_filter_append: "List.map_filter f (xs @ ys) = List.map_filter f xs @ List.map_filter f ys"
  by (simp add: List.map_filter_def)

section \<open>Spoofed headers\<close>

lemma original_client_rightmost:
  assumes "\<not> ip_is_trusted (Some r) trusted" and "list_all (\<lambda>p. ip_is_trusted (Some p) trusted) ps"
  shows "original_client (cs @ r # ps) trusted = Some r"
proof -
  have "find (\<lambda>c. \<not> ip_is_trusted (Some c) trusted) (rev ps @ r # rev cs) = Some r"
    using assms by (induction ps rule: rev_induct) auto
  then show ?thesis by (simp add: original_client_def)
qed

lemma map_filter_cleaned: "list_all2 (\<lambda>x y. f x = Some y) xs ys \<Longrightarrow> List.map_filter f xs = ys"
  by (induction rule: list_all2_induct) (auto simp: List.map_filter_def)

text \<open>
  C38. A client cannot choose its own address: behind trusted proxies, each of which appends the address
  it was called from to \<open>X-Forwarded-For\<close>, the application sees the address that the outermost proxy
  appended, whatever text the client had put into the header itself.
\<close>

theorem spoofed_forwarding_is_ignored:
  assumes "scope_type sc \<in> {''http'', ''websocket''}"
    and "ip_is_trusted (map_option fst (scope_client sc)) trusted"
    and "header (scope_headers sc) ''x-forwarded-for'' = spoof @ CHR '','' # join '','' (real # hops)"
    and "list_all (\<lambda>p. CHR '','' \<notin> set p) (real # hops)"
    and "clean_ip real = Some r" and "\<not> ip_is_trusted (Some r) trusted"
    and "list_all2 (\<lambda>h p. clean_ip h = Some p) hops ps" and "list_all (\<lambda>p. ip_is_trusted (Some p) trusted) ps"
  shows "client_ip_of cfg (trusted_proxy_middleware trusted sc) = Some r"
proof -
  let ?v = "header (scope_headers sc) ''x-forwarded-for''" and ?c = "CHR '',''"
  let ?spoofed = "List.map_filter clean_ip (split_on ?c spoof)"
  have "split_on ?c ?v = split_on ?c spoof @ real # hops"
    unfolding assms(3) split_on_sep by (subst split_on_join) (use assms(4) in simp_all)
  moreover have "List.map_filter clean_ip (real # hops) = r # ps"
    using assms(5) map_filter_cleaned [OF assms(7)] by (simp add: List.map_filter_simps)
  ultimately have chain: "List.map_filter clean_ip (split_on ?c (strip1 ?v)) = ?spoofed @ r # ps"
    unfolding chain_strip by (simp add: map_filter_append)
  then have "strip1 ?v \<noteq> []" by (auto simp: List.map_filter_simps clean_ip_empty)
  then have f: "forwarded_chain (scope_headers sc) = (?spoofed @ r # ps, Some (strip1 ?v), ''X-Forwarded-For'')"
    by (simp add: forwarded_chain_def chain)
  have "client_ip (inspect_client_ip sc trusted) = Some r \<and> trusted_proxy (inspect_client_ip sc trusted)"
    using assms(2) original_client_rightmost [OF assms(6,8), of ?spoofed]
    by (simp add: inspect_client_ip_def f)
  with assms(1) show ?thesis
    by (auto simp: client_ip_of_def trusted_proxy_middleware_def Let_def split: option.splits)
qed

text \<open>
  Forwarding headers from a peer that is not a trusted proxy have no effect: the client is the
  socket's peer, no such header reaches the application, and a request with other forwarding headers
  gives the same scope, apart from the raw header text kept for display.
\<close>

theorem untrusted_forwarding_is_stripped:
  assumes "scope_type sc \<in> {''http'', ''websocket''}"
    and "\<not> ip_is_trusted (map_option fst (scope_client sc)) trusted"
  shows "client_ip_of cfg (trusted_proxy_middleware trusted sc) = map_option fst (scope_client sc) \<and>
         list_all (\<lambda>nv. \<not> is_forwarding nv) (scope_headers (trusted_proxy_middleware trusted sc)) \<and>
         (\<forall>hs. filter (\<lambda>nv. \<not> is_forwarding nv) hs = filter (\<lambda>nv. \<not> is_forwarding nv) (scope_headers sc) \<longrightarrow>
            (let out = trusted_proxy_middleware trusted sc; out' = trusted_proxy_middleware trusted (sc\<lparr>scope_headers := hs\<rparr>)
             in out'\<lparr>scope_details := map_option (forwarded_for_update (\<lambda>_. None)) (scope_details out')\<rparr> =
                out\<lparr>scope_details := map_option (forwarded_for_update (\<lambda>_. None)) (scope_details out)\<rparr>))"
  using assms
  by (auto simp: trusted_proxy_middleware_def inspect_client_ip_def client_ip_of_def Let_def list_all_iff
      split: prod.splits)

text \<open>
  A trusted-proxy setting that passes validation trusts exactly the addresses inside the networks
  it lists: an IPv4 peer is trusted iff one of the entries is a network of at most \<open>2 ^ 32\<close>
  addresses, starting at its network address, with the peer in it. No entry trusts everyone.
\<close>

theorem validated_proxies_are_intervals:
  assumes "validate_trusted_proxies trusted = []" and "parse_ipv4 s = Some n"
  shows "ip_is_trusted (Some s) trusted \<longleftrightarrow>
         (\<exists>entry \<in> set (split_trusted_proxies trusted). \<exists>net. ip_network entry = Some net \<and> net_bits net = 32 \<and>
            net_address net \<le> n \<and> n < net_address net + net_size 32 (net_prefix net))"
proof -
  have ne: "s \<noteq> []" using assms(2) by (auto simp: parse_ipv4_def parse_octet_def)
  have entry: "entry \<noteq> ''*'' \<and> ip_network entry \<noteq> None" if "entry \<in> set (split_trusted_proxies trusted)" for entry
    using assms(1) that by (auto simp: validate_trusted_proxies_def filter_empty_conv)
  have iv: "in_net (IPv4 n) net \<longleftrightarrow> net_bits net = 32 \<and> net_address net \<le> n \<and> n < net_address net + net_size 32 (net_prefix net)"
    if net: "ip_network e = Some net" for e net
  proof (cases "net_bits net = 32")
    case True
    then obtain m where "net_address net = m div net_size 32 (net_prefix net) * net_size 32 (net_prefix net)"
      using ip_network_address [OF net] by auto
    then show ?thesis using True in_net_interval [of "net_size 32 (net_prefix net)" n m] by simp
  qed simp
  have one: "entry_trusts (IPv4 n) e \<longleftrightarrow>
      (\<exists>net. ip_network e = Some net \<and> net_bits net = 32 \<and> net_address net \<le> n \<and> n < net_address net + net_size 32 (net_prefix net))"
    if e: "e \<in> set (split_trusted_proxies trusted)" for e
  proof -
    obtain net where net: "ip_network e = Some net" and "e \<noteq> ''*''" using entry [OF e] by auto
    then show ?thesis using iv [OF net] by (simp add: entry_trusts_def)
  qed
  have "ip_is_trusted (Some s) trusted \<longleftrightarrow> (\<exists>e \<in> set (split_trusted_proxies trusted). entry_trusts (IPv4 n) e)"
    using ne by (simp add: ip_is_trusted_def ip_address_ipv4 [OF assms(2)] list_ex_iff)
  then show ?thesis using one by blast
qed

section \<open>Witnesses\<close>

text \<open>A request through two proxies of 10.0.0.0/8, with a spoofed first entry.\<close>

definition sample_trusted :: string where
  "sample_trusted = ''10.0.0.0/8, 192.0.2.7''"

definition sample_scope :: "string \<Rightarrow> scope" where
  "sample_scope peer =
     \<lparr>scope_type = ''http'', scope_client = Some (peer, 4711),
      scope_headers = [(''Host'', ''kaya''), (''X-Forwarded-For'', ''127.0.0.1, 203.0.113.5, 10.0.0.2'')],
      scope_scheme = ''http'', scope_details = None\<rparr>"

theorem spoofed_forwarding_is_ignored_witness:
  "client_ip_of (\<lambda>_. []) (trusted_proxy_middleware sample_trusted (sample_scope ''10.0.0.1'')) = Some ''203.0.113.5''"
proof (rule spoofed_forwarding_is_ignored [where spoof = "''127.0.0.1''" and real = "'' 203.0.113.5''"
      and hops = "['' 10.0.0.2'']" and ps = "[''10.0.0.2'']"])
  show "scope_type (sample_scope ''10.0.0.1'') \<in> {''http'', ''websocket''}" by (simp add: sample_scope_def)
  show "ip_is_trusted (map_option fst (scope_client (sample_scope ''10.0.0.1''))) sample_trusted" by code_simp
  show "header (scope_headers (sample_scope ''10.0.0.1'')) ''x-forwarded-for'' =
      ''127.0.0.1'' @ CHR '','' # join '','' ('' 203.0.113.5'' # ['' 10.0.0.2''])" by code_simp
  show "list_all (\<lambda>p. CHR '','' \<notin> set p) ('' 203.0.113.5'' # ['' 10.0.0.2''])" by code_simp
  show "clean_ip '' 203.0.113.5'' = Some ''203.0.113.5''" by code_simp
  show "\<not> ip_is_trusted (Some ''203.0.113.5'') sample_trusted" by code_simp
  show "list_all2 (\<lambda>h p. clean_ip h = Some p) ['' 10.0.0.2''] [''10.0.0.2'']" by code_simp
  show "list_all (\<lambda>p. ip_is_trusted (Some p) sample_trusted) [''10.0.0.2'']" by code_simp
qed

theorem untrusted_forwarding_is_stripped_witness:
  "client_ip_of (\<lambda>_. []) (trusted_proxy_middleware sample_trusted (sample_scope ''203.0.113.5'')) = Some ''203.0.113.5''"
proof -
  have "scope_type (sample_scope ''203.0.113.5'') \<in> {''http'', ''websocket''}" by (simp add: sample_scope_def)
  moreover have "\<not> ip_is_trusted (map_option fst (scope_client (sample_scope ''203.0.113.5''))) sample_trusted" by code_simp
  ultimately have "client_ip_of (\<lambda>_. []) (trusted_proxy_middleware sample_trusted (sample_scope ''203.0.113.5'')) =
      map_option fst (scope_client (sample_scope ''203.0.113.5''))"
    using untrusted_forwarding_is_stripped by blast
  then show ?thesis by (simp add: sample_scope_def)
qed

theorem validated_proxies_are_intervals_witness:
  "ip_is_trusted (Some ''10.1.2.3'') sample_trusted \<and>
   (\<exists>entry \<in> set (split_trusted_proxies sample_trusted). \<exists>net. ip_network entry = Some net \<and> net_bits net = 32 \<and>
      net_address net \<le> the (parse_ipv4 ''10.1.2.3'') \<and>
      the (parse_ipv4 ''10.1.2.3'') < net_address net + net_size 32 (net_prefix net))"
proof -
  have v: "validate_trusted_proxies sample_trusted = []" by code_simp
  have p: "parse_ipv4 ''10.1.2.3'' = Some (the (parse_ipv4 ''10.1.2.3''))" by code_simp
  have t: "ip_is_trusted (Some ''10.1.2.3'') sample_trusted" by code_simp
  from t validated_proxies_are_intervals [OF v p] show ?thesis by blast
qed

end
