(* ===== verification/Notify_Model.thy ===== *)
theory Notify_Model
  imports Kaya_Json
begin

text \<open>
  The rows of the notification pipeline (\<open>app/models/models.py\<close>), its catalogue of event types
  (\<open>app/services/notification_registry.py\<close>), the text checks it shares, and the module allocations that decide who is
  told (\<open>app/services/modules.py\<close>). A JSON column is kept parsed: \<open>json.loads\<close> gives back what
  \<open>json.dumps\<close> wrote. A setting is what \<open>get_site_setting\<close> answers for its key in the running
  transaction. Columns that the pipeline neither reads nor writes are left out.
\<close>

section \<open>The catalogue\<close>

record notification_type =
  nt_identifier :: string
  nt_module :: string
  category :: string
  nt_display_name :: string
  default_severity :: string
  recovery :: bool
  sensitive_payload :: bool

definition ROWS :: "(string \<times> string \<times> string \<times> string \<times> string) list" where
  "ROWS =
     [(''system.notification.test'', ''system'', ''system'', ''Notification diagnostic'', ''info''),
      (''system.web_push.keys_rotated'', ''system'', ''security'', ''Web Push keys rotated'', ''warning''),
      (''system.update.available'', ''system'', ''system'', ''Kaya update available'', ''info''),
      (''system.background_task.failed'', ''system'', ''system'', ''Background task failure'', ''critical''),
      (''system.security.warning'', ''system'', ''security'', ''Security warning'', ''critical''),
      (''system.data_integrity.critical_findings'', ''system'', ''system'', ''Critical data integrity findings'', ''critical''),
      (''ipwan.host.offline'', ''network_monitor'', ''host_status'', ''Host offline'', ''critical''),
      (''ipwan.host.recovered'', ''network_monitor'', ''host_status'', ''Host recovered'', ''success''),
      (''ipwan.wan.offline'', ''network_monitor'', ''wan_status'', ''WAN offline'', ''critical''),
      (''ipwan.wan.recovered'', ''network_monitor'', ''wan_status'', ''WAN recovered'', ''success''),
      (''ipwan.latency.threshold_exceeded'', ''network_monitor'', ''performance'', ''High latency'', ''warning''),
      (''ipwan.packet_loss.threshold_exceeded'', ''network_monitor'', ''performance'', ''Packet loss threshold exceeded'', ''warning''),
      (''ipwan.monitoring.failed'', ''network_monitor'', ''monitoring'', ''Monitoring failure'', ''critical''),
      (''backup.job.failed'', ''backup_manager'', ''backup'', ''Backup failed'', ''critical''),
      (''backup.job.warning'', ''backup_manager'', ''backup'', ''Backup completed with warnings'', ''warning''),
      (''backup.job.overdue'', ''backup_manager'', ''backup'', ''Backup overdue'', ''warning''),
      (''pihole.cluster.degraded'', ''high_availability'', ''pihole'', ''Pi-hole cluster degraded'', ''warning''),
      (''pihole.cluster.recovered'', ''high_availability'', ''pihole'', ''Pi-hole cluster recovered'', ''success''),
      (''pihole.node.unreachable'', ''high_availability'', ''pihole'', ''Pi-hole node unreachable'', ''critical''),
      (''pihole.failover.started'', ''high_availability'', ''pihole'', ''Failover started'', ''warning''),
      (''pihole.failover.completed'', ''high_availability'', ''pihole'', ''Failover completed'', ''success''),
      (''pihole.failover.failed'', ''high_availability'', ''pihole'', ''Failover failed'', ''critical''),
      (''pihole.failback.started'', ''high_availability'', ''pihole'', ''Failback started'', ''warning''),
      (''pihole.failback.completed'', ''high_availability'', ''pihole'', ''Failback completed'', ''success''),
      (''pihole.failback.failed'', ''high_availability'', ''pihole'', ''Failback failed'', ''critical''),
      (''pihole.sync.failed'', ''high_availability'', ''pihole'', ''Synchronisation failed'', ''critical''),
      (''certificate.expiring'', ''domain_manager'', ''certificate'', ''Certificate expiring'', ''warning''),
      (''certificate.expired'', ''domain_manager'', ''certificate'', ''Certificate expired'', ''critical''),
      (''licence.expiring'', ''licence_manager'', ''licence'', ''Licence expiring'', ''warning''),
      (''licence.expired'', ''licence_manager'', ''licence'', ''Licence expired'', ''critical''),
      (''secure_vault.security_event'', ''secret_vault'', ''vault_security'', ''Vault security event'', ''critical''),
      (''secure_vault.backup_failed'', ''secret_vault'', ''vault_security'', ''Vault backup failed'', ''critical''),
      (''secure_send.item.accessed'', ''secure_send'', ''secure_send'', ''Secure item accessed'', ''info''),
      (''secure_send.item.expired'', ''secure_send'', ''secure_send'', ''Secure item expired'', ''info''),
      (''secure_send.item.revoked'', ''secure_send'', ''secure_send'', ''Secure item revoked'', ''warning'')]"

text \<open>\<open>s.endswith(p)\<close>.\<close>

definition endswith :: "string \<Rightarrow> string \<Rightarrow> bool" where
  "endswith p s \<longleftrightarrow> suffix p s"

definition catalogue_entry :: "string \<times> string \<times> string \<times> string \<times> string \<Rightarrow> notification_type" where
  "catalogue_entry row =
     (case row of (ident, m, cat, disp, sev) \<Rightarrow>
       \<lparr>nt_identifier = ident, nt_module = m, category = cat, nt_display_name = disp, default_severity = sev,
        recovery = endswith ''.recovered'' ident,
        sensitive_payload = startswith ''secure_vault.'' ident \<or> startswith ''secure_send.'' ident\<rparr>)"

definition EVENT_TYPES :: "(string \<times> notification_type) list" where
  "EVENT_TYPES = map (\<lambda>row. (fst row, catalogue_entry row)) ROWS"

definition SEVERITY_ORDER :: "(string \<times> int) list" where
  "SEVERITY_ORDER = [(''info'', 0), (''success'', 1), (''warning'', 2), (''critical'', 3)]"

text \<open>
  The errors of the pipeline: an unknown event type, a severity outside the catalogue, a target that
  is not a Kaya route, a text field that is empty, too long or has control characters, metadata of a type that cannot be looked up, and a
  failure of the database while rows are written.
\<close>

datatype notify_error =
    UnknownEventType
  | InvalidSeverity
  | UnsafeTarget
  | InvalidText string
  | UnhashableMetadata
  | DatabaseError

definition event_type :: "string \<Rightarrow> notify_error + notification_type" where
  "event_type ident = (case map_of EVENT_TYPES ident of None \<Rightarrow> Inl UnknownEventType | Some d \<Rightarrow> Inr d)"

section \<open>Text checks\<close>

definition route_char :: "char \<Rightarrow> bool" where
  "route_char c \<longleftrightarrow> is_upper c \<or> is_lower c \<or> is_digit c \<or> c \<in> {CHR ''/'', CHR ''_'', CHR ''-''}"

text \<open>
  \<open>SAFE_ROUTE.fullmatch\<close>. A text that matches has no colon, question mark or hash, so \<open>urlsplit\<close> gives it
  no scheme, query or fragment, and a network location only when it begins with two slashes.
\<close>

definition SAFE_ROUTE :: "string \<Rightarrow> bool" where
  "SAFE_ROUTE s \<longleftrightarrow> (case s of [] \<Rightarrow> False | c # cs \<Rightarrow> c = CHR ''/'' \<and> list_all route_char cs \<and> length cs \<le> 480)"

definition safe_target_route :: "string option \<Rightarrow> notify_error + string option" where
  "safe_target_route v =
     (case v of
        None \<Rightarrow> Inr None
      | Some s \<Rightarrow>
          if s = [] then Inr None
          else if length s > 500 \<or> \<not> SAFE_ROUTE s then Inl UnsafeTarget
          else if startswith ''//'' s then Inl UnsafeTarget
          else Inr (Some s))"

text \<open>\<open>_clean\<close> and \<open>_clean_text\<close> differ only in the wording of the error.\<close>

definition clean_field :: "string option \<Rightarrow> nat \<Rightarrow> string \<Rightarrow> notify_error + string" where
  "clean_field v maximum field =
     (let cleaned = squeeze (case v of None \<Rightarrow> [] | Some s \<Rightarrow> s)
      in if cleaned = [] \<or> length cleaned > maximum \<or> list_ex is_control cleaned
         then Inl (InvalidText field) else Inr cleaned)"

definition is_scalar :: "json \<Rightarrow> bool" where
  "is_scalar v = (case v of JList _ \<Rightarrow> False | JObj _ \<Rightarrow> False | _ \<Rightarrow> True)"

definition shorten :: "json \<Rightarrow> json" where
  "shorten v = (case v of JStr s \<Rightarrow> JStr (take 500 s) | _ \<Rightarrow> v)"

definition safe_metadata :: "(string \<times> json) list \<Rightarrow> (string \<times> json) list" where
  "safe_metadata metadata =
     foldl (\<lambda>result (key, value). if is_scalar value then dict_put (take 80 key) (shorten value) result else result)
       [] (take 20 metadata)"

section \<open>Rows\<close>

record account =
  user_id :: int
  user_email :: string
  user_role :: string
  user_active :: bool

record module_permission =
  perm_user :: int
  perm_module :: string
  perm_allowed :: bool

record category_policy =
  pol_event_type :: string
  pol_enabled :: bool
  in_app_allowed :: bool
  push_allowed :: bool
  email_allowed :: bool
  pol_minimum_severity :: string
  user_can_opt_out :: bool
  pol_recovery_enabled :: bool
  default_enabled :: bool

record preference =
  pref_user :: int
  pref_event_type :: string
  in_app_enabled :: bool
  push_enabled :: bool
  email_enabled :: bool
  pref_minimum_severity :: string
  pref_recovery_enabled :: bool
  quiet_hours_start :: "string option"
  quiet_hours_end :: "string option"
  pref_timezone :: string

record push_subscription =
  sub_id :: int
  sub_user :: int
  sub_status :: string
  sub_revoked_at :: "time option"
  sub_last_used_at :: "time option"
  sub_last_success_at :: "time option"
  sub_last_failure_at :: "time option"
  sub_failure_count :: int

record notification_event =
  ev_id :: int
  ev_type :: string
  ev_module :: string
  ev_category :: string
  ev_severity :: string
  ev_title :: string
  ev_message :: string
  ev_metadata :: "(string \<times> json) list option"
  ev_target_route :: "string option"
  ev_source_type :: "string option"
  ev_source_id :: "string option"
  ev_deduplication_key :: "string option"
  ev_created_by :: "int option"
  ev_correlation_id :: "string option"
  ev_created_at :: time
  ev_resolved_at :: "time option"

record user_notification =
  un_id :: int
  un_event :: int
  un_user :: int
  un_read_at :: "time option"
  un_created_at :: time

record delivery_attempt =
  at_id :: int
  at_notification :: int
  at_channel :: string
  at_subscription :: "int option"
  at_attempted_at :: time
  at_created_at :: time
  at_processing_started_at :: "time option"
  at_accepted_at :: "time option"
  at_status :: string
  at_retry_count :: int
  at_next_retry_at :: "time option"
  at_failure :: "string option"

record outbox_row =
  ob_id :: int
  ob_event_type :: string
  ob_title :: string
  ob_message :: string
  ob_target_route :: "string option"
  ob_source_type :: "string option"
  ob_source_id :: "string option"
  ob_deduplication_key :: "string option"
  ob_resolve_key :: "string option"
  ob_recipient_ids :: "int list option"
  ob_severity :: "string option"
  ob_metadata :: "(string \<times> json) list option"
  ob_created_by :: "int option"
  ob_correlation_id :: string
  ob_resolved :: bool
  ob_status :: string
  ob_retry_count :: int
  ob_next_retry_at :: "time option"
  ob_claimed_at :: "time option"
  ob_processed_at :: "time option"
  ob_quarantined_at :: "time option"
  ob_failure :: "string option"
  ob_result :: "(string \<times> json) list option"
  ob_event :: "int option"
  ob_created_at :: time

record ndb =
  site_setting :: "string \<Rightarrow> string"
  users :: "account list"
  permissions :: "module_permission list"
  policies :: "category_policy list"
  preferences :: "preference list"
  subscriptions :: "push_subscription list"
  events :: "notification_event list"
  user_notifications :: "user_notification list"
  attempts :: "delivery_attempt list"
  outbox :: "outbox_row list"

section \<open>Module allocations\<close>

text \<open>Key, setting that enables the module, and whether it is enabled while that setting is empty.\<close>

definition MODULES :: "(string \<times> string option \<times> bool) list" where
  "MODULES =
     [(''asset_manager'', None, True), (''backup_manager'', Some ''backup_manager_enabled'', True),
      (''compute_manager'', None, True), (''dashboard'', None, True),
      (''dns_manager'', Some ''dns_manager_enabled'', False), (''domain_manager'', None, True),
      (''high_availability'', Some ''high_availability_enabled'', False), (''licence_manager'', None, True),
      (''network_monitor'', None, True), (''rack_manager'', None, True), (''remote_manager'', None, True),
      (''runbooks'', None, True), (''secret_vault'', None, True), (''secure_send'', Some ''secure_send_enabled'', True),
      (''vlan_ip_manager'', None, True)]"

definition module_is_enabled :: "ndb \<Rightarrow> string option \<times> bool \<Rightarrow> bool" where
  "module_is_enabled db m =
     (case m of (None, dflt) \<Rightarrow> dflt
      | (Some key, dflt) \<Rightarrow> (let value = site_setting db key in if value \<noteq> [] then value = ''1'' else dflt))"

definition enabled_module_keys :: "ndb \<Rightarrow> string list" where
  "enabled_module_keys db = map fst (filter (\<lambda>(key, m). module_is_enabled db m) MODULES)"

definition granted_module_keys :: "ndb \<Rightarrow> account \<Rightarrow> string list" where
  "granted_module_keys db u =
     (if \<not> user_active u then []
      else map perm_module (filter (\<lambda>p. perm_user p = user_id u \<and> perm_allowed p \<and> perm_module p \<in> fst ` set MODULES)
             (permissions db)))"

definition accessible_module_keys :: "ndb \<Rightarrow> account \<Rightarrow> string list" where
  "accessible_module_keys db u =
     filter (\<lambda>key. key \<in> set (enabled_module_keys db)) (granted_module_keys db u)"

definition has_module_access :: "ndb \<Rightarrow> account \<Rightarrow> string \<Rightarrow> bool" where
  "has_module_access db u key \<longleftrightarrow>
     user_active u \<and> key \<in> fst ` set MODULES \<and> key \<in> set (accessible_module_keys db u)"

section \<open>Lemmas on the text checks\<close>

lemma safe_target_route_again [simp]: "safe_target_route v = Inr r \<Longrightarrow> safe_target_route r = Inr r"
  by (auto simp: safe_target_route_def split: option.splits if_splits)

lemma clean_field_again: "clean_field v m f = Inr s \<Longrightarrow> clean_field (Some s) m g = Inr s"
  by (auto simp: clean_field_def Let_def split: if_splits)

lemma clean_field_length: "clean_field v m f = Inr s \<Longrightarrow> s \<noteq> [] \<and> length s \<le> m"
  by (auto simp: clean_field_def Let_def split: if_splits)

lemma module_access_is_granted:
  "has_module_access db u key \<longleftrightarrow>
     user_active u \<and> key \<in> set (enabled_module_keys db) \<and>
     (\<exists>p \<in> set (permissions db). perm_user p = user_id u \<and> perm_module p = key \<and> perm_allowed p)"
  by (auto simp: has_module_access_def accessible_module_keys_def granted_module_keys_def enabled_module_keys_def
      split: if_splits)

end
