(* ===== verification/Notify_Publish.thy ===== *)
theory Notify_Publish
  imports Notify_Model
begin

text \<open>
  Publication of an event (\<open>app/services/notifications.py\<close>): category policy, user preferences and
  quiet hours, the recipients, de-duplication, the rows for every recipient and channel, and the
  retention job. The clock, the wall-clock text of a time zone (\<open>None\<close> is \<open>ZoneInfoNotFoundError\<close>) and whether
  the database fails while the rows are written are arguments.
\<close>

record publish_env =
  pub_now :: time
  local_clock :: "string \<Rightarrow> string option"
  utc_clock :: string
  db_fault :: bool

record publication =
  pb_event_type :: string
  pb_title :: string
  pb_message :: string
  pb_target_route :: "string option"
  pb_source_type :: "string option"
  pb_source_id :: "string option"
  pb_deduplication_key :: "string option"
  pb_recipient_ids :: "int list option"
  pb_severity :: "string option"
  pb_metadata :: "(string \<times> json) list"
  pb_created_by :: "int option"
  pb_correlation_id :: "string option"
  pb_resolved :: bool

section \<open>Policy and preferences\<close>

definition policy_for :: "ndb \<Rightarrow> string \<Rightarrow> category_policy option" where
  "policy_for db ident = find (\<lambda>p. pol_event_type p = ident) (policies db)"

definition severity_rank :: "string \<Rightarrow> int" where
  "severity_rank s = (case map_of SEVERITY_ORDER s of None \<Rightarrow> 0 | Some n \<Rightarrow> n)"

definition is_quiet :: "publish_env \<Rightarrow> preference \<Rightarrow> string \<Rightarrow> string \<Rightarrow> bool" where
  "is_quiet env p start finish =
     (let local_time = (case local_clock env (text_or (pref_timezone p) ''UTC'') of Some t \<Rightarrow> t | None \<Rightarrow> utc_clock env)
      in if start < finish then start \<le> local_time \<and> local_time < finish
         else local_time \<ge> start \<or> local_time < finish)"

definition in_quiet_hours :: "publish_env \<Rightarrow> preference \<Rightarrow> string \<Rightarrow> string \<Rightarrow> bool" where
  "in_quiet_hours env p severity channel =
     (channel \<noteq> ''in_app'' \<and> severity \<noteq> ''critical'' \<and>
      (case (quiet_hours_start p, quiet_hours_end p) of
         (Some s, Some f) \<Rightarrow> s \<noteq> [] \<and> f \<noteq> [] \<and> is_quiet env p s f
       | _ \<Rightarrow> False))"

definition channel_allowed :: "category_policy option \<Rightarrow> string \<Rightarrow> bool" where
  "channel_allowed policy channel =
     (case policy of
        None \<Rightarrow> channel = ''in_app''
      | Some p \<Rightarrow> (if channel = ''in_app'' then in_app_allowed p else if channel = ''push'' then push_allowed p
                   else channel = ''email'' \<and> email_allowed p))"

definition channel_chosen :: "preference \<Rightarrow> string \<Rightarrow> bool" where
  "channel_chosen p channel =
     (if channel = ''in_app'' then in_app_enabled p else if channel = ''push'' then push_enabled p
      else channel = ''email'' \<and> email_enabled p)"

text \<open>
  \<open>definition\<close> is what \<open>event_type(identifier)\<close> returned and the severity is one of \<open>SEVERITY_ORDER\<close>: \<open>publish\<close>, the only
  caller, has looked both up before.
\<close>

definition preference_allows ::
  "publish_env \<Rightarrow> ndb \<Rightarrow> int \<Rightarrow> string \<Rightarrow> notification_type \<Rightarrow> string \<Rightarrow> string \<Rightarrow> bool" where
  "preference_allows env db uid ident d severity channel =
     (let policy = policy_for db ident in
      if (case policy of None \<Rightarrow> False
          | Some p \<Rightarrow> \<not> pol_enabled p \<or> severity_rank severity < severity_rank (pol_minimum_severity p) \<or>
                      (recovery d \<and> \<not> pol_recovery_enabled p))
      then False
      else (case find (\<lambda>p. pref_user p = uid \<and> pref_event_type p = ident) (preferences db) of
              None \<Rightarrow> channel_allowed policy channel \<and>
                      (case policy of None \<Rightarrow> channel = ''in_app'' | Some p \<Rightarrow> default_enabled p)
            | Some pref \<Rightarrow>
                if recovery d \<and> \<not> pref_recovery_enabled pref then False
                else if severity_rank severity < severity_rank (pref_minimum_severity pref) then False
                else if in_quiet_hours env pref severity channel then False
                else channel_allowed policy channel \<and>
                     (channel_chosen pref channel \<or>
                      (case policy of None \<Rightarrow> False | Some p \<Rightarrow> \<not> user_can_opt_out p))))"

section \<open>Recipients\<close>

text \<open>\<open>int(get_site_setting(db, key) or default)\<close> inside its bounds; \<open>None\<close> is the \<open>ValueError\<close>.\<close>

definition bounded_setting :: "ndb \<Rightarrow> string \<Rightarrow> int \<Rightarrow> int \<Rightarrow> int \<Rightarrow> int option" where
  "bounded_setting db key dflt lo hi =
     (let value = site_setting db key
      in map_option (\<lambda>n. max lo (min n hi)) (if value = [] then Some dflt else parse_int value))"

definition max_per_event :: "ndb \<Rightarrow> int" where
  "max_per_event db =
     (case bounded_setting db ''notifications_max_per_event'' 250 1 10000 of None \<Rightarrow> 250 | Some n \<Rightarrow> n)"

definition requested :: "int list option \<Rightarrow> account \<Rightarrow> bool" where
  "requested ids u = (case ids of None \<Rightarrow> True | Some xs \<Rightarrow> user_id u \<in> set (filter (\<lambda>n. n > 0) xs))"

definition resolve_recipients :: "ndb \<Rightarrow> string \<Rightarrow> int list option \<Rightarrow> account list" where
  "resolve_recipients db m ids =
     (if (case ids of None \<Rightarrow> False | Some xs \<Rightarrow> filter (\<lambda>n. n > 0) xs = []) then []
      else (let us = take (nat (max_per_event db)) (sort_key user_id (filter (\<lambda>u. user_active u \<and> requested ids u) (users db)))
            in if m = ''system'' \<and> ids = None then filter (\<lambda>u. user_role u = ''admin'') us
               else if m = ''system'' then us
               else filter (\<lambda>u. user_role u = ''admin'' \<or> has_module_access db u m) us))"

section \<open>Publication\<close>

definition diagnostic_channel :: "(string \<times> json) list \<Rightarrow> string option" where
  "diagnostic_channel md =
     (case obj_get md ''diagnostic_channel'' of
        JStr s \<Rightarrow> (if s \<in> {''in_app'', ''push'', ''email''} then Some s else None)
      | _ \<Rightarrow> None)"

definition diagnostic_subscription_id :: "(string \<times> json) list \<Rightarrow> int option" where
  "diagnostic_subscription_id md =
     (case obj_get md ''diagnostic_subscription_id'' of
        JInt n \<Rightarrow> (if n > 0 then Some n else None)
      | JBool b \<Rightarrow> (if b then Some 1 else None)
      | _ \<Rightarrow> None)"

definition new_attempt :: "time \<Rightarrow> int \<Rightarrow> string \<Rightarrow> int option \<Rightarrow> ndb \<Rightarrow> ndb" where
  "new_attempt now unid channel sub db =
     db\<lparr>attempts := attempts db @
        [\<lparr>at_id = next_rowid (map at_id (attempts db)), at_notification = unid, at_channel = channel, at_subscription = sub,
          at_attempted_at = now, at_created_at = now, at_processing_started_at = None, at_accepted_at = None,
          at_status = ''queued'', at_retry_count = 0, at_next_retry_at = None, at_failure = None\<rparr>]\<rparr>"

definition push_targets :: "ndb \<Rightarrow> int \<Rightarrow> int option \<Rightarrow> push_subscription list" where
  "push_targets db uid only =
     take 20 (filter (\<lambda>s. sub_user s = uid \<and> sub_status s = ''active'' \<and> sub_revoked_at s = None \<and>
                          (case only of None \<Rightarrow> True | Some i \<Rightarrow> sub_id s = i)) (subscriptions db))"

text \<open>What the loop over the recipients accumulates: the database, the notifications created and the attempts queued.\<close>

record publish_count =
  created_count :: int
  push_queued :: int
  email_queued :: int

definition queue_push ::
  "publish_env \<Rightarrow> publication \<Rightarrow> notification_type \<Rightarrow> string \<Rightarrow> int \<Rightarrow> int \<Rightarrow> ndb \<times> publish_count \<Rightarrow> ndb \<times> publish_count" where
  "queue_push env req d severity uid unid acc =
     (case acc of (db, n) \<Rightarrow>
       if diagnostic_channel (pb_metadata req) \<in> {None, Some ''push''} \<and> site_setting db ''notifications_push_enabled'' = ''1'' \<and>
          preference_allows env db uid (pb_event_type req) d severity ''push''
       then (let subs = push_targets db uid (diagnostic_subscription_id (pb_metadata req))
             in (foldl (\<lambda>db s. new_attempt (pub_now env) unid ''push'' (Some (sub_id s)) db) db subs,
                 n\<lparr>push_queued := push_queued n + int (length subs)\<rparr>))
       else (db, n))"

definition queue_email ::
  "publish_env \<Rightarrow> publication \<Rightarrow> notification_type \<Rightarrow> string \<Rightarrow> int \<Rightarrow> int \<Rightarrow> ndb \<times> publish_count \<Rightarrow> ndb \<times> publish_count" where
  "queue_email env req d severity uid unid acc =
     (case acc of (db, n) \<Rightarrow>
       if diagnostic_channel (pb_metadata req) \<in> {None, Some ''email''} \<and> site_setting db ''notifications_email_enabled'' = ''1'' \<and>
          preference_allows env db uid (pb_event_type req) d severity ''email''
       then (new_attempt (pub_now env) unid ''email'' None db, n\<lparr>email_queued := email_queued n + 1\<rparr>)
       else (db, n))"

definition notify_recipient ::
  "publish_env \<Rightarrow> publication \<Rightarrow> notification_type \<Rightarrow> string \<Rightarrow> int \<Rightarrow> account \<Rightarrow> ndb \<times> publish_count \<Rightarrow> ndb \<times> publish_count" where
  "notify_recipient env req d severity eid u acc =
     (case acc of (db, n) \<Rightarrow>
       if diagnostic_channel (pb_metadata req) \<in> {None, Some ''in_app''} \<and>
          \<not> preference_allows env db (user_id u) (pb_event_type req) d severity ''in_app''
       then (db, n)
       else (let unid = next_rowid (map un_id (user_notifications db));
                 db1 = db\<lparr>user_notifications := user_notifications db @
                            [\<lparr>un_id = unid, un_event = eid, un_user = user_id u, un_read_at = None,
                              un_created_at = pub_now env\<rparr>]\<rparr>
             in queue_email env req d severity (user_id u) unid
                  (queue_push env req d severity (user_id u) unid
                     (db1, n\<lparr>created_count := created_count n + 1\<rparr>))))"

definition active_duplicate :: "ndb \<Rightarrow> string \<Rightarrow> notification_event option" where
  "active_duplicate db key =
     min_by (\<lambda>e. - ev_created_at e) (filter (\<lambda>e. ev_deduplication_key e = Some key \<and> ev_resolved_at e = None) (events db))"

definition new_event ::
  "publish_env \<Rightarrow> publication \<Rightarrow> notification_type \<Rightarrow> string \<Rightarrow> string \<Rightarrow> string \<Rightarrow> string option \<Rightarrow> string option \<Rightarrow> ndb \<Rightarrow>
   notification_event" where
  "new_event env req d severity title message route key db =
     \<lparr>ev_id = next_rowid (map ev_id (events db)), ev_type = pb_event_type req, ev_module = nt_module d, ev_category = category d,
      ev_severity = severity, ev_title = title, ev_message = message,
      ev_metadata = (let md = safe_metadata (pb_metadata req) in if md = [] then None else Some md),
      ev_target_route = route,
      ev_source_type = (case pb_source_type req of Some s \<Rightarrow> if s = [] then None else Some (take 80 s) | None \<Rightarrow> None),
      ev_source_id = map_option (take 120) (pb_source_id req),
      ev_deduplication_key = key, ev_created_by = pb_created_by req,
      ev_correlation_id = (case pb_correlation_id req of Some s \<Rightarrow> if s = [] then None else Some (take 64 s) | None \<Rightarrow> None),
      ev_created_at = pub_now env, ev_resolved_at = (if pb_resolved req then Some (pub_now env) else None)\<rparr>"

definition candidate_count :: "ndb \<Rightarrow> int list option \<Rightarrow> int" where
  "candidate_count db ids =
     int (length (filter (\<lambda>u. user_active u \<and> (case ids of None \<Rightarrow> True | Some xs \<Rightarrow> user_id u \<in> set xs)) (users db)))"

text \<open>
  From the creation of the event row to the end of \<open>publish\<close>. A database failure rolls back and raises; the
  counters and the reason go to the diagnostics in the order of the code.
\<close>

definition store_event ::
  "publish_env \<Rightarrow> publication \<Rightarrow> notification_type \<Rightarrow> string \<Rightarrow> notification_event \<Rightarrow> ndb \<Rightarrow>
   notify_error + (ndb \<times> (string \<times> json) list \<times> notification_event option)" where
  "store_event env req d severity row db =
     (let recipients = resolve_recipients db (nt_module d) (pb_recipient_ids req);
          candidates = candidate_count db (pb_recipient_ids req);
          (db1, n) = fold (notify_recipient env req d severity (ev_id row)) recipients
                       (db\<lparr>events := events db @ [row]\<rparr>, \<lparr>created_count = 0, push_queued = 0, email_queued = 0\<rparr>)
      in if db_fault env then Inl DatabaseError
         else Inr (db1,
                [(''event_registered'', JBool True)] @
                (if created_count n = 0
                 then [(''suppression_reason'', JStr (if recipients = [] then ''no_recipients'' else ''user_opted_out''))] else []) @
                [(''candidate_recipients'', JInt candidates), (''eligible_recipients'', JInt (int (length recipients))),
                 (''suppressed_recipients'', JInt (max 0 (candidates - created_count n))),
                 (''user_notifications_created'', JInt (created_count n)), (''push_queued'', JInt (push_queued n)),
                 (''email_queued'', JInt (email_queued n)), (''notification_event_id'', JInt (ev_id row))],
                Some row))"

definition SENSITIVE_MESSAGE :: string where
  "SENSITIVE_MESSAGE = ''Open Kaya to review this security-sensitive event.''"

definition shown_text :: "notification_type \<Rightarrow> string \<Rightarrow> string \<Rightarrow> string \<times> string" where
  "shown_text d title message = (if sensitive_payload d then (nt_display_name d, SENSITIVE_MESSAGE) else (title, message))"

definition truthy_text :: "string option \<Rightarrow> string option" where
  "truthy_text v = (case v of Some s \<Rightarrow> if s = [] then None else Some s | None \<Rightarrow> None)"

definition clean_optional :: "string option \<Rightarrow> nat \<Rightarrow> string \<Rightarrow> notify_error + string option" where
  "clean_optional v m f =
     (case truthy_text v of
        None \<Rightarrow> Inr None
      | Some s \<Rightarrow> (case clean_field (Some s) m f of Inl e \<Rightarrow> Inl e | Inr c \<Rightarrow> Inr (Some c)))"

definition suppression :: "ndb \<Rightarrow> string \<Rightarrow> string option" where
  "suppression db ident =
     (if site_setting db ''notifications_enabled'' = ''0'' then Some ''framework_disabled''
      else if site_setting db ''notifications_in_app_enabled'' = ''0'' then Some ''channel_disabled''
      else (case policy_for db ident of Some p \<Rightarrow> if pol_enabled p then None else Some ''category_disabled'' | None \<Rightarrow> None))"

definition publish_severity :: "publication \<Rightarrow> notification_type \<Rightarrow> string" where
  "publish_severity req d = (case truthy_text (pb_severity req) of Some s \<Rightarrow> s | None \<Rightarrow> default_severity d)"

definition publish ::
  "publish_env \<Rightarrow> publication \<Rightarrow> ndb \<Rightarrow> notify_error + (ndb \<times> (string \<times> json) list \<times> notification_event option)" where
  "publish env req db =
     (if \<not> is_scalar (obj_get (pb_metadata req) ''diagnostic_channel'') then Inl UnhashableMetadata
      else case event_type (pb_event_type req) of
        Inl e \<Rightarrow> Inl e
      | Inr d \<Rightarrow>
          if map_of SEVERITY_ORDER (publish_severity req d) = None then Inl InvalidSeverity
          else case suppression db (pb_event_type req) of
            Some reason \<Rightarrow> Inr (db, [(''event_registered'', JBool True), (''suppression_reason'', JStr reason)], None)
          | None \<Rightarrow>
             (case safe_target_route (pb_target_route req) of
                Inl e \<Rightarrow> Inl e
              | Inr route \<Rightarrow>
             (case clean_field (Some (pb_title req)) 160 ''title'' of
                Inl e \<Rightarrow> Inl e
              | Inr title0 \<Rightarrow>
             (case clean_field (Some (pb_message req)) 500 ''message'' of
                Inl e \<Rightarrow> Inl e
              | Inr message0 \<Rightarrow>
             (case clean_optional (pb_deduplication_key req) 255 ''deduplication key'' of
                Inl e \<Rightarrow> Inl e
              | Inr key \<Rightarrow>
                  (case (case key of None \<Rightarrow> None | Some k \<Rightarrow> active_duplicate db k) of
                     Some active \<Rightarrow>
                       Inr (db, [(''event_registered'', JBool True), (''duplicate_event'', JBool True),
                                 (''notification_event_id'', JInt (ev_id active))], Some active)
                   | None \<Rightarrow>
                       (case shown_text d title0 message0 of (title, message) \<Rightarrow>
                          store_event env req d (publish_severity req d)
                            (new_event env req d (publish_severity req d) title message route
                               (if key = None then pb_deduplication_key req else key) db) db)))))))"

section \<open>Retention\<close>

definition days :: "int \<Rightarrow> time" where
  "days n = seconds (86400 * n)"

definition retention_days :: "ndb \<Rightarrow> int \<times> int" where
  "retention_days db =
     (case bounded_setting db ''notifications_read_retention_days'' 90 1 3650 of
        None \<Rightarrow> (90, 365)
      | Some r \<Rightarrow> (case bounded_setting db ''notifications_unread_retention_days'' 365 r 3650 of
                     None \<Rightarrow> (90, 365) | Some u \<Rightarrow> (r, u)))"

definition cleanup_retention :: "time \<Rightarrow> ndb \<Rightarrow> ndb \<times> int \<times> int \<times> int" where
  "cleanup_retention now db =
     (let (r, u) = retention_days db;
          old_read = (\<lambda>n. case un_read_at n of Some t \<Rightarrow> t < now - days r | None \<Rightarrow> False);
          kept1 = filter (\<lambda>n. \<not> old_read n) (user_notifications db);
          old_unread = (\<lambda>n. un_read_at n = None \<and> un_created_at n < now - days u);
          kept2 = filter (\<lambda>n. \<not> old_unread n) kept1;
          orphan = (\<lambda>e. ev_id e \<notin> un_event ` set kept2);
          kept_attempts = filter (\<lambda>a. at_notification a \<in> un_id ` set kept2) (attempts db)
      in (db\<lparr>user_notifications := kept2, events := filter (\<lambda>e. \<not> orphan e) (events db), attempts := kept_attempts,
             outbox := map (\<lambda>r. r\<lparr>ob_event := (case ob_event r of
                          Some i \<Rightarrow> if i \<in> ev_id ` set (filter orphan (events db)) then None else Some i | None \<Rightarrow> None)\<rparr>) (outbox db)\<rparr>,
          int (length (filter old_read (user_notifications db))), int (length (filter old_unread kept1)),
          int (length (filter orphan (events db)))))"

end
