(* ===== verification/Notify_Outbox.thy ===== *)
theory Notify_Outbox
  imports Notify_Publish
begin

text \<open>
  The transactional outbox (\<open>app/services/notification_outbox.py\<close>): a row is added in the transaction of its
  source, claimed by the worker, published, retried with a growing delay and quarantined after six failures.
  The session has \<open>autoflush=False\<close>: the query that picks the next row in \<open>_claim_due\<close> does not see
  the stale claims that the same call has just recovered.
\<close>

definition MAX_OUTBOX_RETRIES :: int where
  "MAX_OUTBOX_RETRIES = 6"

definition STALE_CLAIM_SECONDS :: int where
  "STALE_CLAIM_SECONDS = 300"

section \<open>Enqueue\<close>

record enqueue_request = publication +
  eq_resolve_key :: "string option"
  eq_available_at :: "time option"

definition active_status :: "outbox_row \<Rightarrow> bool" where
  "active_status r \<longleftrightarrow> ob_status r \<in> {''pending'', ''processing'', ''retry''}"

definition active_for :: "string \<Rightarrow> string \<Rightarrow> outbox_row \<Rightarrow> bool" where
  "active_for ident key r \<longleftrightarrow> ob_event_type r = ident \<and> ob_deduplication_key r = Some key \<and> active_status r"

definition queued_duplicate :: "ndb \<Rightarrow> string \<Rightarrow> string option \<Rightarrow> outbox_row option" where
  "queued_duplicate db ident key =
     (case key of None \<Rightarrow> None
      | Some k \<Rightarrow> min_by (\<lambda>r. - ob_created_at r) (filter (active_for ident k) (outbox db)))"

definition clean_recipient_ids :: "int list option \<Rightarrow> int list option" where
  "clean_recipient_ids ids = map_option (\<lambda>xs. take 10000 (sort (remdups (filter (\<lambda>n. n > 0) xs)))) ids"

definition new_outbox_row ::
  "time \<Rightarrow> enqueue_request \<Rightarrow> string \<Rightarrow> string \<Rightarrow> string option \<Rightarrow> string option \<Rightarrow> string option \<Rightarrow> string \<Rightarrow> ndb \<Rightarrow> outbox_row" where
  "new_outbox_row now req title message route key rkey corr db =
     \<lparr>ob_id = next_rowid (map ob_id (outbox db)), ob_event_type = pb_event_type req, ob_title = title, ob_message = message,
      ob_target_route = route, ob_source_type = map_option (take 80) (truthy_text (pb_source_type req)),
      ob_source_id = map_option (take 120) (pb_source_id req), ob_deduplication_key = key, ob_resolve_key = rkey,
      ob_recipient_ids = clean_recipient_ids (pb_recipient_ids req), ob_severity = pb_severity req,
      ob_metadata = (if pb_metadata req = [] then None else Some (safe_metadata (pb_metadata req))),
      ob_created_by = pb_created_by req, ob_correlation_id = corr, ob_resolved = pb_resolved req,
      ob_status = ''pending'', ob_retry_count = 0, ob_next_retry_at = eq_available_at req, ob_claimed_at = None,
      ob_processed_at = None, ob_quarantined_at = None, ob_failure = None, ob_result = None, ob_event = None,
      ob_created_at = now\<rparr>"

definition enqueue_notification ::
  "time \<Rightarrow> string \<Rightarrow> enqueue_request \<Rightarrow> ndb \<Rightarrow> notify_error + (ndb \<times> outbox_row)" where
  "enqueue_notification now uuid req db =
     (case event_type (pb_event_type req) of Inl e \<Rightarrow> Inl e | Inr d \<Rightarrow>
     (case clean_field (Some (pb_title req)) 160 ''title'' of Inl e \<Rightarrow> Inl e | Inr title0 \<Rightarrow>
     (case clean_field (Some (pb_message req)) 500 ''message'' of Inl e \<Rightarrow> Inl e | Inr message0 \<Rightarrow>
     (case shown_text d title0 message0 of (title, message) \<Rightarrow>
     (case safe_target_route (pb_target_route req) of Inl e \<Rightarrow> Inl e | Inr route \<Rightarrow>
     (case clean_optional (pb_deduplication_key req) 255 ''deduplication key'' of Inl e \<Rightarrow> Inl e | Inr key \<Rightarrow>
     (case clean_optional (eq_resolve_key req) 255 ''resolution key'' of Inl e \<Rightarrow> Inl e | Inr rkey \<Rightarrow>
     (case clean_field (or_else (truthy_text (pb_correlation_id req)) (Some uuid)) 64 ''correlation ID'' of
        Inl e \<Rightarrow> Inl e
      | Inr corr \<Rightarrow>
         (case queued_duplicate db (pb_event_type req) key of
            Some existing \<Rightarrow> Inr (db, existing)
          | None \<Rightarrow>
              (let row = new_outbox_row now req title message route key rkey corr db
               in Inr (db\<lparr>outbox := outbox db @ [row]\<rparr>, row)))))))))))"

section \<open>Claim\<close>

definition stale_claim :: "time \<Rightarrow> outbox_row \<Rightarrow> bool" where
  "stale_claim now r \<longleftrightarrow>
     ob_status r = ''processing'' \<and>
     (case ob_claimed_at r of Some t \<Rightarrow> t < now - seconds STALE_CLAIM_SECONDS | None \<Rightarrow> False)"

definition recover_stale :: "time \<Rightarrow> outbox_row \<Rightarrow> outbox_row" where
  "recover_stale now r =
     (if stale_claim now r
      then r\<lparr>ob_status := ''retry'', ob_failure := Some ''stale_claim_recovered'', ob_next_retry_at := Some now\<rparr> else r)"

definition due :: "time \<Rightarrow> outbox_row \<Rightarrow> bool" where
  "due now r \<longleftrightarrow>
     ob_status r \<in> {''pending'', ''retry''} \<and> (case ob_next_retry_at r of None \<Rightarrow> True | Some t \<Rightarrow> t \<le> now)"

definition next_due :: "time \<Rightarrow> outbox_row list \<Rightarrow> outbox_row option" where
  "next_due now rows =
     (case sort_key (\<lambda>r. (ob_created_at r, ob_id r)) (filter (due now) rows) of [] \<Rightarrow> None | r # _ \<Rightarrow> Some r)"

definition update_row :: "int \<Rightarrow> (outbox_row \<Rightarrow> outbox_row) \<Rightarrow> ndb \<Rightarrow> ndb" where
  "update_row rid f db = db\<lparr>outbox := map (\<lambda>r. if ob_id r = rid then f r else r) (outbox db)\<rparr>"

definition claim_row :: "time \<Rightarrow> outbox_row \<Rightarrow> outbox_row" where
  "claim_row now r = r\<lparr>ob_status := ''processing'', ob_claimed_at := Some now, ob_failure := None\<rparr>"

definition claim_due :: "time \<Rightarrow> ndb \<Rightarrow> ndb \<times> int option" where
  "claim_due now db =
     (let db1 = db\<lparr>outbox := map (recover_stale now) (outbox db)\<rparr>
      in case next_due now (outbox db) of
           None \<Rightarrow> (db1, None)
         | Some r \<Rightarrow> (update_row (ob_id r) (claim_row now) db1, Some (ob_id r)))"

section \<open>Publication of a claimed row\<close>

definition row_publication :: "outbox_row \<Rightarrow> publication" where
  "row_publication r =
     \<lparr>pb_event_type = ob_event_type r, pb_title = ob_title r, pb_message = ob_message r, pb_target_route = ob_target_route r,
      pb_source_type = ob_source_type r, pb_source_id = ob_source_id r, pb_deduplication_key = ob_deduplication_key r,
      pb_recipient_ids = ob_recipient_ids r, pb_severity = ob_severity r,
      pb_metadata = (case ob_metadata r of None \<Rightarrow> [] | Some md \<Rightarrow> md), pb_created_by = ob_created_by r,
      pb_correlation_id = Some (ob_correlation_id r), pb_resolved = ob_resolved r\<rparr>"

definition resolve_events :: "time \<Rightarrow> string option \<Rightarrow> ndb \<Rightarrow> ndb" where
  "resolve_events now key db =
     (case truthy_text key of
        None \<Rightarrow> db
      | Some k \<Rightarrow> db\<lparr>events := map (\<lambda>e. if ev_deduplication_key e = Some k \<and> ev_resolved_at e = None
                                          then e\<lparr>ev_resolved_at := Some now\<rparr> else e) (events db)\<rparr>)"

definition published_row :: "time \<Rightarrow> (string \<times> json) list \<Rightarrow> notification_event option \<Rightarrow> outbox_row \<Rightarrow> outbox_row" where
  "published_row now diag ev r =
     r\<lparr>ob_status := (if ev = None then ''suppressed'' else ''processed''),
       ob_failure := (if ev = None
                      then Some (case obj_get_default diag ''suppression_reason'' (JStr ''publication_suppressed'') of
                                   JStr s \<Rightarrow> s | v \<Rightarrow> py_str v) else None),
       ob_result := Some diag, ob_event := map_option ev_id ev, ob_processed_at := Some now, ob_claimed_at := None,
       ob_next_retry_at := None\<rparr>"

definition failed_row :: "time \<Rightarrow> outbox_row \<Rightarrow> outbox_row" where
  "failed_row now r =
     (let n = ob_retry_count r + 1; f = r\<lparr>ob_retry_count := n, ob_claimed_at := None, ob_failure := Some ''publication_error''\<rparr>
      in if n \<ge> MAX_OUTBOX_RETRIES
         then f\<lparr>ob_status := ''quarantined'', ob_quarantined_at := Some now, ob_next_retry_at := None\<rparr>
         else f\<lparr>ob_status := ''retry'', ob_next_retry_at := Some (now + seconds (min 3600 (2 ^ nat n * 15)))\<rparr>)"

definition process_claimed :: "publish_env \<Rightarrow> int \<Rightarrow> ndb \<Rightarrow> ndb \<times> bool" where
  "process_claimed env rid db =
     (case find (\<lambda>r. ob_id r = rid) (outbox db) of
        None \<Rightarrow> (db, False)
      | Some row \<Rightarrow>
          if ob_status row \<noteq> ''processing'' then (db, False)
          else (case publish env (row_publication row) (resolve_events (pub_now env) (ob_resolve_key row) db) of
                  Inl e \<Rightarrow> (update_row rid (failed_row (pub_now env)) db, False)
                | Inr (db2, diag, ev) \<Rightarrow>
                    if db_fault env then (update_row rid (failed_row (pub_now env)) db, False)
                    else (update_row rid (published_row (pub_now env) diag ev) db2, True)))"

section \<open>The worker\<close>

text \<open>
  One iteration of the worker: \<open>clock i\<close> and \<open>env i\<close> are the clock and the surroundings of its \<open>i\<close>-th claim and publication.
\<close>

fun process_rows :: "(nat \<Rightarrow> time) \<Rightarrow> (nat \<Rightarrow> publish_env) \<Rightarrow> nat \<Rightarrow> nat \<Rightarrow> ndb \<times> int \<Rightarrow> ndb \<times> int" where
  "process_rows clock env i 0 acc = acc"
| "process_rows clock env i (Suc n) (db, processed) =
     (case claim_due (clock i) db of
        (db1, None) \<Rightarrow> (db1, processed)
      | (db1, Some rid) \<Rightarrow>
          (case process_claimed (env i) rid db1 of
             (db2, ok) \<Rightarrow> process_rows clock env (Suc i) n (db2, processed + (if ok then 1 else 0))))"

definition process_outbox :: "(nat \<Rightarrow> time) \<Rightarrow> (nat \<Rightarrow> publish_env) \<Rightarrow> int \<Rightarrow> ndb \<Rightarrow> ndb \<times> int" where
  "process_outbox clock env limit db = process_rows clock env 0 (nat (max 1 (min limit 250))) (db, 0)"

end
