(* ===== verification/Notify_Delivery.thy ===== *)
theory Notify_Delivery
  imports Notify_Outbox
begin

text \<open>
  Delivery of queued attempts to the push and mail providers (\<open>_deliver_queued\<close> of
  \<open>app/services/notification_delivery.py\<close>): recovery of stale claims, the claim of a bounded batch,
  the checks before a provider is contacted, and the classification of what the provider answered.
  The provider itself (Web Push, SMTP, credentials, encryption of subscriptions) is an argument, a function from the
  attempt to the outcome of the call.
\<close>

definition MAX_RETRIES :: int where
  "MAX_RETRIES = 4"

definition STALE_PROCESSING_SECONDS :: int where
  "STALE_PROCESSING_SECONDS = 300"

datatype provider_outcome =
    Accepted
  | InvalidVapidSubject
  | NotConfigured
  | HttpFailure int
  | OtherFailure
  | LockFailure

text \<open>What ends an iteration early: a locked SQLite file, or a row that a foreign key rules out.\<close>

datatype delivery_error = DatabaseLocked | DanglingRow

section \<open>Claim of a batch\<close>

definition stale_attempt :: "time \<Rightarrow> delivery_attempt \<Rightarrow> bool" where
  "stale_attempt now a \<longleftrightarrow>
     at_status a = ''processing'' \<and>
     (case at_processing_started_at a of Some t \<Rightarrow> t < now - seconds STALE_PROCESSING_SECONDS | None \<Rightarrow> False)"

definition recover_attempts :: "time \<Rightarrow> ndb \<Rightarrow> ndb" where
  "recover_attempts now db =
     (let stale = map at_id (take 50 (filter (stale_attempt now) (attempts db)))
      in db\<lparr>attempts := map (\<lambda>a. if at_id a \<in> set stale
             then a\<lparr>at_status := ''temporary_failure'', at_failure := Some ''stale_claim_recovered'',
                    at_next_retry_at := Some now, at_processing_started_at := None\<rparr> else a) (attempts db)\<rparr>)"

definition attempt_due :: "time \<Rightarrow> delivery_attempt \<Rightarrow> bool" where
  "attempt_due now a \<longleftrightarrow>
     at_status a \<in> {''queued'', ''retry'', ''temporary_failure''} \<and>
     (case at_next_retry_at a of None \<Rightarrow> True | Some t \<Rightarrow> t \<le> now)"

definition due_attempts :: "time \<Rightarrow> ndb \<Rightarrow> delivery_attempt list" where
  "due_attempts now db =
     take 50 (sort_key (\<lambda>a. (at_created_at a, at_id a)) (filter (attempt_due now) (attempts db)))"

definition update_attempt :: "int \<Rightarrow> (delivery_attempt \<Rightarrow> delivery_attempt) \<Rightarrow> ndb \<Rightarrow> ndb" where
  "update_attempt aid f db = db\<lparr>attempts := map (\<lambda>a. if at_id a = aid then f a else a) (attempts db)\<rparr>"

definition update_subscription :: "int option \<Rightarrow> (push_subscription \<Rightarrow> push_subscription) \<Rightarrow> ndb \<Rightarrow> ndb" where
  "update_subscription sid f db =
     db\<lparr>subscriptions := map (\<lambda>s. if Some (sub_id s) = sid then f s else s) (subscriptions db)\<rparr>"

definition claim_attempt :: "time \<Rightarrow> delivery_attempt \<Rightarrow> delivery_attempt" where
  "claim_attempt now a = a\<lparr>at_status := ''processing'', at_processing_started_at := Some now\<rparr>"

definition claim_attempts :: "time \<Rightarrow> ndb \<Rightarrow> ndb \<times> int list" where
  "claim_attempts now db =
     (let db1 = recover_attempts now db; ids = map at_id (due_attempts now db1)
      in (db1\<lparr>attempts := map (\<lambda>a. if at_id a \<in> set ids then claim_attempt now a else a) (attempts db1)\<rparr>, ids))"

section \<open>One attempt\<close>

definition finish_attempt :: "string \<Rightarrow> string \<Rightarrow> delivery_attempt \<Rightarrow> delivery_attempt" where
  "finish_attempt status reason a = a\<lparr>at_status := status, at_failure := Some reason, at_processing_started_at := None\<rparr>"

definition accepted_attempt :: "time \<Rightarrow> delivery_attempt \<Rightarrow> delivery_attempt" where
  "accepted_attempt now a =
     a\<lparr>at_status := (if at_channel a = ''push'' then ''accepted_by_push_service'' else ''accepted_by_email_service''),
       at_attempted_at := now, at_accepted_at := Some now, at_processing_started_at := None, at_next_retry_at := None,
       at_failure := None\<rparr>"

definition failed_attempt :: "time \<Rightarrow> bool \<Rightarrow> provider_outcome \<Rightarrow> delivery_attempt \<Rightarrow> delivery_attempt" where
  "failed_attempt now has_subscription out a =
     (let n = at_retry_count a + 1;
          f = a\<lparr>at_retry_count := n, at_attempted_at := now, at_processing_started_at := None\<rparr>;
          code = (case out of HttpFailure c \<Rightarrow> Some c | _ \<Rightarrow> None)
      in if out = InvalidVapidSubject
         then f\<lparr>at_status := ''cancelled'', at_failure := Some ''invalid_vapid_configuration''\<rparr>
         else if out = NotConfigured
         then f\<lparr>at_status := ''cancelled'', at_failure := Some ''channel_not_configured''\<rparr>
         else if code \<in> {Some 404, Some 410} \<and> has_subscription
         then f\<lparr>at_status := ''expired_subscription'', at_failure := Some ''subscription_expired''\<rparr>
         else if (case code of Some c \<Rightarrow> 400 \<le> c \<and> c < 500 \<and> c \<notin> {408, 429} | None \<Rightarrow> False)
         then f\<lparr>at_status := ''permanent_failure'', at_failure := Some ''provider_rejected''\<rparr>
         else if n \<ge> MAX_RETRIES
         then f\<lparr>at_status := ''retry_exhausted'', at_failure := Some ''provider_unavailable''\<rparr>
         else f\<lparr>at_status := ''temporary_failure'', at_next_retry_at := Some (now + minutes (2 ^ nat n)),
                at_failure := Some ''temporary_failure''\<rparr>)"

definition failed_subscription :: "time \<Rightarrow> provider_outcome \<Rightarrow> push_subscription \<Rightarrow> push_subscription" where
  "failed_subscription now out s =
     (let f = s\<lparr>sub_last_failure_at := Some now, sub_failure_count := sub_failure_count s + 1\<rparr>
      in if out \<in> {HttpFailure 404, HttpFailure 410} then f\<lparr>sub_status := ''expired'', sub_revoked_at := Some now\<rparr> else f)"

definition accepted_subscription :: "time \<Rightarrow> push_subscription \<Rightarrow> push_subscription" where
  "accepted_subscription now s =
     s\<lparr>sub_last_success_at := Some now, sub_last_used_at := Some now, sub_failure_count := 0\<rparr>"

definition subscription_of :: "ndb \<Rightarrow> delivery_attempt \<Rightarrow> push_subscription option" where
  "subscription_of db a = find (\<lambda>s. Some (sub_id s) = at_subscription a) (subscriptions db)"

text \<open>
  The provider call: a push is not attempted while push is switched off. \<open>sent\<close> is the log of attempts that reached a
  provider, newest last.
\<close>

definition call_provider :: "(delivery_attempt \<Rightarrow> provider_outcome) \<Rightarrow> ndb \<Rightarrow> delivery_attempt \<Rightarrow> provider_outcome" where
  "call_provider provider db a =
     (if at_channel a = ''push'' \<and> site_setting db ''notifications_push_enabled'' \<noteq> ''1'' then NotConfigured else provider a)"

definition inactive_target :: "ndb \<Rightarrow> delivery_attempt \<Rightarrow> delivery_error + bool" where
  "inactive_target db a =
     (case find (\<lambda>n. un_id n = at_notification a) (user_notifications db) of
        None \<Rightarrow> Inr True
      | Some n \<Rightarrow>
          (case find (\<lambda>u. user_id u = un_user n) (users db) of
             None \<Rightarrow> Inl DanglingRow
           | Some u \<Rightarrow>
               if \<not> user_active u then Inr True
               else if at_channel a = ''push'' \<and>
                       (case subscription_of db a of None \<Rightarrow> True | Some s \<Rightarrow> sub_status s \<noteq> ''active'') then Inr True
               else if \<not> list_ex (\<lambda>e. ev_id e = un_event n) (events db) then Inl DanglingRow
               else Inr False))"

text \<open>The state with the attempts handed to a provider, the error that ends the iteration, and whether this one was delivered.\<close>

definition deliver_one ::
  "time \<Rightarrow> (delivery_attempt \<Rightarrow> provider_outcome) \<Rightarrow> int \<Rightarrow> ndb \<Rightarrow> ndb \<times> delivery_attempt list \<times> (delivery_error + bool)" where
  "deliver_one now provider aid db =
     (case find (\<lambda>a. at_id a = aid) (attempts db) of
        None \<Rightarrow> (db, [], Inr False)
      | Some a \<Rightarrow>
          if at_status a \<noteq> ''processing'' then (db, [], Inr False)
          else (case inactive_target db a of
                  Inl e \<Rightarrow> (db, [], Inl e)
                | Inr True \<Rightarrow> (update_attempt aid (finish_attempt ''cancelled'' ''inactive_target'') db, [], Inr False)
                | Inr False \<Rightarrow>
                    if at_channel a \<notin> {''push'', ''email''}
                    then (update_attempt aid (finish_attempt ''cancelled'' ''unknown_channel'') db, [], Inr False)
                    else (case call_provider provider db a of
                            Accepted \<Rightarrow>
                              (update_subscription (at_subscription a) (accepted_subscription now)
                                 (update_attempt aid (accepted_attempt now) db), [a], Inr True)
                          | LockFailure \<Rightarrow> (db, [a], Inl DatabaseLocked)
                          | out \<Rightarrow>
                              (update_subscription (at_subscription a) (failed_subscription now out)
                                 (update_attempt aid (failed_attempt now (subscription_of db a \<noteq> None) out) db),
                               if out = NotConfigured then [] else [a], Inr False))))"

fun deliver_batch ::
  "time \<Rightarrow> (delivery_attempt \<Rightarrow> provider_outcome) \<Rightarrow> int list \<Rightarrow> ndb \<Rightarrow> int \<Rightarrow> ndb \<times> delivery_attempt list \<times> (delivery_error + int)" where
  "deliver_batch now provider [] db delivered = (db, [], Inr delivered)"
| "deliver_batch now provider (aid # ids) db delivered =
     (case deliver_one now provider aid db of
        (db1, sent, Inl e) \<Rightarrow> (db1, sent, Inl e)
      | (db1, sent, Inr ok) \<Rightarrow>
          (case deliver_batch now provider ids db1 (delivered + (if ok then 1 else 0)) of
             (db2, sent2, res) \<Rightarrow> (db2, sent @ sent2, res)))"

definition deliver_queued ::
  "time \<Rightarrow> (delivery_attempt \<Rightarrow> provider_outcome) \<Rightarrow> ndb \<Rightarrow> ndb \<times> delivery_attempt list \<times> (delivery_error + int)" where
  "deliver_queued now provider db =
     (case claim_attempts now db of (db1, ids) \<Rightarrow> deliver_batch now provider ids db1 0)"

end
