(* ===== verification/Notify_Invariant.thy ===== *)
theory Notify_Invariant
  imports Notify_Delivery
begin

text \<open>
  The steps of the notification pipeline as a transition relation, the typing of its rows, and the invariant of the
  states it reaches: every operation rewrites the outbox row by row or adds a row, and keeps the typing.
\<close>

section \<open>What publication leaves alone\<close>

text \<open>The part of the database that publication only reads.\<close>

definition base :: "ndb \<Rightarrow> ndb" where
  "base db = db\<lparr>events := [], user_notifications := [], attempts := []\<rparr>"

lemma base_eqD:
  assumes "base db' = base db"
  shows "site_setting db' = site_setting db" "users db' = users db" "permissions db' = permissions db"
    "policies db' = policies db" "preferences db' = preferences db" "subscriptions db' = subscriptions db"
    "outbox db' = outbox db"
  using assms unfolding base_def by (cases db; cases db'; simp)+

lemma base_update [simp]:
  "base (db\<lparr>events := x\<rparr>) = base db" "base (db\<lparr>user_notifications := y\<rparr>) = base db" "base (db\<lparr>attempts := z\<rparr>) = base db"
  by (simp_all add: base_def)

lemma new_attempt_frame [simp]:
  "base (new_attempt now unid ch sub db) = base db" "events (new_attempt now unid ch sub db) = events db"
  "user_notifications (new_attempt now unid ch sub db) = user_notifications db"
  by (simp_all add: new_attempt_def)

lemma new_attempts_frame [simp]:
  "base (foldl (\<lambda>db s. new_attempt now unid ch (f s) db) db subs) = base db"
  "events (foldl (\<lambda>db s. new_attempt now unid ch (f s) db) db subs) = events db"
  "user_notifications (foldl (\<lambda>db s. new_attempt now unid ch (f s) db) db subs) = user_notifications db"
  by (induction subs arbitrary: db) auto

lemma queue_frame [simp]:
  "base (fst (queue_push env req d sev uid unid acc)) = base (fst acc)"
  "events (fst (queue_push env req d sev uid unid acc)) = events (fst acc)"
  "user_notifications (fst (queue_push env req d sev uid unid acc)) = user_notifications (fst acc)"
  "base (fst (queue_email env req d sev uid unid acc)) = base (fst acc)"
  "events (fst (queue_email env req d sev uid unid acc)) = events (fst acc)"
  "user_notifications (fst (queue_email env req d sev uid unid acc)) = user_notifications (fst acc)"
  by (simp_all add: queue_push_def queue_email_def Let_def split: prod.splits)

lemma notify_recipient_frame [simp]:
  "base (fst (notify_recipient env req d sev eid u acc)) = base (fst acc)"
  "events (fst (notify_recipient env req d sev eid u acc)) = events (fst acc)"
  by (simp_all add: notify_recipient_def Let_def split: prod.splits)

lemma notify_recipients_frame [simp]:
  "base (fst (fold (notify_recipient env req d sev eid) us acc)) = base (fst acc)"
  "events (fst (fold (notify_recipient env req d sev eid) us acc)) = events (fst acc)"
  by (induction us arbitrary: acc) simp_all

lemma store_event_stores:
  assumes "store_event env req d sev row db = Inr (db', diag, ev)"
  shows "base db' = base db" "events db' = events db @ [row]" "ev = Some row"
proof -
  let ?acc = "(db\<lparr>events := events db @ [row]\<rparr>, \<lparr>created_count = 0, push_queued = 0, email_queued = 0\<rparr>)"
  let ?us = "resolve_recipients db (nt_module d) (pb_recipient_ids req)"
  have "db' = fst (fold (notify_recipient env req d sev (ev_id row)) ?us ?acc)" "ev = Some row"
    using assms by (auto simp: store_event_def Let_def split: if_splits prod.splits)
  then show "base db' = base db" "events db' = events db @ [row]" "ev = Some row"
    by simp_all
qed

text \<open>The three ways in which \<open>publish\<close> returns.\<close>


lemma publish_cases [consumes 1, case_names suppressed duplicate stored]:
  assumes "publish env req db = Inr (db', diag, ev)"
  obtains
    reason where "db' = db" "ev = None" "suppression db (pb_event_type req) = Some reason"
      "diag = [(''event_registered'', JBool True), (''suppression_reason'', JStr reason)]"
  | k active where "db' = db" "ev = Some active" "active_duplicate db k = Some active"
      "clean_optional (pb_deduplication_key req) 255 ''deduplication key'' = Inr (Some k)"
  | d title0 message0 title message route key where
      "event_type (pb_event_type req) = Inr d"
      "clean_field (Some (pb_title req)) 160 ''title'' = Inr title0"
      "clean_field (Some (pb_message req)) 500 ''message'' = Inr message0"
      "shown_text d title0 message0 = (title, message)"
      "safe_target_route (pb_target_route req) = Inr route"
      "clean_optional (pb_deduplication_key req) 255 ''deduplication key'' = Inr key"
      "key = None \<or> (\<exists>k. key = Some k \<and> active_duplicate db k = None)"
      "suppression db (pb_event_type req) = None"
      "store_event env req d (publish_severity req d)
         (new_event env req d (publish_severity req d) title message route
            (if key = None then pb_deduplication_key req else key) db) db = Inr (db', diag, ev)"
  using assms unfolding publish_def
  by (auto split: if_splits sum.splits option.splits prod.splits) metis+

section \<open>Steps of the pipeline\<close>

text \<open>
  Everything that changes the tables: a request is queued, the worker claims a row, publishes a claimed row (a crash between the
  two is a claim with no publication), an event is published directly, attempts are delivered, the
  retention job runs, and users and administrators change settings, accounts, policies and subscriptions.
\<close>

inductive pipeline_step :: "ndb \<Rightarrow> ndb \<Rightarrow> bool" where
  Enqueue: "enqueue_notification now uuid req db = Inr (db', r) \<Longrightarrow> pipeline_step db db'"
| Claim: "claim_due now db = (db', rid) \<Longrightarrow> pipeline_step db db'"
| Process: "process_claimed env rid db = (db', ok) \<Longrightarrow> pipeline_step db db'"
| Publish: "publish env preq db = Inr (db', diag, ev) \<Longrightarrow> pipeline_step db db'"
| Deliver: "deliver_queued now provider db = (db', sent, res) \<Longrightarrow> pipeline_step db db'"
| Cleanup: "cleanup_retention now db = (db', n1, n2, n3) \<Longrightarrow> pipeline_step db db'"
| Administer: "pipeline_step db (db\<lparr>site_setting := ss, users := us, permissions := ps, policies := cs, preferences := qs,
    subscriptions := bs\<rparr>)"

definition initial :: "ndb \<Rightarrow> bool" where
  "initial db \<longleftrightarrow> events db = [] \<and> user_notifications db = [] \<and> attempts db = [] \<and> outbox db = []"

section \<open>Typing of outbox rows\<close>

definition terminal :: "string \<Rightarrow> bool" where
  "terminal st \<longleftrightarrow> st \<in> {''processed'', ''suppressed'', ''quarantined''}"

text \<open>The columns that belong to a status.\<close>

definition status_typed :: "outbox_row \<Rightarrow> bool" where
  "status_typed r \<longleftrightarrow>
     (active_status r \<or> terminal (ob_status r)) \<and>
     0 \<le> ob_retry_count r \<and> ob_retry_count r \<le> MAX_OUTBOX_RETRIES \<and>
     (ob_retry_count r = MAX_OUTBOX_RETRIES \<longleftrightarrow> ob_status r = ''quarantined'') \<and>
     (ob_quarantined_at r \<noteq> None \<longleftrightarrow> ob_status r = ''quarantined'') \<and>
     (ob_processed_at r \<noteq> None \<longleftrightarrow> ob_status r \<in> {''processed'', ''suppressed''}) \<and>
     (ob_status r = ''processing'' \<longrightarrow> ob_claimed_at r \<noteq> None) \<and>
     (ob_status r = ''retry'' \<longrightarrow> ob_next_retry_at r \<noteq> None) \<and>
     (terminal (ob_status r) \<longrightarrow> ob_next_retry_at r = None \<and> ob_claimed_at r = None)"

text \<open>The texts fit their columns and are as the checks of publication want them.\<close>

definition sensitive_text :: "string \<Rightarrow> string \<Rightarrow> string \<Rightarrow> bool" where
  "sensitive_text ident title message \<longleftrightarrow>
     (case event_type ident of Inl e \<Rightarrow> False
      | Inr d \<Rightarrow> sensitive_payload d \<longrightarrow> title = nt_display_name d \<and> message = SENSITIVE_MESSAGE)"

definition content_typed :: "outbox_row \<Rightarrow> bool" where
  "content_typed r \<longleftrightarrow>
     sensitive_text (ob_event_type r) (ob_title r) (ob_message r) \<and>
     clean_field (Some (ob_title r)) 160 ''title'' = Inr (ob_title r) \<and>
     clean_field (Some (ob_message r)) 500 ''message'' = Inr (ob_message r) \<and>
     safe_target_route (ob_target_route r) = Inr (ob_target_route r) \<and>
     clean_optional (ob_deduplication_key r) 255 ''deduplication key'' = Inr (ob_deduplication_key r) \<and>
     clean_optional (ob_resolve_key r) 255 ''resolution key'' = Inr (ob_resolve_key r) \<and>
     length (ob_correlation_id r) \<le> 64 \<and>
     (\<forall>s. ob_source_type r = Some s \<longrightarrow> length s \<le> 80) \<and> (\<forall>s. ob_source_id r = Some s \<longrightarrow> length s \<le> 120) \<and>
     (\<forall>md. ob_metadata r = Some md \<longrightarrow> length md \<le> 20 \<and> list_all (\<lambda>(k, v). is_scalar v) md)"

definition one_active :: "outbox_row list \<Rightarrow> bool" where
  "one_active rows \<longleftrightarrow> (\<forall>ident key. length (filter (active_for ident key) rows) \<le> 1)"

definition outbox_ok :: "outbox_row list \<Rightarrow> bool" where
  "outbox_ok rows \<longleftrightarrow>
     distinct (map ob_id rows) \<and> (\<forall>r \<in> set rows. status_typed r \<and> content_typed r) \<and> one_active rows"

text \<open>
  What one operation may do to one row: the request in it stays, a finished row keeps everything but the reference to an event that
  retention deletes, failures only accumulate, and the typing is kept.
\<close>

definition request_of :: "outbox_row \<Rightarrow> outbox_row" where
  "request_of r = r\<lparr>ob_status := [], ob_retry_count := 0, ob_next_retry_at := None, ob_claimed_at := None, ob_processed_at := None,
     ob_quarantined_at := None, ob_failure := None, ob_result := None, ob_event := None\<rparr>"

definition keeps :: "outbox_row \<Rightarrow> outbox_row \<Rightarrow> bool" where
  "keeps r r' \<longleftrightarrow>
     request_of r' = request_of r \<and> ob_retry_count r \<le> ob_retry_count r' \<and>
     (terminal (ob_status r) \<longrightarrow> (\<exists>e. r' = r\<lparr>ob_event := e\<rparr>))"

lemma keeps_refl [simp]: "keeps r r"
  unfolding keeps_def by (simp add: exI [of _ "ob_event r"])

lemma keeps_trans: "keeps a b \<Longrightarrow> keeps b c \<Longrightarrow> keeps a c"
proof -
  assume ab: "keeps a b" and bc: "keeps b c"
  have "\<exists>e. c = a\<lparr>ob_event := e\<rparr>" if t: "terminal (ob_status a)"
  proof -
    obtain x where "b = a\<lparr>ob_event := x\<rparr>" using ab t unfolding keeps_def by blast
    with bc t obtain y where "c = (a\<lparr>ob_event := x\<rparr>)\<lparr>ob_event := y\<rparr>" unfolding keeps_def by auto
    then show ?thesis by auto
  qed
  with ab bc show ?thesis unfolding keeps_def by simp
qed

definition row_step :: "outbox_row \<Rightarrow> outbox_row \<Rightarrow> bool" where
  "row_step r r' \<longleftrightarrow>
     ob_id r' = ob_id r \<and> (status_typed r \<longrightarrow> status_typed r') \<and> (content_typed r \<longrightarrow> content_typed r') \<and>
     ob_event_type r' = ob_event_type r \<and> ob_deduplication_key r' = ob_deduplication_key r \<and>
     (active_status r' \<longrightarrow> active_status r) \<and> keeps r r'"

lemma row_step_refl [simp]: "row_step r r"
  by (simp add: row_step_def)

lemma outbox_ok_map:
  assumes "outbox_ok rows" and f: "\<And>r. r \<in> set rows \<Longrightarrow> row_step r (f r)"
  shows "outbox_ok (map f rows)"
proof -
  have ids: "map ob_id (map f rows) = map ob_id rows"
    using f by (simp add: row_step_def)
  have "length (filter (active_for i k) (map f rows)) \<le> length (filter (active_for i k) rows)" for i k
    by (rule length_filter_map_le) (use f in \<open>auto simp: row_step_def active_for_def\<close>)
  then have "one_active (map f rows)"
    using assms(1) by (fastforce simp: outbox_ok_def one_active_def intro: order_trans)
  with assms ids show ?thesis
    by (simp only: outbox_ok_def) (auto simp: row_step_def)
qed

definition evolves :: "outbox_row list \<Rightarrow> outbox_row list \<Rightarrow> bool" where
  "evolves rows rows' \<longleftrightarrow> (\<exists>f. rows' = map f rows \<and> (\<forall>r \<in> set rows. row_step r (f r)))"

lemma evolves_refl [simp]: "evolves rows rows"
  unfolding evolves_def by (rule exI [of _ id]) simp

lemma row_step_trans: "row_step a b \<Longrightarrow> row_step b c \<Longrightarrow> row_step a c"
  by (simp add: row_step_def) (blast intro: keeps_trans)

lemma evolves_trans:
  assumes "evolves a b" "evolves b c"
  shows "evolves a c"
proof -
  obtain f g where "b = map f a" "\<forall>r \<in> set a. row_step r (f r)" "c = map g b" "\<forall>r \<in> set b. row_step r (g r)"
    using assms unfolding evolves_def by blast
  then show ?thesis
    unfolding evolves_def by (intro exI [of _ "g \<circ> f"]) (auto intro: row_step_trans)
qed

lemma evolves_ok: "outbox_ok rows \<Longrightarrow> evolves rows rows' \<Longrightarrow> outbox_ok rows'"
  unfolding evolves_def using outbox_ok_map by blast

lemma update_row_evolves:
  assumes "distinct (map ob_id (outbox db))" "r \<in> set (outbox db)" "row_step r (f r)"
  shows "evolves (outbox db) (outbox (update_row (ob_id r) f db))"
proof -
  have "x = r" if "x \<in> set (outbox db)" "ob_id x = ob_id r" for x
    using assms(1,2) that by (auto simp: distinct_map dest: inj_onD)
  with assms(3) have "row_step x (if ob_id x = ob_id r then f x else x)" if "x \<in> set (outbox db)" for x
    using that by (metis row_step_refl)
  then show ?thesis
    unfolding evolves_def by (intro exI [of _ "\<lambda>x. if ob_id x = ob_id r then f x else x"]) (simp add: update_row_def)
qed

lemma outbox_ok_distinct: "outbox_ok rows \<Longrightarrow> distinct (map ob_id rows)"
  by (simp add: outbox_ok_def)

lemmas status_simps = status_typed_def active_status_def terminal_def MAX_OUTBOX_RETRIES_def
lemmas keep_simps = keeps_def request_of_def terminal_def

lemma recover_stale_step: "row_step r (recover_stale now r)"
proof (cases "stale_claim now r")
  case True
  have c: "content_typed (recover_stale now r) = content_typed r"
    by (simp add: content_typed_def recover_stale_def)
  have st: "ob_status r = ''processing''"
    using True by (simp add: stale_claim_def)
  then have "status_typed (recover_stale now r)" if "status_typed r"
    using that True by (simp add: recover_stale_def status_simps)
  then show ?thesis
    using st True c by (simp add: row_step_def active_status_def recover_stale_def keep_simps)
qed (simp add: recover_stale_def)

lemma claim_row_step: "due now r \<Longrightarrow> row_step r (claim_row now r)"
proof -
  assume d: "due now r"
  have c: "content_typed (claim_row now r) = content_typed r"
    by (simp add: content_typed_def claim_row_def)
  have s: "ob_status r = ''pending'' \<or> ob_status r = ''retry''"
    using d by (simp add: due_def)
  then have "status_typed (claim_row now r)" if "status_typed r"
    using that by (elim disjE) (simp_all add: claim_row_def status_simps)
  then show ?thesis
    using s c by (elim disjE) (simp_all add: row_step_def active_status_def claim_row_def keep_simps)
qed

lemma failed_row_step: "ob_status r = ''processing'' \<Longrightarrow> row_step r (failed_row now r)"
proof -
  assume st: "ob_status r = ''processing''"
  have c: "content_typed (failed_row now r) = content_typed r"
    by (simp add: content_typed_def failed_row_def Let_def)
  have "status_typed (failed_row now r)" if "status_typed r"
    using st that by (cases "ob_retry_count r \<ge> 5") (simp_all add: failed_row_def Let_def status_simps)
  then show ?thesis
    using st c by (simp add: row_step_def active_status_def) (simp add: failed_row_def Let_def keep_simps)
qed

lemma published_row_step: "ob_status r = ''processing'' \<Longrightarrow> row_step r (published_row now diag ev r)"
proof -
  assume st: "ob_status r = ''processing''"
  have c: "content_typed (published_row now diag ev r) = content_typed r"
    by (simp add: content_typed_def published_row_def)
  have "status_typed (published_row now diag ev r)" if "status_typed r"
    using st that by (simp add: published_row_def status_simps)
  then show ?thesis
    using st c by (simp add: row_step_def active_status_def) (simp add: published_row_def keep_simps)
qed

section \<open>Every operation keeps the invariant\<close>

lemma next_due_SomeD: "next_due now rows = Some r \<Longrightarrow> r \<in> set rows \<and> due now r"
proof -
  assume "next_due now rows = Some r"
  then obtain xs where "sort_key (\<lambda>r. (ob_created_at r, ob_id r)) (filter (due now) rows) = r # xs"
    by (auto simp: next_due_def split: list.splits)
  then have "r \<in> set (sort_key (\<lambda>r. (ob_created_at r, ob_id r)) (filter (due now) rows))"
    by (simp only: list.set_intros)
  then show ?thesis by simp
qed

lemma next_due_None_iff: "next_due now rows = None \<longleftrightarrow> filter (due now) rows = []"
proof -
  have "next_due now rows = None \<longleftrightarrow> sort_key (\<lambda>r. (ob_created_at r, ob_id r)) (filter (due now) rows) = []"
    by (simp add: next_due_def split: list.splits)
  also have "\<dots> \<longleftrightarrow> set (sort_key (\<lambda>r. (ob_created_at r, ob_id r)) (filter (due now) rows)) = {}"
    by (simp only: set_empty)
  finally show ?thesis by (simp only: set_sort set_empty)
qed

lemma recover_stale_due: "due now r \<Longrightarrow> recover_stale now r = r"
  by (auto simp: due_def recover_stale_def stale_claim_def)

lemma claim_due_evolves:
  assumes ok: "distinct (map ob_id (outbox db))" and c: "claim_due now db = (db', rid)"
  shows "evolves (outbox db) (outbox db')"
proof -
  let ?db1 = "db\<lparr>outbox := map (recover_stale now) (outbox db)\<rparr>"
  have e1: "evolves (outbox db) (outbox ?db1)"
    unfolding evolves_def by (intro exI [of _ "recover_stale now"]) (simp add: recover_stale_step)
  show ?thesis
  proof (cases "next_due now (outbox db)")
    case None
    with c e1 show ?thesis by (simp add: claim_due_def Let_def)
  next
    case (Some r)
    then have r: "r \<in> set (outbox db)" "due now r"
      using next_due_SomeD by blast+
    have "map ob_id (outbox ?db1) = map ob_id (outbox db)"
      using recover_stale_step by (simp add: row_step_def)
    with ok have "distinct (map ob_id (outbox ?db1))" by (simp only:)
    moreover have "r \<in> set (outbox ?db1)"
      using r by (auto simp: image_iff intro!: bexI [of _ r] simp: recover_stale_due)
    ultimately have "evolves (outbox ?db1) (outbox (update_row (ob_id r) (claim_row now) ?db1))"
      using r by (blast intro: update_row_evolves claim_row_step)
    with e1 have "evolves (outbox db) (outbox (update_row (ob_id r) (claim_row now) ?db1))"
      by (rule evolves_trans)
    with c Some show ?thesis
      by (auto simp: claim_due_def Let_def)
  qed
qed

lemma publish_frame:
  assumes "publish env req db = Inr (db', diag, ev)"
  shows "base db' = base db"
  using assms by (cases rule: publish_cases) (auto dest: store_event_stores)

lemma resolve_events_frame [simp]:
  "base (resolve_events now k db) = base db" "outbox (resolve_events now k db) = outbox db"
  by (simp_all add: resolve_events_def split: option.splits)

lemma update_row_outbox: "outbox db' = outbox db \<Longrightarrow> outbox (update_row rid f db') = outbox (update_row rid f db)"
  by (simp add: update_row_def)

lemma process_claimed_evolves:
  assumes ok: "distinct (map ob_id (outbox db))" and p: "process_claimed env rid db = (db', res)"
  shows "evolves (outbox db) (outbox db')"
proof (cases "find (\<lambda>r. ob_id r = rid) (outbox db)")
  case None
  with p ok show ?thesis by (simp add: process_claimed_def)
next
  case (Some r)
  then have r: "r \<in> set (outbox db)" "ob_id r = rid"
    using find_SomeD by fastforce+
  show ?thesis
  proof (cases "ob_status r = ''processing''")
    case False
    with p ok Some show ?thesis by (simp add: process_claimed_def)
  next
    case True
    have f: "evolves (outbox db) (outbox (update_row rid (failed_row (pub_now env)) db))"
      using update_row_evolves [OF ok r(1), of "failed_row (pub_now env)"] failed_row_step [OF True] r(2) by simp
    show ?thesis
    proof (cases "publish env (row_publication r) (resolve_events (pub_now env) (ob_resolve_key r) db)")
      case (Inl e)
      with p Some True f show ?thesis by (auto simp: process_claimed_def)
    next
      case (Inr x)
      obtain db2 diag ev where x: "x = (db2, diag, ev)" by (rule prod_cases3)
      have "outbox db2 = outbox db"
        using base_eqD(7) [OF publish_frame [OF Inr [unfolded x]]] by simp
      then have "outbox (update_row rid (published_row (pub_now env) diag ev) db2) =
          outbox (update_row rid (published_row (pub_now env) diag ev) db)"
        by (rule update_row_outbox)
      moreover have "evolves (outbox db) (outbox (update_row rid (published_row (pub_now env) diag ev) db))"
        using update_row_evolves [OF ok r(1), of "published_row (pub_now env) diag ev"] published_row_step [OF True] r(2) by simp
      ultimately show ?thesis
        using p Some True Inr x f by (auto simp: process_claimed_def split: if_splits)
    qed
  qed
qed

lemma display_names_clean:
  "list_all (\<lambda>row. clean_field (Some (nt_display_name (catalogue_entry row))) 160 ''title'' =
     Inr (nt_display_name (catalogue_entry row))) ROWS"
  by code_simp

lemma sensitive_message_clean: "clean_field (Some SENSITIVE_MESSAGE) 500 ''message'' = Inr SENSITIVE_MESSAGE"
  by code_simp

lemma event_type_catalogue: "event_type ident = Inr d \<Longrightarrow> \<exists>row \<in> set ROWS. d = catalogue_entry row"
  by (auto simp: event_type_def EVENT_TYPES_def dest!: map_of_SomeD split: option.splits)

lemma shown_text_typed:
  assumes "event_type ident = Inr d" "clean_field t 160 ''title'' = Inr title0" "clean_field m 500 ''message'' = Inr message0"
    "shown_text d title0 message0 = (title, message)"
  shows "sensitive_text ident title message" "clean_field (Some title) 160 ''title'' = Inr title"
    "clean_field (Some message) 500 ''message'' = Inr message"
proof -
  have "clean_field (Some (nt_display_name d)) 160 ''title'' = Inr (nt_display_name d)"
    using event_type_catalogue [OF assms(1)] display_names_clean by (auto simp: list_all_iff)
  then show "clean_field (Some title) 160 ''title'' = Inr title"
    using assms(4) clean_field_again [OF assms(2)] by (auto simp: shown_text_def split: if_splits)
  show "clean_field (Some message) 500 ''message'' = Inr message"
    using assms(4) clean_field_again [OF assms(3)] sensitive_message_clean by (auto simp: shown_text_def split: if_splits)
  show "sensitive_text ident title message"
    using assms(1,4) by (auto simp: sensitive_text_def shown_text_def split: if_splits)
qed

lemma clean_optional_again: "clean_optional v m f = Inr k \<Longrightarrow> clean_optional k m g = Inr k"
proof (cases "truthy_text v")
  case (Some s)
  assume "clean_optional v m f = Inr k"
  with Some obtain c where "clean_field (Some s) m f = Inr c" "k = Some c"
    by (auto simp: clean_optional_def split: sum.splits)
  then show ?thesis
    using clean_field_again clean_field_length by (fastforce simp: clean_optional_def truthy_text_def)
qed (simp add: clean_optional_def truthy_text_def)

lemma dict_put_length: "length (dict_put k v xs) \<le> Suc (length xs)"
  by (induction k v xs rule: dict_put.induct) auto

lemma dict_put_all: "list_all (\<lambda>(k, v). P v) xs \<Longrightarrow> P v \<Longrightarrow> list_all (\<lambda>(k, v). P v) (dict_put k v xs)"
  by (induction k v xs rule: dict_put.induct) auto

lemma is_scalar_shorten [simp]: "is_scalar (shorten v) = is_scalar v"
  by (simp add: is_scalar_def shorten_def split: json.splits)

lemma safe_metadata_fold:
  "list_all (\<lambda>(k, v). is_scalar v) acc \<Longrightarrow>
   list_all (\<lambda>(k, v). is_scalar v)
     (foldl (\<lambda>result (key, value). if is_scalar value then dict_put (take 80 key) (shorten value) result else result) acc md) \<and>
   length (foldl (\<lambda>result (key, value). if is_scalar value then dict_put (take 80 key) (shorten value) result else result) acc md)
     \<le> length acc + length md"
proof (induction md arbitrary: acc)
  case (Cons kv md)
  obtain k v where kv: "kv = (k, v)" by (rule prod.exhaust)
  let ?acc = "if is_scalar v then dict_put (take 80 k) (shorten v) acc else acc"
  have "list_all (\<lambda>(k, v). is_scalar v) ?acc" "length ?acc \<le> Suc (length acc)"
    using Cons.prems dict_put_length [of "take 80 k" "shorten v" acc] by (auto intro: dict_put_all)
  with Cons.IH [of ?acc] kv show ?case by simp
qed simp

lemma safe_metadata_typed: "length (safe_metadata md) \<le> 20" "list_all (\<lambda>(k, v). is_scalar v) (safe_metadata md)"
  using safe_metadata_fold [of "[]" "take 20 md"] by (simp_all add: safe_metadata_def)

lemma enqueue_cases:
  assumes "enqueue_notification now uuid req db = Inr (db', r)"
  obtains
    "db' = db" "r \<in> set (outbox db)"
  | d title0 message0 title message route key rkey corr where
      "event_type (pb_event_type req) = Inr d"
      "clean_field (Some (pb_title req)) 160 ''title'' = Inr title0"
      "clean_field (Some (pb_message req)) 500 ''message'' = Inr message0"
      "shown_text d title0 message0 = (title, message)"
      "safe_target_route (pb_target_route req) = Inr route"
      "clean_optional (pb_deduplication_key req) 255 ''deduplication key'' = Inr key"
      "clean_optional (eq_resolve_key req) 255 ''resolution key'' = Inr rkey"
      "clean_field (or_else (truthy_text (pb_correlation_id req)) (Some uuid)) 64 ''correlation ID'' = Inr corr"
      "queued_duplicate db (pb_event_type req) key = None"
      "r = new_outbox_row now req title message route key rkey corr db"
      "db' = db\<lparr>outbox := outbox db @ [r]\<rparr>"
proof -
  note e = assms [unfolded enqueue_notification_def]
  obtain d where 1: "event_type (pb_event_type req) = Inr d"
    using e by (cases "event_type (pb_event_type req)") auto
  note e = e [unfolded 1 sum.case]
  obtain title0 where 2: "clean_field (Some (pb_title req)) 160 ''title'' = Inr title0"
    using e by (cases "clean_field (Some (pb_title req)) 160 ''title''") auto
  note e = e [unfolded 2 sum.case]
  obtain message0 where 3: "clean_field (Some (pb_message req)) 500 ''message'' = Inr message0"
    using e by (cases "clean_field (Some (pb_message req)) 500 ''message''") auto
  note e = e [unfolded 3 sum.case]
  obtain title message where 4: "shown_text d title0 message0 = (title, message)"
    by (rule prod.exhaust)
  note e = e [unfolded 4 prod.case]
  obtain route where 5: "safe_target_route (pb_target_route req) = Inr route"
    using e by (cases "safe_target_route (pb_target_route req)") auto
  note e = e [unfolded 5 sum.case]
  obtain key where 6: "clean_optional (pb_deduplication_key req) 255 ''deduplication key'' = Inr key"
    using e by (cases "clean_optional (pb_deduplication_key req) 255 ''deduplication key''") auto
  note e = e [unfolded 6 sum.case]
  obtain rkey where 7: "clean_optional (eq_resolve_key req) 255 ''resolution key'' = Inr rkey"
    using e by (cases "clean_optional (eq_resolve_key req) 255 ''resolution key''") auto
  note e = e [unfolded 7 sum.case]
  obtain corr where 8: "clean_field (or_else (truthy_text (pb_correlation_id req)) (Some uuid)) 64 ''correlation ID'' = Inr corr"
    using e by (cases "clean_field (or_else (truthy_text (pb_correlation_id req)) (Some uuid)) 64 ''correlation ID''") auto
  note e = e [unfolded 8 sum.case]
  show ?thesis
  proof (cases "queued_duplicate db (pb_event_type req) key")
    case None
    with e have "r = new_outbox_row now req title message route key rkey corr db" "db' = db\<lparr>outbox := outbox db @ [r]\<rparr>"
      by (auto simp: Let_def)
    with that(2) [OF 1 2 3 4 5 6 7 8 None] show ?thesis by blast
  next
    case (Some x)
    then have "x \<in> set (outbox db)"
      by (auto simp: queued_duplicate_def dest!: min_by_Some split: option.splits)
    with e Some that(1) show ?thesis by simp
  qed
qed

lemma new_row_typed:
  assumes "event_type (pb_event_type req) = Inr d"
    "clean_field (Some (pb_title req)) 160 ''title'' = Inr title0"
    "clean_field (Some (pb_message req)) 500 ''message'' = Inr message0"
    "shown_text d title0 message0 = (title, message)"
    "safe_target_route (pb_target_route req) = Inr route"
    "clean_optional (pb_deduplication_key req) 255 ''deduplication key'' = Inr key"
    "clean_optional (eq_resolve_key req) 255 ''resolution key'' = Inr rkey"
    "clean_field (or_else (truthy_text (pb_correlation_id req)) (Some uuid)) 64 ''correlation ID'' = Inr corr"
  shows "content_typed (new_outbox_row now req title message route key rkey corr db)"
    "status_typed (new_outbox_row now req title message route key rkey corr db)"
proof -
  have "length corr \<le> 64" using clean_field_length [OF assms(8)] by simp
  moreover have "safe_target_route route = Inr route" using assms(5) by simp
  ultimately show "content_typed (new_outbox_row now req title message route key rkey corr db)"
    using shown_text_typed [OF assms(1-4)] clean_optional_again [OF assms(6)] clean_optional_again [OF assms(7)]
      safe_metadata_typed [of "pb_metadata req"]
    by (auto simp: content_typed_def new_outbox_row_def)
  show "status_typed (new_outbox_row now req title message route key rkey corr db)"
    by (simp add: new_outbox_row_def status_simps)
qed

lemma enqueue_ok:
  assumes ok: "outbox_ok (outbox db)" and e: "enqueue_notification now uuid req db = Inr (db', r)"
  shows "outbox_ok (outbox db')"
  using e
proof (cases rule: enqueue_cases)
  case 1
  with ok show ?thesis by simp
next
  case (2 d title0 message0 title message route key rkey corr)
  note typed = new_row_typed [OF 2(1-8), of now db, folded 2(10)]
  have new: "ob_id r = next_rowid (map ob_id (outbox db))" "ob_event_type r = pb_event_type req" "ob_deduplication_key r = key"
    unfolding 2(10) by (simp_all add: new_outbox_row_def)
  have "filter (active_for i k) (outbox db) = []" if "active_for i k r" for i k
    using that 2(9) new by (auto simp: active_for_def queued_duplicate_def)
  moreover have "length (filter (active_for i k) (outbox db)) \<le> 1" for i k
    using ok by (simp add: outbox_ok_def one_active_def)
  ultimately have "length (filter (active_for i k) (outbox db @ [r])) \<le> 1" for i k
    by (cases "active_for i k r") simp_all
  then have "one_active (outbox db @ [r])"
    by (simp only: one_active_def) simp
  moreover have "distinct (map ob_id (outbox db @ [r]))"
    using ok new next_rowid_not_in [of "map ob_id (outbox db)"] by (simp add: outbox_ok_def)
  ultimately show ?thesis
    using ok typed 2(11) by (simp add: outbox_ok_def)
qed

section \<open>Events\<close>

definition open_for :: "string \<Rightarrow> notification_event \<Rightarrow> bool" where
  "open_for k e \<longleftrightarrow> ev_deduplication_key e = Some k \<and> ev_resolved_at e = None"

definition events_ok :: "notification_event list \<Rightarrow> bool" where
  "events_ok evs \<longleftrightarrow>
     (\<forall>e \<in> set evs. sensitive_text (ev_type e) (ev_title e) (ev_message e)) \<and>
     (\<forall>k. k \<noteq> [] \<longrightarrow> length (filter (open_for k) evs) \<le> 1)"

lemma active_duplicate_None: "active_duplicate db k = None \<longleftrightarrow> filter (open_for k) (events db) = []"
  by (simp add: active_duplicate_def open_for_def [abs_def])

lemma new_event_key:
  assumes "clean_optional (pb_deduplication_key req) 255 f = Inr key" "k \<noteq> []"
    "open_for k (new_event env req d sev title message route (if key = None then pb_deduplication_key req else key) db)"
  shows "key = Some k"
proof (cases key)
  case None
  with assms(1) have "truthy_text (pb_deduplication_key req) = None"
    by (auto simp: clean_optional_def split: option.splits sum.splits)
  with assms(2,3) None show ?thesis
    by (auto simp: open_for_def new_event_def truthy_text_def split: option.splits if_splits)
qed (use assms in \<open>auto simp: open_for_def new_event_def\<close>)

lemma publish_events_ok:
  assumes ok: "events_ok (events db)" and p: "publish env req db = Inr (db', diag, ev)"
  shows "events_ok (events db')"
  using p
proof (cases rule: publish_cases)
  case (stored d title0 message0 title message route key)
  define e where "e = new_event env req d (publish_severity req d) title message route
      (if key = None then pb_deduplication_key req else key) db"
  have evs: "events db' = events db @ [e]"
    using store_event_stores(2) [OF stored(9)] by (simp add: e_def)
  have "sensitive_text (ev_type e) (ev_title e) (ev_message e)"
    using shown_text_typed(1) [OF stored(1-4)] by (simp add: e_def new_event_def)
  moreover have "length (filter (open_for k) (events db @ [e])) \<le> 1" if k: "k \<noteq> []" for k
  proof (cases "open_for k e")
    case True
    then have "key = Some k"
      using new_event_key [OF stored(6) k] by (simp add: e_def)
    with stored(7) have "filter (open_for k) (events db) = []"
      by (simp add: active_duplicate_None)
    then show ?thesis by simp
  next
    case False
    with ok k show ?thesis by (simp add: events_ok_def)
  qed
  ultimately show ?thesis
    using ok evs by (simp add: events_ok_def)
qed (use ok in simp_all)

lemma events_ok_map:
  assumes "events_ok evs" "\<And>e. e \<in> set evs \<Longrightarrow> ev_type (f e) = ev_type e \<and> ev_title (f e) = ev_title e \<and>
    ev_message (f e) = ev_message e \<and> (\<forall>k. open_for k (f e) \<longrightarrow> open_for k e)"
  shows "events_ok (map f evs)"
proof -
  have "length (filter (open_for k) (map f evs)) \<le> length (filter (open_for k) evs)" for k
    by (rule length_filter_map_le) (use assms(2) in blast)
  then show ?thesis
    using assms by (fastforce simp: events_ok_def intro: order_trans simp del: filter_map)
qed

lemma resolve_events_ok: "events_ok (events db) \<Longrightarrow> events_ok (events (resolve_events now k db))"
  by (auto simp: resolve_events_def open_for_def intro!: events_ok_map split: option.splits if_splits)

lemma length_filter_filter_le: "length (filter P (filter Q xs)) \<le> length (filter P xs)"
  by (induction xs) auto

lemma events_ok_filter: "events_ok evs \<Longrightarrow> events_ok (filter P evs)"
  using length_filter_filter_le [of _ P evs] by (fastforce simp: events_ok_def intro: order_trans simp del: filter_filter)

section \<open>Delivery leaves outbox and events alone\<close>

definition desk :: "ndb \<Rightarrow> ndb" where
  "desk db = db\<lparr>attempts := [], subscriptions := []\<rparr>"

lemma desk_eqD:
  assumes "desk db' = desk db"
  shows "outbox db' = outbox db" "events db' = events db" "users db' = users db" "user_notifications db' = user_notifications db"
    "site_setting db' = site_setting db"
  using assms unfolding desk_def by (cases db; cases db'; simp)+

lemma desk_update [simp]:
  "desk (db\<lparr>attempts := x\<rparr>) = desk db" "desk (update_attempt aid f db) = desk db" "desk (update_subscription sid g db) = desk db"
  "desk (recover_attempts now db) = desk db"
  by (simp_all add: desk_def update_attempt_def update_subscription_def recover_attempts_def Let_def)

lemma claim_attempts_desk [simp]: "desk (fst (claim_attempts now db)) = desk db"
  by (simp add: claim_attempts_def Let_def)

lemma deliver_one_desk [simp]: "desk (fst (deliver_one now provider aid db)) = desk db"
  by (simp add: deliver_one_def split: option.splits sum.splits bool.splits provider_outcome.splits)

lemma deliver_batch_desk [simp]: "desk (fst (deliver_batch now provider ids db n)) = desk db"
proof (induction ids arbitrary: db n)
  case (Cons aid ids)
  obtain db1 sent res where d: "deliver_one now provider aid db = (db1, sent, res)" by (rule prod_cases3)
  then have d1: "desk db1 = desk db"
    using deliver_one_desk [of now provider aid db] by simp
  show ?case
  proof (cases res)
    case (Inl e)
    with d d1 show ?thesis by simp
  next
    case (Inr ok)
    with d d1 Cons.IH [of db1 "n + (if ok then 1 else 0)"] show ?thesis by (cases ok) (simp_all add: case_prod_beta)
  qed
qed simp

lemma deliver_queued_desk: "deliver_queued now provider db = (db', sent, res) \<Longrightarrow> desk db' = desk db"
  using deliver_batch_desk [of now provider "snd (claim_attempts now db)" "fst (claim_attempts now db)" 0]
  by (simp add: deliver_queued_def case_prod_beta)

section \<open>The invariant of the pipeline\<close>

definition pipeline_ok :: "ndb \<Rightarrow> bool" where
  "pipeline_ok db \<longleftrightarrow> outbox_ok (outbox db) \<and> events_ok (events db)"

lemma process_claimed_events_ok:
  assumes "events_ok (events db)" "process_claimed env rid db = (db', res)"
  shows "events_ok (events db')"
proof -
  have u: "events (update_row i f d) = events d" for i f d
    by (simp add: update_row_def)
  have "events_ok (events db2)"
    if "publish env q (resolve_events now k db) = Inr (db2, diag, ev)" for q now k db2 diag ev
    using publish_events_ok [OF resolve_events_ok [OF assms(1)] that] .
  then show ?thesis
    using assms unfolding process_claimed_def by (fastforce simp: u split: option.splits if_splits sum.splits prod.splits)
qed

lemma cleanup_evolves:
  assumes "cleanup_retention now db = (db', n)"
  shows "evolves (outbox db) (outbox db')" "events_ok (events db) \<Longrightarrow> events_ok (events db')"
proof -
  obtain f P where f: "outbox db' = map (\<lambda>r. r\<lparr>ob_event := f r\<rparr>) (outbox db)" and P: "events db' = filter P (events db)"
    using assms by (fastforce simp: cleanup_retention_def Let_def split: prod.splits)
  have "row_step r (r\<lparr>ob_event := x\<rparr>)" for r x
    by (auto simp add: row_step_def status_typed_def active_status_def content_typed_def keeps_def request_of_def)
  then show "evolves (outbox db) (outbox db')"
    unfolding evolves_def f by (intro exI [of _ "\<lambda>r. r\<lparr>ob_event := f r\<rparr>"]) simp
  show "events_ok (events db) \<Longrightarrow> events_ok (events db')"
    unfolding P by (rule events_ok_filter)
qed

text \<open>Every step rewrites the rows of the outbox one by one or adds one row to them.\<close>

lemma pipeline_step_evolves:
  assumes "pipeline_step db db'" "distinct (map ob_id (outbox db))"
  shows "evolves (outbox db) (outbox db') \<or> (\<exists>r. outbox db' = outbox db @ [r])"
  using assms
proof (induction rule: pipeline_step.induct)
  case (Enqueue now uuid req db db' r)
  show ?case
    using Enqueue(1) by (cases rule: enqueue_cases) auto
next
  case (Publish env preq db db' diag ev)
  then show ?case
    using base_eqD(7) [OF publish_frame [OF Publish(1)]] by simp
next
  case (Deliver now provider db db' sent res)
  then show ?case
    using desk_eqD(1) [OF deliver_queued_desk [OF Deliver(1)]] by simp
qed (auto dest: claim_due_evolves process_claimed_evolves cleanup_evolves(1))

lemma pipeline_step_ok: "pipeline_step db db' \<Longrightarrow> pipeline_ok db \<Longrightarrow> pipeline_ok db'"
proof (induction rule: pipeline_step.induct)
  case (Enqueue now uuid req db db' r)
  have "events db' = events db"
    using Enqueue(1) by (cases rule: enqueue_cases) simp_all
  with Enqueue enqueue_ok show ?case by (auto simp: pipeline_ok_def)
next
  case (Claim now db db' rid)
  then have "events db' = events db"
    by (auto simp: claim_due_def Let_def update_row_def split: option.splits)
  with Claim show ?case
    unfolding pipeline_ok_def by (metis claim_due_evolves evolves_ok outbox_ok_distinct)
next
  case (Process env rid db db' res)
  then show ?case
    unfolding pipeline_ok_def by (metis process_claimed_evolves process_claimed_events_ok evolves_ok outbox_ok_distinct)
next
  case (Publish env preq db db' diag ev)
  then show ?case
    using publish_events_ok base_eqD(7) [OF publish_frame [OF Publish(1)]] by (auto simp: pipeline_ok_def)
next
  case (Deliver now provider db db' sent res)
  then show ?case
    using desk_eqD [OF deliver_queued_desk [OF Deliver(1)]] by (simp add: pipeline_ok_def)
next
  case (Cleanup now db db' n1 n2 n3)
  then show ?case
    unfolding pipeline_ok_def by (metis cleanup_evolves evolves_ok)
qed (simp add: pipeline_ok_def)

lemma reachable_ok:
  assumes "initial db0" "pipeline_step\<^sup>*\<^sup>* db0 db"
  shows "pipeline_ok db"
  using assms(2)
proof (induction rule: rtranclp_induct)
  case base
  show ?case
    using assms(1) by (simp add: initial_def pipeline_ok_def outbox_ok_def one_active_def events_ok_def)
next
  case (step y z)
  then show ?case by (blast intro: pipeline_step_ok)
qed

end
