(* ===== verification/Notify_Props.thy ===== *)
theory Notify_Props
  imports Notify_Invariant
begin

text \<open>
  Guarantees of the notification pipeline: progress of the worker, what reaches a provider, and the claims about every
  reachable state, with a reference installation on which they are instantiated.
\<close>

section \<open>Progress of the worker\<close>

lemma length_filter_replace:
  assumes "distinct xs" "r \<in> set xs" "P r" "\<not> P r'"
  shows "Suc (length (filter P (map (\<lambda>x. if x = r then r' else x) xs))) = length (filter P xs)"
  using assms
proof (induction xs)
  case (Cons x xs)
  show ?case
  proof (cases "x = r")
    case True
    with Cons.prems have "map (\<lambda>x. if x = r then r' else x) xs = xs"
      by (auto intro: map_idI)
    with True Cons.prems show ?thesis by simp
  next
    case False
    with Cons show ?thesis by auto
  qed
qed simp

text \<open>What the worker does to a row that was due: it is published or suppressed, or it has failed once more.\<close>

definition handled :: "time \<Rightarrow> outbox_row \<Rightarrow> outbox_row \<Rightarrow> bool" where
  "handled now r r' \<longleftrightarrow>
     ob_id r' = ob_id r \<and> \<not> due now r' \<and> \<not> stale_claim now r' \<and>
     (ob_status r' \<in> {''processed'', ''suppressed''} \<or>
      ob_status r' \<in> {''retry'', ''quarantined''} \<and> ob_retry_count r' = ob_retry_count r + 1)"

lemma failed_row_handled: "handled now r (failed_row now (claim_row now r))"
proof -
  have "\<not> seconds (min 3600 (2 ^ nat n * 15)) \<le> 0" for n :: int
    by (simp add: seconds_def not_le)
  then show ?thesis
    by (simp add: handled_def failed_row_def claim_row_def Let_def due_def stale_claim_def)
qed

lemma published_row_handled: "handled now r (published_row now diag ev (claim_row now r))"
  by (simp add: handled_def published_row_def claim_row_def due_def stale_claim_def)

lemma update_row_replace:
  assumes "distinct (map ob_id (outbox db))" "r \<in> set (outbox db)"
  shows "outbox (update_row (ob_id r) f db) = map (\<lambda>x. if x = r then f r else x) (outbox db)"
proof -
  have "ob_id x = ob_id r \<longleftrightarrow> x = r" if "x \<in> set (outbox db)" for x
    using assms that by (auto simp: distinct_map dest: inj_onD)
  then show ?thesis by (simp add: update_row_def)
qed

lemma claim_without_stale:
  assumes "\<forall>r \<in> set (outbox db). \<not> stale_claim now r"
  shows "claim_due now db =
    (case next_due now (outbox db) of None \<Rightarrow> (db, None) | Some r \<Rightarrow> (update_row (ob_id r) (claim_row now) db, Some (ob_id r)))"
proof -
  have "map (recover_stale now) (outbox db) = outbox db"
    using assms by (auto simp: recover_stale_def intro: map_idI)
  then show ?thesis
    by (simp add: claim_due_def Let_def)
qed

lemma process_claimed_row:
  assumes "distinct (map ob_id (outbox db))" "r \<in> set (outbox db)" "ob_status r = ''processing''"
    "process_claimed env (ob_id r) db = (db', res)"
  shows "\<exists>f. outbox db' = map (\<lambda>x. if x = r then f r else x) (outbox db) \<and>
    (f = failed_row (pub_now env) \<or> (\<exists>diag ev. f = published_row (pub_now env) diag ev))"
proof -
  note replace = update_row_replace [OF assms(1,2)]
  have find: "find (\<lambda>x. ob_id x = ob_id r) (outbox db) = Some r"
  proof (cases "find (\<lambda>x. ob_id x = ob_id r) (outbox db)")
    case None
    with assms(2) show ?thesis by (auto simp: find_None_conv)
  next
    case (Some x)
    with assms(1,2) find_SomeD [OF Some] show ?thesis by (auto simp: distinct_map dest: inj_onD)
  qed
  show ?thesis
  proof (cases "publish env (row_publication r) (resolve_events (pub_now env) (ob_resolve_key r) db)")
    case (Inl e)
    with assms(3,4) find show ?thesis by (auto simp: process_claimed_def replace)
  next
    case (Inr x)
    obtain db2 diag ev where x: "x = (db2, diag, ev)" by (rule prod_cases3)
    have "outbox db2 = outbox db"
      using base_eqD(7) [OF publish_frame [OF Inr [unfolded x]]] by simp
    then have "outbox (update_row (ob_id r) f db2) = map (\<lambda>x. if x = r then f r else x) (outbox db)" for f
      using replace update_row_outbox by metis
    then show ?thesis
      using assms(3,4) find Inr x by (auto simp: process_claimed_def replace split: if_splits)
  qed
qed

lemma work_one:
  assumes d: "distinct (map ob_id (outbox db))" and s: "\<forall>r \<in> set (outbox db). \<not> stale_claim now r"
    and n: "next_due now (outbox db) = Some r" and env: "pub_now env = now"
    and c: "claim_due now db = (db1, Some rid)" and p: "process_claimed env rid db1 = (db2, res)"
  shows "\<exists>r'. outbox db2 = map (\<lambda>x. if x = r then r' else x) (outbox db) \<and> handled now r r'"
proof -
  have r: "r \<in> set (outbox db)" using next_due_SomeD [OF n] by simp
  have c1: "db1 = update_row (ob_id r) (claim_row now) db" "rid = ob_id r"
    using c claim_without_stale [OF s] n by auto
  let ?c = "claim_row now r"
  have o1: "outbox db1 = map (\<lambda>x. if x = r then ?c else x) (outbox db)"
    by (simp add: c1 update_row_replace [OF d r])
  have id: "ob_id ?c = rid" by (simp add: claim_row_def c1)
  have "map ob_id (outbox db1) = map ob_id (outbox db)"
    unfolding o1 using id c1(2) by simp
  with d have d1: "distinct (map ob_id (outbox db1))" by simp
  moreover have "?c \<in> set (outbox db1)" using r by (auto simp: o1)
  moreover have "ob_status ?c = ''processing''" by (simp add: claim_row_def)
  ultimately obtain f where o2: "outbox db2 = map (\<lambda>x. if x = ?c then f ?c else x) (outbox db1)"
    and f: "f = failed_row now \<or> (\<exists>diag ev. f = published_row now diag ev)"
    using process_claimed_row [of db1 ?c env db2 res] p env id by auto
  have "x = r" if "x \<in> set (outbox db)" "x = ?c" for x
    using d r that id c1(2) by (auto simp: distinct_map dest: inj_onD)
  then have "outbox db2 = map (\<lambda>x. if x = r then f ?c else x) (outbox db)"
    unfolding o2 o1 by auto
  moreover have "handled now r (f ?c)"
    using f failed_row_handled published_row_handled by auto
  ultimately show ?thesis by blast
qed

lemma process_rows_drain:
  assumes "distinct (map ob_id (outbox db))" "\<forall>r \<in> set (outbox db). \<not> stale_claim now r"
    "length (filter (due now) (outbox db)) \<le> m" "\<And>i. pub_now (env i) = now"
    "process_rows (\<lambda>_. now) env i m (db, p) = (db', n)"
  shows "filter (due now) (outbox db') = [] \<and>
    (\<forall>r \<in> set (outbox db). if due now r then \<exists>r' \<in> set (outbox db'). handled now r r' else r \<in> set (outbox db'))"
  using assms
proof (induction m arbitrary: db i p)
  case (Suc m)
  show ?case
  proof (cases "next_due now (outbox db)")
    case None
    with Suc.prems have "db' = db"
      by (simp add: claim_without_stale)
    with None show ?thesis
      unfolding next_due_None_iff by (auto simp: filter_empty_conv)
  next
    case (Some r)
    have r: "r \<in> set (outbox db)" "due now r" using next_due_SomeD [OF Some] by simp_all
    obtain db1 rid where c: "claim_due now db = (db1, Some rid)"
      using Some claim_without_stale [OF Suc.prems(2)] by simp
    obtain db2 res where q: "process_claimed (env i) rid db1 = (db2, res)" by (rule prod.exhaust)
    obtain r' where o2: "outbox db2 = map (\<lambda>x. if x = r then r' else x) (outbox db)" and h: "handled now r r'"
      using work_one [OF Suc.prems(1,2) Some Suc.prems(4) c q] by blast
    have "map ob_id (outbox db2) = map ob_id (outbox db)"
      using h by (simp add: o2 handled_def)
    then have d2: "distinct (map ob_id (outbox db2))" using Suc.prems(1) by simp
    have s2: "\<forall>x \<in> set (outbox db2). \<not> stale_claim now x"
      using Suc.prems(2) h by (auto simp: o2 handled_def)
    have "Suc (length (filter (due now) (outbox db2))) = length (filter (due now) (outbox db))"
      unfolding o2 using Suc.prems(1) r h
      by (intro length_filter_replace) (auto simp: distinct_map handled_def)
    then have l2: "length (filter (due now) (outbox db2)) \<le> m" using Suc.prems(3) by simp
    obtain p2 where "process_rows (\<lambda>_. now) env (Suc i) m (db2, p2) = (db', n)"
      using Suc.prems(5) c q by auto
    note ih = Suc.IH [OF d2 s2 l2 Suc.prems(4) this]
    have r': "r' \<in> set (outbox db2)" "\<not> due now r'"
      using r h by (auto simp: o2 handled_def)
    have old: "x \<in> set (outbox db2)" if "x \<in> set (outbox db)" "x \<noteq> r" for x
      using that by (auto simp: o2)
    have "if due now x then \<exists>y \<in> set (outbox db'). handled now x y else x \<in> set (outbox db')"
      if x: "x \<in> set (outbox db)" for x
    proof (cases "x = r")
      case True
      have "r' \<in> set (outbox db')" using ih r' by auto
      with True h r show ?thesis by auto
    next
      case False
      with ih old [OF x] show ?thesis by blast
    qed
    with ih show ?thesis by blast
  qed
qed (auto simp: filter_empty_conv)

section \<open>What reaches a provider\<close>

text \<open>The address of an attempt never changes, and a subscription that is not active does not become active again.\<close>

definition addr :: "delivery_attempt \<Rightarrow> int \<times> int \<times> string \<times> int option" where
  "addr a = (at_id a, at_notification a, at_channel a, at_subscription a)"

definition active_subs :: "ndb \<Rightarrow> int set" where
  "active_subs db = sub_id ` {s \<in> set (subscriptions db). sub_status s = ''active''}"

definition delivers_from :: "ndb \<Rightarrow> ndb \<Rightarrow> bool" where
  "delivers_from db db' \<longleftrightarrow> map addr (attempts db') = map addr (attempts db) \<and> active_subs db' \<subseteq> active_subs db"

lemma delivers_from_refl [simp]: "delivers_from db db"
  by (simp add: delivers_from_def)

lemma delivers_from_trans: "delivers_from a b \<Longrightarrow> delivers_from b c \<Longrightarrow> delivers_from a c"
  by (auto simp: delivers_from_def)

lemma update_attempt_from:
  "(\<And>a. addr (f a) = addr a) \<Longrightarrow> delivers_from db (update_attempt aid f db)"
  by (simp add: delivers_from_def update_attempt_def active_subs_def)

lemma update_subscription_from:
  "(\<And>s. sub_id (g s) = sub_id s \<and> (sub_status (g s) = ''active'' \<longrightarrow> sub_status s = ''active'')) \<Longrightarrow>
   delivers_from db (update_subscription sid g db)"
  by (force simp: delivers_from_def update_subscription_def active_subs_def)

lemma addr_updates [simp]:
  "addr (finish_attempt st why a) = addr a" "addr (accepted_attempt now a) = addr a"
  "addr (failed_attempt now b out a) = addr a" "addr (claim_attempt now a) = addr a"
  by (simp_all add: addr_def finish_attempt_def accepted_attempt_def failed_attempt_def claim_attempt_def Let_def)

lemma subscription_updates_from:
  "delivers_from db (update_subscription sid (accepted_subscription now) db)"
  "delivers_from db (update_subscription sid (failed_subscription now out) db)"
  by (rule update_subscription_from, simp add: accepted_subscription_def failed_subscription_def Let_def)+

lemma deliver_one_from: "delivers_from db (fst (deliver_one now provider aid db))"
proof -
  have u: "delivers_from db (update_subscription sid g (update_attempt aid f db))"
    if "\<And>a. addr (f a) = addr a" "delivers_from (update_attempt aid f db) (update_subscription sid g (update_attempt aid f db))"
    for sid f g
    using update_attempt_from [of f db aid] that by (blast intro: delivers_from_trans)
  show ?thesis
    by (auto simp: deliver_one_def update_attempt_from intro!: u subscription_updates_from
        split: option.splits sum.splits bool.splits provider_outcome.splits)
qed

text \<open>An attempt handed to a provider: its user is active, and so is the browser subscription of a push.\<close>

definition authorised :: "ndb \<Rightarrow> delivery_attempt \<Rightarrow> bool" where
  "authorised db a \<longleftrightarrow>
     at_channel a \<in> {''push'', ''email''} \<and>
     (\<exists>n \<in> set (user_notifications db). \<exists>u \<in> set (users db). un_id n = at_notification a \<and> user_id u = un_user n \<and> user_active u) \<and>
     (at_channel a = ''push'' \<longrightarrow> (\<exists>i \<in> active_subs db. at_subscription a = Some i))"

lemma inactive_target_False:
  assumes "inactive_target db a = Inr False" "at_channel a \<in> {''push'', ''email''}"
  shows "authorised db a"
proof -
  obtain n where n: "find (\<lambda>n. un_id n = at_notification a) (user_notifications db) = Some n"
    using assms(1) by (auto simp: inactive_target_def split: option.splits)
  obtain u where u: "find (\<lambda>u. user_id u = un_user n) (users db) = Some u" "user_active u"
    using assms(1) n by (auto simp: inactive_target_def split: option.splits if_splits)
  have "\<exists>i \<in> active_subs db. at_subscription a = Some i" if p: "at_channel a = ''push''"
  proof -
    obtain s where "subscription_of db a = Some s" "sub_status s = ''active''"
      using assms(1) by (cases "subscription_of db a") (auto simp: inactive_target_def n u p split: if_splits)
    then have "s \<in> set (subscriptions db)" "Some (sub_id s) = at_subscription a" "sub_status s = ''active''"
      unfolding subscription_of_def by (blast dest: find_SomeD)+
    then show ?thesis by (force simp: active_subs_def)
  qed
  with assms(2) n u find_SomeD [OF n] find_SomeD [OF u(1)] show ?thesis
    unfolding authorised_def by blast
qed

lemma deliver_one_sent:
  assumes "deliver_one now provider aid db = (db', sent, res)"
  shows "sent = [] \<or> (\<exists>a. sent = [a] \<and> at_id a = aid \<and> a \<in> set (attempts db) \<and> authorised db a)"
proof (cases "find (\<lambda>a. at_id a = aid) (attempts db)")
  case None
  with assms show ?thesis by (simp add: deliver_one_def)
next
  case (Some a)
  then have a: "a \<in> set (attempts db)" "at_id a = aid" using find_SomeD by fastforce+
  show ?thesis
    using assms Some a inactive_target_False [of db a]
    by (auto simp: deliver_one_def split: if_splits sum.splits bool.splits provider_outcome.splits)
qed

lemma authorised_back:
  assumes "delivers_from db db'" "desk db' = desk db" "authorised db' a"
  shows "authorised db a"
  using assms desk_eqD(3,4) [OF assms(2)] by (auto simp: authorised_def delivers_from_def)

lemma deliver_batch_sent:
  assumes "deliver_batch now provider ids db n = (db', sent, res)"
  shows "subseq (map at_id sent) ids \<and> (\<forall>a \<in> set sent. addr a \<in> addr ` set (attempts db) \<and> authorised db a)"
  using assms
proof (induction ids arbitrary: db n db' sent res)
  case (Cons aid ids)
  obtain db1 s1 r1 where one: "deliver_one now provider aid db = (db1, s1, r1)" by (rule prod_cases3)
  have from1: "delivers_from db db1" and desk1: "desk db1 = desk db"
    using deliver_one_from [of db now provider aid] deliver_one_desk [of now provider aid db] by (simp_all add: one)
  have s1: "s1 = [] \<or> (\<exists>a. s1 = [a] \<and> at_id a = aid \<and> a \<in> set (attempts db) \<and> authorised db a)"
    by (rule deliver_one_sent [OF one])
  show ?case
  proof (cases r1)
    case (Inl e)
    with Cons.prems one s1 show ?thesis by auto
  next
    case (Inr ok)
    obtain db2 s2 r2 where two: "deliver_batch now provider ids db1 (n + (if ok then 1 else 0)) = (db2, s2, r2)"
      by (rule prod_cases3)
    then have sent: "sent = s1 @ s2"
      using Cons.prems one Inr by (cases ok) auto
    have ih: "subseq (map at_id s2) ids" "\<forall>a \<in> set s2. addr a \<in> addr ` set (attempts db1) \<and> authorised db1 a"
      using Cons.IH [OF two] by blast+
    have "addr ` set (attempts db1) = addr ` set (attempts db)"
      using from1 by (metis delivers_from_def set_map)
    with ih(2) authorised_back [OF from1 desk1]
    have "\<forall>a \<in> set s2. addr a \<in> addr ` set (attempts db) \<and> authorised db a" by auto
    with s1 ih(1) sent show ?thesis by auto
  qed
qed simp

lemma recovered_due:
  assumes "distinct (map at_id (attempts db))" "a1 \<in> set (attempts (recover_attempts now db))" "attempt_due now a1"
  shows "\<exists>a0 \<in> set (attempts db). addr a0 = addr a1 \<and> (attempt_due now a0 \<or> stale_attempt now a0)"
proof -
  let ?st = "set (map at_id (take 50 (filter (stale_attempt now) (attempts db))))"
  obtain a0 where a0: "a0 \<in> set (attempts db)" and a1: "a1 = (if at_id a0 \<in> ?st
      then a0\<lparr>at_status := ''temporary_failure'', at_failure := Some ''stale_claim_recovered'',
              at_next_retry_at := Some now, at_processing_started_at := None\<rparr> else a0)"
    using assms(2) by (auto simp: recover_attempts_def Let_def)
  show ?thesis
  proof (cases "at_id a0 \<in> ?st")
    case True
    then obtain b where "b \<in> set (take 50 (filter (stale_attempt now) (attempts db)))" "at_id b = at_id a0"
      by auto
    then have "b \<in> set (attempts db)" "stale_attempt now b" "at_id b = at_id a0"
      using set_take_subset [of 50 "filter (stale_attempt now) (attempts db)"] by auto
    with assms(1) a0 have "stale_attempt now a0"
      by (auto simp: distinct_map dest: inj_onD)
    with a0 a1 show ?thesis by (auto simp: addr_def)
  qed (use a0 a1 assms(3) in auto)
qed

lemma recover_addr [simp]: "map addr (attempts (recover_attempts now db)) = map addr (attempts db)"
  by (simp add: recover_attempts_def Let_def addr_def)

lemma claim_attempts_from: "delivers_from db (fst (claim_attempts now db))"
  by (simp add: claim_attempts_def Let_def delivers_from_def active_subs_def)
     (simp add: recover_attempts_def Let_def addr_def claim_attempt_def comp_def)

lemma map_at_id_addr: "map at_id as = map fst (map addr as)"
  by (simp add: addr_def)

lemma claimed_ids:
  assumes d: "distinct (map at_id (attempts db))" and c: "claim_attempts now db = (db1, ids)"
  shows "distinct ids" "length ids \<le> 50"
    "i \<in> set ids \<Longrightarrow> \<exists>a0 \<in> set (attempts db). at_id a0 = i \<and> (attempt_due now a0 \<or> stale_attempt now a0)"
proof -
  let ?r = "recover_attempts now db"
  have ids: "ids = map at_id (due_attempts now ?r)" using c by (simp add: claim_attempts_def Let_def)
  show "length ids \<le> 50" by (simp add: ids due_attempts_def)
  have "map at_id (attempts ?r) = map at_id (attempts db)" by (simp only: map_at_id_addr recover_addr)
  with d have "distinct (map at_id (attempts ?r))" by (simp only:)
  then have "distinct (map at_id (sort_key (\<lambda>a. (at_created_at a, at_id a)) (filter (attempt_due now) (attempts ?r))))"
    by (simp add: distinct_map inj_on_def)
  then show "distinct ids" by (simp add: ids due_attempts_def take_map [symmetric] distinct_take)
  show "\<exists>a0 \<in> set (attempts db). at_id a0 = i \<and> (attempt_due now a0 \<or> stale_attempt now a0)" if i: "i \<in> set ids"
  proof -
    obtain a1 where "a1 \<in> set (attempts ?r)" "attempt_due now a1" "at_id a1 = i"
      using i by (auto simp: ids due_attempts_def dest!: in_set_takeD)
    with recovered_due [OF d] show ?thesis by (fastforce simp: addr_def)
  qed
qed

section \<open>A reference installation\<close>

definition demo_settings :: "string \<Rightarrow> string" where
  "demo_settings k =
     (if k \<in> {''notifications_enabled'', ''notifications_in_app_enabled'', ''notifications_push_enabled''} then ''1'' else [])"

definition demo_db :: ndb where
  "demo_db = \<lparr>site_setting = demo_settings,
     users = [\<lparr>user_id = 1, user_email = ''a'', user_role = ''admin'', user_active = True\<rparr>],
     permissions = [], policies = [], preferences = [], subscriptions = [], events = [], user_notifications = [],
     attempts = [], outbox = []\<rparr>"

definition demo_request :: enqueue_request where
  "demo_request = \<lparr>pb_event_type = ''secure_send.item.accessed'', pb_title = ''report for Ann'', pb_message = ''Ann  opened it'',
     pb_target_route = Some ''/secure-send'', pb_source_type = None, pb_source_id = None, pb_deduplication_key = Some ''k1'',
     pb_recipient_ids = None, pb_severity = None, pb_metadata = [], pb_created_by = None, pb_correlation_id = Some ''c1'',
     pb_resolved = False, eq_resolve_key = None, eq_available_at = None\<rparr>"

definition demo_env :: "bool \<Rightarrow> publish_env" where
  "demo_env fault = \<lparr>pub_now = seconds 5, local_clock = (\<lambda>_. None), utc_clock = ''12:00'', db_fault = fault\<rparr>"

definition queued_db :: ndb where
  "queued_db = (case enqueue_notification 0 ''u'' demo_request demo_db of Inl e \<Rightarrow> demo_db | Inr (db, r) \<Rightarrow> db)"

definition queued_row :: outbox_row where
  "queued_row = (case enqueue_notification 0 ''u'' demo_request demo_db of Inl e \<Rightarrow> undefined | Inr (db, r) \<Rightarrow> r)"

definition published_db :: ndb where
  "published_db = fst (process_claimed (demo_env False) 1 (fst (claim_due (seconds 5) queued_db)))"

lemma demo_initial: "initial demo_db"
  by (simp add: initial_def demo_db_def)

lemma demo_enqueues: "\<not> isl (enqueue_notification 0 ''u'' demo_request demo_db)"
  by code_simp

lemma demo_enqueue_result: "enqueue_notification 0 ''u'' demo_request demo_db = Inr (queued_db, queued_row)"
  using demo_enqueues
  by (cases "enqueue_notification 0 ''u'' demo_request demo_db") (auto simp: queued_db_def queued_row_def split: prod.splits)

lemma queued_reachable: "pipeline_step\<^sup>*\<^sup>* demo_db queued_db"
  using Enqueue [OF demo_enqueue_result] by blast

lemma published_reachable: "pipeline_step\<^sup>*\<^sup>* demo_db published_db"
proof -
  have "pipeline_step queued_db (fst (claim_due (seconds 5) queued_db))"
    by (rule Claim) (rule prod.collapse [symmetric])
  moreover have "pipeline_step (fst (claim_due (seconds 5) queued_db)) published_db"
    unfolding published_db_def by (rule Process) (rule prod.collapse [symmetric])
  ultimately show ?thesis
    using queued_reachable by (meson rtranclp.rtrancl_into_rtrancl)
qed

lemma queued_row_in: "queued_row \<in> set (outbox queued_db)"
  by code_simp

section \<open>Guarantees\<close>



text \<open>
  C24. One announcement per condition. In every reachable state at most one outbox row with a given event type and
  de-duplication key is waiting, claimed or to be retried, and at most one unresolved event carries a given
  non-empty key, however requests, workers, crashes, retries and retention interleave.
\<close>

theorem one_announcement_per_condition:
  assumes "initial db0" "pipeline_step\<^sup>*\<^sup>* db0 db"
  shows "length (filter (active_for ident key) (outbox db)) \<le> 1 \<and>
    (key \<noteq> [] \<longrightarrow> length (filter (open_for key) (events db)) \<le> 1)"
  using reachable_ok [OF assms] by (simp_all add: pipeline_ok_def outbox_ok_def one_active_def events_ok_def)

theorem one_announcement_per_condition_witness:
  "length (filter (active_for ''secure_send.item.accessed'' ''k1'') (outbox queued_db)) \<le> 1 \<and>
   length (filter (open_for ''k1'') (events published_db)) \<le> 1 \<and> filter (open_for ''k1'') (events published_db) \<noteq> []"
proof -
  have "map ev_id (filter (open_for ''k1'') (events published_db)) = [1]" by code_simp
  then show ?thesis
    using one_announcement_per_condition [OF demo_initial queued_reachable, of "''secure_send.item.accessed''" "''k1''"]
      one_announcement_per_condition [OF demo_initial published_reachable, of "''x''" "''k1''"] by force
qed

text \<open>
  Sensitive details stay out. Whatever title and message a caller supplies, neither a queued row nor a published event of
  the vault or of Secure Send ever holds them: both show the name of the event type and a fixed sentence.
\<close>

theorem sensitive_details_stay_out:
  assumes "initial db0" "pipeline_step\<^sup>*\<^sup>* db0 db"
  shows "(\<forall>r \<in> set (outbox db). \<forall>d. event_type (ob_event_type r) = Inr d \<and> sensitive_payload d \<longrightarrow>
      ob_title r = nt_display_name d \<and> ob_message r = SENSITIVE_MESSAGE) \<and>
    (\<forall>e \<in> set (events db). \<forall>d. event_type (ev_type e) = Inr d \<and> sensitive_payload d \<longrightarrow>
      ev_title e = nt_display_name d \<and> ev_message e = SENSITIVE_MESSAGE)"
  using reachable_ok [OF assms]
  by (auto simp: pipeline_ok_def outbox_ok_def content_typed_def events_ok_def sensitive_text_def)

definition accessed_type :: notification_type where
  "accessed_type = catalogue_entry (''secure_send.item.accessed'', ''secure_send'', ''secure_send'', ''Secure item accessed'', ''info'')"

theorem sensitive_details_stay_out_witness:
  "ob_title queued_row = ''Secure item accessed'' \<and> ob_message queued_row = SENSITIVE_MESSAGE"
proof -
  have "event_type (ob_event_type queued_row) = Inr accessed_type" by code_simp
  moreover have "sensitive_payload accessed_type" by code_simp
  moreover have "nt_display_name accessed_type = ''Secure item accessed''" by (simp add: accessed_type_def catalogue_entry_def)
  ultimately show ?thesis
    using sensitive_details_stay_out [OF demo_initial queued_reachable] queued_row_in by auto
qed

lemma default_severities_known:
  "list_all (\<lambda>row. map_of SEVERITY_ORDER (default_severity (catalogue_entry row)) \<noteq> None) ROWS"
  by code_simp

lemma obj_get_scalar: "list_all (\<lambda>(k, v). is_scalar v) md \<Longrightarrow> is_scalar (obj_get md k)"
  by (auto simp: obj_get_def is_scalar_def list_all_iff dest!: map_of_SomeD split: option.splits json.splits)

lemma store_event_error: "store_event env req d sev row db = Inl e \<Longrightarrow> e = DatabaseError \<and> db_fault env"
  by (auto simp: store_event_def Let_def split: prod.splits if_splits)

lemma severity_known:
  assumes "event_type ident = Inr d" "map_of SEVERITY_ORDER (publish_severity req d) = None"
  shows "\<exists>s. pb_severity req = Some s \<and> map_of SEVERITY_ORDER s = None"
proof (cases "truthy_text (pb_severity req)")
  case None
  then show ?thesis
    using event_type_catalogue [OF assms(1)] default_severities_known assms(2)
    by (auto simp: publish_severity_def list_all_iff)
next
  case (Some s)
  then have "pb_severity req = Some s"
    by (auto simp: truthy_text_def split: option.splits if_splits)
  with Some assms(2) show ?thesis by (simp add: publish_severity_def)
qed

text \<open>
  What was accepted can be published. A row that \<open>enqueue_notification\<close> accepted never fails the checks of publication,
  whatever settings, policies and users are in force by then: publication raises only when the database
  fails, or when the caller gave a severity that does not exist, which is the one field that is not checked on the way in.
\<close>

theorem queued_rows_pass_publication:
  assumes "initial db0" "pipeline_step\<^sup>*\<^sup>* db0 db" "r \<in> set (outbox db)" "publish env (row_publication r) db' = Inl e"
  shows "e = DatabaseError \<and> db_fault env \<or>
    e = InvalidSeverity \<and> (\<exists>s. ob_severity r = Some s \<and> map_of SEVERITY_ORDER s = None)"
proof -
  have c: "content_typed r"
    using reachable_ok [OF assms(1,2)] assms(3) by (simp add: pipeline_ok_def outbox_ok_def)
  then obtain d where d: "event_type (ob_event_type r) = Inr d"
    by (auto simp: content_typed_def sensitive_text_def split: sum.splits)
  have md: "is_scalar (obj_get (pb_metadata (row_publication r)) ''diagnostic_channel'')"
    using c by (auto simp: content_typed_def row_publication_def intro: obj_get_scalar split: option.splits)
  have fields: "pb_event_type (row_publication r) = ob_event_type r" "pb_title (row_publication r) = ob_title r"
    "pb_message (row_publication r) = ob_message r" "pb_target_route (row_publication r) = ob_target_route r"
    "pb_deduplication_key (row_publication r) = ob_deduplication_key r" "pb_severity (row_publication r) = ob_severity r"
    by (simp_all add: row_publication_def)
  have checks: "clean_field (Some (ob_title r)) 160 ''title'' = Inr (ob_title r)"
    "clean_field (Some (ob_message r)) 500 ''message'' = Inr (ob_message r)"
    "safe_target_route (ob_target_route r) = Inr (ob_target_route r)"
    "clean_optional (ob_deduplication_key r) 255 ''deduplication key'' = Inr (ob_deduplication_key r)"
    using c by (simp_all add: content_typed_def)
  note p = assms(4) [unfolded publish_def fields d checks sum.case]
  show ?thesis
  proof (cases "map_of SEVERITY_ORDER (publish_severity (row_publication r) d)")
    case None
    then have "e = InvalidSeverity" using p md by simp
    with severity_known [OF d None] fields show ?thesis by auto
  next
    case (Some n)
    with p md show ?thesis
      by (auto split: option.splits prod.splits dest!: store_event_error)
  qed
qed

definition bad_request :: enqueue_request where
  "bad_request = demo_request\<lparr>pb_severity := Some ''fatal''\<rparr>"

definition bad_db :: ndb where
  "bad_db = (case enqueue_notification 0 ''u'' bad_request demo_db of Inl e \<Rightarrow> demo_db | Inr (db, r) \<Rightarrow> db)"

theorem queued_rows_pass_publication_witness:
  "DatabaseError = DatabaseError \<and> db_fault (demo_env True) \<or>
   DatabaseError = InvalidSeverity \<and> (\<exists>s. ob_severity queued_row = Some s \<and> map_of SEVERITY_ORDER s = None)"
proof -
  have "publish (demo_env True) (row_publication queued_row) queued_db = Inl DatabaseError"
  proof -
    have "case publish (demo_env True) (row_publication queued_row) queued_db of Inl e \<Rightarrow> e = DatabaseError | Inr x \<Rightarrow> False"
      by code_simp
    then show ?thesis by (cases "publish (demo_env True) (row_publication queued_row) queued_db") simp_all
  qed
  then show ?thesis
    by (rule queued_rows_pass_publication [OF demo_initial queued_reachable queued_row_in])
qed

text \<open>
  A request with an unknown severity is accepted, fails six times and ends in quarantine without an event.
\<close>

definition later :: "nat \<Rightarrow> publish_env" where
  "later n = (demo_env False)\<lparr>pub_now := seconds (4000 * int n)\<rparr>"

fun work :: "nat \<Rightarrow> nat \<Rightarrow> ndb \<Rightarrow> ndb" where
  "work k 0 db = db"
| "work k (Suc n) db = work (Suc k) n (fst (process_outbox (\<lambda>_. pub_now (later k)) (\<lambda>_. later k) 1 db))"

lemma unknown_severity_is_quarantined:
  "map (\<lambda>r. (ob_status r, ob_retry_count r)) (outbox (work 1 6 bad_db)) = [(''quarantined'', 6)] \<and> events (work 1 6 bad_db) = []"
  by code_simp

text \<open>
  No request is lost. From any reachable state on, a queued row stays in the table with the request it was created with;
  failures only accumulate, and once it is processed, suppressed or quarantined it never changes again, apart from the reference to an event
  that the retention job has deleted. In particular it is not published again.
\<close>

theorem no_request_is_lost:
  assumes "initial db0" "pipeline_step\<^sup>*\<^sup>* db0 db" "pipeline_step\<^sup>*\<^sup>* db db'" "r \<in> set (outbox db)"
  shows "\<exists>r' \<in> set (outbox db'). keeps r r'"
  using assms(3)
proof (induction rule: rtranclp_induct)
  case base
  show ?case using assms(4) by (auto intro: bexI [of _ r])
next
  case (step y z)
  then obtain r1 where r1: "r1 \<in> set (outbox y)" "keeps r r1" by blast
  have "pipeline_step\<^sup>*\<^sup>* db0 y" using assms(2) step(1) by simp
  then have "distinct (map ob_id (outbox y))"
    using reachable_ok [OF assms(1)] by (simp add: pipeline_ok_def outbox_ok_def)
  from pipeline_step_evolves [OF step(2) this] show ?case
  proof
    assume "evolves (outbox y) (outbox z)"
    then obtain f where "outbox z = map f (outbox y)" "row_step r1 (f r1)"
      using r1 unfolding evolves_def by blast
    with r1 show ?thesis by (auto simp: row_step_def intro: keeps_trans)
  next
    assume "\<exists>x. outbox z = outbox y @ [x]"
    with r1 show ?thesis by auto
  qed
qed

lemma queued_to_published: "pipeline_step\<^sup>*\<^sup>* queued_db published_db"
proof -
  have "pipeline_step queued_db (fst (claim_due (seconds 5) queued_db))"
    by (rule Claim) (rule prod.collapse [symmetric])
  moreover have "pipeline_step (fst (claim_due (seconds 5) queued_db)) published_db"
    unfolding published_db_def by (rule Process) (rule prod.collapse [symmetric])
  ultimately show ?thesis by (meson rtranclp.rtrancl_into_rtrancl rtranclp.rtrancl_refl)
qed

theorem no_request_is_lost_witness: "\<exists>r' \<in> set (outbox published_db). keeps queued_row r'"
  by (rule no_request_is_lost [OF demo_initial queued_reachable queued_to_published queued_row_in])



lemma subseq_set: "subseq xs ys \<Longrightarrow> set xs \<subseteq> set ys"
  by (auto dest: list_emb_set)

lemma subseq_is_distinct: "subseq xs ys \<Longrightarrow> distinct ys \<Longrightarrow> distinct xs"
  by (induction rule: list_emb.induct) (auto dest: subseq_set)

definition push_attempt :: "int \<Rightarrow> string \<Rightarrow> delivery_attempt" where
  "push_attempt i st = \<lparr>at_id = i, at_notification = 1, at_channel = ''push'', at_subscription = Some 7, at_attempted_at = 0,
     at_created_at = 0, at_processing_started_at = None, at_accepted_at = None, at_status = st, at_retry_count = 0,
     at_next_retry_at = None, at_failure = None\<rparr>"

definition push_db :: ndb where
  "push_db = published_db\<lparr>
     user_notifications := [\<lparr>un_id = 1, un_event = 1, un_user = 1, un_read_at = None, un_created_at = 0\<rparr>],
     subscriptions := [\<lparr>sub_id = 7, sub_user = 1, sub_status = ''active'', sub_revoked_at = None, sub_last_used_at = None,
       sub_last_success_at = None, sub_last_failure_at = None, sub_failure_count = 0\<rparr>],
     attempts := [push_attempt 1 ''accepted_by_push_service'', push_attempt 2 ''queued'']\<rparr>"

lemma accepted_is_not_sent_again:
  "map at_id (fst (snd (deliver_queued (seconds 9) (\<lambda>_. HttpFailure 503) push_db))) = [2]"
  by code_simp

text \<open>
  Deliveries are authorised. One delivery iteration hands at most fifty attempts to a provider, each at most once, and only attempts that were
  due or whose earlier claim was abandoned: an attempt that was accepted, cancelled, rejected or exhausted is never sent again. The
  account behind each of them is active, and a push goes only to a subscription that is still active.
\<close>

theorem deliveries_are_authorised:
  assumes d: "distinct (map at_id (attempts db))" and q: "deliver_queued now provider db = (db', sent, res)"
  shows "distinct (map at_id sent) \<and> length sent \<le> 50 \<and>
    (\<forall>a \<in> set sent. authorised db a \<and>
       (\<exists>a0 \<in> set (attempts db). addr a0 = addr a \<and> (attempt_due now a0 \<or> stale_attempt now a0)))"
proof -
  obtain db1 ids where c: "claim_attempts now db = (db1, ids)" by (rule prod.exhaust)
  have b: "deliver_batch now provider ids db1 0 = (db', sent, res)"
    using q c by (simp add: deliver_queued_def)
  have from1: "delivers_from db db1" and desk1: "desk db1 = desk db"
    using claim_attempts_from [of db now] claim_attempts_desk [of now db] by (simp_all add: c)
  note s = deliver_batch_sent [OF b]
  have sub: "subseq (map at_id sent) ids" using s by blast
  have len: "length sent \<le> 50"
    using list_emb_length [OF sub] claimed_ids(2) [OF d c] by simp
  have dist: "distinct (map at_id sent)"
    using sub claimed_ids(1) [OF d c] by (rule subseq_is_distinct)
  have "authorised db a \<and> (\<exists>a0 \<in> set (attempts db). addr a0 = addr a \<and> (attempt_due now a0 \<or> stale_attempt now a0))"
    if a: "a \<in> set sent" for a
  proof -
    have "at_id a \<in> set ids" using subseq_set [OF sub] a by auto
    then obtain a0 where a0: "a0 \<in> set (attempts db)" "at_id a0 = at_id a" "attempt_due now a0 \<or> stale_attempt now a0"
      using claimed_ids(3) [OF d c] by blast
    have "addr a \<in> addr ` set (attempts db)"
      using s a from1 by (metis delivers_from_def set_map)
    then obtain a1 where a1: "a1 \<in> set (attempts db)" "addr a1 = addr a" by auto
    then have "at_id a1 = at_id a0" using a0(2) by (simp add: addr_def)
    with a0(1) a1(1) d have "a1 = a0" by (auto simp: distinct_map dest: inj_onD)
    with a0 a1 s a authorised_back [OF from1 desk1] show ?thesis by blast
  qed
  with len dist show ?thesis by blast
qed

theorem deliveries_are_authorised_witness:
  "authorised push_db (hd (fst (snd (deliver_queued (seconds 9) (\<lambda>_. HttpFailure 503) push_db))))"
proof -
  have d: "distinct (map at_id (attempts push_db))" by (simp add: push_db_def push_attempt_def)
  obtain db' sent res where q: "deliver_queued (seconds 9) (\<lambda>_. HttpFailure 503) push_db = (db', sent, res)" by (rule prod_cases3)
  have "sent \<noteq> []" using accepted_is_not_sent_again by (auto simp: q)
  then show ?thesis
    using deliveries_are_authorised [OF d q] by (simp add: q)
qed

end
