(* ===== verification/Secure_Send.thy ===== *)
theory Secure_Send
  imports Kaya_Base
begin

text \<open>
  Secure Send: packages, recipient sessions and the clean-up job (\<open>app/services/secure_send.py\<close>), the public gateway that
  recipients use (\<open>app/security_gateway.py\<close>) and the sender's operations (\<open>app/routers/secure_send.py\<close>).
  The hash and encryption functions are the record \<open>crypto\<close>, an argument of the operations; random tokens are arguments
  too. Mail, audit log and page rendering are left out: they do not feed back into the state. One request reads the
  clock once.
\<close>

section \<open>Rows\<close>

record package =
  pk_id :: int
  pk_sender :: int
  pk_internal :: "int option"
  pk_token_hash :: string
  pk_credential_hash :: string
  pk_note :: "string option"
  pk_status :: string
  pk_expires_at :: time
  pk_one_download :: bool
  pk_vault_save :: bool
  pk_download_count :: int
  pk_failed_attempts :: int
  pk_locked_until :: "time option"
  pk_opened_at :: "time option"
  pk_authenticated_at :: "time option"
  pk_downloaded_at :: "time option"
  pk_revoked_at :: "time option"
  pk_expired_at :: "time option"
  pk_deleted_at :: "time option"
  pk_cleaned_at :: "time option"

record send_file =
  fl_id :: int
  fl_package :: int
  fl_storage_id :: string
  fl_metadata :: string
  fl_integrity :: string
  fl_downloaded_at :: "time option"

record recipient_session =
  rs_id :: int
  rs_package :: int
  rs_token_hash :: string
  rs_csrf_hash :: string
  rs_created_at :: time
  rs_last_activity :: time
  rs_expires_at :: time
  rs_revoked_at :: "time option"

record activity =
  ac_package :: int
  ac_event :: string
  ac_actor :: "int option"

text \<open>The tables, the storage directory, and the in-memory list of failed attempts per client and package.\<close>

record sdb =
  module_enabled :: bool
  max_expiry_days :: string
  packages :: "package list"
  files :: "send_file list"
  sessions :: "recipient_session list"
  activities :: "activity list"
  disk :: "(string \<times> string) list"
  ATTEMPTS :: "(string \<times> time list) list"

record crypto =
  sha256 :: "string \<Rightarrow> string"
  hash_password :: "string \<Rightarrow> string"
  verify_password :: "string \<Rightarrow> string \<Rightarrow> bool"
  decrypt_metadata :: "int \<Rightarrow> string \<Rightarrow> string \<Rightarrow> string option"
  decrypt_content :: "int \<Rightarrow> string \<Rightarrow> string \<Rightarrow> string option"
  decrypt_note :: "int \<Rightarrow> string \<Rightarrow> string option"

definition SESSION_MINUTES :: int where
  "SESSION_MINUTES = 15"

definition update_package :: "int \<Rightarrow> (package \<Rightarrow> package) \<Rightarrow> sdb \<Rightarrow> sdb" where
  "update_package pid f db = db\<lparr>packages := map (\<lambda>p. if pk_id p = pid then f p else p) (packages db)\<rparr>"

definition update_session :: "int \<Rightarrow> (recipient_session \<Rightarrow> recipient_session) \<Rightarrow> sdb \<Rightarrow> sdb" where
  "update_session sid f db = db\<lparr>sessions := map (\<lambda>s. if rs_id s = sid then f s else s) (sessions db)\<rparr>"

section \<open>Credentials\<close>

definition normalise_pin :: "string \<Rightarrow> string" where
  "normalise_pin s = concat (words_from [] s)"

definition credential_material :: "string \<Rightarrow> string \<Rightarrow> string \<Rightarrow> string" where
  "credential_material token pin passphrase = token @ [CHR 0x00] @ normalise_pin pin @ [CHR 0x00] @ strip1 passphrase"

datatype pin_problem = PinLength | PinPredictable

definition validate_pin :: "string \<Rightarrow> pin_problem option" where
  "validate_pin pin =
     (let clean = normalise_pin pin
      in if length clean < 6 \<or> length clean > 32 then Some PinLength
         else if list_all is_digit1 clean \<and>
                 (length (remdups clean) = 1 \<or> contains clean ''01234567890123456789'' \<or> contains clean ''98765432109876543210'')
         then Some PinPredictable else None)"

definition authenticate_package :: "crypto \<Rightarrow> package \<Rightarrow> string \<Rightarrow> string \<Rightarrow> string \<Rightarrow> bool" where
  "authenticate_package cr p token pin passphrase =
     verify_password cr (credential_material token pin passphrase) (pk_credential_hash p)"

section \<open>Life of a package\<close>

definition record_activity :: "int \<Rightarrow> string \<Rightarrow> int option \<Rightarrow> sdb \<Rightarrow> sdb" where
  "record_activity pid event actor db =
     db\<lparr>activities := activities db @ [\<lparr>ac_package = pid, ac_event = event, ac_actor = actor\<rparr>]\<rparr>"

text \<open>
  \<open>create_package\<close>: the encrypted note and files arrive encrypted, a file as storage name, encrypted metadata
  and encrypted content. When a file cannot be written, everything is rolled back.
\<close>

record package_request =
  rq_sender :: int
  rq_internal :: "int option"
  rq_token :: string
  rq_passphrase :: string
  rq_pin :: string
  rq_note :: "string option"
  rq_expires_at :: time
  rq_one_download :: bool
  rq_vault_save :: bool
  rq_files :: "(string \<times> string \<times> string) list"

definition new_package :: "crypto \<Rightarrow> package_request \<Rightarrow> int \<Rightarrow> package" where
  "new_package cr rq i =
     \<lparr>pk_id = i, pk_sender = rq_sender rq, pk_internal = rq_internal rq, pk_token_hash = sha256 cr (rq_token rq),
      pk_credential_hash = hash_password cr (credential_material (rq_token rq) (rq_pin rq) (rq_passphrase rq)),
      pk_note = rq_note rq, pk_status = ''active'', pk_expires_at = rq_expires_at rq, pk_one_download = rq_one_download rq,
      pk_vault_save = rq_vault_save rq, pk_download_count = 0, pk_failed_attempts = 0, pk_locked_until = None,
      pk_opened_at = None, pk_authenticated_at = None, pk_downloaded_at = None, pk_revoked_at = None, pk_expired_at = None,
      pk_deleted_at = None, pk_cleaned_at = None\<rparr>"

fun add_files :: "crypto \<Rightarrow> int \<Rightarrow> (string \<times> string \<times> string) list \<Rightarrow> sdb \<Rightarrow> sdb" where
  "add_files cr pid [] db = db"
| "add_files cr pid ((storage, meta, content) # fs) db =
     add_files cr pid fs
       (db\<lparr>files := files db @ [\<lparr>fl_id = next_rowid (map fl_id (files db)), fl_package = pid, fl_storage_id = storage,
                               fl_metadata = meta, fl_integrity = sha256 cr content, fl_downloaded_at = None\<rparr>],
           disk := dict_put storage content (disk db)\<rparr>)"

definition create_package :: "crypto \<Rightarrow> bool \<Rightarrow> package_request \<Rightarrow> sdb \<Rightarrow> sdb \<times> int option" where
  "create_package cr storage_fails rq db =
     (let pid = next_rowid (map pk_id (packages db));
          db1 = add_files cr pid (rq_files rq) (db\<lparr>packages := packages db @ [new_package cr rq pid]\<rparr>)
      in if storage_fails then (db, None)
         else (record_activity pid ''created'' (Some (rq_sender rq)) db1, Some pid))"

definition package_for_token :: "crypto \<Rightarrow> sdb \<Rightarrow> string \<Rightarrow> package option" where
  "package_for_token cr db token =
     (if token = [] \<or> length token > 200 then None
      else find (\<lambda>p. pk_token_hash p = sha256 cr token) (packages db))"

definition package_accessible :: "time \<Rightarrow> package \<Rightarrow> bool" where
  "package_accessible now p \<longleftrightarrow>
     pk_status p \<notin> {''expired'', ''revoked'', ''deleted''} \<and> pk_revoked_at p = None \<and> pk_deleted_at p = None \<and>
     pk_expires_at p > now \<and> pk_cleaned_at p = None"

section \<open>Recipient sessions\<close>

definition revoke_recipient_sessions :: "time \<Rightarrow> int \<Rightarrow> sdb \<Rightarrow> sdb" where
  "revoke_recipient_sessions now pid db =
     db\<lparr>sessions := map (\<lambda>s. if rs_package s = pid \<and> rs_revoked_at s = None then s\<lparr>rs_revoked_at := Some now\<rparr> else s) (sessions db)\<rparr>"

definition session_limit :: "time \<Rightarrow> package \<Rightarrow> time" where
  "session_limit now p = min (pk_expires_at p) (now + minutes SESSION_MINUTES)"

definition start_recipient_session :: "crypto \<Rightarrow> time \<Rightarrow> string \<Rightarrow> string \<Rightarrow> package \<Rightarrow> sdb \<Rightarrow> sdb" where
  "start_recipient_session cr now token csrf p db =
     (let db1 = revoke_recipient_sessions now (pk_id p) db
      in db1\<lparr>sessions := sessions db1 @
           [\<lparr>rs_id = next_rowid (map rs_id (sessions db1)), rs_package = pk_id p, rs_token_hash = sha256 cr token,
             rs_csrf_hash = sha256 cr csrf, rs_created_at = now, rs_last_activity = now,
             rs_expires_at = session_limit now p, rs_revoked_at = None\<rparr>]\<rparr>)"

definition find_session :: "crypto \<Rightarrow> sdb \<Rightarrow> package \<Rightarrow> string \<Rightarrow> recipient_session option" where
  "find_session cr db p token =
     find (\<lambda>s. rs_package s = pk_id p \<and> rs_token_hash s = sha256 cr token) (sessions db)"

definition active_recipient_session ::
  "crypto \<Rightarrow> time \<Rightarrow> package \<Rightarrow> string option \<Rightarrow> sdb \<Rightarrow> sdb \<times> recipient_session option" where
  "active_recipient_session cr now p token db =
     (case token of
        None \<Rightarrow> (db, None)
      | Some t \<Rightarrow>
          if t = [] \<or> \<not> package_accessible now p then (db, None)
          else (case find_session cr db p t of
                  None \<Rightarrow> (db, None)
                | Some s \<Rightarrow>
                    if rs_revoked_at s \<noteq> None \<or> rs_expires_at s \<le> now then (db, None)
                    else (let s' = s\<lparr>rs_last_activity := now, rs_expires_at := session_limit now p\<rparr>
                          in (update_session (rs_id s) (\<lambda>_. s') db, Some s'))))"

definition verify_session_csrf :: "crypto \<Rightarrow> recipient_session \<Rightarrow> string \<Rightarrow> bool" where
  "verify_session_csrf cr s value \<longleftrightarrow> value \<noteq> [] \<and> rs_csrf_hash s = sha256 cr value"

section \<open>Clean-up\<close>

definition close_package :: "time \<Rightarrow> string \<Rightarrow> package \<Rightarrow> package" where
  "close_package now status p =
     p\<lparr>pk_note := None, pk_cleaned_at := Some now, pk_status := status,
       pk_expired_at := (if status = ''expired'' then or_else (pk_expired_at p) (Some now) else pk_expired_at p),
       pk_deleted_at := (if status = ''deleted'' then or_else (pk_deleted_at p) (Some now) else pk_deleted_at p)\<rparr>"

text \<open>\<open>unlink_fails\<close>: the storage names whose removal raises \<open>OSError\<close>, which the code ignores.\<close>

definition clean_package_content :: "time \<Rightarrow> string list \<Rightarrow> string \<Rightarrow> int \<Rightarrow> sdb \<Rightarrow> sdb" where
  "clean_package_content now unlink_fails status pid db =
     (let gone = map fl_storage_id (filter (\<lambda>f. fl_package f = pid) (files db));
          db1 = db\<lparr>files := filter (\<lambda>f. fl_package f \<noteq> pid) (files db),
                   disk := filter (\<lambda>(name, content). name \<notin> set gone \<or> name \<in> set unlink_fails) (disk db)\<rparr>
      in revoke_recipient_sessions now pid (update_package pid (close_package now status) db1))"

definition expire_one :: "time \<Rightarrow> string list \<Rightarrow> sdb \<Rightarrow> int \<Rightarrow> sdb" where
  "expire_one now unlink_fails db pid =
     clean_package_content now unlink_fails ''expired'' pid (record_activity pid ''expired'' None db)"

definition expired_packages :: "time \<Rightarrow> sdb \<Rightarrow> int list" where
  "expired_packages now db = map pk_id (filter (\<lambda>p. pk_expires_at p \<le> now \<and> pk_cleaned_at p = None) (packages db))"

definition expire_and_cleanup :: "time \<Rightarrow> string list \<Rightarrow> sdb \<Rightarrow> sdb \<times> int" where
  "expire_and_cleanup now unlink_fails db =
     (let ids = expired_packages now db in (foldl (expire_one now unlink_fails) db ids, int (length ids)))"

section \<open>The gateway\<close>

text \<open>
  What the gateway answers: an error status, the page that asks for the credentials (with or without an error message), the contents
  page, the redirect after a successful unlock with the new cookie, downloaded content, and the page after logout.
\<close>

datatype reply =
    Status int
  | UnlockPage bool
  | PackagePage "string list" "string option"
  | Unlocked string
  | Download "(string \<times> string) list"
  | LoggedOut

definition safe_state :: "time \<Rightarrow> package option \<Rightarrow> string" where
  "safe_state now row =
     (case row of
        None \<Rightarrow> ''missing''
      | Some p \<Rightarrow>
          if pk_revoked_at p \<noteq> None \<or> pk_status p = ''revoked'' then ''revoked''
          else if pk_deleted_at p \<noteq> None \<or> pk_status p = ''deleted'' then ''missing''
          else if pk_one_download p \<and> pk_download_count p \<ge> 1 then ''expired''
          else if pk_expires_at p \<le> now \<or> pk_expired_at p \<noteq> None \<or> pk_status p = ''expired'' then ''expired''
          else ''active'')"

definition token_char :: "char \<Rightarrow> bool" where
  "token_char c \<longleftrightarrow> is_upper c \<or> is_lower c \<or> is_digit c \<or> c \<in> {CHR ''_'', CHR ''-''}"

definition ACCESS_TOKEN_RE :: "string \<Rightarrow> bool" where
  "ACCESS_TOKEN_RE s \<longleftrightarrow> length s = 64 \<and> list_all token_char s"

definition package_or_error :: "crypto \<Rightarrow> time \<Rightarrow> sdb \<Rightarrow> string \<Rightarrow> package option" where
  "package_or_error cr now db token =
     (if \<not> ACCESS_TOKEN_RE token then None
      else if safe_state now (package_for_token cr db token) \<noteq> ''active'' then None
      else package_for_token cr db token)"

definition attempt_key :: "string \<Rightarrow> int \<Rightarrow> string" where
  "attempt_key ip pid = ip @ '':'' @ str_int pid"

definition recent_attempts :: "time \<Rightarrow> sdb \<Rightarrow> string \<Rightarrow> time list" where
  "recent_attempts now db key =
     filter (\<lambda>t. now - t < seconds 900) (case map_of (ATTEMPTS db) key of None \<Rightarrow> [] | Some ts \<Rightarrow> ts)"

definition attempt_limited :: "time \<Rightarrow> string \<Rightarrow> package \<Rightarrow> sdb \<Rightarrow> sdb \<times> bool" where
  "attempt_limited now ip p db =
     (let key = attempt_key ip (pk_id p); recent = recent_attempts now db key
      in (db\<lparr>ATTEMPTS := dict_put key recent (ATTEMPTS db)\<rparr>,
          length recent \<ge> 10 \<or> (case pk_locked_until p of Some t \<Rightarrow> t > now | None \<Rightarrow> False)))"

definition read_file :: "crypto \<Rightarrow> sdb \<Rightarrow> package \<Rightarrow> send_file \<Rightarrow> string option" where
  "read_file cr db p f =
     (case map_of (disk db) (fl_storage_id f) of
        None \<Rightarrow> None
      | Some content \<Rightarrow>
          if sha256 cr content \<noteq> fl_integrity f then None else decrypt_content cr (pk_id p) (fl_storage_id f) content)"

definition package_files :: "sdb \<Rightarrow> package \<Rightarrow> send_file list" where
  "package_files db p = sort_key fl_id (filter (\<lambda>f. fl_package f = pk_id p) (files db))"

text \<open>\<open>None\<close>: a value that does not decrypt, which the request answers with an internal error.\<close>

definition decoded_files :: "crypto \<Rightarrow> sdb \<Rightarrow> package \<Rightarrow> (send_file \<times> string) list option" where
  "decoded_files cr db p =
     those (map (\<lambda>f. map_option (\<lambda>name. (f, text_or name ''secure-file''))
                    (decrypt_metadata cr (pk_id p) (fl_storage_id f) (fl_metadata f))) (package_files db p))"

definition decode_note :: "crypto \<Rightarrow> package \<Rightarrow> string option option" where
  "decode_note cr p =
     (case pk_note p of None \<Rightarrow> Some None | Some c \<Rightarrow> (case decrypt_note cr (pk_id p) c of None \<Rightarrow> None | Some t \<Rightarrow> Some (Some t)))"

definition opened_package :: "time \<Rightarrow> package \<Rightarrow> package" where
  "opened_package now p = p\<lparr>pk_opened_at := Some now, pk_status := ''opened''\<rparr>"

definition recipient :: "crypto \<Rightarrow> time \<Rightarrow> string \<Rightarrow> string option \<Rightarrow> sdb \<Rightarrow> sdb \<times> reply" where
  "recipient cr now token cookie db =
     (if \<not> module_enabled db then (db, Status 403)
      else case package_or_error cr now db token of
        None \<Rightarrow> (db, Status 403)
      | Some p0 \<Rightarrow>
         (let first = pk_opened_at p0 = None;
              p = (if first then opened_package now p0 else p0);
              db1 = (if first then record_activity (pk_id p) ''opened'' None (update_package (pk_id p) (opened_package now) db) else db)
          in case active_recipient_session cr now p cookie db1 of
               (db2, None) \<Rightarrow> (db2, UnlockPage False)
             | (db2, Some s) \<Rightarrow>
                 (case (decoded_files cr db2 p, decode_note cr p) of
                    (Some fs, Some note) \<Rightarrow> (db2, PackagePage (map snd fs) note)
                  | _ \<Rightarrow> (db2, Status 500))))"

definition failed_unlock :: "time \<Rightarrow> package \<Rightarrow> package" where
  "failed_unlock now p =
     (let n = pk_failed_attempts p + 1
      in p\<lparr>pk_failed_attempts := n,
           pk_locked_until := (if n \<ge> 10 then Some (now + minutes 30) else if n \<ge> 5 then Some (now + minutes 5)
                               else pk_locked_until p)\<rparr>)"

definition unlocked_package :: "time \<Rightarrow> package \<Rightarrow> package" where
  "unlocked_package now p = p\<lparr>pk_failed_attempts := 0, pk_locked_until := None, pk_authenticated_at := Some now\<rparr>"

definition unlock ::
  "crypto \<Rightarrow> time \<Rightarrow> string \<Rightarrow> string \<Rightarrow> string \<Rightarrow> string \<Rightarrow> string \<Rightarrow> string \<Rightarrow> sdb \<Rightarrow> sdb \<times> reply" where
  "unlock cr now ip token pin passphrase new_token new_csrf db =
     (if \<not> module_enabled db then (db, Status 403)
      else case package_or_error cr now db token of
        None \<Rightarrow> (db, Status 403)
      | Some p \<Rightarrow>
         (case attempt_limited now ip p db of
            (db1, True) \<Rightarrow> (db1, Status 429)
          | (db1, False) \<Rightarrow>
              if \<not> authenticate_package cr p token pin passphrase
              then (let key = attempt_key ip (pk_id p);
                        old = (case map_of (ATTEMPTS db1) key of None \<Rightarrow> [] | Some ts \<Rightarrow> ts)
                    in (record_activity (pk_id p) ''authentication_failed'' None
                          (update_package (pk_id p) (failed_unlock now)
                             (db1\<lparr>ATTEMPTS := dict_put key (old @ [now]) (ATTEMPTS db1)\<rparr>)), UnlockPage True))
              else (let p' = unlocked_package now p
                    in (record_activity (pk_id p) ''authenticated'' None
                          (start_recipient_session cr now new_token new_csrf p'
                             (update_package (pk_id p) (unlocked_package now) db1)), Unlocked new_token))))"

definition authorised_download ::
  "crypto \<Rightarrow> time \<Rightarrow> string \<Rightarrow> string option \<Rightarrow> string \<Rightarrow> sdb \<Rightarrow> sdb \<times> (int + package)" where
  "authorised_download cr now token cookie csrf db =
     (case package_or_error cr now db token of
        None \<Rightarrow> (db, Inl 403)
      | Some p \<Rightarrow>
         (case active_recipient_session cr now p cookie db of
            (db1, None) \<Rightarrow> (db1, Inl 403)
          | (db1, Some s) \<Rightarrow>
              if \<not> verify_session_csrf cr s csrf then (db1, Inl 403)
              else if pk_one_download p \<and> pk_download_count p \<ge> 1 then (db1, Inl 410)
              else (db1, Inr p)))"

definition downloaded_package :: "time \<Rightarrow> package \<Rightarrow> package" where
  "downloaded_package now p =
     p\<lparr>pk_download_count := pk_download_count p + 1, pk_downloaded_at := Some now, pk_status := ''downloaded''\<rparr>"

definition mark_download :: "time \<Rightarrow> package \<Rightarrow> sdb \<Rightarrow> sdb" where
  "mark_download now p db =
     (let db1 = record_activity (pk_id p) ''downloaded'' None (update_package (pk_id p) (downloaded_package now) db)
      in if pk_one_download p then revoke_recipient_sessions now (pk_id p) db1 else db1)"

definition download_file ::
  "crypto \<Rightarrow> time \<Rightarrow> string \<Rightarrow> int \<Rightarrow> string option \<Rightarrow> string \<Rightarrow> sdb \<Rightarrow> sdb \<times> reply" where
  "download_file cr now token fid cookie csrf db =
     (if \<not> module_enabled db then (db, Status 403)
      else case authorised_download cr now token cookie csrf db of
        (db1, Inl code) \<Rightarrow> (db1, Status code)
      | (db1, Inr p) \<Rightarrow>
         (case find (\<lambda>f. fl_id f = fid \<and> fl_package f = pk_id p) (files db1) of
            None \<Rightarrow> (db1, Status 404)
          | Some f \<Rightarrow>
             (case decoded_files cr db1 p of
                None \<Rightarrow> (db1, Status 500)
              | Some fs \<Rightarrow>
                 (case find (\<lambda>(g, name). fl_id g = fl_id f) fs of
                    None \<Rightarrow> (db1, Status 404)
                  | Some (g, name) \<Rightarrow>
                     (case read_file cr db1 p f of
                        None \<Rightarrow> (db1, Status 500)
                      | Some content \<Rightarrow>
                          (mark_download now p
                             (db1\<lparr>files := map (\<lambda>h. if fl_id h = fl_id f then h\<lparr>fl_downloaded_at := Some now\<rparr> else h) (files db1)\<rparr>),
                           Download [(name, content)]))))))"

text \<open>The names in the archive, from the 1-based position and the file name without its directories.\<close>

definition base_name :: "string \<Rightarrow> string" where
  "base_name s =
     (let parts = filter (\<lambda>p. p \<noteq> [] \<and> p \<noteq> ''.'') (split_on (CHR ''/'') s) in if parts = [] then [] else List.last parts)"

fun zip_names :: "int \<Rightarrow> string list \<Rightarrow> string list \<Rightarrow> string list" where
  "zip_names i used [] = []"
| "zip_names i used (f # fs) =
     (let name = text_or (base_name f) (''secure-file-'' @ str_int i);
          name' = (if name \<in> set used then str_int i @ ''-'' @ name else name)
      in name' # zip_names (i + 1) (name' # used) fs)"

definition build_zip :: "crypto \<Rightarrow> sdb \<Rightarrow> package \<Rightarrow> (string \<times> string) list option" where
  "build_zip cr db p =
     (case decoded_files cr db p of
        None \<Rightarrow> None
      | Some fs \<Rightarrow>
         (case those (map (\<lambda>(f, name). read_file cr db p f) fs) of
            None \<Rightarrow> None
          | Some contents \<Rightarrow>
             (case decode_note cr p of
                None \<Rightarrow> None
              | Some note \<Rightarrow>
                  Some (zip (zip_names 1 [] (map snd fs)) contents @
                        (case note of Some t \<Rightarrow> if t = [] then [] else [(''secure-note.txt'', t)] | None \<Rightarrow> [])))))"

definition download_package :: "crypto \<Rightarrow> time \<Rightarrow> string \<Rightarrow> string option \<Rightarrow> string \<Rightarrow> sdb \<Rightarrow> sdb \<times> reply" where
  "download_package cr now token cookie csrf db =
     (if \<not> module_enabled db then (db, Status 403)
      else case authorised_download cr now token cookie csrf db of
        (db1, Inl code) \<Rightarrow> (db1, Status code)
      | (db1, Inr p) \<Rightarrow>
         (case build_zip cr db1 p of
            None \<Rightarrow> (db1, Status 500)
          | Some content \<Rightarrow> (mark_download now p db1, Download content)))"

definition logout :: "crypto \<Rightarrow> time \<Rightarrow> string \<Rightarrow> string option \<Rightarrow> string \<Rightarrow> sdb \<Rightarrow> sdb \<times> reply" where
  "logout cr now token cookie csrf db =
     (if \<not> module_enabled db then (db, Status 403)
      else case package_or_error cr now db token of
        None \<Rightarrow> (db, Status 403)
      | Some p \<Rightarrow>
         (case active_recipient_session cr now p cookie db of
            (db1, None) \<Rightarrow> (db1, Status 403)
          | (db1, Some s) \<Rightarrow>
              if \<not> verify_session_csrf cr s csrf then (db1, Status 403)
              else (update_session (rs_id s) (\<lambda>t. t\<lparr>rs_revoked_at := Some now\<rparr>) db1, LoggedOut)))"

section \<open>The sender\<close>

definition current_status :: "time \<Rightarrow> package \<Rightarrow> string" where
  "current_status now p =
     (if pk_deleted_at p \<noteq> None then ''deleted''
      else if pk_revoked_at p \<noteq> None then ''revoked''
      else if pk_expires_at p \<le> now then ''expired''
      else if pk_downloaded_at p \<noteq> None then ''downloaded''
      else if pk_opened_at p \<noteq> None then ''opened''
      else ''active'')"

text \<open>The text of a custom date: not a date, one with a time zone (which cannot be compared), or a naive one.\<close>

datatype custom_date = NotADate | AwareDate | NaiveDate time

definition EXPIRY_CHOICES :: "(string \<times> int) list" where
  "EXPIRY_CHOICES = [(''15m'', 15), (''1h'', 60), (''4h'', 240), (''24h'', 1440), (''3d'', 4320), (''7d'', 10080)]"

definition maximum_days :: "sdb \<Rightarrow> int" where
  "maximum_days db =
     (case (if max_expiry_days db = [] then Some 7 else parse_int (max_expiry_days db)) of
        None \<Rightarrow> 7 | Some n \<Rightarrow> max 1 (min n 30))"

definition expiry_from_form :: "time \<Rightarrow> string \<Rightarrow> custom_date \<Rightarrow> sdb \<Rightarrow> time option" where
  "expiry_from_form now choice custom db =
     (case (if choice = ''custom'' then (case custom of NotADate \<Rightarrow> None | AwareDate \<Rightarrow> None | NaiveDate t \<Rightarrow> Some t)
            else map_option (\<lambda>m. now + minutes m) (map_of EXPIRY_CHOICES choice)) of
        None \<Rightarrow> None
      | Some t \<Rightarrow> if t > now \<and> t \<le> now + minutes (1440 * maximum_days db) then Some t else None)"

definition owned :: "sdb \<Rightarrow> int \<Rightarrow> package option" where
  "owned db pid = find (\<lambda>p. pk_id p = pid) (packages db)"

definition revoke :: "time \<Rightarrow> int \<Rightarrow> bool \<Rightarrow> int \<Rightarrow> sdb \<Rightarrow> sdb" where
  "revoke now uid admin pid db =
     (if \<not> module_enabled db then db
      else case owned db pid of
        None \<Rightarrow> db
      | Some p \<Rightarrow>
          if pk_sender p \<noteq> uid \<and> \<not> admin then db
          else if package_accessible now p
          then record_activity pid ''revoked'' (Some uid)
                 (revoke_recipient_sessions now pid
                    (update_package pid (\<lambda>q. q\<lparr>pk_revoked_at := Some now, pk_status := ''revoked''\<rparr>) db))
          else db)"

definition extended_package :: "time \<Rightarrow> time \<Rightarrow> package \<Rightarrow> package" where
  "extended_package now expires p =
     (let q = p\<lparr>pk_expires_at := expires, pk_expired_at := None\<rparr> in q\<lparr>pk_status := current_status now q\<rparr>)"

definition extend :: "time \<Rightarrow> int \<Rightarrow> string \<Rightarrow> custom_date \<Rightarrow> int \<Rightarrow> sdb \<Rightarrow> sdb" where
  "extend now uid choice custom pid db =
     (if \<not> module_enabled db then db
      else case owned db pid of
        None \<Rightarrow> db
      | Some p \<Rightarrow>
          if pk_sender p \<noteq> uid \<or> pk_revoked_at p \<noteq> None \<or> pk_deleted_at p \<noteq> None then db
          else (case expiry_from_form now choice custom db of
                  None \<Rightarrow> db
                | Some t \<Rightarrow> record_activity pid ''expiry_extended'' (Some uid) (update_package pid (extended_package now t) db)))"

definition delete :: "time \<Rightarrow> string list \<Rightarrow> int \<Rightarrow> bool \<Rightarrow> int \<Rightarrow> sdb \<Rightarrow> sdb" where
  "delete now unlink_fails uid admin pid db =
     (if \<not> module_enabled db then db
      else case owned db pid of
        None \<Rightarrow> db
      | Some p \<Rightarrow>
          if pk_sender p \<noteq> uid \<and> \<not> admin then db
          else clean_package_content now unlink_fails ''deleted'' pid (record_activity pid ''deleted'' (Some uid) db))"

end
