(* ===== verification/Secure_Send_Props.thy ===== *)
theory Secure_Send_Props
  imports Secure_Send
begin

text \<open>
  Guarantees of Secure Send over all sequences of requests, sender operations and clean-ups: what a recipient must hold to
  see content, that closing a package is final, that a one-download package is downloaded once, and how
  fast credentials can be guessed.
\<close>

section \<open>Steps\<close>

text \<open>A step happens at an instant; a request to the gateway leaves the access token and the answer in the log.\<close>

inductive send_step :: "crypto \<Rightarrow> time \<Rightarrow> sdb \<Rightarrow> (string \<times> reply) option \<Rightarrow> sdb \<Rightarrow> bool" for cr now where
  Create: "create_package cr fails rq db = (db', pid) \<Longrightarrow> send_step cr now db None db'"
| Open: "recipient cr now token cookie db = (db', r) \<Longrightarrow> send_step cr now db (Some (token, r)) db'"
| Unlock: "unlock cr now ip token pin phrase new_token new_csrf db = (db', r) \<Longrightarrow> send_step cr now db (Some (token, r)) db'"
| DownloadFile: "download_file cr now token fid cookie csrf db = (db', r) \<Longrightarrow> send_step cr now db (Some (token, r)) db'"
| DownloadPackage: "download_package cr now token cookie csrf db = (db', r) \<Longrightarrow> send_step cr now db (Some (token, r)) db'"
| Logout: "logout cr now token cookie csrf db = (db', r) \<Longrightarrow> send_step cr now db (Some (token, r)) db'"
| Revoke: "send_step cr now db None (revoke now uid admin pid db)"
| Extend: "send_step cr now db None (extend now uid choice custom pid db)"
| Delete: "send_step cr now db None (delete now unlink uid admin pid db)"
| Cleanup: "send_step cr now db None (fst (expire_and_cleanup now unlink db))"
| Configure: "send_step cr now db None (db\<lparr>module_enabled := b, max_expiry_days := s\<rparr>)"

text \<open>A run from one instant to a later one; the log is in the order of the requests.\<close>

inductive send_run :: "crypto \<Rightarrow> time \<Rightarrow> sdb \<Rightarrow> (string \<times> reply) list \<Rightarrow> time \<Rightarrow> sdb \<Rightarrow> bool" for cr where
  Start: "t \<le> t' \<Longrightarrow> send_run cr t db [] t' db"
| Step: "send_run cr t db log t1 db1 \<Longrightarrow> t1 \<le> t2 \<Longrightarrow> send_step cr t2 db1 out db2 \<Longrightarrow>
    send_run cr t db (log @ (case out of None \<Rightarrow> [] | Some x \<Rightarrow> [x])) t2 db2"

definition discloses :: "reply \<Rightarrow> bool" where
  "discloses r = (case r of PackagePage _ _ \<Rightarrow> True | Download _ \<Rightarrow> True | _ \<Rightarrow> False)"

definition is_download :: "reply \<Rightarrow> bool" where
  "is_download r = (case r of Download _ \<Rightarrow> True | _ \<Rightarrow> False)"

section \<open>What an operation may do to a package\<close>

definition package_le :: "package \<Rightarrow> package \<Rightarrow> bool" where
  "package_le p q \<longleftrightarrow>
     pk_id q = pk_id p \<and> pk_token_hash q = pk_token_hash p \<and> pk_one_download q = pk_one_download p \<and>
     pk_credential_hash q = pk_credential_hash p \<and> pk_download_count p \<le> pk_download_count q \<and>
     (pk_revoked_at p \<noteq> None \<longrightarrow> pk_revoked_at q \<noteq> None) \<and> (pk_deleted_at p \<noteq> None \<longrightarrow> pk_deleted_at q \<noteq> None) \<and>
     (pk_cleaned_at p \<noteq> None \<longrightarrow> pk_cleaned_at q \<noteq> None)"

lemma package_le_refl [simp]: "package_le p p"
  by (simp add: package_le_def)

lemma package_le_trans: "package_le p q \<Longrightarrow> package_le q r \<Longrightarrow> package_le p r"
  by (auto simp: package_le_def)

lemma or_else_Some [simp]: "\<exists>y. or_else x (Some z) = Some y"
  by (cases x) auto

lemma package_le_updates [simp]:
  "package_le p (opened_package now p)" "package_le p (failed_unlock now p)" "package_le p (unlocked_package now p)"
  "package_le p (downloaded_package now p)" "package_le p (close_package now st p)" "package_le p (extended_package now t p)"
  "package_le p (p\<lparr>pk_revoked_at := Some now, pk_status := st\<rparr>)"
  by (simp_all add: package_le_def opened_package_def failed_unlock_def unlocked_package_def downloaded_package_def
      close_package_def extended_package_def Let_def)

text \<open>Every operation rewrites the packages one by one, and may add new ones behind them.\<close>

definition packages_evolve :: "(package \<Rightarrow> package) \<Rightarrow> sdb \<Rightarrow> sdb \<Rightarrow> bool" where
  "packages_evolve f db db' \<longleftrightarrow> (\<forall>p. package_le p (f p)) \<and> (\<exists>new. packages db' = map f (packages db) @ new) \<and>
     (distinct (map pk_id (packages db)) \<longrightarrow> distinct (map pk_id (packages db')))"

lemma evolve_same: "packages db' = packages db \<Longrightarrow> packages_evolve id db db'"
  by (simp add: packages_evolve_def)

lemma evolve_trans: "packages_evolve f a b \<Longrightarrow> packages_evolve g b c \<Longrightarrow> packages_evolve (g \<circ> f) a c"
  unfolding packages_evolve_def by (auto intro: package_le_trans)

definition on_package :: "int \<Rightarrow> (package \<Rightarrow> package) \<Rightarrow> package \<Rightarrow> package" where
  "on_package pid f p = (if pk_id p = pid then f p else p)"

lemma evolve_update:
  "(\<And>p. package_le p (f p)) \<Longrightarrow> packages db' = map (on_package pid f) (packages db) \<Longrightarrow> packages_evolve (on_package pid f) db db'"
proof -
  assume le: "\<And>p. package_le p (f p)" and db': "packages db' = map (on_package pid f) (packages db)"
  have "map pk_id (packages db') = map pk_id (packages db)"
    using le by (simp add: db' on_package_def package_le_def)
  then have "distinct (map pk_id (packages db)) \<longrightarrow> distinct (map pk_id (packages db'))" by (simp only: simp_thms)
  moreover have "package_le p (on_package pid f p)" for p
    using le by (simp add: on_package_def)
  moreover have "packages db' = map (on_package pid f) (packages db) @ []" using db' by simp
  ultimately show ?thesis unfolding packages_evolve_def by blast
qed

text \<open>Operations other than an unlock leave the lock alone.\<close>

definition same_lock :: "package \<Rightarrow> package \<Rightarrow> bool" where
  "same_lock p q \<longleftrightarrow> pk_failed_attempts q = pk_failed_attempts p \<and> pk_locked_until q = pk_locked_until p"

lemma same_lock_updates [simp]:
  "same_lock p (opened_package now p)" "same_lock p (downloaded_package now p)" "same_lock p (close_package now st p)"
  "same_lock p (extended_package now t p)" "same_lock p (p\<lparr>pk_revoked_at := Some now, pk_status := st\<rparr>)" "same_lock p p"
  by (simp_all add: same_lock_def opened_package_def downloaded_package_def close_package_def extended_package_def Let_def)

lemma same_lock_on [simp]: "(\<And>q. same_lock q (g q)) \<Longrightarrow> same_lock p (on_package pid g p)"
  by (simp add: on_package_def)

lemma same_lock_trans: "same_lock p q \<Longrightarrow> same_lock q r \<Longrightarrow> same_lock p r"
  by (simp add: same_lock_def)

definition quiet :: "(package \<Rightarrow> package) \<Rightarrow> sdb \<Rightarrow> sdb \<Rightarrow> bool" where
  "quiet f db db' \<longleftrightarrow> packages_evolve f db db' \<and> (\<forall>p. same_lock p (f p))"

lemma quiet_same: "packages db' = packages db \<Longrightarrow> quiet id db db'"
  by (simp add: quiet_def evolve_same)

lemma quiet_trans: "quiet f a b \<Longrightarrow> quiet g b c \<Longrightarrow> quiet (g \<circ> f) a c"
  unfolding quiet_def by (auto intro: evolve_trans same_lock_trans)

lemma quiet_update:
  assumes "\<And>p. package_le p (f p)" "\<And>p. same_lock p (f p)" "packages db' = map (on_package pid f) (packages db)"
  shows "quiet (on_package pid f) db db'"
  using evolve_update [of f db' pid db] assms by (simp add: quiet_def)

lemma packages_frames [simp]:
  "packages (record_activity pid e a db) = packages db"
  "packages (update_session sid f db) = packages db"
  "packages (revoke_recipient_sessions now pid db) = packages db"
  "packages (start_recipient_session cr now token csrf p db) = packages db"
  "packages (update_package pid g db) = map (on_package pid g) (packages db)"
  by (simp_all add: record_activity_def update_session_def revoke_recipient_sessions_def start_recipient_session_def Let_def
      update_package_def on_package_def)

lemma active_session_packages [simp]: "packages (fst (active_recipient_session cr now p c db)) = packages db"
  by (simp add: active_recipient_session_def Let_def split: option.splits)

lemma add_files_packages [simp]: "packages (add_files cr pid fs db) = packages db"
  by (induction cr pid fs db rule: add_files.induct) simp_all

lemma clean_packages: "packages (clean_package_content now unlink st pid db) = map (on_package pid (close_package now st)) (packages db)"
  by (simp add: clean_package_content_def Let_def)

lemma expire_fold_quiet: "\<exists>f. quiet f db (foldl (expire_one now unlink) db ids)"
proof (induction ids arbitrary: db)
  case Nil
  show ?case using quiet_same by auto
next
  case (Cons pid ids)
  have "quiet (on_package pid (close_package now ''expired'')) db (expire_one now unlink db pid)"
    by (rule quiet_update) (simp_all add: expire_one_def clean_packages)
  moreover obtain f where "quiet f (expire_one now unlink db pid) (foldl (expire_one now unlink) (expire_one now unlink db pid) ids)"
    using Cons.IH by blast
  ultimately show ?case
    by (auto intro: exI quiet_trans)
qed

lemma authorised_download_packages [simp]: "packages (fst (authorised_download cr now token cookie csrf db)) = packages db"
proof (cases "package_or_error cr now db token")
  case (Some p)
  obtain db1 s where a: "active_recipient_session cr now p cookie db = (db1, s)" by (rule prod.exhaust)
  then have "packages db1 = packages db" using active_session_packages [of cr now p cookie db] by simp
  with Some a show ?thesis by (simp add: authorised_download_def split: option.splits)
qed (simp add: authorised_download_def)

section \<open>What a disclosure needs\<close>

lemma active_session_Some:
  assumes "active_recipient_session cr now p cookie db = (db', Some s')"
  shows "\<exists>t s. cookie = Some t \<and> package_accessible now p \<and> s \<in> set (sessions db) \<and> rs_package s = pk_id p \<and>
    rs_token_hash s = sha256 cr t \<and> rs_revoked_at s = None \<and> now < rs_expires_at s \<and> rs_csrf_hash s' = rs_csrf_hash s \<and>
    rs_id s' = rs_id s \<and> rs_package s' = rs_package s"
proof -
  obtain t where t: "cookie = Some t" using assms by (auto simp: active_recipient_session_def split: option.splits)
  obtain s where s: "find_session cr db p t = Some s" "package_accessible now p" "rs_revoked_at s = None" "now < rs_expires_at s"
    and s': "s' = s\<lparr>rs_last_activity := now, rs_expires_at := session_limit now p\<rparr>"
    using assms t by (auto simp: active_recipient_session_def Let_def split: option.splits if_splits)
  have "s \<in> set (sessions db) \<and> rs_package s = pk_id p \<and> rs_token_hash s = sha256 cr t"
    using find_SomeD [OF s(1) [unfolded find_session_def]] .
  with t s s' show ?thesis by auto
qed

lemma package_or_error_Some:
  assumes "package_or_error cr now db token = Some p"
  shows "package_for_token cr db token = Some p" "safe_state now (Some p) = ''active''"
  using assms by (auto simp: package_or_error_def split: if_splits)

lemma safe_state_active:
  assumes "safe_state now (Some p) = ''active''"
  shows "pk_revoked_at p = None" "pk_deleted_at p = None" "\<not> (pk_one_download p \<and> pk_download_count p \<ge> 1)" "now < pk_expires_at p"
  using assms by (auto simp: safe_state_def split: if_splits)

text \<open>The session behind a request: it belongs to the package, was not revoked and has not expired, and so has the package.\<close>

definition holds_session :: "crypto \<Rightarrow> time \<Rightarrow> package \<Rightarrow> sdb \<Rightarrow> string option \<Rightarrow> (recipient_session \<Rightarrow> bool) \<Rightarrow> bool" where
  "holds_session cr now p db cookie extra \<longleftrightarrow>
     package_accessible now p \<and> safe_state now (Some p) = ''active'' \<and>
     (\<exists>t s. cookie = Some t \<and> s \<in> set (sessions db) \<and> rs_package s = pk_id p \<and> rs_token_hash s = sha256 cr t \<and>
            rs_revoked_at s = None \<and> now < rs_expires_at s \<and> extra s)"

lemma authorised_download_Inr:
  assumes "authorised_download cr now token cookie csrf db = (db1, Inr p)"
  shows "package_for_token cr db token = Some p"
    "holds_session cr now p db cookie (\<lambda>s. csrf \<noteq> [] \<and> rs_csrf_hash s = sha256 cr csrf)" "packages db1 = packages db"
proof -
  have e: "package_or_error cr now db token = Some p"
    using assms by (auto simp: authorised_download_def split: option.splits prod.splits if_splits)
  then show "package_for_token cr db token = Some p" by (rule package_or_error_Some)
  obtain s where s: "active_recipient_session cr now p cookie db = (db1, Some s)" "verify_session_csrf cr s csrf"
    using assms e by (auto simp: authorised_download_def split: option.splits prod.splits if_splits)
  show "holds_session cr now p db cookie (\<lambda>s. csrf \<noteq> [] \<and> rs_csrf_hash s = sha256 cr csrf)"
    using active_session_Some [OF s(1)] s(2) package_or_error_Some(2) [OF e]
    by (fastforce simp: holds_session_def verify_session_csrf_def)
  show "packages db1 = packages db"
    using authorised_download_packages [of cr now token cookie csrf db] assms by simp
qed

lemma mark_download_packages [simp]:
  "packages (mark_download now p db) = map (on_package (pk_id p) (downloaded_package now)) (packages db)"
  by (simp add: mark_download_def Let_def)

text \<open>A download request either changes no package and delivers nothing, or delivers and counts.\<close>

definition served :: "crypto \<Rightarrow> time \<Rightarrow> string \<Rightarrow> string option \<Rightarrow> string \<Rightarrow> sdb \<Rightarrow> package \<Rightarrow> sdb \<Rightarrow> bool" where
  "served cr now token cookie csrf db p db' \<longleftrightarrow>
     package_for_token cr db token = Some p \<and>
     holds_session cr now p db cookie (\<lambda>s. csrf \<noteq> [] \<and> rs_csrf_hash s = sha256 cr csrf) \<and>
     packages db' = map (on_package (pk_id p) (downloaded_package now)) (packages db)"

lemma download_file_cases:
  assumes "download_file cr now token fid cookie csrf db = (db', r)"
  shows "\<not> discloses r \<and> packages db' = packages db \<or> is_download r \<and> (\<exists>p. served cr now token cookie csrf db p db')"
proof (cases "module_enabled db")
  case True
  obtain db1 x where a: "authorised_download cr now token cookie csrf db = (db1, x)" by (rule prod.exhaust)
  have f: "packages db1 = packages db" using authorised_download_packages [of cr now token cookie csrf db] a by simp
  show ?thesis
  proof (cases x)
    case (Inl code)
    with assms True a f show ?thesis by (auto simp: download_file_def discloses_def)
  next
    case (Inr p)
    note s = authorised_download_Inr [OF a [unfolded Inr]]
    show ?thesis
      using assms True a Inr s f
      by (auto simp: download_file_def discloses_def is_download_def served_def split: option.splits prod.splits)
  qed
qed (use assms in \<open>auto simp: download_file_def discloses_def\<close>)

lemma download_package_cases:
  assumes "download_package cr now token cookie csrf db = (db', r)"
  shows "\<not> discloses r \<and> packages db' = packages db \<or> is_download r \<and> (\<exists>p. served cr now token cookie csrf db p db')"
proof (cases "module_enabled db")
  case True
  obtain db1 x where a: "authorised_download cr now token cookie csrf db = (db1, x)" by (rule prod.exhaust)
  have f: "packages db1 = packages db" using authorised_download_packages [of cr now token cookie csrf db] a by simp
  show ?thesis
  proof (cases x)
    case (Inl code)
    with assms True a f show ?thesis by (auto simp: download_package_def discloses_def)
  next
    case (Inr p)
    note s = authorised_download_Inr [OF a [unfolded Inr]]
    show ?thesis
      using assms True a Inr s f
      by (auto simp: download_package_def discloses_def is_download_def served_def split: option.splits)
  qed
qed (use assms in \<open>auto simp: download_package_def discloses_def\<close>)

lemma accessible_when_opened:
  "package_accessible now (opened_package now p) \<Longrightarrow> safe_state now (Some p) = ''active'' \<Longrightarrow> package_accessible now p"
  by (auto simp: package_accessible_def opened_package_def safe_state_def split: if_splits)

lemma recipient_cases:
  assumes "recipient cr now token cookie db = (db', r)"
  shows "\<exists>f. quiet f db db'" "\<not> is_download r"
    "discloses r \<Longrightarrow> \<exists>p. package_for_token cr db token = Some p \<and> holds_session cr now p db cookie (\<lambda>_. True)"
proof -
  have "(\<exists>f. quiet f db db') \<and> \<not> is_download r \<and>
    (discloses r \<longrightarrow> (\<exists>p. package_for_token cr db token = Some p \<and> holds_session cr now p db cookie (\<lambda>_. True)))"
  proof (cases "module_enabled db \<and> package_or_error cr now db token \<noteq> None")
    case False
    with assms have "db' = db" "r = Status 403" by (auto simp: recipient_def split: if_splits)
    then show ?thesis using quiet_same [of db db] by (auto simp: is_download_def discloses_def)
  next
    case True
    then obtain p0 where p0: "module_enabled db" "package_or_error cr now db token = Some p0" by auto
    define q where "q = (if pk_opened_at p0 = None then opened_package now p0 else p0)"
    define db1 where "db1 = (if pk_opened_at p0 = None
      then record_activity (pk_id q) ''opened'' None (update_package (pk_id q) (opened_package now) db) else db)"
    obtain db2 s where a: "active_recipient_session cr now q cookie db1 = (db2, s)" by (rule prod.exhaust)
    have pk: "packages db2 = packages db1" using active_session_packages [of cr now q cookie db1] a by simp
    have "\<exists>f. quiet f db db1"
    proof (cases "pk_opened_at p0 = None")
      case True
      then show ?thesis
        using quiet_update [of "opened_package now" db1 "pk_id q" db] by (auto simp: db1_def)
    qed (use quiet_same [of db db] in \<open>auto simp: db1_def\<close>)
    then have ev: "\<exists>f. quiet f db db2"
      using pk by (simp add: quiet_def packages_evolve_def)
    have r: "db' = db2" "r = (case s of None \<Rightarrow> UnlockPage False
        | Some _ \<Rightarrow> (case (decoded_files cr db2 q, decode_note cr q) of (Some fs, Some note) \<Rightarrow> PackagePage (map snd fs) note | _ \<Rightarrow> Status 500))"
      using assms p0 a by (auto simp: recipient_def Let_def q_def db1_def split: option.splits if_splits)
    have "holds_session cr now p0 db cookie (\<lambda>_. True)" if s: "s \<noteq> None"
    proof -
      obtain s' where "s = Some s'" using s by auto
      note act = active_session_Some [OF a [unfolded this]]
      have "sessions db1 = sessions db" by (simp add: db1_def record_activity_def update_package_def)
      moreover have "pk_id q = pk_id p0" by (simp add: q_def opened_package_def)
      moreover have "package_accessible now p0"
        using act accessible_when_opened package_or_error_Some(2) [OF p0(2)] by (auto simp: q_def split: if_splits)
      ultimately show ?thesis
        using act package_or_error_Some(2) [OF p0(2)] by (auto simp: holds_session_def)
    qed
    then show ?thesis
      using ev r package_or_error_Some(1) [OF p0(2)] by (auto simp: discloses_def is_download_def split: option.splits)
  qed
  then show "\<exists>f. quiet f db db'" "\<not> is_download r"
    "discloses r \<Longrightarrow> \<exists>p. package_for_token cr db token = Some p \<and> holds_session cr now p db cookie (\<lambda>_. True)"
    by blast+
qed

text \<open>An unlock request: refused, a wrong guess, or a success.\<close>

lemma unlock_cases:
  assumes "unlock cr now ip token pin phrase new_token new_csrf db = (db', r)"
  obtains
    code where "r = Status code" "packages db' = packages db"
  | p where "r = UnlockPage True" "package_for_token cr db token = Some p"
      "case pk_locked_until p of Some t \<Rightarrow> t \<le> now | None \<Rightarrow> True"
      "packages db' = map (on_package (pk_id p) (failed_unlock now)) (packages db)"
  | p where "r = Unlocked new_token" "package_for_token cr db token = Some p"
      "authenticate_package cr p token pin phrase"
      "packages db' = map (on_package (pk_id p) (unlocked_package now)) (packages db)"
proof (cases "module_enabled db \<and> package_or_error cr now db token \<noteq> None")
  case False
  with assms have "r = Status 403" "packages db' = packages db" by (auto simp: unlock_def split: if_splits)
  with that(1) show ?thesis by blast
next
  case True
  then obtain p where p: "module_enabled db" "package_or_error cr now db token = Some p" by auto
  obtain db1 b where l: "attempt_limited now ip p db = (db1, b)" by (rule prod.exhaust)
  have l1: "packages db1 = packages db" "\<not> b \<Longrightarrow> case pk_locked_until p of Some t \<Rightarrow> t \<le> now | None \<Rightarrow> True"
    using l by (auto simp: attempt_limited_def Let_def split: option.splits)
  show ?thesis
  proof (cases b)
    case True
    with assms p l l1 that(1) show ?thesis by (auto simp: unlock_def)
  next
    case False
    show ?thesis
    proof (cases "authenticate_package cr p token pin phrase")
      case True
      with assms p l l1 False that(3) [OF _ package_or_error_Some(1) [OF p(2)] True] show ?thesis
        by (auto simp: unlock_def Let_def)
    next
      case wrong: False
      with assms p l l1 False that(2) [OF _ package_or_error_Some(1) [OF p(2)]] show ?thesis
        by (auto simp: unlock_def Let_def)
    qed
  qed
qed

lemma logout_cases:
  assumes "logout cr now token cookie csrf db = (db', r)"
  shows "packages db' = packages db" "\<not> discloses r"
proof -
  have "packages db' = packages db \<and> \<not> discloses r"
  proof (cases "package_or_error cr now db token")
    case (Some p)
    obtain db1 s where a: "active_recipient_session cr now p cookie db = (db1, s)" by (rule prod.exhaust)
    then have "packages db1 = packages db" using active_session_packages [of cr now p cookie db] by simp
    with assms Some a show ?thesis
      by (auto simp: logout_def discloses_def split: option.splits if_splits)
  qed (use assms in \<open>auto simp: logout_def discloses_def split: if_splits\<close>)
  then show "packages db' = packages db" "\<not> discloses r" by blast+
qed

section \<open>Closing is final\<close>

text \<open>
  A package is closed for good when it was revoked, deleted or cleaned up, or when it allows one download and that one has
  happened.
\<close>

definition sealed :: "package \<Rightarrow> bool" where
  "sealed p \<longleftrightarrow> pk_revoked_at p \<noteq> None \<or> pk_deleted_at p \<noteq> None \<or> pk_cleaned_at p \<noteq> None \<or>
     (pk_one_download p \<and> pk_download_count p \<ge> 1)"

lemma sealed_mono: "package_le p q \<Longrightarrow> sealed p \<Longrightarrow> sealed q"
  by (auto simp: package_le_def sealed_def)

lemma holds_session_not_sealed: "holds_session cr now p db cookie extra \<Longrightarrow> \<not> sealed p"
  by (auto simp: holds_session_def sealed_def package_accessible_def dest: safe_state_active)

lemma find_evolve:
  assumes "packages_evolve f db db'" "package_for_token cr db token = Some p"
  shows "package_for_token cr db' token = Some (f p)" "package_le p (f p)"
proof -
  obtain new where "packages db' = map f (packages db) @ new" and le: "\<And>q. package_le q (f q)"
    using assms(1) by (auto simp: packages_evolve_def)
  moreover have "find (\<lambda>q. pk_token_hash q = h) (map f qs @ new) = Some (f p)"
    if "find (\<lambda>q. pk_token_hash q = h) qs = Some p" for h qs
    using that le by (induction qs) (auto simp: package_le_def split: if_splits)
  ultimately show "package_for_token cr db' token = Some (f p)" "package_le p (f p)"
    using assms(2) by (auto simp: package_for_token_def split: if_splits)
qed

text \<open>
  What a step does to the locks: a wrong guess is checked only while the package is not locked and then counts, a success resets, and
  everything else leaves every lock alone.
\<close>

definition is_guess :: "reply \<Rightarrow> bool" where
  "is_guess r \<longleftrightarrow> r = UnlockPage True"

definition is_unlocked :: "reply \<Rightarrow> bool" where
  "is_unlocked r = (case r of Unlocked _ \<Rightarrow> True | _ \<Rightarrow> False)"

definition lock_open :: "time \<Rightarrow> package \<Rightarrow> bool" where
  "lock_open now p \<longleftrightarrow> (case pk_locked_until p of Some t \<Rightarrow> t \<le> now | None \<Rightarrow> True)"

definition locks_fairly :: "crypto \<Rightarrow> time \<Rightarrow> sdb \<Rightarrow> (string \<times> reply) option \<Rightarrow> (package \<Rightarrow> package) \<Rightarrow> bool" where
  "locks_fairly cr now db out f \<longleftrightarrow>
     (\<forall>p. same_lock p (f p)) \<and> (\<forall>k r. out = Some (k, r) \<longrightarrow> \<not> is_guess r) \<or>
     (\<exists>k p. out = Some (k, UnlockPage True) \<and> package_for_token cr db k = Some p \<and> lock_open now p \<and>
            f = on_package (pk_id p) (failed_unlock now)) \<or>
     (\<exists>k r p. out = Some (k, r) \<and> is_unlocked r \<and> package_for_token cr db k = Some p \<and>
              f = on_package (pk_id p) (unlocked_package now))"

definition fair_step :: "crypto \<Rightarrow> time \<Rightarrow> sdb \<Rightarrow> (string \<times> reply) option \<Rightarrow> sdb \<Rightarrow> (package \<Rightarrow> package) \<Rightarrow> bool" where
  "fair_step cr now db out db' f \<longleftrightarrow>
     packages_evolve f db db' \<and>
     (\<forall>token r p. out = Some (token, r) \<and> package_for_token cr db token = Some p \<longrightarrow>
        (discloses r \<longrightarrow> \<not> sealed p) \<and> (is_download r \<longrightarrow> pk_download_count (f p) = pk_download_count p + 1)) \<and>
     (\<forall>token r. out = Some (token, r) \<and> discloses r \<longrightarrow> package_for_token cr db token \<noteq> None) \<and>
     locks_fairly cr now db out f"

lemma download_discloses: "is_download r \<Longrightarrow> discloses r"
  by (simp add: is_download_def discloses_def split: reply.splits)

lemma fair_quiet:
  assumes "quiet f db db'" "\<And>token r. out = Some (token, r) \<Longrightarrow> \<not> discloses r \<and> \<not> is_guess r"
  shows "fair_step cr now db out db' f"
  unfolding fair_step_def locks_fairly_def using assms by (auto simp: quiet_def dest: download_discloses)

lemma fair_same:
  "packages db' = packages db \<Longrightarrow> (\<And>token r. out = Some (token, r) \<Longrightarrow> \<not> discloses r \<and> \<not> is_guess r) \<Longrightarrow>
   fair_step cr now db out db' id"
  by (rule fair_quiet [OF quiet_same])

lemma discloses_no_guess: "discloses r \<Longrightarrow> \<not> is_guess r"
  by (auto simp: discloses_def is_guess_def)

lemma fair_download:
  assumes "\<not> discloses r \<and> packages db' = packages db \<or> is_download r \<and> (\<exists>p. served cr now token cookie csrf db p db')"
    "\<not> is_guess r"
  shows "\<exists>f. fair_step cr now db (Some (token, r)) db' f"
  using assms(1)
proof
  assume "\<not> discloses r \<and> packages db' = packages db"
  then show ?thesis using fair_same [of db' db "Some (token, r)" cr now] assms(2) by blast
next
  assume "is_download r \<and> (\<exists>p. served cr now token cookie csrf db p db')"
  then obtain p where p: "served cr now token cookie csrf db p db'" by blast
  have "fair_step cr now db (Some (token, r)) db' (on_package (pk_id p) (downloaded_package now))"
  proof -
    have "packages_evolve (on_package (pk_id p) (downloaded_package now)) db db'"
      using p by (intro evolve_update) (simp_all add: served_def)
    moreover have "pk_download_count (on_package (pk_id p) (downloaded_package now) p) = pk_download_count p + 1"
      by (simp add: on_package_def downloaded_package_def)
    moreover have "locks_fairly cr now db (Some (token, r)) (on_package (pk_id p) (downloaded_package now))"
      using assms(2) by (simp add: locks_fairly_def)
    ultimately show ?thesis
      using p holds_session_not_sealed by (auto simp: fair_step_def served_def)
  qed
  then show ?thesis by blast
qed

lemma fair_update:
  assumes "packages db' = map (on_package pid g) (packages db)" "\<And>q. package_le q (g q)" "\<And>q. same_lock q (g q)"
    "\<And>token r. out = Some (token, r) \<Longrightarrow> \<not> discloses r \<and> \<not> is_guess r"
  shows "\<exists>f. fair_step cr now db out db' f"
proof -
  have "quiet (on_package pid g) db db'" using assms(2,3,1) by (rule quiet_update)
  then have "fair_step cr now db out db' (on_package pid g)" by (rule fair_quiet) (rule assms(4))
  then show ?thesis by (rule exI [of _ "on_package pid g"])
qed

lemma fair_lock:
  assumes "packages db' = map (on_package pid g) (packages db)" "\<And>q. package_le q (g q)" "\<not> discloses r"
    "locks_fairly cr now db (Some (token, r)) (on_package pid g)"
  shows "\<exists>f. fair_step cr now db (Some (token, r)) db' f"
proof -
  have "packages_evolve (on_package pid g) db db'" using assms(2,1) by (rule evolve_update)
  with assms(3,4) have "fair_step cr now db (Some (token, r)) db' (on_package pid g)"
    by (auto simp: fair_step_def dest: download_discloses)
  then show ?thesis by (rule exI [of _ "on_package pid g"])
qed

lemma no_guess_cases:
  "download_file cr now token fid cookie csrf db = (db', r) \<Longrightarrow> \<not> is_guess r"
  "download_package cr now token cookie csrf db = (db', r) \<Longrightarrow> \<not> is_guess r"
  "logout cr now token cookie csrf db = (db', r) \<Longrightarrow> \<not> is_guess r"
  "recipient cr now token cookie db = (db', r) \<Longrightarrow> \<not> is_guess r"
  by (auto simp: is_guess_def download_file_def download_package_def logout_def recipient_def Let_def
      split: if_splits option.splits prod.splits sum.splits)

lemma send_step_fair: "send_step cr now db out db' \<Longrightarrow> \<exists>f. fair_step cr now db out db' f"
proof (induction rule: send_step.induct)
  case (Create fails rq db db' pid)
  then have "packages db' = packages db \<or> packages db' = packages db @ [new_package cr rq (next_rowid (map pk_id (packages db)))]"
    by (auto simp: create_package_def Let_def split: if_splits)
  then have "quiet id db db'"
    using next_rowid_not_in [of "map pk_id (packages db)"] by (auto simp: quiet_def packages_evolve_def new_package_def)
  then show ?case using fair_quiet [of id db db' None] by auto
next
  case (Open token cookie db db' r)
  obtain f where "packages_evolve f db db'" "locks_fairly cr now db (Some (token, r)) f"
    using recipient_cases(1) [OF Open] no_guess_cases(4) [OF Open] by (auto simp: quiet_def locks_fairly_def)
  moreover have "\<not> is_download r" by (rule recipient_cases(2) [OF Open])
  moreover have "\<exists>p. package_for_token cr db token = Some p \<and> \<not> sealed p" if "discloses r"
    using recipient_cases(3) [OF Open that] holds_session_not_sealed by blast
  ultimately show ?case unfolding fair_step_def by (intro exI [of _ f]) auto
next
  case (Unlock ip token pin phrase new_token new_csrf db db' r)
  then show ?case
  proof (cases rule: unlock_cases)
    case (1 code)
    then show ?thesis using fair_same [of db' db "Some (token, r)" cr now] by (auto simp: discloses_def is_guess_def)
  next
    case (2 p)
    then show ?thesis
      by (intro fair_lock [OF 2(4)]) (auto simp: discloses_def locks_fairly_def lock_open_def)
  next
    case (3 p)
    then show ?thesis
      by (intro fair_lock [OF 3(4)]) (auto simp: discloses_def locks_fairly_def is_unlocked_def)
  qed
next
  case (DownloadFile token fid cookie csrf db db' r)
  then show ?case by (intro fair_download download_file_cases no_guess_cases)
next
  case (DownloadPackage token cookie csrf db db' r)
  then show ?case by (intro fair_download download_package_cases no_guess_cases)
next
  case (Logout token cookie csrf db db' r)
  then show ?case using fair_same [of db' db "Some (token, r)" cr now] logout_cases [OF Logout] no_guess_cases(3) [OF Logout] by blast
next
  case (Revoke db uid admin pid)
  have "packages (revoke now uid admin pid db) = packages db \<or>
    packages (revoke now uid admin pid db) = map (on_package pid (\<lambda>q. q\<lparr>pk_revoked_at := Some now, pk_status := ''revoked''\<rparr>)) (packages db)"
    by (simp add: revoke_def split: option.splits)
  then show ?case
    using fair_same [of _ db None cr now] fair_update [of "revoke now uid admin pid db" pid "\<lambda>q. q\<lparr>pk_revoked_at := Some now, pk_status := ''revoked''\<rparr>" db None cr now] by auto
next
  case (Extend db uid choice custom pid)
  have "packages (extend now uid choice custom pid db) = packages db \<or>
    (\<exists>t. packages (extend now uid choice custom pid db) = map (on_package pid (extended_package now t)) (packages db))"
    by (auto simp: extend_def split: option.splits)
  then show ?case
  proof
    assume "packages (extend now uid choice custom pid db) = packages db"
    then show ?thesis using fair_same [of _ db None cr now] by auto
  next
    assume "\<exists>t. packages (extend now uid choice custom pid db) = map (on_package pid (extended_package now t)) (packages db)"
    then obtain t where t: "packages (extend now uid choice custom pid db) = map (on_package pid (extended_package now t)) (packages db)" ..
    show ?thesis by (rule fair_update [OF t]) simp_all
  qed
next
  case (Delete db unlink uid admin pid)
  have "packages (delete now unlink uid admin pid db) = packages db \<or>
    packages (delete now unlink uid admin pid db) = map (on_package pid (close_package now ''deleted'')) (packages db)"
    by (simp add: delete_def clean_packages split: option.splits)
  then show ?case
    using fair_same [of _ db None cr now] fair_update [of "delete now unlink uid admin pid db" pid "close_package now ''deleted''" db None cr now] by auto
next
  case (Cleanup db unlink)
  obtain f where "quiet f db (fst (expire_and_cleanup now unlink db))"
    using expire_fold_quiet [of db now unlink "expired_packages now db"] by (auto simp: expire_and_cleanup_def Let_def)
  then show ?case using fair_quiet [of f db _ None] by auto
next
  case (Configure db s b)
  show ?case
    using fair_same [of "db\<lparr>module_enabled := b, max_expiry_days := s\<rparr>" db None cr now] by auto
qed

section \<open>Runs\<close>

lemma send_run_package:
  assumes "send_run cr t db log t' db'" "package_for_token cr db token = Some p"
  shows "\<exists>q. package_for_token cr db' token = Some q \<and> package_le p q"
  using assms
proof (induction rule: send_run.induct)
  case (Step t db log t1 db1 t2 out db2)
  then obtain q where q: "package_for_token cr db1 token = Some q" "package_le p q" by blast
  obtain f where "fair_step cr t2 db1 out db2 f" using send_step_fair [OF Step(3)] by blast
  then have "packages_evolve f db1 db2" by (simp add: fair_step_def)
  from find_evolve [OF this q(1)] q(2) show ?case by (blast intro: package_le_trans)
qed auto

text \<open>
  Closing a package is final. Once a package was revoked, deleted, cleaned up after its expiry, or downloaded when one download
  is allowed, no later request under its access token shows its contents page or returns content, whatever requests, unlocks,
  extensions of the expiry and clean-ups follow.
\<close>

theorem sealed_packages_stay_closed:
  assumes "send_run cr t db log t' db'" "package_for_token cr db token = Some p" "sealed p" "(token, r) \<in> set log"
  shows "\<not> discloses r"
  using assms
proof (induction arbitrary: r rule: send_run.induct)
  case (Step t db log t1 db1 t2 out db2)
  obtain q where q: "package_for_token cr db1 token = Some q" "package_le p q"
    using send_run_package [OF Step(1) Step.prems(1)] by blast
  have "sealed q" using q(2) Step.prems(2) by (rule sealed_mono)
  obtain f where f: "fair_step cr t2 db1 out db2 f" using send_step_fair [OF Step(3)] by blast
  show ?case
  proof (cases "(token, r) \<in> set log")
    case True
    with Step.IH Step.prems show ?thesis by blast
  next
    case False
    with Step.prems have "out = Some (token, r)" by (auto split: option.splits)
    with f q(1) \<open>sealed q\<close> show ?thesis by (auto simp: fair_step_def)
  qed
qed simp

lemma downloads_are_counted:
  assumes "send_run cr t db log t' db'" "package_for_token cr db token = Some p"
  shows "\<exists>q. package_for_token cr db' token = Some q \<and> package_le p q \<and>
    pk_download_count q \<ge> pk_download_count p + int (length (filter (\<lambda>(k, r). k = token \<and> is_download r) log))"
  using assms
proof (induction rule: send_run.induct)
  case (Step t db log t1 db1 t2 out db2)
  then obtain q where q: "package_for_token cr db1 token = Some q" "package_le p q"
    "pk_download_count q \<ge> pk_download_count p + int (length (filter (\<lambda>(k, r). k = token \<and> is_download r) log))" by blast
  obtain f where f: "fair_step cr t2 db1 out db2 f" using send_step_fair [OF Step(3)] by blast
  then have "packages_evolve f db1 db2" by (simp add: fair_step_def)
  note fq = find_evolve [OF this q(1)]
  have "pk_download_count (f q) \<ge> pk_download_count q +
      int (length (filter (\<lambda>(k, r). k = token \<and> is_download r) (case out of None \<Rightarrow> [] | Some x \<Rightarrow> [x])))"
    using f q(1) fq(2) by (auto simp: fair_step_def package_le_def split: option.splits prod.splits)
  with q fq show ?case
    by (intro exI [of _ "f q"]) (auto intro: package_le_trans)
qed auto

text \<open>
  C29. One download means one. However many requests arrive under the access token of a package that allows a single download,
  at most one of them returns content.
\<close>

theorem single_download:
  assumes "send_run cr t db log t' db'" "package_for_token cr db token = Some p" "pk_one_download p" "0 \<le> pk_download_count p"
  shows "length (filter (\<lambda>(k, r). k = token \<and> is_download r) log) \<le> 1"
  using assms
proof (induction rule: send_run.induct)
  case (Step t db log t1 db1 t2 out db2)
  let ?n = "\<lambda>l. length (filter (\<lambda>(k, r). k = token \<and> is_download r) l)"
  obtain q where q: "package_for_token cr db1 token = Some q" "package_le p q" "pk_download_count q \<ge> pk_download_count p + int (?n log)"
    using downloads_are_counted [OF Step(1) Step.prems(1)] by blast
  obtain f where f: "fair_step cr t2 db1 out db2 f" using send_step_fair [OF Step(3)] by blast
  have ih: "?n log \<le> 1" using Step.IH Step.prems by blast
  show ?case
  proof (cases "\<exists>r. out = Some (token, r) \<and> is_download r")
    case True
    then obtain r where r: "out = Some (token, r)" "is_download r" by blast
    then have "\<not> sealed q" using f q(1) download_discloses by (auto simp: fair_step_def)
    then have "pk_download_count q < 1"
      using q(2) Step.prems(2) by (auto simp: sealed_def package_le_def)
    with q(3) Step.prems(3) have "?n log = 0" by linarith
    with r show ?thesis by simp
  next
    case False
    then have "?n (case out of None \<Rightarrow> [] | Some x \<Rightarrow> [x]) = 0" by (auto split: option.splits)
    with ih show ?thesis by simp
  qed
qed simp

section \<open>Guessing credentials\<close>

text \<open>
  The clock of the lock: after the tenth failure every further check of credentials costs thirty minutes. \<open>start\<close> is the instant
  from which the guesses are counted.
\<close>

definition lock_clock :: "time \<Rightarrow> time \<Rightarrow> package \<Rightarrow> bool" where
  "lock_clock start now p \<longleftrightarrow>
     start \<le> now \<and> 0 \<le> pk_failed_attempts p \<and>
     (pk_failed_attempts p \<ge> 10 \<longrightarrow>
        (\<exists>l. pk_locked_until p = Some l \<and> l \<ge> start + minutes (30 * (pk_failed_attempts p - 9)) \<and> l \<le> now + minutes 30))"

lemma minutes_add: "minutes (a + b) = minutes a + minutes b"
  by (simp add: minutes_def seconds_def)

lemma lock_clock_later: "lock_clock start now p \<Longrightarrow> now \<le> later \<Longrightarrow> lock_clock start later p"
  by (force simp: lock_clock_def)

lemma lock_clock_fail:
  assumes "lock_clock start now p" "case pk_locked_until p of Some t \<Rightarrow> t \<le> now | None \<Rightarrow> True"
  shows "lock_clock start now (failed_unlock now p)"
proof (cases "pk_failed_attempts p + 1 \<ge> 10")
  case True
  have "start + minutes (30 * (pk_failed_attempts p + 1 - 9)) \<le> now + minutes 30"
  proof (cases "pk_failed_attempts p \<ge> 10")
    case True
    with assms have "start + minutes (30 * (pk_failed_attempts p - 9)) \<le> now"
      by (auto simp: lock_clock_def)
    then show ?thesis by (simp add: minutes_def seconds_def)
  next
    case False
    with \<open>pk_failed_attempts p + 1 \<ge> 10\<close> have "pk_failed_attempts p = 9" by simp
    with assms(1) show ?thesis by (simp add: lock_clock_def minutes_def seconds_def)
  qed
  with True assms(1) show ?thesis by (simp add: lock_clock_def failed_unlock_def Let_def)
next
  case False
  with assms(1) show ?thesis by (simp add: lock_clock_def failed_unlock_def Let_def)
qed

lemma lock_clock_same: "same_lock p q \<Longrightarrow> lock_clock start now q = lock_clock start now p"
  by (simp add: same_lock_def lock_clock_def)

lemma package_for_token_in:
  "package_for_token cr db k = Some p \<Longrightarrow> p \<in> set (packages db) \<and> pk_token_hash p = sha256 cr k"
  by (auto simp: package_for_token_def split: if_splits dest: find_SomeD)

lemma same_id_same_package:
  assumes "distinct (map pk_id (packages db))" "package_for_token cr db k = Some p" "package_for_token cr db token = Some q"
    "pk_id p = pk_id q"
  shows "p = q"
  using assms package_for_token_in by (blast dest: eq_key_imp_eq_value inj_onD [OF distinct_map [THEN iffD1, THEN conjunct2]])

abbreviation guesses :: "string \<Rightarrow> (string \<times> reply) list \<Rightarrow> nat" where
  "guesses token log \<equiv> length (filter (\<lambda>(k, r). k = token \<and> is_guess r) log)"

lemma guess_clock:
  assumes "send_run cr t db log t' db'" "package_for_token cr db token = Some p" "distinct (map pk_id (packages db))"
    "pk_failed_attempts p = 0" "\<forall>(k, r) \<in> set log. sha256 cr k = sha256 cr token \<longrightarrow> \<not> is_unlocked r"
  shows "\<exists>q. package_for_token cr db' token = Some q \<and> distinct (map pk_id (packages db')) \<and> lock_clock t t' q \<and>
    int (guesses token log) \<le> pk_failed_attempts q"
  using assms
proof (induction rule: send_run.induct)
  case (Start t t' db)
  then show ?case by (simp add: lock_clock_def)
next
  case (Step t db log t1 db1 t2 out db2)
  then obtain q where q: "package_for_token cr db1 token = Some q" "distinct (map pk_id (packages db1))"
    "lock_clock t t1 q" "int (guesses token log) \<le> pk_failed_attempts q" by fastforce
  have c2: "lock_clock t t2 q" using q(3) Step(2) by (rule lock_clock_later)
  obtain f where f: "fair_step cr t2 db1 out db2 f" using send_step_fair [OF Step(3)] by blast
  then have ev: "packages_evolve f db1 db2" and lk: "locks_fairly cr t2 db1 out f" by (simp_all add: fair_step_def)
  have fq: "package_for_token cr db2 token = Some (f q)" by (rule find_evolve [OF ev q(1)])
  have d2: "distinct (map pk_id (packages db2))" using ev q(2) by (simp add: packages_evolve_def)
  have "lock_clock t t2 (f q) \<and> pk_failed_attempts q + int (guesses token (case out of None \<Rightarrow> [] | Some x \<Rightarrow> [x])) \<le> pk_failed_attempts (f q)"
    using lk unfolding locks_fairly_def
  proof (elim disjE exE conjE)
    assume "\<forall>p. same_lock p (f p)" "\<forall>k r. out = Some (k, r) \<longrightarrow> \<not> is_guess r"
    then show ?thesis
      using c2 lock_clock_same [of q "f q"] by (auto simp: same_lock_def split: option.splits)
  next
    fix k p0
    assume k: "out = Some (k, UnlockPage True)" "package_for_token cr db1 k = Some p0" "lock_open t2 p0"
      "f = on_package (pk_id p0) (failed_unlock t2)"
    show ?thesis
    proof (cases "pk_id p0 = pk_id q")
      case True
      then have "p0 = q" using same_id_same_package [OF q(2) k(2) q(1)] by simp
      with k c2 lock_clock_fail [OF c2] show ?thesis
        by (auto simp: on_package_def lock_open_def failed_unlock_def Let_def)
    next
      case False
      then have "k \<noteq> token" using k(2) q(1) by auto
      with False k c2 show ?thesis by (simp add: on_package_def)
    qed
  next
    fix k r p0
    assume k: "out = Some (k, r)" "is_unlocked r" "package_for_token cr db1 k = Some p0" "f = on_package (pk_id p0) (unlocked_package t2)"
    have "pk_id p0 \<noteq> pk_id q"
    proof
      assume "pk_id p0 = pk_id q"
      then have "p0 = q" using same_id_same_package [OF q(2) k(3) q(1)] by simp
      then have "sha256 cr k = sha256 cr token"
        using package_for_token_in [OF k(3)] package_for_token_in [OF q(1)] by simp
      with Step.prems(4) k show False by auto
    qed
    moreover have "\<not> is_guess r" using k(2) by (auto simp: is_guess_def is_unlocked_def)
    ultimately show ?thesis using k c2 by (simp add: on_package_def)
  qed
  with q(4) fq d2 show ?case by auto
qed

text \<open>
  Guessing is slow. Against a package with no failed attempts, as long as nobody unlocks it, the gateway checks at most ten wrong
  credentials plus one for every thirty minutes that pass, from however many addresses the requests come.
\<close>

theorem guessing_is_bounded:
  assumes "send_run cr t db log t' db'" "package_for_token cr db token = Some p" "distinct (map pk_id (packages db))"
    "pk_failed_attempts p = 0" "\<forall>(k, r) \<in> set log. sha256 cr k = sha256 cr token \<longrightarrow> \<not> is_unlocked r"
  shows "int (guesses token log) \<le> 10 + (t' - t) div minutes 30"
proof -
  obtain q where q: "lock_clock t t' q" "int (guesses token log) \<le> pk_failed_attempts q"
    using guess_clock [OF assms] by blast
  show ?thesis
  proof (cases "pk_failed_attempts q \<ge> 10")
    case True
    then have "minutes (30 * (pk_failed_attempts q - 10)) \<le> t' - t"
      using q(1) by (auto simp: lock_clock_def minutes_def seconds_def)
    then have "minutes 30 * (pk_failed_attempts q - 10) \<le> t' - t"
      by (simp add: minutes_def seconds_def)
    then have "pk_failed_attempts q - 10 \<le> (t' - t) div minutes 30"
      by (metis minutes_def mult.commute zdiv_mono1 nonzero_mult_div_cancel_left seconds_def zero_less_numeral mult_pos_pos less_irrefl)
    with q(2) show ?thesis by simp
  next
    case False
    have "0 \<le> (t' - t) div minutes 30"
      using q(1) by (simp add: lock_clock_def minutes_def seconds_def pos_imp_zdiv_nonneg_iff)
    with False q(2) show ?thesis by simp
  qed
qed

end
