(* ===== verification/Secure_Send_Sessions.thy ===== *)
theory Secure_Send_Sessions
  imports Secure_Send_Props
begin

text \<open>
  Recipient sessions and the clean-up job of Secure Send: at most one session per package, revocation that is final (the interface
  \<open>closable\<close>, interpreted on sessions and on packages), what is left after an expiry, and a reference run on which the
  claims are instantiated.
\<close>

section \<open>Sessions\<close>

text \<open>The sessions of a state are well formed: the primary key is one, and a package has at most one session that was not revoked.\<close>

definition live_for :: "int \<Rightarrow> recipient_session \<Rightarrow> bool" where
  "live_for pid s \<longleftrightarrow> rs_package s = pid \<and> rs_revoked_at s = None"

definition sessions_ok :: "recipient_session list \<Rightarrow> bool" where
  "sessions_ok ss \<longleftrightarrow> distinct (map rs_id ss) \<and> (\<forall>pid. length (filter (live_for pid) ss) \<le> 1)"

text \<open>An operation on one session keeps its key and package and never revives it.\<close>

definition session_le :: "recipient_session \<Rightarrow> recipient_session \<Rightarrow> bool" where
  "session_le s s' \<longleftrightarrow> rs_id s' = rs_id s \<and> rs_package s' = rs_package s \<and> rs_token_hash s' = rs_token_hash s \<and>
     (rs_revoked_at s \<noteq> None \<longrightarrow> rs_revoked_at s' \<noteq> None)"

lemma session_le_refl [simp]: "session_le s s"
  by (simp add: session_le_def)

lemma session_le_trans: "session_le a b \<Longrightarrow> session_le b c \<Longrightarrow> session_le a c"
  by (simp add: session_le_def)

definition sessions_le :: "sdb \<Rightarrow> sdb \<Rightarrow> bool" where
  "sessions_le db db' \<longleftrightarrow> (\<exists>f. sessions db' = map f (sessions db) \<and> (\<forall>s \<in> set (sessions db). session_le s (f s)))"

lemma sessions_le_same: "sessions db' = sessions db \<Longrightarrow> sessions_le db db'"
  unfolding sessions_le_def by (intro exI [of _ id]) simp

lemma sessions_le_trans:
  assumes "sessions_le a b" "sessions_le b c"
  shows "sessions_le a c"
proof -
  obtain f g where "sessions b = map f (sessions a)" "\<forall>s \<in> set (sessions a). session_le s (f s)"
    "sessions c = map g (sessions b)" "\<forall>s \<in> set (sessions b). session_le s (g s)"
    using assms unfolding sessions_le_def by blast
  then show ?thesis
    unfolding sessions_le_def by (intro exI [of _ "g \<circ> f"]) (auto intro: session_le_trans)
qed

lemma filter_map_le:
  "(\<And>s. s \<in> set ss \<Longrightarrow> P (f s) \<Longrightarrow> P s) \<Longrightarrow> length (filter P (map f ss)) \<le> length (filter P ss)"
  by (induction ss) (auto simp: le_SucI)

lemma sessions_le_ok:
  assumes "sessions_le db db'" "sessions_ok (sessions db)"
  shows "sessions_ok (sessions db')"
proof -
  obtain f where f: "sessions db' = map f (sessions db)" "\<And>s. s \<in> set (sessions db) \<Longrightarrow> session_le s (f s)"
    using assms(1) unfolding sessions_le_def by blast
  have ids: "map rs_id (map f (sessions db)) = map rs_id (sessions db)" using f(2) by (simp add: session_le_def)
  have "length (filter (live_for pid) (map f (sessions db))) \<le> length (filter (live_for pid) (sessions db))" for pid
    by (rule filter_map_le) (use f(2) in \<open>force simp: live_for_def session_le_def\<close>)
  then have "length (filter (live_for pid) (map f (sessions db))) \<le> 1" for pid
    using assms(2) by (meson order_trans sessions_ok_def)
  then show ?thesis
    using assms(2) ids by (simp only: sessions_ok_def f(1)) simp
qed

lemma update_session_le:
  assumes "distinct (map rs_id (sessions db))" "s \<in> set (sessions db)" "session_le s (g s)"
  shows "sessions_le db (update_session (rs_id s) g db)"
proof -
  have "x = s" if "x \<in> set (sessions db)" "rs_id x = rs_id s" for x
    using assms(1,2) that by (auto simp: distinct_map dest: inj_onD)
  with assms(3) have "session_le x (if rs_id x = rs_id s then g x else x)" if "x \<in> set (sessions db)" for x
    using that by (metis session_le_refl)
  then show ?thesis
    unfolding sessions_le_def update_session_def by (intro exI [of _ "\<lambda>x. if rs_id x = rs_id s then g x else x"]) simp
qed

lemma active_session_le:
  assumes d: "distinct (map rs_id (sessions db))" and a: "active_recipient_session cr now p cookie db = (db', s)"
  shows "sessions_le db db'" "\<And>s'. s = Some s' \<Longrightarrow> s' \<in> set (sessions db')"
proof -
  have "sessions_le db db' \<and> (\<forall>s'. s = Some s' \<longrightarrow> s' \<in> set (sessions db'))"
  proof (cases s)
    case None
    then have "db' = db" using a by (auto simp: active_recipient_session_def Let_def split: option.splits if_splits)
    then show ?thesis using None sessions_le_same by auto
  next
    case (Some s')
    obtain t where t: "cookie = Some t" using a Some by (auto simp: active_recipient_session_def split: option.splits)
    obtain x where x: "find_session cr db p t = Some x" "rs_revoked_at x = None"
      and s': "s' = x\<lparr>rs_last_activity := now, rs_expires_at := session_limit now p\<rparr>" "db' = update_session (rs_id x) (\<lambda>_. s') db"
      using a Some t by (auto simp: active_recipient_session_def Let_def split: option.splits if_splits)
    have "x \<in> set (sessions db)" using find_SomeD [OF x(1) [unfolded find_session_def]] by simp
    then have "sessions_le db db'" "s' \<in> set (sessions db')"
      using update_session_le [OF d, of x "\<lambda>_. s'"] s' by (auto simp: session_le_def update_session_def image_iff)
    then show ?thesis using Some by simp
  qed
  then show "sessions_le db db'" "\<And>s'. s = Some s' \<Longrightarrow> s' \<in> set (sessions db')" by blast+
qed

lemma revoke_sessions_le [simp]: "sessions_le db (revoke_recipient_sessions now pid db)"
  unfolding sessions_le_def revoke_recipient_sessions_def
  by (intro exI [of _ "\<lambda>s. if rs_package s = pid \<and> rs_revoked_at s = None then s\<lparr>rs_revoked_at := Some now\<rparr> else s"])
     (simp add: session_le_def)

lemma filter_map_none: "(\<And>x. \<not> P (f x)) \<Longrightarrow> filter P (map f xs) = []"
  by (induction xs) auto

lemma revoke_sessions_none: "filter (live_for pid) (sessions (revoke_recipient_sessions now pid db)) = []"
proof -
  have "filter (live_for pid)
    (map (\<lambda>s. if rs_package s = pid \<and> rs_revoked_at s = None then s\<lparr>rs_revoked_at := Some now\<rparr> else s) (sessions db)) = []"
    by (rule filter_map_none) (simp add: live_for_def)
  then show ?thesis by (simp add: revoke_recipient_sessions_def)
qed

lemma sessions_frames [simp]:
  "sessions (record_activity pid e a db) = sessions db" "sessions (update_package pid g db) = sessions db"
  "sessions (add_files cr pid fs db) = sessions db"
  by (simp_all add: record_activity_def update_package_def)
     (induction cr pid fs db rule: add_files.induct; simp)

lemma sessions_le_after: "sessions db' = sessions db1 \<Longrightarrow> sessions_le db db1 \<Longrightarrow> sessions_le db db'"
  by (simp add: sessions_le_def)

lemma clean_sessions_le: "sessions_le db (clean_package_content now unlink st pid db)"
proof -
  let ?db1 = "update_package pid (close_package now st) (db\<lparr>files := filter (\<lambda>f. fl_package f \<noteq> pid) (files db),
    disk := filter (\<lambda>(name, content). name \<notin> set (map fl_storage_id (filter (\<lambda>f. fl_package f = pid) (files db))) \<or> name \<in> set unlink) (disk db)\<rparr>)"
  have "sessions_le db ?db1" by (rule sessions_le_same) simp
  then show ?thesis
    unfolding clean_package_content_def Let_def using revoke_sessions_le by (rule sessions_le_trans)
qed

lemma mark_download_le: "sessions_le db (mark_download now p db)"
proof -
  let ?db1 = "record_activity (pk_id p) ''downloaded'' None (update_package (pk_id p) (downloaded_package now) db)"
  have "sessions_le db ?db1" by (rule sessions_le_same) simp
  then show ?thesis
    using sessions_le_trans [OF _ revoke_sessions_le] by (auto simp: mark_download_def Let_def)
qed

lemma authorised_download_le:
  assumes "distinct (map rs_id (sessions db))" "authorised_download cr now token cookie csrf db = (db1, x)"
  shows "sessions_le db db1"
proof (cases "package_or_error cr now db token")
  case (Some p)
  obtain db2 s where a: "active_recipient_session cr now p cookie db = (db2, s)" by (rule prod.exhaust)
  then have "db1 = db2" using assms(2) Some by (auto simp: authorised_download_def split: option.splits if_splits)
  with active_session_le(1) [OF assms(1) a] show ?thesis by simp
qed (use assms in \<open>auto simp: authorised_download_def intro: sessions_le_same\<close>)

text \<open>A step only ages the sessions, or it revokes those of one package and adds a new one for it.\<close>

definition sessions_step :: "sdb \<Rightarrow> sdb \<Rightarrow> bool" where
  "sessions_step db db' \<longleftrightarrow> sessions_le db db' \<or>
     (\<exists>db1 s. sessions_le db db1 \<and> filter (live_for (rs_package s)) (sessions db1) = [] \<and> rs_id s \<notin> set (map rs_id (sessions db1)) \<and>
        sessions db' = sessions db1 @ [s])"

lemma start_session_step:
  assumes "sessions db1 = sessions db"
  shows "sessions_step db (record_activity pid e a (start_recipient_session cr now token csrf p db1))"
proof -
  let ?db2 = "revoke_recipient_sessions now (pk_id p) db1"
  let ?s = "\<lparr>rs_id = next_rowid (map rs_id (sessions ?db2)), rs_package = pk_id p, rs_token_hash = sha256 cr token,
    rs_csrf_hash = sha256 cr csrf, rs_created_at = now, rs_last_activity = now, rs_expires_at = session_limit now p,
    rs_revoked_at = None\<rparr>"
  have "sessions_le db ?db2"
    using sessions_le_trans [OF sessions_le_same [OF assms] revoke_sessions_le] .
  moreover have "filter (live_for (rs_package ?s)) (sessions ?db2) = []"
    by (simp add: revoke_sessions_none)
  moreover have "sessions (record_activity pid e a (start_recipient_session cr now token csrf p db1)) = sessions ?db2 @ [?s]"
    by (simp add: start_recipient_session_def Let_def)
  moreover have "rs_id ?s \<notin> set (map rs_id (sessions ?db2))"
    using next_rowid_not_in [of "map rs_id (sessions ?db2)"] by simp
  ultimately show ?thesis unfolding sessions_step_def by blast
qed

lemma unlock_sessions:
  assumes "unlock cr now ip token pin phrase new_token new_csrf db = (db', r)"
  shows "sessions_step db db'"
proof (cases "module_enabled db \<and> package_or_error cr now db token \<noteq> None")
  case False
  with assms have "db' = db" by (auto simp: unlock_def split: if_splits)
  then show ?thesis using sessions_le_same by (simp add: sessions_step_def)
next
  case True
  then obtain p where p: "module_enabled db" "package_or_error cr now db token = Some p" by auto
  obtain db1 b where l: "attempt_limited now ip p db = (db1, b)" by (rule prod.exhaust)
  have l1: "sessions db1 = sessions db" using l by (auto simp: attempt_limited_def Let_def)
  show ?thesis
  proof (cases "\<not> b \<and> authenticate_package cr p token pin phrase")
    case True
    then have "db' = record_activity (pk_id p) ''authenticated'' None (start_recipient_session cr now new_token new_csrf
        (unlocked_package now p) (update_package (pk_id p) (unlocked_package now) db1))"
      using assms p l by (auto simp: unlock_def Let_def)
    then show ?thesis using start_session_step l1 by simp
  next
    case False
    then have "sessions db' = sessions db"
      using assms p l l1 by (cases b) (auto simp: unlock_def Let_def)
    then show ?thesis using sessions_le_same by (simp add: sessions_step_def)
  qed
qed

lemma expire_fold_le: "sessions_le db (foldl (expire_one now unlink) db ids)"
proof (induction ids arbitrary: db)
  case (Cons pid ids)
  have "sessions_le db (record_activity pid ''expired'' None db)" by (rule sessions_le_same) simp
  then have "sessions_le db (expire_one now unlink db pid)"
    unfolding expire_one_def by (rule sessions_le_trans) (rule clean_sessions_le)
  with Cons.IH show ?case by (auto intro: sessions_le_trans)
qed (simp add: sessions_le_same)

lemma download_file_le:
  assumes d: "distinct (map rs_id (sessions db))" and q: "download_file cr now token fid cookie csrf db = (db', r)"
  shows "sessions_le db db'"
proof (cases "module_enabled db")
  case True
  obtain db1 x where a: "authorised_download cr now token cookie csrf db = (db1, x)" by (rule prod.exhaust)
  have le1: "sessions_le db db1" by (rule authorised_download_le [OF d a])
  have "db' = db1 \<or> (\<exists>p fs. db' = mark_download now p (db1\<lparr>files := fs\<rparr>))"
    using q True a by (auto simp: download_file_def split: sum.splits option.splits prod.splits)
  then show ?thesis
  proof
    assume "\<exists>p fs. db' = mark_download now p (db1\<lparr>files := fs\<rparr>)"
    then obtain p fs where db': "db' = mark_download now p (db1\<lparr>files := fs\<rparr>)" by blast
    have "sessions_le db (db1\<lparr>files := fs\<rparr>)" using le1 by (rule sessions_le_after [rotated]) simp
    then show ?thesis unfolding db' by (rule sessions_le_trans) (rule mark_download_le)
  qed (simp add: le1)
qed (use q in \<open>auto simp: download_file_def intro: sessions_le_same\<close>)

lemma download_package_le:
  assumes d: "distinct (map rs_id (sessions db))" and q: "download_package cr now token cookie csrf db = (db', r)"
  shows "sessions_le db db'"
proof (cases "module_enabled db")
  case True
  obtain db1 x where a: "authorised_download cr now token cookie csrf db = (db1, x)" by (rule prod.exhaust)
  have le1: "sessions_le db db1" by (rule authorised_download_le [OF d a])
  have "db' = db1 \<or> (\<exists>p. db' = mark_download now p db1)"
    using q True a by (auto simp: download_package_def split: sum.splits option.splits)
  then show ?thesis
    using le1 mark_download_le sessions_le_trans by blast
qed (use q in \<open>auto simp: download_package_def intro: sessions_le_same\<close>)

lemma logout_le:
  assumes d: "distinct (map rs_id (sessions db))" and q: "logout cr now token cookie csrf db = (db', r)"
  shows "sessions_le db db'"
proof (cases "module_enabled db \<and> package_or_error cr now db token \<noteq> None")
  case True
  then obtain p where p: "module_enabled db" "package_or_error cr now db token = Some p" by auto
  obtain db1 s where a: "active_recipient_session cr now p cookie db = (db1, s)" by (rule prod.exhaust)
  note le1 = active_session_le [OF d a]
  have d1: "distinct (map rs_id (sessions db1))"
  proof -
    obtain f where "sessions db1 = map f (sessions db)" "\<forall>x \<in> set (sessions db). session_le x (f x)"
      using le1(1) unfolding sessions_le_def by blast
    then have "map rs_id (sessions db1) = map rs_id (sessions db)" by (simp add: session_le_def)
    with d show ?thesis by (simp only:)
  qed
  have "db' = db1 \<or> (\<exists>s'. s = Some s' \<and> db' = update_session (rs_id s') (\<lambda>t. t\<lparr>rs_revoked_at := Some now\<rparr>) db1)"
    using q p a by (auto simp: logout_def split: option.splits if_splits)
  then show ?thesis
  proof
    assume "\<exists>s'. s = Some s' \<and> db' = update_session (rs_id s') (\<lambda>t. t\<lparr>rs_revoked_at := Some now\<rparr>) db1"
    then obtain s' where s': "s = Some s'" "db' = update_session (rs_id s') (\<lambda>t. t\<lparr>rs_revoked_at := Some now\<rparr>) db1" by blast
    have "sessions_le db1 db'"
      unfolding s'(2) by (rule update_session_le [OF d1 le1(2) [OF s'(1)]]) (simp add: session_le_def)
    with le1(1) show ?thesis by (rule sessions_le_trans)
  qed (simp add: le1(1))
next
  case False
  with q have "db' = db" by (auto simp: logout_def split: if_splits)
  then show ?thesis by (simp add: sessions_le_same)
qed

lemma recipient_le:
  assumes d: "distinct (map rs_id (sessions db))" and q: "recipient cr now token cookie db = (db', r)"
  shows "sessions_le db db'"
proof (cases "module_enabled db \<and> package_or_error cr now db token \<noteq> None")
  case True
  then obtain p0 where p0: "module_enabled db" "package_or_error cr now db token = Some p0" by auto
  define p where "p = (if pk_opened_at p0 = None then opened_package now p0 else p0)"
  define db1 where "db1 = (if pk_opened_at p0 = None
    then record_activity (pk_id p) ''opened'' None (update_package (pk_id p) (opened_package now) db) else db)"
  obtain db2 s where a: "active_recipient_session cr now p cookie db1 = (db2, s)" by (rule prod.exhaust)
  have s1: "sessions db1 = sessions db" by (simp add: db1_def)
  have "db' = db2"
    using q p0 a by (auto simp: recipient_def Let_def p_def db1_def split: option.splits if_splits)
  moreover have "sessions_le db1 db2" using active_session_le(1) [OF _ a] d s1 by simp
  ultimately show ?thesis using s1 by (simp add: sessions_le_def)
next
  case False
  with q have "db' = db" by (auto simp: recipient_def split: if_splits)
  then show ?thesis by (simp add: sessions_le_same)
qed

lemma send_step_sessions: "send_step cr now db out db' \<Longrightarrow> distinct (map rs_id (sessions db)) \<Longrightarrow> sessions_step db db'"
proof (induction rule: send_step.induct)
  case (Create fails rq db db' pid)
  then have "sessions db' = sessions db" by (auto simp: create_package_def Let_def split: if_splits)
  then show ?case by (simp add: sessions_step_def sessions_le_same)
next
  case (Unlock ip token pin phrase new_token new_csrf db db' r)
  then show ?case by (blast intro: unlock_sessions)
next
  case (Revoke db uid admin pid)
  have "sessions_le db (revoke now uid admin pid db)"
  proof -
    let ?db1 = "update_package pid (\<lambda>q. q\<lparr>pk_revoked_at := Some now, pk_status := ''revoked''\<rparr>) db"
    have "sessions_le db ?db1" by (rule sessions_le_same) simp
    then have "sessions_le db (revoke_recipient_sessions now pid ?db1)" using revoke_sessions_le by (rule sessions_le_trans)
    then have "sessions_le db (record_activity pid ''revoked'' (Some uid) (revoke_recipient_sessions now pid ?db1))"
      by (rule sessions_le_after [rotated]) simp
    then show ?thesis by (simp add: revoke_def sessions_le_same split: option.splits)
  qed
  then show ?case by (simp add: sessions_step_def)
next
  case (Extend db uid choice custom pid)
  have "sessions (extend now uid choice custom pid db) = sessions db" by (simp add: extend_def split: option.splits)
  then show ?case by (simp add: sessions_step_def sessions_le_same)
next
  case (Delete db unlink uid admin pid)
  have "sessions_le db (record_activity pid ''deleted'' (Some uid) db)" by (rule sessions_le_same) simp
  then have "sessions_le db (clean_package_content now unlink ''deleted'' pid (record_activity pid ''deleted'' (Some uid) db))"
    by (rule sessions_le_trans) (rule clean_sessions_le)
  then show ?case by (simp add: sessions_step_def delete_def sessions_le_same split: option.splits)
next
  case (Cleanup db unlink)
  show ?case by (simp add: sessions_step_def expire_and_cleanup_def Let_def expire_fold_le)
next
  case (Configure db s b)
  show ?case by (simp add: sessions_step_def sessions_le_same)
qed (auto simp: sessions_step_def intro: recipient_le download_file_le download_package_le logout_le)

lemma sessions_step_ok: "sessions_step db db' \<Longrightarrow> sessions_ok (sessions db) \<Longrightarrow> sessions_ok (sessions db')"
proof -
  assume st: "sessions_step db db'" and ok: "sessions_ok (sessions db)"
  show "sessions_ok (sessions db')"
    using st unfolding sessions_step_def
  proof (elim disjE exE conjE)
    fix db1 s
    assume *: "sessions_le db db1" "filter (live_for (rs_package s)) (sessions db1) = []" "rs_id s \<notin> set (map rs_id (sessions db1))"
      "sessions db' = sessions db1 @ [s]"
    have ok1: "sessions_ok (sessions db1)" using *(1) ok by (rule sessions_le_ok)
    have "length (filter (live_for pid) (sessions db1 @ [s])) \<le> 1" for pid
      using ok1 *(2) by (cases "live_for pid s") (auto simp: sessions_ok_def live_for_def)
    with ok1 *(3,4) show ?thesis by (simp only: sessions_ok_def) simp
  qed (use ok sessions_le_ok in blast)
qed

lemma send_run_sessions_ok:
  "send_run cr t db log t' db' \<Longrightarrow> sessions_ok (sessions db) \<Longrightarrow> sessions_ok (sessions db')"
proof (induction rule: send_run.induct)
  case (Step t db log t1 db1 t2 out db2)
  then have ok: "sessions_ok (sessions db1)" by blast
  then have "sessions_step db1 db2" using send_step_sessions [OF Step(3)] by (simp add: sessions_ok_def)
  then show ?case using ok by (rule sessions_step_ok)
qed

section \<open>Sessions and packages as closable things\<close>

definition send_moves :: "crypto \<Rightarrow> sdb \<Rightarrow> sdb \<Rightarrow> bool" where
  "send_moves cr db db' \<longleftrightarrow> sessions_ok (sessions db) \<and> (\<exists>now out. send_step cr now db out db')"

definition session_closed :: "sdb \<Rightarrow> int \<Rightarrow> bool" where
  "session_closed db sid \<longleftrightarrow> (\<exists>s \<in> set (sessions db). rs_id s = sid) \<and> (\<forall>s \<in> set (sessions db). rs_id s = sid \<longrightarrow> rs_revoked_at s \<noteq> None)"

text \<open>A session key is usable at an instant when some request with some cookie would be let in by that session.\<close>

definition session_usable :: "crypto \<Rightarrow> sdb \<Rightarrow> time \<Rightarrow> int \<Rightarrow> bool" where
  "session_usable cr db now sid \<longleftrightarrow>
     (\<exists>p cookie db' s. active_recipient_session cr now p cookie db = (db', Some s) \<and> rs_id s = sid)"

definition package_closed :: "crypto \<Rightarrow> sdb \<Rightarrow> string \<Rightarrow> bool" where
  "package_closed cr db token \<longleftrightarrow> (\<exists>p. package_for_token cr db token = Some p \<and> sealed p)"

definition package_usable :: "crypto \<Rightarrow> sdb \<Rightarrow> time \<Rightarrow> string \<Rightarrow> bool" where
  "package_usable cr db now token \<longleftrightarrow>
     (\<exists>p. package_for_token cr db token = Some p \<and> package_accessible now p \<and> safe_state now (Some p) = ''active'')"

lemma sessions_le_closed: "sessions_le db db' \<Longrightarrow> session_closed db sid \<Longrightarrow> session_closed db' sid"
  unfolding sessions_le_def session_closed_def by (fastforce simp: session_le_def)

lemma send_moves_session_closed:
  assumes "send_moves cr db db'" "session_closed db sid"
  shows "session_closed db' sid"
proof -
  have "distinct (map rs_id (sessions db))" using assms(1) by (simp add: send_moves_def sessions_ok_def)
  then have "sessions_step db db'" using assms(1) send_step_sessions by (auto simp: send_moves_def)
  then show ?thesis unfolding sessions_step_def
  proof (elim disjE exE conjE)
    fix db1 s
    assume *: "sessions_le db db1" "rs_id s \<notin> set (map rs_id (sessions db1))" "sessions db' = sessions db1 @ [s]"
    have "session_closed db1 sid" using *(1) assms(2) by (rule sessions_le_closed)
    with *(2,3) show ?thesis by (auto simp: session_closed_def)
  qed (use assms(2) sessions_le_closed in blast)
qed

interpretation session: closable "send_moves cr" session_closed "session_usable cr" for cr
proof
  show "session_closed db' sid" if "send_moves cr db db'" "session_closed db sid" for db db' sid
    using that by (rule send_moves_session_closed)
  show "\<not> session_usable cr db t sid" if "session_closed db sid" for db t sid
    using that by (fastforce simp: session_usable_def session_closed_def dest: active_session_Some)
qed

interpretation package: closable "send_moves cr" "package_closed cr" "package_usable cr" for cr
proof
  show "package_closed cr db' token" if m: "send_moves cr db db'" and c: "package_closed cr db token" for db db' token
  proof -
    obtain p where p: "package_for_token cr db token = Some p" "sealed p"
      using c by (auto simp: package_closed_def)
    obtain now out where "send_step cr now db out db'" using m by (auto simp: send_moves_def)
    then obtain f where "fair_step cr now db out db' f" using send_step_fair by blast
    then have "packages_evolve f db db'" by (simp add: fair_step_def)
    from find_evolve [OF this p(1)] p(2) show ?thesis
      using sealed_mono by (auto simp: package_closed_def)
  qed
  show "\<not> package_usable cr db t token" if "package_closed cr db token" for db t token
    using that by (auto simp: package_closed_def package_usable_def sealed_def package_accessible_def dest: safe_state_active)
qed

text \<open>
  A revoked session stays revoked. Once the session of a recipient is revoked (by a new unlock, a logout, the sender, the single download or
  the clean-up), no cookie is ever accepted on its behalf again, whatever steps follow.
\<close>

theorem revoked_session_is_dead:
  assumes "(send_moves cr)\<^sup>*\<^sup>* db db'" "session_closed db sid"
  shows "\<not> session_usable cr db' now sid"
  using assms by (rule session.closed_for_good)

text \<open>
  One session per package. Starting from tables in which sessions have distinct keys and each package has at most one session that is not revoked (in
  particular from empty ones), every later state has that property: a successful unlock ends all earlier sessions of the package.
\<close>

theorem one_session_per_package:
  assumes "send_run cr t db log t' db'" "sessions_ok (sessions db)"
  shows "length (filter (\<lambda>s. rs_package s = pid \<and> rs_revoked_at s = None) (sessions db')) \<le> 1"
  using send_run_sessions_ok [OF assms] by (simp add: sessions_ok_def live_for_def [abs_def])

text \<open>
  C28. Content needs a live session. A request is answered with the contents page or with content only if the access token belongs to a package that
  is not revoked, deleted, expired or cleaned up, and the cookie belongs to a session of that very package that was not revoked and
  has not expired; a download also needs the anti-forgery token of that session.
\<close>

theorem content_needs_live_session:
  assumes "recipient cr now token cookie db = (db', r) \<and> csrf = [] \<or> download_file cr now token fid cookie csrf db = (db', r) \<or>
      download_package cr now token cookie csrf db = (db', r)" "discloses r"
  shows "\<exists>p. package_for_token cr db token = Some p \<and>
    holds_session cr now p db cookie (\<lambda>s. is_download r \<longrightarrow> csrf \<noteq> [] \<and> rs_csrf_hash s = sha256 cr csrf)"
  using assms(1)
proof (elim disjE conjE)
  assume "recipient cr now token cookie db = (db', r)"
  from recipient_cases(2,3) [OF this] assms(2) show ?thesis by (auto simp: holds_session_def)
next
  assume "download_file cr now token fid cookie csrf db = (db', r)"
  from download_file_cases [OF this] assms(2) show ?thesis by (auto simp: served_def holds_session_def)
next
  assume "download_package cr now token cookie csrf db = (db', r)"
  from download_package_cases [OF this] assms(2) show ?thesis by (auto simp: served_def holds_session_def)
qed

section \<open>Clean-up\<close>

lemma list_all_map_always: "(\<And>x. Q (f x)) \<Longrightarrow> list_all Q (map f xs)"
  by (induction xs) simp_all

lemma list_all_mapI: "list_all P xs \<Longrightarrow> (\<And>x. P x \<Longrightarrow> Q (f x)) \<Longrightarrow> list_all Q (map f xs)"
  by (induction xs) simp_all

lemma list_all_filterI: "list_all P xs \<Longrightarrow> list_all P (filter Q xs)"
  by (induction xs) simp_all

text \<open>What remains of a package whose content was cleaned.\<close>

definition empty_package :: "int \<Rightarrow> package \<Rightarrow> bool" where
  "empty_package pid p \<longleftrightarrow> (pk_id p = pid \<longrightarrow> pk_note p = None \<and> pk_cleaned_at p \<noteq> None \<and> pk_status p = ''expired'')"

definition dead_session :: "int \<Rightarrow> recipient_session \<Rightarrow> bool" where
  "dead_session pid s \<longleftrightarrow> (rs_package s = pid \<longrightarrow> rs_revoked_at s \<noteq> None)"

definition emptied :: "int \<Rightarrow> sdb \<Rightarrow> bool" where
  "emptied pid db \<longleftrightarrow> list_all (empty_package pid) (packages db) \<and> list_all (\<lambda>f. fl_package f \<noteq> pid) (files db) \<and>
     list_all (dead_session pid) (sessions db)"

lemma revoke_dead [simp]: "list_all (dead_session pid) (sessions (revoke_recipient_sessions now pid db))"
  by (simp add: revoke_recipient_sessions_def del: list.pred_map) (rule list_all_map_always, simp add: dead_session_def)

lemma revoke_keeps_dead:
  "list_all (dead_session q) (sessions db) \<Longrightarrow> list_all (dead_session q) (sessions (revoke_recipient_sessions now pid db))"
  by (simp add: revoke_recipient_sessions_def del: list.pred_map) (erule list_all_mapI, simp add: dead_session_def)

lemma expire_one_simps:
  "packages (expire_one now unlink db pid) = map (on_package pid (close_package now ''expired'')) (packages db)"
  "files (expire_one now unlink db pid) = filter (\<lambda>f. fl_package f \<noteq> pid) (files db)"
  "disk (expire_one now unlink db pid) = filter (\<lambda>(name, content).
     name \<notin> set (map fl_storage_id (filter (\<lambda>f. fl_package f = pid) (files db))) \<or> name \<in> set unlink) (disk db)"
  by (simp_all add: expire_one_def clean_packages)
     (simp_all add: clean_package_content_def Let_def update_package_def revoke_recipient_sessions_def record_activity_def)

lemma expire_one_sessions: "sessions (expire_one now unlink db pid) = sessions (revoke_recipient_sessions now pid db)"
  by (simp add: expire_one_def clean_package_content_def Let_def update_package_def revoke_recipient_sessions_def record_activity_def)

lemma expire_one_empties: "emptied pid (expire_one now unlink db pid)"
proof -
  have "list_all (empty_package pid) (map (on_package pid (close_package now ''expired'')) (packages db))"
    by (rule list_all_map_always) (simp add: empty_package_def on_package_def close_package_def)
  moreover have "list_all (\<lambda>f. fl_package f \<noteq> pid) (filter (\<lambda>f. fl_package f \<noteq> pid) (files db))"
    by (simp add: list_all_iff)
  ultimately show ?thesis
    unfolding emptied_def expire_one_simps expire_one_sessions by (intro conjI revoke_dead)
qed

lemma expire_one_keeps: "emptied q db \<Longrightarrow> emptied q (expire_one now unlink db pid)"
proof -
  assume e: "emptied q db"
  then have "list_all (empty_package q) (map (on_package pid (close_package now ''expired'')) (packages db))"
    unfolding emptied_def by (elim conjE list_all_mapI) (simp add: empty_package_def on_package_def close_package_def)
  with e show ?thesis
    unfolding emptied_def expire_one_simps expire_one_sessions by (intro conjI list_all_filterI revoke_keeps_dead) simp_all
qed

lemma expire_fold_keeps: "emptied q db \<Longrightarrow> emptied q (foldl (expire_one now unlink) db ids)"
  by (induction ids arbitrary: db) (auto intro: expire_one_keeps)

lemma expire_fold_disk: "fst ` set (disk (foldl (expire_one now unlink) db ids)) \<subseteq> fst ` set (disk db)"
proof (induction ids arbitrary: db)
  case (Cons i ids)
  have "fst ` set (disk (expire_one now unlink db i)) \<subseteq> fst ` set (disk db)" unfolding expire_one_simps by auto
  with Cons.IH [of "expire_one now unlink db i"] show ?case by simp
qed simp

lemma expire_fold_files:
  "pid \<notin> set ids \<Longrightarrow> filter (\<lambda>f. fl_package f = pid) (files (foldl (expire_one now unlink) db ids)) = filter (\<lambda>f. fl_package f = pid) (files db)"
proof (induction ids arbitrary: db)
  case (Cons i ids)
  then have "filter (\<lambda>f. fl_package f = pid) (files (expire_one now unlink db i)) = filter (\<lambda>f. fl_package f = pid) (files db)"
    unfolding expire_one_simps filter_filter by (intro filter_cong) auto
  with Cons show ?case by simp
qed simp

lemma expire_fold_empties:
  assumes "distinct ids" "pid \<in> set ids" "db' = foldl (expire_one now unlink) db ids"
  shows "emptied pid db'"
    "f \<in> set (files db) \<Longrightarrow> fl_package f = pid \<Longrightarrow> fl_storage_id f \<notin> set unlink \<Longrightarrow> fl_storage_id f \<notin> fst ` set (disk db')"
proof -
  obtain xs ys where ids: "ids = xs @ pid # ys" "pid \<notin> set xs"
    using split_list_first [OF assms(2)] by blast
  let ?db1 = "foldl (expire_one now unlink) db xs"
  have db': "db' = foldl (expire_one now unlink) (expire_one now unlink ?db1 pid) ys" using assms(3) ids by simp
  show "emptied pid db'" unfolding db' by (intro expire_fold_keeps expire_one_empties)
  assume f: "f \<in> set (files db)" "fl_package f = pid" "fl_storage_id f \<notin> set unlink"
  have "f \<in> set (filter (\<lambda>f. fl_package f = pid) (files ?db1))"
    using expire_fold_files [OF ids(2)] f by simp
  then have "fl_storage_id f \<notin> fst ` set (disk (expire_one now unlink ?db1 pid))"
    using f(3) unfolding expire_one_simps by auto
  then show "fl_storage_id f \<notin> fst ` set (disk db')"
    unfolding db' using expire_fold_disk by blast
qed

text \<open>
  Expired payloads are destroyed. After one pass of the clean-up job, a package that had expired and was not cleaned before has no note, no file
  rows and no session that is not revoked, is marked as expired, and none of its encrypted files is left in the storage directory, except
  those that the file system refused to delete.
\<close>

theorem cleanup_destroys_expired:
  assumes "distinct (map pk_id (packages db))" "expire_and_cleanup now unlink db = (db', n)" "p \<in> set (packages db)"
    "pk_expires_at p \<le> now" "pk_cleaned_at p = None"
  shows "emptied (pk_id p) db' \<and>
    (\<forall>f \<in> set (files db). fl_package f = pk_id p \<and> fl_storage_id f \<notin> set unlink \<longrightarrow> fl_storage_id f \<notin> fst ` set (disk db'))"
proof -
  have d: "distinct (expired_packages now db)"
    using assms(1) unfolding expired_packages_def by (rule distinct_map_filter)
  have i: "pk_id p \<in> set (expired_packages now db)"
    using assms(3-5) by (simp add: expired_packages_def)
  have e: "db' = foldl (expire_one now unlink) db (expired_packages now db)"
    using assms(2) by (simp add: expire_and_cleanup_def Let_def)
  show ?thesis
    using expire_fold_empties(1) [OF d i e] expire_fold_empties(2) [OF d i e] by blast
qed

section \<open>A reference run\<close>

text \<open>Transparent cryptography for the examples: hashes are the identity, and encryption changes nothing.\<close>

definition demo_crypto :: crypto where
  "demo_crypto = \<lparr>sha256 = (\<lambda>s. s), hash_password = (\<lambda>s. s), verify_password = (=), decrypt_metadata = (\<lambda>_ _ c. Some c),
     decrypt_content = (\<lambda>_ _ c. Some c), decrypt_note = (\<lambda>_ c. Some c)\<rparr>"

definition demo_token :: string where
  "demo_token = replicate 64 (CHR ''a'')"

definition empty_sdb :: sdb where
  "empty_sdb = \<lparr>module_enabled = True, max_expiry_days = [], packages = [], files = [], sessions = [], activities = [], disk = [],
     ATTEMPTS = []\<rparr>"

definition demo_package :: package_request where
  "demo_package = \<lparr>rq_sender = 1, rq_internal = None, rq_token = demo_token, rq_passphrase = ''amber-lake'', rq_pin = ''483 920'',
     rq_note = Some ''n'', rq_expires_at = minutes 60, rq_one_download = True, rq_vault_save = False,
     rq_files = [(''f1'', ''a.txt'', ''x'')]\<rparr>"

definition created :: sdb where
  "created = fst (create_package demo_crypto False demo_package empty_sdb)"

definition the_package :: package where
  "the_package = new_package demo_crypto demo_package 1"

definition unlock_demo :: "time \<Rightarrow> string \<Rightarrow> sdb \<Rightarrow> sdb \<times> reply" where
  "unlock_demo now phrase db = unlock demo_crypto now ''10.0.0.9'' demo_token ''483920'' phrase ''cookie'' ''csrf'' db"

definition download_demo :: "time \<Rightarrow> sdb \<Rightarrow> sdb \<times> reply" where
  "download_demo now db = download_package demo_crypto now demo_token (Some ''cookie'') ''csrf'' db"

definition unlocked_db :: sdb where
  "unlocked_db = fst (unlock_demo (minutes 1) '' amber-lake'' created)"

definition downloaded_db :: sdb where
  "downloaded_db = fst (download_demo (minutes 2) unlocked_db)"

definition demo_log :: "(string \<times> reply) list" where
  "demo_log = [(demo_token, snd (unlock_demo (minutes 1) '' amber-lake'' created)), (demo_token, snd (download_demo (minutes 2) unlocked_db)),
     (demo_token, snd (download_demo (minutes 3) downloaded_db))]"

lemma demo_find: "package_for_token demo_crypto created demo_token = Some the_package"
proof -
  have "case package_for_token demo_crypto created demo_token of Some p \<Rightarrow> p = the_package | None \<Rightarrow> False" by code_simp
  then show ?thesis by (simp split: option.splits)
qed

lemma demo_unlock_step: "send_step demo_crypto now db (Some (demo_token, snd (unlock_demo now phrase db))) (fst (unlock_demo now phrase db))"
  unfolding unlock_demo_def by (rule Unlock) (rule prod.collapse [symmetric])

lemma demo_download_step: "send_step demo_crypto now db (Some (demo_token, snd (download_demo now db))) (fst (download_demo now db))"
  unfolding download_demo_def by (rule DownloadPackage) (rule prod.collapse [symmetric])

lemma run_snoc:
  assumes "send_run cr t db log t1 db1" "t1 \<le> t2" "send_step cr t2 db1 (Some x) db2"
  shows "send_run cr t db (log @ [x]) t2 db2"
  using Step [OF assms] by simp

lemma demo_run: "send_run demo_crypto 0 created demo_log (minutes 3) (fst (download_demo (minutes 3) downloaded_db))"
proof -
  have "send_run demo_crypto 0 created ([] @ [(demo_token, snd (unlock_demo (minutes 1) '' amber-lake'' created))]) (minutes 1) unlocked_db"
    unfolding unlocked_db_def
    by (rule run_snoc [OF Start [OF order_refl] _ demo_unlock_step]) (simp add: minutes_def seconds_def)
  from run_snoc [OF this _ demo_download_step, of "minutes 2"]
  have "send_run demo_crypto 0 created [(demo_token, snd (unlock_demo (minutes 1) '' amber-lake'' created)),
      (demo_token, snd (download_demo (minutes 2) unlocked_db))] (minutes 2) downloaded_db"
    by (simp add: downloaded_db_def minutes_def seconds_def)
  from run_snoc [OF this _ demo_download_step, of "minutes 3"] show ?thesis
    by (simp add: demo_log_def minutes_def seconds_def)
qed

theorem single_download_witness:
  "length (filter (\<lambda>(k, r). k = demo_token \<and> is_download r) demo_log) \<le> 1 \<and> list_ex (\<lambda>(k, r). is_download r) demo_log"
proof -
  have "list_ex (\<lambda>(k, r). is_download r) demo_log" by code_simp
  moreover have "pk_one_download the_package" "0 \<le> pk_download_count the_package"
    by (simp_all add: the_package_def new_package_def demo_package_def)
  ultimately show ?thesis using single_download [OF demo_run demo_find] by simp
qed

definition used_package :: package where
  "used_package = (case package_for_token demo_crypto downloaded_db demo_token of Some p \<Rightarrow> p | None \<Rightarrow> the_package)"

theorem sealed_packages_stay_closed_witness: "\<not> discloses (snd (download_demo (minutes 3) downloaded_db))"
proof -
  have "package_for_token demo_crypto downloaded_db demo_token \<noteq> None" by code_simp
  then have f: "package_for_token demo_crypto downloaded_db demo_token = Some used_package" by (auto simp: used_package_def)
  have s: "sealed used_package" by code_simp
  have "send_run demo_crypto (minutes 2) downloaded_db ([] @ [(demo_token, snd (download_demo (minutes 3) downloaded_db))]) (minutes 3)
      (fst (download_demo (minutes 3) downloaded_db))"
    by (rule run_snoc [OF Start [OF order_refl] _ demo_download_step]) (simp add: minutes_def seconds_def)
  from sealed_packages_stay_closed [OF this f s] show ?thesis by simp
qed

theorem guessing_is_bounded_witness:
  "int (guesses demo_token [(demo_token, snd (unlock_demo 0 ''wrong'' created))]) \<le> 10 + (0 - 0) div minutes 30"
proof -
  have r: "send_run demo_crypto 0 created ([] @ [(demo_token, snd (unlock_demo 0 ''wrong'' created))]) 0 (fst (unlock_demo 0 ''wrong'' created))"
    by (rule run_snoc [OF Start [OF order_refl] _ demo_unlock_step]) simp
  then have "send_run demo_crypto 0 created [(demo_token, snd (unlock_demo 0 ''wrong'' created))] 0 (fst (unlock_demo 0 ''wrong'' created))"
    by simp
  then show ?thesis
  proof (rule guessing_is_bounded [OF _ demo_find])
    show "distinct (map pk_id (packages created))" by code_simp
    show "pk_failed_attempts the_package = 0" by (simp add: the_package_def new_package_def)
    have "\<not> is_unlocked (snd (unlock_demo 0 ''wrong'' created))" by code_simp
    then show "\<forall>(k, r) \<in> set [(demo_token, snd (unlock_demo 0 ''wrong'' created))].
        sha256 demo_crypto k = sha256 demo_crypto demo_token \<longrightarrow> \<not> is_unlocked r" by simp
  qed
qed

theorem revoked_session_is_dead_witness: "\<not> session_usable demo_crypto downloaded_db (minutes 3) 1"
proof -
  have "list_all (\<lambda>s. rs_id s = 1 \<and> rs_revoked_at s \<noteq> None) (sessions downloaded_db) \<and> sessions downloaded_db \<noteq> []" by code_simp
  then have "session_closed downloaded_db 1"
    unfolding session_closed_def list_all_iff by (metis last_in_set)
  then show ?thesis by (rule revoked_session_is_dead [OF rtranclp.rtrancl_refl])
qed

theorem one_session_per_package_witness:
  "length (filter (\<lambda>s. rs_package s = 1 \<and> rs_revoked_at s = None) (sessions (fst (download_demo (minutes 3) downloaded_db)))) \<le> 1"
  by (rule one_session_per_package [OF demo_run]) (simp add: sessions_ok_def created_def create_package_def empty_sdb_def Let_def)

theorem content_needs_live_session_witness:
  "\<exists>p. package_for_token demo_crypto unlocked_db demo_token = Some p \<and>
     holds_session demo_crypto (minutes 2) p unlocked_db (Some ''cookie'')
       (\<lambda>s. rs_csrf_hash s = sha256 demo_crypto ''csrf'')"
proof -
  have "download_package demo_crypto (minutes 2) demo_token (Some ''cookie'') ''csrf'' unlocked_db =
      (downloaded_db, snd (download_demo (minutes 2) unlocked_db))"
    by (simp add: downloaded_db_def download_demo_def)
  moreover have "discloses (snd (download_demo (minutes 2) unlocked_db))" "is_download (snd (download_demo (minutes 2) unlocked_db))"
    by code_simp+
  ultimately show ?thesis
    using content_needs_live_session [of demo_crypto "minutes 2" demo_token "Some ''cookie''" unlocked_db downloaded_db
        "snd (download_demo (minutes 2) unlocked_db)" "''csrf''" 0]
    by (auto simp: holds_session_def)
qed

theorem cleanup_destroys_expired_witness:
  "emptied 1 (fst (expire_and_cleanup (minutes 61) [] created)) \<and> ''f1'' \<notin> fst ` set (disk (fst (expire_and_cleanup (minutes 61) [] created)))"
proof -
  have d: "distinct (map pk_id (packages created))" by code_simp
  have p: "the_package \<in> set (packages created)" by code_simp
  have f: "list_ex (\<lambda>f. fl_package f = 1 \<and> fl_storage_id f = ''f1'') (files created)" by code_simp
  have "pk_expires_at the_package \<le> minutes 61" "pk_cleaned_at the_package = None" "pk_id the_package = 1"
    by (simp_all add: the_package_def new_package_def demo_package_def minutes_def seconds_def)
  with cleanup_destroys_expired [OF d prod.collapse [symmetric] p, of "minutes 61" "[]"] f show ?thesis
    unfolding list_ex_iff by (metis empty_iff list.set(1))
qed

text \<open>
  An extension of a cleaned package is hollow. The sender may extend the expiry of a package whose content the clean-up has already
  destroyed: the operation does not look at \<open>cleaned_at\<close>. The gateway then reports the package as active and accepts
  the credentials, but the page with the content never appears: the recipient is asked for the credentials again and again.
\<close>

theorem extension_after_cleanup_is_hollow:
  "let cleaned = fst (expire_and_cleanup (minutes 61) [] created);
       extended = extend (minutes 62) 1 ''1h'' NotADate 1 cleaned;
       (db, answer) = unlock_demo (minutes 63) ''amber-lake'' extended
   in safe_state (minutes 63) (package_for_token demo_crypto extended demo_token) = ''active'' \<and>
      answer = Unlocked ''cookie'' \<and>
      snd (recipient demo_crypto (minutes 64) demo_token (Some ''cookie'') db) = UnlockPage False \<and>
      expired_packages (minutes 500) extended = []"
  by code_simp

text \<open>Two files of one package can get the same name in the archive, because the name with the position in front is not checked again.\<close>

lemma archive_names_collide: "zip_names 1 [] [''3-a'', ''a'', ''a''] = [''3-a'', ''a'', ''3-a'']"
  by code_simp

end
