(* ===== verification/HA_Enrolment.thy ===== *)
theory HA_Enrolment
  imports HA_Model
begin

text \<open>
  The identity of agents: the first part of \<open>app/services/ha_agents.py\<close>. A node is enrolled with a bootstrap token that registers the
  Ed25519 key of its agent; every later request is signed with that key and carries a timestamp and an identifier that is remembered
  for a day. SHA-256, the base64 decoding and Ed25519 are arguments (record \<open>agent_crypto\<close>); bytes are text of characters up to 255.
\<close>

section \<open>Rows\<close>

record identity =
  cr_id :: int
  cr_node :: int
  cr_agent_id :: string
  cr_public_key :: "string option"
  cr_token_hash :: "string option"
  cr_token_expires_at :: "time option"
  cr_registered_at :: "time option"
  cr_revoked_at :: "time option"
  cr_rotated_at :: "time option"

record agent_request =
  rq_credential :: int
  rq_request_id :: string
  rq_timestamp :: time
  rq_received_at :: time

text \<open>A node with the columns of its cluster that enrolment looks at.\<close>

record enrolled_node =
  en_node :: ha_node
  en_agent_id :: "string option"
  en_cluster :: string
  en_cluster_deleted_at :: "time option"

record edb =
  identities :: "identity list"
  agent_requests :: "agent_request list"
  enrolled :: "enrolled_node list"

record agent_crypto =
  digest :: "string \<Rightarrow> string"
  decode_urlsafe :: "string \<Rightarrow> string option"
  ed25519_key :: "string \<Rightarrow> bool"
  ed25519_verify :: "string \<Rightarrow> string \<Rightarrow> string \<Rightarrow> bool"

section \<open>Enrolment\<close>

definition AGENT_PROTOCOL_VERSION :: int where
  "AGENT_PROTOCOL_VERSION = 1"

definition REQUEST_WINDOW_SECONDS :: int where
  "REQUEST_WINDOW_SECONDS = 300"

definition REQUESTS_PER_MINUTE :: nat where
  "REQUESTS_PER_MINUTE = 120"

definition BOOTSTRAP_LIFETIME_MINUTES :: int where
  "BOOTSTRAP_LIFETIME_MINUTES = 15"

definition MAX_AGENT_BODY_BYTES :: int where
  "MAX_AGENT_BODY_BYTES = 256 * 1024"

datatype enrol_error = BadToken | WrongNode | BadEncoding | BadKey | KeyInUse | NoIdentity

definition update_identity :: "int \<Rightarrow> (identity \<Rightarrow> identity) \<Rightarrow> edb \<Rightarrow> edb" where
  "update_identity cid f db = db\<lparr>identities := map (\<lambda>c. if cr_id c = cid then f c else c) (identities db)\<rparr>"

definition identity_of_node :: "edb \<Rightarrow> int \<Rightarrow> identity option" where
  "identity_of_node db nid = find (\<lambda>c. cr_node c = nid) (identities db)"

definition node_of :: "edb \<Rightarrow> identity \<Rightarrow> enrolled_node option" where
  "node_of db c = find (\<lambda>n. node_id (en_node n) = cr_node c) (enrolled db)"

definition issue_token :: "string \<Rightarrow> time \<Rightarrow> identity \<Rightarrow> identity" where
  "issue_token h now c = c\<lparr>cr_token_hash := Some h, cr_token_expires_at := Some (now + minutes BOOTSTRAP_LIFETIME_MINUTES)\<rparr>"

definition new_identity :: "edb \<Rightarrow> ha_node \<Rightarrow> identity" where
  "new_identity db n =
     \<lparr>cr_id = next_rowid (map cr_id (identities db)), cr_node = node_id n, cr_agent_id = node_public_id n, cr_public_key = None,
      cr_token_hash = None, cr_token_expires_at = None, cr_registered_at = None, cr_revoked_at = None, cr_rotated_at = None\<rparr>"

text \<open>\<open>raw\<close> is the random token; only its digest is stored.\<close>

definition create_bootstrap_token :: "agent_crypto \<Rightarrow> time \<Rightarrow> string \<Rightarrow> ha_node \<Rightarrow> edb \<Rightarrow> edb" where
  "create_bootstrap_token k now raw n db =
     (case identity_of_node db (node_id n) of
        None \<Rightarrow> db\<lparr>identities := identities db @ [issue_token (digest k raw) now (new_identity db n)]\<rparr>
      | Some c \<Rightarrow> update_identity (cr_id c) (issue_token (digest k raw) now) db)"

definition revoked_identity :: "time \<Rightarrow> identity \<Rightarrow> identity" where
  "revoked_identity now c = c\<lparr>cr_revoked_at := Some now, cr_token_hash := None, cr_token_expires_at := None\<rparr>"

definition revoke_agent :: "time \<Rightarrow> ha_node \<Rightarrow> edb \<Rightarrow> enrol_error + edb" where
  "revoke_agent now n db =
     (case identity_of_node db (node_id n) of
        None \<Rightarrow> Inl NoIdentity
      | Some c \<Rightarrow> Inr (update_identity (cr_id c) (revoked_identity now) db))"

record register_payload =
  rp_token :: string
  rp_cluster_id :: string
  rp_node_id :: string
  rp_public_key :: string
  rp_agent_version :: string

definition registered_identity :: "string \<Rightarrow> time \<Rightarrow> identity \<Rightarrow> identity" where
  "registered_identity key now c =
     c\<lparr>cr_public_key := Some key, cr_token_hash := None, cr_token_expires_at := None, cr_registered_at := Some now,
       cr_rotated_at := (if cr_registered_at c \<noteq> None then Some now else None), cr_revoked_at := None\<rparr>"

definition registered_node :: "register_payload \<Rightarrow> string \<Rightarrow> time \<Rightarrow> enrolled_node \<Rightarrow> enrolled_node" where
  "registered_node p aid now n =
     n\<lparr>en_agent_id := Some aid,
       en_node := (en_node n)\<lparr>agent_version := Some (rp_agent_version p), last_heartbeat_at := Some now,
                              last_report_sequence := 0, last_agent_reported_at := None\<rparr>\<rparr>"

definition register_agent :: "agent_crypto \<Rightarrow> time \<Rightarrow> register_payload \<Rightarrow> edb \<Rightarrow> enrol_error + edb" where
  "register_agent k now p db =
     (case find (\<lambda>c. cr_token_hash c = Some (digest k (rp_token p))) (identities db) of
        None \<Rightarrow> Inl BadToken
      | Some c \<Rightarrow>
          if (case cr_token_expires_at c of None \<Rightarrow> True | Some t \<Rightarrow> t < now) then Inl BadToken
          else (case node_of db c of
                  None \<Rightarrow> Inl WrongNode
                | Some n \<Rightarrow>
                    if node_public_id (en_node n) \<noteq> rp_node_id p \<or> en_cluster n \<noteq> rp_cluster_id p \<or> en_cluster_deleted_at n \<noteq> None
                    then Inl WrongNode
                    else (case decode_urlsafe k (rp_public_key p) of
                            None \<Rightarrow> Inl BadEncoding
                          | Some key \<Rightarrow>
                              if length key \<noteq> 32 \<or> \<not> ed25519_key k key then Inl BadKey
                              else if list_ex (\<lambda>d. cr_public_key d = Some (rp_public_key p) \<and> cr_id d \<noteq> cr_id c) (identities db)
                              then Inl KeyInUse
                              else Inr ((update_identity (cr_id c) (registered_identity (rp_public_key p) now) db)
                                     \<lparr>enrolled := map (\<lambda>m. if node_id (en_node m) = node_id (en_node n)
                                                        then registered_node p (cr_agent_id c) now m else m) (enrolled db)\<rparr>))))"

section \<open>Authentication of a request\<close>

record agent_headers =
  h_agent_id :: string
  h_timestamp :: string
  h_request_id :: string
  h_signature :: string
  h_protocol :: string

text \<open>Python's \<open>str.isalnum\<close> on one character up to 255: letters, digits, superscripts and fractions.\<close>

definition is_alnum1 :: "char \<Rightarrow> bool" where
  "is_alnum1 c \<longleftrightarrow> is_upper c \<or> is_lower c \<or> is_digit c \<or>
     (let n = of_char c :: nat in n \<in> {170, 178, 179, 181, 185, 186, 188, 189, 190} \<or> 192 \<le> n \<and> n \<noteq> 215 \<and> n \<noteq> 247)"

definition request_id_char :: "char \<Rightarrow> bool" where
  "request_id_char c \<longleftrightarrow> is_alnum1 c \<or> c \<in> set ''-_.:''"

text \<open>\<open>datetime.fromtimestamp(n, timezone.utc)\<close>: the years 1 to 9999.\<close>

definition fromtimestamp :: "int \<Rightarrow> time option" where
  "fromtimestamp n = (if -62135596800 \<le> n \<and> n \<le> 253402300799 then Some (seconds n) else None)"

text \<open>
  What the first half has established when it waits for the body. The row of the identity was loaded then and is not read again, so
  a revocation that is committed meanwhile is not noticed by this request.
\<close>

record ticket =
  tk_identity :: identity
  tk_request_id :: string
  tk_timestamp :: string
  tk_time :: time
  tk_signature :: string

definition seen_before :: "edb \<Rightarrow> int \<Rightarrow> string \<Rightarrow> bool" where
  "seen_before db cid rid \<longleftrightarrow> list_ex (\<lambda>q. rq_credential q = cid \<and> rq_request_id q = rid) (agent_requests db)"

definition recent_requests :: "edb \<Rightarrow> time \<Rightarrow> int \<Rightarrow> nat" where
  "recent_requests db now cid = length (filter (\<lambda>q. rq_credential q = cid \<and> rq_received_at q \<ge> now - minutes 1) (agent_requests db))"

definition unusable_identity :: "edb \<Rightarrow> identity \<Rightarrow> bool" where
  "unusable_identity db c \<longleftrightarrow> cr_revoked_at c \<noteq> None \<or> cr_public_key c = None \<or> cr_public_key c = Some [] \<or> cr_registered_at c = None \<or>
     (case node_of db c of None \<Rightarrow> True | Some n \<Rightarrow> en_cluster_deleted_at n \<noteq> None)"

definition check_request :: "time \<Rightarrow> agent_headers \<Rightarrow> edb \<Rightarrow> int + ticket" where
  "check_request now h db =
     (let aid = strip1 (h_agent_id h); ts = strip1 (h_timestamp h); rid = strip1 (h_request_id h); sig = strip1 (h_signature h)
      in if aid = [] \<or> ts = [] \<or> rid = [] \<or> sig = [] then Inl 401
         else if strip1 (h_protocol h) \<noteq> str_int AGENT_PROTOCOL_VERSION then Inl 426
         else if length rid > 80 \<or> \<not> list_all request_id_char rid then Inl 400
         else (case find (\<lambda>c. cr_agent_id c = aid) (identities db) of
                 None \<Rightarrow> Inl 401
               | Some c \<Rightarrow>
                   if unusable_identity db c then Inl 401
                   else (case Option.bind (parse_int ts) fromtimestamp of
                           None \<Rightarrow> Inl 400
                         | Some t \<Rightarrow>
                             if \<bar>now - t\<bar> > seconds REQUEST_WINDOW_SECONDS then Inl 401
                             else if seen_before db (cr_id c) rid then Inl 409
                             else if recent_requests db now (cr_id c) \<ge> REQUESTS_PER_MINUTE then Inl 429
                             else Inr \<lparr>tk_identity = c, tk_request_id = rid, tk_timestamp = ts, tk_time = t, tk_signature = sig\<rparr>)))"

definition canonical :: "agent_crypto \<Rightarrow> string \<Rightarrow> string \<Rightarrow> string \<Rightarrow> ticket \<Rightarrow> string" where
  "canonical k verb path body t =
     join [CHR 0x0A] [upper verb, path, tk_request_id t, tk_timestamp t, digest k body]"

definition signature_valid :: "agent_crypto \<Rightarrow> ticket \<Rightarrow> string \<Rightarrow> bool" where
  "signature_valid k t message =
     (case (Option.bind (cr_public_key (tk_identity t)) (decode_urlsafe k), decode_urlsafe k (tk_signature t)) of
        (Some key, Some sig) \<Rightarrow> ed25519_key k key \<and> ed25519_verify k key sig message
      | _ \<Rightarrow> False)"

text \<open>The second half, once the body has arrived. The unique constraint of the table decides between requests that were checked at the same time.\<close>

definition finish_request :: "agent_crypto \<Rightarrow> time \<Rightarrow> string \<Rightarrow> string \<Rightarrow> string \<Rightarrow> ticket \<Rightarrow> edb \<Rightarrow> edb \<times> (int + identity)" where
  "finish_request k now verb path body t db =
     (if int (length body) > MAX_AGENT_BODY_BYTES then (db, Inl 413)
      else if \<not> signature_valid k t (canonical k verb path body t) then (db, Inl 401)
      else if seen_before db (cr_id (tk_identity t)) (tk_request_id t) then (db, Inl 409)
      else (db\<lparr>agent_requests := agent_requests db @
               [\<lparr>rq_credential = cr_id (tk_identity t), rq_request_id = tk_request_id t, rq_timestamp = tk_time t, rq_received_at = now\<rparr>]\<rparr>,
            Inr (tk_identity t)))"

definition authenticate_agent_request ::
  "agent_crypto \<Rightarrow> time \<Rightarrow> agent_headers \<Rightarrow> string \<Rightarrow> string \<Rightarrow> string \<Rightarrow> edb \<Rightarrow> edb \<times> (int + identity)" where
  "authenticate_agent_request k now h verb path body db =
     (case check_request now h db of Inl e \<Rightarrow> (db, Inl e) | Inr t \<Rightarrow> finish_request k now verb path body t db)"

definition prune_agent_request_history :: "time \<Rightarrow> edb \<Rightarrow> edb \<times> int" where
  "prune_agent_request_history now db =
     (let kept = filter (\<lambda>q. rq_received_at q \<ge> now - minutes (24 * 60)) (agent_requests db)
      in (db\<lparr>agent_requests := kept\<rparr>, int (length (agent_requests db)) - int (length kept)))"

end
