(* ===== verification/HA_Enrolment_Props.thy ===== *)
theory HA_Enrolment_Props
  imports HA_Enrolment
begin

text \<open>
  Agents, administrators and the clean-up job in any order. A request is in flight between its two halves, and other requests may be
  checked and stored meanwhile. The replay table forgets a request after a day; the results below show that this is long enough.
\<close>

section \<open>Histories\<close>

text \<open>An accepted request: the identity, the text that was signed, the identifier and timestamp in it, and when it was accepted.\<close>

record acceptance =
  ac_credential :: int
  ac_message :: string
  ac_request_id :: string
  ac_time :: time
  ac_at :: time

definition accept_log :: "agent_crypto \<Rightarrow> time \<Rightarrow> string \<Rightarrow> string \<Rightarrow> string \<Rightarrow> ticket \<Rightarrow> int + identity \<Rightarrow> acceptance list" where
  "accept_log k now verb path body t res =
     (case res of
        Inl e \<Rightarrow> []
      | Inr i \<Rightarrow> [\<lparr>ac_credential = cr_id i, ac_message = canonical k verb path body t, ac_request_id = tk_request_id t,
                  ac_time = tk_time t, ac_at = now\<rparr>])"

text \<open>How long the server waits for the body of a request that it has checked: anything up to a day less ten minutes will do.\<close>

definition body_timeout :: time where
  "body_timeout = minutes (24 * 60) - 2 * seconds REQUEST_WINDOW_SECONDS"

inductive agent_run :: "agent_crypto \<Rightarrow> time \<Rightarrow> edb \<Rightarrow> (ticket \<times> time) list \<Rightarrow> acceptance list \<Rightarrow> bool" for k where
  Begin: "agent_requests db = [] \<Longrightarrow> agent_run k now db [] []"
| Token: "\<lbrakk>agent_run k now db flight log; now \<le> now'\<rbrakk> \<Longrightarrow> agent_run k now' (create_bootstrap_token k now' raw n db) flight log"
| Revoke: "\<lbrakk>agent_run k now db flight log; now \<le> now'; revoke_agent now' n db = Inr db'\<rbrakk> \<Longrightarrow> agent_run k now' db' flight log"
| Register: "\<lbrakk>agent_run k now db flight log; now \<le> now'; register_agent k now' p db = Inr db'\<rbrakk> \<Longrightarrow> agent_run k now' db' flight log"
| Check: "\<lbrakk>agent_run k now db flight log; now \<le> now'; check_request now' h db = Inr t\<rbrakk> \<Longrightarrow> agent_run k now' db ((t, now') # flight) log"
| Finish: "\<lbrakk>agent_run k now db flight log; now \<le> now'; (t, checked) \<in> set flight; now' \<le> checked + body_timeout;
    finish_request k now' verb path body t db = (db', res)\<rbrakk> \<Longrightarrow>
    agent_run k now' db' (remove1 (t, checked) flight) (accept_log k now' verb path body t res @ log)"
| Abandon: "agent_run k now db flight log \<Longrightarrow> agent_run k now db (remove1 x flight) log"
| Prune: "\<lbrakk>agent_run k now db flight log; now \<le> now'\<rbrakk> \<Longrightarrow> agent_run k now' (fst (prune_agent_request_history now' db)) flight log"

section \<open>The signed text determines the request\<close>

lemma last_separator:
  assumes "x \<notin> set b" "x \<notin> set b'" "a @ x # b = a' @ x # b'"
  shows "a = a' \<and> b = b'"
proof -
  have "rev b @ x # rev a = rev b' @ x # rev a'" using assms(3) by (metis append.assoc append_Cons append_Nil rev.simps(2) rev_append rev_rev_ident)
  moreover have "takeWhile (\<lambda>y. y \<noteq> x) (rev c @ x # d) = rev c" if "x \<notin> set c" for c d
    using that by (subst takeWhile_append2) auto
  ultimately have "rev b = rev b'" using assms(1,2) by metis
  then show ?thesis using assms(3) by simp
qed

lemma scan_digits_chars: "scan_digits b acc s = Some n \<Longrightarrow> c \<in> set s \<Longrightarrow> is_digit c \<or> c = CHR ''_''"
  by (induction b acc s rule: scan_digits.induct) (auto split: if_splits)

lemma strip_chars_stripped:
  assumes "\<And>c. q c \<Longrightarrow> p c"
  shows "strip_chars q (strip_chars p s) = strip_chars p s"
proof -
  let ?u = "strip_chars p s"
  have hd: "?u \<noteq> [] \<Longrightarrow> \<not> p (last ?u)"
    using hd_dropWhile [of p "rev (dropWhile p s)"] by (auto simp: strip_chars_def last_rev)
  have "?u \<noteq> [] \<Longrightarrow> \<not> p (hd ?u)"
  proof -
    assume ne: "?u \<noteq> []"
    have "\<exists>v. dropWhile p s = ?u @ v"
      by (metis strip_chars_def rev_append rev_rev_ident takeWhile_dropWhile_id)
    then obtain v where v: "dropWhile p s = ?u @ v" by blast
    then have "hd (dropWhile p s) = hd ?u" "dropWhile p s \<noteq> []" using ne by auto
    then show ?thesis using hd_dropWhile [of p s] by simp
  qed
  then have d1: "dropWhile q ?u = ?u" using assms by (cases ?u) auto
  have "dropWhile q (rev ?u) = rev ?u" using hd assms by (cases "?u" rule: rev_cases) auto
  then show ?thesis by (simp add: strip_chars_def [of q] d1)
qed

lemma strip_strip1: "strip (strip1 s) = strip1 s"
  using strip_chars_stripped [of is_space is_space1 s] by (simp add: strip_chars_def strip_def is_space1_def)

lemma timestamp_chars:
  assumes "parse_int (strip1 s) = Some n" "c \<in> set (strip1 s)"
  shows "is_digit c \<or> c \<in> set ''_+-''"
  using assms by (auto simp: parse_int_def strip_strip1 split: list.splits if_splits dest: scan_digits_chars)

definition one_line :: "ticket \<Rightarrow> bool" where
  "one_line t \<longleftrightarrow> CHR 0x0A \<notin> set (tk_request_id t) \<and> CHR 0x0A \<notin> set (tk_timestamp t) \<and>
     Option.bind (parse_int (tk_timestamp t)) fromtimestamp = Some (tk_time t)"

lemma canonical_determines:
  assumes d: "\<And>b. CHR 0x0A \<notin> set (digest k b)" and t: "one_line t" and u: "one_line u"
    and e: "canonical k m p b t = canonical k m' p' b' u"
  shows "tk_request_id t = tk_request_id u \<and> tk_time t = tk_time u"
proof -
  have "(upper m @ CHR 0x0A # p @ CHR 0x0A # tk_request_id t @ CHR 0x0A # tk_timestamp t) @ CHR 0x0A # digest k b =
    (upper m' @ CHR 0x0A # p' @ CHR 0x0A # tk_request_id u @ CHR 0x0A # tk_timestamp u) @ CHR 0x0A # digest k b'"
    using e by (simp add: canonical_def)
  from last_separator [OF d d this]
  have "(upper m @ CHR 0x0A # p @ CHR 0x0A # tk_request_id t) @ CHR 0x0A # tk_timestamp t =
    (upper m' @ CHR 0x0A # p' @ CHR 0x0A # tk_request_id u) @ CHR 0x0A # tk_timestamp u" by simp
  from last_separator [OF _ _ this] t u
  have 1: "tk_timestamp t = tk_timestamp u"
    and "(upper m @ CHR 0x0A # p) @ CHR 0x0A # tk_request_id t = (upper m' @ CHR 0x0A # p') @ CHR 0x0A # tk_request_id u"
    by (simp_all add: one_line_def)
  from last_separator [OF _ _ this(2)] t u have "tk_request_id t = tk_request_id u" by (simp add: one_line_def)
  with 1 t u show ?thesis by (simp add: one_line_def)
qed

section \<open>The invariant\<close>

definition request_row :: "edb \<Rightarrow> acceptance \<Rightarrow> bool" where
  "request_row db e \<longleftrightarrow> (\<exists>q \<in> set (agent_requests db). rq_credential q = ac_credential e \<and> rq_request_id q = ac_request_id e \<and>
     rq_received_at q = ac_at e)"

definition flight_ok :: "time \<Rightarrow> ticket \<times> time \<Rightarrow> bool" where
  "flight_ok now x \<longleftrightarrow> one_line (fst x) \<and> \<bar>snd x - tk_time (fst x)\<bar> \<le> seconds REQUEST_WINDOW_SECONDS \<and> snd x \<le> now"

definition log_ok :: "agent_crypto \<Rightarrow> time \<Rightarrow> edb \<Rightarrow> acceptance \<Rightarrow> bool" where
  "log_ok k now db e \<longleftrightarrow> ac_at e \<le> now \<and> ac_time e - seconds REQUEST_WINDOW_SECONDS \<le> ac_at e \<and>
     (ac_at e + minutes (24 * 60) < now \<or> request_row db e) \<and>
     (\<exists>t m p b. one_line t \<and> ac_message e = canonical k m p b t \<and> ac_request_id e = tk_request_id t \<and> ac_time e = tk_time t)"

definition run_ok :: "agent_crypto \<Rightarrow> time \<Rightarrow> edb \<Rightarrow> (ticket \<times> time) list \<Rightarrow> acceptance list \<Rightarrow> bool" where
  "run_ok k now db flight log \<longleftrightarrow> (\<forall>x \<in> set flight. flight_ok now x) \<and> (\<forall>e \<in> set log. log_ok k now db e) \<and>
     distinct (map (\<lambda>e. (ac_credential e, ac_message e)) log)"

lemma flight_ok_later: "flight_ok now x \<Longrightarrow> now \<le> now' \<Longrightarrow> flight_ok now' x"
  by (auto simp: flight_ok_def)

lemma log_ok_later:
  assumes "log_ok k now db e" "now \<le> now'" "request_row db e \<Longrightarrow> ac_at e + minutes (24 * 60) < now' \<or> request_row db' e"
  shows "log_ok k now' db' e"
  using assms unfolding log_ok_def by fastforce

lemma run_ok_later:
  assumes "run_ok k now db flight log" "now \<le> now'" "set flight' \<subseteq> set flight"
    "\<And>e. request_row db e \<Longrightarrow> ac_at e + minutes (24 * 60) < now' \<or> request_row db' e"
  shows "run_ok k now' db' flight' log"
  unfolding run_ok_def
proof (intro conjI ballI)
  fix x assume "x \<in> set flight'"
  then show "flight_ok now' x" using assms flight_ok_later unfolding run_ok_def by blast
next
  fix e assume "e \<in> set log"
  then have "log_ok k now db e" using assms(1) by (simp add: run_ok_def)
  then show "log_ok k now' db' e" using assms(2,4) by (rule log_ok_later)
next
  show "distinct (map (\<lambda>e. (ac_credential e, ac_message e)) log)" using assms(1) by (simp add: run_ok_def)
qed

lemma requests_unchanged:
  "agent_requests (create_bootstrap_token k now raw n db) = agent_requests db"
  "revoke_agent now n db = Inr db' \<Longrightarrow> agent_requests db' = agent_requests db"
  "register_agent k now p db = Inr db' \<Longrightarrow> agent_requests db' = agent_requests db"
  by (auto simp: create_bootstrap_token_def revoke_agent_def register_agent_def update_identity_def split: option.splits if_splits)

lemma check_request_ticket:
  assumes "check_request now h db = Inr t"
  shows "flight_ok now (t, now)"
proof -
  have nl: "\<not> request_id_char (CHR 0x0A)" "\<not> is_digit (CHR 0x0A)"
    by (simp_all add: request_id_char_def is_alnum1_def is_upper_def is_lower_def is_digit_def)
  show ?thesis
    using assms timestamp_chars [of "h_timestamp h" _ "CHR 0x0A"] nl
    unfolding check_request_def Let_def flight_ok_def one_line_def
    by (auto split: if_splits option.splits simp: list_all_iff Option.bind_eq_Some_conv)
qed

lemma finish_request_accepts:
  assumes "finish_request k now m p b t db = (db', Inr i)"
  shows "i = tk_identity t \<and> \<not> seen_before db (cr_id i) (tk_request_id t) \<and> signature_valid k t (canonical k m p b t) \<and>
    agent_requests db' = agent_requests db @
      [\<lparr>rq_credential = cr_id i, rq_request_id = tk_request_id t, rq_timestamp = tk_time t, rq_received_at = now\<rparr>]"
  using assms by (auto simp: finish_request_def split: if_splits)

lemma finish_request_refuses: "finish_request k now m p b t db = (db', Inl e) \<Longrightarrow> db' = db"
  by (auto simp: finish_request_def split: if_splits)

lemma accepted_request_is_new:
  assumes ok: "run_ok k now db flight log" and le: "now \<le> now'" and fl: "(t, checked) \<in> set flight" and quick: "now' \<le> checked + body_timeout"
    and fin: "finish_request k now' m p b t db = (db', Inr i)" and d: "\<And>b. CHR 0x0A \<notin> set (digest k b)" and e: "e \<in> set log"
  shows "(ac_credential e, ac_message e) \<noteq> (cr_id i, canonical k m p b t)"
proof
  assume same: "(ac_credential e, ac_message e) = (cr_id i, canonical k m p b t)"
  have f: "flight_ok now (t, checked)" and l: "log_ok k now db e" using ok fl e by (auto simp: run_ok_def)
  then obtain u m' p' b' where u: "one_line u" "ac_message e = canonical k m' p' b' u" "ac_request_id e = tk_request_id u" "ac_time e = tk_time u"
    by (auto simp: log_ok_def)
  have eq: "tk_request_id t = tk_request_id u \<and> tk_time t = tk_time u"
    using canonical_determines [OF d _ u(1), of t m p b m' p' b'] same u(2) f by (simp add: flight_ok_def)
  have "\<not> request_row db e"
    using finish_request_accepts [OF fin] same eq u(3) by (auto simp: request_row_def seen_before_def list_ex_iff)
  then have "ac_at e + minutes (24 * 60) < now" "tk_time t - seconds REQUEST_WINDOW_SECONDS \<le> ac_at e"
    using l eq u(4) by (auto simp: log_ok_def)
  moreover have "checked \<le> tk_time t + seconds REQUEST_WINDOW_SECONDS" using f by (auto simp: flight_ok_def)
  ultimately show False using quick le by (simp add: body_timeout_def)
qed

lemma run_ok_finish:
  assumes ok: "run_ok k now db flight log" and le: "now \<le> now'" and fl: "(t, checked) \<in> set flight" and quick: "now' \<le> checked + body_timeout"
    and fin: "finish_request k now' m p b t db = (db', res)" and d: "\<And>b. CHR 0x0A \<notin> set (digest k b)"
  shows "run_ok k now' db' (remove1 (t, checked) flight) (accept_log k now' m p b t res @ log)"
proof (cases res)
  case (Inl e)
  then have same: "db' = db" using fin finish_request_refuses by blast
  show ?thesis using run_ok_later [OF ok le set_remove1_subset] by (simp add: accept_log_def Inl same)
next
  case (Inr i)
  note fin' = fin [unfolded Inr]
  note acc = finish_request_accepts [OF fin']
  let ?e = "\<lparr>ac_credential = cr_id i, ac_message = canonical k m p b t, ac_request_id = tk_request_id t, ac_time = tk_time t, ac_at = now'\<rparr>"
  have old: "run_ok k now' db' (remove1 (t, checked) flight) log"
    by (rule run_ok_later [OF ok le set_remove1_subset]) (auto simp: request_row_def acc)
  have f: "flight_ok now (t, checked)" using ok fl by (auto simp: run_ok_def)
  have "log_ok k now' db' ?e"
    using f le unfolding log_ok_def flight_ok_def by (auto simp: request_row_def acc)
  moreover have "(cr_id i, canonical k m p b t) \<notin> set (map (\<lambda>e. (ac_credential e, ac_message e)) log)"
    using accepted_request_is_new [OF ok le fl quick fin' d] by fastforce
  ultimately show ?thesis using old by (simp add: run_ok_def accept_log_def Inr)
qed

lemma run_ok_prune:
  assumes "run_ok k now db flight log" "now \<le> now'"
  shows "run_ok k now' (fst (prune_agent_request_history now' db)) flight log"
  using assms by (rule run_ok_later) (fastforce simp: request_row_def prune_agent_request_history_def Let_def)+

lemma agent_run_ok:
  assumes "agent_run k now db flight log" "\<And>b. CHR 0x0A \<notin> set (digest k b)"
  shows "run_ok k now db flight log"
  using assms(1)
proof (induction rule: agent_run.induct)
  case (Check now db flight log now' h t)
  have "run_ok k now' db flight log" by (rule run_ok_later [OF Check(4) Check(2)]) auto
  then show ?case using check_request_ticket [OF Check(3)] by (simp add: run_ok_def)
next
  case (Finish now db flight log now' t checked verb path body db' res)
  show ?case by (rule run_ok_finish [OF Finish(6) Finish(2-5) assms(2)])
next
  case (Prune now db flight log now')
  show ?case by (rule run_ok_prune [OF Prune(3,2)])
next
  case (Abandon now db flight log x)
  show ?case by (rule run_ok_later [OF Abandon(2) order_refl set_remove1_subset]) auto
next
  case (Token now db flight log now' raw n)
  show ?case by (rule run_ok_later [OF Token(3,2) order_refl]) (simp add: request_row_def requests_unchanged(1))
next
  case (Revoke now db flight log now' n db')
  show ?case by (rule run_ok_later [OF Revoke(4,2) order_refl]) (simp add: request_row_def requests_unchanged(2) [OF Revoke(3)])
next
  case (Register now db flight log now' p db')
  show ?case by (rule run_ok_later [OF Register(4,2) order_refl]) (simp add: request_row_def requests_unchanged(3) [OF Register(3)])
qed (simp add: run_ok_def)

lemma filter_at_most_one:
  assumes "length (filter P xs) \<le> 1" "x \<in> set xs" "P x" "y \<in> set xs" "P y"
  shows "x = y"
proof -
  have "x \<in> set (filter P xs)" "y \<in> set (filter P xs)" using assms by auto
  then show ?thesis using assms(1) by (cases "filter P xs") auto
qed

section \<open>Revocation\<close>

text \<open>Everything but an administrator who issues a new token.\<close>

inductive unattended :: "agent_crypto \<Rightarrow> edb \<Rightarrow> edb \<Rightarrow> bool" for k where
  Revoked: "revoke_agent now n db = Inr db' \<Longrightarrow> unattended k db db'"
| Registered: "register_agent k now p db = Inr db' \<Longrightarrow> unattended k db db'"
| Requested: "finish_request k now verb path body t db = (db', res) \<Longrightarrow> unattended k db db'"
| Pruned: "unattended k db (fst (prune_agent_request_history now db))"

definition locked_out :: "identity \<Rightarrow> bool" where
  "locked_out c \<longleftrightarrow> cr_revoked_at c \<noteq> None \<and> cr_token_hash c = None"

definition agent_revoked :: "edb \<Rightarrow> string \<Rightarrow> bool" where
  "agent_revoked db aid \<longleftrightarrow> list_all (\<lambda>c. cr_agent_id c = aid \<longrightarrow> locked_out c) (identities db)"

definition agent_usable :: "edb \<Rightarrow> time \<Rightarrow> string \<Rightarrow> bool" where
  "agent_usable db now aid \<longleftrightarrow> (\<exists>h t. strip1 (h_agent_id h) = aid \<and> check_request now h db = Inr t)"

lemma identities_requests [simp]:
  "finish_request k now m p b t db = (db', res) \<Longrightarrow> identities db' = identities db"
  by (auto simp: finish_request_def split: if_splits)

lemma agent_revoked_update:
  assumes "agent_revoked db aid" "\<And>c. c \<in> set (identities db) \<Longrightarrow> cr_id c = cid \<Longrightarrow> cr_agent_id (f c) = cr_agent_id c \<and> (locked_out c \<longrightarrow> locked_out (f c))"
  shows "agent_revoked (update_identity cid f db) aid"
  using assms by (auto simp: agent_revoked_def update_identity_def list_all_iff)

lemma agent_revoked_step:
  assumes "unattended k db db'" "agent_revoked db aid" "distinct (map cr_id (identities db))"
  shows "agent_revoked db' aid"
  using assms(1)
proof cases
  case (Revoked now n)
  then show ?thesis
    using agent_revoked_update [OF assms(2)] by (auto simp: revoke_agent_def revoked_identity_def locked_out_def split: option.splits)
next
  case (Registered now p)
  then obtain c where c: "c \<in> set (identities db)" "cr_token_hash c \<noteq> None"
    and db': "identities db' = identities (update_identity (cr_id c) (registered_identity (rp_public_key p) now) db)"
    by (auto simp: register_agent_def split: option.splits if_splits dest!: find_SomeD)
  have "d = c" if "d \<in> set (identities db)" "cr_id d = cr_id c" for d
    using that c(1) assms(3) by (simp add: distinct_map inj_on_def)
  then have "agent_revoked (update_identity (cr_id c) (registered_identity (rp_public_key p) now) db) aid"
    using c(2) by (intro agent_revoked_update [OF assms(2)]) (auto simp: registered_identity_def locked_out_def)
  then show ?thesis by (simp add: agent_revoked_def db')
qed (use assms(2) in \<open>auto simp: agent_revoked_def prune_agent_request_history_def Let_def\<close>)

lemma identity_keys_kept:
  assumes "unattended k db db'"
  shows "map cr_id (identities db') = map cr_id (identities db)"
  using assms
proof cases
  case (Registered now p)
  then show ?thesis
    by (auto simp: register_agent_def update_identity_def registered_identity_def split: option.splits if_splits)
next
  case (Revoked now n)
  then show ?thesis
    by (auto simp: revoke_agent_def update_identity_def revoked_identity_def split: option.splits)
qed (auto simp: prune_agent_request_history_def Let_def)

definition agent_closed :: "edb \<Rightarrow> string \<Rightarrow> bool" where
  "agent_closed db aid \<longleftrightarrow> distinct (map cr_id (identities db)) \<and> agent_revoked db aid"

interpretation agent: closable "unattended k" agent_closed agent_usable for k
proof unfold_locales
  fix db db' aid
  assume "unattended k db db'" "agent_closed db aid"
  then show "agent_closed db' aid"
    using agent_revoked_step identity_keys_kept by (simp add: agent_closed_def)
next
  fix db aid t
  assume "agent_closed db aid"
  then show "\<not> agent_usable db t aid"
    by (auto simp: agent_closed_def agent_usable_def check_request_def agent_revoked_def list_all_iff locked_out_def unusable_identity_def Let_def
        split: if_splits option.splits dest!: find_SomeD)
qed

text \<open>A bootstrap token is spent when no identity holds its digest.\<close>

definition token_spent :: "edb \<Rightarrow> string \<Rightarrow> bool" where
  "token_spent db h \<longleftrightarrow> list_all (\<lambda>c. cr_token_hash c \<noteq> Some h) (identities db)"

definition token_usable :: "agent_crypto \<Rightarrow> edb \<Rightarrow> time \<Rightarrow> string \<Rightarrow> bool" where
  "token_usable k db now h \<longleftrightarrow> (\<exists>p db'. digest k (rp_token p) = h \<and> register_agent k now p db = Inr db')"

interpretation token: closable "unattended k" token_spent "token_usable k" for k
proof unfold_locales
  fix db db' h
  assume step: "unattended k db db'" and spent: "token_spent db h"
  have none: "token_spent (update_identity cid f db) h" if "\<And>c. cr_token_hash (f c) = None" for cid f
    using spent that by (auto simp: token_spent_def update_identity_def list_all_iff)
  from step show "token_spent db' h"
  proof cases
    case (Registered now p)
    then show ?thesis
      using none [of "registered_identity (rp_public_key p) now"] by (auto simp: register_agent_def registered_identity_def token_spent_def split: option.splits if_splits)
  next
    case (Revoked now n)
    then show ?thesis
      using none [of "revoked_identity now"] by (auto simp: revoke_agent_def revoked_identity_def split: option.splits)
  qed (use spent in \<open>auto simp: token_spent_def prune_agent_request_history_def Let_def\<close>)
next
  fix db h t
  assume "token_spent db h"
  then show "\<not> token_usable k db t h"
    by (auto simp: token_spent_def token_usable_def list_all_iff register_agent_def split: option.splits dest!: find_SomeD)
qed

section \<open>A reference agent\<close>

definition demo_agent_crypto :: agent_crypto where
  "demo_agent_crypto = \<lparr>digest = filter (\<lambda>c. c \<noteq> CHR 0x0A), decode_urlsafe = Some, ed25519_key = (\<lambda>_. True),
     ed25519_verify = (\<lambda>key sig message. sig = ''signed'')\<rparr>"

definition demo_node :: ha_node where
  "demo_node = serving_node 1 ''node-1'' 0"

definition unenrolled :: edb where
  "unenrolled = \<lparr>identities = [], agent_requests = [],
     enrolled = [\<lparr>en_node = demo_node, en_agent_id = None, en_cluster = ''cluster-1'', en_cluster_deleted_at = None\<rparr>]\<rparr>"

definition invited :: edb where
  "invited = create_bootstrap_token demo_agent_crypto 0 ''secret'' demo_node unenrolled"

definition demo_payload :: register_payload where
  "demo_payload = \<lparr>rp_token = ''secret'', rp_cluster_id = ''cluster-1'', rp_node_id = node_public_id demo_node,
     rp_public_key = replicate 32 (CHR ''k''), rp_agent_version = ''1.0.0''\<rparr>"

definition joined :: edb where
  "joined = (case register_agent demo_agent_crypto (seconds 9) demo_payload invited of Inl e \<Rightarrow> invited | Inr db \<Rightarrow> db)"

definition demo_headers :: agent_headers where
  "demo_headers = \<lparr>h_agent_id = node_public_id demo_node, h_timestamp = ''10'', h_request_id = ''r-1'', h_signature = ''signed'', h_protocol = ''1''\<rparr>"

definition demo_ticket :: ticket where
  "demo_ticket = (case check_request (seconds 10) demo_headers joined of Inr t \<Rightarrow> t)"

lemma demo_joins: "register_agent demo_agent_crypto (seconds 9) demo_payload invited = Inr joined"
proof -
  have "isl (register_agent demo_agent_crypto (seconds 9) demo_payload invited) = False" by code_simp
  then show ?thesis by (cases "register_agent demo_agent_crypto (seconds 9) demo_payload invited") (simp_all add: joined_def)
qed

lemma demo_checked: "check_request (seconds 10) demo_headers joined = Inr demo_ticket"
proof -
  have "isl (check_request (seconds 10) demo_headers joined) = False" by code_simp
  then show ?thesis by (cases "check_request (seconds 10) demo_headers joined") (simp_all add: demo_ticket_def)
qed

section \<open>Results\<close>

text \<open>
  C17. Replays are refused. However the two halves of requests, registrations, revocations and the daily clean-up of the replay table
  interleave, no signed text is accepted twice on behalf of the same identity, provided that a body arrives within a day less ten
  minutes of the check of its headers, and that a digest contains no line break.
\<close>

theorem replays_are_refused:
  assumes "agent_run k now db flight log" "\<And>b. CHR 0x0A \<notin> set (digest k b)"
  shows "distinct (map (\<lambda>e. (ac_credential e, ac_message e)) log)"
  using agent_run_ok [OF assms] by (simp add: run_ok_def)

theorem replays_are_refused_witness:
  "distinct (map (\<lambda>e. (ac_credential e, ac_message e))
     (accept_log demo_agent_crypto (seconds 11) ''post'' ''/hb'' ''{}'' demo_ticket
        (snd (finish_request demo_agent_crypto (seconds 11) ''post'' ''/hb'' ''{}'' demo_ticket joined)) @ [])) \<and>
   \<not> isl (snd (finish_request demo_agent_crypto (seconds 11) ''post'' ''/hb'' ''{}'' demo_ticket joined))"
proof -
  have "agent_run demo_agent_crypto 0 unenrolled [] []" by (rule Begin) (simp add: unenrolled_def)
  then have "agent_run demo_agent_crypto 0 invited [] []" unfolding invited_def by (rule Token) simp
  then have "agent_run demo_agent_crypto (seconds 9) joined [] []" by (rule Register [OF _ _ demo_joins]) simp
  then have "agent_run demo_agent_crypto (seconds 10) joined [(demo_ticket, seconds 10)] []" by (rule Check [OF _ _ demo_checked]) simp
  from Finish [OF this, of "seconds 11" demo_ticket "seconds 10" "''post''" "''/hb''" "''{}''"]
  have "agent_run demo_agent_crypto (seconds 11) (fst (finish_request demo_agent_crypto (seconds 11) ''post'' ''/hb'' ''{}'' demo_ticket joined))
      (remove1 (demo_ticket, seconds 10) [(demo_ticket, seconds 10)])
      (accept_log demo_agent_crypto (seconds 11) ''post'' ''/hb'' ''{}'' demo_ticket
        (snd (finish_request demo_agent_crypto (seconds 11) ''post'' ''/hb'' ''{}'' demo_ticket joined)) @ [])"
    by (simp add: body_timeout_def REQUEST_WINDOW_SECONDS_def minutes_def seconds_def)
  moreover have "\<not> isl (snd (finish_request demo_agent_crypto (seconds 11) ''post'' ''/hb'' ''{}'' demo_ticket joined))" by code_simp
  ultimately show ?thesis
    using replays_are_refused [of demo_agent_crypto] by (simp add: demo_agent_crypto_def)
qed

text \<open>
  Accepted requests are signed. A request is accepted only on behalf of a stored identity that is registered and not revoked, whose
  key verifies the signature over method, path, request identifier, timestamp and the digest of the body; its timestamp lies within five minutes of the clock, and
  with it at most 120 requests of the identity were stored in the last minute.
\<close>

theorem accepted_requests_are_signed:
  assumes "authenticate_agent_request k now h verb path body db = (db', Inr i)"
  shows "i \<in> set (identities db) \<and> cr_agent_id i = strip1 (h_agent_id h) \<and> cr_registered_at i \<noteq> None \<and> cr_revoked_at i = None \<and>
    (\<exists>key sig. Option.bind (cr_public_key i) (decode_urlsafe k) = Some key \<and> decode_urlsafe k (strip1 (h_signature h)) = Some sig \<and>
       ed25519_verify k key sig (join [CHR 0x0A] [upper verb, path, strip1 (h_request_id h), strip1 (h_timestamp h), digest k body])) \<and>
    (\<exists>n. parse_int (strip1 (h_timestamp h)) = Some n \<and> \<bar>now - seconds n\<bar> \<le> seconds 300) \<and>
    recent_requests db' now (cr_id i) \<le> 120"
proof -
  obtain t where t: "check_request now h db = Inr t" and f: "finish_request k now verb path body t db = (db', Inr i)"
    using assms by (auto simp: authenticate_agent_request_def split: sum.splits)
  note acc = finish_request_accepts [OF f]
  have r: "tk_request_id t = strip1 (h_request_id h)" "tk_timestamp t = strip1 (h_timestamp h)" "tk_signature t = strip1 (h_signature h)"
    and c: "i \<in> set (identities db)" "cr_agent_id i = strip1 (h_agent_id h)" "\<not> unusable_identity db i"
    and n: "recent_requests db now (cr_id i) < REQUESTS_PER_MINUTE"
    using t acc by (auto simp: check_request_def Let_def split: if_splits option.splits dest!: find_SomeD)
  have w: "flight_ok now (t, now)" by (rule check_request_ticket [OF t])
  have "recent_requests db' now (cr_id i) = recent_requests db now (cr_id i) + 1"
    by (simp add: recent_requests_def acc minutes_def)
  then have recent: "recent_requests db' now (cr_id i) \<le> 120" using n by (simp add: REQUESTS_PER_MINUTE_def)
  have "\<exists>m. parse_int (strip1 (h_timestamp h)) = Some m \<and> fromtimestamp m = Some (tk_time t)"
    using w r(2) by (simp add: flight_ok_def one_line_def Option.bind_eq_Some_conv)
  moreover have "\<bar>now - tk_time t\<bar> \<le> seconds 300" using w by (simp add: flight_ok_def REQUEST_WINDOW_SECONDS_def)
  ultimately have time: "\<exists>m. parse_int (strip1 (h_timestamp h)) = Some m \<and> \<bar>now - seconds m\<bar> \<le> seconds 300"
    by (auto simp: fromtimestamp_def split: if_splits)
  have "signature_valid k t (canonical k verb path body t)" and i: "i = tk_identity t" using acc by simp_all
  then obtain key sig where "Option.bind (cr_public_key i) (decode_urlsafe k) = Some key" "decode_urlsafe k (tk_signature t) = Some sig"
      "ed25519_verify k key sig (canonical k verb path body t)"
    unfolding signature_valid_def by (cases "Option.bind (cr_public_key i) (decode_urlsafe k)"; cases "decode_urlsafe k (tk_signature t)") auto
  then have signed: "\<exists>key sig. Option.bind (cr_public_key i) (decode_urlsafe k) = Some key \<and> decode_urlsafe k (strip1 (h_signature h)) = Some sig \<and>
      ed25519_verify k key sig (join [CHR 0x0A] [upper verb, path, strip1 (h_request_id h), strip1 (h_timestamp h), digest k body])"
    unfolding canonical_def r by blast
  have "cr_registered_at i \<noteq> None" "cr_revoked_at i = None" using c(3) by (simp_all add: unusable_identity_def)
  then show ?thesis using c(1,2) signed time recent by blast
qed

theorem accepted_requests_are_signed_witness:
  "ed25519_verify demo_agent_crypto (replicate 32 (CHR ''k'')) ''signed''
     (join [CHR 0x0A] [''POST'', ''/hb'', ''r-1'', ''10'', digest demo_agent_crypto ''{}''])"
proof -
  let ?r = "authenticate_agent_request demo_agent_crypto (seconds 11) demo_headers ''post'' ''/hb'' ''{}'' joined"
  have "\<not> isl (snd ?r) \<and> (case snd ?r of Inr i \<Rightarrow> cr_public_key i = Some (replicate 32 (CHR ''k'')))" by code_simp
  then obtain i where i: "snd ?r = Inr i" "cr_public_key i = Some (replicate 32 (CHR ''k''))" by (auto split: sum.splits)
  have h: "strip1 (h_signature demo_headers) = ''signed''" "strip1 (h_request_id demo_headers) = ''r-1''"
    "strip1 (h_timestamp demo_headers) = ''10''" "upper ''post'' = ''POST''" by code_simp+
  have "authenticate_agent_request demo_agent_crypto (seconds 11) demo_headers ''post'' ''/hb'' ''{}'' joined = (fst ?r, Inr i)"
    using i(1) by (metis prod.collapse)
  from accepted_requests_are_signed [OF this] show ?thesis
    unfolding h i(2) by (auto simp: demo_agent_crypto_def)
qed

text \<open>
  A revoked agent stays out. After an administrator has revoked the identity of a node, no request of its agent passes the checks, and no
  registration changes that, until an administrator issues a new token.
\<close>

theorem revoked_agent_stays_out:
  assumes "revoke_agent t0 n db = Inr db1" "identity_of_node db (node_id n) = Some c" "distinct (map cr_id (identities db))"
    "distinct (map cr_agent_id (identities db))" "(unattended k)\<^sup>*\<^sup>* db1 db2"
  shows "\<not> agent_usable db2 now (cr_agent_id c)"
proof -
  have db1: "db1 = update_identity (cr_id c) (revoked_identity t0) db" using assms(1,2) by (simp add: revoke_agent_def)
  have "c \<in> set (identities db)" using assms(2) by (auto simp: identity_of_node_def dest: find_SomeD)
  then have "cr_id d = cr_id c" if "d \<in> set (identities db)" "cr_agent_id d = cr_agent_id c" for d
    using that assms(4) by (metis (mono_tags) distinct_map inj_on_def)
  then have "agent_revoked db1 (cr_agent_id c)"
    by (auto simp: agent_revoked_def db1 update_identity_def list_all_iff revoked_identity_def locked_out_def)
  moreover have "distinct (map cr_id (identities db1))"
    using assms(3) identity_keys_kept [OF Revoked [OF assms(1)]] by simp
  ultimately show ?thesis using agent.closed_for_good [OF assms(5)] by (simp add: agent_closed_def)
qed

theorem revoked_agent_stays_out_witness:
  "\<not> agent_usable (update_identity 1 (revoked_identity (seconds 20)) joined) (seconds 21) (node_public_id demo_node)"
proof -
  have c: "map_option (\<lambda>c. (cr_id c, cr_agent_id c)) (identity_of_node joined (node_id demo_node)) = Some (1, node_public_id demo_node)" by code_simp
  then obtain c where c: "identity_of_node joined (node_id demo_node) = Some c" "cr_id c = 1" "cr_agent_id c = node_public_id demo_node" by auto
  then have r: "revoke_agent (seconds 20) demo_node joined = Inr (update_identity 1 (revoked_identity (seconds 20)) joined)" by (simp add: revoke_agent_def)
  have "distinct (map cr_id (identities joined))" "distinct (map cr_agent_id (identities joined))" by code_simp+
  from revoked_agent_stays_out [OF r c(1) this rtranclp.rtrancl_refl] show ?thesis by (simp add: c(3))
qed

text \<open>
  A bootstrap token works once. After a registration the token registers nothing any more, in particular no second key, whatever registrations, revocations and
  requests follow, unless an administrator issues the same token again. No two identities hold the same digest at the time.
\<close>

theorem token_works_once:
  assumes "register_agent k t0 p db = Inr db1" "(unattended k)\<^sup>*\<^sup>* db1 db2"
    "length (filter (\<lambda>c. cr_token_hash c = Some (digest k (rp_token p))) (identities db)) \<le> 1"
  shows "\<not> token_usable k db2 now (digest k (rp_token p))"
proof -
  obtain c where c: "c \<in> set (identities db)" "cr_token_hash c = Some (digest k (rp_token p))"
    and db1: "identities db1 = identities (update_identity (cr_id c) (registered_identity (rp_public_key p) t0) db)"
    using assms(1) by (auto simp: register_agent_def split: option.splits if_splits dest!: find_SomeD)
  have only: "d = c" if "d \<in> set (identities db)" "cr_token_hash d = cr_token_hash c" for d
    using filter_at_most_one [OF assms(3)] that c by simp
  have "token_spent db1 (digest k (rp_token p))"
    using only c(2) by (fastforce simp: token_spent_def db1 update_identity_def list_all_iff registered_identity_def)
  then show ?thesis by (rule token.closed_for_good [OF assms(2)])
qed

theorem token_works_once_witness: "\<not> token_usable demo_agent_crypto joined (seconds 20) (digest demo_agent_crypto ''secret'')"
proof -
  have "length (filter (\<lambda>c. cr_token_hash c = Some (digest demo_agent_crypto (rp_token demo_payload))) (identities invited)) \<le> 1" by code_simp
  from token_works_once [OF demo_joins rtranclp.rtrancl_refl this] show ?thesis by (simp add: demo_payload_def)
qed

end
