(* ===== verification/Kaya_Pattern.thy ===== *)
theory Kaya_Pattern
  imports Kaya_Base
begin

text \<open>
  Reasoning about generated text. A pattern is a sequence of fixed characters and of runs, that is unknown text up to a given length
  over a given alphabet. Two executable checks on the pattern bound how often a marker can occur in any text of that shape, which
  is what a validator that counts markers depends on.
\<close>

section \<open>Occurrences\<close>

text \<open>\<open>text.count(marker)\<close> for a marker that is not empty: occurrences that do not overlap, from the left.\<close>

function count_sub :: "string \<Rightarrow> string \<Rightarrow> nat" where
  "count_sub m [] = 0"
| "count_sub m (c # cs) =
     (if m \<noteq> [] \<and> startswith m (c # cs) then Suc (count_sub m (drop (length m) (c # cs))) else count_sub m cs)"
  by pat_completeness auto
termination by (relation "measure (\<lambda>(m, s). length s)") (auto simp: neq_Nil_conv)

text \<open>The number of positions at which a marker starts.\<close>

fun starts :: "string \<Rightarrow> string \<Rightarrow> nat" where
  "starts m [] = 0"
| "starts m (c # cs) = (if prefix m (c # cs) then 1 else 0) + starts m cs"

lemma starts_drop: "starts m (drop n s) \<le> starts m s"
proof (induction s arbitrary: n)
  case (Cons c s)
  show ?case using Cons.IH [of "n - 1"] by (cases n) auto
qed simp

lemma count_sub_le_starts: "count_sub m s \<le> starts m s"
proof (induction m s rule: count_sub.induct)
  case (2 m c cs)
  show ?case
  proof (cases "m \<noteq> [] \<and> startswith m (c # cs)")
    case True
    then obtain k where k: "length m = Suc k" by (cases m) auto
    have "count_sub m (drop k cs) \<le> starts m cs"
      using 2(1) [OF True] starts_drop [of m k cs] by (simp add: k)
    then show ?thesis using True by (simp add: k startswith_def)
  qed (use 2 in \<open>auto intro: le_trans\<close>)
qed simp

lemma count_sub_pos: "contains m s \<Longrightarrow> m \<noteq> [] \<Longrightarrow> 1 \<le> count_sub m s"
  by (induction m s rule: count_sub.induct) (auto simp: startswith_def)

lemma starts_zero: "m \<noteq> [] \<Longrightarrow> starts m s = 0 \<Longrightarrow> \<not> contains m s"
  by (induction s) (auto split: if_splits)

lemma contains_append_left: "contains m s \<Longrightarrow> contains m (t @ s)"
  by (induction t) auto

lemma prefix_contains: "prefix m s \<Longrightarrow> contains m s"
  by (cases s) auto

lemma contains_append_right: "contains m s \<Longrightarrow> contains m (s @ t)"
proof (induction s)
  case Nil
  then show ?case by (cases t) auto
next
  case (Cons c s)
  have "prefix m (c # s) \<Longrightarrow> prefix m ((c # s) @ t)" by (rule prefix_prefix)
  then show ?case using Cons by auto
qed

section \<open>Patterns\<close>

datatype elem = Lit char | Run nat string

fun fits :: "elem list \<Rightarrow> string \<Rightarrow> bool" where
  "fits [] s \<longleftrightarrow> s = []"
| "fits (Lit d # p) s \<longleftrightarrow> (\<exists>t. s = d # t \<and> fits p t)"
| "fits (Run n cs # p) s \<longleftrightarrow> (\<exists>u t. s = u @ t \<and> length u \<le> n \<and> set u \<subseteq> set cs \<and> fits p t)"

lemma fits_runI: "length u \<le> n \<Longrightarrow> set u \<subseteq> set cs \<Longrightarrow> fits p t \<Longrightarrow> fits (Run n cs # p) (u @ t)"
  by auto

lemma fits_append: "fits p s \<Longrightarrow> fits q t \<Longrightarrow> fits (p @ q) (s @ t)"
proof (induction p arbitrary: s)
  case (Cons e p)
  then show ?case
  proof (cases e)
    case (Lit d)
    then show ?thesis using Cons by auto
  next
    case (Run n cs)
    then obtain u v where "s = u @ v" "length u \<le> n" "set u \<subseteq> set cs" "fits p v" using Cons.prems(1) by auto
    then show ?thesis using Cons.IH [of v] Cons.prems(2) Run fits_runI [of u n cs "p @ q" "v @ t"] by simp
  qed
qed simp

definition literal :: "string \<Rightarrow> elem list" where
  "literal s = map Lit s"

lemma fits_literal: "fits (literal s) s"
  by (induction s) (auto simp: literal_def)

lemma fits_empty: "fits [] []"
  by simp

lemma fits_run: "length s \<le> n \<Longrightarrow> set s \<subseteq> set cs \<Longrightarrow> fits [Run n cs] s"
  by auto

fun may_start :: "string \<Rightarrow> elem list \<Rightarrow> bool" where
  "may_start [] p \<longleftrightarrow> True"
| "may_start (c # m) [] \<longleftrightarrow> False"
| "may_start (c # m) (Lit d # p) \<longleftrightarrow> c = d \<and> may_start m p"
| "may_start (c # m) (Run n cs # p) \<longleftrightarrow> (n \<noteq> 0 \<and> c \<in> set cs \<and> may_start m (Run (n - 1) cs # p)) \<or> may_start (c # m) p"

lemma may_start_sound: "fits p s \<Longrightarrow> prefix m s \<Longrightarrow> may_start m p"
proof (induction m p arbitrary: s rule: may_start.induct)
  case (3 c m d p)
  then show ?case by auto
next
  case (4 c m n cs p)
  then obtain u t where s: "s = u @ t" and u: "length u \<le> n" "set u \<subseteq> set cs" and t: "fits p t" by auto
  show ?case
  proof (cases u)
    case Nil
    then show ?thesis using 4 s t by auto
  next
    case (Cons d u')
    then have "c = d" "prefix m (u' @ t)" using 4(4) s by auto
    moreover have "n \<noteq> 0" using u Cons by auto
    moreover have "fits (Run (n - 1) cs # p) (u' @ t)"
      using u t Cons by (intro fits_runI) auto
    ultimately show ?thesis using 4(1) u Cons by auto
  qed
qed auto

text \<open>For evaluation: characters are compared bit by bit, and nothing is computed after the first difference.\<close>

fun same_char :: "char \<Rightarrow> char \<Rightarrow> bool" where
  "same_char (Char a0 a1 a2 a3 a4 a5 a6 a7) (Char b0 b1 b2 b3 b4 b5 b6 b7) =
     (if a0 = b0 then if a1 = b1 then if a2 = b2 then if a3 = b3 then if a4 = b4 then if a5 = b5 then if a6 = b6 then a7 = b7
      else False else False else False else False else False else False else False)"

lemma same_char_iff: "same_char c d \<longleftrightarrow> c = d"
  by (cases c; cases d) simp

lemma may_start_code [code]:
  "may_start [] p = True"
  "may_start (c # m) [] = False"
  "may_start (c # m) (Lit d # p) = (if same_char c d then may_start m p else False)"
  "may_start (c # m) (Run n cs # p) =
     (if (if n = 0 then False else if list_ex (same_char c) cs then may_start m (Run (n - 1) cs # p) else False) then True
      else may_start (c # m) p)"
  by (auto simp: same_char_iff list_ex_iff)

text \<open>An upper bound on the positions at which a marker starts; \<open>None\<close> when it may start inside a run.\<close>

fun start_bound :: "string \<Rightarrow> elem list \<Rightarrow> nat option" where
  "start_bound m [] = Some 0"
| "start_bound m (Lit d # p) =
     (case start_bound m p of None \<Rightarrow> None | Some k \<Rightarrow> Some (if may_start m (Lit d # p) then Suc k else k))"
| "start_bound m (Run n cs # p) =
     (if n \<noteq> 0 \<and> (case m of [] \<Rightarrow> True | c # m' \<Rightarrow> c \<in> set cs \<and> may_start m' (Run (n - 1) cs # p)) then None else start_bound m p)"

lemma starts_run:
  assumes "\<not> (n \<noteq> 0 \<and> (case m of [] \<Rightarrow> True | c # m' \<Rightarrow> c \<in> set cs \<and> may_start m' (Run (n - 1) cs # p)))"
    "length u \<le> n" "set u \<subseteq> set cs" "fits p t"
  shows "starts m (u @ t) = starts m t"
  using assms(2,3)
proof (induction u)
  case (Cons d u)
  have "\<not> prefix m (d # u @ t)"
  proof
    assume pre: "prefix m (d # u @ t)"
    have n: "n \<noteq> 0" using Cons.prems by auto
    then obtain m' where m: "m = d # m'" "prefix m' (u @ t)" using pre assms(1) by (cases m) auto
    have "fits (Run (n - 1) cs # p) (u @ t)" using Cons.prems assms(4) by (intro fits_runI) auto
    then have "may_start m' (Run (n - 1) cs # p)" using m(2) by (rule may_start_sound)
    then show False using assms(1) n m Cons.prems by auto
  qed
  then show ?case using Cons by simp
qed simp

lemma start_bound_sound: "fits p s \<Longrightarrow> start_bound m p = Some k \<Longrightarrow> starts m s \<le> k"
proof (induction m p arbitrary: s k rule: start_bound.induct)
  case (2 m d p)
  then obtain t where t: "s = d # t" "fits p t" by auto
  obtain j where j: "start_bound m p = Some j" using 2(3) by (auto split: option.splits)
  have "starts m t \<le> j" by (rule 2(1) [OF t(2) j])
  moreover have "prefix m s \<Longrightarrow> may_start m (Lit d # p)" using 2(2) by (rule may_start_sound)
  ultimately show ?case using 2(3) j t by (auto split: if_splits)
next
  case (3 m n cs p)
  then obtain u t where s: "s = u @ t" and u: "length u \<le> n" "set u \<subseteq> set cs" "fits p t" by auto
  have no: "\<not> (n \<noteq> 0 \<and> (case m of [] \<Rightarrow> True | c # m' \<Rightarrow> c \<in> set cs \<and> may_start m' (Run (n - 1) cs # p)))"
    and b: "start_bound m p = Some k"
    using 3(3) by (simp_all split: if_splits)
  show ?case using 3(1) [OF no u(3) b] starts_run [OF no u] by (simp add: s)
qed auto

text \<open>The longest text of a pattern, and its alphabet.\<close>

fun longest :: "elem list \<Rightarrow> int" where
  "longest [] = 0"
| "longest (Lit d # p) = 1 + longest p"
| "longest (Run n cs # p) = int n + longest p"

fun alphabet :: "elem list \<Rightarrow> string" where
  "alphabet [] = []"
| "alphabet (Lit d # p) = d # alphabet p"
| "alphabet (Run n cs # p) = cs @ alphabet p"

lemma fits_longest: "fits p s \<Longrightarrow> int (length s) \<le> longest p"
  by (induction p s rule: fits.induct) (fastforce simp: add_mono)+

lemma fits_alphabet: "fits p s \<Longrightarrow> set s \<subseteq> set (alphabet p)"
  by (induction p s rule: fits.induct) fastforce+

section \<open>Lines\<close>

definition unlines :: "string list \<Rightarrow> string" where
  "unlines ls = concat (map (\<lambda>l. l @ [CHR 0x0A]) ls)"

lemma starts_break:
  assumes "CHR 0x0A \<notin> set m" "m \<noteq> []"
  shows "starts m (l @ CHR 0x0A # s) = starts m l + starts m s"
proof (induction l)
  case Nil
  have "\<not> prefix m (CHR 0x0A # s)" using assms by (cases m) auto
  then show ?case by simp
next
  case (Cons c l)
  have "prefix m ((c # l) @ CHR 0x0A # s) \<longleftrightarrow> prefix m (c # l)"
  proof
    assume p: "prefix m ((c # l) @ CHR 0x0A # s)"
    show "prefix m (c # l)"
    proof (rule ccontr)
      assume "\<not> prefix m (c # l)"
      then obtain us where "m = (c # l) @ us" "us \<noteq> []" "prefix us (CHR 0x0A # s)"
        using p prefix_append [of m "c # l" "CHR 0x0A # s"] by auto
      then show False using assms(1) by (cases us) auto
    qed
  qed (rule prefix_prefix)
  then show ?case using Cons by simp
qed

lemma starts_unlines:
  assumes "CHR 0x0A \<notin> set m" "m \<noteq> []"
  shows "starts m (unlines ls) = sum_list (map (starts m) ls)"
  by (induction ls) (simp_all add: unlines_def starts_break [OF assms])

fun lines_bound :: "string \<Rightarrow> elem list list \<Rightarrow> nat option" where
  "lines_bound m [] = Some 0"
| "lines_bound m (p # ps) =
     (case start_bound m p of None \<Rightarrow> None | Some a \<Rightarrow> (case lines_bound m ps of None \<Rightarrow> None | Some b \<Rightarrow> Some (a + b)))"

lemma lines_bound_sound:
  assumes "list_all2 fits ps ls" "lines_bound m ps = Some k"
  shows "sum_list (map (starts m) ls) \<le> k"
  using assms
proof (induction ps ls arbitrary: k rule: list_all2_induct)
  case (Cons p ps l ls)
  then obtain a b where "start_bound m p = Some a" "lines_bound m ps = Some b" "k = a + b" by (auto split: option.splits)
  then show ?case using Cons.IH [of b] start_bound_sound [OF Cons.hyps(1)] by (simp add: add_mono)
qed simp

definition marker_bound :: "nat \<Rightarrow> elem list list \<Rightarrow> string \<Rightarrow> bool" where
  "marker_bound k ps m \<longleftrightarrow> m \<noteq> [] \<and> list_all (\<lambda>c. c \<noteq> CHR 0x0A) m \<and> lines_bound m ps = Some k"

lemma marker_bound_starts:
  assumes "list_all2 fits ps ls" "marker_bound k ps m"
  shows "starts m (unlines ls) \<le> k"
proof -
  have m: "CHR 0x0A \<notin> set m" "m \<noteq> []" "lines_bound m ps = Some k" using assms(2) by (auto simp: marker_bound_def list_all_iff)
  show ?thesis using starts_unlines [OF m(1,2)] lines_bound_sound [OF assms(1) m(3)] by simp
qed

lemma pattern_excludes:
  assumes "list_all2 fits ps ls" "marker_bound 0 ps m"
  shows "\<not> contains m (unlines ls)"
  using marker_bound_starts [OF assms] starts_zero [of m "unlines ls"] assms(2) by (simp add: marker_bound_def)

lemma pattern_once:
  assumes "list_all2 fits ps ls" "marker_bound 1 ps m" "contains m (unlines ls)"
  shows "count_sub m (unlines ls) = 1"
proof -
  have "m \<noteq> []" using assms(2) by (simp add: marker_bound_def)
  then show ?thesis
    using marker_bound_starts [OF assms(1,2)] count_sub_le_starts [of m "unlines ls"] count_sub_pos [OF assms(3)] by linarith
qed

lemma length_unlines:
  assumes "list_all2 fits ps ls"
  shows "int (length (unlines ls)) \<le> sum_list (map (\<lambda>p. longest p + 1) ps)"
  using assms by (induction ps ls rule: list_all2_induct) (auto simp: unlines_def dest: fits_longest)

lemma set_unlines:
  assumes "list_all2 fits ps ls" "x \<in> set (unlines ls)"
  shows "x = CHR 0x0A \<or> (\<exists>p \<in> set ps. x \<in> set (alphabet p))"
  using assms
proof (induction ps ls rule: list_all2_induct)
  case (Cons p ps l ls)
  have "set l \<subseteq> set (alphabet p)" by (rule fits_alphabet [OF Cons.hyps(1)])
  moreover have "x \<in> set l \<or> x = CHR 0x0A \<or> x \<in> set (unlines ls)" using Cons.prems by (auto simp: unlines_def)
  ultimately show ?case using Cons.IH by auto
qed (simp add: unlines_def)

lemma contains_unlines: "l \<in> set ls \<Longrightarrow> contains m l \<Longrightarrow> contains m (unlines ls)"
  by (induction ls) (auto simp: unlines_def intro: contains_append_right contains_append_left)

lemmas pattern_intros = list.rel_intros fits_append fits_literal fits_empty fits_run

declare fits.simps [simp del]

end
