(* ===== verification/HA_Keepalived.thy ===== *)
theory HA_Keepalived
  imports HA_Failover HA_Agent Kaya_Ip Kaya_Pattern
begin

text \<open>
  The Keepalived configuration of a node on its whole way: the server renders it (\<open>app/services/ha_keepalived.py\<close>), the agent checks it
  (\<open>ha_agent/keepalived_runtime.py\<close>), the root helper checks it again line by line and installs it
  (\<open>ha_agent/kaya_ha_keepalived_helper.py\<close>), and the server records the result (\<open>ha_agents.py\<close>). Exit codes of \<open>keepalived\<close> and
  \<open>systemctl\<close> and the faults of the file system are arguments.
\<close>

section \<open>The network of a cluster\<close>

definition interface_char :: "char \<Rightarrow> bool" where
  "interface_char c \<longleftrightarrow> is_upper c \<or> is_lower c \<or> is_digit c \<or> c \<in> set ''_.:-''"

definition INTERFACE_PATTERN :: "string \<Rightarrow> bool" where
  "INTERFACE_PATTERN s \<longleftrightarrow> s \<noteq> [] \<and> length s \<le> 80 \<and> list_all interface_char s"

definition KEEPALIVED_HOOK :: string where
  "KEEPALIVED_HOOK = ''/usr/lib/kaya-ha-agent/kaya_ha_transition.py''"

text \<open>\<open>IPv4Interface(text)\<close>: the address and the prefix length.\<close>

definition ipv4_interface :: "string \<Rightarrow> (int \<times> int) option" where
  "ipv4_interface text =
     (case split_on (CHR ''/'') text of
        [a] \<Rightarrow> map_option (\<lambda>n. (n, 32)) (parse_ipv4 a)
      | [a, m] \<Rightarrow>
          (case (parse_ipv4 a, ipv4_prefix m) of (Some n, Some p) \<Rightarrow> Some (n, p) | _ \<Rightarrow> None)
      | _ \<Rightarrow> None)"

definition network_address :: "int \<Rightarrow> int \<Rightarrow> int" where
  "network_address n p = n div net_size 32 p * net_size 32 p"

definition broadcast_address :: "int \<Rightarrow> int \<Rightarrow> int" where
  "broadcast_address n p = network_address n p + net_size 32 p - 1"

definition node_address :: "ha_node \<Rightarrow> string + int" where
  "node_address n =
     (case parse_ipv4 (case management_host n of None \<Rightarrow> [] | Some h \<Rightarrow> h) of
        None \<Rightarrow> Inl (display_name n @ '' must use an IPv4 management address before Keepalived deployment.'')
      | Some a \<Rightarrow> Inr a)"

fun node_addresses :: "ha_node list \<Rightarrow> string + int list" where
  "node_addresses [] = Inr []"
| "node_addresses (n # ns) =
     (case node_address n of
        Inl m \<Rightarrow> Inl m
      | Inr a \<Rightarrow> (case node_addresses ns of Inl m \<Rightarrow> Inl m | Inr as \<Rightarrow> Inr (a # as)))"

definition bad_interface :: "ha_node \<Rightarrow> bool" where
  "bad_interface n \<longleftrightarrow> (case network_interface n of None \<Rightarrow> True | Some i \<Rightarrow> \<not> INTERFACE_PATTERN i)"

definition interface_message :: "ha_node \<Rightarrow> string" where
  "interface_message n = ''Enter a valid network interface for '' @ display_name n @ ''.''"

definition vip_text :: "ha_cluster \<Rightarrow> string option" where
  "vip_text c =
     (case (virtual_ip c, prefix_length c) of
        (Some v, Some p) \<Rightarrow> if v = [] \<or> p = 0 then None else Some (v @ ''/'' @ str_int p)
      | _ \<Rightarrow> None)"

text \<open>\<open>None\<close> when the network is fit for deployment, else the message of the exception.\<close>

definition validate_network :: "ha_cluster \<Rightarrow> int option \<Rightarrow> string option" where
  "validate_network c router =
     (if length (nodes c) \<noteq> 2 then Some ''Exactly two nodes are required for Keepalived deployment.''
      else case vip_text c of
        None \<Rightarrow> Some ''Set a virtual IPv4 address and prefix length before deployment.''
      | Some text \<Rightarrow>
         (case ipv4_interface text of
            None \<Rightarrow> Some ''The virtual IP and prefix length are invalid.''
          | Some (vip, p) \<Rightarrow>
              if vip = network_address vip p \<or> vip = broadcast_address vip p
              then Some ''The virtual IP cannot be the network or broadcast address.''
              else (case node_addresses (nodes c) of
                      Inl m \<Rightarrow> Some m
                    | Inr as \<Rightarrow>
                        if vip \<in> set as then Some ''The virtual IP cannot match either node address.''
                        else if list_ex (\<lambda>a. network_address a p \<noteq> network_address vip p) as
                        then Some ''Both nodes and the virtual IP must be on the same IPv4 subnet.''
                        else (case find bad_interface (nodes c) of
                                Some n \<Rightarrow> Some (interface_message n)
                              | None \<Rightarrow>
                                  (case or_else router (vrrp_router_id c) of
                                     None \<Rightarrow> Some ''VRRP router ID must be between 1 and 255.''
                                   | Some r \<Rightarrow>
                                       if 1 \<le> r \<and> r \<le> 255 then None
                                       else Some ''VRRP router ID must be between 1 and 255.'')))))"

text \<open>The cached advertisement of a node (\<open>cached_dns_advertisement\<close>): checked before and not as it should be.\<close>

definition wrong_advertisement :: "ha_cluster \<Rightarrow> ha_node \<Rightarrow> bool" where
  "wrong_advertisement c n \<longleftrightarrow>
     (case advertised_dns n of
        None \<Rightarrow> False
      | Some observed \<Rightarrow>
          (case advertised_dns_addresses c n of None \<Rightarrow> True | Some (a, b) \<Rightarrow> observed \<noteq> [a, b]))"

definition agent_blockers :: "time \<Rightarrow> ha_node \<Rightarrow> string list" where
  "agent_blockers now n =
     (if (case agent_credential n of None \<Rightarrow> True | Some k \<Rightarrow> registered_at k = None \<or> revoked_at k \<noteq> None)
      then [''Register an active agent for '' @ display_name n @ ''.''] else []) @
     (if (case last_heartbeat_at n of None \<Rightarrow> True | Some t \<Rightarrow> t < now - minutes 2)
      then [''Wait for a recent agent heartbeat from '' @ display_name n @ ''.''] else [])"

definition deployment_blockers :: "ha_cluster \<Rightarrow> time \<Rightarrow> int option \<Rightarrow> string list" where
  "deployment_blockers c now router =
     dict_fromkeys
       ((case validate_network c router of
           None \<Rightarrow> []
         | Some m \<Rightarrow> (case filter bad_interface (nodes c) of [] \<Rightarrow> [m] | bad \<Rightarrow> map interface_message bad)) @
        (if cluster_status c \<notin> {''VALIDATED'', ''VALIDATED_WITH_WARNINGS'', ''READY_TO_DEPLOY'', ''DEPLOYING'', ''HEALTHY''}
         then [''Complete read-only validation without blocking failures before deployment.''] else []) @
        (if pihole_manages_dhcp c \<and> list_ex (wrong_advertisement c) (nodes c)
         then [''Repair DHCP DNS Advertisement so the DNS Virtual IP is advertised first.''] else []) @
        concat (map (agent_blockers now) (nodes c)))"

section \<open>Rendering\<close>

definition controlled_preemption_target :: "ha_cluster \<Rightarrow> int option" where
  "controlled_preemption_target c =
     (let from_run = (case active_failover c of
                        None \<Rightarrow> None
                      | Some r \<Rightarrow> if run_phase r = MOVING_VIP then Some (run_target_node_id r)
                                  else if run_phase r = ROLLBACK_MOVING_VIP then Some (run_source_node_id r) else None)
      in case from_run of
           Some i \<Rightarrow> Some i
         | None \<Rightarrow>
             (case min_by (\<lambda>m. - mt_created_at m)
                     (filter (\<lambda>m. mt_operation m = REINITIALISE \<and> mt_status m = M_RUNNING \<and> mt_phase m = WAITING_FOR_VIP)
                        (maintenance_runs c)) of
                None \<Rightarrow> None
              | Some m \<Rightarrow> mt_desired_active_node_id m))"

definition cluster_tag :: "string \<Rightarrow> string" where
  "cluster_tag public_id = upper (take 8 (filter (\<lambda>ch. ch \<noteq> CHR ''-'') public_id))"

definition quoted :: "string \<Rightarrow> string" where
  "quoted s = [CHR 0x22] @ s @ [CHR 0x22]"

definition keepalived_lines ::
  "string \<Rightarrow> int \<Rightarrow> string \<Rightarrow> int \<Rightarrow> int \<Rightarrow> string \<Rightarrow> bool \<Rightarrow> string list" where
  "keepalived_lines public_id generation interface router priority vip allow =
     [''# Managed by Kaya High Availability. Do not edit.'',
      ''# cluster='' @ public_id @ '' generation='' @ str_int generation,
      ''global_defs {'',
      ''    script_user kaya-ha kaya-ha'',
      ''    enable_script_security'',
      ''}'',
      [],
      ''vrrp_script KAYA_DNS_'' @ cluster_tag public_id @ '' {'',
      ''    script '' @ quoted ''/usr/lib/kaya-ha-agent/check-pihole-dns'',
      ''    interval 2'',
      ''    timeout 2'',
      ''    fall 3'',
      ''    rise 3'',
      ''}'',
      [],
      ''vrrp_instance KAYA_HA_'' @ cluster_tag public_id @ '' {'',
      ''    state BACKUP'',
      ''    interface '' @ interface,
      ''    virtual_router_id '' @ str_int router,
      ''    priority '' @ str_int priority,
      ''    advert_int 1'',
      (if allow then ''    preempt_delay 3'' else ''    nopreempt''),
      [],
      ''    virtual_ipaddress {'',
      ''        '' @ vip,
      ''    }'',
      [],
      ''    track_script {'',
      ''        KAYA_DNS_'' @ cluster_tag public_id,
      ''    }'',
      [],
      ''    notify_master '' @ quoted (KEEPALIVED_HOOK @ '' master '' @ str_int generation),
      ''    notify_backup '' @ quoted (KEEPALIVED_HOOK @ '' backup '' @ str_int generation),
      ''    notify_fault '' @ quoted (KEEPALIVED_HOOK @ '' fault '' @ str_int generation),
      ''}'']"

record keepalived_config =
  kc_content :: string
  kc_checksum :: string

definition render_keepalived_config :: "(string \<Rightarrow> string) \<Rightarrow> ha_cluster \<Rightarrow> ha_node \<Rightarrow> bool \<Rightarrow> string + keepalived_config" where
  "render_keepalived_config sha c n allow =
     (case validate_network c None of
        Some m \<Rightarrow> Inl m
      | None \<Rightarrow>
         (case (vrrp_priority n, network_interface n, vrrp_router_id c, vip_text c) of
            (Some p, Some i, Some r, Some v) \<Rightarrow>
              if n \<notin> set (nodes c) \<or> \<not> (1 \<le> p \<and> p \<le> 254)
              then Inl ''Each node requires a Keepalived priority between 1 and 254.''
              else (let text = unlines (keepalived_lines (cluster_public_id c) (keepalived_generation c) i r p v allow)
                    in Inr \<lparr>kc_content = text, kc_checksum = sha text\<rparr>)
          | _ \<Rightarrow> Inl ''Each node requires a Keepalived priority between 1 and 254.''))"

section \<open>Deployment\<close>

definition role_rank :: "ha_node \<Rightarrow> int" where
  "role_rank n = (if desired_role n = ''ACTIVE'' then 0 else 1)"

definition request_deployment :: "time \<Rightarrow> ha_cluster \<Rightarrow> ha_cluster" where
  "request_deployment now c =
     c\<lparr>cluster_generation := cluster_generation c + 1, keepalived_generation := keepalived_generation c + 1,
       keepalived_status := ''PENDING_AGENT'', keepalived_requested_at := Some now, cluster_status := ''DEPLOYING''\<rparr>"

text \<open>
  \<open>Inl\<close> carries the message; the router identifier is written before the check, and the exception leaves it in the session, which
  the caller rolls back.
\<close>

definition prepare_deployment :: "time \<Rightarrow> ha_cluster \<Rightarrow> int \<Rightarrow> bool \<Rightarrow> string + ha_cluster" where
  "prepare_deployment now c router acknowledged =
     (if \<not> acknowledged then Inl ''Confirm that Keepalived deployment will not enable, disable, or move DHCP.''
      else (let c1 = c\<lparr>vrrp_router_id := Some router\<rparr>; bl = deployment_blockers c1 now None
            in if bl \<noteq> [] then Inl (join '' '' bl)
               else (case sort_key role_rank (nodes c1) of
                       a # b # _ \<Rightarrow>
                         Inr (request_deployment now
                           (update_all_nodes
                              (\<lambda>n. n\<lparr>vrrp_priority := (if node_id n = node_id a then Some 150 else if node_id n = node_id b then Some 100 else vrrp_priority n),
                                     node_keepalived_status := ''PENDING_AGENT'', keepalived_last_error := None\<rparr>) c1))
                     | _ \<Rightarrow> Inl ''IndexError'')))"

definition request_manual_vip_move :: "time \<Rightarrow> ha_cluster \<Rightarrow> ha_node \<Rightarrow> bool \<Rightarrow> string + ha_cluster" where
  "request_manual_vip_move now c target acknowledged =
     (if \<not> acknowledged then Inl ''Confirm the manual VIP move and that DHCP remains outside this action.''
      else if keepalived_status c \<noteq> ''DEPLOYED'' \<or> list_ex (\<lambda>n. node_keepalived_status n \<noteq> ''DEPLOYED'') (nodes c)
      then Inl ''Both nodes must have a validated Keepalived deployment before moving the VIP.''
      else (case filter vip_owned (nodes c) of
              [owner] \<Rightarrow>
                if node_id owner = node_id target then Inl (display_name target @ '' already owns the virtual IP.'')
                else (let bl = deployment_blockers c now None
                      in if bl \<noteq> [] then Inl (join '' '' bl)
                         else if list_ex (\<lambda>n. obs_active (dhcp_observation n now None 120)) (nodes c)
                         then Inl ''Manual VIP testing is blocked while an agent reports DHCP running; DHCP transition control is not implemented yet.''
                         else Inr (request_deployment now
                                ((update_all_nodes
                                    (\<lambda>n. n\<lparr>desired_role := (if node_id n = node_id target then ''ACTIVE'' else ''STANDBY''),
                                           vrrp_priority := Some (if node_id n = node_id target then 150 else 100),
                                           node_keepalived_status := ''PENDING_AGENT''\<rparr>) c)
                                 \<lparr>role_generation := role_generation c + 1\<rparr>)))
            | _ \<Rightarrow> Inl ''A manual VIP move requires exactly one currently reported VIP owner.''))"

record keepalived_action =
  ka_action_id :: string
  ka_action_type :: string
  ka_generation :: int
  ka_configuration :: string
  ka_checksum :: string
  ka_dhcp_transition :: string

definition desired_keepalived_action :: "(string \<Rightarrow> string) \<Rightarrow> ha_cluster \<Rightarrow> ha_node \<Rightarrow> string + keepalived_action option" where
  "desired_keepalived_action sha c n =
     (if keepalived_status c \<notin> {''PENDING_AGENT'', ''DEPLOYING''} \<or> node_keepalived_status n \<noteq> ''PENDING_AGENT'' then Inr None
      else case render_keepalived_config sha c n (controlled_preemption_target c = Some (node_id n)) of
        Inl m \<Rightarrow> Inl m
      | Inr k \<Rightarrow>
          Inr (Some \<lparr>ka_action_id = ''keepalived:'' @ cluster_public_id c @ '':'' @ str_int (keepalived_generation c) @ '':'' @ node_public_id n,
                     ka_action_type = ''KEEPALIVED_APPLY'', ka_generation = keepalived_generation c, ka_configuration = kc_content k,
                     ka_checksum = kc_checksum k, ka_dhcp_transition = ''DISABLED''\<rparr>))"

section \<open>The agent\<close>


definition utf8_length :: "string \<Rightarrow> int" where
  "utf8_length s = int (length s) + int (length (filter (\<lambda>c. (of_char c :: nat) \<ge> 128) s))"

definition FORBIDDEN_CONFIG_MARKERS :: "string list" where
  "FORBIDDEN_CONFIG_MARKERS = ['';'', [CHR 0x60], ''$'', ''|'', ''&&'', ''>'', ''<'', ''include '']"

definition required_markers :: "string list" where
  "required_markers =
     [''global_defs {'', ''script_user kaya-ha kaya-ha'', ''enable_script_security'', ''vrrp_script KAYA_DNS_'',
      ''vrrp_instance KAYA_HA_'', ''state BACKUP'', ''virtual_router_id '', ''virtual_ipaddress {'',
      ''notify_master '' @ [CHR 0x22] @ ''/usr/lib/kaya-ha-agent/kaya_ha_transition.py master '',
      ''notify_backup '' @ [CHR 0x22] @ ''/usr/lib/kaya-ha-agent/kaya_ha_transition.py backup '',
      ''notify_fault '' @ [CHR 0x22] @ ''/usr/lib/kaya-ha-agent/kaya_ha_transition.py fault '']"

datatype config_problem = UnsafeAction | NotManaged | ForbiddenMarker | WrongStructure | WrongChecksum

definition validate_desired_configuration :: "(string \<Rightarrow> string) \<Rightarrow> keepalived_action \<Rightarrow> config_problem option" where
  "validate_desired_configuration sha act =
     (let text = ka_configuration act
      in if ka_action_type act \<noteq> ''KEEPALIVED_APPLY'' \<or> ka_dhcp_transition act \<noteq> ''DISABLED'' then Some UnsafeAction
         else if \<not> startswith (''# Managed by Kaya High Availability. Do not edit.'' @ [CHR 0x0A]) text \<or> utf8_length text > 32 * 1024
         then Some NotManaged
         else if list_ex (\<lambda>m. contains m text) FORBIDDEN_CONFIG_MARKERS then Some ForbiddenMarker
         else if list_ex (\<lambda>m. count_sub m text \<noteq> 1) required_markers then Some WrongStructure
         else if sha text \<noteq> ka_checksum act then Some WrongChecksum
         else None)"

end
