(* ===== verification/HA_Keepalived_Host.thy ===== *)
theory HA_Keepalived_Host
  imports HA_Keepalived
begin

text \<open>
  The node's side of a Keepalived deployment: the root helper (\<open>ha_agent/kaya_ha_keepalived_helper.py\<close>) with its list of permitted lines
  and its transaction over two files, the agent that calls it (\<open>ha_agent/keepalived_runtime.py\<close>), and what the server makes of the
  result (\<open>ha_agents.py\<close>).
\<close>

section \<open>Permitted lines\<close>

definition all_in :: "string \<Rightarrow> string \<Rightarrow> bool" where
  "all_in cs s \<longleftrightarrow> list_all (\<lambda>c. c \<in> set cs) s"

definition digits :: "string" where
  "digits = ''0123456789''"

text \<open>\<open>[1-9][0-9]*\<close>, and the same with a largest value.\<close>

definition positive_text :: "string \<Rightarrow> bool" where
  "positive_text s \<longleftrightarrow> s \<noteq> [] \<and> all_in digits s \<and> hd s \<noteq> CHR ''0''"

definition bounded_text :: "int \<Rightarrow> string \<Rightarrow> bool" where
  "bounded_text m s \<longleftrightarrow> positive_text s \<and> length s \<le> 3 \<and> (case parse_int s of None \<Rightarrow> False | Some n \<Rightarrow> n \<le> m)"

definition after :: "string \<Rightarrow> string \<Rightarrow> string option" where
  "after p s = (if startswith p s then Some (drop (length p) s) else None)"

definition tag_line :: "string \<Rightarrow> string \<Rightarrow> string \<Rightarrow> bool" where
  "tag_line p ending s \<longleftrightarrow>
     (case after p s of None \<Rightarrow> False | Some r \<Rightarrow> length (take 8 r) = 8 \<and> all_in ''ABCDEF0123456789'' (take 8 r) \<and> drop 8 r = ending)"

definition keyword_line :: "string list \<Rightarrow> (string \<Rightarrow> bool) \<Rightarrow> string \<Rightarrow> bool" where
  "keyword_line ks ok s \<longleftrightarrow> list_ex (\<lambda>k. case after (k @ '' '') s of None \<Rightarrow> False | Some r \<Rightarrow> ok r) ks"

definition cluster_line :: "string \<Rightarrow> bool" where
  "cluster_line s \<longleftrightarrow>
     (case after ''# cluster='' s of
        None \<Rightarrow> False
      | Some r \<Rightarrow> length (take 36 r) = 36 \<and> all_in ''0123456789abcdef-'' (take 36 r) \<and>
          (case after '' generation='' (drop 36 r) of None \<Rightarrow> False | Some g \<Rightarrow> positive_text g))"

definition octet_text :: "string \<Rightarrow> bool" where
  "octet_text s \<longleftrightarrow> s \<noteq> [] \<and> length s \<le> 3 \<and> all_in digits s"

definition vip_line :: "string \<Rightarrow> bool" where
  "vip_line s \<longleftrightarrow>
     (case split_on (CHR ''/'') s of
        [a, m] \<Rightarrow> length (split_on (CHR ''.'') a) = 4 \<and> list_all octet_text (split_on (CHR ''.'') a) \<and> bounded_text 32 m
      | _ \<Rightarrow> False)"

definition notify_text :: "string \<Rightarrow> bool" where
  "notify_text s \<longleftrightarrow>
     list_ex (\<lambda>role. case after ([CHR 0x22] @ KEEPALIVED_HOOK @ '' '' @ role @ '' '') s of
                       None \<Rightarrow> False
                     | Some r \<Rightarrow> r \<noteq> [] \<and> last r = CHR 0x22 \<and> positive_text (butlast r))
       [''master'', ''backup'', ''fault'']"

definition SAFE_LINES :: "string \<Rightarrow> bool" where
  "SAFE_LINES s \<longleftrightarrow>
     s \<in> set [''# Managed by Kaya High Availability. Do not edit.'', ''global_defs {'', ''script_user kaya-ha kaya-ha'',
              ''enable_script_security'', ''script '' @ quoted ''/usr/lib/kaya-ha-agent/check-pihole-dns'', ''state BACKUP'',
              ''nopreempt'', ''virtual_ipaddress {'', ''track_script {'', ''}''] \<or>
     cluster_line s \<or> tag_line ''vrrp_script KAYA_DNS_'' '' {'' s \<or> tag_line ''vrrp_instance KAYA_HA_'' '' {'' s \<or>
     tag_line ''KAYA_DNS_'' [] s \<or>
     keyword_line [''interval'', ''timeout'', ''fall'', ''rise'', ''advert_int'', ''preempt_delay''] positive_text s \<or>
     keyword_line [''interface''] INTERFACE_PATTERN s \<or> keyword_line [''virtual_router_id''] (bounded_text 255) s \<or>
     keyword_line [''priority''] (bounded_text 254) s \<or> vip_line s \<or>
     keyword_line [''notify_master'', ''notify_backup'', ''notify_fault''] notify_text s"

text \<open>\<open>str.splitlines\<close> on text up to character 255.\<close>

definition is_break :: "char \<Rightarrow> bool" where
  "is_break c \<longleftrightarrow> c \<in> {CHR 0x0A, CHR 0x0D, CHR 0x0B, CHR 0x0C, CHR 0x1C, CHR 0x1D, CHR 0x1E, CHR 0x85}"

fun lines_from :: "string \<Rightarrow> string \<Rightarrow> string list" where
  "lines_from acc [] = (if acc = [] then [] else [rev acc])"
| "lines_from acc [c] = (if is_break c then [rev acc] else [rev (c # acc)])"
| "lines_from acc (c # d # cs) =
     (if c = CHR 0x0D \<and> d = CHR 0x0A then rev acc # lines_from [] cs
      else if is_break c then rev acc # lines_from [] (d # cs)
      else lines_from (c # acc) (d # cs))"

definition splitlines :: "string \<Rightarrow> string list" where
  "splitlines s = lines_from [] s"

text \<open>The helper decodes the file as UTF-8; \<open>None\<close> is a decoding error.\<close>

definition validate_managed_document :: "string option \<Rightarrow> bool" where
  "validate_managed_document decoded =
     (case decoded of
        None \<Rightarrow> False
      | Some text \<Rightarrow>
          (let ls = filter (\<lambda>l. l \<noteq> []) (map strip1 (splitlines text));
               starting = (\<lambda>p. length (filter (startswith p) ls));
               vips = filter (\<lambda>l. CHR ''/'' \<in> set l \<and> \<not> startswith ''script '' l \<and> \<not> startswith ''notify_'' l) ls
           in ls \<noteq> [] \<and> list_all SAFE_LINES ls \<and> starting ''vrrp_instance '' = 1 \<and> starting ''vrrp_script '' = 1 \<and>
              length (filter (\<lambda>l. l = ''global_defs {'') ls) = 1 \<and> length (filter (\<lambda>l. l = ''script_user kaya-ha kaya-ha'') ls) = 1 \<and>
              length (filter (\<lambda>l. l = ''enable_script_security'') ls) = 1 \<and>
              starting ''notify_master '' = 1 \<and> starting ''notify_backup '' = 1 \<and> starting ''notify_fault '' = 1 \<and>
              (case vips of
                 [v] \<Rightarrow> (case ipv4_interface v of
                           None \<Rightarrow> False
                         | Some (n, p) \<Rightarrow> n \<noteq> network_address n p \<and> n \<noteq> broadcast_address n p)
               | _ \<Rightarrow> False)))"

section \<open>The transaction of the helper\<close>

text \<open>The two files (\<open>None\<close>: absent), and what the system answers: which copies and writes fail, the
  exit codes (\<open>None\<close>: not run in time), what the commands print, and the text of an exception.\<close>

record host =
  main_conf :: "string option"
  target_conf :: "string option"

record host_faults =
  backup_target_fails :: bool
  backup_main_fails :: bool
  write_target_fails :: bool
  write_main_fails :: bool
  restore_target_fails :: bool
  restore_main_fails :: bool
  config_test :: "int option"
  reload :: "int option"
  restart :: "int option"
  diagnostic :: string
  os_error :: string

definition INCLUDE :: string where
  "INCLUDE = ''include /etc/keepalived/conf.d/*.conf''"

definition rstrip1 :: "string \<Rightarrow> string" where
  "rstrip1 s = rev (dropWhile is_space1 (rev s))"

definition included :: "string \<Rightarrow> bool" where
  "included text \<longleftrightarrow> INCLUDE \<in> set (map strip1 (splitlines text))"

definition with_include :: "string \<Rightarrow> string" where
  "with_include text = rstrip1 text @ (if strip1 text \<noteq> [] then [CHR 0x0A, CHR 0x0A] else []) @ INCLUDE @ [CHR 0x0A]"

definition with_diagnostic :: "string \<Rightarrow> string \<Rightarrow> string" where
  "with_diagnostic message detail =
     message @ (if detail \<noteq> [] then '' Diagnostic: '' @ detail else '' No diagnostic output was returned.'')"

definition activation_failure :: "host_faults \<Rightarrow> string option" where
  "activation_failure f =
     (case config_test f of
        None \<Rightarrow> Some (os_error f)
      | Some code \<Rightarrow>
          if code \<noteq> 0 then Some (with_diagnostic ''Keepalived rejected the generated configuration.'' (diagnostic f))
          else (case reload f of
                  None \<Rightarrow> Some (os_error f)
                | Some code2 \<Rightarrow>
                    if code2 = 0 then None
                    else (case restart f of
                            None \<Rightarrow> Some (os_error f)
                          | Some code3 \<Rightarrow>
                              if code3 = 0 then None else Some (with_diagnostic ''Keepalived could not be reloaded.'' (diagnostic f)))))"

text \<open>The body of the \<open>try\<close>: the files when it ends or raises, which backups exist by then, and the text of the exception.\<close>

definition install :: "host_faults \<Rightarrow> string \<Rightarrow> host \<Rightarrow> host \<times> bool \<times> bool \<times> string option" where
  "install f text h =
     (let target_existed = target_conf h \<noteq> None; main_existed = main_conf h \<noteq> None;
          main_text = (case main_conf h of None \<Rightarrow> [] | Some t \<Rightarrow> t);
          h1 = h\<lparr>target_conf := Some text\<rparr>;
          h2 = (if included main_text then h1 else h1\<lparr>main_conf := Some (with_include main_text)\<rparr>)
      in if target_existed \<and> backup_target_fails f then (h, False, False, Some (os_error f))
         else if main_existed \<and> backup_main_fails f then (h, target_existed, False, Some (os_error f))
         else if write_target_fails f then (h, target_existed, main_existed, Some (os_error f))
         else if \<not> included main_text \<and> write_main_fails f then (h1, target_existed, main_existed, Some (os_error f))
         else (h2, target_existed, main_existed, activation_failure f))"

text \<open>The handler: \<open>h0\<close> are the files before the transaction. A failed restoration of the first file ends the handler.\<close>

definition restore :: "host_faults \<Rightarrow> host \<Rightarrow> bool \<Rightarrow> bool \<Rightarrow> host \<Rightarrow> host" where
  "restore f h0 target_backup main_backup h =
     (if restore_target_fails f then h
      else (let h1 = (if target_conf h0 \<noteq> None \<and> target_backup then h\<lparr>target_conf := target_conf h0\<rparr> else h\<lparr>target_conf := None\<rparr>)
            in if restore_main_fails f then h1
               else if main_conf h0 \<noteq> None \<and> main_backup then h1\<lparr>main_conf := main_conf h0\<rparr>
               else h1\<lparr>main_conf := None\<rparr>))"

definition helper_apply :: "host_faults \<Rightarrow> (string \<Rightarrow> string option) \<Rightarrow> string \<Rightarrow> string \<Rightarrow> host \<Rightarrow> host \<times> command_result" where
  "helper_apply f decode reference text h =
     (if int (length text) > 32 * 1024 \<or> \<not> validate_managed_document (decode text)
      then (h, \<lparr>returncode = 1, printed = Some [(''ok'', JBool False),
                (''message'', JStr ''The pending configuration is not a valid Kaya-managed document.'')], stderr = []\<rparr>)
      else (case install f text h of
              (h1, tb, mb, None) \<Rightarrow>
                (h1, \<lparr>returncode = 0, printed = Some [(''ok'', JBool True), (''message'', JStr ''Keepalived configuration validated and activated.''),
                       (''backup_reference'', JStr reference)], stderr = []\<rparr>)
            | (h1, tb, mb, Some problem) \<Rightarrow>
                (restore f h tb mb h1,
                 \<lparr>returncode = 1, printed = Some [(''ok'', JBool False), (''message'', JStr problem),
                    (''backup_reference'', JStr reference)], stderr = []\<rparr>)))"

section \<open>The agent applies an order\<close>

record keepalived_result =
  kr_action_id :: string
  kr_generation :: int
  kr_status :: string
  kr_checksum :: "string option"
  kr_backup_reference :: json
  kr_message :: string

text \<open>
  \<open>helper\<close> runs the privileged helper on the pending file; \<open>None\<close> is an exception of running it, an answer without \<open>printed\<close> text is one that
  is not JSON. The store after an exception is unchanged.
\<close>

definition apply_desired_keepalived ::
  "(string \<Rightarrow> string) \<Rightarrow> (string \<Rightarrow> command_result option) \<Rightarrow> keepalived_action \<Rightarrow> agent \<Rightarrow> agent \<times> (agent_error + keepalived_result)" where
  "apply_desired_keepalived sha helper act a =
     (case py_int (get_value a ''config_generation'' (JInt 0)) of
        None \<Rightarrow> (a, Inl Uncaught)
      | Some current \<Rightarrow>
          if ka_generation act < current then (a, Inl (RuntimeRejected ''Rejected stale Keepalived generation.''))
          else if ka_generation act = current \<and> get_value a ''keepalived_checksum'' JNull = JStr (ka_checksum act)
          then (a, Inr \<lparr>kr_action_id = ka_action_id act, kr_generation = ka_generation act, kr_status = ''APPLIED'',
                        kr_checksum = Some (ka_checksum act), kr_backup_reference = get_value a ''keepalived_backup_reference'' JNull,
                        kr_message = ''Keepalived generation was already applied.''\<rparr>)
          else (case validate_desired_configuration sha act of
                  Some UnsafeAction \<Rightarrow> (a, Inl (RuntimeRejected ''Unsupported or unsafe desired action.''))
                | Some NotManaged \<Rightarrow> (a, Inl (RuntimeRejected ''Keepalived configuration is not a valid Kaya-managed document.''))
                | Some ForbiddenMarker \<Rightarrow> (a, Inl (RuntimeRejected ''Keepalived configuration contains a forbidden directive or shell marker.''))
                | Some WrongStructure \<Rightarrow> (a, Inl (RuntimeRejected ''Keepalived configuration does not match the fixed Kaya structure.''))
                | Some WrongChecksum \<Rightarrow> (a, Inl (RuntimeRejected ''Keepalived configuration checksum verification failed.''))
                | None \<Rightarrow>
                    (case helper (ka_configuration act) of
                       None \<Rightarrow> (a, Inl (RuntimeRejected ''The restricted Keepalived helper could not be executed.''))
                     | Some r \<Rightarrow>
                         (case printed r of
                            None \<Rightarrow> (a, Inl (RuntimeRejected ''The restricted Keepalived helper did not return a valid result.''))
                          | Some kvs \<Rightarrow>
                              if returncode r \<noteq> 0 \<or> \<not> truthy (obj_get kvs ''ok'')
                              then (a, Inr \<lparr>kr_action_id = ka_action_id act, kr_generation = ka_generation act, kr_status = ''FAILED'',
                                            kr_checksum = None, kr_backup_reference = obj_get kvs ''backup_reference'',
                                            kr_message = take 1000 (text_or_default (obj_get kvs ''message'')
                                              ''Keepalived validation or activation failed and was rolled back.'')\<rparr>)
                              else (put_value ''keepalived_runtime_state'' (JStr ''RUNNING'')
                                     (put_value ''keepalived_backup_reference'' (obj_get kvs ''backup_reference'')
                                       (put_value ''keepalived_checksum'' (JStr (ka_checksum act))
                                         (put_value ''keepalived_generation'' (JInt (ka_generation act))
                                           (put_value ''config_generation'' (JInt (ka_generation act)) a)))),
                                    Inr \<lparr>kr_action_id = ka_action_id act, kr_generation = ka_generation act, kr_status = ''APPLIED'',
                                         kr_checksum = Some (ka_checksum act), kr_backup_reference = obj_get kvs ''backup_reference'',
                                         kr_message = ''Generated Keepalived configuration validated and activated.''\<rparr>)))))"

section \<open>The server records the result\<close>

datatype result_error = DesiredStateError string | WrongGeneration | WrongAppliedChecksum

definition deployed_node :: "keepalived_result \<Rightarrow> ha_node \<Rightarrow> ha_node" where
  "deployed_node r n =
     (let ok = kr_status r = ''APPLIED''
      in n\<lparr>node_keepalived_status := (if ok then ''DEPLOYED'' else ''ERROR''),
           keepalived_config_checksum := (if ok then kr_checksum r else None),
           keepalived_last_error := (if ok then None else Some (kr_message r)),
           config_generation := (if ok then kr_generation r else config_generation n)\<rparr>)"

definition record_keepalived_result ::
  "(string \<Rightarrow> string) \<Rightarrow> ha_cluster \<Rightarrow> ha_node \<Rightarrow> keepalived_result \<Rightarrow> result_error + ha_cluster" where
  "record_keepalived_result sha c n r =
     (case desired_keepalived_action sha c n of
        Inl m \<Rightarrow> Inl (DesiredStateError m)
      | Inr None \<Rightarrow> Inl WrongGeneration
      | Inr (Some act) \<Rightarrow>
          if kr_action_id r \<noteq> ka_action_id act \<or> kr_generation r \<noteq> ka_generation act then Inl WrongGeneration
          else if kr_status r = ''APPLIED'' \<and> kr_checksum r \<noteq> Some (ka_checksum act) then Inl WrongAppliedChecksum
          else (let c1 = update_node (node_id n) (deployed_node r) c
                in Inr (if kr_status r = ''FAILED'' then c1\<lparr>keepalived_status := ''ERROR'', cluster_status := ''ERROR''\<rparr>
                        else if list_all (\<lambda>m. node_keepalived_status m = ''DEPLOYED'') (nodes c1)
                        then c1\<lparr>keepalived_status := ''DEPLOYED'', cluster_status := ''READY_TO_DEPLOY''\<rparr>
                        else c1)))"

end
