(* ===== verification/HA_Keepalived_Text.thy ===== *)
theory HA_Keepalived_Text
  imports HA_Keepalived_Host
begin

text \<open>
  The text of a rendered configuration: its pattern, how often each marker can occur in it, what its lines look like to the helper, and the
  form of the virtual IP. Shared by the results of \<open>HA_Keepalived_Props\<close>.
\<close>

section \<open>The shape of a rendered configuration\<close>

definition keepalived_patterns :: "elem list list" where
  "keepalived_patterns =
     (let lit = literal; uuid = [Run 36 ''0123456789abcdef-'']; tag = [Run 8 ''ABCDEF0123456789'']; num = (\<lambda>n. [Run n digits]);
          iface = [Run 15 ''ABCDEFGHIJKLMNOPQRSTUVWXYZabcdefghijklmnopqrstuvwxyz0123456789_.:-'']
      in
     [lit ''# Managed by Kaya High Availability. Do not edit.'',
      lit ''# cluster='' @ uuid @ lit '' generation='' @ num 10,
      lit ''global_defs {'',
      lit ''    script_user kaya-ha kaya-ha'',
      lit ''    enable_script_security'',
      lit ''}'',
      [],
      lit ''vrrp_script KAYA_DNS_'' @ tag @ lit '' {'',
      lit (''    script '' @ quoted ''/usr/lib/kaya-ha-agent/check-pihole-dns''),
      lit ''    interval 2'',
      lit ''    timeout 2'',
      lit ''    fall 3'',
      lit ''    rise 3'',
      lit ''}'',
      [],
      lit ''vrrp_instance KAYA_HA_'' @ tag @ lit '' {'',
      lit ''    state BACKUP'',
      lit ''    interface '' @ iface,
      lit ''    virtual_router_id '' @ num 3,
      lit ''    priority '' @ num 3,
      lit ''    advert_int 1'',
      [Run 19 '' _3adelmnoprty''],
      [],
      lit ''    virtual_ipaddress {'',
      lit ''        '' @ [Run 18 ''0123456789./''],
      lit ''    }'',
      [],
      lit ''    track_script {'',
      lit ''        KAYA_DNS_'' @ tag,
      lit ''    }'',
      [],
      lit ''    notify_master '' @ lit [CHR 0x22] @ (lit KEEPALIVED_HOOK @ lit '' master '' @ num 10) @ lit [CHR 0x22],
      lit ''    notify_backup '' @ lit [CHR 0x22] @ (lit KEEPALIVED_HOOK @ lit '' backup '' @ num 10) @ lit [CHR 0x22],
      lit ''    notify_fault '' @ lit [CHR 0x22] @ (lit KEEPALIVED_HOOK @ lit '' fault '' @ num 10) @ lit [CHR 0x22],
      lit ''}''])"

definition uuid_text :: "string \<Rightarrow> bool" where
  "uuid_text s \<longleftrightarrow> length s = 36 \<and> all_in ''0123456789abcdef-'' s \<and> 8 \<le> length (filter (\<lambda>c. c \<noteq> CHR ''-'') s)"

lemma upper_hex: "c \<in> set ''0123456789abcdef'' \<Longrightarrow> upper_char c \<in> set ''ABCDEF0123456789''"
proof -
  have "list_all (\<lambda>c. list_ex (same_char (upper_char c)) ''ABCDEF0123456789'') ''0123456789abcdef''" by code_simp
  then show "c \<in> set ''0123456789abcdef'' \<Longrightarrow> upper_char c \<in> set ''ABCDEF0123456789''"
    unfolding list_all_iff list_ex_iff same_char_iff by metis
qed

lemma cluster_tag_chars:
  assumes "uuid_text s"
  shows "length (cluster_tag s) = 8" "set (cluster_tag s) \<subseteq> set ''ABCDEF0123456789''"
proof -
  show "length (cluster_tag s) = 8" using assms by (simp add: uuid_text_def cluster_tag_def upper_def)
  have "c \<in> set ''0123456789abcdef''" if "c \<in> set (take 8 (filter (\<lambda>c. c \<noteq> CHR ''-'') s))" for c
  proof -
    have "c \<in> set s" "c \<noteq> CHR ''-''" using in_set_takeD [OF that] by simp_all
    then have "c \<in> set ''0123456789abcdef-''" using assms unfolding uuid_text_def all_in_def list_all_iff by blast
    then show ?thesis using \<open>c \<noteq> CHR ''-''\<close> by simp
  qed
  then have "upper_char c \<in> set ''ABCDEF0123456789''" if "c \<in> set (take 8 (filter (\<lambda>c. c \<noteq> CHR ''-'') s))" for c
    using that by (intro upper_hex)
  then show "set (cluster_tag s) \<subseteq> set ''ABCDEF0123456789''"
    unfolding cluster_tag_def upper_def set_map by (rule image_subsetI)
qed

lemma digit_in_digits: "is_digit c \<longleftrightarrow> c \<in> set digits"
proof -
  have "is_digit c \<longleftrightarrow> (of_char c :: nat) \<in> {48, 49, 50, 51, 52, 53, 54, 55, 56, 57}" unfolding is_digit_def insert_iff empty_iff by arith
  also have "{48, 49, 50, 51, 52, 53, 54, 55, 56, 57 :: nat} = of_char ` set digits" by (simp add: digits_def)
  also have "of_char c \<in> (of_char ` set digits :: nat set) \<longleftrightarrow> c \<in> set digits" by (auto simp: inj_image_mem_iff)
  finally show ?thesis .
qed

lemma length_digits_bound: "n < 10 ^ k \<Longrightarrow> 1 \<le> k \<Longrightarrow> length (digits_of n) \<le> k"
proof (induction n arbitrary: k rule: digits_of.induct)
  case (1 n)
  show ?case
  proof (cases "n < 10")
    case False
    then obtain j where j: "k = Suc j" "1 \<le> j" 
      using 1(2,3) by (cases k; cases "k - 1") auto
    have "n div 10 < 10 ^ j" using 1(2) j by (simp add: less_mult_imp_div_less mult.commute)
    then show ?thesis using 1(1) [OF False _ j(2)] False j by (subst digits_of.simps) simp
  next
    case True
    then show ?thesis using 1(3) by (subst digits_of.simps) simp
  qed
qed

lemma number_chars:
  assumes "0 \<le> n" "n < 10 ^ k" "1 \<le> k"
  shows "set (str_int n) \<subseteq> set digits" "length (str_int n) \<le> k"
proof -
  show "set (str_int n) \<subseteq> set digits" using assms(1) digits_of_digits by (auto simp: str_int_def digit_in_digits)
  have "nat n < 10 ^ k" using assms(1,2) by (simp add: nat_less_iff)
  then show "length (str_int n) \<le> k" using length_digits_bound assms by (simp add: str_int_def)
qed

lemma forbidden_bounds: "list_all (marker_bound 0 keepalived_patterns) FORBIDDEN_CONFIG_MARKERS"
proof -
  have "list_all (marker_bound 0 keepalived_patterns) (take 4 FORBIDDEN_CONFIG_MARKERS)" by code_simp
  moreover have "list_all (marker_bound 0 keepalived_patterns) (drop 4 FORBIDDEN_CONFIG_MARKERS)" by code_simp
  ultimately show ?thesis by (metis append_take_drop_id list_all_append)
qed

lemma required_bounds: "list_all (marker_bound 1 keepalived_patterns) required_markers"
proof -
  have "list_all (marker_bound 1 keepalived_patterns) (take 3 required_markers)" by code_simp
  moreover have "list_all (marker_bound 1 keepalived_patterns) (take 3 (drop 3 required_markers))" by code_simp
  moreover have "list_all (marker_bound 1 keepalived_patterns) (take 3 (drop 3 (drop 3 required_markers)))" by code_simp
  moreover have "list_all (marker_bound 1 keepalived_patterns) (drop 3 (drop 3 (drop 3 required_markers)))" by code_simp
  ultimately show ?thesis by (metis append_take_drop_id list_all_append)
qed

lemma pattern_length: "sum_list (map (\<lambda>p. longest p + 1) keepalived_patterns) \<le> 2000"
  by code_simp

section \<open>What the server renders\<close>

lemma interface_chars: "list_all interface_char s \<Longrightarrow> set s \<subseteq> set ''ABCDEFGHIJKLMNOPQRSTUVWXYZabcdefghijklmnopqrstuvwxyz0123456789_.:-''"
proof -
  have up: "is_upper c \<longleftrightarrow> (of_char c :: nat) \<in> of_char ` set ''ABCDEFGHIJKLMNOPQRSTUVWXYZ''" for c
    unfolding is_upper_def by simp arith
  have lo: "is_lower c \<longleftrightarrow> (of_char c :: nat) \<in> of_char ` set ''abcdefghijklmnopqrstuvwxyz''" for c
    unfolding is_lower_def by simp arith
  have inj: "(of_char c :: nat) \<in> of_char ` A \<longleftrightarrow> c \<in> A" for c A by (auto simp: inj_image_mem_iff)
  have parts: "set ''ABCDEFGHIJKLMNOPQRSTUVWXYZ'' \<union> set ''abcdefghijklmnopqrstuvwxyz'' \<union> set digits \<union> set ''_.:-'' \<subseteq>
      set ''ABCDEFGHIJKLMNOPQRSTUVWXYZabcdefghijklmnopqrstuvwxyz0123456789_.:-''" by (simp add: digits_def)
  show "list_all interface_char s \<Longrightarrow> ?thesis"
    unfolding list_all_iff interface_char_def up lo inj digit_in_digits using parts by blast
qed

lemma rendered_fits:
  assumes "uuid_text pid" "1 \<le> g" "g < 2 ^ 31" "list_all interface_char i" "length i \<le> 15" "1 \<le> r" "r \<le> 255" "1 \<le> p" "p \<le> 254"
    "set v \<subseteq> set ''0123456789./''" "length v \<le> 18"
  shows "list_all2 fits keepalived_patterns (keepalived_lines pid g i r p v allow)"
proof -
  have pid: "fits [Run 36 ''0123456789abcdef-''] pid"
    using assms(1) by (intro fits_run) (auto simp: uuid_text_def all_in_def list_all_iff simp del: set_simps)
  have tag: "fits [Run 8 ''ABCDEF0123456789''] (cluster_tag pid)"
    using cluster_tag_chars [OF assms(1)] by (intro fits_run) simp_all
  have g: "fits [Run 10 digits] (str_int g)" using number_chars [of g 10] assms(2,3) by (intro fits_run) simp_all
  have r: "fits [Run 3 digits] (str_int r)" using number_chars [of r 3] assms(6,7) by (intro fits_run) simp_all
  have p: "fits [Run 3 digits] (str_int p)" using number_chars [of p 3] assms(8,9) by (intro fits_run) simp_all
  have i: "fits [Run 15 ''ABCDEFGHIJKLMNOPQRSTUVWXYZabcdefghijklmnopqrstuvwxyz0123456789_.:-''] i"
    by (rule fits_run [OF assms(5) interface_chars [OF assms(4)]])
  have v: "fits [Run 18 ''0123456789./''] v" by (rule fits_run [OF assms(11,10)])
  have e: "fits [Run 19 '' _3adelmnoprty''] (if allow then ''    preempt_delay 3'' else ''    nopreempt'')"
    by (rule fits_run) simp_all
  show ?thesis
    unfolding keepalived_patterns_def keepalived_lines_def Let_def quoted_def
    by (intro list.rel_intros fits_append fits_literal fits_empty pid tag g r p i v e)
qed

lemma required_contained:
  assumes "m \<in> set required_markers"
  shows "contains m (unlines (keepalived_lines pid g i r p v allow))"
proof -
  let ?ls = "keepalived_lines pid g i r p v allow"
  have "list_all2 (\<lambda>k m. k < length ?ls \<and> contains m (?ls ! k)) [2, 3, 4, 7, 15, 16, 18, 23, 31, 32, 33] required_markers"
    by (simp add: required_markers_def keepalived_lines_def quoted_def KEEPALIVED_HOOK_def)
  note all = this
  obtain j where j: "j < length required_markers" "m = required_markers ! j" using assms by (metis in_set_conv_nth)
  obtain k where k: "k < length ?ls" "contains m (?ls ! k)" using list_all2_nthD2 [OF all j(1)] unfolding j(2) by blast
  show ?thesis by (rule contains_unlines [OF nth_mem [OF k(1)] k(2)])
qed

lemma pattern_ascii: "list_all (\<lambda>p. list_all (\<lambda>c. \<not> digit7 c) (alphabet p)) keepalived_patterns"
  by code_simp

lemma utf8_length_ascii: "list_all (\<lambda>c. \<not> digit7 c) s \<Longrightarrow> utf8_length s = int (length s)"
proof -
  have "(of_char c :: nat) < 128" if "\<not> digit7 c" for c
    using that by (cases c) (simp add: of_char_Char)
  then show "list_all (\<lambda>c. \<not> digit7 c) s \<Longrightarrow> ?thesis"
    by (auto simp: utf8_length_def list_all_iff filter_empty_conv not_le)
qed

lemma rendered_accepted:
  assumes fit: "list_all2 fits keepalived_patterns (keepalived_lines pid g i r p v allow)"
    and doc: "doc = unlines (keepalived_lines pid g i r p v allow)"
  shows "startswith (''# Managed by Kaya High Availability. Do not edit.'' @ [CHR 0x0A]) doc"
    "list_all (\<lambda>c. \<not> digit7 c) doc" "int (length doc) \<le> 2000"
    "list_all (\<lambda>m. \<not> contains m doc) FORBIDDEN_CONFIG_MARKERS" "list_all (\<lambda>m. count_sub m doc = 1) required_markers"
proof -
  show "startswith (''# Managed by Kaya High Availability. Do not edit.'' @ [CHR 0x0A]) doc"
    by (simp add: doc startswith_def keepalived_lines_def unlines_def)
  have "\<not> digit7 c" if "c \<in> set doc" for c
    using set_unlines [OF fit, folded doc, OF that] pattern_ascii by (auto simp: list_all_iff)
  then show "list_all (\<lambda>c. \<not> digit7 c) doc" by (simp add: list_all_iff)
  show "int (length doc) \<le> 2000" using length_unlines [OF fit, folded doc] pattern_length by simp
  show "list_all (\<lambda>m. \<not> contains m doc) FORBIDDEN_CONFIG_MARKERS"
    using forbidden_bounds pattern_excludes [OF fit] by (simp add: doc list_all_iff)
  show "list_all (\<lambda>m. count_sub m doc = 1) required_markers"
    using required_bounds pattern_once [OF fit _ required_contained] by (simp add: doc list_all_iff)
qed

section \<open>The permitted lines\<close>

lemma lines_from_line:
  assumes "list_all (\<lambda>c. \<not> is_break c) l"
  shows "lines_from acc (l @ CHR 0x0A # s) = (rev acc @ l) # lines_from [] s"
  using assms
proof (induction l arbitrary: acc)
  case Nil
  show ?case by (cases s) (simp_all add: is_break_def)
next
  case (Cons c l)
  then have "lines_from acc ((c # l) @ CHR 0x0A # s) = lines_from (c # acc) (l @ CHR 0x0A # s)"
    by (cases l) (auto simp: is_break_def)
  then show ?case using Cons by simp
qed

lemma splitlines_unlines: "list_all (list_all (\<lambda>c. \<not> is_break c)) ls \<Longrightarrow> splitlines (unlines ls) = ls"
  unfolding splitlines_def by (induction ls) (simp_all add: unlines_def lines_from_line)

lemma pattern_unbroken: "list_all (\<lambda>p. list_all (\<lambda>c. \<not> is_break c) (alphabet p)) keepalived_patterns"
  by code_simp

lemma fits_lines_unbroken:
  assumes "list_all2 fits ps ls" "list_all (\<lambda>p. list_all q (alphabet p)) ps"
  shows "list_all (list_all q) ls"
  using assms
proof (induction ps ls rule: list_all2_induct)
  case (Cons p ps l ls)
  then show ?case using fits_alphabet [OF Cons.hyps(1)] by (auto simp: list_all_iff)
qed simp

definition trimmed :: "string \<Rightarrow> bool" where
  "trimmed s \<longleftrightarrow> s \<noteq> [] \<and> \<not> is_space1 (hd s) \<and> \<not> is_space1 (last s)"

lemma strip1_trimmed: "trimmed s \<Longrightarrow> strip1 s = s"
proof -
  assume t: "trimmed s"
  then have "dropWhile is_space1 s = s" by (cases s) (auto simp: trimmed_def)
  moreover have "dropWhile is_space1 (rev s) = rev s" using t by (cases s rule: rev_cases) (auto simp: trimmed_def)
  ultimately show "strip1 s = s" by (simp add: strip_chars_def)
qed

lemma strip1_indented: "trimmed s \<Longrightarrow> list_all is_space1 u \<Longrightarrow> strip1 (u @ s) = s"
proof -
  assume t: "trimmed s" and u: "list_all is_space1 u"
  have "dropWhile is_space1 (u @ s) = dropWhile is_space1 s" using u by (induction u) auto
  then show "strip1 (u @ s) = s" using strip1_trimmed [OF t] by (simp add: strip_chars_def)
qed

lemma parse_int_digits: "parse_int (digits_of n) = Some (int n)"
proof -
  have d: "is_digit c" if "c \<in> set (digits_of n)" for c using digits_of_digits [OF that] .
  then have sp: "\<not> is_space c" if "c \<in> set (digits_of n)" for c using that by (fastforce simp: is_digit_def is_space_def)
  have "dropWhile is_space (digits_of n) = digits_of n" "dropWhile is_space (rev (digits_of n)) = rev (digits_of n)"
    using sp by (simp_all add: dropWhile_eq_self_iff hd_rev)
  then have strip: "strip (digits_of n) = digits_of n" by (simp add: strip_def)
  obtain c cs where c: "digits_of n = c # cs" by (cases "digits_of n") auto
  then have "c \<noteq> CHR ''-''" "c \<noteq> CHR ''+''" using d [of c] by (auto simp: is_digit_def)
  then show ?thesis using scan_digits_digits_of [of False n] strip by (simp add: parse_int_def c)
qed

lemma positive_number: "1 \<le> n \<Longrightarrow> positive_text (str_int n)"
  using hd_digits_of [of "nat n"] digits_of_digits [of _ "nat n"]
  by (auto simp: positive_text_def str_int_def all_in_def list_all_iff digit_in_digits)

lemma bounded_number: "1 \<le> n \<Longrightarrow> n \<le> m \<Longrightarrow> m < 1000 \<Longrightarrow> bounded_text m (str_int n)"
  using positive_number [of n] length_digits_of [of "nat n"] parse_int_digits [of "nat n"]
  by (simp add: bounded_text_def str_int_def)

lemma after_append [simp]: "after p (p @ s) = Some s"
  by (simp add: after_def startswith_def)

lemma safe_cluster_line: "uuid_text pid \<Longrightarrow> 1 \<le> g \<Longrightarrow> cluster_line (''# cluster='' @ pid @ '' generation='' @ str_int g)"
  unfolding cluster_line_def after_append option.case by (simp add: uuid_text_def positive_number del: append_Cons)

lemma safe_tag_line: "uuid_text pid \<Longrightarrow> tag_line p ending (p @ cluster_tag pid @ ending)"
  unfolding tag_line_def after_append option.case using cluster_tag_chars [of pid]
  by (simp add: all_in_def list_all_iff subset_iff del: set_simps)

lemma safe_keyword_line: "k \<in> set ks \<Longrightarrow> ok s \<Longrightarrow> keyword_line ks ok ((k @ '' '') @ s)"
  unfolding keyword_line_def list_ex_iff by (rule bexI [of _ k]) (simp_all only: after_append option.case)

lemma safe_notify: "rl \<in> set [''master'', ''backup'', ''fault''] \<Longrightarrow> 1 \<le> g \<Longrightarrow> notify_text (quoted (KEEPALIVED_HOOK @ '' '' @ rl @ '' '' @ str_int g))"
proof -
  assume rl: "rl \<in> set [''master'', ''backup'', ''fault'']" and g: "1 \<le> g"
  have "quoted (KEEPALIVED_HOOK @ '' '' @ rl @ '' '' @ str_int g) = ([CHR 0x22] @ KEEPALIVED_HOOK @ '' '' @ rl @ '' '') @ (str_int g @ [CHR 0x22])"
    by (simp add: quoted_def)
  then have "after ([CHR 0x22] @ KEEPALIVED_HOOK @ '' '' @ rl @ '' '') (quoted (KEEPALIVED_HOOK @ '' '' @ rl @ '' '' @ str_int g)) = Some (str_int g @ [CHR 0x22])"
    by (simp only: after_append)
  then show "notify_text (quoted (KEEPALIVED_HOOK @ '' '' @ rl @ '' '' @ str_int g))"
    unfolding notify_text_def list_ex_iff using rl positive_number [OF g] by (intro bexI [OF _ rl]) simp
qed

definition stripped_lines :: "string \<Rightarrow> int \<Rightarrow> string \<Rightarrow> int \<Rightarrow> int \<Rightarrow> string \<Rightarrow> bool \<Rightarrow> string list" where
  "stripped_lines public_id generation interface router priority vip allow =
     [''# Managed by Kaya High Availability. Do not edit.'',
      ''# cluster='' @ public_id @ '' generation='' @ str_int generation,
      ''global_defs {'', ''script_user kaya-ha kaya-ha'', ''enable_script_security'', ''}'',
      ''vrrp_script KAYA_DNS_'' @ cluster_tag public_id @ '' {'',
      ''script '' @ quoted ''/usr/lib/kaya-ha-agent/check-pihole-dns'',
      ''interval 2'', ''timeout 2'', ''fall 3'', ''rise 3'', ''}'',
      ''vrrp_instance KAYA_HA_'' @ cluster_tag public_id @ '' {'',
      ''state BACKUP'', ''interface '' @ interface, ''virtual_router_id '' @ str_int router, ''priority '' @ str_int priority,
      ''advert_int 1'', (if allow then ''preempt_delay 3'' else ''nopreempt''), ''virtual_ipaddress {'', vip, ''}'',
      ''track_script {'', ''KAYA_DNS_'' @ cluster_tag public_id, ''}'',
      ''notify_master '' @ quoted (KEEPALIVED_HOOK @ '' master '' @ str_int generation),
      ''notify_backup '' @ quoted (KEEPALIVED_HOOK @ '' backup '' @ str_int generation),
      ''notify_fault '' @ quoted (KEEPALIVED_HOOK @ '' fault '' @ str_int generation), ''}'']"

lemma digit_not_space: "is_digit c \<Longrightarrow> \<not> is_space1 c"
  by (auto simp: is_digit_def is_space1_def is_space_def)

lemma number_trimmed: "0 \<le> n \<Longrightarrow> str_int n \<noteq> [] \<and> \<not> is_space1 (last (str_int n))"
  using digits_of_digits [of "last (digits_of (nat n))" "nat n"] by (auto simp: str_int_def dest: digit_not_space)

lemma strip1_line:
  assumes "s \<noteq> []" "\<not> is_space1 (hd s)" "b \<noteq> []" "\<not> is_space1 (last b)" "list_all is_space1 u"
  shows "strip1 (u @ s @ b) = s @ b"
  using assms by (intro strip1_indented) (simp_all add: trimmed_def)

lemma strip1_rendered:
  assumes "uuid_text pid" "1 \<le> g" "i \<noteq> []" "list_all interface_char i" "1 \<le> r" "1 \<le> p" "trimmed v"
  shows "filter (\<lambda>l. l \<noteq> []) (map strip1 (keepalived_lines pid g i r p v allow)) = stripped_lines pid g i r p v allow"
proof -
  have sp: "list_all is_space1 ''    ''" "list_all is_space1 ''        ''" "list_all is_space1 []" by code_simp+
  have q: "\<not> is_space1 (last (quoted s))" "quoted s \<noteq> []" for s by (simp_all add: quoted_def is_space1_def is_space_def)
  have tag: "cluster_tag pid \<noteq> []" "\<not> is_space1 (last (cluster_tag pid))"
  proof -
    show ne: "cluster_tag pid \<noteq> []" using cluster_tag_chars(1) [OF assms(1)] by auto
    have "list_all (\<lambda>c. \<not> is_space1 c) ''ABCDEF0123456789''" by code_simp
    moreover have "last (cluster_tag pid) \<in> set ''ABCDEF0123456789''" using cluster_tag_chars(2) [OF assms(1)] last_in_set [OF ne] by blast
    ultimately show "\<not> is_space1 (last (cluster_tag pid))" unfolding list_all_iff by blast
  qed
  have il: "\<not> is_space1 (last i)"
  proof -
    have "list_all (\<lambda>c. \<not> is_space1 c) ''ABCDEFGHIJKLMNOPQRSTUVWXYZabcdefghijklmnopqrstuvwxyz0123456789_.:-''" by code_simp
    then show ?thesis using interface_chars [OF assms(4)] last_in_set [OF assms(3)] unfolding list_all_iff by blast
  qed
  have nm: "str_int g \<noteq> []" "\<not> is_space1 (last (str_int g))" "str_int r \<noteq> []" "\<not> is_space1 (last (str_int r))" "str_int p \<noteq> []" "\<not> is_space1 (last (str_int p))"
    using number_trimmed [of g] number_trimmed [of r] number_trimmed [of p] assms(2,5,6) by simp_all
  have lines:
    "strip1 (''# cluster='' @ pid @ '' generation='' @ str_int g) = ''# cluster='' @ pid @ '' generation='' @ str_int g"
    "strip1 (''vrrp_script KAYA_DNS_'' @ cluster_tag pid @ '' {'') = ''vrrp_script KAYA_DNS_'' @ cluster_tag pid @ '' {''"
    "strip1 (''    script '' @ quoted s) = ''script '' @ quoted s"
    "strip1 (''vrrp_instance KAYA_HA_'' @ cluster_tag pid @ '' {'') = ''vrrp_instance KAYA_HA_'' @ cluster_tag pid @ '' {''"
    "strip1 (''    interface '' @ i) = ''interface '' @ i"
    "strip1 (''    virtual_router_id '' @ str_int r) = ''virtual_router_id '' @ str_int r"
    "strip1 (''    priority '' @ str_int p) = ''priority '' @ str_int p"
    "strip1 (''        '' @ v) = v"
    "strip1 (''        KAYA_DNS_'' @ cluster_tag pid) = ''KAYA_DNS_'' @ cluster_tag pid"
    "strip1 (''    notify_master '' @ quoted s) = ''notify_master '' @ quoted s"
    "strip1 (''    notify_backup '' @ quoted s) = ''notify_backup '' @ quoted s"
    "strip1 (''    notify_fault '' @ quoted s) = ''notify_fault '' @ quoted s" for s
    using strip1_line [of "''# cluster=''" "pid @ '' generation='' @ str_int g" "[]"] strip1_line [of "''vrrp_script KAYA_DNS_''" "cluster_tag pid @ '' {''" "[]"]
      strip1_line [of "''script ''" "quoted s" "''    ''"] strip1_line [of "''vrrp_instance KAYA_HA_''" "cluster_tag pid @ '' {''" "[]"]
      strip1_line [of "''interface ''" i "''    ''"] strip1_line [of "''virtual_router_id ''" "str_int r" "''    ''"]
      strip1_line [of "''priority ''" "str_int p" "''    ''"] strip1_indented [OF assms(7) sp(2)]
      strip1_line [of "''KAYA_DNS_''" "cluster_tag pid" "''        ''"] strip1_line [of "''notify_master ''" "quoted s" "''    ''"]
      strip1_line [of "''notify_backup ''" "quoted s" "''    ''"] strip1_line [of "''notify_fault ''" "quoted s" "''    ''"]
      sp q tag il nm assms(3)
    by (simp_all add: is_space1_def is_space_def)
  have fixed: "map strip1 [''# Managed by Kaya High Availability. Do not edit.'', ''global_defs {'', ''    script_user kaya-ha kaya-ha'', ''    enable_script_security'', ''}'', [],
      ''    interval 2'', ''    timeout 2'', ''    fall 3'', ''    rise 3'', ''    state BACKUP'', ''    advert_int 1'', ''    preempt_delay 3'', ''    nopreempt'',
      ''    virtual_ipaddress {'', ''    }'', ''    track_script {''] =
     [''# Managed by Kaya High Availability. Do not edit.'', ''global_defs {'', ''script_user kaya-ha kaya-ha'', ''enable_script_security'', ''}'', [],
      ''interval 2'', ''timeout 2'', ''fall 3'', ''rise 3'', ''state BACKUP'', ''advert_int 1'', ''preempt_delay 3'', ''nopreempt'',
      ''virtual_ipaddress {'', ''}'', ''track_script {'']" by code_simp
  have "v \<noteq> []" using assms(7) by (simp add: trimmed_def)
  then show ?thesis
    using fixed unfolding keepalived_lines_def stripped_lines_def list.map lines if_distrib [of strip1] list.inject by simp
qed

text \<open>The virtual IP with its prefix length, as the server has checked it.\<close>

definition vip_ok :: "string \<Rightarrow> bool" where
  "vip_ok v \<longleftrightarrow> (\<exists>a q n. v = a @ ''/'' @ str_int q \<and> parse_ipv4 a = Some n \<and> 1 \<le> q \<and> q \<le> 32 \<and>
     ipv4_interface v = Some (n, q) \<and> n \<noteq> network_address n q \<and> n \<noteq> broadcast_address n q)"

lemma parse_octet_text: "parse_octet s = Some n \<Longrightarrow> octet_text s"
  by (auto simp: parse_octet_def octet_text_def all_in_def list_all_iff digit_in_digits split: if_splits)

lemma parse_ipv4_octets:
  assumes "parse_ipv4 a = Some n"
  obtains x y z w where "split_on (CHR ''.'') a = [x, y, z, w]" "octet_text x" "octet_text y" "octet_text z" "octet_text w"
  using assms unfolding parse_ipv4_def
  by (auto split: list.splits option.splits simp: map_eq_Cons_conv dest: parse_octet_text)

lemma parse_ipv4_chars:
  assumes "parse_ipv4 a = Some n"
  shows "set a \<subseteq> set digits \<union> {CHR ''.''}" "length a \<le> 15" "a \<noteq> []" "hd a \<in> set digits"
proof -
  obtain x y z w where o4: "split_on (CHR ''.'') a = [x, y, z, w]" "octet_text x" "octet_text y" "octet_text z" "octet_text w"
    using parse_ipv4_octets [OF assms] .
  have "a = join [CHR ''.''] (split_on (CHR ''.'') a)" by simp
  then have a: "a = x @ ''.'' @ y @ ''.'' @ z @ ''.'' @ w" by (simp add: o4(1))
  show "set a \<subseteq> set digits \<union> {CHR ''.''}" "length a \<le> 15"
    using o4(2-5) unfolding a octet_text_def all_in_def list_all_iff by auto
  show "a \<noteq> []" "hd a \<in> set digits" using o4(2) unfolding a octet_text_def all_in_def list_all_iff by (auto simp del: set_simps)
qed

lemma vip_ok_chars:
  assumes "vip_ok v"
  shows "set v \<subseteq> set ''0123456789./''" "length v \<le> 18" "trimmed v" "hd v \<in> set digits" "CHR ''/'' \<in> set v" "vip_line v"
proof -
  obtain a q n where v: "v = a @ ''/'' @ str_int q" and a: "parse_ipv4 a = Some n" and q: "1 \<le> q" "q \<le> 32"
    using assms by (auto simp: vip_ok_def)
  note ch = parse_ipv4_chars [OF a]
  have qn: "set (str_int q) \<subseteq> set digits" "length (str_int q) \<le> 2" using number_chars [of q 2] q by simp_all
  have "set digits \<union> {CHR ''.'', CHR ''/''} \<subseteq> set ''0123456789./''" by (simp add: digits_def)
  moreover have "set v \<subseteq> set digits \<union> {CHR ''.'', CHR ''/''}" using ch(1) qn(1) unfolding v by auto
  ultimately show "set v \<subseteq> set ''0123456789./''" by blast
  show "length v \<le> 18" using ch(2) qn(2) by (simp add: v)
  show hd: "hd v \<in> set digits" using ch(3,4) by (simp add: v)
  show "trimmed v" using hd digit_not_space number_trimmed [of q] q ch(3) unfolding trimmed_def v by (simp add: digit_in_digits)
  show "CHR ''/'' \<in> set v" by (simp add: v)
  have no: "CHR ''/'' \<notin> set a" "CHR ''/'' \<notin> set (str_int q)" using ch(1) qn(1) by (auto simp: digits_def)
  have "split_on (CHR ''/'') v = [a, str_int q]"
    using split_on_append [OF no(1)] split_on_id [OF no(2)] by (simp add: v)
  moreover obtain x y z w where "split_on (CHR ''.'') a = [x, y, z, w]" "octet_text x" "octet_text y" "octet_text z" "octet_text w"
    using parse_ipv4_octets [OF a] .
  ultimately show "vip_line v"
    using bounded_number [of q 32] q by (simp add: vip_line_def)
qed

end
