(* ===== verification/HA_Keepalived_Props.thy ===== *)
theory HA_Keepalived_Props
  imports HA_Keepalived_Text
begin

text \<open>
  What the server renders passes every check on its way: the agent's count of markers, the helper's list of permitted lines, and
  the server's own check of the result. The transaction of the helper restores both files when it fails, unless the backup itself failed.
\<close>

section \<open>The helper accepts what the server renders\<close>

lemma fixed_lines_safe:
  "list_all SAFE_LINES
     [''# Managed by Kaya High Availability. Do not edit.'', ''global_defs {'', ''script_user kaya-ha kaya-ha'', ''enable_script_security'',
      ''}'', ''script '' @ quoted ''/usr/lib/kaya-ha-agent/check-pihole-dns'', ''interval 2'', ''timeout 2'', ''fall 3'', ''rise 3'',
      ''state BACKUP'', ''advert_int 1'', ''preempt_delay 3'', ''nopreempt'', ''virtual_ipaddress {'', ''track_script {'']"
  by code_simp

lemma stripped_lines_safe:
  assumes "uuid_text pid" "1 \<le> g" "INTERFACE_PATTERN i" "1 \<le> r" "r \<le> 255" "1 \<le> p" "p \<le> 254" "vip_ok v"
  shows "list_all SAFE_LINES (stripped_lines pid g i r p v allow)"
proof -
  have c: "SAFE_LINES (''# cluster='' @ pid @ '' generation='' @ str_int g)"
    using safe_cluster_line [OF assms(1,2)] unfolding SAFE_LINES_def by blast
  have t: "SAFE_LINES (''vrrp_script KAYA_DNS_'' @ cluster_tag pid @ '' {'')" "SAFE_LINES (''vrrp_instance KAYA_HA_'' @ cluster_tag pid @ '' {'')"
    using safe_tag_line [OF assms(1)] unfolding SAFE_LINES_def by blast+
  have t0: "SAFE_LINES (''KAYA_DNS_'' @ cluster_tag pid)"
    using safe_tag_line [OF assms(1), of "''KAYA_DNS_''" "[]"] unfolding SAFE_LINES_def append_Nil2 by blast
  have i: "SAFE_LINES (''interface '' @ i)"
    using safe_keyword_line [of "''interface''" "[''interface'']" INTERFACE_PATTERN i] assms(3) unfolding SAFE_LINES_def by simp
  have r: "SAFE_LINES (''virtual_router_id '' @ str_int r)"
    using safe_keyword_line [of "''virtual_router_id''" "[''virtual_router_id'']" "bounded_text 255" "str_int r"] bounded_number [OF assms(4,5)]
    unfolding SAFE_LINES_def by simp
  have p: "SAFE_LINES (''priority '' @ str_int p)"
    using safe_keyword_line [of "''priority''" "[''priority'']" "bounded_text 254" "str_int p"] bounded_number [OF assms(6,7)]
    unfolding SAFE_LINES_def by simp
  have v: "SAFE_LINES v" using vip_ok_chars(6) [OF assms(8)] unfolding SAFE_LINES_def by blast
  have n: "SAFE_LINES (''notify_'' @ rl @ '' '' @ quoted (KEEPALIVED_HOOK @ '' '' @ rl @ '' '' @ str_int g))"
    if "rl \<in> set [''master'', ''backup'', ''fault'']" for rl
  proof -
    have "''notify_'' @ rl \<in> set [''notify_master'', ''notify_backup'', ''notify_fault'']" using that by auto
    from safe_keyword_line [OF this, of notify_text, OF safe_notify [OF that assms(2)]] show ?thesis
      unfolding SAFE_LINES_def by simp
  qed
  show ?thesis
    using fixed_lines_safe c t t0 i r p v n [of "''master''"] n [of "''backup''"] n [of "''fault''"]
    unfolding stripped_lines_def by simp
qed

lemma rendered_document:
  assumes pid: "uuid_text pid" and g: "1 \<le> g" "g < 2 ^ 31" and i: "INTERFACE_PATTERN i" "length i \<le> 15"
    and r: "1 \<le> r" "r \<le> 255" and p: "1 \<le> p" "p \<le> 254" and v: "vip_ok v"
  shows "validate_managed_document (Some (unlines (keepalived_lines pid g i r p v allow)))"
proof -
  let ?ls = "stripped_lines pid g i r p v allow"
  have ic: "list_all interface_char i" "i \<noteq> []" using i by (simp_all add: INTERFACE_PATTERN_def)
  have fit: "list_all2 fits keepalived_patterns (keepalived_lines pid g i r p v allow)"
    by (rule rendered_fits [OF pid g ic(1) i(2) r p vip_ok_chars(1,2) [OF v]])
  have lines: "filter (\<lambda>l. l \<noteq> []) (map strip1 (splitlines (unlines (keepalived_lines pid g i r p v allow)))) = ?ls"
    using splitlines_unlines [OF fits_lines_unbroken [OF fit pattern_unbroken]]
      strip1_rendered [OF pid g(1) ic(2,1) r(1) p(1) vip_ok_chars(3) [OF v]] by simp
  obtain d v' where d: "v = d # v'" "d \<in> set digits" using vip_ok_chars(3,4) [OF v] by (cases v) (auto simp: trimmed_def)
  have dn: "d \<noteq> CHR ''v''" "d \<noteq> CHR ''s''" "d \<noteq> CHR ''n''" "d \<noteq> CHR ''g''" "d \<noteq> CHR ''e''" using d(2) by (auto simp: digits_def)
  have counts: "length (filter (startswith ''vrrp_instance '') ?ls) = 1" "length (filter (startswith ''vrrp_script '') ?ls) = 1"
    "length (filter (\<lambda>l. l = ''global_defs {'') ?ls) = 1" "length (filter (\<lambda>l. l = ''script_user kaya-ha kaya-ha'') ?ls) = 1"
    "length (filter (\<lambda>l. l = ''enable_script_security'') ?ls) = 1"
    "length (filter (startswith ''notify_master '') ?ls) = 1" "length (filter (startswith ''notify_backup '') ?ls) = 1"
    "length (filter (startswith ''notify_fault '') ?ls) = 1"
    using dn by (auto simp: stripped_lines_def startswith_def d(1))
  have slash: "CHR ''/'' \<notin> set pid" "CHR ''/'' \<notin> set (cluster_tag pid)" "CHR ''/'' \<notin> set i" "CHR ''/'' \<notin> set (str_int g)"
    "CHR ''/'' \<notin> set (str_int r)" "CHR ''/'' \<notin> set (str_int p)"
  proof -
    have num: "CHR ''/'' \<notin> set digits" by (simp add: digits_def)
    have "CHR ''/'' \<notin> set ''0123456789abcdef-''" "CHR ''/'' \<notin> set ''ABCDEF0123456789''"
      "CHR ''/'' \<notin> set ''ABCDEFGHIJKLMNOPQRSTUVWXYZabcdefghijklmnopqrstuvwxyz0123456789_.:-''" by simp_all
    then show "CHR ''/'' \<notin> set pid" "CHR ''/'' \<notin> set (cluster_tag pid)" "CHR ''/'' \<notin> set i"
      using pid cluster_tag_chars(2) [OF pid] interface_chars [OF ic(1)] unfolding uuid_text_def all_in_def list_all_iff by blast+
    show "CHR ''/'' \<notin> set (str_int g)" "CHR ''/'' \<notin> set (str_int r)" "CHR ''/'' \<notin> set (str_int p)"
      using num number_chars(1) [of g 10] number_chars(1) [of r 3] number_chars(1) [of p 3] g r p by auto
  qed
  have vips: "filter (\<lambda>l. CHR ''/'' \<in> set l \<and> \<not> startswith ''script '' l \<and> \<not> startswith ''notify_'' l) ?ls = [v]"
    using dn slash vip_ok_chars(5) [OF v] by (auto simp: stripped_lines_def startswith_def d(1))
  have usable: "case ipv4_interface v of None \<Rightarrow> False | Some (n, q) \<Rightarrow> n \<noteq> network_address n q \<and> n \<noteq> broadcast_address n q"
    using v by (auto simp: vip_ok_def)
  have "?ls \<noteq> []" by (simp add: stripped_lines_def)
  then show ?thesis
    using stripped_lines_safe [OF pid g(1) i(1) r p v, of allow] counts usable
    by (simp add: validate_managed_document_def lines vips Let_def)
qed

section \<open>What the server has checked\<close>

lemma not_in_number: "c \<noteq> CHR ''-'' \<Longrightarrow> \<not> is_digit c \<Longrightarrow> c \<notin> set (str_int q)"
  by (auto simp: str_int_def dest: digits_of_digits)

lemma prefix_of_number:
  assumes "ipv4_prefix (str_int q) = Some m" "q \<noteq> 0"
  shows "m = q \<and> 1 \<le> q \<and> q \<le> 32"
proof -
  have dot: "CHR ''.'' \<notin> set (str_int q)"
    by (rule not_in_number) (simp_all add: is_digit_def)
  then have none: "parse_ipv4 (str_int q) = None"
    using split_on_id [OF dot] by (simp add: parse_ipv4_def split: option.splits)
  then have p: "prefix_string 32 (str_int q) = Some m" using assms(1) by (simp add: ipv4_prefix_def split: option.splits)
  have "\<not> q < 0"
  proof
    assume "q < 0"
    then have "CHR ''-'' \<in> set (str_int q)" by (simp add: str_int_def)
    then show False using p by (auto simp: prefix_string_def list_all_iff is_digit_def split: if_splits)
  qed
  then have "str_int q = digits_of (nat q)" by (simp add: str_int_def)
  then show ?thesis
    using p assms(2) \<open>\<not> q < 0\<close> by (auto simp: prefix_string_def foldl_digits_of Let_def split: if_splits)
qed

lemma vip_text_ok:
  assumes "vip_text c = Some v" "ipv4_interface v = Some (n, m)" "n \<noteq> network_address n m" "n \<noteq> broadcast_address n m"
  shows "vip_ok v"
proof -
  obtain a q where v: "v = a @ ''/'' @ str_int q" and q: "q \<noteq> 0"
    using assms(1) by (auto simp: vip_text_def split: option.splits if_splits)
  have noslash: "CHR ''/'' \<notin> set (str_int q)"
    by (rule not_in_number) (simp_all add: is_digit_def)
  have "CHR ''/'' \<notin> set a"
  proof
    assume "CHR ''/'' \<in> set a"
    then obtain x y where a: "a = x @ CHR ''/'' # y" "CHR ''/'' \<notin> set x" by (metis split_list_first)
    have "split_on (CHR ''/'') v = x # split_on (CHR ''/'') (y @ CHR ''/'' # str_int q)"
      using split_on_append [OF a(2)] by (simp add: v a(1))
    moreover have "2 \<le> length (split_on (CHR ''/'') (y @ CHR ''/'' # str_int q))"
      by (induction y) (auto simp: Suc_le_eq split: list.splits)
    ultimately show False using assms(2) by (auto simp: ipv4_interface_def split: list.splits)
  qed
  then have "split_on (CHR ''/'') v = [a, str_int q]"
    using split_on_append split_on_id [OF noslash] by (simp add: v)
  then have "parse_ipv4 a = Some n" "ipv4_prefix (str_int q) = Some m"
    using assms(2) by (auto simp: ipv4_interface_def split: option.splits)
  with prefix_of_number [OF this(2) q] show ?thesis
    unfolding vip_ok_def using assms(2-4) v by (intro exI [of _ a] exI [of _ q] exI [of _ n]) simp
qed

lemma validate_network_ok:
  assumes "validate_network c None = None"
  shows "(\<exists>v. vip_text c = Some v \<and> vip_ok v) \<and> (\<exists>r. vrrp_router_id c = Some r \<and> 1 \<le> r \<and> r \<le> 255) \<and>
    (\<forall>n \<in> set (nodes c). \<exists>i. network_interface n = Some i \<and> INTERFACE_PATTERN i)"
proof -
  obtain v n m where v: "vip_text c = Some v" "ipv4_interface v = Some (n, m)" "n \<noteq> network_address n m" "n \<noteq> broadcast_address n m"
    and f: "find bad_interface (nodes c) = None" and r: "\<exists>r. vrrp_router_id c = Some r \<and> 1 \<le> r \<and> r \<le> 255"
    using assms unfolding validate_network_def by (auto split: if_splits option.splits sum.splits)
  have "\<forall>n \<in> set (nodes c). \<exists>i. network_interface n = Some i \<and> INTERFACE_PATTERN i"
    using f by (auto simp: find_None_conv bad_interface_def split: option.splits)
  then show ?thesis using v(1) vip_text_ok [OF v] r by blast
qed

text \<open>A rendered configuration of a deployable node, with everything that the validators need to know about its parts.\<close>

lemma render_parts:
  assumes "render_keepalived_config sha c n allow = Inr k"
  obtains i r p v where "kc_content k = unlines (keepalived_lines (cluster_public_id c) (keepalived_generation c) i r p v allow)"
    "kc_checksum k = sha (kc_content k)" "network_interface n = Some i" "INTERFACE_PATTERN i" "1 \<le> r" "r \<le> 255" "1 \<le> p" "p \<le> 254" "vip_ok v"
proof -
  have net: "validate_network c None = None" using assms by (auto simp: render_keepalived_config_def split: option.splits)
  obtain p i r v where parts: "vrrp_priority n = Some p" "network_interface n = Some i" "vrrp_router_id c = Some r" "vip_text c = Some v"
      "n \<in> set (nodes c)" "1 \<le> p" "p \<le> 254"
      "k = \<lparr>kc_content = unlines (keepalived_lines (cluster_public_id c) (keepalived_generation c) i r p v allow),
            kc_checksum = sha (unlines (keepalived_lines (cluster_public_id c) (keepalived_generation c) i r p v allow))\<rparr>"
    using assms net by (auto simp: render_keepalived_config_def Let_def split: option.splits if_splits)
  then show ?thesis using validate_network_ok [OF net] that [of i r p v] by auto
qed

section \<open>The whole way\<close>

text \<open>What the deployment relies on: a cluster with a UUID, a generation that fits its column, and an interface name that Linux can have.\<close>

definition deployable :: "ha_cluster \<Rightarrow> ha_node \<Rightarrow> bool" where
  "deployable c n \<longleftrightarrow> uuid_text (cluster_public_id c) \<and> 1 \<le> keepalived_generation c \<and> keepalived_generation c < 2 ^ 31 \<and>
     (case network_interface n of None \<Rightarrow> True | Some i \<Rightarrow> length i \<le> 15)"

lemma desired_action_accepted:
  assumes act: "desired_keepalived_action sha c n = Inr (Some act)" and dep: "deployable c n"
  shows "validate_desired_configuration sha act = None \<and> validate_managed_document (Some (ka_configuration act)) \<and>
    list_all (\<lambda>ch. \<not> digit7 ch) (ka_configuration act) \<and> int (length (ka_configuration act)) \<le> 2000 \<and>
    ka_generation act = keepalived_generation c"
proof -
  obtain k where k: "render_keepalived_config sha c n (controlled_preemption_target c = Some (node_id n)) = Inr k"
    and a: "ka_configuration act = kc_content k" "ka_checksum act = kc_checksum k" "ka_action_type act = ''KEEPALIVED_APPLY''"
      "ka_dhcp_transition act = ''DISABLED''" "ka_generation act = keepalived_generation c"
    using act by (auto simp: desired_keepalived_action_def split: if_splits sum.splits)
  let ?allow = "controlled_preemption_target c = Some (node_id n)"
  obtain i r p v where parts: "kc_content k = unlines (keepalived_lines (cluster_public_id c) (keepalived_generation c) i r p v ?allow)"
      "kc_checksum k = sha (kc_content k)" "network_interface n = Some i" "INTERFACE_PATTERN i" "1 \<le> r" "r \<le> 255" "1 \<le> p" "p \<le> 254" "vip_ok v"
    using render_parts [OF k] .
  have d: "uuid_text (cluster_public_id c)" "1 \<le> keepalived_generation c" "keepalived_generation c < 2 ^ 31" "length i \<le> 15"
    using dep parts(3) by (simp_all add: deployable_def)
  have ic: "list_all interface_char i" using parts(4) by (simp add: INTERFACE_PATTERN_def)
  have fit: "list_all2 fits keepalived_patterns (keepalived_lines (cluster_public_id c) (keepalived_generation c) i r p v ?allow)"
    by (rule rendered_fits [OF d(1-3) ic d(4) parts(5-8) vip_ok_chars(1,2) [OF parts(9)]])
  note ok = rendered_accepted [OF fit parts(1)]
  have "\<not> list_ex (\<lambda>m. contains m (kc_content k)) FORBIDDEN_CONFIG_MARKERS" "\<not> list_ex (\<lambda>m. count_sub m (kc_content k) \<noteq> 1) required_markers"
    using ok(4,5) by (auto simp: list_all_iff list_ex_iff)
  then have "validate_desired_configuration sha act = None"
    using ok(1,3) utf8_length_ascii [OF ok(2)] a parts(2) by (simp add: validate_desired_configuration_def)
  moreover have "validate_managed_document (Some (kc_content k))"
    unfolding parts(1) by (rule rendered_document [OF d(1-3) parts(4) d(4) parts(5-9)])
  ultimately show ?thesis using ok(2,3) a by simp
qed

text \<open>
  C18. What the server renders is accepted on the node. A configuration that Kaya hands to an agent passes the agent's checks (header, size, forbidden
  and required markers, checksum) and the line-by-line check of the root helper, whatever cluster, node, generation and preemption it is
  rendered for; the cluster identifier is a UUID and the interface name has at most fifteen characters.
\<close>

theorem rendered_configuration_is_accepted:
  assumes "desired_keepalived_action sha c n = Inr (Some act)" "deployable c n"
  shows "validate_desired_configuration sha act = None \<and> validate_managed_document (Some (ka_configuration act))"
  using desired_action_accepted [OF assms] by blast

text \<open>
  C19. A deployment goes through. When the files can be written, Keepalived accepts the configuration and reloads, and the agent has no newer generation, then
  the desired action of a node ends with the rendered text in the target file, the include in the main file, the new generation in the agent's store, and a
  result that the server accepts: the node is deployed in that generation.
\<close>

theorem deployment_goes_through:
  assumes "desired_keepalived_action sha c n = Inr (Some act)" "deployable c n" "n \<in> set (nodes c)"
    and decode: "\<And>s. list_all (\<lambda>ch. \<not> digit7 ch) s \<Longrightarrow> decode s = Some s"
    and files: "\<not> backup_target_fails f" "\<not> backup_main_fails f" "\<not> write_target_fails f" "\<not> write_main_fails f" "activation_failure f = None"
    and older: "py_int (get_value a ''config_generation'' (JInt 0)) = Some old" "old < keepalived_generation c"
  shows "\<exists>h' out a' res c'. helper_apply f decode ref (ka_configuration act) h = (h', out) \<and>
    apply_desired_keepalived sha (\<lambda>doc. Some (snd (helper_apply f decode ref doc h))) act a = (a', Inr res) \<and>
    record_keepalived_result sha c n res = Inr c' \<and> target_conf h' = Some (ka_configuration act) \<and>
    (\<exists>m. main_conf h' = Some m \<and> (included m \<or> m = with_include (case main_conf h of None \<Rightarrow> [] | Some t \<Rightarrow> t))) \<and>
    store a' ''config_generation'' = Some (JInt (keepalived_generation c)) \<and>
    (\<exists>m \<in> set (nodes c'). node_id m = node_id n \<and> node_keepalived_status m = ''DEPLOYED'' \<and> config_generation m = keepalived_generation c)"
proof -
  note acc = desired_action_accepted [OF assms(1,2)]
  let ?doc = "ka_configuration act"
  have dec: "decode ?doc = Some ?doc" using acc decode by blast
  obtain h' where inst: "install f ?doc h = (h', target_conf h \<noteq> None, main_conf h \<noteq> None, None)"
    and h': "target_conf h' = Some ?doc" "\<exists>m. main_conf h' = Some m \<and> (included m \<or> m = with_include (case main_conf h of None \<Rightarrow> [] | Some t \<Rightarrow> t))"
    using files by (auto simp: install_def Let_def included_def splitlines_def split: option.splits)
  define out where "out = snd (helper_apply f decode ref ?doc h)"
  have hlp: "helper_apply f decode ref ?doc h = (h', out)" "returncode out = 0" "printed out = Some [(''ok'', JBool True),
      (''message'', JStr ''Keepalived configuration validated and activated.''), (''backup_reference'', JStr ref)]"
    using acc dec inst by (simp_all add: out_def helper_apply_def)
  define res where "res = \<lparr>kr_action_id = ka_action_id act, kr_generation = ka_generation act, kr_status = ''APPLIED'',
    kr_checksum = Some (ka_checksum act), kr_backup_reference = JStr ref, kr_message = ''Generated Keepalived configuration validated and activated.''\<rparr>"
  obtain a' where ap: "apply_desired_keepalived sha (\<lambda>doc. Some (snd (helper_apply f decode ref doc h))) act a = (a', Inr res)"
    and st: "store a' ''config_generation'' = Some (JInt (keepalived_generation c))"
    using acc older hlp by (simp add: apply_desired_keepalived_def out_def [symmetric] obj_get_def put_value_def res_def)
  let ?c1 = "update_node (node_id n) (deployed_node res) c"
  obtain c' where rc: "record_keepalived_result sha c n res = Inr c'" and same: "nodes c' = nodes ?c1"
    using assms(1) by (auto simp: record_keepalived_result_def res_def Let_def)
  have "deployed_node res n \<in> set (nodes c')" using assms(3) by (auto simp: same)
  moreover have "node_id (deployed_node res n) = node_id n" "node_keepalived_status (deployed_node res n) = ''DEPLOYED''"
    "config_generation (deployed_node res n) = keepalived_generation c"
    using acc by (simp_all add: deployed_node_def res_def Let_def)
  ultimately show ?thesis using hlp(1) ap rc h' st by blast
qed

text \<open>
  A failed installation is undone. When the helper reports a failure, at whatever step it occurred, both files are as they were before, provided that the backups
  could be taken and restored.
\<close>

theorem failed_installation_is_undone:
  assumes "helper_apply f decode ref doc h = (h', out)" "returncode out \<noteq> 0"
    and "\<not> backup_target_fails f" "\<not> backup_main_fails f" "\<not> restore_target_fails f" "\<not> restore_main_fails f"
  shows "h' = h"
  using assms by (auto simp: helper_apply_def install_def restore_def Let_def split: if_splits option.splits prod.splits)

text \<open>
  Stale orders change nothing. An order of an older generation is refused without running the helper and leaves the store alone; no order, whatever its
  outcome, ever lowers the stored generation, and the store changes only together with a result APPLIED of exactly the generation of the order.
\<close>

theorem keepalived_generations_rise:
  assumes "apply_desired_keepalived sha helper act a = (a', res)" "py_int (get_value a ''config_generation'' (JInt 0)) = Some old"
  shows "(ka_generation act < old \<longrightarrow> a' = a \<and> res = Inl (RuntimeRejected ''Rejected stale Keepalived generation.'')) \<and>
    (\<exists>new. py_int (get_value a' ''config_generation'' (JInt 0)) = Some new \<and> old \<le> new) \<and>
    (a' \<noteq> a \<longrightarrow> (\<exists>r. res = Inr r \<and> kr_status r = ''APPLIED'' \<and> kr_generation r = ka_generation act \<and>
       py_int (get_value a' ''config_generation'' (JInt 0)) = Some (ka_generation act) \<and> validate_desired_configuration sha act = None))"
  using assms unfolding apply_desired_keepalived_def
  by (auto simp: get_value_def put_value_def split: if_splits option.splits config_problem.splits)

section \<open>A reference deployment\<close>

definition demo_sha :: "string \<Rightarrow> string" where
  "demo_sha s = take 8 s"

definition demo_deployment :: ha_cluster where
  "demo_deployment = (reference_cluster 0)\<lparr>cluster_public_id := ''0123abcd-0000-4000-8000-00000000cafe'', keepalived_status := ''PENDING_AGENT'',
     nodes := [(serving_node 1 ''a'' 0)\<lparr>management_host := Some ''10.0.0.2'', node_keepalived_status := ''PENDING_AGENT''\<rparr>,
               (standby_node 2 ''b'' 0)\<lparr>management_host := Some ''10.0.0.3'', node_keepalived_status := ''PENDING_AGENT''\<rparr>]\<rparr>"

definition demo_target :: ha_node where
  "demo_target = hd (nodes demo_deployment)"

definition demo_action :: keepalived_action where
  "demo_action = (case desired_keepalived_action demo_sha demo_deployment demo_target of Inr (Some act) \<Rightarrow> act)"

definition calm :: host_faults where
  "calm = \<lparr>backup_target_fails = False, backup_main_fails = False, write_target_fails = False, write_main_fails = False,
     restore_target_fails = False, restore_main_fails = False, config_test = Some 0, reload = Some 0, restart = Some 0, diagnostic = [], os_error = ''disk full''\<rparr>"

definition demo_agent :: agent where
  "demo_agent = \<lparr>store = (\<lambda>_. None), commands = [], agent_events = []\<rparr>"

definition demo_host :: host where
  "demo_host = \<lparr>main_conf = Some ''global_defs {}'', target_conf = Some ''# old''\<rparr>"

lemma demo_desired: "desired_keepalived_action demo_sha demo_deployment demo_target = Inr (Some demo_action)"
proof -
  have "\<exists>act. desired_keepalived_action demo_sha demo_deployment demo_target = Inr (Some act)"
  proof -
    have "validate_network demo_deployment None = None" by code_simp
    then have "isl (render_keepalived_config demo_sha demo_deployment demo_target (controlled_preemption_target demo_deployment = Some 1)) = False"
      by (simp add: render_keepalived_config_def demo_target_def demo_deployment_def reference_cluster_def serving_node_def standby_node_def vip_text_def Let_def)
    then show ?thesis
      by (cases "render_keepalived_config demo_sha demo_deployment demo_target (controlled_preemption_target demo_deployment = Some 1)")
         (simp_all add: desired_keepalived_action_def demo_target_def demo_deployment_def reference_cluster_def serving_node_def standby_node_def)
  qed
  then show ?thesis by (auto simp: demo_action_def)
qed

lemma demo_deployable: "deployable demo_deployment demo_target"
  by code_simp

theorem rendered_configuration_is_accepted_witness:
  "validate_desired_configuration demo_sha demo_action = None \<and> validate_managed_document (Some (ka_configuration demo_action))"
  by (rule rendered_configuration_is_accepted [OF demo_desired demo_deployable])

theorem deployment_goes_through_witness:
  "\<exists>h' out. helper_apply calm Some ''ref'' (ka_configuration demo_action) demo_host = (h', out) \<and> target_conf h' = Some (ka_configuration demo_action)"
proof -
  have "demo_target \<in> set (nodes demo_deployment)" by (simp add: demo_target_def demo_deployment_def)
  moreover have "py_int (get_value demo_agent ''config_generation'' (JInt 0)) = Some 0" by (simp add: demo_agent_def get_value_def)
  moreover have "0 < keepalived_generation demo_deployment" by (simp add: demo_deployment_def reference_cluster_def)
  ultimately show ?thesis
    using deployment_goes_through [OF demo_desired demo_deployable, where decode = Some and f = calm and a = demo_agent and old = 0 and ref = "''ref''" and h = demo_host]
    by (auto simp: calm_def activation_failure_def)
qed

theorem failed_installation_is_undone_witness:
  "fst (helper_apply (calm\<lparr>reload := Some 1, restart := Some 1\<rparr>) Some ''ref'' (ka_configuration demo_action) demo_host) = demo_host"
proof -
  let ?f = "calm\<lparr>reload := Some 1, restart := Some 1\<rparr>"
  obtain h' out where h: "helper_apply ?f Some ''ref'' (ka_configuration demo_action) demo_host = (h', out)" by (rule prod.exhaust)
  have "returncode out \<noteq> 0"
    using h by (auto simp: helper_apply_def install_def activation_failure_def calm_def Let_def split: if_splits)
  then have "h' = demo_host" using failed_installation_is_undone [OF h] by (simp add: calm_def)
  then show ?thesis by (simp only: h fst_conv)
qed

theorem keepalived_generations_rise_witness:
  "snd (apply_desired_keepalived demo_sha (\<lambda>_. None) demo_action (put_value ''config_generation'' (JInt 7) demo_agent)) =
     Inl (RuntimeRejected ''Rejected stale Keepalived generation.'')"
proof -
  obtain a' res where r: "apply_desired_keepalived demo_sha (\<lambda>_. None) demo_action (put_value ''config_generation'' (JInt 7) demo_agent) = (a', res)"
    by (rule prod.exhaust)
  have "py_int (get_value (put_value ''config_generation'' (JInt 7) demo_agent) ''config_generation'' (JInt 0)) = Some 7"
    by (simp add: put_value_def get_value_def)
  moreover have "ka_generation demo_action < 7"
    using desired_action_accepted [OF demo_desired demo_deployable] by (simp add: demo_deployment_def reference_cluster_def)
  ultimately show ?thesis using keepalived_generations_rise [OF r, of 7] by (simp add: r)
qed

text \<open>
  A failed backup deletes the configuration. When the backup of the installed file cannot be written (for instance because the disk is full), the
  handler takes the missing backup for a missing file: it removes both the installed file and the main configuration of Keepalived, which were
  intact, and reloads the service without them.
\<close>

theorem failed_backup_deletes_configuration:
  "fst (helper_apply (calm\<lparr>backup_target_fails := True\<rparr>) Some ''ref'' (ka_configuration demo_action) demo_host) = \<lparr>main_conf = None, target_conf = None\<rparr>"
  using desired_action_accepted [OF demo_desired demo_deployable]
  by (simp add: helper_apply_def install_def restore_def calm_def demo_host_def Let_def)

end
