(* ===== verification/HA_Maintenance.thy ===== *)
theory HA_Maintenance
  imports HA_Recovery HA_Failover HA_Leases Kaya_Json
begin

text \<open>
  The repair workflows of a cluster (\<open>app/services/ha_maintenance.py\<close>): the inspection of stored against observed state, the reconciliation of
  stored state, the configuration-only repair of DHCP (self-heal) with its failure latch, and the reinitialisation of a cluster as a sequence of
  persisted phases. A run is a row of the cluster; an operation returns the cluster with the row written. One reading of the clock stands for
  the readings of one operation. Reading and writing Pi-hole configuration (\<open>ha_sync.py\<close>) and the lease inspection are arguments.
  Log output and audit rows are left out.
\<close>

section \<open>Reports of the agents\<close>

record agent_report =
  ar_event_id :: string
  ar_node :: int
  ar_type :: string
  ar_details :: "(string \<times> json) list"
  ar_occurred_at :: time
  ar_received_at :: time

definition reported_generation :: "agent_report \<Rightarrow> int option" where
  "reported_generation e = py_int (obj_get_default (ar_details e) ''generation'' (JInt (-1)))"

section \<open>Constants and small predicates\<close>

datatype maintenance_error = HAMaintenanceError string | MissingPeer

definition RECOVERY_PROGRESS_TIMEOUT :: time where
  "RECOVERY_PROGRESS_TIMEOUT = minutes 5"

definition ACTIVE_STATUSES :: "maintenance_state list" where
  "ACTIVE_STATUSES = [M_RUNNING, M_PAUSED]"

definition REINITIALISATION_PHASES :: "maintenance_phase list" where
  "REINITIALISATION_PHASES = [WAITING_FOR_REPORTS, BACKING_UP, SYNCHRONISING, STAGING_DHCP, WAITING_FOR_DHCP_STAGE, NORMALISING_STANDBY,
     DEMOTING_STANDBY, VERIFYING_DHCP_RELEASE, REBUILDING_HA, WAITING_FOR_VIP, PROMOTING_ACTIVE, VERIFYING_DHCP_ACTIVATION, VERIFYING,
     MAINTENANCE_COMPLETE]"

definition DHCP_SELF_HEAL_PHASES :: "maintenance_phase list" where
  "DHCP_SELF_HEAL_PHASES = [REPAIRING_DHCP, VERIFYING_DHCP_REPAIR, MAINTENANCE_COMPLETE]"

text \<open>Versions are compared as tuples of any length, here as lists in lexicographic order.\<close>

definition DHCP_SELF_HEAL_AGENT_VERSION :: "int list" where
  "DHCP_SELF_HEAL_AGENT_VERSION = [0, 2, 11]"

definition version_tuple :: "string option \<Rightarrow> int list" where
  "version_tuple v = (case those (map parse_int (split_on (CHR ''.'') (opt_text_or v []))) of None \<Rightarrow> [] | Some parts \<Rightarrow> parts)"

definition DHCP_OWNER_STABILITY_SECONDS :: int where
  "DHCP_OWNER_STABILITY_SECONDS = 10"

definition agent_registered :: "ha_node \<Rightarrow> bool" where
  "agent_registered n \<longleftrightarrow> (case agent_credential n of None \<Rightarrow> False | Some a \<Rightarrow> registered_at a \<noteq> None \<and> revoked_at a = None)"

definition repair_dhcp_active :: "time \<Rightarrow> ha_node \<Rightarrow> bool" where
  "repair_dhcp_active now n \<longleftrightarrow> obs_active (dhcp_observation n now None FRESH_SECONDS)"

definition repair_dhcp_released :: "time \<Rightarrow> ha_node \<Rightarrow> bool" where
  "repair_dhcp_released now n \<longleftrightarrow> obs_released (dhcp_observation n now None FRESH_SECONDS)"

section \<open>Inspection\<close>

record cluster_inspection =
  ins_fresh_node_ids :: "int list"
  ins_vip_owner_ids :: "int list"
  ins_dhcp_owner_ids :: "int list"
  ins_issues :: "topology_issue list"
  ins_service_availability :: string
  ins_configuration_state :: string

definition ins_fresh :: "cluster_inspection \<Rightarrow> bool" where
  "ins_fresh i \<longleftrightarrow> length (ins_fresh_node_ids i) = 2"

definition ins_consistent :: "cluster_inspection \<Rightarrow> bool" where
  "ins_consistent i \<longleftrightarrow> ins_fresh i \<and> ins_issues i = []"

definition recovery_validation_progressing :: "ha_cluster \<Rightarrow> ha_node \<Rightarrow> time \<Rightarrow> bool" where
  "recovery_validation_progressing c n now \<longleftrightarrow>
     (case (recovery_state n = ''VERIFYING'', recovery_stable_since n) of
        (True, Some t) \<Rightarrow> t \<ge> now - RECOVERY_PROGRESS_TIMEOUT
      | _ \<Rightarrow>
          recovery_state n = ''SYNCHRONISING'' \<and>
          (case min_by (\<lambda>s. - sync_created_at s) (filter (\<lambda>s. sync_target_node_id s = node_id n) (sync_runs c)) of
             None \<Rightarrow> False
           | Some s \<Rightarrow>
               sync_status s \<in> {''PENDING'', ''CHECKING'', ''PLANNED'', ''RUNNING'', ''VERIFYING'', ''IN_SYNC'', ''SUCCEEDED''} \<and>
               (case or_else (sync_completed_at s) (or_else (sync_started_at s) (Some (sync_created_at s))) of
                  None \<Rightarrow> False | Some t \<Rightarrow> t \<ge> now - RECOVERY_PROGRESS_TIMEOUT)))"

text \<open>\<open>s.title()\<close>: the first letter of every run of letters in upper case, the others in lower case.\<close>

fun title_from :: "bool \<Rightarrow> string \<Rightarrow> string" where
  "title_from inside [] = []"
| "title_from inside (ch # s) =
     (if is_upper ch \<or> is_lower ch then (if inside then lower_char ch else upper_char ch) # title_from True s else ch # title_from False s)"

definition title_text :: "string \<Rightarrow> string" where
  "title_text s = title_from False (map (\<lambda>ch. if ch = CHR ''_'' then CHR '' '' else ch) s)"

definition role_mismatch_issue :: "ha_cluster \<Rightarrow> ha_node \<Rightarrow> topology_issue list" where
  "role_mismatch_issue c n =
     (if current_active_node_id c \<noteq> Some (node_id n) \<or> role n \<noteq> ''ACTIVE'' \<or> desired_role n \<noteq> ''ACTIVE''
      then [mk_issue ''STORED_ROLE_MISMATCH'' ''Stored HA state does not match observed node state''
              (display_name n @ '' owns the Virtual IP, but Kaya's stored Active/Standby assignment does not match.'') ''warning'' False]
      else [])"

text \<open>\<open>recovery\<close>: the evaluation of recovery by node, where the caller has one.\<close>

definition stale_recovery :: "ha_cluster \<Rightarrow> time \<Rightarrow> (int \<times> node_recovery) list option \<Rightarrow> ha_node \<Rightarrow> bool" where
  "stale_recovery c now recovery n \<longleftrightarrow>
     recovery_state n \<in> {''RECOVERING'', ''SYNCHRONISING'', ''VERIFYING''} \<and>
     (case recovery of None \<Rightarrow> True | Some rs \<Rightarrow> (case map_of rs (node_id n) of None \<Rightarrow> False | Some r \<Rightarrow> operationally_ready r)) \<and>
     (case recovery_started_at n of None \<Rightarrow> False | Some t \<Rightarrow> t < now - RECOVERY_PROGRESS_TIMEOUT) \<and>
     \<not> recovery_validation_progressing c n now \<and>
     dns_healthy n = Some True \<and> keepalived_runtime_state n = ''RUNNING'' \<and>
     (vip_owned n \<or> observed_role n = Some ''STANDBY'' \<and> (\<not> pihole_manages_dhcp c \<or> repair_dhcp_released now n))"

definition stale_issue :: "ha_node \<Rightarrow> topology_issue" where
  "stale_issue n = mk_issue ''STALE_RECOVERY_STATE'' ''Recovery state appears stale''
     (display_name n @ '' has reported stable runtime health but remains marked '' @ title_text (recovery_state n) @ ''.'') ''warning'' False"

definition inspect_cluster ::
  "ha_cluster \<Rightarrow> time \<Rightarrow> time option \<Rightarrow> (int \<times> node_recovery) list option \<Rightarrow> cluster_inspection" where
  "inspect_cluster c now since recovery =
     (let t = reconcile_topology c now since FRESH_SECONDS;
          observed_owner = find (\<lambda>n. Some (node_id n) = active_node_id t) (nodes c);
          reporting = filter (\<lambda>n. node_id n \<in> set (fresh_node_ids t)) (nodes c)
      in \<lparr>ins_fresh_node_ids = fresh_node_ids t, ins_vip_owner_ids = vip_owner_ids t, ins_dhcp_owner_ids = dhcp_owner_ids t,
          ins_issues = issues t @ (case observed_owner of None \<Rightarrow> [] | Some n \<Rightarrow> role_mismatch_issue c n) @
            map stale_issue (filter (stale_recovery c now recovery) reporting),
          ins_service_availability = service_availability t, ins_configuration_state = configuration_state t\<rparr>)"

section \<open>Runs\<close>

definition newest_maintenance :: "ha_maintenance_run list \<Rightarrow> ha_maintenance_run list" where
  "newest_maintenance rs = sort_key (\<lambda>m. - mt_created_at m) rs"

definition latest_maintenance :: "ha_cluster \<Rightarrow> ha_maintenance_run option" where
  "latest_maintenance c = min_by (\<lambda>m. - mt_created_at m) (maintenance_runs c)"

definition maintenance_running :: "ha_maintenance_run \<Rightarrow> bool" where
  "maintenance_running m \<longleftrightarrow> mt_status m \<in> set ACTIVE_STATUSES"

definition active_maintenance :: "ha_cluster \<Rightarrow> ha_maintenance_run option" where
  "active_maintenance c = find maintenance_running (newest_maintenance (maintenance_runs c))"

definition store_maintenance :: "ha_maintenance_run \<Rightarrow> ha_cluster \<Rightarrow> ha_cluster" where
  "store_maintenance m c = c\<lparr>maintenance_runs := map (\<lambda>x. if mt_id x = mt_id m then m else x) (maintenance_runs c)\<rparr>"

definition maintenance_event :: "ha_env \<Rightarrow> ha_maintenance_run \<Rightarrow> string \<Rightarrow> string \<Rightarrow> string \<Rightarrow> ha_cluster \<Rightarrow> ha_cluster" where
  "maintenance_event env m ty severity message =
     add_event \<lparr>ev_node_id = None, ev_event_type = ty, ev_severity = severity, ev_message = take 1000 message,
       ev_phase = Some (maintenance_phase_name (mt_phase m)), ev_role_generation = None, ev_occurred_at = env_now env\<rparr>"

definition snapshot_state :: "ha_cluster \<Rightarrow> state_snapshot" where
  "snapshot_state c =
     \<lparr>ps_automatic_failover = automatic_failover_enabled c, ps_automatic_sync = automatic_sync_enabled c,
      ps_allow_deletions = automatic_sync_allow_deletions c, ps_authoritative_node_id = authoritative_node_id c,
      ps_current_active_node_id = current_active_node_id c, ps_status = cluster_status c\<rparr>"

definition new_maintenance :: "ha_env \<Rightarrow> string \<Rightarrow> maintenance_operation \<Rightarrow> maintenance_phase \<Rightarrow> int option \<Rightarrow> ha_cluster \<Rightarrow> ha_maintenance_run" where
  "new_maintenance env public_id operation phase user c =
     \<lparr>mt_id = next_rowid (map mt_id (maintenance_runs c)), mt_public_id = public_id, mt_operation = operation, mt_status = M_RUNNING,
      mt_phase = phase, mt_desired_active_node_id = None, mt_authoritative_node_id = None, mt_sync_run_id = None,
      mt_previous = snapshot_state c, mt_result = empty_maintenance_result, mt_error = None, mt_requested_by = user,
      mt_phase_started_at = env_now env, mt_started_at = env_now env, mt_completed_at = None, mt_created_at = env_now env\<rparr>"

definition add_maintenance :: "ha_maintenance_run \<Rightarrow> ha_cluster \<Rightarrow> ha_cluster" where
  "add_maintenance m c = c\<lparr>maintenance_runs := maintenance_runs c @ [m]\<rparr>"

definition count_attempt :: "maintenance_phase \<Rightarrow> maintenance_result \<Rightarrow> maintenance_result" where
  "count_attempt p res =
     res\<lparr>mr_phase_attempts := dict_put p ((case map_of (mr_phase_attempts res) p of None \<Rightarrow> 0 | Some k \<Rightarrow> k) + 1) (mr_phase_attempts res)\<rparr>"

definition set_phase :: "time \<Rightarrow> maintenance_phase \<Rightarrow> string \<Rightarrow> ha_maintenance_run \<Rightarrow> ha_maintenance_run" where
  "set_phase now p progress m =
     (let rows = mr_progress (mt_result m);
          rows' = (if rows = [] \<or> last rows \<noteq> progress then rows @ [progress] else rows);
          res = (mt_result m)\<lparr>mr_progress := last_n 20 rows'\<rparr>
      in m\<lparr>mt_phase := p, mt_phase_started_at := now,
           mt_result := (if mt_operation m = DHCP_SELF_HEAL then count_attempt p res else res)\<rparr>)"

definition hard_failover_proof :: "agent_report list \<Rightarrow> ha_cluster \<Rightarrow> ha_node \<Rightarrow> time \<Rightarrow> bool" where
  "hard_failover_proof log c owner now \<longleftrightarrow>
     list_ex (\<lambda>e. reported_generation e = Some (keepalived_generation c))
       (take 20 (sort_key (\<lambda>e. - ar_received_at e)
          (filter (\<lambda>e. ar_node e = node_id owner \<and> ar_type e = ''automatic_failover_completed'' \<and> ar_received_at e \<ge> now - minutes 10) log)))"

section \<open>Self-heal of the DHCP configuration\<close>

fun observed_state_name :: "observed_state \<Rightarrow> string" where
  "observed_state_name ACTIVE = ''ACTIVE''"
| "observed_state_name RELEASED = ''RELEASED''"
| "observed_state_name INACTIVE = ''INACTIVE''"
| "observed_state_name UNKNOWN = ''UNKNOWN''"

definition opt_json :: "('a \<Rightarrow> json) \<Rightarrow> 'a option \<Rightarrow> json" where
  "opt_json f v = (case v of None \<Rightarrow> JNull | Some x \<Rightarrow> f x)"

definition node_evidence :: "reconciled_topology \<Rightarrow> time \<Rightarrow> ha_node \<Rightarrow> json" where
  "node_evidence t now n =
     (let obs = dhcp_observation n now None FRESH_SECONDS; fresh = node_id n \<in> set (fresh_node_ids t)
      in JObj [(''node_id'', JStr (node_public_id n)), (''desired_role'', JStr (desired_role n)), (''observed_role'', opt_json JStr (observed_role n)),
               (''vip_owned'', if fresh then JBool (vip_owned n) else JNull), (''dhcp_state'', JStr (observed_state_name (obs_state obs))),
               (''dhcp_configured'', opt_json JBool (obs_configured obs)), (''ftl_active'', opt_json JBool (obs_service_active obs)),
               (''udp67_listening'', opt_json JBool (obs_listening obs)), (''dns_healthy'', if fresh then opt_json JBool (dns_healthy n) else JNull),
               (''config_generation'', JInt (config_generation n)), (''agent_version'', opt_json JStr (agent_version n))])"

definition public_ids :: "ha_cluster \<Rightarrow> int list \<Rightarrow> json" where
  "public_ids c ids = JList (map JStr (sort (map node_public_id (filter (\<lambda>n. node_id n \<in> set ids) (nodes c)))))"

definition dhcp_topology_fingerprint :: "(string \<Rightarrow> string) \<Rightarrow> ha_cluster \<Rightarrow> reconciled_topology \<Rightarrow> time \<Rightarrow> string" where
  "dhcp_topology_fingerprint sha c t now =
     sha (json_dumps (JObj [(''fresh_node_ids'', public_ids c (fresh_node_ids t)), (''vip_owner_ids'', public_ids c (vip_owner_ids t)),
        (''dhcp_owner_ids'', public_ids c (dhcp_owner_ids t)), (''nodes'', JList (map (node_evidence t now) (sort_key node_id (nodes c))))]))"

definition failed_self_heal :: "ha_maintenance_run \<Rightarrow> bool" where
  "failed_self_heal m \<longleftrightarrow> mt_operation m = DHCP_SELF_HEAL \<and> mt_status m = M_FAILED_SAFE"

definition unlatch :: "ha_maintenance_run \<Rightarrow> ha_maintenance_run" where
  "unlatch m = m\<lparr>mt_result := (mt_result m)\<lparr>mr_latch_active := False\<rparr>\<rparr>"

definition clear_changed_latches :: "string \<Rightarrow> ha_cluster \<Rightarrow> ha_cluster" where
  "clear_changed_latches fingerprint c =
     c\<lparr>maintenance_runs :=
        map (\<lambda>m. if failed_self_heal m \<and> mr_latch_active (mt_result m) \<and> mr_topology_fingerprint (mt_result m) \<noteq> Some fingerprint
                 then unlatch m else m) (maintenance_runs c)\<rparr>"

definition matching_latch :: "string \<Rightarrow> ha_cluster \<Rightarrow> ha_maintenance_run option" where
  "matching_latch signature c =
     find (\<lambda>m. mr_latch_active (mt_result m) \<and> mr_drift_signature (mt_result m) = Some signature)
       (newest_maintenance (filter failed_self_heal (maintenance_runs c)))"

definition self_heal_blocked :: "ha_cluster \<Rightarrow> bool" where
  "self_heal_blocked c \<longleftrightarrow>
     provider_key c \<noteq> ''pihole'' \<or> keepalived_status c \<noteq> ''DEPLOYED'' \<or> length (nodes c) \<noteq> 2 \<or> \<not> pihole_manages_dhcp c \<or>
     active_maintenance c \<noteq> None \<or> maintenance_mode c \<or> active_failover c \<noteq> None"

definition stable_vip_owner :: "ha_cluster \<Rightarrow> time \<Rightarrow> ha_node \<Rightarrow> bool" where
  "stable_vip_owner c now owner \<longleftrightarrow>
     (case vip_stable_since owner of None \<Rightarrow> False | Some t \<Rightarrow> now - t \<ge> seconds DHCP_OWNER_STABILITY_SECONDS) \<and>
     observed_role owner = Some ''ACTIVE'' \<and> observed_generation owner \<ge> role_generation c \<and> config_generation owner \<ge> keepalived_generation c"

definition hard_failure_proven :: "agent_report list \<Rightarrow> ha_cluster \<Rightarrow> reconciled_topology \<Rightarrow> ha_node \<Rightarrow> time \<Rightarrow> bool" where
  "hard_failure_proven log c t owner now \<longleftrightarrow> fresh_node_ids t = [node_id owner] \<and> hard_failover_proof log c owner now"

text \<open>The repair that the observed drift calls for: the owner, the node to repair, the order, and whether the peer is proved to have failed.\<close>

definition self_heal_repair :: "agent_report list \<Rightarrow> ha_cluster \<Rightarrow> time \<Rightarrow> (ha_node \<times> ha_node \<times> dhcp_action \<times> bool) option" where
  "self_heal_repair log c now =
     (let t = reconcile_topology c now None FRESH_SECONDS
      in if length (vip_owner_ids t) \<noteq> 1 \<or> dhcp_unknown_node_ids t \<noteq> [] \<or> length (dhcp_owner_ids t) > 1 then None
         else
           (case find (\<lambda>n. [node_id n] = vip_owner_ids t) (nodes c) of
              None \<Rightarrow> None
            | Some owner \<Rightarrow>
                (case find (\<lambda>n. node_id n \<noteq> node_id owner) (nodes c) of
                   None \<Rightarrow> None
                 | Some standby \<Rightarrow>
                     (let owner_obs = dhcp_observation owner now None FRESH_SECONDS;
                          standby_obs = dhcp_observation standby now None FRESH_SECONDS;
                          hard = hard_failure_proven log c t owner now
                      in if list_ex (\<lambda>n. version_tuple (agent_version n) < DHCP_SELF_HEAL_AGENT_VERSION) (nodes c) then None
                         else if \<not> stable_vip_owner c now owner then None
                         else if \<not> topology_fresh t \<and> \<not> hard then None
                         else if dns_healthy owner \<noteq> Some True \<or> ftl_active owner \<noteq> Some True \<or> (\<not> obs_released standby_obs \<and> \<not> hard) then None
                         else if topology_fresh t \<and> obs_configured standby_obs = Some True then Some (owner, standby, DHCP_DEMOTE, hard)
                         else if obs_configured owner_obs = Some False then Some (owner, owner, DHCP_PROMOTE, hard)
                         else None))))"

definition repair_type :: "dhcp_action \<Rightarrow> string" where
  "repair_type a = (if a = DHCP_PROMOTE then ''ACTIVE_DHCP_CONFIGURATION_REPAIR'' else ''STANDBY_DHCP_CONFIGURATION_REPAIR'')"

definition drift_signature :: "(string \<Rightarrow> string) \<Rightarrow> dhcp_action \<Rightarrow> ha_node \<Rightarrow> string \<Rightarrow> string" where
  "drift_signature sha a n fingerprint = sha (repair_type a @ '':'' @ node_public_id n @ '':'' @ fingerprint)"

definition self_heal_run ::
  "ha_env \<Rightarrow> string \<Rightarrow> int option \<Rightarrow> string \<Rightarrow> string \<Rightarrow> ha_node \<times> ha_node \<times> dhcp_action \<times> bool \<Rightarrow> ha_cluster \<Rightarrow> ha_maintenance_run" where
  "self_heal_run env public_id user fingerprint signature repair c =
     (case repair of (owner, node, a, hard) \<Rightarrow>
        (new_maintenance env public_id DHCP_SELF_HEAL REPAIRING_DHCP user c)
          \<lparr>mt_desired_active_node_id := Some (node_id owner),
           mt_result := empty_maintenance_result
             \<lparr>mr_repair_node_id := Some (node_id node), mr_action_type := Some a, mr_hard_failure_proven := hard,
              mr_drift_signature := Some signature, mr_topology_fingerprint := Some fingerprint,
              mr_phase_attempts := [(REPAIRING_DHCP, 1)],
              mr_progress := [''Active node confirmed'', ''Sole Virtual IP owner confirmed'', ''DHCP runtime owner confirmed'',
                ''Standby confirmed safe'', ''Correcting DHCP configuration on '' @ display_name node]\<rparr>\<rparr>)"

definition drift_message :: "dhcp_action \<Rightarrow> ha_node \<Rightarrow> string" where
  "drift_message a n =
     (if a = DHCP_PROMOTE
      then ''Active DHCP configuration drift detected on '' @ display_name n @ ''. Kaya safely queued a configuration-only repair.''
      else ''Standby DHCP configuration drift detected on '' @ display_name n @ ''. Kaya safely queued an idempotent disable repair.'')"

text \<open>
  The lock is claimed by an update with the condition that no maintenance is in progress; between the guard and the update nothing runs here, so
  it succeeds.
\<close>

definition start_dhcp_self_heal ::
  "ha_env \<Rightarrow> agent_report list \<Rightarrow> bool \<Rightarrow> int option \<Rightarrow> string \<Rightarrow> ha_cluster \<Rightarrow> ha_cluster \<times> ha_maintenance_run option" where
  "start_dhcp_self_heal env log force_retry user public_id c =
     (if self_heal_blocked c then (c, None)
      else
        (let now = env_now env;
             fingerprint = dhcp_topology_fingerprint (env_sha256 env) c (reconcile_topology c now None FRESH_SECONDS) now;
             c1 = clear_changed_latches fingerprint c
         in case self_heal_repair log c now of
              None \<Rightarrow> (c1, None)
            | Some (owner, node, a, hard) \<Rightarrow>
                (let signature = drift_signature (env_sha256 env) a node fingerprint;
                     latch = matching_latch signature c1
                 in if latch \<noteq> None \<and> \<not> force_retry then (c1, None)
                    else (let c2 = (case latch of None \<Rightarrow> c1 | Some m \<Rightarrow> store_maintenance (unlatch m) c1);
                              m = self_heal_run env public_id user fingerprint signature (owner, node, a, hard) c2
                          in (maintenance_event env m ''dhcp_configuration_drift_detected'' ''warning'' (drift_message a node)
                                (add_maintenance m (c2\<lparr>maintenance_mode := True\<rparr>)), Some m)))))"

definition fail_dhcp_self_heal :: "ha_env \<Rightarrow> string \<Rightarrow> ha_maintenance_run \<Rightarrow> ha_cluster \<Rightarrow> ha_cluster" where
  "fail_dhcp_self_heal env message m c =
     (let m' = m\<lparr>mt_status := M_FAILED_SAFE, mt_phase := MAINTENANCE_PAUSED, mt_error := Some (take 1000 message),
                 mt_completed_at := Some (env_now env), mt_result := (mt_result m)\<lparr>mr_latch_active := True\<rparr>\<rparr>
      in store_maintenance m' (maintenance_event env m' ''dhcp_self_heal_failed_safe'' ''warning'' (take 1000 message)
           (c\<lparr>maintenance_mode := False, cluster_status := ''DEGRADED''\<rparr>)))"

definition succeeded :: "time \<Rightarrow> ha_maintenance_run \<Rightarrow> ha_maintenance_run" where
  "succeeded now m = m\<lparr>mt_status := M_SUCCEEDED, mt_phase := MAINTENANCE_COMPLETE, mt_completed_at := Some now\<rparr>"

definition cancel_repair :: "ha_env \<Rightarrow> ha_maintenance_run \<Rightarrow> ha_cluster \<Rightarrow> ha_cluster" where
  "cancel_repair env m c =
     (let m' = unlatch (succeeded (env_now env) m)
      in store_maintenance m' (maintenance_event env m' ''dhcp_configuration_repair_cancelled'' ''info''
           ''The queued standby DHCP cleanup was cancelled because ownership changed. DHCP on the current owner was not altered.''
           (c\<lparr>maintenance_mode := False\<rparr>)))"

definition repair_verified ::
  "agent_report list \<Rightarrow> ha_cluster \<Rightarrow> ha_maintenance_run \<Rightarrow> ha_node \<Rightarrow> ha_node \<Rightarrow> ha_node \<Rightarrow> dhcp_action \<Rightarrow> time \<Rightarrow> bool" where
  "repair_verified log c m owner node standby a now \<longleftrightarrow>
     (let since = Some (mt_phase_started_at m);
          t = reconcile_topology c now since FRESH_SECONDS;
          owner_obs = dhcp_observation owner now since FRESH_SECONDS;
          repair_obs = dhcp_observation node now since FRESH_SECONDS;
          standby_obs = dhcp_observation standby now since FRESH_SECONDS;
          hard = (mr_hard_failure_proven (mt_result m) \<and> hard_failover_proof log c owner now)
      in (topology_fresh t \<or> hard \<and> fresh_node_ids t = [node_id owner]) \<and>
         vip_owner_ids t = [node_id owner] \<and> dns_healthy owner = Some True \<and>
         (a = DHCP_PROMOTE \<and> obs_active owner_obs \<and> obs_configured owner_obs = Some True \<and>
            ((obs_released standby_obs \<and> obs_configured standby_obs = Some False) \<or> hard) \<or>
          a = DHCP_DEMOTE \<and> obs_released repair_obs \<and> obs_configured repair_obs = Some False))"

definition repair_description :: "dhcp_action \<Rightarrow> string" where
  "repair_description a =
     (if a = DHCP_PROMOTE then ''active DHCP configuration restored'' else ''standby DHCP configuration safely disabled'')"

definition repair_label :: "dhcp_action \<Rightarrow> string" where
  "repair_label a =
     (if a = DHCP_PROMOTE then ''Active dhcp configuration restored'' else ''Standby dhcp configuration safely disabled'')"

definition complete_self_heal :: "ha_env \<Rightarrow> dhcp_action \<Rightarrow> ha_maintenance_run \<Rightarrow> ha_cluster \<Rightarrow> ha_cluster" where
  "complete_self_heal env a m c =
     (let now = env_now env;
          res = (mt_result m)\<lparr>mr_latch_active := False,
            mr_progress := last_n 20 (mr_progress (mt_result m) @ [''Fresh signed HA Agent report received'', repair_label a])\<rparr>;
          m' = (succeeded now m)\<lparr>mt_error := None, mt_result := res\<rparr>
      in store_maintenance m' (maintenance_event env m' ''dhcp_configuration_automatically_repaired'' ''info''
           (''Configuration repair completed: '' @ repair_description a @ ''. Fresh signed reports verified the result.'')
           (c\<lparr>maintenance_mode := False,
              cluster_status := (if topology_safe (reconcile_topology c now None FRESH_SECONDS) then ''HEALTHY'' else ''DEGRADED'')\<rparr>)))"

definition self_heal_failure :: "ha_maintenance_run \<Rightarrow> string" where
  "self_heal_failure m =
     (let reported = (case mr_action_result (mt_result m) of None \<Rightarrow> [] | Some o1 \<Rightarrow> if ao_status o1 = ''FAILED'' then take 500 (ao_message o1) else [])
      in if reported \<noteq> [] then ''DHCP configuration repair failed: '' @ reported @ '' Kaya stopped without changing VIP ownership.''
         else ''DHCP configuration repair did not converge after one bounded attempt. Kaya stopped without changing VIP ownership.'')"

definition advance_dhcp_self_heal ::
  "ha_env \<Rightarrow> agent_report list \<Rightarrow> ha_maintenance_run \<Rightarrow> ha_cluster \<Rightarrow> maintenance_error + ha_cluster" where
  "advance_dhcp_self_heal env log m c =
     (let now = env_now env;
          node = Option.bind (mr_repair_node_id (mt_result m)) (node_by_id c);
          owner = Option.bind (mt_desired_active_node_id m) (node_by_id c)
      in if mt_operation m \<noteq> DHCP_SELF_HEAL \<or> mt_status m \<noteq> M_RUNNING then Inr c
         else if mt_phase m = REPAIRING_DHCP
         then (case node of
                 Some n \<Rightarrow>
                   if mr_action_type (mt_result m) = Some DHCP_DEMOTE \<and> \<not> allowed (authorise_dhcp_demotion c n owner False False now 120)
                   then Inr (cancel_repair env m c) else Inr c
               | None \<Rightarrow> Inr c)
         else
           (case (node, owner, mr_action_type (mt_result m)) of
              (Some n, Some own, Some a) \<Rightarrow>
                (case find (\<lambda>x. node_id x \<noteq> node_id own) (nodes c) of
                   None \<Rightarrow> Inl MissingPeer
                 | Some standby \<Rightarrow>
                     if repair_verified log c m own n standby a now then Inr (complete_self_heal env a m c)
                     else if now - mt_phase_started_at m > seconds 45 then Inr (fail_dhcp_self_heal env (self_heal_failure m) m c)
                     else Inr c)
            | _ \<Rightarrow> Inr (fail_dhcp_self_heal env ''The bounded DHCP repair record is incomplete. No further action was issued.'' m c)))"

section \<open>Reconciliation of stored state\<close>

definition start_reconciliation :: "ha_env \<Rightarrow> int \<Rightarrow> string \<Rightarrow> ha_cluster \<Rightarrow> maintenance_error + ha_cluster \<times> ha_maintenance_run" where
  "start_reconciliation env user public_id c =
     (if active_maintenance c \<noteq> None then Inl (HAMaintenanceError ''Cluster maintenance is already in progress.'')
      else if active_failover c \<noteq> None then Inl (HAMaintenanceError ''Wait for the current failover or rollback operation to finish.'')
      else (let m = new_maintenance env public_id RECONCILE WAITING_FOR_REPORTS (Some user) c
            in Inr (maintenance_event env m ''cluster_reconciliation_started'' ''info''
                      ''Cluster reconciliation started. Kaya is waiting for fresh signed reports from both nodes.'' (add_maintenance m c), m)))"

definition clean_owner :: "ha_cluster \<Rightarrow> cluster_inspection \<Rightarrow> int option" where
  "clean_owner c i =
     (case ins_vip_owner_ids i of
        [o1] \<Rightarrow> if \<not> pihole_manages_dhcp c \<or> ins_dhcp_owner_ids i = [o1] then Some o1 else None
      | _ \<Rightarrow> None)"

text \<open>The one value of a column on all nodes, if there is one.\<close>

definition common_value :: "(ha_node \<Rightarrow> int) \<Rightarrow> ha_cluster \<Rightarrow> int option" where
  "common_value f c = (case dict_fromkeys (map f (nodes c)) of [g] \<Rightarrow> Some g | _ \<Rightarrow> None)"

definition raise_generations :: "ha_cluster \<Rightarrow> ha_cluster \<times> string list" where
  "raise_generations c =
     (let cg = (case common_value observed_generation c of Some g \<Rightarrow> if g > cluster_generation c then Some g else None | None \<Rightarrow> None);
          kg = (case common_value config_generation c of Some g \<Rightarrow> if g > keepalived_generation c then Some g else None | None \<Rightarrow> None)
      in (c\<lparr>cluster_generation := (case cg of None \<Rightarrow> cluster_generation c | Some g \<Rightarrow> g),
            keepalived_generation := (case kg of None \<Rightarrow> keepalived_generation c | Some g \<Rightarrow> g)\<rparr>,
          (if cg \<noteq> None then [''cluster generation''] else []) @ (if kg \<noteq> None then [''Keepalived generation''] else [])))"

definition stored_role :: "int \<Rightarrow> ha_node \<Rightarrow> string" where
  "stored_role owner n = (if node_id n = owner then ''ACTIVE'' else ''STANDBY'')"

definition wrong_role :: "int \<Rightarrow> ha_node \<Rightarrow> bool" where
  "wrong_role owner n \<longleftrightarrow> role n \<noteq> stored_role owner n \<or> desired_role n \<noteq> stored_role owner n"

definition correct_roles :: "int \<Rightarrow> ha_cluster \<Rightarrow> ha_cluster \<times> string list" where
  "correct_roles owner c =
     ((update_all_nodes (\<lambda>n. n\<lparr>role := stored_role owner n, desired_role := stored_role owner n\<rparr>) c)
        \<lparr>current_active_node_id := Some owner, authoritative_node_id := Some owner\<rparr>,
      (if current_active_node_id c \<noteq> Some owner then [''current Active node''] else []) @
      (if authoritative_node_id c \<noteq> Some owner then [''configuration authority''] else []) @
      map (\<lambda>n. display_name n @ '' stored role'') (filter (wrong_role owner) (nodes c)))"

definition correct_stored_state :: "cluster_inspection \<Rightarrow> ha_cluster \<Rightarrow> ha_cluster \<times> string list" where
  "correct_stored_state i c =
     (case raise_generations c of (c1, generations) \<Rightarrow>
        (case clean_owner c i of
           None \<Rightarrow> (c1, generations)
         | Some owner \<Rightarrow> (case correct_roles owner c1 of (c2, roles) \<Rightarrow> (c2, generations @ roles))))"

definition reconciliation_message :: "nat \<Rightarrow> topology_issue list \<Rightarrow> string" where
  "reconciliation_message corrected remaining =
     (if list_ex requires_service_movement remaining
      then ''Reconciliation corrected '' @ str_int (int corrected) @ '' stale state record(s). A service ownership mismatch remains and requires cluster reinitialisation.''
      else if remaining \<noteq> []
      then ''Reconciliation stopped with '' @ str_int (int (length remaining)) @ '' unresolved configuration issue(s). Fresh topology does not prove convergence.''
      else ''Cluster reconciliation completed without moving services. Kaya corrected '' @ str_int (int corrected) @ '' stale state record(s).'')"

definition finish_reconciliation :: "ha_env \<Rightarrow> nat \<Rightarrow> ha_maintenance_run \<Rightarrow> ha_cluster \<Rightarrow> ha_cluster" where
  "finish_reconciliation env corrected m c =
     (let remaining = ins_issues (inspect_cluster c (env_now env) None None);
          m' = m\<lparr>mt_status := (if remaining \<noteq> [] then M_FAILED_SAFE else M_SUCCEEDED),
                 mt_phase := (if remaining \<noteq> [] then MAINTENANCE_PAUSED else MAINTENANCE_COMPLETE),
                 mt_completed_at := Some (env_now env), mt_result := empty_maintenance_result,
                 mt_error := (if remaining \<noteq> [] then Some (take 1000 (join '' '' (map issue_message remaining))) else None)\<rparr>
      in store_maintenance m' (maintenance_event env m'
           (if remaining \<noteq> [] then ''cluster_reconciliation_needs_attention'' else ''cluster_reconciliation_completed'')
           (if remaining \<noteq> [] then ''warning'' else ''info'') (reconciliation_message corrected remaining) c))"

definition reconcile_cluster_state :: "ha_env \<Rightarrow> ha_maintenance_run \<Rightarrow> ha_cluster \<Rightarrow> ha_cluster" where
  "reconcile_cluster_state env m c =
     (if mt_operation m \<noteq> RECONCILE \<or> mt_status m \<notin> set ACTIVE_STATUSES then c
      else
        (let inspection = inspect_cluster c (env_now env) (Some (mt_started_at m)) None;
             m1 = m\<lparr>mt_result := empty_maintenance_result\<rparr>
         in if \<not> ins_fresh inspection then store_maintenance (m1\<lparr>mt_phase := WAITING_FOR_REPORTS\<rparr>) c
            else (case correct_stored_state inspection c of (c1, corrected) \<Rightarrow>
                    finish_reconciliation env (length corrected) (m1\<lparr>mt_phase := RECONCILING\<rparr>) (fst (evaluate_recovery env 0 c1)))))"

section \<open>Reinitialisation\<close>

definition start_reinitialisation ::
  "ha_env \<Rightarrow> int \<Rightarrow> string \<Rightarrow> int \<Rightarrow> int \<Rightarrow> bool \<Rightarrow> ha_cluster \<Rightarrow> maintenance_error + ha_cluster \<times> ha_maintenance_run" where
  "start_reinitialisation env user public_id desired_active authority acknowledged c =
     (if \<not> acknowledged
      then Inl (HAMaintenanceError ''Confirm that Kaya may rebuild HA ownership while preserving Pi-hole data and cluster history.'')
      else
        (case (node_by_id c desired_active, node_by_id c authority) of
           (Some active, Some _) \<Rightarrow>
             if length (nodes c) \<noteq> 2 then Inl (HAMaintenanceError ''Reinitialisation requires exactly two existing nodes.'')
             else if active_maintenance c \<noteq> None then Inl (HAMaintenanceError ''Cluster maintenance is already in progress.'')
             else if active_failover c \<noteq> None then Inl (HAMaintenanceError ''Wait for the current failover or rollback operation to finish.'')
             else
               (let previous = (case latest_maintenance c of
                                  Some p \<Rightarrow> if mt_operation p = REINITIALISE \<and> mt_status p = M_FAILED_SAFE then mt_previous p else snapshot_state c
                                | None \<Rightarrow> snapshot_state c);
                    m = (new_maintenance env public_id REINITIALISE WAITING_FOR_REPORTS (Some user) c)
                          \<lparr>mt_desired_active_node_id := Some desired_active, mt_authoritative_node_id := Some authority, mt_previous := previous,
                           mt_result := empty_maintenance_result\<lparr>mr_progress := [''Waiting for fresh signed node reports'']\<rparr>\<rparr>
                in Inr (maintenance_event env m ''cluster_reinitialisation_started'' ''warning''
                          (''Cluster reinitialisation started with '' @ display_name active @ '' selected as Active.'')
                          (add_maintenance m (c\<lparr>maintenance_mode := True, automatic_failover_enabled := False, automatic_sync_enabled := False\<rparr>)), m))
         | _ \<Rightarrow> Inl (HAMaintenanceError ''The selected nodes do not belong to this cluster.'')))"

definition fail_safe :: "ha_env \<Rightarrow> string \<Rightarrow> ha_maintenance_run \<Rightarrow> ha_cluster \<Rightarrow> ha_cluster" where
  "fail_safe env message m c =
     (let m' = m\<lparr>mt_status := M_FAILED_SAFE, mt_phase := MAINTENANCE_PAUSED, mt_error := Some (take 1000 message), mt_completed_at := Some (env_now env)\<rparr>
      in store_maintenance m' (maintenance_event env m' ''cluster_reinitialisation_failed'' ''critical'' (take 1000 message)
           (c\<lparr>cluster_status := ''DEGRADED''\<rparr>)))"

text \<open>
  What the reinitialisation asks of other modules: whether the live configuration of a node can be read, the synchronisation plan, its
  execution, and the lease inspection. A failure is an exception that the module expects, with its text, or another one. The cluster that comes
  with a failure is what the database holds after the rollback.
\<close>

datatype repair_failure = Expected string | Unexpected

record repair_services =
  rs_live_configuration :: "ha_node \<Rightarrow> repair_failure option"
  rs_create_sync_plan :: "ha_cluster \<Rightarrow> ha_cluster \<times> (repair_failure + ha_sync_run)"
  rs_execute_sync :: "ha_sync_run \<Rightarrow> ha_cluster \<Rightarrow> ha_cluster \<times> repair_failure option"
  rs_inspect_leases :: "ha_cluster \<Rightarrow> lease_error + lease_plan"
  rs_lease_cipher :: lease_cipher

text \<open>
  How an advance ends: the run and the cluster to be committed, a stop of the run with a message, or an exception, after which the stored row of
  the run is read again.
\<close>

datatype repair_step = Proceed ha_cluster ha_maintenance_run | Stop string ha_cluster ha_maintenance_run | Raised repair_failure ha_cluster

definition create_two_node_backups ::
  "repair_services \<Rightarrow> ha_cluster \<Rightarrow> ha_maintenance_run \<Rightarrow> (repair_failure \<times> ha_cluster) + ha_cluster \<times> ha_maintenance_run" where
  "create_two_node_backups svc c m =
     (case List.map_filter (rs_live_configuration svc) (nodes c) of
        e # _ \<Rightarrow> Inl (e, c)
      | [] \<Rightarrow>
          (case rs_create_sync_plan svc (store_maintenance m (c\<lparr>authoritative_node_id := mt_authoritative_node_id m\<rparr>)) of
             (c2, Inl e) \<Rightarrow> Inl (e, c2)
           | (c2, Inr s) \<Rightarrow> Inr (c2, m\<lparr>mt_sync_run_id := Some (sync_id s)\<rparr>)))"

definition leases_staged :: "ha_cluster \<Rightarrow> ha_node \<Rightarrow> bool" where
  "leases_staged c standby \<longleftrightarrow>
     (case lease_replication c of
        None \<Rightarrow> False
      | Some st \<Rightarrow> lr_status st = ''CURRENT'' \<and> lr_target_node_id st = Some (node_id standby) \<and> lease_generation standby \<ge> desired_generation st)"

definition rebuilt_node :: "int \<Rightarrow> ha_node \<Rightarrow> ha_node" where
  "rebuilt_node target n =
     n\<lparr>desired_role := stored_role target n, vrrp_priority := Some (if node_id n = target then 150 else 100),
       node_keepalived_status := ''PENDING_AGENT'', keepalived_last_error := None\<rparr>"

definition request_runtime_rebuild :: "ha_env \<Rightarrow> ha_node \<Rightarrow> ha_cluster \<times> ha_maintenance_run \<Rightarrow> ha_cluster \<times> ha_maintenance_run" where
  "request_runtime_rebuild env target cm =
     (case cm of (c, m) \<Rightarrow>
        ((update_all_nodes (rebuilt_node (node_id target)) c)
           \<lparr>role_generation := role_generation c + 1, cluster_generation := cluster_generation c + 1,
            keepalived_generation := keepalived_generation c + 1, keepalived_status := ''PENDING_AGENT'',
            keepalived_requested_at := Some (env_now env), cluster_status := ''DEPLOYING''\<rparr>,
         set_phase (env_now env) WAITING_FOR_VIP (''HA runtime configuration queued with '' @ display_name target @ '' selected as Active'') m))"

definition validate_cluster_invariants :: "ha_cluster \<Rightarrow> ha_maintenance_run \<Rightarrow> time \<Rightarrow> string list" where
  "validate_cluster_invariants c m now =
     (let inspection = inspect_cluster c now (Some (mt_phase_started_at m)) None;
          waiting = (if \<not> ins_fresh inspection then [''Waiting for fresh signed reports from both nodes.''] else [])
      in case Option.bind (mt_desired_active_node_id m) (node_by_id c) of
           None \<Rightarrow> waiting @ [''The selected Active node no longer exists.'']
         | Some target \<Rightarrow>
             dict_fromkeys (waiting @
               (if ins_vip_owner_ids inspection \<noteq> [node_id target] then [display_name target @ '' is not yet the only Virtual IP owner.''] else []) @
               (if pihole_manages_dhcp c \<and> ins_dhcp_owner_ids inspection \<noteq> [node_id target]
                then [display_name target @ '' is not yet the only DHCP-active node.''] else []) @
               (if list_ex (\<lambda>n. dns_healthy n \<noteq> Some True) (nodes c) then [''DNS must be healthy on both nodes.''] else []) @
               (if list_ex (\<lambda>n. \<not> agent_registered n) (nodes c) then [''Both registered HA Agent identities must be reporting.''] else []) @
               (if list_ex (\<lambda>n. node_keepalived_status n \<noteq> ''DEPLOYED'' \<or> keepalived_runtime_state n \<noteq> ''RUNNING'') (nodes c)
                then [''Keepalived must be deployed and running on both nodes.''] else []) @
               (if list_ex (\<lambda>n. config_generation n < keepalived_generation c) (nodes c)
                then [''Both nodes must report the current HA configuration generation.''] else []) @
               (if pihole_manages_dhcp c \<and>
                   (case find (\<lambda>n. node_id n \<noteq> node_id target) (nodes c) of None \<Rightarrow> True | Some standby \<Rightarrow> \<not> leases_staged c standby)
                then [''The standby must stage the current validated DHCP generation.''] else [])))"

definition repaired_node :: "time \<Rightarrow> int \<Rightarrow> ha_node \<Rightarrow> ha_node" where
  "repaired_node now target n =
     n\<lparr>role := stored_role target n, desired_role := stored_role target n,
       recovery_state := (if node_id n = target then ''ACTIVE'' else ''STANDBY_READY''), recovery_started_at := None,
       recovery_stable_since := (if node_id n = target then None else Some now)\<rparr>"

definition restore_cluster :: "time \<Rightarrow> int \<Rightarrow> ha_maintenance_run \<Rightarrow> ha_cluster \<Rightarrow> ha_cluster" where
  "restore_cluster now target m c =
     (update_all_nodes (repaired_node now target) c)
       \<lparr>current_active_node_id := Some target, authoritative_node_id := mt_authoritative_node_id m,
        automatic_failover_enabled := ps_automatic_failover (mt_previous m), automatic_sync_enabled := ps_automatic_sync (mt_previous m),
        automatic_sync_allow_deletions := ps_allow_deletions (mt_previous m), cluster_status := ''HEALTHY'', maintenance_mode := False\<rparr>"

definition already_correct :: "ha_cluster \<Rightarrow> ha_node \<Rightarrow> cluster_inspection \<Rightarrow> bool" where
  "already_correct c target i \<longleftrightarrow>
     ins_vip_owner_ids i = [node_id target] \<and> (\<not> pihole_manages_dhcp c \<or> ins_dhcp_owner_ids i = [node_id target]) \<and>
     \<not> list_ex requires_service_movement (ins_issues i)"

definition reports_step :: "ha_env \<Rightarrow> ha_node \<Rightarrow> ha_cluster \<Rightarrow> ha_maintenance_run \<Rightarrow> repair_step" where
  "reports_step env target c m =
     (let now = env_now env;
          inspection = inspect_cluster c now (Some (mt_phase_started_at m)) None;
          m1 = m\<lparr>mt_result := empty_maintenance_result\<lparr>mr_progress := [''Waiting for fresh signed node reports''],
                   mr_phase_attempts := mr_phase_attempts (mt_result m)\<rparr>\<rparr>
      in if \<not> ins_fresh inspection then Proceed c m1
         else if already_correct c target inspection
         then (let m2 = (succeeded now m1)\<lparr>mt_error := None, mt_result := empty_maintenance_result\<lparr>mr_progress :=
                       [''Fresh signed reports received from both nodes'',
                        ''Observed topology already matches the requested Active and Standby assignment'',
                        ''Kaya stored state reconciled without moving DNS, DHCP or the Virtual IP'']\<rparr>\<rparr>
               in Proceed (maintenance_event env m2 ''cluster_reinitialisation_reconciled'' ''info''
                     (''The observed topology already had '' @ display_name target @
                      '' as the exclusive service owner. Kaya repaired stored state without moving services.'')
                     (restore_cluster now (node_id target) m2 c)) m2)
         else Proceed c (set_phase now BACKING_UP ''Fresh signed reports received from both nodes'' m1))"

definition backup_step :: "ha_env \<Rightarrow> repair_services \<Rightarrow> ha_cluster \<Rightarrow> ha_maintenance_run \<Rightarrow> repair_step" where
  "backup_step env svc c m =
     (case create_two_node_backups svc c m of
        Inl (e, c') \<Rightarrow> Raised e c'
      | Inr (c', m') \<Rightarrow>
          Proceed (maintenance_event env m' ''cluster_reinitialisation_backups_completed'' ''info''
                     ''Encrypted Pi-hole configuration backups were created for both nodes before any service ownership change.'' c')
            (set_phase (env_now env) SYNCHRONISING ''Encrypted configuration backups created for both nodes'' m'))"

definition after_synchronisation :: "ha_env \<Rightarrow> ha_cluster \<Rightarrow> ha_maintenance_run \<Rightarrow> repair_step" where
  "after_synchronisation env c m =
     Proceed c (set_phase (env_now env) (if pihole_manages_dhcp c then STAGING_DHCP else NORMALISING_STANDBY)
       ''Supported configuration synchronised and verified'' m)"

definition synchronise_step :: "ha_env \<Rightarrow> repair_services \<Rightarrow> ha_cluster \<Rightarrow> ha_maintenance_run \<Rightarrow> repair_step" where
  "synchronise_step env svc c m =
     (case find (\<lambda>s. Some (sync_id s) = mt_sync_run_id m) (sync_runs c) of
        None \<Rightarrow> Raised (Expected ''The protected synchronisation plan is missing.'') c
      | Some s \<Rightarrow>
          if sync_status s = ''PLANNED''
          then (case rs_execute_sync svc s (store_maintenance m c) of
                  (c', Some e) \<Rightarrow> Raised e c'
                | (c', None) \<Rightarrow> after_synchronisation env c' m)
          else if sync_status s \<in> {''IN_SYNC'', ''SUCCEEDED''} then after_synchronisation env c m
          else Raised (Expected ''The protected configuration synchronisation did not complete.'') c)"

definition stage_step :: "ha_env \<Rightarrow> repair_services \<Rightarrow> ha_cluster \<Rightarrow> ha_maintenance_run \<Rightarrow> repair_step" where
  "stage_step env svc c m =
     (case reconcile_cluster_leases env (rs_lease_cipher svc) (store_maintenance m c) (rs_inspect_leases svc c) of
        (c', Inl (HALeaseError message)) \<Rightarrow> Raised (Expected message) c'
      | (c', Inl LeaseAttributeError) \<Rightarrow> Raised Unexpected c'
      | (c', Inr st) \<Rightarrow>
          if conflict_count st \<noteq> 0
          then Raised (Expected ''The DHCP lease snapshot contains conflicts and cannot be staged safely.'') c'
          else Proceed c' (set_phase (env_now env) WAITING_FOR_DHCP_STAGE ''Validated DHCP lease snapshot queued for the selected standby'' m))"

definition release_step :: "ha_env \<Rightarrow> ha_node \<Rightarrow> ha_cluster \<Rightarrow> ha_maintenance_run \<Rightarrow> repair_step" where
  "release_step env standby c m =
     (if repair_dhcp_released (env_now env) standby
      then Proceed c ((set_phase (env_now env) REBUILDING_HA (display_name standby @ '' has now confirmed DHCP disabled and UDP/67 released'') m)\<lparr>mt_error := None\<rparr>)
      else if env_now env - mt_phase_started_at m > seconds 45
      then Stop (display_name standby @ '' still reports DHCP configured or UDP port 67 listening after the bounded release window. Reinitialisation stopped before another DHCP owner was enabled.'') c m
      else Proceed c m)"

definition vip_step :: "ha_env \<Rightarrow> ha_node \<Rightarrow> ha_cluster \<Rightarrow> ha_maintenance_run \<Rightarrow> repair_step" where
  "vip_step env target c m =
     (let now = env_now env;
          i = inspect_cluster c now (Some (mt_phase_started_at m)) None;
          failed = filter (\<lambda>n. node_keepalived_status n = ''ERROR'') (nodes c)
      in if failed \<noteq> []
         then Stop (''The HA runtime rebuild stopped safely. '' @
                join '' '' (map (\<lambda>n. display_name n @ '': '' @ opt_text_or (keepalived_last_error n) ''Keepalived configuration was rejected.'') failed)) c m
         else if \<not> ins_fresh i \<or> list_ex (\<lambda>n. node_keepalived_status n \<noteq> ''DEPLOYED'') (nodes c) then Proceed c m
         else if ins_vip_owner_ids i \<noteq> [node_id target]
         then (if now - mt_phase_started_at m > seconds 90
               then Stop (''Kaya could not confirm that '' @ display_name target @ '' became the only Virtual IP owner. No additional DHCP service was started.'') c m
               else Proceed c m)
         else if pihole_manages_dhcp c \<and> \<not> repair_dhcp_active now target
         then Proceed c (set_phase now PROMOTING_ACTIVE (display_name target @ '' exclusively owns the Virtual IP; starting DHCP there'') m)
         else Proceed c (set_phase now VERIFYING (display_name target @ '' exclusively owns the Virtual IP'') m))"

definition activation_step :: "ha_env \<Rightarrow> ha_node \<Rightarrow> ha_node \<Rightarrow> ha_cluster \<Rightarrow> ha_maintenance_run \<Rightarrow> repair_step" where
  "activation_step env target standby c m =
     (let now = env_now env; i = inspect_cluster c now (Some (mt_phase_started_at m)) None
      in if ins_fresh i \<and> ins_vip_owner_ids i = [node_id target] \<and> ins_dhcp_owner_ids i = [node_id target] \<and>
            repair_dhcp_released now standby \<and> dns_healthy target = Some True
         then Proceed c ((set_phase now VERIFYING (''Final inspection confirmed '' @ display_name target @ '' exclusively owns the Virtual IP and DHCP'') m)\<lparr>mt_error := None\<rparr>)
         else if now - mt_phase_started_at m > seconds 45
         then Stop ''Final DHCP activation verification did not converge. Kaya could not confirm exactly one VIP and DHCP owner, so repair stopped without issuing another ownership change.'' c m
         else Proceed c m)"

definition final_step :: "ha_env \<Rightarrow> ha_node \<Rightarrow> ha_cluster \<Rightarrow> ha_maintenance_run \<Rightarrow> repair_step" where
  "final_step env target c m =
     (let now = env_now env; blockers = validate_cluster_invariants c m now
      in if blockers \<noteq> []
         then (if now - mt_phase_started_at m > seconds 90 then Stop (''Final HA validation stopped safely: '' @ join '' '' blockers) c m else Proceed c m)
         else (let m' = (succeeded now m)\<lparr>mt_error := None, mt_result := empty_maintenance_result\<lparr>mr_progress :=
                          mr_progress (mt_result m) @ [''Final invariants verified; HA automation restored'']\<rparr>\<rparr>
               in Proceed (maintenance_event env m' ''cluster_reinitialisation_completed'' ''info''
                     (''Cluster reinitialised with '' @ display_name target @ '' as the exclusive Active node.'')
                     (restore_cluster now (node_id target) m c)) m'))"

text \<open>One advance in the phase of the run, whose row \<open>m\<close> has this attempt counted; \<open>c\<close> still holds the stored row.\<close>

definition reinitialisation_step ::
  "ha_env \<Rightarrow> repair_services \<Rightarrow> ha_node \<Rightarrow> ha_node \<Rightarrow> ha_cluster \<Rightarrow> ha_maintenance_run \<Rightarrow> repair_step" where
  "reinitialisation_step env svc target standby c m =
     (case mt_phase m of
        WAITING_FOR_REPORTS \<Rightarrow> reports_step env target c m
      | BACKING_UP \<Rightarrow> backup_step env svc c m
      | SYNCHRONISING \<Rightarrow> synchronise_step env svc c m
      | STAGING_DHCP \<Rightarrow> stage_step env svc c m
      | WAITING_FOR_DHCP_STAGE \<Rightarrow>
          if \<not> leases_staged c standby then Proceed c m
          else Proceed c (set_phase (env_now env) NORMALISING_STANDBY ''Current DHCP generation staged on the selected standby'' m)
      | NORMALISING_STANDBY \<Rightarrow>
          if pihole_manages_dhcp c \<and> \<not> repair_dhcp_released (env_now env) standby
          then Proceed c (set_phase (env_now env) DEMOTING_STANDBY
                 (''Stopping DHCP on '' @ display_name standby @ '' before changing Virtual IP ownership'') m)
          else Proceed c (set_phase (env_now env) REBUILDING_HA (display_name standby @ '' is safe as standby'') m)
      | VERIFYING_DHCP_RELEASE \<Rightarrow> release_step env standby c m
      | REBUILDING_HA \<Rightarrow> (case request_runtime_rebuild env target (c, m) of (c', m') \<Rightarrow> Proceed c' m')
      | WAITING_FOR_VIP \<Rightarrow> vip_step env target c m
      | VERIFYING_DHCP_ACTIVATION \<Rightarrow> activation_step env target standby c m
      | VERIFYING \<Rightarrow> final_step env target c m
      | _ \<Rightarrow> Proceed c m)"

definition maintenance_by_id :: "ha_cluster \<Rightarrow> int \<Rightarrow> ha_maintenance_run option" where
  "maintenance_by_id c i = find (\<lambda>m. mt_id m = i) (maintenance_runs c)"

definition settle_step :: "ha_env \<Rightarrow> int \<Rightarrow> repair_step \<Rightarrow> maintenance_error + ha_cluster" where
  "settle_step env i step =
     (case step of
        Proceed c m \<Rightarrow> Inr (store_maintenance m c)
      | Stop message c m \<Rightarrow> Inr (fail_safe env message m c)
      | Raised e c \<Rightarrow>
          (case maintenance_by_id c i of
             None \<Rightarrow> Inl MissingPeer
           | Some m \<Rightarrow> Inr (fail_safe env (case e of Expected message \<Rightarrow> message
               | Unexpected \<Rightarrow> ''Cluster repair stopped because an unexpected internal error occurred. No further repair actions were issued.'') m c)))"

text \<open>\<open>process_started\<close>: the module constant \<open>PROCESS_STARTED_AT\<close>, the instant at which this server process was started.\<close>

definition advance_reinitialisation ::
  "ha_env \<Rightarrow> repair_services \<Rightarrow> time \<Rightarrow> ha_maintenance_run \<Rightarrow> ha_cluster \<Rightarrow> maintenance_error + ha_cluster" where
  "advance_reinitialisation env svc process_started m c =
     (if mt_operation m \<noteq> REINITIALISE \<or> mt_status m \<noteq> M_RUNNING then Inr c
      else
        (case Option.bind (mt_desired_active_node_id m) (node_by_id c) of
           None \<Rightarrow> Inr (fail_safe env ''The selected Active node no longer exists.'' m c)
         | Some target \<Rightarrow>
             (case find (\<lambda>n. node_id n \<noteq> node_id target) (nodes c) of
                None \<Rightarrow> Inl MissingPeer
              | Some standby \<Rightarrow>
                  if mt_started_at m < process_started \<and> mr_resumed_for (mt_result m) \<noteq> Some process_started
                  then (let m1 = set_phase (env_now env) WAITING_FOR_REPORTS
                                   ''Kaya restarted; the repair sequence is restarting from fresh signed node reports'' m
                        in Inr (store_maintenance (m1\<lparr>mt_result := (mt_result m1)\<lparr>mr_resumed_for := Some process_started\<rparr>\<rparr>) c))
                  else settle_step env (mt_id m)
                         (reinitialisation_step env svc target standby c (m\<lparr>mt_result := count_attempt (mt_phase m) (mt_result m)\<rparr>)))))"

section \<open>Orders to the agents\<close>

record maintenance_action = failover_action +
  configuration_only :: bool

definition maintenance_checksum :: "(string \<Rightarrow> string) \<Rightarrow> ha_cluster \<Rightarrow> ha_maintenance_run \<Rightarrow> ha_node \<Rightarrow> dhcp_action \<Rightarrow> string" where
  "maintenance_checksum sha c m n a =
     sha (action_name a @ '':'' @ mt_public_id m @ '':'' @ str_int (role_generation c) @ '':'' @ node_public_id n)"

definition maintenance_order :: "ha_env \<Rightarrow> ha_cluster \<Rightarrow> ha_maintenance_run \<Rightarrow> ha_node \<Rightarrow> dhcp_action \<Rightarrow> bool \<Rightarrow> bool \<Rightarrow> maintenance_action" where
  "maintenance_order env c m n a config_only handover =
     \<lparr>fa_action_id = ''maintenance:'' @ mt_public_id m @ '':'' @ lower (action_name a) @ '':'' @ node_public_id n,
      fa_action_type = a, fa_generation = role_generation c, fa_checksum = maintenance_checksum (env_sha256 env) c m n a,
      fa_run_id = mt_public_id m, fa_automatic = False,
      fa_lease_generation = (case lease_replication c of None \<Rightarrow> 0 | Some st \<Rightarrow> desired_generation st),
      fa_restore_original = False, fa_owner_handover_authorised = handover, configuration_only = config_only\<rparr>"

definition self_heal_order :: "ha_env \<Rightarrow> ha_cluster \<Rightarrow> ha_maintenance_run \<Rightarrow> ha_node \<Rightarrow> maintenance_action option" where
  "self_heal_order env c m n =
     (if mt_phase m \<noteq> REPAIRING_DHCP \<or> mr_repair_node_id (mt_result m) \<noteq> Some (node_id n) then None
      else
        (case mr_action_type (mt_result m) of
           None \<Rightarrow> None
         | Some DHCP_PROMOTE \<Rightarrow> Some (maintenance_order env c m n DHCP_PROMOTE True False)
         | Some DHCP_DEMOTE \<Rightarrow>
             if allowed (authorise_dhcp_demotion c n (Option.bind (mt_desired_active_node_id m) (node_by_id c)) False False (env_now env) 120)
             then Some (maintenance_order env c m n DHCP_DEMOTE False False) else None))"

definition reinitialisation_order :: "ha_env \<Rightarrow> ha_cluster \<Rightarrow> ha_maintenance_run \<Rightarrow> ha_node \<Rightarrow> maintenance_action option" where
  "reinitialisation_order env c m n =
     (case Option.bind (mt_desired_active_node_id m) (node_by_id c) of
        None \<Rightarrow> None
      | Some target \<Rightarrow>
          if mt_phase m = DEMOTING_STANDBY \<and> node_id n \<noteq> node_id target \<and> \<not> repair_dhcp_released (env_now env) n
          then (let d = authorise_dhcp_demotion c n (Some target) True (mt_authoritative_node_id m = Some (node_id target)) (env_now env) 120
                in if allowed d then Some (maintenance_order env c m n DHCP_DEMOTE False (owner_handover d)) else None)
          else if mt_phase m = PROMOTING_ACTIVE \<and> node_id n = node_id target \<and> \<not> repair_dhcp_active (env_now env) n
          then Some (maintenance_order env c m n DHCP_PROMOTE False False)
          else None)"

definition desired_maintenance_action :: "ha_env \<Rightarrow> ha_cluster \<Rightarrow> ha_node \<Rightarrow> maintenance_action option" where
  "desired_maintenance_action env c n =
     (case active_maintenance c of
        None \<Rightarrow> None
      | Some m \<Rightarrow>
          if mt_status m \<noteq> M_RUNNING then None
          else (case mt_operation m of
                  RECONCILE \<Rightarrow> None
                | DHCP_SELF_HEAL \<Rightarrow> self_heal_order env c m n
                | REINITIALISE \<Rightarrow> reinitialisation_order env c m n))"

definition unexpected_result :: "dhcp_action \<Rightarrow> string \<Rightarrow> string" where
  "unexpected_result a message = take 1000 (text_or message (action_name a @ '' returned an unexpected result.''))"

definition reported_failure :: "ha_env \<Rightarrow> ha_node \<Rightarrow> dhcp_action \<Rightarrow> string \<Rightarrow> ha_maintenance_run \<Rightarrow> ha_cluster \<Rightarrow> ha_cluster" where
  "reported_failure env n a message m c =
     (let now = env_now env;
          failed = (\<lambda>x. x\<lparr>mt_error := Some (unexpected_result a message)\<rparr>);
          warning = ''cluster_reinitialisation_dhcp_warning'';
          told = display_name n @ '' returned an unexpected DHCP result. Kaya is verifying observed state before deciding whether repair failed.''
      in if mt_operation m = DHCP_SELF_HEAL
         then (let m1 = failed (set_phase now VERIFYING_DHCP_REPAIR (''Unexpected repair response from '' @ display_name n @ ''; verifying the final two-node topology'') m)
               in store_maintenance m1 (maintenance_event env m1 ''dhcp_self_heal_verifying_final_state'' ''warning''
                    ''Kaya received an unexpected repair response and is checking both nodes before deciding the outcome.'' c))
         else if mt_phase m = DEMOTING_STANDBY
         then (let m1 = failed (set_phase now VERIFYING_DHCP_RELEASE
                          (''Unexpected response while stopping DHCP on '' @ display_name n @ ''; checking its fresh configuration and UDP/67 state'') m)
               in store_maintenance m1 (maintenance_event env m1 warning ''warning'' told c))
         else if mt_phase m = PROMOTING_ACTIVE
         then (let m1 = failed (set_phase now VERIFYING_DHCP_ACTIVATION
                          (''Unexpected response while starting DHCP on '' @ display_name n @ ''; checking the final two-node topology'') m)
               in store_maintenance m1 (maintenance_event env m1 warning ''warning'' told c))
         else fail_safe env (text_or message (action_name a @ '' failed safely.'')) m c)"

definition reported_success :: "ha_env \<Rightarrow> ha_node \<Rightarrow> ha_maintenance_run \<Rightarrow> ha_maintenance_run" where
  "reported_success env n m =
     (if mt_operation m = DHCP_SELF_HEAL
      then set_phase (env_now env) VERIFYING_DHCP_REPAIR
             (''DHCP configuration repair was accepted on '' @ display_name n @ ''; waiting for a fresh signed report'') m
      else if mt_phase m = DEMOTING_STANDBY
      then set_phase (env_now env) VERIFYING_DHCP_RELEASE
             (''DHCP disable was accepted on '' @ display_name n @ ''; waiting for a fresh configuration and UDP/67 observation'') m
      else if mt_phase m = PROMOTING_ACTIVE
      then set_phase (env_now env) VERIFYING_DHCP_ACTIVATION
             (''DHCP enable was accepted on '' @ display_name n @ ''; verifying the final two-node topology'') m
      else m)"

definition maintenance_mismatch :: maintenance_error where
  "maintenance_mismatch = HAMaintenanceError ''The maintenance result does not match the current repair generation.''"

definition record_maintenance_action_result ::
  "ha_env \<Rightarrow> ha_node \<Rightarrow> dhcp_action \<Rightarrow> int \<Rightarrow> string option \<Rightarrow> string \<Rightarrow> string \<Rightarrow> ha_cluster \<Rightarrow> maintenance_error + ha_cluster" where
  "record_maintenance_action_result env n a generation checksum status message c =
     (case (active_maintenance c, desired_maintenance_action env c n) of
        (Some m, Some expected) \<Rightarrow>
          if generation \<noteq> fa_generation expected \<or> checksum \<noteq> Some (fa_checksum expected) then Inl maintenance_mismatch
          else
            (let out = \<lparr>ao_action_type = a, ao_node_id = node_public_id n, ao_status = status, ao_message = take 1000 message, ao_received_at = env_now env\<rparr>;
                 m1 = m\<lparr>mt_result := (mt_result m)\<lparr>mr_action_result := Some out\<rparr>\<rparr>
             in if status \<noteq> ''APPLIED'' then Inr (reported_failure env n a message m1 c)
                else Inr (store_maintenance (reported_success env n m1) c))
      | _ \<Rightarrow> Inl maintenance_mismatch)"

section \<open>The step of a report and of the watchdog\<close>

text \<open>What a heartbeat and a pass of the watchdog do with the active run; without one they look for a repair to start.\<close>

definition advance_maintenance ::
  "ha_env \<Rightarrow> repair_services \<Rightarrow> time \<Rightarrow> agent_report list \<Rightarrow> string \<Rightarrow> ha_cluster \<Rightarrow> maintenance_error + ha_cluster" where
  "advance_maintenance env svc process_started log public_id c =
     (case active_maintenance c of
        None \<Rightarrow> Inr (fst (start_dhcp_self_heal env log False None public_id c))
      | Some m \<Rightarrow>
          (case mt_operation m of
             RECONCILE \<Rightarrow> Inr (reconcile_cluster_state env m c)
           | REINITIALISE \<Rightarrow> advance_reinitialisation env svc process_started m c
           | DHCP_SELF_HEAL \<Rightarrow> advance_dhcp_self_heal env log m c))"

datatype watchdog_error = FailoverFault failover_error | MaintenanceFault maintenance_error

definition watchdog_reconcile ::
  "ha_env \<Rightarrow> repair_services \<Rightarrow> time \<Rightarrow> agent_report list \<Rightarrow> string \<Rightarrow> ha_cluster \<Rightarrow> watchdog_error + ha_cluster" where
  "watchdog_reconcile env svc process_started log public_id c =
     (case advance_failover env c of
        Inl e \<Rightarrow> Inl (FailoverFault e)
      | Inr (c1, run) \<Rightarrow>
          if (case run of None \<Rightarrow> False | Some r \<Rightarrow> active_run r) then Inr c1
          else (case advance_maintenance env svc process_started log public_id c1 of
                  Inl e \<Rightarrow> Inl (MaintenanceFault e) | Inr c2 \<Rightarrow> Inr c2))"

section \<open>What the pages show\<close>

fun maintenance_label :: "maintenance_phase \<Rightarrow> string" where
  "maintenance_label WAITING_FOR_REPORTS = ''Waiting for fresh signed reports''"
| "maintenance_label BACKING_UP = ''Creating encrypted configuration backups''"
| "maintenance_label SYNCHRONISING = ''Synchronising supported configuration''"
| "maintenance_label STAGING_DHCP = ''Validating the DHCP snapshot''"
| "maintenance_label WAITING_FOR_DHCP_STAGE = ''Waiting for standby lease staging''"
| "maintenance_label NORMALISING_STANDBY = ''Confirming the standby is safe''"
| "maintenance_label DEMOTING_STANDBY = ''Stopping DHCP on the standby''"
| "maintenance_label VERIFYING_DHCP_RELEASE = ''Verifying UDP port 67 is released''"
| "maintenance_label REBUILDING_HA = ''Rebuilding HA runtime state''"
| "maintenance_label WAITING_FOR_VIP = ''Waiting for exclusive Virtual IP ownership''"
| "maintenance_label PROMOTING_ACTIVE = ''Starting DHCP on the selected active node''"
| "maintenance_label VERIFYING_DHCP_ACTIVATION = ''Verifying DHCP activation''"
| "maintenance_label VERIFYING = ''Checking final topology invariants''"
| "maintenance_label REPAIRING_DHCP = ''Repairing DHCP configuration drift''"
| "maintenance_label VERIFYING_DHCP_REPAIR = ''Verifying the repaired DHCP topology''"
| "maintenance_label MAINTENANCE_COMPLETE = ''Maintenance completed''"
| "maintenance_label MAINTENANCE_PAUSED = ''Maintenance stopped safely''"
| "maintenance_label RECONCILING = title_text (maintenance_phase_name RECONCILING)"

record maintenance_document =
  md_id :: string
  md_operation :: maintenance_operation
  md_status :: maintenance_state
  md_phase :: maintenance_phase
  md_error :: "string option"
  md_failure_latched :: bool
  md_progress :: "string list"
  md_message :: string
  md_detail :: string
  md_visible :: bool
  md_elapsed_seconds :: int
  md_phase_attempt :: int
  md_progress_percent :: int
  md_steps :: "(maintenance_phase \<times> string \<times> string) list"

definition maintenance_phases :: "ha_maintenance_run \<Rightarrow> maintenance_phase list" where
  "maintenance_phases m =
     (case mt_operation m of
        REINITIALISE \<Rightarrow> REINITIALISATION_PHASES
      | DHCP_SELF_HEAL \<Rightarrow> DHCP_SELF_HEAL_PHASES
      | RECONCILE \<Rightarrow> [WAITING_FOR_REPORTS, RECONCILING, MAINTENANCE_COMPLETE])"

text \<open>The position of the phase, 0 for a phase that is not in the list.\<close>

definition phase_index :: "ha_maintenance_run \<Rightarrow> nat" where
  "phase_index m =
     (let before = takeWhile (\<lambda>p. p \<noteq> mt_phase m) (maintenance_phases m)
      in if length before < length (maintenance_phases m) then length before else 0)"

definition maintenance_texts :: "ha_cluster \<Rightarrow> ha_maintenance_run \<Rightarrow> string \<times> string" where
  "maintenance_texts c m =
     (case (mt_operation m = DHCP_SELF_HEAL, mt_status m, Option.bind (mr_repair_node_id (mt_result m)) (node_by_id c)) of
        (True, M_FAILED_SAFE, _) \<Rightarrow>
          (''Self-heal paused'',
           ''Kaya stopped without moving Virtual IP ownership. Automatic retries are paused until the topology changes or an administrator explicitly retries this repair.'')
      | (True, M_SUCCEEDED, Some n) \<Rightarrow>
          (''HA configuration repaired'', ''Kaya corrected DHCP configuration drift on '' @ display_name n @ ''. Network service was not interrupted.'')
      | (True, M_SUCCEEDED, None) \<Rightarrow>
          (''HA configuration repaired'', ''Kaya corrected DHCP configuration drift. Network service was not interrupted.'')
      | (True, _, Some n) \<Rightarrow>
          (if mt_phase m = REPAIRING_DHCP then ''Correcting DHCP configuration on '' @ display_name n
           else if mt_phase m = VERIFYING_DHCP_REPAIR then ''Waiting for a fresh signed report'' else maintenance_label (mt_phase m),
           ''Network services remain available. No user action is required.'')
      | _ \<Rightarrow> (maintenance_label (mt_phase m), ''Kaya advances only after persisted safety checks and fresh signed node reports.''))"

text \<open>\<open>round\<close> to the nearest percentage; a half does not occur with thirteen or two steps.\<close>

definition maintenance_percent :: "ha_maintenance_run \<Rightarrow> int" where
  "maintenance_percent m =
     (if mt_status m = M_SUCCEEDED then 100
      else (let d = max 1 (int (length (maintenance_phases m)) - 1) in (200 * int (phase_index m) + d) div (2 * d)))"

definition maintenance_status :: "ha_cluster \<Rightarrow> time \<Rightarrow> ha_maintenance_run \<Rightarrow> maintenance_document" where
  "maintenance_status c now m =
     (let latched = mr_latch_active (mt_result m);
          recent = (mt_status m = M_SUCCEEDED \<and> (case mt_completed_at m of None \<Rightarrow> False | Some t \<Rightarrow> now - t \<le> seconds 15))
      in \<lparr>md_id = mt_public_id m, md_operation = mt_operation m, md_status = mt_status m, md_phase = mt_phase m, md_error = mt_error m,
          md_failure_latched = latched, md_progress = mr_progress (mt_result m),
          md_message = fst (maintenance_texts c m), md_detail = snd (maintenance_texts c m),
          md_visible = (mt_status m = M_RUNNING \<or> mt_status m = M_FAILED_SAFE \<and> latched \<or> recent),
          md_elapsed_seconds = max 0 (whole_seconds (now - mt_started_at m)),
          md_phase_attempt = (case map_of (mr_phase_attempts (mt_result m)) (mt_phase m) of None \<Rightarrow> 0 | Some k \<Rightarrow> k),
          md_progress_percent = maintenance_percent m,
          md_steps = map (\<lambda>(i, p). (p, maintenance_label p,
              if i < phase_index m \<or> mt_status m = M_SUCCEEDED then ''complete'' else if i = phase_index m then ''current'' else ''pending''))
            (zip [0 ..< length (maintenance_phases m)] (maintenance_phases m))\<rparr>)"

end
