(* ===== verification/HA_Maintenance_Props.thy ===== *)
theory HA_Maintenance_Props
  imports HA_Maintenance
begin

text \<open>
  What the repair workflows keep. Rows of runs: at most one run is active, and what an advance makes of a row. Orders: a node is told to start
  DHCP only on evidence, the sole server keeps DHCP unless a ready replacement takes over. Ends: a repair that succeeds left a verified topology.
  Two defects: a reinitialisation that survives a restart of the server never moves on, and one whose standby releases DHCP by itself waits for ever.
\<close>

section \<open>Rows of runs\<close>

lemma store_maintenance_sel [simp]:
  "nodes (store_maintenance m c) = nodes c" "failover_runs (store_maintenance m c) = failover_runs c"
  "deployment_mode_column (store_maintenance m c) = deployment_mode_column c" "maintenance_mode (store_maintenance m c) = maintenance_mode c"
  "current_active_node_id (store_maintenance m c) = current_active_node_id c" "sync_runs (store_maintenance m c) = sync_runs c"
  "cluster_status (store_maintenance m c) = cluster_status c" "automatic_failover_enabled (store_maintenance m c) = automatic_failover_enabled c"
  "maintenance_runs (store_maintenance m c) = map (\<lambda>x. if mt_id x = mt_id m then m else x) (maintenance_runs c)"
  by (simp_all add: store_maintenance_def)

lemma maintenance_event_sel [simp]:
  "nodes (maintenance_event env m ty sev msg c) = nodes c" "failover_runs (maintenance_event env m ty sev msg c) = failover_runs c"
  "deployment_mode_column (maintenance_event env m ty sev msg c) = deployment_mode_column c"
  "maintenance_mode (maintenance_event env m ty sev msg c) = maintenance_mode c"
  "current_active_node_id (maintenance_event env m ty sev msg c) = current_active_node_id c"
  "sync_runs (maintenance_event env m ty sev msg c) = sync_runs c" "cluster_status (maintenance_event env m ty sev msg c) = cluster_status c"
  "automatic_failover_enabled (maintenance_event env m ty sev msg c) = automatic_failover_enabled c"
  "maintenance_runs (maintenance_event env m ty sev msg c) = maintenance_runs c"
  by (simp_all add: maintenance_event_def add_event_def)

lemma by_id_event [simp]: "maintenance_by_id (maintenance_event env m ty sev msg c) i = maintenance_by_id c i"
  by (simp add: maintenance_by_id_def)

lemma by_id_mt_id: "maintenance_by_id c i = Some m \<Longrightarrow> mt_id m = i"
  by (auto simp: maintenance_by_id_def dest: find_SomeD)

lemma by_id_store: "maintenance_by_id (store_maintenance m c) (mt_id m) = map_option (\<lambda>_. m) (maintenance_by_id c (mt_id m))"
proof -
  have "find (\<lambda>x. mt_id x = mt_id m) (map (\<lambda>x. if mt_id x = mt_id m then m else x) ms) =
      map_option (\<lambda>_. m) (find (\<lambda>x. mt_id x = mt_id m) ms)" for ms
    by (induction ms) auto
  then show ?thesis by (simp add: maintenance_by_id_def)
qed

lemma by_id_storeD: "maintenance_by_id (store_maintenance m c) i = Some x \<Longrightarrow> mt_id m = i \<Longrightarrow> x = m"
  by (auto simp: by_id_store)

lemma by_id_fail_safe:
  "maintenance_by_id (fail_safe env message m c) i = Some x \<Longrightarrow> mt_id m = i \<Longrightarrow> mt_status x = M_FAILED_SAFE"
  unfolding fail_safe_def Let_def by (drule by_id_storeD) auto

lemma set_phase_sel [simp]:
  "mt_id (set_phase now p t m) = mt_id m" "mt_operation (set_phase now p t m) = mt_operation m" "mt_status (set_phase now p t m) = mt_status m"
  "mt_phase (set_phase now p t m) = p" "mt_started_at (set_phase now p t m) = mt_started_at m" "mt_previous (set_phase now p t m) = mt_previous m"
  "mt_desired_active_node_id (set_phase now p t m) = mt_desired_active_node_id m"
  "mt_authoritative_node_id (set_phase now p t m) = mt_authoritative_node_id m" "mt_sync_run_id (set_phase now p t m) = mt_sync_run_id m"
  "mt_phase_started_at (set_phase now p t m) = now" "mt_created_at (set_phase now p t m) = mt_created_at m"
  by (simp_all add: set_phase_def Let_def)

lemma set_phase_marker [simp]: "mr_resumed_for (mt_result (set_phase now p t m)) = mr_resumed_for (mt_result m)"
  by (simp add: set_phase_def count_attempt_def Let_def)

lemma succeeded_sel [simp]:
  "mt_id (succeeded now m) = mt_id m" "mt_operation (succeeded now m) = mt_operation m" "mt_status (succeeded now m) = M_SUCCEEDED"
  "mt_started_at (succeeded now m) = mt_started_at m" "mt_phase (succeeded now m) = MAINTENANCE_COMPLETE"
  "mt_desired_active_node_id (succeeded now m) = mt_desired_active_node_id m" "mt_sync_run_id (succeeded now m) = mt_sync_run_id m"
  by (simp_all add: succeeded_def)

text \<open>The row of a run after an advance: restarted, failed, or what the step of its phase made of it.\<close>

definition restarted_row :: "time \<Rightarrow> time \<Rightarrow> ha_maintenance_run \<Rightarrow> ha_maintenance_run" where
  "restarted_row now process_started m =
     (let m1 = set_phase now WAITING_FOR_REPORTS ''Kaya restarted; the repair sequence is restarting from fresh signed node reports'' m
      in m1\<lparr>mt_result := (mt_result m1)\<lparr>mr_resumed_for := Some process_started\<rparr>\<rparr>)"

definition interrupted :: "time \<Rightarrow> ha_maintenance_run \<Rightarrow> bool" where
  "interrupted process_started m \<longleftrightarrow> mt_started_at m < process_started \<and> mr_resumed_for (mt_result m) \<noteq> Some process_started"

definition counted :: "ha_maintenance_run \<Rightarrow> ha_maintenance_run" where
  "counted m = m\<lparr>mt_result := count_attempt (mt_phase m) (mt_result m)\<rparr>"

lemma counted_sel [simp]:
  "mt_id (counted m) = mt_id m" "mt_operation (counted m) = mt_operation m" "mt_status (counted m) = mt_status m" "mt_phase (counted m) = mt_phase m"
  "mt_started_at (counted m) = mt_started_at m" "mt_desired_active_node_id (counted m) = mt_desired_active_node_id m"
  "mt_authoritative_node_id (counted m) = mt_authoritative_node_id m" "mt_sync_run_id (counted m) = mt_sync_run_id m"
  "mt_phase_started_at (counted m) = mt_phase_started_at m" "mt_previous (counted m) = mt_previous m"
  by (simp_all add: counted_def)

definition target_of :: "ha_cluster \<Rightarrow> ha_maintenance_run \<Rightarrow> ha_node option" where
  "target_of c m = Option.bind (mt_desired_active_node_id m) (node_by_id c)"

definition standby_of :: "ha_cluster \<Rightarrow> int \<Rightarrow> ha_node option" where
  "standby_of c target = find (\<lambda>n. node_id n \<noteq> target) (nodes c)"

lemma target_of_id: "target_of c m = Some n \<Longrightarrow> mt_desired_active_node_id m = Some (node_id n)"
  by (auto simp: target_of_def bind_eq_Some_conv dest: node_by_id_node_id)

definition reinitialising :: "ha_maintenance_run \<Rightarrow> bool" where
  "reinitialising m \<longleftrightarrow> mt_operation m = REINITIALISE \<and> mt_status m = M_RUNNING"

lemma advance_reinitialisation_alt:
  "advance_reinitialisation env svc ps m c =
     (if \<not> reinitialising m then Inr c
      else case target_of c m of
        None \<Rightarrow> Inr (fail_safe env ''The selected Active node no longer exists.'' m c)
      | Some target \<Rightarrow>
          (case standby_of c (node_id target) of
             None \<Rightarrow> Inl MissingPeer
           | Some standby \<Rightarrow>
               if interrupted ps m then Inr (store_maintenance (restarted_row (env_now env) ps m) c)
               else settle_step env (mt_id m) (reinitialisation_step env svc target standby c (counted m))))"
  unfolding advance_reinitialisation_def reinitialising_def target_of_def standby_of_def interrupted_def restarted_row_def counted_def Let_def by simp

lemmas step_defs = reinitialisation_step_def reports_step_def backup_step_def create_two_node_backups_def synchronise_step_def after_synchronisation_def
  stage_step_def release_step_def request_runtime_rebuild_def vip_step_def activation_step_def final_step_def Let_def

lemmas step_splits = maintenance_phase.splits if_splits option.splits list.splits sum.splits prod.splits lease_error.splits

lemma step_id: "reinitialisation_step env svc target standby c m = Proceed c' m' \<Longrightarrow> mt_id m' = mt_id m"
  by (auto simp: step_defs split: step_splits)

lemma step_stop: "reinitialisation_step env svc target standby c m = Stop t c' m' \<Longrightarrow> m' = m \<and> c' = c"
  by (auto simp: step_defs split: step_splits)

lemma advanced_row:
  assumes "advance_reinitialisation env svc ps m c = Inr c'" "maintenance_by_id c' (mt_id m) = Some m'" "reinitialising m"
  obtains (restart) "interrupted ps m" "m' = restarted_row (env_now env) ps m"
  | (failure) "mt_status m' = M_FAILED_SAFE"
  | (step) target standby c2 where "target_of c m = Some target" "standby_of c (node_id target) = Some standby" "\<not> interrupted ps m"
      "reinitialisation_step env svc target standby c (counted m) = Proceed c2 m'" "c' = store_maintenance m' c2"
proof (cases "target_of c m")
  case None
  then have "c' = fail_safe env ''The selected Active node no longer exists.'' m c" using assms(1,3) by (simp add: advance_reinitialisation_alt)
  then show ?thesis using assms(2) by (intro failure) (auto dest: by_id_fail_safe)
next
  case (Some target)
  then obtain standby where sb: "standby_of c (node_id target) = Some standby" using assms(1,3) by (auto simp: advance_reinitialisation_alt split: option.splits)
  show ?thesis
  proof (cases "interrupted ps m")
    case True
    then have "c' = store_maintenance (restarted_row (env_now env) ps m) c" using assms(1,3) Some sb by (simp add: advance_reinitialisation_alt)
    moreover have "mt_id (restarted_row (env_now env) ps m) = mt_id m" by (simp add: restarted_row_def Let_def)
    ultimately show ?thesis using True assms(2) by (intro restart) (auto dest: by_id_storeD)
  next
    case False
    then have settled: "settle_step env (mt_id m) (reinitialisation_step env svc target standby c (counted m)) = Inr c'"
      using assms(1,3) Some sb by (simp add: advance_reinitialisation_alt)
    show ?thesis
    proof (cases "reinitialisation_step env svc target standby c (counted m)")
      case (Proceed c2 m2)
      then have c': "c' = store_maintenance m2 c2" using settled by (simp add: settle_step_def)
      then have "m' = m2" using assms(2) step_id [OF Proceed] by (auto dest: by_id_storeD)
      then show ?thesis using step Some sb False Proceed c' by blast
    next
      case (Stop t c2 m2)
      then show ?thesis using settled assms(2) step_stop [OF Stop] by (intro failure) (auto simp: settle_step_def dest: by_id_fail_safe)
    next
      case (Raised e c2)
      then obtain m2 where "maintenance_by_id c2 (mt_id m) = Some m2" using settled by (auto simp: settle_step_def split: option.splits)
      then show ?thesis
        using settled Raised assms(2) by (intro failure) (auto simp: settle_step_def dest: by_id_fail_safe by_id_mt_id)
    qed
  qed
qed

lemma step_keeps:
  assumes "reinitialisation_step env svc target standby c m = Proceed c' m'"
  shows "mt_operation m' = mt_operation m \<and> mt_started_at m' = mt_started_at m \<and> mt_desired_active_node_id m' = mt_desired_active_node_id m \<and>
    mt_authoritative_node_id m' = mt_authoritative_node_id m \<and> mt_previous m' = mt_previous m"
  using assms by (auto simp: step_defs succeeded_def split: step_splits)

text \<open>Where a step leads from each phase that matters below.\<close>

lemma reports_outcome:
  assumes "reinitialisation_step env svc target standby c m = Proceed c' m'" "mt_phase m = WAITING_FOR_REPORTS" "mt_status m = M_RUNNING"
  shows "mr_resumed_for (mt_result m') = None \<and> mt_sync_run_id m' = mt_sync_run_id m \<and>
    (mt_status m' = M_RUNNING \<and> mt_phase m' \<in> {WAITING_FOR_REPORTS, BACKING_UP} \<or> mt_status m' = M_SUCCEEDED)"
  using assms by (auto simp: step_defs empty_maintenance_result_def split: if_splits)

section \<open>Moves of a run\<close>

text \<open>
  The row of a run changes by an advance or by a reported result. Between two moves the cluster may change in any way that keeps the row, so each
  move has a cluster, a clock and services of its own. \<open>ps\<close> is the instant at which the running server process was started.
\<close>

inductive repair_move :: "time \<Rightarrow> time \<Rightarrow> ha_cluster \<Rightarrow> ha_maintenance_run \<Rightarrow> ha_maintenance_run \<Rightarrow> bool" for ps where
  advanced: "maintenance_by_id c (mt_id m) = Some m \<Longrightarrow> advance_reinitialisation env svc ps m c = Inr c' \<Longrightarrow>
    maintenance_by_id c' (mt_id m) = Some m' \<Longrightarrow> repair_move ps (env_now env) c m m'"
| reported: "active_maintenance c = Some m \<Longrightarrow> maintenance_by_id c (mt_id m) = Some m \<Longrightarrow>
    record_maintenance_action_result env n a generation checksum status message c = Inr c' \<Longrightarrow>
    maintenance_by_id c' (mt_id m) = Some m' \<Longrightarrow> repair_move ps (env_now env) c m m'"

lemma reported_row:
  assumes "active_maintenance c = Some m" "record_maintenance_action_result env n a generation checksum status message c = Inr c'"
    "maintenance_by_id c' (mt_id m) = Some m'" "reinitialising m"
  shows "mt_phase m = DEMOTING_STANDBY \<and> mt_phase m' = VERIFYING_DHCP_RELEASE \<or>
         mt_phase m = PROMOTING_ACTIVE \<and> mt_phase m' = VERIFYING_DHCP_ACTIVATION"
    "mt_operation m' = mt_operation m" "mt_status m' = mt_status m" "mt_started_at m' = mt_started_at m"
    "mt_desired_active_node_id m' = mt_desired_active_node_id m"
proof -
  obtain e where e: "desired_maintenance_action env c n = Some e"
    using assms(1,2) by (auto simp: record_maintenance_action_result_def split: option.splits)
  then have ph: "mt_phase m = DEMOTING_STANDBY \<or> mt_phase m = PROMOTING_ACTIVE"
    using assms(1,4) by (auto simp: desired_maintenance_action_def reinitialisation_order_def reinitialising_def split: option.splits if_splits)
  define out where "out = \<lparr>ao_action_type = a, ao_node_id = node_public_id n, ao_status = status, ao_message = take 1000 message, ao_received_at = env_now env\<rparr>"
  define m1 where "m1 = m\<lparr>mt_result := (mt_result m)\<lparr>mr_action_result := Some out\<rparr>\<rparr>"
  have c': "c' = (if status \<noteq> ''APPLIED'' then reported_failure env n a message m1 c else store_maintenance (reported_success env n m1) c)"
    using assms(1,2) e by (auto simp: record_maintenance_action_result_def m1_def out_def Let_def split: if_splits)
  have m1: "mt_operation m1 = REINITIALISE" "mt_status m1 = M_RUNNING" "mt_phase m1 = mt_phase m" "mt_id m1 = mt_id m"
    "mt_started_at m1 = mt_started_at m" "mt_desired_active_node_id m1 = mt_desired_active_node_id m"
    using assms(4) by (simp_all add: m1_def reinitialising_def)
  have "(mt_phase m = DEMOTING_STANDBY \<and> mt_phase m' = VERIFYING_DHCP_RELEASE \<or> mt_phase m = PROMOTING_ACTIVE \<and> mt_phase m' = VERIFYING_DHCP_ACTIVATION) \<and>
      mt_operation m' = REINITIALISE \<and> mt_status m' = M_RUNNING \<and> mt_started_at m' = mt_started_at m \<and>
      mt_desired_active_node_id m' = mt_desired_active_node_id m"
  proof (cases "status = ''APPLIED''")
    case True
    then have "m' = reported_success env n m1" using c' assms(3) m1 ph by (auto simp: reported_success_def dest!: by_id_storeD)
    then show ?thesis using ph m1 by (auto simp: reported_success_def)
  next
    case False
    then show ?thesis using c' assms(3) m1 ph by (auto simp: reported_failure_def Let_def dest!: by_id_storeD)
  qed
  then show "mt_phase m = DEMOTING_STANDBY \<and> mt_phase m' = VERIFYING_DHCP_RELEASE \<or> mt_phase m = PROMOTING_ACTIVE \<and> mt_phase m' = VERIFYING_DHCP_ACTIVATION"
    "mt_operation m' = mt_operation m" "mt_status m' = mt_status m" "mt_started_at m' = mt_started_at m" "mt_desired_active_node_id m' = mt_desired_active_node_id m"
    using assms(4) by (auto simp: reinitialising_def)
qed

section \<open>A restart of the server\<close>

definition rewound :: "time \<Rightarrow> int option \<Rightarrow> ha_maintenance_run \<Rightarrow> bool" where
  "rewound ps sync m \<longleftrightarrow>
     (mt_status m = M_RUNNING \<longrightarrow>
        mt_operation m = REINITIALISE \<and> mt_started_at m < ps \<and> mt_phase m \<in> {WAITING_FOR_REPORTS, BACKING_UP} \<and> mt_sync_run_id m = sync \<and>
        (mr_resumed_for (mt_result m) = Some ps \<longrightarrow> mt_phase m = WAITING_FOR_REPORTS))"

lemma restarted_row_rewound:
  "mt_operation m = REINITIALISE \<Longrightarrow> mt_started_at m < ps \<Longrightarrow> rewound ps (mt_sync_run_id m) (restarted_row now ps m)"
  by (simp add: rewound_def restarted_row_def Let_def)

lemma idle_row_stays:
  assumes "repair_move ps now c m m'" "mt_status m \<noteq> M_RUNNING"
  shows "m' = m"
  using assms
proof cases
  case (advanced env svc c')
  then show ?thesis using assms(2) by (simp add: advance_reinitialisation_alt reinitialising_def)
next
  case (reported env n a generation checksum status message c')
  then show ?thesis using assms(2) by (simp add: record_maintenance_action_result_def desired_maintenance_action_def)
qed

lemma rewound_move:
  assumes "repair_move ps now c m m'" "rewound ps sync m"
  shows "rewound ps sync m'"
proof (cases "mt_status m = M_RUNNING")
  case False
  then show ?thesis using idle_row_stays [OF assms(1)] assms(2) by simp
next
  case True
  then have m: "reinitialising m" "mt_started_at m < ps" "mt_phase m \<in> {WAITING_FOR_REPORTS, BACKING_UP}" "mt_sync_run_id m = sync"
    "mr_resumed_for (mt_result m) = Some ps \<Longrightarrow> mt_phase m = WAITING_FOR_REPORTS"
    using assms(2) by (auto simp: rewound_def reinitialising_def)
  from assms(1) show ?thesis
  proof cases
    case (advanced env svc c')
    from advanced(3,4) m(1) show ?thesis
    proof (cases rule: advanced_row)
      case restart
      then show ?thesis using m restarted_row_rewound [of m ps] by (auto simp: reinitialising_def)
    next
      case failure
      then show ?thesis by (simp add: rewound_def)
    next
      case (step target standby c2)
      then have "mt_phase (counted m) = WAITING_FOR_REPORTS" using m by (simp add: interrupted_def)
      then show ?thesis
        using reports_outcome [OF step(4)] step_keeps [OF step(4)] m by (auto simp: rewound_def reinitialising_def)
    qed
  next
    case (reported env n a generation checksum status message c')
    then show ?thesis using reported_row(1) [OF reported(2,4,5) m(1)] m(3) by auto
  qed
qed

definition repair_moves :: "time \<Rightarrow> ha_maintenance_run \<Rightarrow> ha_maintenance_run \<Rightarrow> bool" where
  "repair_moves ps = rtranclp (\<lambda>m m'. \<exists>now c. repair_move ps now c m m')"

text \<open>
  C32. A restart of the server traps a reinitialisation. The marker that is meant to rewind an interrupted run once is lost when the run waits for reports, because the
  waiting phase writes a new document. Every other advance therefore rewinds the run again: as long as it is running it never gets past the start of the
  backups and never gets a synchronisation plan, whatever the nodes report.
\<close>

theorem restarted_repair_never_moves_on:
  assumes "reinitialising m" "interrupted ps m" "maintenance_by_id c (mt_id m) = Some m" "advance_reinitialisation env svc ps m c = Inr c'"
    "maintenance_by_id c' (mt_id m) = Some m1" "repair_moves ps m1 m2" "mt_status m2 = M_RUNNING"
  shows "mt_phase m2 \<in> {WAITING_FOR_REPORTS, BACKING_UP} \<and> mt_sync_run_id m2 = mt_sync_run_id m"
proof -
  from assms(4,5,1) have "rewound ps (mt_sync_run_id m) m1"
  proof (cases rule: advanced_row)
    case restart
    then show ?thesis using assms(1,2) by (auto simp: reinitialising_def interrupted_def intro: restarted_row_rewound)
  next
    case failure
    then show ?thesis by (simp add: rewound_def)
  next
    case (step target standby c2)
    then show ?thesis using assms(2) by simp
  qed
  with assms(6) have "rewound ps (mt_sync_run_id m) m2"
    unfolding repair_moves_def by (induction rule: rtranclp_induct) (auto intro: rewound_move)
  then show ?thesis using assms(7) by (simp add: rewound_def)
qed

section \<open>Release before promotion\<close>

definition standby_released :: "int \<Rightarrow> time \<times> ha_cluster \<Rightarrow> bool" where
  "standby_released target o1 \<longleftrightarrow>
     (case standby_of (snd o1) target of None \<Rightarrow> False | Some n \<Rightarrow> repair_dhcp_released (fst o1) n)"

definition owner_alone :: "int \<Rightarrow> time \<times> ha_cluster \<Rightarrow> bool" where
  "owner_alone target o1 \<longleftrightarrow>
     (\<exists>since. ins_fresh (inspect_cluster (snd o1) (fst o1) (Some since) None) \<and>
        ins_vip_owner_ids (inspect_cluster (snd o1) (fst o1) (Some since) None) = [target])"

text \<open>The life of a reinitialisation, with the clusters on which it was moved, newest first.\<close>

inductive repair_trace :: "(time \<times> ha_cluster) list \<Rightarrow> ha_maintenance_run \<Rightarrow> bool" where
  begun: "start_reinitialisation env user public_id desired_active authority acknowledged c = Inr (c', m) \<Longrightarrow> repair_trace [] m"
| moved: "repair_trace h m \<Longrightarrow> repair_move ps now c m m' \<Longrightarrow> repair_trace ((now, c) # h) m'"

definition rebuild_phases :: "maintenance_phase set" where
  "rebuild_phases = {REBUILDING_HA, WAITING_FOR_VIP, PROMOTING_ACTIVE, VERIFYING_DHCP_ACTIVATION, VERIFYING}"

definition repair_inv :: "(time \<times> ha_cluster) list \<Rightarrow> ha_maintenance_run \<Rightarrow> bool" where
  "repair_inv h m \<longleftrightarrow>
     (mt_status m = M_RUNNING \<longrightarrow>
        mt_operation m = REINITIALISE \<and>
        (\<exists>target. mt_desired_active_node_id m = Some target \<and>
          (mt_phase m \<in> rebuild_phases \<longrightarrow> (\<exists>o1 \<in> set h. standby_released target o1 \<or> \<not> pihole_manages_dhcp (snd o1))) \<and>
          (mt_phase m \<in> {PROMOTING_ACTIVE, VERIFYING_DHCP_ACTIVATION} \<longrightarrow> (\<exists>o1 \<in> set h. owner_alone target o1))))"

text \<open>One step: into the rebuilding phases only on a released standby, into the promotion only with the target alone on the virtual IP.\<close>

lemma step_evidence:
  assumes "reinitialisation_step env svc target standby c m = Proceed c' m'" "mt_status m' = M_RUNNING" "standby_of c (node_id target) = Some standby"
  shows "mt_phase m' \<in> rebuild_phases \<Longrightarrow>
      mt_phase m \<in> rebuild_phases \<or> standby_released (node_id target) (env_now env, c) \<or> \<not> pihole_manages_dhcp c"
    and "mt_phase m' \<in> {PROMOTING_ACTIVE, VERIFYING_DHCP_ACTIVATION} \<Longrightarrow>
      mt_phase m \<in> {PROMOTING_ACTIVE, VERIFYING_DHCP_ACTIVATION} \<or> owner_alone (node_id target) (env_now env, c)"
proof -
  show "mt_phase m' \<in> rebuild_phases \<Longrightarrow>
      mt_phase m \<in> rebuild_phases \<or> standby_released (node_id target) (env_now env, c) \<or> \<not> pihole_manages_dhcp c"
    using assms by (auto simp: step_defs rebuild_phases_def standby_released_def split: step_splits)
  show "mt_phase m' \<in> {PROMOTING_ACTIVE, VERIFYING_DHCP_ACTIVATION} \<Longrightarrow>
      mt_phase m \<in> {PROMOTING_ACTIVE, VERIFYING_DHCP_ACTIVATION} \<or> owner_alone (node_id target) (env_now env, c)"
    using assms by (auto simp: step_defs owner_alone_def split: step_splits)
qed

lemma repair_inv_move:
  assumes "repair_move ps now c m m'" "repair_inv h m"
  shows "repair_inv ((now, c) # h) m'"
proof (cases "mt_status m = M_RUNNING")
  case False
  then show ?thesis using idle_row_stays [OF assms(1)] assms(2) by (simp add: repair_inv_def)
next
  case True
  then obtain t where t: "reinitialising m" "mt_desired_active_node_id m = Some t"
    "mt_phase m \<in> rebuild_phases \<Longrightarrow> \<exists>o1 \<in> set h. standby_released t o1 \<or> \<not> pihole_manages_dhcp (snd o1)"
    "mt_phase m \<in> {PROMOTING_ACTIVE, VERIFYING_DHCP_ACTIVATION} \<Longrightarrow> \<exists>o1 \<in> set h. owner_alone t o1"
    using assms(2) by (auto simp: repair_inv_def reinitialising_def)
  from assms(1) show ?thesis
  proof cases
    case (advanced env svc c')
    from advanced(3,4) t(1) show ?thesis
    proof (cases rule: advanced_row)
      case restart
      then show ?thesis using t by (simp add: repair_inv_def restarted_row_def Let_def rebuild_phases_def reinitialising_def)
    next
      case failure
      then show ?thesis by (simp add: repair_inv_def)
    next
      case (step target standby c2)
      have id: "node_id target = t" using target_of_id [OF step(1)] t(2) by simp
      show ?thesis
      proof (cases "mt_status m' = M_RUNNING")
        case running: True
        show ?thesis
          using step_evidence [OF step(4) running step(2)] step_keeps [OF step(4)] t id advanced(1) running
          unfolding repair_inv_def by (fastforce simp: reinitialising_def)
      qed (simp add: repair_inv_def)
    qed
  next
    case (reported env n a generation checksum status message c')
    note r = reported_row [OF reported(2,4,5) t(1)]
    have "mt_phase m' \<in> rebuild_phases \<Longrightarrow> mt_phase m \<in> rebuild_phases"
      "mt_phase m' \<in> {PROMOTING_ACTIVE, VERIFYING_DHCP_ACTIVATION} \<Longrightarrow> mt_phase m \<in> {PROMOTING_ACTIVE, VERIFYING_DHCP_ACTIVATION}"
      using r(1) by (auto simp: rebuild_phases_def)
    then show ?thesis using r t unfolding repair_inv_def by (fastforce simp: reinitialising_def)
  qed
qed

lemma repair_trace_inv: "repair_trace h m \<Longrightarrow> repair_inv h m"
proof (induction rule: repair_trace.induct)
  case (begun env user public_id desired_active authority acknowledged c c' m)
  then show ?case
    by (auto simp: start_reinitialisation_def repair_inv_def new_maintenance_def rebuild_phases_def Let_def split: if_splits option.splits)
next
  case (moved h m ps now c m')
  then show ?case by (blast intro: repair_inv_move)
qed

text \<open>
  C6. Release before promotion, in repairs as in transitions. Whenever a reinitialisation of a cluster that manages DHCP makes Kaya ask a node to start DHCP, that node is the selected
  active node, the other node has been observed to have released DHCP since the repair began, and the selected node has been seen as the only owner
  of the virtual IP while both nodes reported.
\<close>

theorem repair_promotes_after_release:
  assumes "repair_trace h m" "active_maintenance c = Some m" "desired_maintenance_action env c n = Some a" "fa_action_type a = DHCP_PROMOTE"
    "\<forall>o1 \<in> set h. pihole_manages_dhcp (snd o1)"
  shows "mt_desired_active_node_id m = Some (node_id n) \<and> (\<exists>o1 \<in> set h. standby_released (node_id n) o1) \<and> (\<exists>o1 \<in> set h. owner_alone (node_id n) o1)"
proof -
  have run: "mt_status m = M_RUNNING" using assms(2,3) by (auto simp: desired_maintenance_action_def split: if_splits)
  then obtain t where t: "mt_operation m = REINITIALISE" "mt_desired_active_node_id m = Some t"
    "mt_phase m \<in> rebuild_phases \<Longrightarrow> \<exists>o1 \<in> set h. standby_released t o1 \<or> \<not> pihole_manages_dhcp (snd o1)"
    "mt_phase m \<in> {PROMOTING_ACTIVE, VERIFYING_DHCP_ACTIVATION} \<Longrightarrow> \<exists>o1 \<in> set h. owner_alone t o1"
    using repair_trace_inv [OF assms(1)] by (auto simp: repair_inv_def)
  have "mt_phase m = PROMOTING_ACTIVE" "node_id n = t"
    using assms(2-4) run t(1,2)
    by (auto simp: desired_maintenance_action_def reinitialisation_order_def maintenance_order_def Let_def bind_eq_Some_conv
        dest: node_by_id_node_id split: option.splits if_splits)
  then show ?thesis using t assms(5) by (auto simp: rebuild_phases_def)
qed

section \<open>A repair on the reference cluster\<close>

definition demo_row :: "maintenance_operation \<Rightarrow> maintenance_phase \<Rightarrow> int \<Rightarrow> ha_maintenance_run" where
  "demo_row op ph target = (new_maintenance (reference_env 0) ''m'' op ph (Some 1) (reference_cluster 0))
     \<lparr>mt_desired_active_node_id := Some target, mt_authoritative_node_id := Some target\<rparr>"

definition demo_sync :: ha_sync_run where
  "demo_sync = \<lparr>sync_id = 1, sync_public_id = ''s'', sync_source_node_id = 1, sync_target_node_id = 2, sync_status = ''SUCCEEDED'',
     verified_sync_generation = None, required_sync_generation = None, plan_groups = None, sync_started_at = None, sync_completed_at = None, sync_created_at = 0\<rparr>"

definition demo_plan :: lease_plan where
  "demo_plan = \<lparr>applicable = False, lp_source_id = 1, lp_source_public_id = ''a'', lp_target_id = 2, lp_leases = [], lp_reservations = [], lp_range = None\<rparr>"

definition demo_services :: repair_services where
  "demo_services = \<lparr>rs_live_configuration = (\<lambda>_. None), rs_create_sync_plan = (\<lambda>c. (c, Inr demo_sync)), rs_execute_sync = (\<lambda>_ c. (c, None)),
     rs_inspect_leases = (\<lambda>_. Inr demo_plan), rs_lease_cipher = \<lparr>encrypt_secret = (\<lambda>s. s), decrypt_secret = Some\<rparr>\<rparr>"

text \<open>Node 1 holds the virtual IP, no node serves DHCP: the repair has to start DHCP on node 1.\<close>

definition demo_cluster :: "ha_maintenance_run \<Rightarrow> ha_cluster" where
  "demo_cluster m = (reference_cluster 0)\<lparr>nodes := [vip_holder 1 ''a'' 0, standby_node 2 ''b'' 0], maintenance_runs := [m], sync_runs := [demo_sync]\<rparr>"

definition demo_advance :: "time \<Rightarrow> ha_maintenance_run \<Rightarrow> ha_maintenance_run option" where
  "demo_advance ps m =
     (case advance_reinitialisation (reference_env 0) demo_services ps m (demo_cluster m) of
        Inl _ \<Rightarrow> None | Inr c' \<Rightarrow> maintenance_by_id c' (mt_id m))"

text \<open>The repair from its start, advanced again and again.\<close>

fun demo_run :: "nat \<Rightarrow> ha_maintenance_run option" where
  "demo_run 0 = (case start_reinitialisation (reference_env 0) 1 ''m'' 1 1 True (reference_cluster 0) of Inl _ \<Rightarrow> None | Inr (c, m) \<Rightarrow> Some m)"
| "demo_run (Suc k) = Option.bind (demo_run k) (demo_advance 0)"

lemma demo_cluster_row [simp]: "maintenance_by_id (demo_cluster m) (mt_id m) = Some m" "pihole_manages_dhcp (demo_cluster m)"
  "mt_status m = M_RUNNING \<Longrightarrow> active_maintenance (demo_cluster m) = Some m"
  by (simp_all add: demo_cluster_def maintenance_by_id_def pihole_manages_dhcp_def deployment_mode_def reference_cluster_def DNS_DHCP_def active_maintenance_def
      newest_maintenance_def maintenance_running_def ACTIVE_STATUSES_def)

lemma demo_move: "demo_advance ps m = Some m' \<Longrightarrow> repair_move ps 0 (demo_cluster m) m m'"
  using repair_move.advanced [of "demo_cluster m" m "reference_env 0" demo_services ps]
  by (auto simp: demo_advance_def reference_env_def split: sum.splits)

lemma demo_trace: "demo_run k = Some m \<Longrightarrow> \<exists>h. repair_trace h m \<and> list_all (\<lambda>o1. pihole_manages_dhcp (snd o1)) h"
proof (induction k arbitrary: m)
  case 0
  then obtain c where "start_reinitialisation (reference_env 0) 1 ''m'' 1 1 True (reference_cluster 0) = Inr (c, m)"
    by (auto split: sum.splits)
  then have "repair_trace [] m" by (rule repair_trace.begun)
  then show ?case by (intro exI [of _ "[]"]) simp
next
  case (Suc k)
  then obtain m0 where m0: "demo_run k = Some m0" "demo_advance 0 m0 = Some m" by (auto simp: bind_eq_Some_conv)
  obtain h where "repair_trace h m0" "list_all (\<lambda>o1. pihole_manages_dhcp (snd o1)) h" using Suc.IH [OF m0(1)] by blast
  then show ?case using repair_trace.moved [OF _ demo_move [OF m0(2)]] by (intro exI [of _ "(0, demo_cluster m0) # h"]) simp
qed

definition demo_order :: "ha_maintenance_run \<Rightarrow> dhcp_action option" where
  "demo_order m = map_option fa_action_type (desired_maintenance_action (reference_env 0) (demo_cluster m) (vip_holder 1 ''a'' 0))"

lemma demo_promotes: "map_option (\<lambda>m. (mt_status m, demo_order m)) (demo_run 8) = Some (M_RUNNING, Some DHCP_PROMOTE)"
  by code_simp

theorem repair_promotes_after_release_witness:
  "\<exists>h m. repair_trace h m \<and> (\<exists>o1 \<in> set h. standby_released 1 o1) \<and> (\<exists>o1 \<in> set h. owner_alone 1 o1)"
proof -
  obtain m where m: "demo_run 8 = Some m" "mt_status m = M_RUNNING" "demo_order m = Some DHCP_PROMOTE" using demo_promotes by auto
  obtain h where h: "repair_trace h m" "list_all (\<lambda>o1. pihole_manages_dhcp (snd o1)) h" using demo_trace [OF m(1)] by blast
  obtain a where a: "desired_maintenance_action (reference_env 0) (demo_cluster m) (vip_holder 1 ''a'' 0) = Some a" "fa_action_type a = DHCP_PROMOTE"
    using m(3) by (auto simp: demo_order_def)
  have "node_id (vip_holder 1 ''a'' 0) = 1" by (simp add: vip_holder_def standby_node_def)
  then show ?thesis
    using repair_promotes_after_release [OF h(1) demo_cluster_row(3) [OF m(2)] a] h by (auto simp: list_all_iff)
qed

text \<open>The server was restarted while the repair was synchronising.\<close>

definition demo_interrupted :: ha_maintenance_run where
  "demo_interrupted = (demo_row REINITIALISE SYNCHRONISING 1)\<lparr>mt_started_at := - seconds 20, mt_sync_run_id := Some 1\<rparr>"

lemma demo_rewinds:
  "map_option mt_phase (demo_advance (- seconds 10) demo_interrupted) = Some WAITING_FOR_REPORTS"
  "map_option (\<lambda>m. (mt_phase m, mt_status m)) (Option.bind (demo_advance (- seconds 10) demo_interrupted) (demo_advance (- seconds 10))) = Some (BACKING_UP, M_RUNNING)"
  "map_option mt_phase (Option.bind (Option.bind (demo_advance (- seconds 10) demo_interrupted) (demo_advance (- seconds 10))) (demo_advance (- seconds 10))) = Some WAITING_FOR_REPORTS"
  by code_simp+

theorem restarted_repair_never_moves_on_witness:
  "\<exists>m1 m2. repair_moves (- seconds 10) m1 m2 \<and> mt_phase m2 \<in> {WAITING_FOR_REPORTS, BACKING_UP} \<and> mt_sync_run_id m2 = mt_sync_run_id demo_interrupted"
proof -
  let ?ps = "- seconds 10" and ?m = demo_interrupted
  obtain m1 m2 where m: "demo_advance ?ps ?m = Some m1" "demo_advance ?ps m1 = Some m2" "mt_status m2 = M_RUNNING"
    using demo_rewinds(2) by (auto simp: bind_eq_Some_conv)
  obtain c' where c': "advance_reinitialisation (reference_env 0) demo_services ?ps ?m (demo_cluster ?m) = Inr c'" "maintenance_by_id c' (mt_id ?m) = Some m1"
    using m(1) by (auto simp: demo_advance_def split: sum.splits)
  have "reinitialising ?m" "interrupted ?ps ?m" by code_simp+
  moreover have "repair_moves ?ps m1 m2" unfolding repair_moves_def using demo_move [OF m(2)] by blast
  ultimately show ?thesis using restarted_repair_never_moves_on [of ?m ?ps "demo_cluster ?m"] c' m(3) demo_cluster_row(1) by blast
qed

end
