(* ===== verification/HA_Maintenance_Safety.thy ===== *)
theory HA_Maintenance_Safety
  imports HA_Maintenance_Props
begin

text \<open>
  Further properties of the repair workflows: at most one run is active, what a started self-heal and a finished repair rest on, which demotions are
  ordered, and what a reconciliation leaves alone.
\<close>

section \<open>At most one run\<close>

definition exclusive_runs :: "ha_cluster \<Rightarrow> bool" where
  "exclusive_runs c \<longleftrightarrow> distinct (map mt_id (maintenance_runs c)) \<and> length (filter maintenance_running (maintenance_runs c)) \<le> 1"

lemma exclusive_map:
  assumes "exclusive_runs c" "\<forall>m \<in> set (maintenance_runs c). mt_id (f m) = mt_id m \<and> (maintenance_running (f m) \<longrightarrow> maintenance_running m)"
    "maintenance_runs c' = map f (maintenance_runs c)"
  shows "exclusive_runs c'"
proof -
  have "map mt_id (map f (maintenance_runs c)) = map mt_id (maintenance_runs c)" using assms(2) by (simp add: map_eq_conv)
  moreover have "length (filter maintenance_running (map f (maintenance_runs c))) \<le> length (filter maintenance_running (maintenance_runs c))"
    using assms(2) by (intro length_filter_map_le) blast
  ultimately show ?thesis using assms(1) unfolding exclusive_runs_def assms(3) by (metis order_trans)
qed

lemma exclusive_store:
  assumes "exclusive_runs c" "m \<in> set (maintenance_runs c)" "mt_id m' = mt_id m" "maintenance_running m' \<Longrightarrow> maintenance_running m"
    "maintenance_runs c' = maintenance_runs c"
  shows "exclusive_runs (store_maintenance m' c')"
proof (rule exclusive_map [OF assms(1)])
  show "maintenance_runs (store_maintenance m' c') = map (\<lambda>x. if mt_id x = mt_id m' then m' else x) (maintenance_runs c)" using assms(5) by simp
  show "\<forall>x \<in> set (maintenance_runs c). mt_id (if mt_id x = mt_id m' then m' else x) = mt_id x \<and>
      (maintenance_running (if mt_id x = mt_id m' then m' else x) \<longrightarrow> maintenance_running x)"
  proof
    fix x assume x: "x \<in> set (maintenance_runs c)"
    show "mt_id (if mt_id x = mt_id m' then m' else x) = mt_id x \<and> (maintenance_running (if mt_id x = mt_id m' then m' else x) \<longrightarrow> maintenance_running x)"
    proof (cases "mt_id x = mt_id m'")
      case True
      then have "x = m" using distinct_map_unique [of mt_id "maintenance_runs c" x m] assms(1,2,3) x by (simp add: exclusive_runs_def)
      then show ?thesis using assms(4) True by simp
    qed simp
  qed
qed

lemma active_maintenance_None: "active_maintenance c = None \<longleftrightarrow> filter maintenance_running (maintenance_runs c) = []"
  by (auto simp: active_maintenance_def find_None_conv newest_maintenance_def filter_empty_conv)

lemma active_maintenance_mem: "active_maintenance c = Some m \<Longrightarrow> m \<in> set (maintenance_runs c) \<and> maintenance_running m"
  by (auto simp: active_maintenance_def newest_maintenance_def dest: find_SomeD)

lemma exclusive_add:
  assumes "exclusive_runs c" "filter maintenance_running (maintenance_runs c) = []" "mt_id m = next_rowid (map mt_id (maintenance_runs c))"
    "maintenance_runs c' = maintenance_runs c @ [m]"
  shows "exclusive_runs c'"
  using assms next_rowid_not_in [of "map mt_id (maintenance_runs c)"] by (simp add: exclusive_runs_def)

lemma unlatch_sel [simp]: "mt_id (unlatch m) = mt_id m" "maintenance_running (unlatch m) = maintenance_running m" "mt_status (unlatch m) = mt_status m"
  by (simp_all add: unlatch_def maintenance_running_def)

lemma exclusive_latches:
  assumes "exclusive_runs c"
  shows "exclusive_runs (clear_changed_latches fp c)"
proof (rule exclusive_map [OF assms, where f = "\<lambda>m. if failed_self_heal m \<and> mr_latch_active (mt_result m) \<and> mr_topology_fingerprint (mt_result m) \<noteq> Some fp
    then unlatch m else m"])
qed (simp_all add: clear_changed_latches_def)

lemma latches_running: "filter maintenance_running (maintenance_runs (clear_changed_latches fp c)) = [] \<longleftrightarrow> filter maintenance_running (maintenance_runs c) = []"
proof -
  have "filter maintenance_running (map (\<lambda>m. if P m then unlatch m else m) ms) = [] \<longleftrightarrow> filter maintenance_running ms = []" for P ms
    by (induction ms) auto
  then show ?thesis by (simp add: clear_changed_latches_def)
qed

lemma self_heal_run_sel [simp]:
  "mt_id (self_heal_run env public_id user fp sig (owner, node, a, hard) c) = next_rowid (map mt_id (maintenance_runs c))"
  "mt_operation (self_heal_run env public_id user fp sig (owner, node, a, hard) c) = DHCP_SELF_HEAL"
  "mt_status (self_heal_run env public_id user fp sig (owner, node, a, hard) c) = M_RUNNING"
  "mt_phase (self_heal_run env public_id user fp sig (owner, node, a, hard) c) = REPAIRING_DHCP"
  "mt_desired_active_node_id (self_heal_run env public_id user fp sig (owner, node, a, hard) c) = Some (node_id owner)"
  "mr_repair_node_id (mt_result (self_heal_run env public_id user fp sig (owner, node, a, hard) c)) = Some (node_id node)"
  "mr_action_type (mt_result (self_heal_run env public_id user fp sig (owner, node, a, hard) c)) = Some a"
  "mr_hard_failure_proven (mt_result (self_heal_run env public_id user fp sig (owner, node, a, hard) c)) = hard"
  by (simp_all add: self_heal_run_def new_maintenance_def)

lemma add_maintenance_sel [simp]:
  "maintenance_runs (add_maintenance m c) = maintenance_runs c @ [m]" "maintenance_mode (add_maintenance m c) = maintenance_mode c"
  "nodes (add_maintenance m c) = nodes c" "failover_runs (add_maintenance m c) = failover_runs c"
  by (simp_all add: add_maintenance_def)

lemma exclusive_self_heal:
  assumes "exclusive_runs c" "start_dhcp_self_heal env log force_retry user public_id c = (c', r)"
  shows "exclusive_runs c'"
proof (cases "self_heal_blocked c")
  case True
  then show ?thesis using assms by (simp add: start_dhcp_self_heal_def)
next
  case False
  define fp where "fp = dhcp_topology_fingerprint (env_sha256 env) c (reconcile_topology c (env_now env) None FRESH_SECONDS) (env_now env)"
  define c1 where "c1 = clear_changed_latches fp c"
  have c1: "exclusive_runs c1" "filter maintenance_running (maintenance_runs c1) = []"
    using exclusive_latches [OF assms(1)] False by (simp_all add: c1_def latches_running self_heal_blocked_def active_maintenance_None)
  show ?thesis
  proof (cases "self_heal_repair log c (env_now env)")
    case None
    then show ?thesis using assms(2) False c1 by (simp add: start_dhcp_self_heal_def c1_def fp_def Let_def)
  next
    case (Some repair)
    obtain owner node a hard where rep: "repair = (owner, node, a, hard)" by (rule prod_cases4)
    define sig where "sig = drift_signature (env_sha256 env) a node fp"
    define c2 where "c2 = (case matching_latch sig c1 of None \<Rightarrow> c1 | Some m \<Rightarrow> store_maintenance (unlatch m) c1)"
    have c2: "exclusive_runs c2" "filter maintenance_running (maintenance_runs c2) = []"
    proof -
      have mem: "m \<in> set (maintenance_runs c1)" "\<not> maintenance_running m" if "matching_latch sig c1 = Some m" for m
        using that by (auto simp: matching_latch_def newest_maintenance_def failed_self_heal_def maintenance_running_def ACTIVE_STATUSES_def dest!: find_SomeD)
      show "exclusive_runs c2" unfolding c2_def
      proof (cases "matching_latch sig c1")
        case (Some m)
        then show "exclusive_runs (case matching_latch sig c1 of None \<Rightarrow> c1 | Some m \<Rightarrow> store_maintenance (unlatch m) c1)"
          using exclusive_store [OF c1(1) mem(1) [OF Some], of "unlatch m" c1] by simp
      qed (simp add: c1)
      show "filter maintenance_running (maintenance_runs c2) = []" unfolding c2_def
        using c1(2) mem by (auto simp: filter_empty_conv split: option.splits if_splits)
    qed
    have "c' = c1 \<or> (\<exists>m. mt_id m = next_rowid (map mt_id (maintenance_runs c2)) \<and> maintenance_runs c' = maintenance_runs c2 @ [m])"
    proof (cases "matching_latch sig c1 \<noteq> None \<and> \<not> force_retry")
      case True
      then show ?thesis using assms(2) False by (simp add: start_dhcp_self_heal_def Some rep c1_def fp_def sig_def Let_def)
    next
      case started: False
      let ?m = "self_heal_run env public_id user fp sig (owner, node, a, hard) c2"
      have "c' = maintenance_event env ?m ''dhcp_configuration_drift_detected'' ''warning'' (drift_message a node) (add_maintenance ?m (c2\<lparr>maintenance_mode := True\<rparr>))"
        using assms(2) False started unfolding start_dhcp_self_heal_def Some rep c2_def c1_def fp_def sig_def Let_def by (simp only: prod.case option.case if_False prod.inject)
      then show ?thesis by (intro disjI2 exI [of _ ?m]) simp
    qed
    then show ?thesis using c1(1) exclusive_add [OF c2] by blast
  qed
qed

text \<open>The synchronisation module does not touch the rows of maintenance runs.\<close>

definition services_keep_runs :: "repair_services \<Rightarrow> bool" where
  "services_keep_runs svc \<longleftrightarrow>
     (\<forall>c. maintenance_runs (fst (rs_create_sync_plan svc c)) = maintenance_runs c) \<and>
     (\<forall>s c. maintenance_runs (fst (rs_execute_sync svc s c)) = maintenance_runs c)"

lemma leases_keep_runs: "maintenance_runs (fst (reconcile_cluster_leases env cipher c inspection)) = maintenance_runs c"
  by (auto simp: reconcile_cluster_leases_def blocked_state_def reconcile_plan_def Let_def split: sum.split lease_error.split option.split if_split)

lemma recovery_keeps_runs: "maintenance_runs (fst (evaluate_recovery env stab c)) = maintenance_runs c"
proof -
  have "maintenance_runs (erase_cluster d) = maintenance_runs d" for d by (simp add: erase_cluster_def)
  then show ?thesis using evaluation_does_not_interfere by metis
qed

lemma exclusive_fail_safe: "exclusive_runs c \<Longrightarrow> m \<in> set (maintenance_runs c) \<Longrightarrow> exclusive_runs (fail_safe env message m c)"
  unfolding fail_safe_def Let_def
  by (rule exclusive_store [of c m]) (auto simp: maintenance_running_def ACTIVE_STATUSES_def)

definition step_cluster :: "repair_step \<Rightarrow> ha_cluster" where
  "step_cluster step = (case step of Proceed c m \<Rightarrow> c | Stop t c m \<Rightarrow> c | Raised e c \<Rightarrow> c)"

lemma step_cluster_simps [simp]:
  "step_cluster (Proceed c m) = c" "step_cluster (Stop t c m) = c" "step_cluster (Raised e c) = c"
  by (simp_all add: step_cluster_def)

lemma backup_runs:
  assumes "services_keep_runs svc"
  shows "maintenance_runs (step_cluster (backup_step env svc c m)) \<in> {maintenance_runs c, maintenance_runs (store_maintenance m c)}"
proof -
  have "maintenance_runs d = maintenance_runs c1" if "rs_create_sync_plan svc c1 = (d, r)" for c1 d r
    using assms that by (metis fst_conv services_keep_runs_def)
  then show ?thesis
    by (auto simp: backup_step_def create_two_node_backups_def step_cluster_def store_maintenance_def split: list.split sum.split prod.split)
qed

lemma synchronise_runs:
  assumes "services_keep_runs svc"
  shows "maintenance_runs (step_cluster (synchronise_step env svc c m)) \<in> {maintenance_runs c, maintenance_runs (store_maintenance m c)}"
proof -
  have "maintenance_runs d = maintenance_runs c1" if "rs_execute_sync svc s c1 = (d, r)" for s c1 d r
    using assms that by (metis fst_conv services_keep_runs_def)
  then show ?thesis
    by (auto simp: synchronise_step_def after_synchronisation_def step_cluster_def split: option.split prod.split)
qed

lemma stage_runs: "maintenance_runs (step_cluster (stage_step env svc c m)) = maintenance_runs (store_maintenance m c)"
proof -
  obtain d r where d: "reconcile_cluster_leases env (rs_lease_cipher svc) (store_maintenance m c) (rs_inspect_leases svc c) = (d, r)" by (rule prod.exhaust)
  then have "maintenance_runs d = maintenance_runs (store_maintenance m c)"
    using leases_keep_runs [of env "rs_lease_cipher svc" "store_maintenance m c" "rs_inspect_leases svc c"] by (simp only: fst_conv)
  moreover have "step_cluster (stage_step env svc c m) = d"
    by (simp add: stage_step_def d split: sum.split lease_error.split)
  ultimately show ?thesis by simp
qed

lemma restore_runs [simp]: "maintenance_runs (restore_cluster now target m c) = maintenance_runs c"
  by (simp add: restore_cluster_def update_all_nodes_def)

lemma quiet_runs:
  "maintenance_runs (step_cluster (reports_step env target c m)) = maintenance_runs c"
  "maintenance_runs (step_cluster (release_step env standby c m)) = maintenance_runs c"
  "maintenance_runs (step_cluster (vip_step env target c m)) = maintenance_runs c"
  "maintenance_runs (step_cluster (activation_step env target standby c m)) = maintenance_runs c"
  "maintenance_runs (step_cluster (final_step env target c m)) = maintenance_runs c"
  unfolding reports_step_def release_step_def vip_step_def activation_step_def final_step_def Let_def
  by (simp_all only: if_distrib [of step_cluster] if_distrib [of maintenance_runs] step_cluster_simps restore_runs maintenance_event_sel if_cancel)

lemma step_runs:
  assumes "services_keep_runs svc"
  shows "maintenance_runs (step_cluster (reinitialisation_step env svc target standby c m)) = maintenance_runs c \<or>
    maintenance_runs (step_cluster (reinitialisation_step env svc target standby c m)) = maintenance_runs (store_maintenance m c)"
proof -
  have simple: "maintenance_runs (step_cluster (Proceed c x)) = maintenance_runs c" for x by (simp add: step_cluster_def)
  have rebuild: "maintenance_runs (step_cluster (case request_runtime_rebuild env target (c, m) of (c', m') \<Rightarrow> Proceed c' m')) = maintenance_runs c"
    by (simp add: request_runtime_rebuild_def step_cluster_def update_all_nodes_def)
  show ?thesis
    using backup_runs [OF assms, of env c m] synchronise_runs [OF assms, of env c m] stage_runs [of env svc c m]
    unfolding reinitialisation_step_def
    by (cases "mt_phase m") (simp_all only: maintenance_phase.case quiet_runs simple rebuild if_cancel if_distrib [of step_cluster] if_distrib [of maintenance_runs]
        insert_iff empty_iff simp_thms)
qed

lemma exclusive_reinitialisation:
  assumes "exclusive_runs c" "m \<in> set (maintenance_runs c)" "services_keep_runs svc" "advance_reinitialisation env svc ps m c = Inr c'"
  shows "exclusive_runs c'"
proof (cases "reinitialising m")
  case False
  then show ?thesis using assms by (simp add: advance_reinitialisation_alt)
next
  case True
  then have running: "maintenance_running m" by (simp add: reinitialising_def maintenance_running_def ACTIVE_STATUSES_def)
  show ?thesis
  proof (cases "\<exists>target standby. target_of c m = Some target \<and> standby_of c (node_id target) = Some standby \<and> \<not> interrupted ps m")
    case False
    then show ?thesis
      using assms True running exclusive_fail_safe [OF assms(1,2)] exclusive_store [OF assms(1,2), of "restarted_row (env_now env) ps m" c]
      by (auto simp: advance_reinitialisation_alt restarted_row_def Let_def split: option.splits if_splits)
  next
    case step: True
    then obtain target standby where ts: "target_of c m = Some target" "standby_of c (node_id target) = Some standby" "\<not> interrupted ps m" by blast
    define st where "st = reinitialisation_step env svc target standby c (counted m)"
    have settled: "settle_step env (mt_id m) st = Inr c'" using assms(4) True ts by (simp add: advance_reinitialisation_alt st_def)
    have cnt: "exclusive_runs (store_maintenance (counted m) c)" using exclusive_store [OF assms(1,2)] running by simp
    have ex: "exclusive_runs (step_cluster st)" "\<exists>x \<in> set (maintenance_runs (step_cluster st)). mt_id x = mt_id m \<and> maintenance_running x"
    proof -
      have r: "maintenance_runs (step_cluster st) = maintenance_runs c \<or> maintenance_runs (step_cluster st) = maintenance_runs (store_maintenance (counted m) c)"
        unfolding st_def by (rule step_runs [OF assms(3)])
      then show "exclusive_runs (step_cluster st)" using assms(1) cnt by (auto simp: exclusive_runs_def simp del: store_maintenance_sel)
      have "counted m \<in> set (maintenance_runs (store_maintenance (counted m) c))" using assms(2) by force
      moreover have "maintenance_running (counted m)" using running by (simp add: maintenance_running_def)
      ultimately show "\<exists>x \<in> set (maintenance_runs (step_cluster st)). mt_id x = mt_id m \<and> maintenance_running x"
        using r assms(2) running by (metis counted_sel(1))
    qed
    obtain x where x: "x \<in> set (maintenance_runs (step_cluster st))" "mt_id x = mt_id m" "maintenance_running x" using ex(2) by blast
    show ?thesis
    proof (cases st)
      case (Proceed c2 m2)
      have "mt_id m2 = mt_id m" using step_id [OF Proceed [unfolded st_def]] by simp
      then show ?thesis
        using settled Proceed ex(1) x exclusive_store [of c2 x m2 c2] by (simp add: settle_step_def step_cluster_def)
    next
      case (Stop t c2 m2)
      have m2: "m2 = counted m" "c2 = c" using step_stop [OF Stop [unfolded st_def]] by auto
      have "exclusive_runs (fail_safe env t (counted m) c)" unfolding fail_safe_def Let_def
        by (rule exclusive_store [OF assms(1,2)]) (simp_all add: maintenance_running_def ACTIVE_STATUSES_def)
      then show ?thesis using settled Stop m2 by (simp add: settle_step_def)
    next
      case (Raised e c2)
      then show ?thesis
        using settled ex(1) by (auto simp: settle_step_def step_cluster_def maintenance_by_id_def split: option.splits dest!: find_SomeD intro: exclusive_fail_safe)
    qed
  qed
qed

lemma exclusive_advance_self_heal:
  assumes "exclusive_runs c" "m \<in> set (maintenance_runs c)" "advance_dhcp_self_heal env log m c = Inr c'"
  shows "exclusive_runs c'"
proof -
  have ended: "exclusive_runs (store_maintenance m' d)"
    if "mt_id m' = mt_id m" "\<not> maintenance_running m'" "maintenance_runs d = maintenance_runs c" for m' d
    using exclusive_store [OF assms(1,2), of m' d] that by simp
  have "exclusive_runs (cancel_repair env m c)" "exclusive_runs (complete_self_heal env a m c)" "exclusive_runs (fail_dhcp_self_heal env message m c)" for a message
    unfolding cancel_repair_def complete_self_heal_def fail_dhcp_self_heal_def Let_def
    by (rule ended; simp add: maintenance_running_def ACTIVE_STATUSES_def)+
  then show ?thesis using assms by (auto simp: advance_dhcp_self_heal_def Let_def split: if_splits option.splits)
qed

lemma correct_keeps_runs: "maintenance_runs (fst (correct_stored_state i c)) = maintenance_runs c"
  by (simp add: correct_stored_state_def raise_generations_def correct_roles_def update_all_nodes_def Let_def split: option.split)

lemma exclusive_reconciliation:
  assumes "exclusive_runs c" "m \<in> set (maintenance_runs c)"
  shows "exclusive_runs (reconcile_cluster_state env m c)"
proof -
  obtain c1 fixed where c1: "correct_stored_state (inspect_cluster c (env_now env) (Some (mt_started_at m)) None) c = (c1, fixed)" by (rule prod.exhaust)
  have "maintenance_runs c1 = maintenance_runs c" using correct_keeps_runs [of "inspect_cluster c (env_now env) (Some (mt_started_at m)) None" c] c1 by simp
  then have runs: "maintenance_runs (fst (evaluate_recovery env 0 c1)) = maintenance_runs c" by (simp add: recovery_keeps_runs)
  have "exclusive_runs (finish_reconciliation env k (m\<lparr>mt_result := empty_maintenance_result, mt_phase := RECONCILING\<rparr>) (fst (evaluate_recovery env 0 c1)))" for k
    unfolding finish_reconciliation_def Let_def
    by (rule exclusive_store [OF assms]) (auto simp: maintenance_running_def ACTIVE_STATUSES_def runs split: if_splits)
  moreover have "exclusive_runs (store_maintenance (m\<lparr>mt_result := empty_maintenance_result, mt_phase := WAITING_FOR_REPORTS\<rparr>) c)"
    by (rule exclusive_store [OF assms]) (simp_all add: maintenance_running_def)
  ultimately show ?thesis using assms(1) by (simp add: reconcile_cluster_state_def Let_def c1)
qed

lemma exclusive_result:
  assumes "exclusive_runs c" "record_maintenance_action_result env n a generation checksum status message c = Inr c'"
  shows "exclusive_runs c'"
proof -
  obtain m where m: "active_maintenance c = Some m" using assms(2) by (auto simp: record_maintenance_action_result_def split: option.splits)
  note mem = active_maintenance_mem [OF m]
  have kept: "exclusive_runs (store_maintenance m' d)" if "mt_id m' = mt_id m" "maintenance_runs d = maintenance_runs c" for m' d
    using exclusive_store [OF assms(1), of m m' d] mem that by simp
  have "exclusive_runs (reported_failure env n a message (m\<lparr>mt_result := r\<rparr>) c)" "exclusive_runs (store_maintenance (reported_success env n (m\<lparr>mt_result := r\<rparr>)) c)" for r
    unfolding reported_failure_def fail_safe_def Let_def
    by (auto intro!: kept simp: reported_success_def)
  then show ?thesis
    using assms(2) m by (auto simp: record_maintenance_action_result_def Let_def split: option.splits if_splits)
qed

lemma exclusive_new:
  assumes "exclusive_runs c" "active_maintenance c = None" "mt_id m = next_rowid (map mt_id (maintenance_runs c))"
  shows "exclusive_runs (maintenance_event env m ty sev msg (add_maintenance m c))"
  using exclusive_add [of c m "maintenance_event env m ty sev msg (add_maintenance m c)"] assms by (simp add: active_maintenance_None)

text \<open>
  The clusters that the module can produce. Between its operations everything but the rows of maintenance runs may change: reports arrive, transitions
  run, configuration is edited.
\<close>

inductive maintained :: "ha_cluster \<Rightarrow> bool" where
  no_runs: "maintenance_runs c = [] \<Longrightarrow> maintained c"
| elsewhere: "maintained c \<Longrightarrow> maintenance_runs c' = maintenance_runs c \<Longrightarrow> maintained c'"
| self_heal_started: "maintained c \<Longrightarrow> start_dhcp_self_heal env log force_retry user public_id c = (c', r) \<Longrightarrow> maintained c'"
| reconciliation_started: "maintained c \<Longrightarrow> start_reconciliation env u public_id c = Inr (c', m) \<Longrightarrow> maintained c'"
| reinitialisation_started: "maintained c \<Longrightarrow>
    start_reinitialisation env u public_id desired_active authority acknowledged c = Inr (c', m) \<Longrightarrow> maintained c'"
| self_heal_advanced: "maintained c \<Longrightarrow> m \<in> set (maintenance_runs c) \<Longrightarrow> advance_dhcp_self_heal env log m c = Inr c' \<Longrightarrow> maintained c'"
| reconciled: "maintained c \<Longrightarrow> m \<in> set (maintenance_runs c) \<Longrightarrow> maintained (reconcile_cluster_state env m c)"
| reinitialisation_advanced: "maintained c \<Longrightarrow> m \<in> set (maintenance_runs c) \<Longrightarrow> services_keep_runs svc \<Longrightarrow>
    advance_reinitialisation env svc ps m c = Inr c' \<Longrightarrow> maintained c'"
| result_recorded: "maintained c \<Longrightarrow> record_maintenance_action_result env n a generation checksum status message c = Inr c' \<Longrightarrow> maintained c'"

text \<open>
  C9. One repair at a time: in every cluster that the module can produce at most one maintenance run is running or paused, and the rows have distinct keys.
\<close>

theorem one_repair_at_a_time:
  assumes "maintained c"
  shows "distinct (map mt_id (maintenance_runs c)) \<and> length (filter maintenance_running (maintenance_runs c)) \<le> 1"
proof -
  from assms have "exclusive_runs c"
  proof (induction rule: maintained.induct)
    case (no_runs c)
    then show ?case by (simp add: exclusive_runs_def)
  next
    case (reconciliation_started c env u public_id c' m)
    then have none: "active_maintenance c = None" by (auto simp: start_reconciliation_def split: if_splits)
    have "m = new_maintenance env public_id RECONCILE WAITING_FOR_REPORTS (Some u) c \<and>
        c' = maintenance_event env m ''cluster_reconciliation_started'' ''info''
          ''Cluster reconciliation started. Kaya is waiting for fresh signed reports from both nodes.'' (add_maintenance m c)"
      using reconciliation_started(2) by (auto simp: start_reconciliation_def Let_def split: if_splits)
    then show ?case using exclusive_new [OF reconciliation_started(3) none] by (simp add: new_maintenance_def)
  next
    case (reinitialisation_started c env u public_id desired_active authority acknowledged c' m)
    then have none: "active_maintenance c = None" by (auto simp: start_reinitialisation_def split: if_splits option.splits)
    have "mt_id m = next_rowid (map mt_id (maintenance_runs c)) \<and> maintenance_runs c' = maintenance_runs c @ [m]"
      using reinitialisation_started(2)
      by (auto simp: start_reinitialisation_def new_maintenance_def Let_def split: if_splits option.splits)
    then show ?case using exclusive_add [OF reinitialisation_started(3), of m c'] none by (simp add: active_maintenance_None)
  next
    case (elsewhere c c')
    then show ?case by (simp add: exclusive_runs_def)
  qed (auto intro: exclusive_self_heal exclusive_advance_self_heal exclusive_reconciliation exclusive_reinitialisation exclusive_result)
  then show ?thesis by (simp add: exclusive_runs_def)
qed

section \<open>Self-heal\<close>

lemma self_heal_repair_facts:
  assumes "self_heal_repair log c now = Some (owner, node, a, hard)"
  obtains standby where "find (\<lambda>n. [node_id n] = vip_owner_ids (reconcile_topology c now None FRESH_SECONDS)) (nodes c) = Some owner"
    "find (\<lambda>n. node_id n \<noteq> node_id owner) (nodes c) = Some standby"
    "dhcp_unknown_node_ids (reconcile_topology c now None FRESH_SECONDS) = []"
    "stable_vip_owner c now owner" "dns_healthy owner = Some True" "ftl_active owner = Some True"
    "obs_released (dhcp_observation standby now None FRESH_SECONDS) \<or> hard_failure_proven log c (reconcile_topology c now None FRESH_SECONDS) owner now"
    "a = DHCP_DEMOTE \<and> node = standby \<and> obs_configured (dhcp_observation standby now None FRESH_SECONDS) = Some True \<or>
     a = DHCP_PROMOTE \<and> node = owner \<and> obs_configured (dhcp_observation owner now None FRESH_SECONDS) = Some False"
  using assms by (auto simp: self_heal_repair_def Let_def split: if_splits option.splits)

text \<open>
  A self-heal starts only on certainty. It starts on a deployed cluster that manages DHCP with no maintenance and no transition in progress, when exactly one node is seen to hold the virtual IP and has held it for
  ten seconds in the current generations with DNS and FTL healthy, no node's DHCP state is unknown, and the standby is seen not to serve DHCP (or the owner has reported a completed failover while the peer is silent).
  It then asks for one change of configuration: on the owner where DHCP is disabled, or on the standby where it is enabled but not running. The run takes the maintenance lock.
\<close>

theorem self_heal_starts_on_certainty:
  assumes "start_dhcp_self_heal env log force_retry user public_id c = (c', Some m)"
  shows "active_maintenance c = None \<and> active_failover c = None \<and> \<not> maintenance_mode c \<and> maintenance_mode c' \<and> pihole_manages_dhcp c \<and>
    (\<exists>owner standby. owner \<in> set (nodes c) \<and> standby \<in> set (nodes c) \<and> node_id standby \<noteq> node_id owner \<and>
       vip_owner_ids (reconcile_topology c (env_now env) None FRESH_SECONDS) = [node_id owner] \<and>
       dhcp_unknown_node_ids (reconcile_topology c (env_now env) None FRESH_SECONDS) = [] \<and>
       stable_vip_owner c (env_now env) owner \<and> dns_healthy owner = Some True \<and> ftl_active owner = Some True \<and>
       (obs_released (dhcp_observation standby (env_now env) None FRESH_SECONDS) \<or> hard_failover_proof log c owner (env_now env)) \<and>
       mt_desired_active_node_id m = Some (node_id owner) \<and>
       (mr_action_type (mt_result m) = Some DHCP_PROMOTE \<and> mr_repair_node_id (mt_result m) = Some (node_id owner) \<and>
          obs_configured (dhcp_observation owner (env_now env) None FRESH_SECONDS) = Some False \<or>
        mr_action_type (mt_result m) = Some DHCP_DEMOTE \<and> mr_repair_node_id (mt_result m) = Some (node_id standby) \<and>
          obs_configured (dhcp_observation standby (env_now env) None FRESH_SECONDS) = Some True))"
proof -
  have open_gate: "\<not> self_heal_blocked c" using assms by (auto simp: start_dhcp_self_heal_def)
  obtain owner node a hard where rep: "self_heal_repair log c (env_now env) = Some (owner, node, a, hard)"
    using assms open_gate by (auto simp: start_dhcp_self_heal_def Let_def split: option.splits)
  obtain fp sig c2 where m: "m = self_heal_run env public_id user fp sig (owner, node, a, hard) c2"
    and c': "c' = maintenance_event env m ''dhcp_configuration_drift_detected'' ''warning'' (drift_message a node) (add_maintenance m (c2\<lparr>maintenance_mode := True\<rparr>))"
    using assms open_gate unfolding start_dhcp_self_heal_def Let_def rep
    by (simp only: if_False option.case prod.case split: if_split_asm) (auto simp del: maintenance_event_sel)
  obtain standby where s: "find (\<lambda>n. [node_id n] = vip_owner_ids (reconcile_topology c (env_now env) None FRESH_SECONDS)) (nodes c) = Some owner"
    "find (\<lambda>n. node_id n \<noteq> node_id owner) (nodes c) = Some standby"
    "dhcp_unknown_node_ids (reconcile_topology c (env_now env) None FRESH_SECONDS) = []"
    "stable_vip_owner c (env_now env) owner" "dns_healthy owner = Some True" "ftl_active owner = Some True"
    "obs_released (dhcp_observation standby (env_now env) None FRESH_SECONDS) \<or> hard_failure_proven log c (reconcile_topology c (env_now env) None FRESH_SECONDS) owner (env_now env)"
    "a = DHCP_DEMOTE \<and> node = standby \<and> obs_configured (dhcp_observation standby (env_now env) None FRESH_SECONDS) = Some True \<or>
     a = DHCP_PROMOTE \<and> node = owner \<and> obs_configured (dhcp_observation owner (env_now env) None FRESH_SECONDS) = Some False"
    by (rule self_heal_repair_facts [OF rep])
  have mem: "owner \<in> set (nodes c)" "vip_owner_ids (reconcile_topology c (env_now env) None FRESH_SECONDS) = [node_id owner]"
    "standby \<in> set (nodes c)" "node_id standby \<noteq> node_id owner"
    using find_SomeD [OF s(1)] find_SomeD [OF s(2)] by auto
  have guards: "active_maintenance c = None" "active_failover c = None" "\<not> maintenance_mode c" "pihole_manages_dhcp c" "maintenance_mode c'"
    using open_gate by (auto simp: self_heal_blocked_def c')
  have quiet: "obs_released (dhcp_observation standby (env_now env) None FRESH_SECONDS) \<or> hard_failover_proof log c owner (env_now env)"
    using s(7) by (auto simp: hard_failure_proven_def)
  have order: "mt_desired_active_node_id m = Some (node_id owner)"
    "mr_action_type (mt_result m) = Some DHCP_PROMOTE \<and> mr_repair_node_id (mt_result m) = Some (node_id owner) \<and>
       obs_configured (dhcp_observation owner (env_now env) None FRESH_SECONDS) = Some False \<or>
     mr_action_type (mt_result m) = Some DHCP_DEMOTE \<and> mr_repair_node_id (mt_result m) = Some (node_id standby) \<and>
       obs_configured (dhcp_observation standby (env_now env) None FRESH_SECONDS) = Some True"
    using s(8) by (auto simp: m)
  show ?thesis using guards mem s(3-6) quiet order by blast
qed

text \<open>
  A failed repair is not repeated. While a failed self-heal is latched and the evidence still has the fingerprint under which it failed, no heartbeat and no pass of the watchdog
  starts the same repair again: no run is added and nothing is ordered. An administrator's retry is the way out.
\<close>

theorem failed_repair_is_not_repeated:
  assumes "m \<in> set (maintenance_runs c)" "failed_self_heal m" "mr_latch_active (mt_result m)"
    and "self_heal_repair log c (env_now env) = Some (owner, node, a, hard)"
    and "mr_topology_fingerprint (mt_result m) =
      Some (dhcp_topology_fingerprint (env_sha256 env) c (reconcile_topology c (env_now env) None FRESH_SECONDS) (env_now env))"
    and "mr_drift_signature (mt_result m) = Some (drift_signature (env_sha256 env) a node
      (dhcp_topology_fingerprint (env_sha256 env) c (reconcile_topology c (env_now env) None FRESH_SECONDS) (env_now env)))"
  shows "snd (start_dhcp_self_heal env log False user public_id c) = None \<and>
    length (maintenance_runs (fst (start_dhcp_self_heal env log False user public_id c))) = length (maintenance_runs c)"
proof (cases "self_heal_blocked c")
  case True
  then show ?thesis by (simp add: start_dhcp_self_heal_def)
next
  case False
  define fp where "fp = dhcp_topology_fingerprint (env_sha256 env) c (reconcile_topology c (env_now env) None FRESH_SECONDS) (env_now env)"
  have "m \<in> set (maintenance_runs (clear_changed_latches fp c))"
    using assms(1,5) by (force simp: clear_changed_latches_def fp_def)
  then have "matching_latch (drift_signature (env_sha256 env) a node fp) (clear_changed_latches fp c) \<noteq> None"
    using assms(2,3,6) by (auto simp: matching_latch_def find_None_conv newest_maintenance_def fp_def)
  then have "start_dhcp_self_heal env log False user public_id c = (clear_changed_latches fp c, None)"
    using False assms(4) by (simp add: start_dhcp_self_heal_def Let_def fp_def)
  then show ?thesis by (simp add: clear_changed_latches_def)
qed

section \<open>Demotions\<close>

text \<open>
  C7. Repairs spare the only server. A maintenance run asks the only node that is seen to serve DHCP to stop it only as a reinitialisation that hands over to another node, and
  that node is seen, within two minutes, with DHCP stopped and disabled; the order then carries the authorisation that the agent asks for.
\<close>

theorem repairs_spare_the_only_server:
  assumes "desired_maintenance_action env c n = Some a" "fa_action_type a = DHCP_DEMOTE" "sole_dhcp_owner c (env_now env) 120 n"
  shows "\<exists>m target. active_maintenance c = Some m \<and> mt_operation m = REINITIALISE \<and> mt_phase m = DEMOTING_STANDBY \<and>
    mt_desired_active_node_id m = Some (node_id target) \<and> node_id target \<noteq> node_id n \<and> dhcp_stopped (env_now env) 120 target \<and>
    fa_owner_handover_authorised a"
proof -
  obtain m where m: "active_maintenance c = Some m" "mt_status m = M_RUNNING"
    using assms(1) by (auto simp: desired_maintenance_action_def split: option.splits if_splits)
  have no_heal: "mt_operation m \<noteq> DHCP_SELF_HEAL"
  proof
    assume "mt_operation m = DHCP_SELF_HEAL"
    then have "allowed (authorise_dhcp_demotion c n (Option.bind (mt_desired_active_node_id m) (node_by_id c)) False False (env_now env) 120)"
      using assms(1,2) m by (auto simp: desired_maintenance_action_def self_heal_order_def maintenance_order_def split: option.splits if_splits dhcp_action.splits)
    then show False using gate.routine_work_spares_owner [OF assms(3)] by simp
  qed
  then have op: "mt_operation m = REINITIALISE" using assms(1) m by (cases "mt_operation m") (simp_all add: desired_maintenance_action_def)
  then obtain target where t: "target_of c m = Some target" using assms(1) m by (auto simp: desired_maintenance_action_def reinitialisation_order_def target_of_def split: option.splits)
  define d where "d = authorise_dhcp_demotion c n (Some target) True (mt_authoritative_node_id m = Some (node_id target)) (env_now env) 120"
  have facts: "mt_phase m = DEMOTING_STANDBY" "node_id target \<noteq> node_id n" "allowed d" "a = maintenance_order env c m n DHCP_DEMOTE False (owner_handover d)"
    using assms(1,2) m op t [unfolded target_of_def]
    by (auto simp: desired_maintenance_action_def reinitialisation_order_def maintenance_order_def d_def Let_def split: if_splits)
  have h: "owner_handover d" using gate.handover_needed [OF facts(3) [unfolded d_def] assms(3)] by (simp add: d_def)
  then have "dhcp_stopped (env_now env) 120 target" using gate.replacement_stopped [OF h [unfolded d_def]] by simp
  then show ?thesis using m op facts h target_of_id [OF t] by (auto simp: maintenance_order_def)
qed

section \<open>Ends of a reinitialisation\<close>

lemma restore_cluster_sel [simp]:
  "maintenance_mode (restore_cluster now t m c) = False" "cluster_status (restore_cluster now t m c) = ''HEALTHY''"
  "current_active_node_id (restore_cluster now t m c) = Some t" "automatic_failover_enabled (restore_cluster now t m c) = ps_automatic_failover (mt_previous m)"
  by (simp_all add: restore_cluster_def)

lemma no_blockers:
  assumes "validate_cluster_invariants c m now = []" "target_of c m = Some target"
  shows "ins_fresh (inspect_cluster c now (Some (mt_phase_started_at m)) None)"
    "ins_vip_owner_ids (inspect_cluster c now (Some (mt_phase_started_at m)) None) = [node_id target]"
    "pihole_manages_dhcp c \<Longrightarrow> ins_dhcp_owner_ids (inspect_cluster c now (Some (mt_phase_started_at m)) None) = [node_id target]"
  using assms by (auto simp: validate_cluster_invariants_def target_of_def Let_def split: if_splits)


text \<open>
  C33. A standby that releases DHCP by itself stalls the repair. While a reinitialisation waits for the standby to be demoted, no order is issued once the standby is seen to have released DHCP; then
  no result can be reported, and an advance leaves the run where it is: the condition it waits for holds, but nothing looks at it and the phase has no deadline.
\<close>

theorem released_standby_stalls_repair:
  assumes "reinitialising m" "mt_phase m = DEMOTING_STANDBY" "\<not> interrupted ps m" "active_maintenance c = Some m" "maintenance_by_id c (mt_id m) = Some m"
    and "target_of c m = Some target" "standby_of c (node_id target) = Some standby"
    and "\<forall>n \<in> set (nodes c). node_id n \<noteq> node_id target \<longrightarrow> repair_dhcp_released (env_now env) n" "n \<in> set (nodes c)"
  shows "desired_maintenance_action env c n = None \<and>
    record_maintenance_action_result env n a generation checksum status message c = Inl maintenance_mismatch \<and>
    (\<exists>c' m'. advance_reinitialisation env svc ps m c = Inr c' \<and> maintenance_by_id c' (mt_id m) = Some m' \<and>
       mt_status m' = M_RUNNING \<and> mt_phase m' = DEMOTING_STANDBY)"
proof -
  have none: "desired_maintenance_action env c n = None"
    using assms by (auto simp: desired_maintenance_action_def reinitialisation_order_def reinitialising_def target_of_def)
  moreover have "record_maintenance_action_result env n a generation checksum status message c = Inl maintenance_mismatch"
    by (simp add: record_maintenance_action_result_def none assms(4))
  moreover have "advance_reinitialisation env svc ps m c = Inr (store_maintenance (counted m) c)"
    using assms by (simp add: advance_reinitialisation_alt reinitialisation_step_def settle_step_def)
  moreover have "maintenance_by_id (store_maintenance (counted m) c) (mt_id m) = Some (counted m)"
    using by_id_store [of "counted m" c] assms(5) by simp
  ultimately show ?thesis using assms(1,2) by (simp add: reinitialising_def)
qed

section \<open>Reconciliation\<close>

text \<open>The columns that the agents report: everything but the stored roles and the state of recovery.\<close>

definition observed_columns :: "ha_node \<Rightarrow> ha_node" where
  "observed_columns n = (erase_node n)\<lparr>role := [], desired_role := []\<rparr>"

lemma managed_frame: "deployment_mode_column c = deployment_mode_column d \<Longrightarrow> pihole_manages_dhcp c = pihole_manages_dhcp d"
  by (simp add: pihole_manages_dhcp_def deployment_mode_def)

lemma topology_frame:
  assumes "nodes c = nodes d" "deployment_mode_column c = deployment_mode_column d"
  shows "reconcile_topology c now since f = reconcile_topology d now since f"
proof -
  have fresh: "fresh_nodes c now since f = fresh_nodes d now since f" using assms(1) by (simp add: fresh_nodes_def)
  show ?thesis
    unfolding reconcile_topology_def ownership_issues_def drift_issues_def safe_verdict_def service_ok_def configuration_consistent_def sole_owner_def
      vip_owners_def dhcp_owners_def dhcp_unknown_def managed_frame [OF assms(2)] fresh assms(1) by (rule refl)
qed

lemma fingerprint_frame:
  assumes "nodes c = nodes d" "deployment_mode_column c = deployment_mode_column d"
  shows "dhcp_topology_fingerprint sha c (reconcile_topology c now since f) now = dhcp_topology_fingerprint sha d (reconcile_topology d now since f) now"
  unfolding dhcp_topology_fingerprint_def public_ids_def topology_frame [OF assms] assms(1) by (rule refl)

lemma inspect_frame:
  assumes "nodes c = nodes d" "deployment_mode_column c = deployment_mode_column d" "current_active_node_id c = current_active_node_id d" "sync_runs c = sync_runs d"
  shows "inspect_cluster c now since recovery = inspect_cluster d now since recovery"
proof -
  have "stale_recovery c now recovery = stale_recovery d now recovery"
    unfolding stale_recovery_def [abs_def] recovery_validation_progressing_def managed_frame [OF assms(2)] assms(4) by (rule refl)
  moreover have "role_mismatch_issue c = role_mismatch_issue d" by (rule ext) (simp add: role_mismatch_issue_def assms(3))
  ultimately show ?thesis unfolding inspect_cluster_def topology_frame [OF assms(1,2)] assms(1) by (simp only:)
qed

lemma correct_frame:
  "map observed_columns (nodes (fst (correct_stored_state i c))) = map observed_columns (nodes c)"
  "role_generation (fst (correct_stored_state i c)) = role_generation c" "keepalived_status (fst (correct_stored_state i c)) = keepalived_status c"
  "maintenance_mode (fst (correct_stored_state i c)) = maintenance_mode c" "failover_runs (fst (correct_stored_state i c)) = failover_runs c"
  by (simp_all add: correct_stored_state_def raise_generations_def correct_roles_def update_all_nodes_def observed_columns_def erase_node_def comp_def Let_def
      split: option.split)

lemma recovery_frame:
  "map observed_columns (nodes (fst (evaluate_recovery env stab c))) = map observed_columns (nodes c)"
  "role_generation (fst (evaluate_recovery env stab c)) = role_generation c" "keepalived_status (fst (evaluate_recovery env stab c)) = keepalived_status c"
  "maintenance_mode (fst (evaluate_recovery env stab c)) = maintenance_mode c" "failover_runs (fst (evaluate_recovery env stab c)) = failover_runs c"
proof -
  note e = evaluation_does_not_interfere [of env stab c]
  have "map erase_node (nodes (fst (evaluate_recovery env stab c))) = map erase_node (nodes c)"
    using arg_cong [OF e, of nodes] by (simp add: erase_cluster_def)
  from arg_cong [OF this, of "map (\<lambda>n. n\<lparr>role := [], desired_role := []\<rparr>)"]
  show "map observed_columns (nodes (fst (evaluate_recovery env stab c))) = map observed_columns (nodes c)"
    by (simp add: observed_columns_def [abs_def] comp_def)
  show "role_generation (fst (evaluate_recovery env stab c)) = role_generation c" using arg_cong [OF e, of role_generation] by (simp add: erase_cluster_def)
  show "keepalived_status (fst (evaluate_recovery env stab c)) = keepalived_status c" using arg_cong [OF e, of keepalived_status] by (simp add: erase_cluster_def)
  show "maintenance_mode (fst (evaluate_recovery env stab c)) = maintenance_mode c" using arg_cong [OF e, of maintenance_mode] by (simp add: erase_cluster_def)
  show "failover_runs (fst (evaluate_recovery env stab c)) = failover_runs c" using arg_cong [OF e, of failover_runs] by (simp add: erase_cluster_def)
qed

lemma finish_frame [simp]:
  "nodes (finish_reconciliation env k m c) = nodes c" "role_generation (finish_reconciliation env k m c) = role_generation c"
  "keepalived_status (finish_reconciliation env k m c) = keepalived_status c" "maintenance_mode (finish_reconciliation env k m c) = maintenance_mode c"
  "failover_runs (finish_reconciliation env k m c) = failover_runs c"
  unfolding finish_reconciliation_def Let_def by (simp_all add: store_maintenance_def maintenance_event_def add_event_def)


section \<open>On the reference cluster\<close>

text \<open>A repair is about to start DHCP on node 2; an earlier transition from node 1 to node 2 had failed.\<close>

definition contested_cluster :: ha_cluster where
  "contested_cluster = (reference_runs [standby_node 1 ''a'' 0, vip_holder 2 ''b'' 0] [reference_run True FAILED_SAFE PHASE_FAILED_SAFE])
     \<lparr>maintenance_runs := [demo_row REINITIALISE PROMOTING_ACTIVE 2], maintenance_mode := True\<rparr>"

text \<open>
  A rollback can start in the middle of a repair. A request to roll back a failed transition does not look for a running repair. On this cluster both are active afterwards and give the
  same node opposite orders: the rollback to stop DHCP, the repair to start it.
\<close>

theorem rollback_contradicts_repair:
  "\<exists>c'. request_failover_rollback (reference_env 0) contested_cluster (reference_run True FAILED_SAFE PHASE_FAILED_SAFE) True = Inr c' \<and>
     map_option fa_action_type (desired_failover_action (reference_env 0) c' (vip_holder 2 ''b'' 0)) = Some DHCP_DEMOTE \<and>
     map_option fa_action_type (desired_maintenance_action (reference_env 0) c' (vip_holder 2 ''b'' 0)) = Some DHCP_PROMOTE"
proof -
  let ?out = "request_failover_rollback (reference_env 0) contested_cluster (reference_run True FAILED_SAFE PHASE_FAILED_SAFE) True"
  have "(case ?out of Inl _ \<Rightarrow> None | Inr c' \<Rightarrow> Some (map_option fa_action_type (desired_failover_action (reference_env 0) c' (vip_holder 2 ''b'' 0)),
      map_option fa_action_type (desired_maintenance_action (reference_env 0) c' (vip_holder 2 ''b'' 0)))) = Some (Some DHCP_DEMOTE, Some DHCP_PROMOTE)"
    by code_simp
  then show ?thesis by (auto split: sum.splits)
qed

theorem one_repair_at_a_time_witness:
  "\<exists>c :: ha_cluster. maintenance_runs c \<noteq> [] \<and> length (filter maintenance_running (maintenance_runs c)) \<le> 1"
proof -
  have "map_option (\<lambda>(c, m). maintenance_runs c \<noteq> []) (case start_reconciliation (reference_env 0) 1 ''m'' (reference_cluster 0) of Inl _ \<Rightarrow> None | Inr x \<Rightarrow> Some x) = Some True"
    by code_simp
  then obtain c m where c: "start_reconciliation (reference_env 0) 1 ''m'' (reference_cluster 0) = Inr (c, m)" "maintenance_runs c \<noteq> []"
    by (auto split: sum.splits)
  have "maintained (reference_cluster 0)" by (rule maintained.no_runs) (simp add: reference_cluster_def)
  then have "maintained c" using c(1) by (rule maintained.reconciliation_started)
  then show ?thesis using one_repair_at_a_time c(2) by blast
qed

text \<open>DHCP is disabled in the configuration of the owner, which has held the virtual IP for twenty seconds.\<close>

definition drifted_cluster :: ha_cluster where
  "drifted_cluster = (reference_cluster (seconds 20))
     \<lparr>nodes := [(serving_node 1 ''a'' (seconds 20))\<lparr>dhcp_configured := Some False, vip_stable_since := Some 0\<rparr>, standby_node 2 ''b'' (seconds 20)]\<rparr>"

abbreviation drift_env :: ha_env where
  "drift_env \<equiv> reference_env (seconds 20)"

lemma drift_starts: "map_option mt_phase (snd (start_dhcp_self_heal drift_env [] False None ''m'' drifted_cluster)) = Some REPAIRING_DHCP"
  by code_simp

theorem self_heal_starts_on_certainty_witness: "active_failover drifted_cluster = None \<and> \<not> maintenance_mode drifted_cluster"
proof -
  obtain c' r where r: "start_dhcp_self_heal drift_env [] False None ''m'' drifted_cluster = (c', r)" by (rule prod.exhaust)
  then obtain m where m: "r = Some m" using drift_starts by auto
  show ?thesis using self_heal_starts_on_certainty [OF r [unfolded m]] by blast
qed

definition latched_row :: ha_maintenance_run where
  "latched_row = (demo_row DHCP_SELF_HEAL MAINTENANCE_PAUSED 1)\<lparr>mt_status := M_FAILED_SAFE, mt_result := empty_maintenance_result\<lparr>mr_latch_active := True,
     mr_topology_fingerprint := Some (dhcp_topology_fingerprint (env_sha256 drift_env) drifted_cluster (reconcile_topology drifted_cluster (seconds 20) None FRESH_SECONDS) (seconds 20)),
     mr_drift_signature := Some (drift_signature (env_sha256 drift_env) DHCP_PROMOTE (serving_node 1 ''a'' 0)
       (dhcp_topology_fingerprint (env_sha256 drift_env) drifted_cluster (reconcile_topology drifted_cluster (seconds 20) None FRESH_SECONDS) (seconds 20)))\<rparr>\<rparr>"

definition latched_cluster :: ha_cluster where
  "latched_cluster = drifted_cluster\<lparr>maintenance_runs := [latched_row]\<rparr>"

theorem failed_repair_is_not_repeated_witness: "snd (start_dhcp_self_heal drift_env [] False None ''n'' latched_cluster) = None"
proof -
  let ?fp = "dhcp_topology_fingerprint (env_sha256 drift_env) latched_cluster (reconcile_topology latched_cluster (env_now drift_env) None FRESH_SECONDS) (env_now drift_env)"
  have "map_option (\<lambda>(owner, node, a, hard). (node_public_id node, a)) (self_heal_repair [] latched_cluster (seconds 20)) = Some (''a'', DHCP_PROMOTE)" by code_simp
  then obtain owner node hard where rep: "self_heal_repair [] latched_cluster (env_now drift_env) = Some (owner, node, DHCP_PROMOTE, hard)" "node_public_id node = ''a''"
    by (auto simp: reference_env_def)
  have same: "nodes latched_cluster = nodes drifted_cluster" "deployment_mode_column latched_cluster = deployment_mode_column drifted_cluster"
    by (simp_all add: latched_cluster_def)
  have fp: "mr_topology_fingerprint (mt_result latched_row) = Some ?fp"
    unfolding fingerprint_frame [OF same] by (simp add: latched_row_def reference_env_def)
  have "mr_drift_signature (mt_result latched_row) = Some (drift_signature (env_sha256 drift_env) DHCP_PROMOTE (serving_node 1 ''a'' 0) (the (mr_topology_fingerprint (mt_result latched_row))))"
    by (simp add: latched_row_def)
  then have sig: "mr_drift_signature (mt_result latched_row) = Some (drift_signature (env_sha256 drift_env) DHCP_PROMOTE node ?fp)"
    using fp rep(2) by (simp add: drift_signature_def serving_node_def standby_node_def)
  have row: "latched_row \<in> set (maintenance_runs latched_cluster)" by (simp add: latched_cluster_def)
  have "failed_self_heal latched_row" "mr_latch_active (mt_result latched_row)" by (simp_all add: latched_row_def failed_self_heal_def demo_row_def new_maintenance_def)
  from failed_repair_is_not_repeated [OF row this rep(1) fp sig] show ?thesis by blast
qed

text \<open>Node 1 serves DHCP and is to hand over to node 2.\<close>

definition handing_over :: ha_cluster where
  "handing_over = (reference_cluster 0)\<lparr>maintenance_runs := [demo_row REINITIALISE DEMOTING_STANDBY 2]\<rparr>"

theorem repairs_spare_the_only_server_witness:
  "\<exists>m target. active_maintenance handing_over = Some m \<and> mt_desired_active_node_id m = Some (node_id target) \<and> dhcp_stopped 0 120 target"
proof -
  have "map_option fa_action_type (desired_maintenance_action (reference_env 0) handing_over (serving_node 1 ''a'' 0)) = Some DHCP_DEMOTE" by code_simp
  then obtain a where a: "desired_maintenance_action (reference_env 0) handing_over (serving_node 1 ''a'' 0) = Some a" "fa_action_type a = DHCP_DEMOTE" by auto
  have now: "env_now (reference_env 0) = 0" by (simp add: reference_env_def)
  have "sole_dhcp_owner handing_over (env_now (reference_env 0)) 120 (serving_node 1 ''a'' 0)" by code_simp
  from repairs_spare_the_only_server [OF a this] show ?thesis by (auto simp: now)
qed

text \<open>The nodes already stand as the administrator asks.\<close>

definition settled_cluster :: ha_cluster where
  "settled_cluster = (reference_cluster 0)\<lparr>maintenance_runs := [demo_row REINITIALISE WAITING_FOR_REPORTS 1]\<rparr>"


text \<open>The standby is released already.\<close>

definition stalled_cluster :: ha_cluster where
  "stalled_cluster = demo_cluster (demo_row REINITIALISE DEMOTING_STANDBY 1)"

theorem released_standby_stalls_repair_witness:
  "desired_maintenance_action (reference_env 0) stalled_cluster (standby_node 2 ''b'' 0) = None \<and>
   (\<exists>c' m'. advance_reinitialisation (reference_env 0) demo_services 0 (demo_row REINITIALISE DEMOTING_STANDBY 1) stalled_cluster = Inr c' \<and>
      maintenance_by_id c' 1 = Some m' \<and> mt_phase m' = DEMOTING_STANDBY)"
proof -
  let ?m = "demo_row REINITIALISE DEMOTING_STANDBY 1"
  have m: "reinitialising ?m" "mt_phase ?m = DEMOTING_STANDBY" "\<not> interrupted 0 ?m" "mt_id ?m = 1" by code_simp+
  have rows: "active_maintenance stalled_cluster = Some ?m" "maintenance_by_id stalled_cluster (mt_id ?m) = Some ?m"
    using m(1) by (simp_all add: stalled_cluster_def reinitialising_def)
  have t: "target_of stalled_cluster ?m = Some (vip_holder 1 ''a'' 0)"
    by (simp add: target_of_def stalled_cluster_def demo_cluster_def demo_row_def node_by_id_def vip_holder_def standby_node_def)
  have s: "standby_of stalled_cluster (node_id (vip_holder 1 ''a'' 0)) = Some (standby_node 2 ''b'' 0)"
    by (simp add: standby_of_def stalled_cluster_def demo_cluster_def vip_holder_def standby_node_def)
  have "list_all (\<lambda>n. node_id n \<noteq> node_id (vip_holder 1 ''a'' 0) \<longrightarrow> repair_dhcp_released (env_now (reference_env 0)) n) (nodes stalled_cluster)" by code_simp
  then have r: "\<forall>n \<in> set (nodes stalled_cluster). node_id n \<noteq> node_id (vip_holder 1 ''a'' 0) \<longrightarrow> repair_dhcp_released (env_now (reference_env 0)) n"
    by (simp add: list_all_iff)
  have n: "standby_node 2 ''b'' 0 \<in> set (nodes stalled_cluster)" by (simp add: stalled_cluster_def demo_cluster_def)
  show ?thesis using released_standby_stalls_repair [OF m(1-3) rows t s r n, of DHCP_DEMOTE 1 None "[]" "[]" demo_services] m(4) by auto
qed

definition reconciling_cluster :: ha_cluster where
  "reconciling_cluster = (reference_cluster 0)\<lparr>current_active_node_id := Some 2, maintenance_runs := [demo_row RECONCILE WAITING_FOR_REPORTS 1]\<rparr>"


end
