(* ===== verification/HA_Heartbeat.thy ===== *)
theory HA_Heartbeat
  imports HA_Maintenance
begin

text \<open>
  What the server does with the reports of the agents: the second part of \<open>app/services/ha_agents.py\<close>. A heartbeat is checked for its order,
  stored as telemetry of its node, and, when it changes anything that matters, followed by the reconciliation of ownership, an advance of the
  active run and an evaluation of recovery. Agent events are stored once; the completion of a local failover adopts the new owner.
  The events of the agents are kept beside the cluster; those that Kaya writes itself are the events of the cluster, received when they occurred.
  Columns that are only shown (the time of the last Keepalived report) and audit rows are left out.
\<close>

section \<open>Agent events\<close>

definition SENSITIVE_DETAIL_PARTS :: "string list" where
  "SENSITIVE_DETAIL_PARTS = [''auth'', ''cookie'', ''credential'', ''key'', ''password'', ''secret'', ''session'', ''token'']"

definition redact :: "string \<times> json \<Rightarrow> (string \<times> json) list" where
  "redact kv =
     (case kv of (k, v) \<Rightarrow>
        (let name = lower (strip1 k)
         in if name = [] \<or> list_ex (\<lambda>p. contains p name) SENSITIVE_DETAIL_PARTS then []
            else [(take 80 name, case v of JStr s \<Rightarrow> JStr (take 500 s) | _ \<Rightarrow> v)]))"

text \<open>A later entry replaces an earlier one of the same name, as in a Python dictionary.\<close>

definition redacted_details :: "(string \<times> json) list \<Rightarrow> (string \<times> json) list" where
  "redacted_details kvs = foldl (\<lambda>d (k, v). dict_put k v d) [] (concat (map redact (take 50 kvs)))"

definition HEARTBEAT_FRESH_SECONDS :: int where
  "HEARTBEAT_FRESH_SECONDS = 45"

definition recent_heartbeat :: "ha_node \<Rightarrow> time \<Rightarrow> bool" where
  "recent_heartbeat n now \<longleftrightarrow>
     (case last_heartbeat_at n of None \<Rightarrow> False | Some t \<Rightarrow> t \<ge> now - seconds HEARTBEAT_FRESH_SECONDS)"

text \<open>The newest fifty completions of the node; the first one of the current generation.\<close>

definition automatic_completion :: "agent_report list \<Rightarrow> ha_cluster \<Rightarrow> ha_node \<Rightarrow> agent_report option" where
  "automatic_completion log c n =
     find (\<lambda>e. reported_generation e = Some (keepalived_generation c))
       (take 50 (sort_key (\<lambda>e. - ar_received_at e)
          (filter (\<lambda>e. ar_node e = node_id n \<and> ar_type e = ''automatic_failover_completed'') log)))"

section \<open>Ownership\<close>

definition kaya_event :: "int option \<Rightarrow> string \<Rightarrow> string \<Rightarrow> string \<Rightarrow> time \<Rightarrow> ha_event" where
  "kaya_event nid ty severity message now =
     \<lparr>ev_node_id = nid, ev_event_type = ty, ev_severity = severity, ev_message = message, ev_phase = None,
      ev_role_generation = None, ev_occurred_at = now\<rparr>"

definition is_transient :: "ha_event \<Rightarrow> bool" where
  "is_transient e \<longleftrightarrow> ev_event_type e \<in> {''split_brain_detected'', ''ownership_transition_pending''}"

definition reconciled_event :: "ha_node \<Rightarrow> ha_event \<Rightarrow> ha_event" where
  "reconciled_event n e =
     e\<lparr>ev_event_type := ''ownership_reconciled'', ev_severity := ''info'',
       ev_message := ''Kaya reconciled cached ownership after verified automatic failover. '' @ display_name n @ '' is the exclusive virtual-IP owner.''\<rparr>"

text \<open>
  The newest transient event within the window is relabelled. The query reads what the database holds, \<open>stored\<close>: the session does not flush
  before queries, so a relabelling earlier in the same request is not seen. Positions stand for primary keys.
\<close>

definition relabel_transient :: "ha_node \<Rightarrow> time \<Rightarrow> time option \<Rightarrow> ha_event list \<Rightarrow> ha_cluster \<Rightarrow> ha_cluster" where
  "relabel_transient n lo hi stored c =
     (let inside = (\<lambda>i. is_transient (stored ! i) \<and> ev_occurred_at (stored ! i) \<ge> lo \<and>
                        (case hi of None \<Rightarrow> True | Some h \<Rightarrow> ev_occurred_at (stored ! i) \<le> h))
      in case min_by (\<lambda>i. - ev_occurred_at (stored ! i)) (filter inside [0 ..< length stored]) of
           None \<Rightarrow> c
         | Some i \<Rightarrow> c\<lparr>events := (events c)[i := reconciled_event n (events c ! i)]\<rparr>)"

definition take_role :: "int \<Rightarrow> ha_node \<Rightarrow> ha_node" where
  "take_role active n =
     n\<lparr>desired_role := (if node_id n = active then ''ACTIVE'' else ''STANDBY''),
       role := (if node_id n = active then ''ACTIVE'' else ''STANDBY''),
       vrrp_priority := Some (if node_id n = active then 150 else 100)\<rparr>"

definition transition_pending :: "ha_cluster \<Rightarrow> ha_node list \<Rightarrow> ha_node option \<Rightarrow> bool" where
  "transition_pending c owners reporting \<longleftrightarrow>
     length owners > 1 \<and> automatic_failover_enabled c \<and>
     (case (reporting, find (\<lambda>n. Some (node_id n) = current_active_node_id c) owners) of
        (Some r, Some p) \<Rightarrow>
          vip_owned r \<and> Some (node_id r) \<noteq> current_active_node_id c \<and>
          (case (last_heartbeat_at p, last_heartbeat_at r) of (Some a, Some b) \<Rightarrow> a < b | _ \<Rightarrow> False)
      | _ \<Rightarrow> False)"

definition fully_healthy :: "ha_cluster \<Rightarrow> time \<Rightarrow> bool" where
  "fully_healthy c now \<longleftrightarrow>
     length (fresh_nodes c now None FRESH_SECONDS) = length (nodes c) \<and>
     list_all (\<lambda>n. dns_healthy n = Some True \<and> keepalived_runtime_state n = ''RUNNING'') (fresh_nodes c now None FRESH_SECONDS) \<and>
     list_all (\<lambda>n. config_generation n \<ge> keepalived_generation c) (nodes c) \<and>
     topology_safe (reconcile_topology c now None FRESH_SECONDS)"

definition needs_adoption :: "ha_cluster \<Rightarrow> ha_node \<Rightarrow> bool" where
  "needs_adoption c n \<longleftrightarrow>
     current_active_node_id c \<noteq> Some (node_id n) \<or> authoritative_node_id c \<noteq> Some (node_id n) \<or> role n \<noteq> ''ACTIVE'' \<or> desired_role n \<noteq> ''ACTIVE''"

definition safe_adoption :: "ha_cluster \<Rightarrow> time \<Rightarrow> ha_node \<Rightarrow> bool \<Rightarrow> bool" where
  "safe_adoption c now n completed \<longleftrightarrow>
     (let peers = filter (\<lambda>m. node_id m \<noteq> node_id n) (nodes c);
          fresh = filter (\<lambda>m. recent_heartbeat m now) peers
      in dns_healthy n = Some True \<and>
         (\<not> pihole_manages_dhcp c \<or>
          obs_active (dhcp_observation n now None FRESH_SECONDS) \<and>
          list_all (\<lambda>m. obs_released (dhcp_observation m now None FRESH_SECONDS)) fresh \<and>
          (length fresh = length peers \<or> completed)))"

definition adopt_owner :: "time \<Rightarrow> agent_report option \<Rightarrow> ha_node \<Rightarrow> ha_cluster \<Rightarrow> ha_cluster" where
  "adopt_owner now completed n c =
     add_event (kaya_event (Some (node_id n)) ''automatic_failover_reconciled'' ''warning''
         (''Kaya reconciled the local failover and adopted '' @ display_name n @ '' as active. Automatic failback remains disabled.'') now)
       ((update_all_nodes (take_role (node_id n)) c)
         \<lparr>authoritative_node_id := Some (node_id n), role_generation := role_generation c + 1,
          last_failover_at := Some (case completed of None \<Rightarrow> now | Some e \<Rightarrow> ar_occurred_at e)\<rparr>)"

definition ownership_events :: "time \<Rightarrow> agent_report list \<Rightarrow> ha_node list \<Rightarrow> bool \<Rightarrow> ha_node option \<Rightarrow> string \<Rightarrow> ha_cluster \<Rightarrow> ha_cluster" where
  "ownership_events now log owners pending reporting previous_status c =
     (case (pending, reporting) of
        (True, Some r) \<Rightarrow>
          if list_ex (\<lambda>e. ev_event_type e = ''ownership_transition_pending'' \<and> ev_occurred_at e \<ge> now - minutes 1) (events c) \<or>
             list_ex (\<lambda>e. ar_type e = ''ownership_transition_pending'' \<and> ar_received_at e \<ge> now - minutes 1) log then c
          else add_event (kaya_event (Some (node_id r)) ''ownership_transition_pending'' ''warning''
                 (display_name r @ '' reported the virtual IP. Kaya is waiting for the local safety checks before confirming failover.'') now) c
      | _ \<Rightarrow>
          if length owners > 1 \<and> previous_status \<noteq> ''ERROR''
          then add_event (kaya_event None ''split_brain_detected'' ''critical''
                 ''Multiple virtual-IP owners were reported. Automatic DHCP activation remains blocked.'' now) c
          else c)"

definition retire_owner :: "time \<Rightarrow> agent_report \<Rightarrow> ha_node \<Rightarrow> ha_event list \<Rightarrow> ha_cluster \<Rightarrow> ha_cluster" where
  "retire_owner now e n stored c =
     relabel_transient n (ar_received_at e - minutes 1) (Some (ar_received_at e + minutes 1)) stored
       (update_all_nodes (\<lambda>m. if node_id m \<noteq> node_id n \<and> \<not> recent_heartbeat m now then m\<lparr>vip_owned := False\<rparr> else m) c)"

definition degraded_key :: "ha_cluster \<Rightarrow> string" where
  "degraded_key c = ''pihole:cluster:'' @ cluster_public_id c @ '':degraded''"

definition degraded_notification :: "ha_cluster \<Rightarrow> ha_notification" where
  "degraded_notification c =
     \<lparr>nt_event_type_id = ''pihole.cluster.degraded'', nt_title = ''Pi-hole cluster degraded'',
      nt_message = cluster_name c @ '' is degraded. Review the HA topology and node health.'',
      nt_deduplication_key = degraded_key c, nt_source_entity_type = ''ha_cluster'',
      nt_source_entity_id = cluster_public_id c, nt_created_by_user_id = None\<rparr>"

definition recovered_notification :: "ha_cluster \<Rightarrow> ha_notification" where
  "recovered_notification c =
     \<lparr>nt_event_type_id = ''pihole.cluster.recovered'', nt_title = ''Pi-hole cluster recovered'',
      nt_message = cluster_name c @ '' returned to a verified healthy topology.'',
      nt_deduplication_key = degraded_key c @ '':recovered:'' @ str_int (cluster_generation c), nt_source_entity_type = ''ha_cluster'',
      nt_source_entity_id = cluster_public_id c, nt_created_by_user_id = None\<rparr>"

text \<open>
  \<open>incident_open\<close>: whether an unresolved notification of the key exists, which \<open>resolve_ha_notification\<close> finds and resolves.
\<close>

definition reconcile_vip_ownership ::
  "ha_env \<Rightarrow> (string \<Rightarrow> bool) \<Rightarrow> agent_report list \<Rightarrow> int option \<Rightarrow> ha_cluster \<Rightarrow> ha_cluster" where
  "reconcile_vip_ownership env incident_open log reporting_id c =
     (if keepalived_status c \<noteq> ''DEPLOYED'' \<or> list_ex (\<lambda>n. node_keepalived_status n \<noteq> ''DEPLOYED'') (nodes c) then c
      else
        (let now = env_now env;
             owners = vip_owners c now None FRESH_SECONDS;
             current = (case owners of [n] \<Rightarrow> Some n | _ \<Rightarrow> None);
             reporting = Option.bind reporting_id (node_by_id c);
             pending = transition_pending c owners reporting;
             completed = Option.bind current (automatic_completion log c);
             status = (if length owners = 1 \<and> fully_healthy c now then ''HEALTHY''
                       else if length owners > 1 \<and> \<not> pending then ''ERROR'' else ''DEGRADED'');
             c1 = ownership_events now log owners pending reporting (cluster_status c)
                    (c\<lparr>current_active_node_id := map_option node_id current, cluster_status := status\<rparr>);
             c2 = (case current of
                     None \<Rightarrow> c1
                   | Some n \<Rightarrow>
                       if automatic_failover_enabled c \<and> needs_adoption c n \<and> safe_adoption c now n (completed \<noteq> None)
                       then adopt_owner now completed n c1 else c1);
             c3 = (case (current, completed) of (Some n, Some e) \<Rightarrow> retire_owner now e n (events c) c2 | _ \<Rightarrow> c2)
         in if cluster_status c = ''HEALTHY'' \<and> status \<in> {''DEGRADED'', ''ERROR''}
            then publish_ha_notification env (degraded_notification c3) c3
            else if status = ''HEALTHY'' \<and> incident_open (degraded_key c)
            then publish_ha_notification env (recovered_notification c3) c3
            else c3))"

section \<open>Heartbeats\<close>

record heartbeat =
  hb_sequence :: int
  hb_reported_at :: "time option"
  hb_agent_version :: string
  hb_observed_role :: string
  hb_observed_generation :: int
  hb_vip_owned :: bool
  hb_dhcp_running :: bool
  hb_dhcp_configured :: "bool option"
  hb_dhcp_listener_active :: "bool option"
  hb_ftl_active :: "bool option"
  hb_dhcp_runtime_state :: "string option"
  hb_dhcp_observation_status :: "string option"
  hb_dhcp_observed_at :: "time option"
  hb_dns_healthy :: bool
  hb_peer_reachable :: "bool option"
  hb_peer_icmp_probe_status :: "string option"
  hb_peer_dns_reachable :: "bool option"
  hb_resolver_manager :: "string option"
  hb_resolver_nameservers :: "string list"
  hb_resolver_observation_status :: "string option"
  hb_lease_generation :: int
  hb_config_generation :: int
  hb_keepalived_runtime_state :: string

definition REQUEST_WINDOW :: time where
  "REQUEST_WINDOW = seconds 300"

datatype report_verdict = InOrder | Rebased | OutOfOrder

definition report_order :: "time \<Rightarrow> heartbeat \<Rightarrow> ha_node \<Rightarrow> report_verdict" where
  "report_order received h n =
     (if hb_sequence h = 0 \<or> hb_sequence h > last_report_sequence n then InOrder
      else if (case last_heartbeat_at n of None \<Rightarrow> False | Some t \<Rightarrow> t < received - seconds HEARTBEAT_FRESH_SECONDS) \<and>
              (case hb_reported_at h of
                 None \<Rightarrow> False
               | Some t \<Rightarrow> \<bar>received - t\<bar> \<le> REQUEST_WINDOW \<and> (case last_agent_reported_at n of None \<Rightarrow> True | Some l \<Rightarrow> t > l))
      then Rebased else OutOfOrder)"

definition heartbeat_status :: "heartbeat \<Rightarrow> string" where
  "heartbeat_status h =
     (case hb_dhcp_observation_status h of
        Some s \<Rightarrow> s
      | None \<Rightarrow> if hb_dhcp_configured h \<noteq> None \<and> hb_dhcp_listener_active h \<noteq> None \<and> hb_ftl_active h \<noteq> None then ''FRESH'' else ''UNKNOWN'')"

definition heartbeat_runtime :: "heartbeat \<Rightarrow> string" where
  "heartbeat_runtime h =
     (case hb_dhcp_runtime_state h of
        Some s \<Rightarrow> s
      | None \<Rightarrow> if heartbeat_status h = ''FRESH'' then (if hb_dhcp_running h then ''RUNNING'' else ''STOPPED'') else ''UNKNOWN'')"

definition observed_time :: "time \<Rightarrow> heartbeat \<Rightarrow> time" where
  "observed_time received h =
     (case hb_dhcp_observed_at h of None \<Rightarrow> received | Some t \<Rightarrow> if \<bar>received - t\<bar> > REQUEST_WINDOW then received else t)"

definition probe_status :: "heartbeat \<Rightarrow> string option" where
  "probe_status h =
     (case hb_peer_icmp_probe_status h of
        Some s \<Rightarrow> Some s
      | None \<Rightarrow> map_option (\<lambda>up. if up then ''AVAILABLE'' else ''NO_REPLY'') (hb_peer_reachable h))"

definition stable_owner :: "ha_cluster \<Rightarrow> heartbeat \<Rightarrow> bool" where
  "stable_owner c h \<longleftrightarrow> hb_vip_owned h \<and> hb_observed_role h = ''ACTIVE'' \<and> hb_observed_generation h \<ge> role_generation c \<and>
     hb_config_generation h \<ge> keepalived_generation c"

definition telemetry :: "time \<Rightarrow> ha_cluster \<Rightarrow> heartbeat \<Rightarrow> ha_node \<Rightarrow> ha_node" where
  "telemetry received c h n =
     (let fresh = heartbeat_status h = ''FRESH''; probe = probe_status h
      in n\<lparr>agent_version := Some (hb_agent_version h), last_heartbeat_at := Some received,
           last_report_sequence := (if hb_sequence h \<noteq> 0 then hb_sequence h else last_report_sequence n),
           last_agent_reported_at := or_else (hb_reported_at h) (Some received),
           observed_role := Some (hb_observed_role h), observed_generation := hb_observed_generation h, vip_owned := hb_vip_owned h,
           vip_stable_since := (if stable_owner c h then or_else (vip_stable_since n) (Some received) else None),
           dhcp_observation_status := heartbeat_status h, dhcp_runtime_state := heartbeat_runtime h,
           dhcp_observed_at := Some (observed_time received h),
           dhcp_configured := (if fresh then hb_dhcp_configured h else None),
           dhcp_listener_active := (if fresh then hb_dhcp_listener_active h else None),
           ftl_active := (if fresh then hb_ftl_active h else None),
           dhcp_running := (if fresh then heartbeat_runtime h = ''RUNNING'' else dhcp_running n),
           dns_healthy := Some (hb_dns_healthy h), peer_reachable := hb_peer_reachable h, peer_icmp_probe_status := probe,
           peer_dns_reachable := hb_peer_dns_reachable h,
           resolver_manager := (if hb_resolver_observation_status h \<noteq> None then hb_resolver_manager h else resolver_manager n),
           resolver_nameservers := (if hb_resolver_observation_status h \<noteq> None then hb_resolver_nameservers h else resolver_nameservers n),
           resolver_observation_status :=
             (if hb_resolver_observation_status h \<noteq> None then hb_resolver_observation_status h else resolver_observation_status n),
           last_peer_attempt_at := (if probe \<noteq> None then Some received else last_peer_attempt_at n),
           last_peer_success_at := (if probe = Some ''AVAILABLE'' then Some received else last_peer_success_at n),
           last_peer_dns_attempt_at := (if hb_peer_dns_reachable h \<noteq> None then Some received else last_peer_dns_attempt_at n),
           last_peer_dns_success_at := (if hb_peer_dns_reachable h = Some True then Some received else last_peer_dns_success_at n),
           lease_generation := hb_lease_generation h, config_generation := hb_config_generation h,
           keepalived_runtime_state := hb_keepalived_runtime_state h\<rparr>)"

definition observation_signature :: "ha_node \<Rightarrow>
  (string option \<times> string option \<times> int \<times> bool) \<times> (bool option \<times> bool option \<times> bool option \<times> bool \<times> string \<times> string) \<times>
  (bool option \<times> bool option \<times> string option \<times> bool option) \<times> (string option \<times> string list \<times> string option) \<times> (int \<times> int \<times> string)" where
  "observation_signature n =
     ((agent_version n, observed_role n, observed_generation n, vip_owned n),
      (dhcp_configured n, dhcp_listener_active n, ftl_active n, dhcp_running n, dhcp_observation_status n, dhcp_runtime_state n),
      (dns_healthy n, peer_reachable n, peer_icmp_probe_status n, peer_dns_reachable n),
      (resolver_manager n, resolver_nameservers n, resolver_observation_status n),
      (lease_generation n, config_generation n, keepalived_runtime_state n))"

definition peer_only :: "ha_cluster \<Rightarrow> ha_node \<Rightarrow> string list \<Rightarrow> bool" where
  "peer_only c n resolvers \<longleftrightarrow>
     (case find (\<lambda>m. node_id m \<noteq> node_id n) (nodes c) of
        None \<Rightarrow> False
      | Some p \<Rightarrow> resolvers \<noteq> [] \<and> (case management_host p of None \<Rightarrow> False | Some host \<Rightarrow> set resolvers = {host}))"

definition heartbeat_events :: "time \<Rightarrow> ha_cluster \<Rightarrow> heartbeat \<Rightarrow> ha_node \<Rightarrow> ha_event list" where
  "heartbeat_events received c h n =
     (let before = peer_only c n (resolver_nameservers n);
          after = hb_resolver_observation_status h = Some ''FRESH'' \<and> peer_only c n (hb_resolver_nameservers h)
      in (if hb_resolver_observation_status h \<noteq> None \<and> after \<noteq> before
          then [kaya_event (Some (node_id n)) (if after then ''host_resolver_peer_dependent'' else ''host_resolver_independence_restored'')
                  (if after then ''critical'' else ''info'')
                  (if after then ''Host resolver depends on peer node. Agent reporting may fail during peer outage. Configure host DNS to use HA VIP.''
                   else display_name n @ '' no longer depends exclusively on its peer for host DNS resolution.'') received]
          else []) @
         (if hb_peer_reachable h \<noteq> None \<and> last_peer_attempt_at n \<noteq> None \<and> peer_reachable n \<noteq> hb_peer_reachable h
          then [kaya_event (Some (node_id n))
                  (if hb_peer_reachable h = Some True then ''peer_network_reachability_restored'' else ''peer_network_reachability_unavailable'') ''info''
                  (if hb_peer_reachable h = Some True then display_name n @ '' can ping its peer host.''
                   else ''Ping from '' @ display_name n @ '' to its peer is unavailable. This informational result does not affect DNS, Kaya heartbeats, or failover readiness.'')
                  received]
          else []))"

definition needs_reconciliation :: "time \<Rightarrow> ha_cluster \<Rightarrow> ha_node \<Rightarrow> ha_node \<Rightarrow> bool" where
  "needs_reconciliation received c before after \<longleftrightarrow>
     observation_signature before \<noteq> observation_signature after \<or>
     (case last_heartbeat_at before of None \<Rightarrow> True | Some t \<Rightarrow> t < received - seconds HEARTBEAT_FRESH_SECONDS) \<or>
     cluster_status c \<noteq> ''HEALTHY'' \<or> maintenance_mode c"

text \<open>A result is the new cluster and the verdict on the report. \<open>public_id\<close> names a self-heal that the report may start.\<close>

definition record_heartbeat ::
  "ha_env \<Rightarrow> repair_services \<Rightarrow> time \<Rightarrow> (string \<Rightarrow> bool) \<Rightarrow> agent_report list \<Rightarrow> string \<Rightarrow> int \<Rightarrow> heartbeat \<Rightarrow> ha_cluster \<Rightarrow>
     watchdog_error + ha_cluster \<times> report_verdict" where
  "record_heartbeat env svc process_started incident_open log public_id nid h c =
     (case node_by_id c nid of
        None \<Rightarrow> Inl (FailoverFault DanglingNode)
      | Some n \<Rightarrow>
          (let received = env_now env; verdict = report_order received h n
           in if verdict = OutOfOrder then Inr (c, OutOfOrder)
              else (let c1 = (update_node nid (telemetry received c h) c)\<lparr>events := events c @ heartbeat_events received c h n\<rparr>
                    in if \<not> needs_reconciliation received c n (telemetry received c h n) then Inr (c1, verdict)
                       else (case advance_failover env (reconcile_vip_ownership env incident_open log (Some nid) c1) of
                               Inl e \<Rightarrow> Inl (FailoverFault e)
                             | Inr (c2, _) \<Rightarrow>
                                 (case advance_maintenance env svc process_started log public_id (fst (evaluate_recovery env RECOVERY_STABILITY_SECONDS c2)) of
                                    Inl e \<Rightarrow> Inl (MaintenanceFault e)
                                  | Inr c3 \<Rightarrow> Inr (c3, verdict))))))"

section \<open>Agent events\<close>

record agent_event_item =
  ei_event_id :: string
  ei_event_type :: string
  ei_details :: "(string \<times> json) list"
  ei_occurred_at :: time

definition adopt_verified_owner :: "time \<Rightarrow> ha_event list \<Rightarrow> ha_node \<Rightarrow> agent_event_item \<Rightarrow> ha_cluster \<Rightarrow> ha_cluster" where
  "adopt_verified_owner now stored n e c =
     (if ei_event_type e \<noteq> ''automatic_failover_completed'' \<or> \<not> automatic_failover_enabled c \<or>
         py_int (obj_get_default (ei_details e) ''generation'' (JInt (-1))) \<noteq> Some (keepalived_generation c) \<or>
         observed_role n \<noteq> Some ''ACTIVE'' \<or> \<not> vip_owned n \<or> dns_healthy n \<noteq> Some True \<or>
         (pihole_manages_dhcp c \<and> \<not> obs_active (dhcp_observation n now None FRESH_SECONDS))
      then c
      else relabel_transient n (now - minutes 1) None stored
             ((update_all_nodes (\<lambda>m. (take_role (node_id n) m)\<lparr>vip_owned := (node_id m = node_id n)\<rparr>) c)
               \<lparr>current_active_node_id := Some (node_id n), authoritative_node_id := Some (node_id n), cluster_status := ''DEGRADED'',
                last_failover_at := Some (ei_occurred_at e),
                role_generation := role_generation c + (if current_active_node_id c \<noteq> Some (node_id n) then 1 else 0)\<rparr>))"

definition completed_notification :: "ha_cluster \<Rightarrow> ha_node \<Rightarrow> agent_event_item \<Rightarrow> ha_notification" where
  "completed_notification c n e =
     \<lparr>nt_event_type_id = ''pihole.failover.completed'', nt_title = ''Pi-hole automatic failover completed'',
      nt_message = ''Automatic failover completed for '' @ cluster_name c @ '' with '' @ display_name n @ '' active. Automatic failback remains disabled.'',
      nt_deduplication_key = ''pihole:cluster:'' @ cluster_public_id c @ '':automatic-failover:'' @ ei_event_id e @ '':completed'',
      nt_source_entity_type = ''ha_event'', nt_source_entity_id = ei_event_id e, nt_created_by_user_id = None\<rparr>"

text \<open>
  The session does not flush before queries, so a duplicate within one request is not seen by the query; the unique constraint on the
  identifier then makes the commit fail (\<open>None\<close>).
\<close>

definition ingest_one :: "ha_env \<Rightarrow> int \<Rightarrow> ha_event list \<Rightarrow> agent_report list \<Rightarrow> agent_event_item \<Rightarrow> ha_cluster \<times> agent_report list \<times> int \<times> int \<Rightarrow>
    ha_cluster \<times> agent_report list \<times> int \<times> int" where
  "ingest_one env nid transient stored e st =
     (case st of (c, added, accepted, duplicates) \<Rightarrow>
        if list_ex (\<lambda>r. ar_event_id r = ei_event_id e) stored then (c, added, accepted, duplicates + 1)
        else ((case node_by_id c nid of None \<Rightarrow> c | Some n \<Rightarrow> adopt_verified_owner (env_now env) transient n e c),
              added @ [\<lparr>ar_event_id = ei_event_id e, ar_node = nid, ar_type = ei_event_type e,
                        ar_details = redacted_details (ei_details e), ar_occurred_at = ei_occurred_at e, ar_received_at = env_now env\<rparr>],
              accepted + 1, duplicates))"

definition ingest_events ::
  "ha_env \<Rightarrow> int \<Rightarrow> agent_event_item list \<Rightarrow> agent_report list \<Rightarrow> ha_cluster \<Rightarrow> (ha_cluster \<times> agent_report list \<times> int \<times> int) option" where
  "ingest_events env nid items log c =
     (case foldl (\<lambda>st e. ingest_one env nid (events c) log e st) (c, [], 0, 0) items of
        (c1, added, accepted, duplicates) \<Rightarrow>
          if \<not> distinct (map ar_event_id added) then None
          else (let fresh = filter (\<lambda>e. ei_event_type e = ''automatic_failover_completed'' \<and> \<not> list_ex (\<lambda>r. ar_event_id r = ei_event_id e) log) items;
                    c2 = foldl (\<lambda>d e. case node_by_id d nid of None \<Rightarrow> d | Some n \<Rightarrow> publish_ha_notification env (completed_notification d n e) d) c1 fresh
                in Some (c2, log @ added, accepted, duplicates)))"

end
