(* ===== verification/HA_Heartbeat_Props.thy ===== *)
theory HA_Heartbeat_Props
  imports HA_Heartbeat
begin

text \<open>
  What the reports of the agents can bring about: a cluster is called healthy only on a verified topology, an owner is adopted only on evidence,
  and events that an agent sends again are stored once.
\<close>

section \<open>What reconciliation writes\<close>

text \<open>The columns that the events, the notifications and the retirement of an owner leave alone.\<close>

definition verdict_columns :: "ha_cluster \<Rightarrow> string \<times> int option \<times> int option \<times> int \<times> bool" where
  "verdict_columns c = (cluster_status c, current_active_node_id c, authoritative_node_id c, role_generation c, automatic_failover_enabled c)"

lemma verdict_columns_frame [simp]:
  "verdict_columns (add_event e c) = verdict_columns c"
  "verdict_columns (publish_ha_notification env nt c) = verdict_columns c"
  "verdict_columns (update_all_nodes f c) = verdict_columns c"
  "verdict_columns (relabel_transient n lo hi stored c) = verdict_columns c"
  "verdict_columns (retire_owner now rep n stored c) = verdict_columns c"
  "verdict_columns (ownership_events now log owners pending reporting status c) = verdict_columns c"
  by (auto simp: verdict_columns_def add_event_def publish_ha_notification_def update_all_nodes_def relabel_transient_def retire_owner_def
      ownership_events_def Let_def split: option.splits bool.splits)

definition deployed :: "ha_cluster \<Rightarrow> bool" where
  "deployed c \<longleftrightarrow> keepalived_status c = ''DEPLOYED'' \<and> list_all (\<lambda>n. node_keepalived_status n = ''DEPLOYED'') (nodes c)"

definition sole_vip_owner :: "ha_cluster \<Rightarrow> time \<Rightarrow> ha_node option" where
  "sole_vip_owner c now = (case vip_owners c now None FRESH_SECONDS of [n] \<Rightarrow> Some n | _ \<Rightarrow> None)"

definition adopts :: "ha_cluster \<Rightarrow> agent_report list \<Rightarrow> time \<Rightarrow> ha_node \<Rightarrow> bool" where
  "adopts c log now n \<longleftrightarrow> automatic_failover_enabled c \<and> needs_adoption c n \<and> safe_adoption c now n (automatic_completion log c n \<noteq> None)"

lemma reconcile_columns:
  assumes "deployed c"
  shows "verdict_columns (reconcile_vip_ownership env incident log reporting c) =
    (if length (vip_owners c (env_now env) None FRESH_SECONDS) = 1 \<and> fully_healthy c (env_now env) then ''HEALTHY''
     else if length (vip_owners c (env_now env) None FRESH_SECONDS) > 1 \<and>
       \<not> transition_pending c (vip_owners c (env_now env) None FRESH_SECONDS) (Option.bind reporting (node_by_id c)) then ''ERROR'' else ''DEGRADED'',
     map_option node_id (sole_vip_owner c (env_now env)),
     case sole_vip_owner c (env_now env) of
       Some n \<Rightarrow> if adopts c log (env_now env) n then Some (node_id n) else authoritative_node_id c | None \<Rightarrow> authoritative_node_id c,
     case sole_vip_owner c (env_now env) of
       Some n \<Rightarrow> if adopts c log (env_now env) n then role_generation c + 1 else role_generation c | None \<Rightarrow> role_generation c,
     automatic_failover_enabled c)"
proof -
  have adopt: "verdict_columns (adopt_owner now e n d) =
      (case verdict_columns d of (st, cur, auth, gen, auto) \<Rightarrow> (st, cur, Some (node_id n), gen + 1, auto))" for now e n d
    by (simp add: adopt_owner_def verdict_columns_def add_event_def update_all_nodes_def)
  have cols: "verdict_columns (c\<lparr>current_active_node_id := x, cluster_status := y\<rparr>) =
      (y, x, authoritative_node_id c, role_generation c, automatic_failover_enabled c)" for x y
    by (simp add: verdict_columns_def)
  have ok: "\<not> (keepalived_status c \<noteq> ''DEPLOYED'' \<or> list_ex (\<lambda>n. node_keepalived_status n \<noteq> ''DEPLOYED'') (nodes c))"
    using assms by (auto simp: deployed_def list_all_iff list_ex_iff)
  show ?thesis
  proof (cases "sole_vip_owner c (env_now env)")
    case None
    then have none: "(case vip_owners c (env_now env) None FRESH_SECONDS of [n] \<Rightarrow> Some n | _ \<Rightarrow> None) = None" by (simp add: sole_vip_owner_def)
    show ?thesis
      unfolding reconcile_vip_ownership_def Let_def if_not_P [OF ok] none None
      by (simp add: cols if_distrib [of verdict_columns])
  next
    case (Some n)
    then have some: "(case vip_owners c (env_now env) None FRESH_SECONDS of [n] \<Rightarrow> Some n | _ \<Rightarrow> None) = Some n" by (simp add: sole_vip_owner_def)
    show ?thesis
      unfolding reconcile_vip_ownership_def Let_def if_not_P [OF ok] some Some adopts_def
      by (cases "automatic_completion log c n")
         (simp_all add: cols adopt if_distrib [of verdict_columns])
  qed
qed

section \<open>Healthy clusters and adopted owners\<close>

lemma vip_owners_sub: "n \<in> set (vip_owners c now since f) \<Longrightarrow> n \<in> set (nodes c) \<and> vip_owned n"
  by (simp add: vip_owners_def fresh_nodes_def)

lemma sole_vip_owner_iff: "sole_vip_owner c now = Some n \<longleftrightarrow> vip_owners c now None FRESH_SECONDS = [n]"
  by (auto simp: sole_vip_owner_def split: list.splits)

lemma full_filter: "length (filter P xs) = length xs \<longleftrightarrow> (\<forall>x \<in> set xs. P x)"
  by (metis filter_True length_filter_less nat_neq_iff)

text \<open>
  C10. Healthy means verified. Reconciliation calls a deployed cluster healthy only when every node has reported within 45 seconds, resolves DNS, runs Keepalived with the current
  configuration, and the reconciled topology is safe; the active node is then its one owner of the virtual IP.
\<close>

theorem healthy_is_verified:
  assumes "deployed c" "cluster_status (reconcile_vip_ownership env incident log reporting c) = ''HEALTHY''"
  shows "topology_safe (reconcile_topology c (env_now env) None FRESH_SECONDS) \<and>
    (\<forall>n \<in> set (nodes c). heartbeat_is_fresh n (env_now env) None FRESH_SECONDS \<and> dns_healthy n = Some True \<and>
       keepalived_runtime_state n = ''RUNNING'' \<and> keepalived_generation c \<le> config_generation n) \<and>
    (\<exists>n \<in> set (nodes c). vip_owners c (env_now env) None FRESH_SECONDS = [n] \<and>
       current_active_node_id (reconcile_vip_ownership env incident log reporting c) = Some (node_id n))"
proof -
  note cols = reconcile_columns [OF assms(1), of env incident log reporting, unfolded verdict_columns_def prod.inject]
  have h: "length (vip_owners c (env_now env) None FRESH_SECONDS) = 1" "fully_healthy c (env_now env)"
    using cols assms(2) by (auto split: if_splits)
  then obtain n where n: "vip_owners c (env_now env) None FRESH_SECONDS = [n]" by (metis One_nat_def length_0_conv length_Suc_conv)
  then have "n \<in> set (nodes c)" using vip_owners_sub [of n c "env_now env" None FRESH_SECONDS] by simp
  moreover have "current_active_node_id (reconcile_vip_ownership env incident log reporting c) = Some (node_id n)"
    using cols n by (simp add: sole_vip_owner_def)
  moreover have "\<forall>m \<in> set (nodes c). heartbeat_is_fresh m (env_now env) None FRESH_SECONDS"
    using h(2) by (simp add: fully_healthy_def fresh_nodes_def full_filter)
  ultimately show ?thesis
    using h(2) n by (auto simp: fully_healthy_def fresh_nodes_def list_all_iff)
qed

text \<open>
  An owner is adopted only on evidence. The role generation changes only when automatic failover is on and exactly one node with a fresh report holds the virtual IP and resolves DNS; where
  Pi-hole manages DHCP, that node must be seen to serve DHCP, every reporting peer must be seen to have released it, and every
  peer must be reporting unless the new owner has reported the completed failover of the current generation.
\<close>

theorem adoption_needs_evidence:
  assumes "role_generation (reconcile_vip_ownership env incident log reporting c) \<noteq> role_generation c"
  shows "\<exists>n \<in> set (nodes c). vip_owners c (env_now env) None FRESH_SECONDS = [n] \<and> automatic_failover_enabled c \<and> dns_healthy n = Some True \<and>
    (pihole_manages_dhcp c \<longrightarrow> obs_active (dhcp_observation n (env_now env) None FRESH_SECONDS) \<and>
       (\<forall>m \<in> set (nodes c). node_id m \<noteq> node_id n \<and> recent_heartbeat m (env_now env) \<longrightarrow>
          obs_released (dhcp_observation m (env_now env) None FRESH_SECONDS)) \<and>
       ((\<forall>m \<in> set (nodes c). node_id m \<noteq> node_id n \<longrightarrow> recent_heartbeat m (env_now env)) \<or> automatic_completion log c n \<noteq> None)) \<and>
    role_generation (reconcile_vip_ownership env incident log reporting c) = role_generation c + 1 \<and>
    authoritative_node_id (reconcile_vip_ownership env incident log reporting c) = Some (node_id n)"
proof -
  have dep: "deployed c"
  proof (rule ccontr)
    assume "\<not> deployed c"
    then have "reconcile_vip_ownership env incident log reporting c = c"
      by (auto simp: reconcile_vip_ownership_def deployed_def list_all_iff list_ex_iff)
    then show False using assms by simp
  qed
  note cols = reconcile_columns [OF dep, of env incident log reporting, unfolded verdict_columns_def prod.inject]
  obtain n where n: "sole_vip_owner c (env_now env) = Some n" "adopts c log (env_now env) n"
    using cols assms by (auto split: option.splits if_splits)
  then have own: "vip_owners c (env_now env) None FRESH_SECONDS = [n]" by (simp add: sole_vip_owner_iff)
  have "n \<in> set (nodes c)" using own vip_owners_sub [of n c "env_now env" None FRESH_SECONDS] by simp
  moreover have "automatic_failover_enabled c \<and> dns_healthy n = Some True \<and>
    (pihole_manages_dhcp c \<longrightarrow> obs_active (dhcp_observation n (env_now env) None FRESH_SECONDS) \<and>
       (\<forall>m \<in> set (nodes c). node_id m \<noteq> node_id n \<and> recent_heartbeat m (env_now env) \<longrightarrow>
          obs_released (dhcp_observation m (env_now env) None FRESH_SECONDS)) \<and>
       ((\<forall>m \<in> set (nodes c). node_id m \<noteq> node_id n \<longrightarrow> recent_heartbeat m (env_now env)) \<or> automatic_completion log c n \<noteq> None))"
    using n(2) by (auto simp: adopts_def safe_adoption_def Let_def list_all_iff full_filter simp del: length_filter_conv_card)
  ultimately show ?thesis using own cols n by (intro bexI [of _ n]) simp_all
qed

section \<open>Events are stored once\<close>

lemma ingest_one_known: "list_ex (\<lambda>r. ar_event_id r = ei_event_id e) log \<Longrightarrow> ingest_one env nid ts log e (c, added, a, d) = (c, added, a, d + 1)"
  by (simp add: ingest_one_def)

lemma ingest_known:
  assumes "\<forall>e \<in> set items. list_ex (\<lambda>r. ar_event_id r = ei_event_id e) log"
  shows "foldl (\<lambda>st e. ingest_one env nid ts log e st) (c, added, a, d) items = (c, added, a, d + int (length items))"
  using assms by (induction items arbitrary: d) (simp_all add: ingest_one_known)

lemma ingest_stores:
  assumes "foldl (\<lambda>st e. ingest_one env nid ts log e st) (c, added, a, d) items = (c', added', a', d')" "e \<in> set items"
  shows "list_ex (\<lambda>r. ar_event_id r = ei_event_id e) (log @ added')"
proof -
  have grow: "set added \<subseteq> set added'" if "foldl (\<lambda>st e. ingest_one env nid ts log e st) (c, added, a, d) items = (c', added', a', d')" for c added a d items
    using that
  proof (induction items arbitrary: c added a d)
    case (Cons x xs)
    obtain c1 ad1 a1 d1 where one: "ingest_one env nid ts log x (c, added, a, d) = (c1, ad1, a1, d1)" by (rule prod_cases4)
    then have "set added \<subseteq> set ad1" by (auto simp: ingest_one_def split: if_splits)
    moreover have "set ad1 \<subseteq> set added'" using Cons.IH [of c1 ad1 a1 d1] Cons.prems by (simp add: one)
    ultimately show ?case by blast
  qed simp
  from assms show ?thesis
  proof (induction items arbitrary: c added a d)
    case (Cons x xs)
    obtain c1 ad1 a1 d1 where one: "ingest_one env nid ts log x (c, added, a, d) = (c1, ad1, a1, d1)" by (rule prod_cases4)
    have rest: "foldl (\<lambda>st e. ingest_one env nid ts log e st) (c1, ad1, a1, d1) xs = (c', added', a', d')" using Cons.prems(1) by (simp add: one)
    show ?case
    proof (cases "e = x")
      case True
      have "list_ex (\<lambda>r. ar_event_id r = ei_event_id x) (log @ ad1)" using one by (auto simp: ingest_one_def split: if_splits)
      then show ?thesis using grow [OF rest] True by (auto simp: list_ex_iff)
    next
      case False
      then show ?thesis using Cons.IH [OF rest] Cons.prems(2) by simp
    qed
  qed simp
qed

text \<open>
  Events are stored once. When an agent sends a batch of events again because it did not see the answer, every event is recognised: nothing is stored, no owner is adopted and no
  notification is sent a second time.
\<close>

theorem repeated_events_change_nothing:
  assumes "ingest_events env nid items log c = Some (c', log', accepted, duplicates)"
  shows "ingest_events env' nid items log' c' = Some (c', log', 0, int (length items))"
proof -
  obtain c1 added a d where f: "foldl (\<lambda>st e. ingest_one env nid (events c) log e st) (c, [], 0, 0) items = (c1, added, a, d)" by (rule prod_cases4)
  have log': "log' = log @ added" using assms by (auto simp: ingest_events_def f Let_def split: if_splits)
  have known: "\<forall>e \<in> set items. list_ex (\<lambda>r. ar_event_id r = ei_event_id e) log'"
    using ingest_stores [OF f] by (simp add: log')
  then have "filter (\<lambda>e. ei_event_type e = ''automatic_failover_completed'' \<and> \<not> list_ex (\<lambda>r. ar_event_id r = ei_event_id e) log') items = []"
    by (simp add: filter_empty_conv)
  then show ?thesis using ingest_known [OF known] by (simp add: ingest_events_def)
qed

section \<open>On the reference cluster\<close>

theorem healthy_is_verified_witness: "topology_safe (reconcile_topology (reference_cluster 0) (seconds 9) None FRESH_SECONDS)"
proof -
  have "deployed (reference_cluster 0)" by code_simp
  moreover have "cluster_status (reconcile_vip_ownership (reference_env (seconds 9)) (\<lambda>_. False) [] (Some 1) (reference_cluster 0)) = ''HEALTHY''" by code_simp
  moreover have "env_now (reference_env (seconds 9)) = seconds 9" by (simp add: reference_env_def)
  ultimately show ?thesis using healthy_is_verified [of "reference_cluster 0" "reference_env (seconds 9)"] by metis
qed

text \<open>Node 2 took over locally, and both nodes report.\<close>

definition taken_over :: ha_cluster where
  "taken_over = (reference_cluster 0)\<lparr>automatic_failover_enabled := True, nodes := [standby_node 1 ''a'' 0, serving_node 2 ''b'' 0]\<rparr>"

theorem adoption_needs_evidence_witness:
  "\<exists>n. vip_owners taken_over (seconds 9) None FRESH_SECONDS = [n] \<and>
     authoritative_node_id (reconcile_vip_ownership (reference_env (seconds 9)) (\<lambda>_. False) [] (Some 2) taken_over) = Some (node_id n)"
proof -
  have "role_generation (reconcile_vip_ownership (reference_env (seconds 9)) (\<lambda>_. False) [] (Some 2) taken_over) \<noteq> role_generation taken_over" by code_simp
  moreover have "env_now (reference_env (seconds 9)) = seconds 9" by (simp add: reference_env_def)
  ultimately show ?thesis using adoption_needs_evidence [of "reference_env (seconds 9)" "\<lambda>_. False" "[]" "Some 2" taken_over] by auto
qed

definition demo_item :: agent_event_item where
  "demo_item = \<lparr>ei_event_id = ''event-0001'', ei_event_type = ''automatic_failover_completed'', ei_details = [(''generation'', JInt 1)], ei_occurred_at = seconds 8\<rparr>"

theorem repeated_events_change_nothing_witness:
  "\<exists>c' log'. ingest_events (reference_env (seconds 20)) 2 [demo_item] log' c' = Some (c', log', 0, 1) \<and> log' \<noteq> []"
proof -
  let ?first = "ingest_events (reference_env (seconds 9)) 2 [demo_item] [] taken_over"
  have "map_option (\<lambda>(c, log, a, d). length log) ?first = Some 1" by code_simp
  then obtain c' log' a d where f: "?first = Some (c', log', a, d)" "length log' = 1" by auto
  show ?thesis using repeated_events_change_nothing [OF f(1), of "reference_env (seconds 20)"] f(2) by (intro exI [of _ c'] exI [of _ log']) auto
qed

end
