(* ===== verification/HA_Orders.thy ===== *)
theory HA_Orders
  imports HA_Heartbeat HA_Keepalived_Host
begin

text \<open>
  The two ends of an order in \<open>app/services/ha_agents.py\<close>: the document of desired state that an agent fetches, which gathers the orders of the
  deployment, the lease replication, the transitions, the repairs and the resolver, and the recording of the results that agents report, with
  the steps that follow a recorded result.
\<close>

section \<open>The resolver of a node\<close>

record resolver_action =
  ra_action_id :: string
  ra_generation :: int
  ra_checksum :: string
  ra_virtual_ip :: string
  ra_network_interface :: string

definition resolver_content :: "string \<Rightarrow> string" where
  "resolver_content vip =
     ''# Managed by Kaya HA'' @ [CHR 0x0A] @ ''[Resolve]'' @ [CHR 0x0A] @ ''DNS='' @ vip @ [CHR 0x0A] @ ''Domains=~.'' @ [CHR 0x0A]"

definition desired_resolver_action :: "(string \<Rightarrow> string) \<Rightarrow> ha_cluster \<Rightarrow> ha_node \<Rightarrow> resolver_action option" where
  "desired_resolver_action sha c n =
     (if resolver_repair_status n \<noteq> Some ''PENDING'' \<or> resolver_repair_generation n < 1 then None
      else
        (let vip = opt_text_or (virtual_ip c) []; interface = opt_text_or (network_interface n) []
         in Some \<lparr>ra_action_id = ''resolver:'' @ cluster_public_id c @ '':'' @ node_public_id n @ '':'' @ str_int (resolver_repair_generation n),
                  ra_generation = resolver_repair_generation n, ra_checksum = sha (vip @ '':'' @ interface @ '':'' @ resolver_content vip),
                  ra_virtual_ip = vip, ra_network_interface = interface\<rparr>))"

section \<open>The desired state\<close>

record desired_document =
  dd_cluster_id :: string
  dd_node_id :: string
  dd_cluster_generation :: int
  dd_role_generation :: int
  dd_desired_role :: string
  dd_desired_sync_generation :: int
  dd_virtual_ip :: "string option"
  dd_maintenance_mode :: bool
  dd_automatic_failover :: bool
  dd_automatic_failback :: bool
  dd_automatic_hold_down_seconds :: int
  dd_dhcp_managed :: bool
  dd_peer_host :: "string option"
  dd_network_interface :: "string option"
  dd_allowed_actions :: "string list"
  dd_keepalived :: "keepalived_action option"
  dd_lease_snapshot :: "lease_action option"
  dd_failover :: "maintenance_action option"
  dd_resolver_repair :: "resolver_action option"

definition as_maintenance_action :: "failover_action \<Rightarrow> maintenance_action" where
  "as_maintenance_action a = failover_action.extend a (maintenance_action.fields False)"

definition automatic_agents :: "ha_cluster \<Rightarrow> bool" where
  "automatic_agents c \<longleftrightarrow>
     (case AUTOMATIC_AGENT_VERSION of (x, y, z) \<Rightarrow> list_all (\<lambda>p. [x, y, z] \<le> version_tuple (agent_version p)) (nodes c))"

definition allowed_actions :: "keepalived_action option \<Rightarrow> lease_action option \<Rightarrow> resolver_action option \<Rightarrow> maintenance_action option \<Rightarrow> failover_action option \<Rightarrow> string list" where
  "allowed_actions keepalived leases resolver maintenance failover =
     (if keepalived \<noteq> None then [''KEEPALIVED_APPLY''] else []) @ (if leases \<noteq> None then [''LEASE_SNAPSHOT_STAGE''] else []) @
     (if resolver \<noteq> None then [''RESOLVER_REPAIR''] else []) @
     (case maintenance of None \<Rightarrow> [] | Some a \<Rightarrow> [action_name (fa_action_type a)]) @
     (case failover of None \<Rightarrow> [] | Some a \<Rightarrow> [action_name (fa_action_type a)])"

text \<open>An error of the rendering of the Keepalived configuration ends the request. A repair's order hides that of a transition.\<close>

definition desired_state :: "ha_env \<Rightarrow> ha_cluster \<Rightarrow> ha_node \<Rightarrow> string + desired_document" where
  "desired_state env c n =
     (case desired_keepalived_action (env_sha256 env) c n of
        Inl e \<Rightarrow> Inl e
      | Inr keepalived \<Rightarrow>
          (let leases = desired_lease_action c n;
               failover = desired_failover_action env c n;
               maintenance = desired_maintenance_action env c n;
               resolver = desired_resolver_action (env_sha256 env) c n
           in Inr \<lparr>dd_cluster_id = cluster_public_id c, dd_node_id = node_public_id n, dd_cluster_generation = cluster_generation c,
                   dd_role_generation = role_generation c, dd_desired_role = desired_role n, dd_desired_sync_generation = desired_sync_generation c,
                   dd_virtual_ip = (case virtual_ip c of None \<Rightarrow> None
                     | Some ip \<Rightarrow> if ip = [] then None else Some (ip @ ''/'' @ (case prefix_length c of None \<Rightarrow> ''None'' | Some k \<Rightarrow> str_int k))),
                   dd_maintenance_mode = maintenance_mode c, dd_automatic_failover = (automatic_failover_enabled c \<and> automatic_agents c),
                   dd_automatic_failback = False, dd_automatic_hold_down_seconds = 10, dd_dhcp_managed = pihole_manages_dhcp c,
                   dd_peer_host = Option.bind (find (\<lambda>m. node_id m \<noteq> node_id n) (nodes c)) management_host, dd_network_interface = network_interface n,
                   dd_allowed_actions = allowed_actions keepalived leases resolver maintenance failover,
                   dd_keepalived = keepalived, dd_lease_snapshot = leases,
                   dd_failover = or_else maintenance (map_option as_maintenance_action failover), dd_resolver_repair = resolver\<rparr>))"

section \<open>Results\<close>

datatype agent_action = Keepalived_apply | Lease_stage | Resolver_repair | Dhcp_order dhcp_action

record agent_result =
  rr_action_id :: string
  rr_action_type :: agent_action
  rr_generation :: int
  rr_status :: string
  rr_checksum :: "string option"
  rr_message :: string

text \<open>A row of \<open>ha_agent_action_results\<close>, as far as it is read again.\<close>

record result_row =
  rw_action_id :: string
  rw_node_id :: int

datatype result_fault = OtherNode | StaleResult | WrongChecksum | RenderFault string | LeaseFault lease_error | RepairFault maintenance_error
  | TransitionFault failover_error

text \<open>Identifier, generation and checksum of the order that a result has to answer.\<close>

definition expected_order :: "ha_env \<Rightarrow> ha_cluster \<Rightarrow> ha_node \<Rightarrow> agent_action \<Rightarrow> string + (string \<times> int \<times> string) option" where
  "expected_order env c n a =
     (case a of
        Resolver_repair \<Rightarrow> Inr (map_option (\<lambda>o1. (ra_action_id o1, ra_generation o1, ra_checksum o1)) (desired_resolver_action (env_sha256 env) c n))
      | Keepalived_apply \<Rightarrow>
          (case desired_keepalived_action (env_sha256 env) c n of
             Inl e \<Rightarrow> Inl e | Inr o1 \<Rightarrow> Inr (map_option (\<lambda>o1. (ka_action_id o1, ka_generation o1, ka_checksum o1)) o1))
      | Lease_stage \<Rightarrow> Inr (map_option (\<lambda>o1. (la_action_id o1, la_generation o1, la_checksum o1)) (desired_lease_action c n))
      | Dhcp_order d \<Rightarrow>
          (case desired_maintenance_action env c n of
             Some o1 \<Rightarrow>
               if fa_action_type o1 = d then Inr (Some (fa_action_id o1, fa_generation o1, fa_checksum o1))
               else Inr (map_option (\<lambda>o1. (fa_action_id o1, fa_generation o1, fa_checksum o1)) (desired_failover_action env c n))
           | None \<Rightarrow> Inr (map_option (\<lambda>o1. (fa_action_id o1, fa_generation o1, fa_checksum o1)) (desired_failover_action env c n))))"

definition keepalived_outcome :: "agent_result \<Rightarrow> ha_node \<Rightarrow> ha_cluster \<Rightarrow> ha_cluster" where
  "keepalived_outcome r n c =
     (let ok = (rr_status r = ''APPLIED'');
          c1 = update_node (node_id n) (\<lambda>m. m\<lparr>node_keepalived_status := (if ok then ''DEPLOYED'' else ''ERROR''),
                 keepalived_config_checksum := (if ok then rr_checksum r else None), keepalived_last_error := (if ok then None else Some (rr_message r)),
                 config_generation := (if ok then rr_generation r else config_generation m)\<rparr>) c
      in if rr_status r = ''FAILED'' then c1\<lparr>keepalived_status := ''ERROR'', cluster_status := ''ERROR''\<rparr>
         else if list_all (\<lambda>m. node_keepalived_status m = ''DEPLOYED'') (nodes c1) then c1\<lparr>keepalived_status := ''DEPLOYED'', cluster_status := ''READY_TO_DEPLOY''\<rparr>
         else c1)"

definition resolver_outcome :: "agent_result \<Rightarrow> ha_node \<Rightarrow> ha_cluster \<Rightarrow> ha_cluster" where
  "resolver_outcome r n c =
     update_node (node_id n) (\<lambda>m. m\<lparr>resolver_repair_status := Some (rr_status r),
       resolver_repair_last_error := (if rr_status r = ''APPLIED'' then None else Some (rr_message r))\<rparr>) c"

text \<open>What a result changes. Any order of a repair for the node sends a DHCP result to the repair.\<close>

definition apply_result :: "ha_env \<Rightarrow> agent_result \<Rightarrow> ha_node \<Rightarrow> ha_cluster \<Rightarrow> result_fault + ha_cluster" where
  "apply_result env r n c =
     (case rr_action_type r of
        Resolver_repair \<Rightarrow> Inr (resolver_outcome r n c)
      | Lease_stage \<Rightarrow>
          (case record_lease_stage_result env c n (rr_generation r) (rr_checksum r) (rr_status r) (rr_message r) of
             Inl e \<Rightarrow> Inl (LeaseFault e) | Inr c' \<Rightarrow> Inr c')
      | Dhcp_order d \<Rightarrow>
          if desired_maintenance_action env c n \<noteq> None
          then (case record_maintenance_action_result env n d (rr_generation r) (rr_checksum r) (rr_status r) (rr_message r) c of
                  Inl e \<Rightarrow> Inl (RepairFault e) | Inr c' \<Rightarrow> Inr c')
          else (case record_failover_action_result env c n (action_name d) (rr_generation r) (rr_checksum r) (rr_status r) (rr_message r) of
                  Inl e \<Rightarrow> Inl (TransitionFault e) | Inr c' \<Rightarrow> Inr c')
      | Keepalived_apply \<Rightarrow> Inr (keepalived_outcome r n c))"

definition record_action_result ::
  "ha_env \<Rightarrow> (string \<Rightarrow> bool) \<Rightarrow> agent_report list \<Rightarrow> agent_result \<Rightarrow> ha_node \<Rightarrow> result_row list \<Rightarrow> ha_cluster \<Rightarrow>
     result_fault + ha_cluster \<times> result_row list" where
  "record_action_result env incident_open log r n rows c =
     (case find (\<lambda>w. rw_action_id w = rr_action_id r) rows of
        Some w \<Rightarrow> if rw_node_id w \<noteq> node_id n then Inl OtherNode else Inr (c, rows)
      | None \<Rightarrow>
          (case expected_order env c n (rr_action_type r) of
             Inl e \<Rightarrow> Inl (RenderFault e)
           | Inr None \<Rightarrow> Inl StaleResult
           | Inr (Some (ident, generation, checksum)) \<Rightarrow>
               if rr_action_id r \<noteq> ident \<or> rr_generation r \<noteq> generation then Inl StaleResult
               else if rr_status r = ''APPLIED'' \<and> rr_checksum r \<noteq> Some checksum then Inl WrongChecksum
               else
                 (case apply_result env r n c of
                    Inl e \<Rightarrow> Inl e
                  | Inr c1 \<Rightarrow>
                      (case advance_failover env (reconcile_vip_ownership env incident_open log None c1) of
                         Inl e \<Rightarrow> Inl (TransitionFault e)
                       | Inr (c2, _) \<Rightarrow> Inr (c2, rows @ [\<lparr>rw_action_id = rr_action_id r, rw_node_id = node_id n\<rparr>])))))"

section \<open>What is accepted\<close>

text \<open>
  C11. Results are fenced and recorded once. A result that changes anything answers the order that the server would give this node at this moment, with its identifier and generation, and with
  its checksum when it claims success; after that, the same result from the same node changes nothing, and from another node it is refused.
\<close>

theorem results_are_recorded_once:
  assumes "record_action_result env incident_open log r n rows c = Inr (c', rows')"
  shows "(rows' = rows \<and> c' = c \<or>
     (\<exists>checksum. expected_order env c n (rr_action_type r) = Inr (Some (rr_action_id r, rr_generation r, checksum)) \<and>
        (rr_status r = ''APPLIED'' \<longrightarrow> rr_checksum r = Some checksum))) \<and>
    record_action_result env2 incident_open2 log2 r n rows' d = Inr (d, rows') \<and>
    (node_id m \<noteq> node_id n \<longrightarrow> record_action_result env2 incident_open2 log2 r m rows' d = Inl OtherNode)"
proof (cases "find (\<lambda>w. rw_action_id w = rr_action_id r) rows")
  case (Some w)
  then have "rw_node_id w = node_id n" "c' = c" "rows' = rows" using assms by (auto simp: record_action_result_def split: if_splits)
  then show ?thesis using Some by (simp add: record_action_result_def)
next
  case None
  obtain ident generation checksum where e: "expected_order env c n (rr_action_type r) = Inr (Some (ident, generation, checksum))"
    using assms None by (auto simp: record_action_result_def split: sum.splits option.splits prod.splits)
  have guards: "rr_action_id r = ident" "rr_generation r = generation" "rr_status r = ''APPLIED'' \<longrightarrow> rr_checksum r = Some checksum"
    "rows' = rows @ [\<lparr>rw_action_id = rr_action_id r, rw_node_id = node_id n\<rparr>]"
    using assms None e by (auto simp: record_action_result_def split: sum.splits prod.splits if_splits)
  have "find (\<lambda>w. rw_action_id w = rr_action_id r) (rows @ [\<lparr>rw_action_id = rr_action_id r, rw_node_id = node_id n\<rparr>]) =
      Some \<lparr>rw_action_id = rr_action_id r, rw_node_id = node_id n\<rparr>"
    using None by (induction rows) (auto split: if_splits)
  then show ?thesis using e guards by (simp add: record_action_result_def)
qed

definition resolving_node :: ha_node where
  "resolving_node = (standby_node 2 ''b'' 0)\<lparr>resolver_repair_generation := 1, resolver_repair_status := Some ''PENDING''\<rparr>"

definition resolving_cluster :: ha_cluster where
  "resolving_cluster = (reference_cluster 0)\<lparr>nodes := [serving_node 1 ''a'' 0, resolving_node]\<rparr>"

definition resolver_result :: agent_result where
  "resolver_result = \<lparr>rr_action_id = ''resolver:c:b:1'', rr_action_type = Resolver_repair, rr_generation = 1, rr_status = ''FAILED'', rr_checksum = None, rr_message = ''no''\<rparr>"

theorem results_are_recorded_once_witness:
  "\<exists>rows. record_action_result (reference_env 5) (\<lambda>_. False) [] resolver_result resolving_node rows (reference_cluster 0) = Inr (reference_cluster 0, rows) \<and> rows \<noteq> []"
proof -
  let ?out = "record_action_result (reference_env 0) (\<lambda>_. False) [] resolver_result resolving_node [] resolving_cluster"
  have "(case ?out of Inl _ \<Rightarrow> None | Inr (c, rows) \<Rightarrow> Some (length rows)) = Some 1" by code_simp
  then obtain c' rows where out: "?out = Inr (c', rows)" "length rows = 1" by (auto split: sum.splits)
  show ?thesis
    using results_are_recorded_once [OF out(1), of "reference_env 5" "\<lambda>_. False" "[]" "reference_cluster 0"] out(2) by (intro exI [of _ rows]) auto
qed

end
