(* ===== verification/Auth_Model.thy ===== *)
theory Auth_Model
  imports Kaya_Json
begin

text \<open>
  Sign-in: the tables (\<open>app/models/models.py\<close>), the browser session, login sessions (\<open>app/services/sessions.py\<close>) and the sign-in
  policy (\<open>app/services/authentication_policy.py\<close>). The browser session is the dictionary that Starlette keeps in a signed cookie; a handler
  gets one and returns one. Random tokens, password hash, cipher, one-time codes and the normalisation of e-mail addresses by the
  \<open>email_validator\<close> package are arguments, fields of the environment of a request. Names of modules, the vault sessions that a new password
  revokes and the push subscriptions that a logout revokes are left out.
\<close>

section \<open>Latin-1 text\<close>

definition lower1_char :: "char \<Rightarrow> char" where
  "lower1_char c = (if (192 :: nat) \<le> of_char c \<and> of_char c \<le> (222 :: nat) \<and> of_char c \<noteq> (215 :: nat)
     then char_of (of_char c + 32 :: nat) else lower_char c)"

definition lower1 :: "string \<Rightarrow> string" where
  "lower1 s = map lower1_char s"

text \<open>\<open>str.casefold\<close>: sharp s becomes two letters; the micro sign, which becomes a letter outside Latin-1 that nothing else becomes, stays.\<close>

definition casefold :: "string \<Rightarrow> string" where
  "casefold s = concat (map (\<lambda>c. if of_char c = (223 :: nat) then ''ss'' else [lower1_char c]) s)"

section \<open>Tables\<close>

record login_user =
  lu_id :: int
  lu_email :: string
  lu_password_hash :: "string option"
  lu_first_name :: "string option"
  lu_last_name :: "string option"
  lu_role :: string
  lu_is_active :: bool
  lu_totp_secret :: "string option"
  lu_totp_enabled :: bool
  lu_authentication_type :: string
  lu_is_break_glass :: bool
  lu_role_source :: string
  lu_updated_at :: time

record app_session =
  ss_session_id :: string
  ss_user_id :: int
  ss_ip_address :: "string option"
  ss_user_agent :: "string option"
  ss_oidc_id_token :: "string option"
  ss_created_at :: time
  ss_last_seen_at :: time
  ss_ended_at :: "time option"

record reset_token =
  rt_user_id :: int
  rt_token_hash :: string
  rt_expires_at :: time
  rt_used_at :: "time option"
  rt_created_at :: time

record audit_log_row =
  au_user_id :: "int option"
  au_action :: string
  au_ip_address :: "string option"
  au_metadata :: "string option"
  au_created_at :: time

record oidc_provider =
  op_id :: int
  op_name :: string
  op_issuer :: string
  op_client_id :: string
  op_client_secret :: "string option"
  op_is_enabled :: bool
  op_require_verified_email :: bool
  op_allow_jit_provisioning :: bool
  op_email_matching_mode :: string
  op_allowed_email_domains :: "string option"
  op_default_role :: string
  op_sync_roles_on_login :: bool
  op_update_names_on_login :: bool
  op_update_email_on_login :: bool
  op_email_claim :: string
  op_email_verified_claim :: string
  op_name_claim :: string
  op_first_name_claim :: string
  op_last_name_claim :: string
  op_preferred_username_claim :: string
  op_group_claim :: string
  op_role_mappings :: "json option"
  op_case_sensitive :: bool
  op_discovery_status :: "string option"
  op_test_login_succeeded_at :: "time option"
  op_updated_at :: time

record external_identity =
  ei_id :: int
  ei_user_id :: int
  ei_provider_id :: int
  ei_issuer :: string
  ei_subject :: string
  ei_email_at_link_time :: "string option"
  ei_current_email :: "string option"
  ei_preferred_username :: "string option"
  ei_role_management :: string
  ei_linked_by_user_id :: "int option"
  ei_link_method :: string
  ei_last_login_at :: "time option"

text \<open>The claims that a sign-in uses, which \<open>validated_claims_json\<close> keeps until a link is confirmed.\<close>

record identity_claims =
  ic_iss :: string
  ic_sub :: string
  ic_email :: string
  ic_email_verified :: bool
  ic_name :: "string option"
  ic_first_name :: "string option"
  ic_last_name :: "string option"
  ic_preferred_username :: "string option"
  ic_groups :: "string list"

record oidc_transaction =
  ot_hash :: string
  ot_state_hash :: string
  ot_provider_id :: int
  ot_flow_type :: string
  ot_target_user_id :: "int option"
  ot_initiated_by_user_id :: "int option"
  ot_link_invitation_id :: "int option"
  ot_return_path :: string
  ot_validated_claims :: "identity_claims option"
  ot_created_at :: time
  ot_expires_at :: time
  ot_used_at :: "time option"

record link_invitation =
  li_id :: int
  li_token_hash :: string
  li_user_id :: int
  li_provider_id :: int
  li_created_by_user_id :: int
  li_recipient_binding_hash :: string
  li_provider_binding_hash :: string
  li_redemption_session_hash :: "string option"
  li_expires_at :: time
  li_used_at :: "time option"
  li_completed_at :: "time option"
  li_revoked_at :: "time option"

text \<open>
  The database, the value of every site setting (with its default), and the three dictionaries of attempts that the server process keeps
  in memory.
\<close>

type_synonym attempts = "(string \<times> time list) list"

record auth_state =
  st_users :: "login_user list"
  st_sessions :: "app_session list"
  st_reset_tokens :: "reset_token list"
  st_audit :: "audit_log_row list"
  st_providers :: "oidc_provider list"
  st_identities :: "external_identity list"
  st_transactions :: "oidc_transaction list"
  st_invitations :: "link_invitation list"
  st_settings :: "string \<Rightarrow> string"
  st_login_failures :: attempts
  st_reset_attempts :: attempts
  st_action_attempts :: attempts

section \<open>Requests\<close>

text \<open>
  What a request brings from outside: the two clocks, the address of the peer (\<open>request.client.host\<close>), the address and user agent that
  are stored with a session, fresh random tokens, and the functions of the libraries.
\<close>

record auth_env =
  ae_now :: time
  ae_monotonic :: time
  ae_client :: "string option"
  ae_address :: "string option"
  ae_user_agent :: string
  ae_session_token :: string
  ae_csrf_token :: string
  ae_token :: string
  ae_state_token :: string
  ae_sha256 :: "string \<Rightarrow> string"
  ae_hash_password :: "string \<Rightarrow> string"
  ae_password_matches :: "string \<Rightarrow> string \<Rightarrow> bool"
  ae_encrypt :: "string \<Rightarrow> string"
  ae_decrypt :: "string \<Rightarrow> string"
  ae_hotp :: "string \<Rightarrow> int \<Rightarrow> string"
  ae_normal_email :: "string \<Rightarrow> string option"

record browser_session =
  bs_user_id :: "int option"
  bs_session_id :: "string option"
  bs_last_sync :: "int option"
  bs_pending_2fa :: "int option"
  bs_pending_break_glass :: "int option"
  bs_method :: "string option"
  bs_csrf :: "string option"
  bs_transaction :: "string option"
  bs_invitation :: "(int \<times> string) option"
  bs_vault_approval :: "(int \<times> string \<times> int \<times> int) option"

definition cleared_session :: browser_session where
  "cleared_session = \<lparr>bs_user_id = None, bs_session_id = None, bs_last_sync = None, bs_pending_2fa = None, bs_pending_break_glass = None,
     bs_method = None, bs_csrf = None, bs_transaction = None, bs_invitation = None, bs_vault_approval = None\<rparr>"

text \<open>A page with its status, a redirection, or an exception that no handler catches. A refused form token is a page with status 400.\<close>

datatype auth_response = Page int string | Redirect string | Crash

type_synonym auth_result = "auth_response \<times> browser_session \<times> auth_state"

text \<open>The form token of \<open>app/core/csrf.py\<close>: a page stores one in the browser session, a form has to send it back.\<close>

definition csrf_context :: "auth_env \<Rightarrow> browser_session \<Rightarrow> browser_session" where
  "csrf_context env b = (if opt_text_or (bs_csrf b) [] = [] then b\<lparr>bs_csrf := Some (ae_csrf_token env)\<rparr> else b)"

definition validate_csrf_token :: "browser_session \<Rightarrow> string \<Rightarrow> bool" where
  "validate_csrf_token b submitted \<longleftrightarrow> submitted \<noteq> [] \<and> bs_csrf b = Some submitted"

definition bad_form_token :: "browser_session \<Rightarrow> auth_state \<Rightarrow> auth_result" where
  "bad_form_token b st = (Page 400 ''Invalid form token'', b, st)"

definition page :: "auth_env \<Rightarrow> int \<Rightarrow> string \<Rightarrow> browser_session \<Rightarrow> auth_state \<Rightarrow> auth_result" where
  "page env status content b st = (Page status content, csrf_context env b, st)"

section \<open>Rows\<close>

definition user_by_id :: "auth_state \<Rightarrow> int \<Rightarrow> login_user option" where
  "user_by_id st i = find (\<lambda>u. lu_id u = i) (st_users st)"

definition opt_user :: "auth_state \<Rightarrow> int option \<Rightarrow> login_user option" where
  "opt_user st i = Option.bind i (user_by_id st)"

definition provider_by_id :: "auth_state \<Rightarrow> int \<Rightarrow> oidc_provider option" where
  "provider_by_id st i = find (\<lambda>p. op_id p = i) (st_providers st)"

text \<open>An update of a row that changes it also sets \<open>updated_at\<close> (\<open>onupdate\<close> of the column).\<close>

definition touched :: "time \<Rightarrow> login_user \<Rightarrow> login_user \<Rightarrow> login_user" where
  "touched now old new = (if new = old then old else new\<lparr>lu_updated_at := now\<rparr>)"

definition update_user :: "time \<Rightarrow> int \<Rightarrow> (login_user \<Rightarrow> login_user) \<Rightarrow> auth_state \<Rightarrow> auth_state" where
  "update_user now i f st = st\<lparr>st_users := map (\<lambda>u. if lu_id u = i then touched now u (f u) else u) (st_users st)\<rparr>"

text \<open>\<open>write_audit\<close>: every action of this component is of the tier that is always captured.\<close>

definition write_audit :: "auth_env \<Rightarrow> int option \<Rightarrow> string \<Rightarrow> string option \<Rightarrow> auth_state \<Rightarrow> auth_state" where
  "write_audit env uid act metadata st =
     st\<lparr>st_audit := st_audit st @ [\<lparr>au_user_id = uid, au_action = act, au_ip_address = ae_client env, au_metadata = metadata,
       au_created_at = ae_now env\<rparr>]\<rparr>"

definition attempted_email_metadata :: "string \<Rightarrow> string option" where
  "attempted_email_metadata email = Some (json_dumps (JObj [(''attempted_email'', JStr (take 255 email))]))"

section \<open>Login sessions\<close>

definition SESSION_SYNC_SECONDS :: int where
  "SESSION_SYNC_SECONDS = 60"

definition SESSION_ABSOLUTE_HOURS :: int where
  "SESSION_ABSOLUTE_HOURS = 8"

definition epoch_seconds :: "time \<Rightarrow> int" where
  "epoch_seconds now = now div 1000000"

definition request_ip :: "auth_env \<Rightarrow> string option" where
  "request_ip env = (case ae_address env of None \<Rightarrow> None | Some a \<Rightarrow> if a = [] then None else Some (take 80 a))"

definition request_user_agent :: "auth_env \<Rightarrow> string option" where
  "request_user_agent env = (let a = take 500 (strip1 (ae_user_agent env)) in if a = [] then None else Some a)"

text \<open>The identifier of a session is unique; the insertion of a second row fails.\<close>

definition start_user_session ::
  "auth_env \<Rightarrow> login_user \<Rightarrow> browser_session \<Rightarrow> auth_state \<Rightarrow> (browser_session \<times> auth_state) option" where
  "start_user_session env u b st =
     (if ae_session_token env \<in> ss_session_id ` set (st_sessions st) then None
      else Some (b\<lparr>bs_session_id := Some (ae_session_token env), bs_last_sync := Some (epoch_seconds (ae_now env))\<rparr>,
        st\<lparr>st_sessions := st_sessions st @
          [\<lparr>ss_session_id = ae_session_token env, ss_user_id = lu_id u, ss_ip_address = request_ip env,
            ss_user_agent = request_user_agent env, ss_oidc_id_token = None, ss_created_at = ae_now env,
            ss_last_seen_at = ae_now env, ss_ended_at = None\<rparr>]\<rparr>))"

definition live_session :: "time \<Rightarrow> string \<Rightarrow> int \<Rightarrow> app_session \<Rightarrow> bool" where
  "live_session now sid uid s \<longleftrightarrow> ss_session_id s = sid \<and> ss_user_id s = uid \<and> ss_ended_at s = None \<and>
     ss_created_at s \<ge> now - minutes (60 * SESSION_ABSOLUTE_HOURS)"

definition active_user_session :: "auth_state \<Rightarrow> time \<Rightarrow> string option \<Rightarrow> int option \<Rightarrow> app_session option" where
  "active_user_session st now sid uid =
     (case (sid, uid) of
        (Some s, Some u) \<Rightarrow> if s = [] \<or> u = 0 then None else find (live_session now s u) (st_sessions st)
      | _ \<Rightarrow> None)"

definition update_login_session :: "string \<Rightarrow> (app_session \<Rightarrow> app_session) \<Rightarrow> auth_state \<Rightarrow> auth_state" where
  "update_login_session sid f st = st\<lparr>st_sessions := map (\<lambda>s. if ss_session_id s = sid then f s else s) (st_sessions st)\<rparr>"

definition touch_user_session :: "auth_env \<Rightarrow> app_session \<Rightarrow> browser_session \<Rightarrow> auth_state \<Rightarrow> browser_session \<times> auth_state" where
  "touch_user_session env s b st =
     (let now = epoch_seconds (ae_now env); last_sync = (case bs_last_sync b of None \<Rightarrow> 0 | Some t \<Rightarrow> t) in
      if now - last_sync < SESSION_SYNC_SECONDS \<or> ae_now env - ss_last_seen_at s < seconds SESSION_SYNC_SECONDS then (b, st)
      else (b\<lparr>bs_last_sync := Some now\<rparr>,
        update_login_session (ss_session_id s)
          (\<lambda>r. r\<lparr>ss_ip_address := request_ip env, ss_user_agent := request_user_agent env, ss_last_seen_at := ae_now env\<rparr>) st))"

definition ended :: "time \<Rightarrow> app_session \<Rightarrow> app_session" where
  "ended now s = s\<lparr>ss_last_seen_at := now, ss_ended_at := Some now, ss_oidc_id_token := None\<rparr>"

definition revoke_user_sessions :: "time \<Rightarrow> int \<Rightarrow> string option \<Rightarrow> auth_state \<Rightarrow> auth_state" where
  "revoke_user_sessions now uid except st =
     st\<lparr>st_sessions := map (\<lambda>s. if ss_user_id s = uid \<and> ss_ended_at s = None \<and>
         (opt_text_or except [] = [] \<or> ss_session_id s \<noteq> opt_text_or except []) then ended now s else s) (st_sessions st)\<rparr>"

definition end_user_session :: "time \<Rightarrow> browser_session \<Rightarrow> auth_state \<Rightarrow> auth_state" where
  "end_user_session now b st =
     (case bs_session_id b of
        None \<Rightarrow> st
      | Some sid \<Rightarrow> if sid = [] then st
          else st\<lparr>st_sessions := map (\<lambda>s. if ss_session_id s = sid \<and> ss_ended_at s = None then ended now s else s) (st_sessions st)\<rparr>)"

section \<open>The policy\<close>

definition AUTHENTICATION_MODES :: "string list" where
  "AUTHENTICATION_MODES = [''local_only'', ''local_and_oidc'', ''oidc_preferred'', ''oidc_required'']"

definition enabled_provider :: "auth_state \<Rightarrow> oidc_provider option" where
  "enabled_provider st = min_by op_id (filter op_is_enabled (st_providers st))"

record authentication_policy =
  po_mode :: string
  po_oidc_available :: bool
  po_button_label :: string
  po_show_local_login :: bool
  po_auto_redirect_oidc :: bool
  po_provider :: "oidc_provider option"

definition get_authentication_policy :: "auth_state \<Rightarrow> authentication_policy" where
  "get_authentication_policy st =
     (let stored = st_settings st ''authentication_mode'';
          mode = (if stored \<in> set AUTHENTICATION_MODES then stored else ''local_only'');
          provider = enabled_provider st in
      \<lparr>po_mode = mode,
       po_oidc_available = (provider \<noteq> None),
       po_button_label = text_or (st_settings st ''oidc_button_label'') ''Sign in with SSO'',
       po_show_local_login = (mode = ''local_only'' \<or> mode = ''local_and_oidc'' \<or>
         mode = ''oidc_preferred'' \<and> st_settings st ''oidc_show_local_preferred'' = ''1''),
       po_auto_redirect_oidc = (mode = ''oidc_required'' \<and> provider \<noteq> None \<and> st_settings st ''oidc_auto_redirect_required'' = ''1''),
       po_provider = provider\<rparr>)"

definition show_oidc_login :: "authentication_policy \<Rightarrow> bool" where
  "show_oidc_login p \<longleftrightarrow> po_oidc_available p \<and> po_mode p \<noteq> ''local_only''"

definition normal_local_login_allowed :: "auth_state \<Rightarrow> bool" where
  "normal_local_login_allowed st \<longleftrightarrow> po_show_local_login (get_authentication_policy st)"

definition oidc_only_readiness :: "auth_state \<Rightarrow> login_user option \<Rightarrow> bool option \<Rightarrow> (string \<times> bool) list" where
  "oidc_only_readiness st current_admin emergency =
     (let provider = enabled_provider st in
      [(''provider_configured'', st_providers st \<noteq> []),
       (''provider_enabled'', provider \<noteq> None),
       (''discovery'', Option.bind provider op_discovery_status = Some ''ok''),
       (''test_login'', Option.bind provider op_test_login_succeeded_at \<noteq> None),
       (''current_admin_linked'', (case (provider, current_admin) of
          (Some p, Some u) \<Rightarrow> list_ex (\<lambda>i. ei_provider_id i = op_id p \<and> ei_user_id i = lu_id u) (st_identities st) | _ \<Rightarrow> False)),
       (''break_glass'', list_ex (\<lambda>u. lu_role u = ''admin'' \<and> lu_is_active u \<and> lu_is_break_glass u \<and> lu_password_hash u \<noteq> None) (st_users st)),
       (''emergency_enabled'', (case emergency of Some e \<Rightarrow> e | None \<Rightarrow> st_settings st ''oidc_emergency_local_enabled'' = ''1''))])"

end
