(* ===== verification/Auth_Login.thy ===== *)
theory Auth_Login
  imports Auth_Model
begin

text \<open>
  Local sign-in (\<open>app/routers/auth.py\<close>, \<open>app/core/totp.py\<close>): rate limits, the login in one or two steps, the current user of a request, password reset,
  first setup, logout and the security settings of a profile. One handler is one definition from browser session and state to response,
  browser session and state. The content of pages, the target of a redirection after a sign-in and the names of a profile are left out.
\<close>

section \<open>One-time codes\<close>

text \<open>
  \<open>None\<close> is the exception of \<open>hmac.compare_digest\<close> on text that is not ASCII: \<open>str.isdigit\<close> also accepts superscript digits.
\<close>

definition verify_totp :: "auth_env \<Rightarrow> string \<Rightarrow> string \<Rightarrow> bool option" where
  "verify_totp env secret code =
     (let submitted = strip1 code in
      if submitted = [] \<or> \<not> list_all is_digit1 submitted then Some False
      else if \<not> list_all is_digit submitted then None
      else Some (list_ex (\<lambda>offset. ae_hotp env secret (epoch_seconds (ae_now env) div 30 + offset) = submitted) [-1, 0, 1]))"

definition decrypted_totp_secret :: "auth_env \<Rightarrow> login_user \<Rightarrow> string" where
  "decrypted_totp_secret env u = (let s = opt_text_or (lu_totp_secret u) [] in if s = [] then [] else ae_decrypt env s)"

definition verify_password :: "auth_env \<Rightarrow> string \<Rightarrow> string option \<Rightarrow> bool" where
  "verify_password env password stored = (let h = opt_text_or stored [] in h \<noteq> [] \<and> ae_password_matches env password h)"

definition has_password :: "login_user \<Rightarrow> bool" where
  "has_password u \<longleftrightarrow> opt_text_or (lu_password_hash u) [] \<noteq> []"

section \<open>Rate limits\<close>

definition MAX_LOGIN_ATTEMPTS :: nat where
  "MAX_LOGIN_ATTEMPTS = 5"

definition LOGIN_WINDOW :: time where
  "LOGIN_WINDOW = minutes 15"

definition MAX_PASSWORD_RESET_ATTEMPTS :: nat where
  "MAX_PASSWORD_RESET_ATTEMPTS = 5"

definition PASSWORD_RESET_WINDOW :: time where
  "PASSWORD_RESET_WINDOW = minutes 60"

definition client_key :: "auth_env \<Rightarrow> string" where
  "client_key env = (case ae_client env of None \<Rightarrow> ''unknown'' | Some host \<Rightarrow> host)"

definition stored_attempts :: "attempts \<Rightarrow> string \<Rightarrow> time list" where
  "stored_attempts cache key = (case map_of cache key of None \<Rightarrow> [] | Some ts \<Rightarrow> ts)"

text \<open>The attempts within the window, which replace those stored under the key.\<close>

definition recent_logins :: "auth_env \<Rightarrow> time \<Rightarrow> string \<Rightarrow> attempts \<Rightarrow> time list \<times> attempts" where
  "recent_logins env window key cache =
     (let ts = filter (\<lambda>t. ae_monotonic env - t < window) (stored_attempts cache key) in (ts, dict_put key ts cache))"

definition note_attempt :: "auth_env \<Rightarrow> time \<Rightarrow> string \<Rightarrow> attempts \<Rightarrow> attempts" where
  "note_attempt env window key cache =
     (case recent_logins env window key cache of (ts, cache') \<Rightarrow> dict_put key (ts @ [ae_monotonic env]) cache')"

text \<open>\<open>LIKE\<close> of SQL, without an escape character: \<open>%\<close> stands for any text, \<open>_\<close> for any character.\<close>

fun sql_like :: "string \<Rightarrow> string \<Rightarrow> bool" where
  "sql_like [] s = (s = [])"
| "sql_like (p # ps) [] = (p = CHR ''%'' \<and> sql_like ps [])"
| "sql_like (p # ps) (c # s) =
     (if p = CHR ''%'' then sql_like ps (c # s) \<or> sql_like (p # ps) s
      else (p = CHR ''_'' \<or> p = c) \<and> sql_like ps s)"

definition sql_contains :: "string \<Rightarrow> string \<Rightarrow> bool" where
  "sql_contains pattern value = sql_like (''%'' @ pattern @ ''%'') value"

definition email_pattern :: "string \<Rightarrow> string" where
  "email_pattern email = [CHR 0x22] @ ''attempted_email'' @ [CHR 0x22, CHR '':'', CHR 0x22] @ take 255 email @ [CHR 0x22]"

definition counts_against :: "auth_env \<Rightarrow> string \<Rightarrow> audit_log_row \<Rightarrow> bool" where
  "counts_against env email a \<longleftrightarrow>
     au_action a \<in> set [''login_failed'', ''login_blocked'', ''2fa_failed''] \<and> au_created_at a \<ge> ae_now env - LOGIN_WINDOW \<and>
     (au_ip_address a = Some (client_key env) \<or>
      email \<noteq> [] \<and> (case au_metadata a of None \<Rightarrow> False | Some m \<Rightarrow> sql_contains (email_pattern email) m))"

definition login_is_limited :: "auth_env \<Rightarrow> string \<Rightarrow> auth_state \<Rightarrow> bool \<times> auth_state" where
  "login_is_limited env email st =
     (case recent_logins env LOGIN_WINDOW (client_key env) (st_login_failures st) of
        (ts, cache) \<Rightarrow>
          (max (length ts) (length (filter (counts_against env email) (st_audit st))) \<ge> MAX_LOGIN_ATTEMPTS, st\<lparr>st_login_failures := cache\<rparr>))"

definition record_login_failure :: "auth_env \<Rightarrow> auth_state \<Rightarrow> auth_state" where
  "record_login_failure env st = st\<lparr>st_login_failures := note_attempt env LOGIN_WINDOW (client_key env) (st_login_failures st)\<rparr>"

definition reset_keys :: "auth_env \<Rightarrow> string \<Rightarrow> string list" where
  "reset_keys env email = [''ip:'' @ client_key env, ''email:'' @ take 255 email]"

definition password_reset_is_limited :: "auth_env \<Rightarrow> login_user option \<Rightarrow> string \<Rightarrow> auth_state \<Rightarrow> bool \<times> auth_state" where
  "password_reset_is_limited env u email st =
     (case recent_logins env PASSWORD_RESET_WINDOW (reset_keys env email ! 0) (st_reset_attempts st) of
        (ts, cache) \<Rightarrow> (case recent_logins env PASSWORD_RESET_WINDOW (reset_keys env email ! 1) cache of
          (us, cache') \<Rightarrow>
            (max (length ts) (length us) \<ge> MAX_PASSWORD_RESET_ATTEMPTS \<or>
               (case u of None \<Rightarrow> False
                | Some v \<Rightarrow> length (filter (\<lambda>r. rt_user_id r = lu_id v \<and> rt_created_at r \<ge> ae_now env - PASSWORD_RESET_WINDOW)
                    (st_reset_tokens st)) \<ge> MAX_PASSWORD_RESET_ATTEMPTS),
             st\<lparr>st_reset_attempts := cache'\<rparr>)))"

definition record_password_reset_attempt :: "auth_env \<Rightarrow> string \<Rightarrow> auth_state \<Rightarrow> auth_state" where
  "record_password_reset_attempt env email st =
     st\<lparr>st_reset_attempts := foldl (\<lambda>cache key. note_attempt env PASSWORD_RESET_WINDOW key cache) (st_reset_attempts st) (reset_keys env email)\<rparr>"

section \<open>The user of a request\<close>

definition current_user :: "auth_env \<Rightarrow> browser_session \<Rightarrow> auth_state \<Rightarrow> login_user option \<times> browser_session \<times> auth_state" where
  "current_user env b st =
     (case (bs_user_id b, bs_session_id b) of
        (Some uid, Some sid) \<Rightarrow>
          if uid = 0 \<or> sid = [] then (None, b, st)
          else (case find (\<lambda>u. lu_id u = uid \<and> lu_is_active u) (st_users st) of
                  None \<Rightarrow> (None, cleared_session, st)
                | Some u \<Rightarrow> (case active_user_session st (ae_now env) (Some sid) (Some (lu_id u)) of
                    None \<Rightarrow> (None, cleared_session, st)
                  | Some s \<Rightarrow> (case touch_user_session env s b st of (b', st') \<Rightarrow> (Some u, b', st'))))
      | _ \<Rightarrow> (None, b, st))"

text \<open>A handler that depends on \<open>require_user\<close>; the answer to a \<open>PermissionError\<close> is that of \<open>app/main.py\<close>. After an exception
  that nobody handles the browser keeps its session.\<close>

definition permission_handler :: "browser_session \<Rightarrow> auth_response" where
  "permission_handler b = (case bs_user_id b of None \<Rightarrow> Redirect ''/login'' | Some uid \<Rightarrow> if uid = 0 then Redirect ''/login'' else Page 403 ''Forbidden'')"

definition require_user :: "auth_env \<Rightarrow> browser_session \<Rightarrow> auth_state \<Rightarrow> (login_user \<Rightarrow> browser_session \<Rightarrow> auth_state \<Rightarrow> auth_result) \<Rightarrow> auth_result" where
  "require_user env b st handler =
     (case current_user env b st of
        (None, b', st') \<Rightarrow> (permission_handler b', b', st')
      | (Some u, b', st') \<Rightarrow> (case handler u b' st' of (Crash, _, st2) \<Rightarrow> (Crash, b, st2) | result \<Rightarrow> result))"

definition require_admin :: "auth_env \<Rightarrow> browser_session \<Rightarrow> auth_state \<Rightarrow> (login_user \<Rightarrow> browser_session \<Rightarrow> auth_state \<Rightarrow> auth_result) \<Rightarrow> auth_result" where
  "require_admin env b st handler =
     require_user env b st (\<lambda>u b' st'. if lu_role u \<noteq> ''admin'' then (permission_handler b', b', st') else handler u b' st')"

definition require_editor :: "auth_env \<Rightarrow> browser_session \<Rightarrow> auth_state \<Rightarrow> (login_user \<Rightarrow> browser_session \<Rightarrow> auth_state \<Rightarrow> auth_result) \<Rightarrow> auth_result" where
  "require_editor env b st handler =
     require_user env b st (\<lambda>u b' st'. if lu_role u \<noteq> ''admin'' \<and> lu_role u \<noteq> ''editor'' then (permission_handler b', b', st') else handler u b' st')"

section \<open>Pages without a user\<close>

definition has_admin :: "auth_state \<Rightarrow> bool" where
  "has_admin st \<longleftrightarrow> list_ex (\<lambda>u. lu_role u = ''admin'') (st_users st)"

definition login_page :: "auth_env \<Rightarrow> bool \<Rightarrow> browser_session \<Rightarrow> auth_state \<Rightarrow> auth_result" where
  "login_page env logged_out b st =
     (if \<not> has_admin st then (Redirect ''/setup'', b, st)
      else
        (let b' = b\<lparr>bs_pending_2fa := None\<rparr>; policy = get_authentication_policy st in
         if po_mode policy = ''oidc_required'' \<and> \<not> po_oidc_available policy then page env 503 ''oidc_error'' b' st
         else if po_auto_redirect_oidc policy \<and> \<not> logged_out
         then (Redirect ''/auth/oidc/login'', b', write_audit env None ''oidc_automatic_redirect_initiated'' None st)
         else page env 200 ''login'' b' st))"

definition setup_page :: "auth_env \<Rightarrow> browser_session \<Rightarrow> auth_state \<Rightarrow> auth_result" where
  "setup_page env b st = (if has_admin st then (Redirect ''/login'', b, st) else page env 200 ''setup'' b st)"

text \<open>\<open>expected\<close> is the token of the deployment, \<open>busy\<close> says that another request holds the lock of the setup transaction.\<close>

definition setup_submit ::
  "auth_env \<Rightarrow> string \<Rightarrow> bool \<Rightarrow> string \<Rightarrow> string \<Rightarrow> string \<Rightarrow> string \<Rightarrow> string \<Rightarrow> string \<Rightarrow> string \<Rightarrow> browser_session \<Rightarrow> auth_state \<Rightarrow> auth_result" where
  "setup_submit env expected busy first_name last_name email password confirmation setup_token csrf b st =
     (let address = lower1 (strip1 email) in
      if \<not> validate_csrf_token b csrf then bad_form_token b st
      else if expected = [] \<or> setup_token \<noteq> expected then page env 403 ''setup'' b (write_audit env None ''initial_setup_rejected'' None st)
      else if address = [] then page env 400 ''Email is required.'' b st
      else if length password < 12 then page env 400 ''Password must be at least 12 characters.'' b st
      else if password \<noteq> confirmation then page env 400 ''Passwords do not match.'' b st
      else if busy then page env 409 ''setup'' b st
      else if has_admin st then (Redirect ''/login'', b, st)
      else if address \<in> lu_email ` set (st_users st) then (Crash, b, st)
      else
        (let i = next_rowid (map lu_id (st_users st));
             u = \<lparr>lu_id = i, lu_email = address, lu_password_hash = Some (ae_hash_password env password),
                  lu_first_name = (if strip1 first_name = [] then None else Some (strip1 first_name)),
                  lu_last_name = (if strip1 last_name = [] then None else Some (strip1 last_name)), lu_role = ''admin'',
                  lu_is_active = True, lu_totp_secret = None, lu_totp_enabled = False, lu_authentication_type = ''local'',
                  lu_is_break_glass = False, lu_role_source = ''local'', lu_updated_at = ae_now env\<rparr> in
         (Redirect ''/login?setup_complete=1'', b,
          write_audit env (Some i) ''create_initial_admin'' None (st\<lparr>st_users := st_users st @ [u]\<rparr>))))"

section \<open>Password reset\<close>

definition active_user_by_email :: "auth_state \<Rightarrow> string \<Rightarrow> login_user option" where
  "active_user_by_email st email = find (\<lambda>u. lu_email u = email \<and> lu_is_active u) (st_users st)"

definition valid_reset_token :: "auth_env \<Rightarrow> string \<Rightarrow> reset_token \<Rightarrow> bool" where
  "valid_reset_token env token r \<longleftrightarrow> rt_token_hash r = ae_sha256 env token \<and> rt_used_at r = None \<and> rt_expires_at r \<ge> ae_now env"

definition find_valid_reset_token :: "auth_env \<Rightarrow> string \<Rightarrow> auth_state \<Rightarrow> reset_token option" where
  "find_valid_reset_token env token st = (if token = [] then None else find (valid_reset_token env token) (st_reset_tokens st))"

text \<open>\<open>sent\<close>: whether the mail could be handed over. A failure rolls the new token back; a second token with the same digest is refused by the table.\<close>

definition forgot_password_submit :: "auth_env \<Rightarrow> bool \<Rightarrow> string \<Rightarrow> string \<Rightarrow> browser_session \<Rightarrow> auth_state \<Rightarrow> auth_result" where
  "forgot_password_submit env sent email csrf b st =
     (if \<not> validate_csrf_token b csrf then bad_form_token b st
      else
        (let address = lower1 (strip1 email); found = active_user_by_email st address in
         (case password_reset_is_limited env found address st of
            (limited, st1) \<Rightarrow>
              (let st2 = record_password_reset_attempt env address st1;
                   uid = map_option lu_id found;
                   refused = (if limited then write_audit env uid ''password_reset_blocked'' (attempted_email_metadata address) st2 else st2) in
               (case found of
                  None \<Rightarrow> page env 200 ''forgot_password'' b refused
                | Some u \<Rightarrow>
                    if \<not> has_password u \<or> lu_authentication_type u = ''oidc'' \<or> limited then page env 200 ''forgot_password'' b refused
                    else if \<not> sent then page env 200 ''forgot_password'' b (write_audit env uid ''password_reset_email_failed'' None st2)
                    else if ae_sha256 env (ae_token env) \<in> rt_token_hash ` set (st_reset_tokens st2) then (Crash, b, st2)
                    else page env 200 ''forgot_password'' b (write_audit env uid ''password_reset_requested'' None
                      (st2\<lparr>st_reset_tokens :=
                         map (\<lambda>r. if rt_user_id r = lu_id u \<and> rt_used_at r = None then r\<lparr>rt_used_at := Some (ae_now env)\<rparr> else r) (st_reset_tokens st2) @
                         [\<lparr>rt_user_id = lu_id u, rt_token_hash = ae_sha256 env (ae_token env), rt_expires_at = ae_now env + minutes 60,
                           rt_used_at = None, rt_created_at = ae_now env\<rparr>]\<rparr>)))))))"

definition resettable :: "auth_env \<Rightarrow> string \<Rightarrow> auth_state \<Rightarrow> (reset_token \<times> login_user) option" where
  "resettable env token st =
     (case find_valid_reset_token env token st of
        None \<Rightarrow> None
      | Some r \<Rightarrow> (case user_by_id st (rt_user_id r) of
          None \<Rightarrow> None
        | Some u \<Rightarrow> if \<not> has_password u \<or> lu_authentication_type u = ''oidc'' then None else Some (r, u)))"

definition reset_password_page :: "auth_env \<Rightarrow> string \<Rightarrow> browser_session \<Rightarrow> auth_state \<Rightarrow> auth_result" where
  "reset_password_page env token b st = page env (if resettable env token st = None then 400 else 200) ''reset_password'' b st"

definition reset_password_submit ::
  "auth_env \<Rightarrow> string \<Rightarrow> string \<Rightarrow> string \<Rightarrow> string \<Rightarrow> browser_session \<Rightarrow> auth_state \<Rightarrow> auth_result" where
  "reset_password_submit env token password confirmation csrf b st =
     (if \<not> validate_csrf_token b csrf then bad_form_token b st
      else
        (case resettable env token st of
           None \<Rightarrow> page env 400 ''This reset link is invalid or has expired.'' b st
         | Some (r, u) \<Rightarrow>
             if length password < 12 then page env 400 ''Password must be at least 12 characters.'' b st
             else if password \<noteq> confirmation then page env 400 ''Passwords do not match.'' b st
             else
               (let st1 = update_user (ae_now env) (lu_id u) (\<lambda>v. v\<lparr>lu_password_hash := Some (ae_hash_password env password)\<rparr>) st;
                    st2 = revoke_user_sessions (ae_now env) (lu_id u) None st1;
                    st3 = st2\<lparr>st_reset_tokens := map (\<lambda>s. if rt_token_hash s = rt_token_hash r then s\<lparr>rt_used_at := Some (ae_now env)\<rparr> else s) (st_reset_tokens st2)\<rparr> in
                page env 200 ''login'' cleared_session (write_audit env (Some (lu_id u)) ''password_reset_completed'' None st3))))"

section \<open>Login and logout\<close>

text \<open>The end of a successful sign-in; the process forgets the failures of the client.\<close>

definition forget_failures :: "auth_env \<Rightarrow> auth_state \<Rightarrow> auth_state" where
  "forget_failures env st = st\<lparr>st_login_failures := filter (\<lambda>(k, _). k \<noteq> client_key env) (st_login_failures st)\<rparr>"

definition sign_in :: "auth_env \<Rightarrow> login_user \<Rightarrow> browser_session \<Rightarrow> auth_state \<Rightarrow> auth_result" where
  "sign_in env u b st =
     (case start_user_session env u (cleared_session\<lparr>bs_user_id := Some (lu_id u)\<rparr>) st of
        None \<Rightarrow> (Crash, b, st)
      | Some (b', st') \<Rightarrow> (Redirect ''/'', b', write_audit env (Some (lu_id u)) ''login'' None (forget_failures env st')))"

definition second_step :: "auth_env \<Rightarrow> int \<Rightarrow> string \<Rightarrow> browser_session \<Rightarrow> auth_state \<Rightarrow> auth_result" where
  "second_step env uid code b st =
     (let found = find (\<lambda>u. lu_id u = uid \<and> lu_is_active u) (st_users st);
          refused = page env 401 ''Invalid authentication code'' b
            (write_audit env (map_option lu_id found) ''2fa_failed'' None (record_login_failure env st)) in
      (case found of
         None \<Rightarrow> refused
       | Some u \<Rightarrow>
           if \<not> lu_totp_enabled u then refused
           else (case verify_totp env (decrypted_totp_secret env u) code of
                   None \<Rightarrow> (Crash, b, st)
                 | Some ok \<Rightarrow> if ok then sign_in env u b st else refused)))"

text \<open>\<open>dummy\<close> is the hash of \<open>DUMMY_PASSWORD_HASH\<close>: the password of an unknown account is compared with it, so that the answer takes as long.\<close>

definition password_accepted :: "auth_env \<Rightarrow> string \<Rightarrow> string \<Rightarrow> login_user option \<Rightarrow> bool" where
  "password_accepted env dummy password found =
     (let stored = (case found of Some u \<Rightarrow> if lu_authentication_type u \<noteq> ''oidc'' then lu_password_hash u else Some dummy | None \<Rightarrow> Some dummy) in
      verify_password env password stored \<and> (case found of None \<Rightarrow> False | Some u \<Rightarrow> has_password u \<and> lu_authentication_type u \<noteq> ''oidc''))"

definition first_step :: "auth_env \<Rightarrow> string \<Rightarrow> string \<Rightarrow> string \<Rightarrow> browser_session \<Rightarrow> auth_state \<Rightarrow> auth_result" where
  "first_step env dummy address password b st =
     (let found = active_user_by_email st address in
      if \<not> password_accepted env dummy password found
      then page env 401 ''Invalid email or password'' b
        (write_audit env None ''login_failed'' (attempted_email_metadata address) (record_login_failure env st))
      else (case found of
              None \<Rightarrow> (Crash, b, st)
            | Some u \<Rightarrow>
                if lu_totp_enabled u
                then page env 200 ''login'' (cleared_session\<lparr>bs_pending_2fa := Some (lu_id u)\<rparr>) (write_audit env (Some (lu_id u)) ''2fa_challenge'' None st)
                else sign_in env u b st))"

definition login :: "auth_env \<Rightarrow> string \<Rightarrow> string \<Rightarrow> string \<Rightarrow> string \<Rightarrow> string \<Rightarrow> browser_session \<Rightarrow> auth_state \<Rightarrow> auth_result" where
  "login env dummy email password code csrf b st =
     (let address = lower1 (strip1 email) in
      if \<not> validate_csrf_token b csrf then bad_form_token b st
      else if \<not> normal_local_login_allowed st
      then page env 403 ''login'' b (write_audit env None ''local_login_rejected_disabled'' None st)
      else (case login_is_limited env address st of
              (True, st1) \<Rightarrow> page env 429 ''Too many failed sign-in attempts. Try again later.'' b
                (write_audit env None ''login_blocked'' (attempted_email_metadata address) st1)
            | (False, st1) \<Rightarrow>
                (case bs_pending_2fa b of
                   Some uid \<Rightarrow> if uid = 0 then first_step env dummy address password b st1 else second_step env uid code b st1
                 | None \<Rightarrow> first_step env dummy address password b st1)))"

definition sign_out :: "auth_env \<Rightarrow> string \<Rightarrow> browser_session \<Rightarrow> auth_state \<Rightarrow> auth_result" where
  "sign_out env csrf b st =
     (if \<not> validate_csrf_token b csrf then bad_form_token b st
      else (Redirect ''/login'', cleared_session,
        write_audit env (map_option lu_id (opt_user st (bs_user_id b))) ''logout'' None (end_user_session (ae_now env) b st)))"

section \<open>Profile\<close>

definition update_profile_password ::
  "auth_env \<Rightarrow> string \<Rightarrow> string \<Rightarrow> string \<Rightarrow> string \<Rightarrow> browser_session \<Rightarrow> auth_state \<Rightarrow> auth_result" where
  "update_profile_password env current_password new_password confirmation csrf b0 st0 =
     require_user env b0 st0 (\<lambda>u b st.
       if \<not> validate_csrf_token b csrf then bad_form_token b st
       else if \<not> verify_password env current_password (lu_password_hash u) then page env 400 ''Current password is incorrect.'' b st
       else if length new_password < 12 then page env 400 ''New password must be at least 12 characters.'' b st
       else if new_password \<noteq> confirmation then page env 400 ''New passwords do not match.'' b st
       else page env 200 ''Password updated.'' b
         (write_audit env (Some (lu_id u)) ''change_password'' None
           (revoke_user_sessions (ae_now env) (lu_id u) (bs_session_id b)
             (update_user (ae_now env) (lu_id u) (\<lambda>v. v\<lparr>lu_password_hash := Some (ae_hash_password env new_password)\<rparr>) st))))"

text \<open>A new secret is stored encrypted and is not in use until a code proves it; starting switches two-factor sign-in off.\<close>

definition start_profile_2fa :: "auth_env \<Rightarrow> string \<Rightarrow> string \<Rightarrow> browser_session \<Rightarrow> auth_state \<Rightarrow> auth_result" where
  "start_profile_2fa env current_password csrf b0 st0 =
     require_user env b0 st0 (\<lambda>u b st.
       if \<not> validate_csrf_token b csrf then bad_form_token b st
       else if \<not> has_password u \<or> lu_authentication_type u = ''oidc'' then (Redirect ''/profile?identity_error=local_password_required'', b, st)
       else if \<not> verify_password env current_password (lu_password_hash u)
       then (Redirect ''/profile?identity_error=local_password_required'', b, write_audit env (Some (lu_id u)) ''start_2fa_rejected'' None st)
       else (Redirect ''/profile'', b, write_audit env (Some (lu_id u)) ''start_2fa'' None
         (update_user (ae_now env) (lu_id u) (\<lambda>v. v\<lparr>lu_totp_secret := Some (ae_encrypt env (ae_token env)), lu_totp_enabled := False\<rparr>) st)))"

definition enable_profile_2fa :: "auth_env \<Rightarrow> string \<Rightarrow> string \<Rightarrow> browser_session \<Rightarrow> auth_state \<Rightarrow> auth_result" where
  "enable_profile_2fa env code csrf b0 st0 =
     require_user env b0 st0 (\<lambda>u b st.
       if \<not> validate_csrf_token b csrf then bad_form_token b st
       else if \<not> has_password u \<or> lu_authentication_type u = ''oidc'' then (Redirect ''/profile?identity_error=local_password_required'', b, st)
       else (let secret = decrypted_totp_secret env u; refused = page env 400 ''Invalid authentication code.'' b st in
             if secret = [] then refused
             else (case verify_totp env secret code of
                     None \<Rightarrow> (Crash, b, st)
                   | Some ok \<Rightarrow>
                       if \<not> ok then refused
                       else (Redirect ''/profile'', b, write_audit env (Some (lu_id u)) ''enable_2fa'' None
                         (revoke_user_sessions (ae_now env) (lu_id u) (bs_session_id b)
                           (update_user (ae_now env) (lu_id u) (\<lambda>v. v\<lparr>lu_totp_enabled := True\<rparr>) st))))))"

definition disable_profile_2fa :: "auth_env \<Rightarrow> string \<Rightarrow> string \<Rightarrow> browser_session \<Rightarrow> auth_state \<Rightarrow> auth_result" where
  "disable_profile_2fa env current_password csrf b0 st0 =
     require_user env b0 st0 (\<lambda>u b st.
       if \<not> validate_csrf_token b csrf then bad_form_token b st
       else if \<not> verify_password env current_password (lu_password_hash u) then page env 400 ''Current password is required to disable 2FA.'' b st
       else (Redirect ''/profile'', b, write_audit env (Some (lu_id u)) ''disable_2fa'' None
         (revoke_user_sessions (ae_now env) (lu_id u) (bs_session_id b)
           (update_user (ae_now env) (lu_id u) (\<lambda>v. v\<lparr>lu_totp_secret := None, lu_totp_enabled := False\<rparr>) st))))"

end
