(* ===== verification/Auth_OIDC.thy ===== *)
theory Auth_OIDC
  imports Auth_Login
begin

text \<open>
  Single sign-on: claims and roles (\<open>app/services/oidc_role_mapping.py\<close>), external identities and invitations to link one
  (\<open>app/services/oidc_identity.py\<close>). An error after a change
  returns the changed rows, which the next commit of the request writes.
\<close>

section \<open>Claims and roles\<close>

definition oidc_role_rank :: "string \<Rightarrow> int option" where
  "oidc_role_rank r = map_of [(''viewer'', 1), (''editor'', 2), (''admin'', 3)] r"

fun claim_path :: "json \<Rightarrow> string list \<Rightarrow> json" where
  "claim_path v [] = v"
| "claim_path v (part # parts) =
     (case v of JObj kvs \<Rightarrow> if part = [] then JNull else claim_path (obj_get kvs part) parts | _ \<Rightarrow> JNull)"

definition claim_value :: "(string \<times> json) list \<Rightarrow> string \<Rightarrow> json" where
  "claim_value claims path = claim_path (JObj claims) (split_on (CHR ''.'') path)"

definition claim_text :: "(string \<times> json) list \<Rightarrow> string \<Rightarrow> string option" where
  "claim_text claims path =
     (let clean = (\<lambda>v. let t = take 1000 (strip1 (py_str v)) in if t = [] then None else Some t) in
      (case claim_value claims path of JStr s \<Rightarrow> clean (JStr s) | JInt n \<Rightarrow> clean (JInt n) | JBool b \<Rightarrow> clean (JBool b) | _ \<Rightarrow> None))"

definition claim_bool :: "(string \<times> json) list \<Rightarrow> string \<Rightarrow> bool" where
  "claim_bool claims path =
     (case claim_value claims path of
        JBool b \<Rightarrow> b
      | v \<Rightarrow> lower1 (strip1 (py_str (json_or v (JStr [])))) \<in> set [''1'', ''true'', ''yes''])"

definition group_name :: "json \<Rightarrow> string option" where
  "group_name v =
     (let clean = (\<lambda>s. if strip1 s = [] then None else Some (take 255 (strip1 s))) in
      (case v of JStr s \<Rightarrow> clean s | JInt n \<Rightarrow> clean (str_int n) | JBool b \<Rightarrow> clean (py_str (JBool b)) | _ \<Rightarrow> None))"

definition claim_groups :: "(string \<times> json) list \<Rightarrow> string \<Rightarrow> string list" where
  "claim_groups claims path =
     (case claim_value claims path of
        JStr s \<Rightarrow> (if strip1 s = [] then [] else [take 255 (strip1 s)])
      | JList vs \<Rightarrow> List.map_filter group_name (take 100 vs)
      | _ \<Rightarrow> [])"

definition normalise_email :: "auth_env \<Rightarrow> string option \<Rightarrow> string option" where
  "normalise_email env v = map_option lower1 (ae_normal_email env (opt_text_or v []))"

definition is_line_break :: "char \<Rightarrow> bool" where
  "is_line_break c \<longleftrightarrow> of_char c \<in> {10, 11, 12, 13, 28, 29, 30, 133 :: nat}"

fun split_lines :: "string \<Rightarrow> string \<Rightarrow> string list" where
  "split_lines w [] = [w]"
| "split_lines w (c # cs) = (if c = CHR '','' \<or> is_line_break c then w # split_lines [] cs else split_lines (w @ [c]) cs)"

definition allowed_domains :: "oidc_provider \<Rightarrow> string list" where
  "allowed_domains p =
     map (\<lambda>item. dropWhile (\<lambda>c. c = CHR ''@'') (lower1 (strip1 item)))
       (filter (\<lambda>item. strip1 item \<noteq> []) (split_lines [] (opt_text_or (op_allowed_email_domains p) [])))"

definition email_is_allowed :: "oidc_provider \<Rightarrow> string \<Rightarrow> bool" where
  "email_is_allowed p email \<longleftrightarrow> allowed_domains p = [] \<or> lower1 (List.last (split_on (CHR ''@'') email)) \<in> set (allowed_domains p)"

text \<open>The stored mappings are a list of objects; other documents have no effect.\<close>

definition role_mappings :: "oidc_provider \<Rightarrow> (string \<times> string) list" where
  "role_mappings p =
     (case op_role_mappings p of
        Some (JList rows) \<Rightarrow>
          List.map_filter (\<lambda>row. case row of
              JObj kvs \<Rightarrow>
                (case obj_get kvs ''role'' of
                   JStr r \<Rightarrow> (let group = strip1 (py_str (json_or (obj_get kvs ''group'') (JStr []))) in
                              if oidc_role_rank r = None \<or> group = [] then None else Some (group, r))
                 | _ \<Rightarrow> None)
            | _ \<Rightarrow> None) rows
      | _ \<Rightarrow> [])"

text \<open>\<open>max(candidates, key=ROLE_RANK.get)\<close>: the first candidate of the highest rank.\<close>

definition rank_of :: "string \<Rightarrow> int" where
  "rank_of r = (case oidc_role_rank r of None \<Rightarrow> 0 | Some n \<Rightarrow> n)"

definition mapped_role :: "oidc_provider \<Rightarrow> string list \<Rightarrow> string option" where
  "mapped_role p groups =
     (let fold = (if op_case_sensitive p then id else casefold);
          candidates = map snd (filter (\<lambda>(group, r). fold group \<in> fold ` set groups) (role_mappings p)) in
      min_by (\<lambda>r. - rank_of r) candidates)"

definition initial_role :: "oidc_provider \<Rightarrow> string list \<Rightarrow> string" where
  "initial_role p groups =
     (case mapped_role p groups of Some r \<Rightarrow> r | None \<Rightarrow> if oidc_role_rank (op_default_role p) = None then ''viewer'' else op_default_role p)"

section \<open>Identities\<close>

type_synonym category = string

definition normalised_identity_claims :: "auth_env \<Rightarrow> oidc_provider \<Rightarrow> (string \<times> json) list \<Rightarrow> category + identity_claims" where
  "normalised_identity_claims env p claims =
     (let issuer = strip1 (py_str (json_or (obj_get claims ''iss'') (JStr [])));
          subject = strip1 (py_str (json_or (obj_get claims ''sub'') (JStr [])));
          email = opt_text_or (normalise_email env (claim_text claims (op_email_claim p))) [];
          verified = claim_bool claims (op_email_verified_claim p) in
      if issuer = [] \<or> subject = [] then Inl ''missing_security_identity''
      else if email = [] then Inl ''missing_or_invalid_email''
      else if op_require_verified_email p \<and> \<not> verified then Inl ''unverified_email''
      else if \<not> email_is_allowed p email then Inl ''disallowed_email_domain''
      else Inr \<lparr>ic_iss = issuer, ic_sub = subject, ic_email = email, ic_email_verified = verified,
        ic_name = claim_text claims (op_name_claim p), ic_first_name = claim_text claims (op_first_name_claim p),
        ic_last_name = claim_text claims (op_last_name_claim p), ic_preferred_username = claim_text claims (op_preferred_username_claim p),
        ic_groups = claim_groups claims (op_group_claim p)\<rparr>)"

definition identity_of :: "auth_state \<Rightarrow> int \<Rightarrow> string \<Rightarrow> string \<Rightarrow> external_identity option" where
  "identity_of st pid iss sub = find (\<lambda>i. ei_provider_id i = pid \<and> ei_issuer i = iss \<and> ei_subject i = sub) (st_identities st)"

definition identity_of_user :: "auth_state \<Rightarrow> int \<Rightarrow> int \<Rightarrow> external_identity option" where
  "identity_of_user st pid uid = find (\<lambda>i. ei_provider_id i = pid \<and> ei_user_id i = uid) (st_identities st)"

definition new_identity_row ::
  "auth_env \<Rightarrow> oidc_provider \<Rightarrow> int \<Rightarrow> identity_claims \<Rightarrow> string \<Rightarrow> int option \<Rightarrow> auth_state \<Rightarrow> external_identity" where
  "new_identity_row env p uid v link_type linked_by st =
     \<lparr>ei_id = next_rowid (map ei_id (st_identities st)), ei_user_id = uid, ei_provider_id = op_id p, ei_issuer = ic_iss v, ei_subject = ic_sub v,
      ei_email_at_link_time = Some (ic_email v), ei_current_email = Some (ic_email v), ei_preferred_username = ic_preferred_username v,
      ei_role_management = (if op_sync_roles_on_login p then ''oidc'' else ''local''), ei_linked_by_user_id = linked_by,
      ei_link_method = link_type, ei_last_login_at = Some (ae_now env)\<rparr>"

definition create_identity ::
  "auth_env \<Rightarrow> oidc_provider \<Rightarrow> login_user \<Rightarrow> identity_claims \<Rightarrow> string \<Rightarrow> int option \<Rightarrow> auth_state \<Rightarrow> category + external_identity \<times> auth_state" where
  "create_identity env p u v link_type linked_by st =
     (if (case identity_of st (op_id p) (ic_iss v) (ic_sub v) of None \<Rightarrow> False | Some i \<Rightarrow> ei_user_id i \<noteq> lu_id u) then Inl ''identity_conflict''
      else (case identity_of_user st (op_id p) (lu_id u) of
              Some i \<Rightarrow> if ei_issuer i \<noteq> ic_iss v \<or> ei_subject i \<noteq> ic_sub v then Inl ''user_identity_conflict'' else Inr (i, st)
            | None \<Rightarrow>
                (let row = new_identity_row env p (lu_id u) v link_type linked_by st in
                 Inr (row, update_user (ae_now env) (lu_id u)
                   (\<lambda>w. w\<lparr>lu_authentication_type := (if has_password w then ''local_and_oidc'' else ''oidc'')\<rparr>)
                   (st\<lparr>st_identities := st_identities st @ [row]\<rparr>)))))"

definition update_external_identity :: "int \<Rightarrow> (external_identity \<Rightarrow> external_identity) \<Rightarrow> auth_state \<Rightarrow> auth_state" where
  "update_external_identity i f st = st\<lparr>st_identities := map (\<lambda>e. if ei_id e = i then f e else e) (st_identities st)\<rparr>"

definition active_admins :: "auth_state \<Rightarrow> login_user list" where
  "active_admins st = filter (\<lambda>u. lu_role u = ''admin'' \<and> lu_is_active u) (st_users st)"

definition profile_names :: "oidc_provider \<Rightarrow> identity_claims \<Rightarrow> login_user \<Rightarrow> login_user" where
  "profile_names p v u =
     (if \<not> op_update_names_on_login p then u
      else u\<lparr>lu_first_name := (if opt_text_or (ic_first_name v) [] = [] then lu_first_name u else Some (take 120 (opt_text_or (ic_first_name v) []))),
             lu_last_name := (if opt_text_or (ic_last_name v) [] = [] then lu_last_name u else Some (take 120 (opt_text_or (ic_last_name v) [])))\<rparr>)"

text \<open>
  The changes to the row of the user are collected in the session: an error leaves those made so far, and the row is written once, at
  the next commit. The count of administrators is a query, which sees the rows as they were.
\<close>

definition profile_email :: "oidc_provider \<Rightarrow> identity_claims \<Rightarrow> auth_state \<Rightarrow> login_user \<Rightarrow> category option \<times> login_user" where
  "profile_email p v st u =
     (if op_update_email_on_login p \<and> ic_email v \<noteq> lu_email u
      then (if list_ex (\<lambda>w. lu_email w = ic_email v \<and> lu_id w \<noteq> lu_id u) (st_users st) then (Some ''email_conflict'', u)
            else (None, u\<lparr>lu_email := ic_email v\<rparr>))
      else (None, u))"

definition profile_role ::
  "oidc_provider \<Rightarrow> external_identity \<Rightarrow> identity_claims \<Rightarrow> auth_state \<Rightarrow> login_user \<Rightarrow> category option \<times> login_user" where
  "profile_role p i v st u =
     (if op_sync_roles_on_login p \<and> ei_role_management i = ''oidc''
      then (case mapped_role p (ic_groups v) of
              None \<Rightarrow> (None, u)
            | Some r \<Rightarrow>
                if r = [] \<or> r = lu_role u then (None, u)
                else if lu_role u = ''admin'' \<and> r \<noteq> ''admin'' \<and> length (active_admins st) \<le> 1 then (Some ''last_administrator_protection'', u)
                else (None, u\<lparr>lu_role := r, lu_role_source := ''oidc''\<rparr>))
      else (None, u))"

definition apply_profile ::
  "auth_env \<Rightarrow> oidc_provider \<Rightarrow> login_user \<Rightarrow> external_identity \<Rightarrow> identity_claims \<Rightarrow> auth_state \<Rightarrow> category option \<times> auth_state" where
  "apply_profile env p u i v st =
     (let (fault, u') = (case profile_email p v st (profile_names p v u) of
            (Some c, w) \<Rightarrow> (Some c, w)
          | (None, w) \<Rightarrow> profile_role p i v st w) in
      (fault, update_user (ae_now env) (lu_id u) (\<lambda>_. u')
        (update_external_identity (ei_id i) (\<lambda>e. e\<lparr>ei_current_email := Some (ic_email v), ei_preferred_username := ic_preferred_username v,
           ei_last_login_at := Some (ae_now env)\<rparr>) st)))"

section \<open>Invitations\<close>

definition bool_digit :: "bool \<Rightarrow> string" where
  "bool_digit b = (if b then ''1'' else ''0'')"

text \<open>The text of an instant is an injective function of it; its decimal value stands for \<open>isoformat\<close>.\<close>

definition invitation_recipient_binding :: "auth_env \<Rightarrow> login_user \<Rightarrow> string" where
  "invitation_recipient_binding env u =
     ae_sha256 env (join ''|'' [str_int (lu_id u), (case normalise_email env (Some (lu_email u)) of None \<Rightarrow> ''None'' | Some e \<Rightarrow> e),
       lu_role u, bool_digit (lu_is_active u), str_int (lu_updated_at u)])"

definition invitation_provider_binding :: "auth_env \<Rightarrow> oidc_provider \<Rightarrow> string" where
  "invitation_provider_binding env p =
     ae_sha256 env (join ''|'' [str_int (op_id p), strip1 (op_issuer p), strip1 (op_client_id p), op_email_claim p, op_email_verified_claim p,
       bool_digit (op_is_enabled p), str_int (op_updated_at p)])"

definition invitation_by_id :: "auth_state \<Rightarrow> int \<Rightarrow> link_invitation option" where
  "invitation_by_id st i = find (\<lambda>x. li_id x = i) (st_invitations st)"

definition validate_admin_link_invitation ::
  "auth_env \<Rightarrow> auth_state \<Rightarrow> oidc_transaction \<Rightarrow> login_user \<Rightarrow> identity_claims \<Rightarrow> category + link_invitation" where
  "validate_admin_link_invitation env st t u v =
     (case (Option.bind (ot_link_invitation_id t) (invitation_by_id st), provider_by_id st (ot_provider_id t)) of
        (Some x, Some p) \<Rightarrow>
          if li_user_id x \<noteq> lu_id u \<or> li_provider_id x \<noteq> ot_provider_id t \<or> li_used_at x = None \<or> li_completed_at x \<noteq> None \<or>
             li_revoked_at x \<noteq> None \<or> li_expires_at x < ae_now env \<or> li_recipient_binding_hash x \<noteq> invitation_recipient_binding env u \<or>
             li_provider_binding_hash x \<noteq> invitation_provider_binding env p
          then Inl ''invalid_link_invitation''
          else if \<not> ic_email_verified v \<or> normalise_email env (Some (ic_email v)) \<noteq> normalise_email env (Some (lu_email u))
          then Inl ''invitation_identity_mismatch''
          else Inr x
      | _ \<Rightarrow> Inl ''invalid_link_invitation'')"

definition update_invitations :: "(link_invitation \<Rightarrow> bool) \<Rightarrow> (link_invitation \<Rightarrow> link_invitation) \<Rightarrow> auth_state \<Rightarrow> bool \<times> auth_state" where
  "update_invitations cond f st =
     (if length (filter cond (st_invitations st)) = 1
      then (True, st\<lparr>st_invitations := map (\<lambda>x. if cond x then f x else x) (st_invitations st)\<rparr>) else (False, st))"

definition claim_admin_link_invitation :: "auth_env \<Rightarrow> link_invitation \<Rightarrow> login_user \<Rightarrow> auth_state \<Rightarrow> bool \<times> auth_state" where
  "claim_admin_link_invitation env invite u st =
     (case provider_by_id st (li_provider_id invite) of
        None \<Rightarrow> (False, st)
      | Some p \<Rightarrow>
          if opt_text_or (li_redemption_session_hash invite) [] = [] then (False, st)
          else update_invitations (\<lambda>x. li_id x = li_id invite \<and> li_user_id x = lu_id u \<and> li_recipient_binding_hash x = invitation_recipient_binding env u \<and>
              li_provider_binding_hash x = invitation_provider_binding env p \<and> li_redemption_session_hash x = li_redemption_session_hash invite \<and>
              li_used_at x = None \<and> li_revoked_at x = None \<and> li_expires_at x \<ge> ae_now env)
            (\<lambda>x. x\<lparr>li_used_at := Some (ae_now env), li_redemption_session_hash := None\<rparr>) st)"

definition revoke_admin_link_invitation :: "auth_env \<Rightarrow> int \<Rightarrow> auth_state \<Rightarrow> bool \<times> auth_state" where
  "revoke_admin_link_invitation env i st =
     update_invitations (\<lambda>x. li_id x = i \<and> li_completed_at x = None \<and> li_revoked_at x = None \<and> li_expires_at x \<ge> ae_now env)
       (\<lambda>x. x\<lparr>li_revoked_at := Some (ae_now env), li_redemption_session_hash := None\<rparr>) st"

section \<open>Resolving a sign-in\<close>

definition update_transaction :: "string \<Rightarrow> (oidc_transaction \<Rightarrow> oidc_transaction) \<Rightarrow> auth_state \<Rightarrow> auth_state" where
  "update_transaction h f st = st\<lparr>st_transactions := map (\<lambda>t. if ot_hash t = h then f t else t) (st_transactions st)\<rparr>"

datatype login_resolution = Resolved int bool | Confirmation | Rejected category

text \<open>A resolved user with the flag of a new account. The rows are those of the session when the function returns or raises.\<close>

definition link_target :: "auth_env \<Rightarrow> auth_state \<Rightarrow> oidc_transaction \<Rightarrow> identity_claims \<Rightarrow> category option" where
  "link_target env st t v =
     (case opt_user st (ot_target_user_id t) of
        None \<Rightarrow> Some ''invalid_link_target''
      | Some u \<Rightarrow>
          if \<not> lu_is_active u then Some ''invalid_link_target''
          else if ot_flow_type t = ''admin_link''
          then (case validate_admin_link_invitation env st t u v of Inl c \<Rightarrow> Some c | Inr _ \<Rightarrow> None)
          else None)"

definition known_identity ::
  "auth_env \<Rightarrow> oidc_provider \<Rightarrow> external_identity \<Rightarrow> identity_claims \<Rightarrow> auth_state \<Rightarrow> login_resolution \<times> auth_state" where
  "known_identity env p i v st =
     (case user_by_id st (ei_user_id i) of
        None \<Rightarrow> (Rejected ''inactive_user'', st)
      | Some u \<Rightarrow>
          if \<not> lu_is_active u then (Rejected ''inactive_user'', st)
          else (case apply_profile env p u i v st of
                  (Some c, st') \<Rightarrow> (Rejected c, st')
                | (None, st') \<Rightarrow> (Resolved (lu_id u) False, st')))"

definition provisioned_user :: "auth_env \<Rightarrow> oidc_provider \<Rightarrow> identity_claims \<Rightarrow> auth_state \<Rightarrow> login_user" where
  "provisioned_user env p v st =
     (let short = (\<lambda>s. let t = take 120 (opt_text_or s []) in if t = [] then None else Some t) in
      \<lparr>lu_id = next_rowid (map lu_id (st_users st)), lu_email = ic_email v, lu_password_hash = None, lu_first_name = short (ic_first_name v),
       lu_last_name = short (ic_last_name v), lu_role = initial_role p (ic_groups v), lu_is_active = True, lu_totp_secret = None,
       lu_totp_enabled = False, lu_authentication_type = ''oidc'', lu_is_break_glass = False, lu_role_source = ''oidc'', lu_updated_at = ae_now env\<rparr>)"

definition unknown_identity ::
  "auth_env \<Rightarrow> oidc_provider \<Rightarrow> oidc_transaction \<Rightarrow> identity_claims \<Rightarrow> auth_state \<Rightarrow> login_resolution \<times> auth_state" where
  "unknown_identity env p t v st =
     (let matching = filter (\<lambda>u. lu_email u = ic_email v \<and> lu_is_active u) (st_users st) in
      if op_email_matching_mode p = ''automatic'' \<and> length matching = 1
      then (case create_identity env p (hd matching) v ''verified_email_match'' None st of
              Inl c \<Rightarrow> (Rejected c, st)
            | Inr (i, st1) \<Rightarrow>
                (case user_by_id st1 (lu_id (hd matching)) of
                   None \<Rightarrow> (Rejected ''inactive_user'', st1)
                 | Some u \<Rightarrow> (case apply_profile env p u i v st1 of
                     (Some c, st2) \<Rightarrow> (Rejected c, st2)
                   | (None, st2) \<Rightarrow> (Resolved (lu_id u) False, st2))))
      else if op_email_matching_mode p = ''confirmation'' \<and> length matching = 1
      then (Confirmation, update_transaction (ot_hash t)
              (\<lambda>x. x\<lparr>ot_target_user_id := Some (lu_id (hd matching)), ot_flow_type := ''email_match'', ot_validated_claims := Some v\<rparr>) st)
      else if matching \<noteq> [] then (Rejected ''existing_email_requires_link'', st)
      else if \<not> op_allow_jit_provisioning p then (Rejected ''provisioning_disabled'', st)
      else if list_ex (\<lambda>u. lu_email u = ic_email v) (st_users st) then (Rejected ''provisioning_conflict'', st)
      else
        (let u = provisioned_user env p v st in
         (case create_identity env p u v ''jit_provisioning'' None (st\<lparr>st_users := st_users st @ [u]\<rparr>) of
            Inl c \<Rightarrow> (Rejected c, st\<lparr>st_users := st_users st @ [u]\<rparr>)
          | Inr (i, st1) \<Rightarrow> (Resolved (lu_id u) True, st1))))"

definition resolve_login ::
  "auth_env \<Rightarrow> oidc_provider \<Rightarrow> oidc_transaction \<Rightarrow> (string \<times> json) list \<Rightarrow> auth_state \<Rightarrow> login_resolution \<times> auth_state" where
  "resolve_login env p t claims st =
     (case normalised_identity_claims env p claims of
        Inl c \<Rightarrow> (Rejected c, st)
      | Inr v \<Rightarrow>
          (case if ot_flow_type t = ''admin_link'' then link_target env st t v else None of
             Some c \<Rightarrow> (Rejected c, st)
           | None \<Rightarrow>
               (case identity_of st (op_id p) (ic_iss v) (ic_sub v) of
                  Some i \<Rightarrow> if ot_flow_type t = ''admin_link'' then (Rejected ''identity_conflict'', st) else known_identity env p i v st
                | None \<Rightarrow>
                    if ot_flow_type t = ''self_link'' \<or> ot_flow_type t = ''admin_link''
                    then (case link_target env st t v of
                            Some c \<Rightarrow> (Rejected c, st)
                          | None \<Rightarrow> (Confirmation, update_transaction (ot_hash t) (\<lambda>x. x\<lparr>ot_validated_claims := Some v\<rparr>) st))
                    else unknown_identity env p t v st)))"

text \<open>An invitation is marked as completed before the identity is created; an error then leaves the mark in the session.\<close>

definition completing_invitation :: "auth_env \<Rightarrow> oidc_provider \<Rightarrow> login_user \<Rightarrow> link_invitation \<Rightarrow> link_invitation \<Rightarrow> bool" where
  "completing_invitation env p u invite x \<longleftrightarrow> li_id x = li_id invite \<and> li_user_id x = lu_id u \<and> li_provider_id x = op_id p \<and>
     li_recipient_binding_hash x = invitation_recipient_binding env u \<and> li_provider_binding_hash x = invitation_provider_binding env p \<and>
     li_used_at x \<noteq> None \<and> li_completed_at x = None \<and> li_revoked_at x = None \<and> li_expires_at x \<ge> ae_now env"

definition finish_link ::
  "auth_env \<Rightarrow> oidc_provider \<Rightarrow> login_user \<Rightarrow> identity_claims \<Rightarrow> string \<Rightarrow> int option \<Rightarrow> auth_state \<Rightarrow> (category + external_identity) \<times> auth_state" where
  "finish_link env p u v link_type linked_by st =
     (case create_identity env p u v link_type linked_by st of Inl c \<Rightarrow> (Inl c, st) | Inr (i, st') \<Rightarrow> (Inr i, st'))"

definition confirm_transaction_link ::
  "auth_env \<Rightarrow> oidc_transaction \<Rightarrow> login_user option \<Rightarrow> bool \<Rightarrow> auth_state \<Rightarrow> (category + external_identity) \<times> auth_state" where
  "confirm_transaction_link env t current password_verified st =
     (case ot_validated_claims t of
        None \<Rightarrow> (Inl ''invalid_link_transaction'', st)
      | Some v \<Rightarrow>
          if ot_flow_type t \<notin> set [''self_link'', ''admin_link'', ''email_match''] then (Inl ''invalid_link_transaction'', st)
          else (case (opt_user st (ot_target_user_id t), provider_by_id st (ot_provider_id t)) of
                  (Some u, Some p) \<Rightarrow>
                    if ot_flow_type t \<noteq> ''email_match'' \<and> map_option lu_id current \<noteq> Some (lu_id u) then (Inl ''invalid_link_owner'', st)
                    else if ot_flow_type t = ''email_match'' \<and> \<not> password_verified then (Inl ''local_proof_required'', st)
                    else if ot_flow_type t = ''admin_link''
                    then (case validate_admin_link_invitation env st t u v of
                            Inl c \<Rightarrow> (Inl c, st)
                          | Inr invite \<Rightarrow>
                              (case update_invitations (completing_invitation env p u invite) (\<lambda>x. x\<lparr>li_completed_at := Some (ae_now env)\<rparr>) st of
                                 (False, _) \<Rightarrow> (Inl ''invalid_link_invitation'', st)
                               | (True, st1) \<Rightarrow> finish_link env p u v ''admin_invitation'' (Some (li_created_by_user_id invite)) st1))
                    else finish_link env p u v (if ot_flow_type t = ''self_link'' then ''self_service'' else ''verified_email_match'')
                           (ot_initiated_by_user_id t) st
                | _ \<Rightarrow> (Inl ''invalid_link_target'', st)))"

definition unlink_identity :: "auth_env \<Rightarrow> external_identity \<Rightarrow> auth_state \<Rightarrow> category + auth_state" where
  "unlink_identity env i st =
     (case user_by_id st (ei_user_id i) of
        None \<Rightarrow> Inl ''missing_user''
      | Some u \<Rightarrow>
          if \<not> has_password u then Inl ''no_remaining_login_method''
          else Inr (update_user (ae_now env) (lu_id u) (\<lambda>w. w\<lparr>lu_authentication_type := ''local'', lu_role_source := ''local''\<rparr>)
            (st\<lparr>st_identities := filter (\<lambda>e. ei_id e \<noteq> ei_id i) (st_identities st)\<rparr>)))"

end
