(* ===== verification/Auth_Handlers.thy ===== *)
theory Auth_Handlers
  imports Auth_OIDC
begin

text \<open>
  The handlers of single sign-on (\<open>app/routers/oidc.py\<close>) with the transactions of \<open>app/services/oidc_client.py\<close>: starting a sign-in, the callback, confirming a link,
  emergency local sign-in, invitations and unlinking. What the provider answers, the exchange of the code and the validation of the token
  included, is an argument. The administration of the provider is left out.
\<close>

section \<open>Transactions\<close>

definition TRANSACTION_TTL :: time where
  "TRANSACTION_TTL = minutes 10"

definition rate_limited :: "auth_env \<Rightarrow> string \<Rightarrow> nat \<Rightarrow> auth_state \<Rightarrow> bool \<times> auth_state" where
  "rate_limited env key limit st =
     (let recent = filter (\<lambda>t. ae_now env - t < minutes 10) (stored_attempts (st_action_attempts st) key) in
      if length recent \<ge> limit then (True, st\<lparr>st_action_attempts := dict_put key recent (st_action_attempts st)\<rparr>)
      else (False, st\<lparr>st_action_attempts := dict_put key (recent @ [ae_now env]) (st_action_attempts st)\<rparr>))"

definition safe_return_path :: "string \<Rightarrow> string \<Rightarrow> string" where
  "safe_return_path value fallback =
     (let clean = strip1 value in
      if \<not> startswith ''/'' clean \<or> startswith ''//'' clean \<or> contains ''://'' clean \<or> CHR 0x5C \<in> set clean then fallback else take 500 clean)"

text \<open>Expired transactions are deleted; the digests of browser token and state are unique.\<close>

definition create_transaction ::
  "auth_env \<Rightarrow> oidc_provider \<Rightarrow> string \<Rightarrow> int option \<Rightarrow> int option \<Rightarrow> int option \<Rightarrow> string \<Rightarrow> auth_state \<Rightarrow> auth_state option" where
  "create_transaction env p flow target initiated invitation return_path st =
     (let kept = filter (\<lambda>t. \<not> ot_expires_at t < ae_now env) (st_transactions st);
          t = \<lparr>ot_hash = ae_sha256 env (ae_token env), ot_state_hash = ae_sha256 env (ae_state_token env), ot_provider_id = op_id p, ot_flow_type = flow,
               ot_target_user_id = target, ot_initiated_by_user_id = initiated, ot_link_invitation_id = invitation,
               ot_return_path = safe_return_path return_path ''/dashboard'', ot_validated_claims = None, ot_created_at = ae_now env,
               ot_expires_at = ae_now env + TRANSACTION_TTL, ot_used_at = None\<rparr> in
      if ot_hash t \<in> ot_hash ` set kept \<or> ot_state_hash t \<in> ot_state_hash ` set kept then None
      else Some (st\<lparr>st_transactions := kept @ [t]\<rparr>))"

definition usable_transaction :: "auth_env \<Rightarrow> string \<Rightarrow> string \<Rightarrow> oidc_transaction \<Rightarrow> bool" where
  "usable_transaction env opaque state t \<longleftrightarrow>
     ot_hash t = ae_sha256 env opaque \<and> ot_state_hash t = ae_sha256 env state \<and> ot_used_at t = None \<and> ot_expires_at t > ae_now env"

definition consume_transaction :: "auth_env \<Rightarrow> string option \<Rightarrow> string \<Rightarrow> auth_state \<Rightarrow> (oidc_transaction \<times> auth_state) option" where
  "consume_transaction env opaque state st =
     (let key = opt_text_or opaque [] in
      if key = [] \<or> state = [] \<or> length (filter (usable_transaction env key state) (st_transactions st)) \<noteq> 1 then None
      else (let st' = st\<lparr>st_transactions := map (\<lambda>t. if usable_transaction env key state t then t\<lparr>ot_used_at := Some (ae_now env)\<rparr> else t) (st_transactions st)\<rparr> in
            map_option (\<lambda>t. (t, st')) (find (\<lambda>t. ot_hash t = ae_sha256 env key) (st_transactions st'))))"

definition delete_transaction :: "oidc_transaction \<Rightarrow> auth_state \<Rightarrow> auth_state" where
  "delete_transaction t st = st\<lparr>st_transactions := filter (\<lambda>x. ot_hash x \<noteq> ot_hash t) (st_transactions st)\<rparr>"

section \<open>Starting\<close>

definition start_session_as ::
  "auth_env \<Rightarrow> login_user \<Rightarrow> string \<Rightarrow> string option \<Rightarrow> browser_session \<Rightarrow> auth_state \<Rightarrow> (browser_session \<times> auth_state) option" where
  "start_session_as env u way id_token b st =
     (case start_user_session env u (cleared_session\<lparr>bs_user_id := Some (lu_id u), bs_method := Some way\<rparr>) st of
        None \<Rightarrow> None
      | Some (b', st') \<Rightarrow>
          (let hint = opt_text_or id_token [] in
           Some (b', if hint = [] then st'
                     else update_login_session (ae_session_token env) (\<lambda>s. s\<lparr>ss_oidc_id_token := Some (ae_encrypt env hint)\<rparr>) st')))"

text \<open>The provider is not reached at all, or only after the transaction was stored.\<close>

datatype provider_reach = Reached | Unreachable | Unreachable_later

definition begin_oidc ::
  "auth_env \<Rightarrow> provider_reach \<Rightarrow> oidc_provider \<Rightarrow> string \<Rightarrow> int option \<Rightarrow> int option \<Rightarrow> int option \<Rightarrow> string \<Rightarrow> browser_session \<Rightarrow> auth_state \<Rightarrow> auth_result" where
  "begin_oidc env reach p flow target initiated invitation return_path b st =
     (let actor = map_option lu_id (opt_user st initiated) in
      (case rate_limited env (''oidc:'' @ client_key env) 10 st of
         (True, st1) \<Rightarrow> page env 429 ''Too many sign-in attempts. Try again later.'' b (write_audit env actor ''oidc_login_rejected'' None st1)
       | (False, st1) \<Rightarrow>
           (let st2 = write_audit env actor (if flow = ''self_link'' \<or> flow = ''admin_link'' then ''oidc_link_started'' else ''oidc_login_started'') None st1;
                failed = (\<lambda>s. page env 503 ''Single sign-on is currently unavailable.'' b (write_audit env actor ''oidc_login_failed'' None s)) in
            if reach = Unreachable then failed st2
            else (case create_transaction env p flow target initiated invitation return_path st2 of
                    None \<Rightarrow> (Crash, b, st2)
                  | Some st3 \<Rightarrow>
                      if reach = Unreachable_later then failed st3
                      else (Redirect ''provider'', b\<lparr>bs_transaction := Some (ae_token env)\<rparr>, st3)))))"

definition oidc_login :: "auth_env \<Rightarrow> provider_reach \<Rightarrow> string \<Rightarrow> browser_session \<Rightarrow> auth_state \<Rightarrow> auth_result" where
  "oidc_login env reach return_to b st =
     (let policy = get_authentication_policy st in
      (case po_provider policy of
         Some p \<Rightarrow>
           if show_oidc_login policy
           then begin_oidc env reach p ''login'' None None None (safe_return_path return_to (st_settings st ''oidc_post_login_path'')) b st
           else page env 404 ''Single sign-on is not enabled.'' b st
       | None \<Rightarrow> page env 404 ''Single sign-on is not enabled.'' b st))"

definition profile_identity_link :: "auth_env \<Rightarrow> provider_reach \<Rightarrow> string \<Rightarrow> browser_session \<Rightarrow> auth_state \<Rightarrow> auth_result" where
  "profile_identity_link env reach csrf b0 st0 =
     require_user env b0 st0 (\<lambda>u b st.
       if \<not> validate_csrf_token b csrf then bad_form_token b st
       else (case enabled_provider st of
               None \<Rightarrow> (Redirect ''/profile?identity_error=unavailable'', b, st)
             | Some p \<Rightarrow>
                 if op_discovery_status p \<noteq> Some ''ok'' then (Redirect ''/profile?identity_error=configuration_not_ready'', b, st)
                 else if op_client_id p = [] \<or> opt_text_or (op_client_secret p) [] = [] then (Redirect ''/profile?identity_error=incomplete_provider'', b, st)
                 else begin_oidc env reach p ''self_link'' (Some (lu_id u)) (Some (lu_id u)) None ''/profile'' b st))"

section \<open>The callback\<close>

text \<open>
  Every error is recorded, which commits what the session holds; then a transaction without stored claims is deleted.
\<close>

definition callback_error ::
  "auth_env \<Rightarrow> oidc_transaction option \<Rightarrow> category \<Rightarrow> browser_session \<Rightarrow> auth_state \<Rightarrow> auth_result" where
  "callback_error env t c b st =
     (let actor = map_option lu_id (opt_user st (Option.bind t ot_initiated_by_user_id));
          linking = (case t of None \<Rightarrow> False | Some x \<Rightarrow> ot_flow_type x = ''self_link'' \<or> ot_flow_type x = ''admin_link'');
          st1 = write_audit env actor (if linking then ''oidc_link_failed'' else ''oidc_login_failed'') None st;
          st2 = (case t of None \<Rightarrow> st1 | Some x \<Rightarrow> if ot_validated_claims x = None then delete_transaction x st1 else st1) in
      page env 400 c (b\<lparr>bs_transaction := None\<rparr>) st2)"

definition vault_purpose :: "string \<Rightarrow> string option" where
  "vault_purpose flow = map_of [(''vault_setup'', ''setup''), (''vault_unlock'', ''unlock''), (''vault_recovery'', ''recovery''), (''vault_sensitive'', ''sensitive'')] flow"

definition assured :: "auth_state \<Rightarrow> (string \<times> json) list \<Rightarrow> bool" where
  "assured st claims =
     (let accepted = words_from [] (map (\<lambda>c. if c = CHR '','' then CHR '' '' else c) (st_settings st ''secret_vault_oidc_accepted_acr''));
          acr = py_str (json_or (obj_get claims ''acr'') (JStr []));
          amr = (case obj_get claims ''amr'' of JList vs \<Rightarrow> map (\<lambda>v. lower1 (py_str v)) vs | _ \<Rightarrow> []) in
      acr \<in> set accepted \<or> ''mfa'' \<in> set amr)"

text \<open>\<open>_complete_vault_assurance\<close>: a fresh authentication of the linked identity with several factors, turned into one approval in the browser session.\<close>

definition vault_fault ::
  "auth_env \<Rightarrow> oidc_provider \<Rightarrow> oidc_transaction \<Rightarrow> (string \<times> json) list \<Rightarrow> browser_session \<Rightarrow> auth_state \<Rightarrow> category option" where
  "vault_fault env p t claims b st =
     (case bs_user_id b of
        None \<Rightarrow> Some ''invalid_vault_assurance''
      | Some uid \<Rightarrow>
          if uid = 0 \<or> ot_initiated_by_user_id t \<noteq> Some uid \<or> ot_target_user_id t \<noteq> Some uid then Some ''invalid_vault_assurance''
          else if st_settings st ''secret_vault_oidc_mfa_policy'' \<notin> set [''idp_mfa'', ''either''] then Some ''oidc_vault_assurance_disabled''
          else if (case identity_of_user st (op_id p) uid of
                     None \<Rightarrow> True
                   | Some i \<Rightarrow> ei_issuer i \<noteq> py_str (json_or (obj_get claims ''iss'') (JStr [])) \<or> ei_subject i \<noteq> py_str (json_or (obj_get claims ''sub'') (JStr [])))
          then Some ''identity_mismatch''
          else (case py_int (obj_get claims ''auth_time'') of
                  None \<Rightarrow> Some ''fresh_authentication_required''
                | Some at \<Rightarrow>
                    (let now = epoch_seconds (ae_now env) in
                     if at > now + 60 \<or> now - at > 300 then Some ''fresh_authentication_required''
                     else if \<not> assured st claims then Some ''mfa_assurance_required''
                     else None)))"

definition complete_vault_assurance ::
  "auth_env \<Rightarrow> oidc_provider \<Rightarrow> oidc_transaction \<Rightarrow> string \<Rightarrow> (string \<times> json) list \<Rightarrow> browser_session \<Rightarrow> auth_state \<Rightarrow> auth_result" where
  "complete_vault_assurance env p t purpose claims b st =
     (case vault_fault env p t claims b st of
        Some c \<Rightarrow> callback_error env (Some t) c b st
      | None \<Rightarrow>
          (Redirect (ot_return_path t),
           b\<lparr>bs_vault_approval := map_option (\<lambda>uid. (uid, purpose, epoch_seconds (ae_now env), op_id p)) (bs_user_id b)\<rparr>,
           write_audit env (bs_user_id b) ''vault_oidc_assurance_succeeded'' None (delete_transaction t st)))"

definition update_provider :: "time \<Rightarrow> int \<Rightarrow> (oidc_provider \<Rightarrow> oidc_provider) \<Rightarrow> auth_state \<Rightarrow> auth_state" where
  "update_provider now i f st = st\<lparr>st_providers := map (\<lambda>p. if op_id p = i then (f p)\<lparr>op_updated_at := now\<rparr> else p) (st_providers st)\<rparr>"

definition signed_in ::
  "auth_env \<Rightarrow> oidc_transaction \<Rightarrow> (string \<times> json) list \<Rightarrow> string \<Rightarrow> oidc_provider \<Rightarrow> string option \<Rightarrow> browser_session \<Rightarrow> auth_state \<Rightarrow> auth_result" where
  "signed_in env t claims id_token p opaque b st =
     (case resolve_login env p t claims st of
        (Rejected c, st1) \<Rightarrow> callback_error env (Some t) c b st1
      | (Confirmation, st1) \<Rightarrow> (Redirect ''/auth/oidc/link/confirm'', b\<lparr>bs_transaction := opaque\<rparr>, st1)
      | (Resolved uid new, st1) \<Rightarrow>
          (let st2 = delete_transaction t st1 in
           (case user_by_id st1 uid of
              None \<Rightarrow> callback_error env (Some t) ''unresolved_user'' b st1
            | Some u \<Rightarrow> (case start_session_as env u ''oidc'' (Some id_token) b st2 of
                None \<Rightarrow> (Crash, b\<lparr>bs_transaction := opaque\<rparr>, st2)
              | Some (b', st3) \<Rightarrow>
                  (Redirect (ot_return_path t), b', write_audit env (Some uid) (if new then ''oidc_user_provisioned'' else ''oidc_login_succeeded'') None st3)))))"

definition oidc_callback ::
  "auth_env \<Rightarrow> category + (string \<times> json) list \<times> string \<Rightarrow> string \<Rightarrow> string \<Rightarrow> string \<Rightarrow> browser_session \<Rightarrow> auth_state \<Rightarrow> auth_result" where
  "oidc_callback env exchange state code fault b0 st0 =
     (let opaque = bs_transaction b0; b = b0\<lparr>bs_transaction := None\<rparr> in
      (case rate_limited env (''oidc-callback:'' @ client_key env) 20 st0 of
         (True, st) \<Rightarrow> callback_error env None ''callback_rate_limited'' b st
       | (False, st) \<Rightarrow>
           if fault \<noteq> [] \<or> code = [] then callback_error env None ''provider_rejected'' b st
           else (case consume_transaction env opaque state st of
                   None \<Rightarrow> callback_error env None ''invalid_state'' b st
                 | Some (t, st1) \<Rightarrow>
                     (case provider_by_id st1 (ot_provider_id t) of
                        None \<Rightarrow> callback_error env (Some t) ''provider_disabled'' b st1
                      | Some p \<Rightarrow>
                          if \<not> op_is_enabled p \<and> ot_flow_type t \<noteq> ''test'' then callback_error env (Some t) ''provider_disabled'' b st1
                          else (case exchange of
                                  Inl c \<Rightarrow> callback_error env (Some t) c b st1
                                | Inr (claims, id_token) \<Rightarrow>
                                    if ot_flow_type t = ''test''
                                    then (Redirect ''/system/site-administration/authentication?tab=oidc&test_login=success'', b,
                                          write_audit env (ot_initiated_by_user_id t) ''oidc_test_login_succeeded'' None
                                            (delete_transaction t (update_provider (ae_now env) (op_id p)
                                               (\<lambda>q. q\<lparr>op_test_login_succeeded_at := Some (ae_now env)\<rparr>) st1)))
                                    else (case vault_purpose (ot_flow_type t) of
                                            Some purpose \<Rightarrow> complete_vault_assurance env p t purpose claims b st1
                                          | None \<Rightarrow> signed_in env t claims id_token p opaque b st1))))))"

section \<open>Linking\<close>

definition pending_transaction :: "auth_env \<Rightarrow> browser_session \<Rightarrow> auth_state \<Rightarrow> oidc_transaction option" where
  "pending_transaction env b st =
     (let opaque = opt_text_or (bs_transaction b) [] in
      if opaque = [] then None else find (\<lambda>t. ot_hash t = ae_sha256 env opaque) (st_transactions st))"

text \<open>The user of the browser session, looked up without its login session.\<close>

definition session_user :: "browser_session \<Rightarrow> auth_state \<Rightarrow> login_user option" where
  "session_user b st = (if bs_user_id b = Some 0 then None else opt_user st (bs_user_id b))"

definition link_confirm_submit :: "auth_env \<Rightarrow> string \<Rightarrow> string \<Rightarrow> browser_session \<Rightarrow> auth_state \<Rightarrow> auth_result" where
  "link_confirm_submit env password csrf b st0 =
     (if \<not> validate_csrf_token b csrf then bad_form_token b st0
      else (case rate_limited env (''oidc-link-confirm:'' @ client_key env) 10 st0 of
              (True, st) \<Rightarrow> page env 429 ''Too many account-link attempts. Try again later.'' b st
            | (False, st) \<Rightarrow>
                (case pending_transaction env b st of
                   None \<Rightarrow> (Redirect ''/login'', b, st)
                 | Some t \<Rightarrow>
                     (let current = session_user b st;
                          proven = (case opt_user st (ot_target_user_id t) of None \<Rightarrow> False | Some u \<Rightarrow> verify_password env password (lu_password_hash u)) in
                      (case confirm_transaction_link env t current proven st of
                         (Inl c, st1) \<Rightarrow> page env 400 c b (write_audit env (map_option lu_id current) ''oidc_link_failed'' None st1)
                       | (Inr i, st1) \<Rightarrow>
                           (let st2 = write_audit env (Some (ei_user_id i)) ''oidc_identity_linked'' None (delete_transaction t st1);
                                b' = b\<lparr>bs_transaction := None\<rparr> in
                            (case current of
                               Some _ \<Rightarrow> (Redirect ''/profile?identity_linked=1'', b', st2)
                             | None \<Rightarrow> (case user_by_id st2 (ei_user_id i) of
                                 None \<Rightarrow> (Crash, b, st2)
                               | Some u \<Rightarrow> (case start_session_as env u ''oidc'' None b' st2 of
                                   None \<Rightarrow> (Crash, b, st2)
                                 | Some (b'', st3) \<Rightarrow> (Redirect ''/profile?identity_linked=1'', b'', st3))))))))))"

definition profile_identity_unlink :: "auth_env \<Rightarrow> string \<Rightarrow> browser_session \<Rightarrow> auth_state \<Rightarrow> auth_result" where
  "profile_identity_unlink env csrf b0 st0 =
     require_user env b0 st0 (\<lambda>u b st.
       if \<not> validate_csrf_token b csrf then bad_form_token b st
       else (case find (\<lambda>i. ei_user_id i = lu_id u) (st_identities st) of
               None \<Rightarrow> (Redirect ''/profile'', b, st)
             | Some i \<Rightarrow> (case unlink_identity env i st of
                 Inl c \<Rightarrow> (Redirect (''/profile?identity_error='' @ c), b, st)
               | Inr st1 \<Rightarrow> (Redirect ''/profile?identity_unlinked=1'', b, write_audit env (Some (lu_id u)) ''oidc_identity_unlinked'' None st1))))"

definition admin_unlink_identity :: "auth_env \<Rightarrow> int \<Rightarrow> string \<Rightarrow> browser_session \<Rightarrow> auth_state \<Rightarrow> auth_result" where
  "admin_unlink_identity env identity_id csrf b0 st0 =
     require_admin env b0 st0 (\<lambda>u b st.
       if \<not> validate_csrf_token b csrf then bad_form_token b st
       else (case find (\<lambda>i. ei_id i = identity_id) (st_identities st) of
               None \<Rightarrow> (Redirect ''/system/site-administration/authentication?tab=links'', b, st)
             | Some i \<Rightarrow> (case unlink_identity env i st of
                 Inl c \<Rightarrow> (Redirect (''/system/site-administration/authentication?tab=links&error='' @ c), b, st)
               | Inr st1 \<Rightarrow> (Redirect ''/system/site-administration/authentication?tab=links&unlinked=1'', b,
                   write_audit env (Some (lu_id u)) ''oidc_identity_unlinked'' None st1))))"

section \<open>Emergency sign-in\<close>

definition emergency_enabled :: "auth_state \<Rightarrow> bool" where
  "emergency_enabled st \<longleftrightarrow> st_settings st ''oidc_emergency_local_enabled'' = ''1''"

definition emergency_login_page :: "auth_env \<Rightarrow> browser_session \<Rightarrow> auth_state \<Rightarrow> auth_result" where
  "emergency_login_page env b st =
     (if \<not> emergency_enabled st then (Redirect ''/login'', b, st) else page env 200 ''emergency_login'' (b\<lparr>bs_pending_break_glass := None\<rparr>) st)"

definition break_glass_user :: "auth_state \<Rightarrow> (login_user \<Rightarrow> bool) \<Rightarrow> login_user option" where
  "break_glass_user st chosen = find (\<lambda>u. chosen u \<and> lu_is_active u \<and> lu_role u = ''admin'' \<and> lu_is_break_glass u) (st_users st)"

definition emergency_failed :: "auth_env \<Rightarrow> login_user option \<Rightarrow> browser_session \<Rightarrow> auth_state \<Rightarrow> auth_result" where
  "emergency_failed env found b st =
     page env 401 ''Invalid email, password, or authentication code.'' b
       (write_audit env (map_option lu_id found) ''break_glass_login_failed'' None (record_login_failure env st))"

definition emergency_sign_in :: "auth_env \<Rightarrow> login_user \<Rightarrow> browser_session \<Rightarrow> auth_state \<Rightarrow> auth_result" where
  "emergency_sign_in env u b st =
     (case start_session_as env u ''break_glass'' None b st of
        None \<Rightarrow> (Crash, b, st)
      | Some (b', st') \<Rightarrow> (Redirect ''/'', b', write_audit env (Some (lu_id u)) ''break_glass_login_succeeded'' None st'))"

definition emergency_login_submit :: "auth_env \<Rightarrow> string \<Rightarrow> string \<Rightarrow> string \<Rightarrow> string \<Rightarrow> browser_session \<Rightarrow> auth_state \<Rightarrow> auth_result" where
  "emergency_login_submit env email password code csrf b st =
     (let address = lower1 (strip1 email) in
      if \<not> validate_csrf_token b csrf then bad_form_token b st
      else if \<not> emergency_enabled st then (Redirect ''/login'', b, write_audit env None ''break_glass_login_failed'' None st)
      else (case login_is_limited env address st of
              (True, st1) \<Rightarrow> page env 401 ''Invalid email, password, or authentication code.'' b (write_audit env None ''break_glass_login_failed'' None st1)
            | (False, st1) \<Rightarrow>
                (let pending = (case bs_pending_break_glass b of None \<Rightarrow> None | Some uid \<Rightarrow> if uid = 0 then None else Some uid);
                     found = (case pending of Some uid \<Rightarrow> break_glass_user st1 (\<lambda>u. lu_id u = uid) | None \<Rightarrow> break_glass_user st1 (\<lambda>u. lu_email u = address)) in
                 (case found of
                    None \<Rightarrow> emergency_failed env found b st1
                  | Some u \<Rightarrow>
                      if \<not> has_password u \<or> pending = None \<and> \<not> verify_password env password (lu_password_hash u) then emergency_failed env found b st1
                      else if \<not> lu_totp_enabled u then emergency_sign_in env u b st1
                      else if pending = None then page env 200 ''emergency_login'' (b\<lparr>bs_pending_break_glass := Some (lu_id u)\<rparr>) st1
                      else (case verify_totp env (decrypted_totp_secret env u) code of
                              None \<Rightarrow> (Crash, b, st1)
                            | Some ok \<Rightarrow> if ok then emergency_sign_in env u b st1 else emergency_failed env found b st1)))))"

section \<open>Invitations\<close>

definition create_link_invitation :: "auth_env \<Rightarrow> int \<Rightarrow> string \<Rightarrow> browser_session \<Rightarrow> auth_state \<Rightarrow> auth_result" where
  "create_link_invitation env uid csrf b0 st0 =
     require_admin env b0 st0 (\<lambda>admin b st.
       if \<not> validate_csrf_token b csrf then bad_form_token b st
       else
         (let refused = (\<lambda>s. (Redirect ''/system/site-administration/authentication?tab=links&error=invite'', b, s)) in
          (case (enabled_provider st, user_by_id st uid) of
             (Some p, Some u) \<Rightarrow>
               if \<not> lu_is_active u \<or> \<not> has_password u \<or> identity_of_user st (op_id p) (lu_id u) \<noteq> None then refused st
               else (case rate_limited env (''oidc-invite:'' @ str_int (lu_id admin)) 10 st of
                       (True, st1) \<Rightarrow> refused st1
                     | (False, st1) \<Rightarrow>
                         if ae_sha256 env (ae_token env) \<in> li_token_hash ` set (st_invitations st1) then (Crash, b, st1)
                         else page env 201 ''oidc_invitation_created'' b (write_audit env (Some (lu_id admin)) ''oidc_link_invitation_created'' None
                           (st1\<lparr>st_invitations :=
                              map (\<lambda>x. if li_user_id x = lu_id u \<and> li_provider_id x = op_id p \<and> li_completed_at x = None \<and> li_revoked_at x = None
                                        then x\<lparr>li_revoked_at := Some (ae_now env), li_redemption_session_hash := None\<rparr> else x) (st_invitations st1) @
                              [\<lparr>li_id = next_rowid (map li_id (st_invitations st1)), li_token_hash = ae_sha256 env (ae_token env), li_user_id = lu_id u,
                                li_provider_id = op_id p, li_created_by_user_id = lu_id admin,
                                li_recipient_binding_hash = invitation_recipient_binding env u, li_provider_binding_hash = invitation_provider_binding env p,
                                li_redemption_session_hash = None, li_expires_at = ae_now env + minutes 30, li_used_at = None, li_completed_at = None,
                                li_revoked_at = None\<rparr>]\<rparr>)))
           | _ \<Rightarrow> refused st)))"

definition open_invitation :: "auth_env \<Rightarrow> auth_state \<Rightarrow> login_user \<Rightarrow> link_invitation \<Rightarrow> bool" where
  "open_invitation env st u x \<longleftrightarrow> \<not> li_expires_at x < ae_now env \<and> li_user_id x = lu_id u \<and> li_recipient_binding_hash x = invitation_recipient_binding env u \<and>
     (case provider_by_id st (li_provider_id x) of None \<Rightarrow> False | Some p \<Rightarrow> li_provider_binding_hash x = invitation_provider_binding env p)"

definition invitation_of_token :: "auth_env \<Rightarrow> string \<Rightarrow> auth_state \<Rightarrow> link_invitation option" where
  "invitation_of_token env token st = find (\<lambda>x. li_token_hash x = ae_sha256 env token \<and> li_used_at x = None \<and> li_revoked_at x = None) (st_invitations st)"

definition provider_enabled :: "auth_state \<Rightarrow> link_invitation \<Rightarrow> bool" where
  "provider_enabled st x \<longleftrightarrow> (case provider_by_id st (li_provider_id x) of None \<Rightarrow> False | Some p \<Rightarrow> op_is_enabled p)"

definition accept_link_invitation :: "auth_env \<Rightarrow> string \<Rightarrow> browser_session \<Rightarrow> auth_state \<Rightarrow> auth_result" where
  "accept_link_invitation env token b0 st0 =
     require_user env b0 st0 (\<lambda>u b st.
       (let rejected = page env 400 ''This account-link request is no longer valid.'' b (write_audit env (Some (lu_id u)) ''oidc_link_invitation_rejected'' None st) in
        (case invitation_of_token env token st of
           None \<Rightarrow> rejected
         | Some x \<Rightarrow>
             if \<not> open_invitation env st u x then rejected
             else if \<not> provider_enabled st x then page env 400 ''This account-link request is no longer valid.'' b st
             else page env 200 ''oidc_invitation_open'' b st)))"

definition open_link_invitation :: "auth_env \<Rightarrow> string \<Rightarrow> string \<Rightarrow> browser_session \<Rightarrow> auth_state \<Rightarrow> auth_result" where
  "open_link_invitation env token csrf b0 st0 =
     require_user env b0 st0 (\<lambda>u b st.
       if \<not> validate_csrf_token b csrf then bad_form_token b st
       else
         (let rejected = page env 400 ''This account-link request is no longer valid.'' b (write_audit env (Some (lu_id u)) ''oidc_link_invitation_rejected'' None st) in
          (case invitation_of_token env token st of
             None \<Rightarrow> rejected
           | Some x \<Rightarrow>
               if \<not> open_invitation env st u x \<or> \<not> provider_enabled st x then rejected
               else (Redirect ''/auth/oidc/link/invitation/confirm'', b\<lparr>bs_invitation := Some (li_id x, ae_token env)\<rparr>,
                 write_audit env (Some (lu_id u)) ''oidc_link_invitation_opened'' None
                   (st\<lparr>st_invitations := map (\<lambda>y. if li_id y = li_id x then y\<lparr>li_redemption_session_hash := Some (ae_sha256 env (ae_token env))\<rparr> else y)
                      (st_invitations st)\<rparr>)))))"

definition session_invitation :: "auth_env \<Rightarrow> browser_session \<Rightarrow> login_user \<Rightarrow> auth_state \<Rightarrow> link_invitation option" where
  "session_invitation env b u st =
     (case bs_invitation b of
        None \<Rightarrow> None
      | Some (i, binder) \<Rightarrow>
          (case invitation_by_id st i of
             None \<Rightarrow> None
           | Some x \<Rightarrow>
               if li_used_at x \<noteq> None \<or> li_revoked_at x \<noteq> None \<or> opt_text_or (li_redemption_session_hash x) [] = [] \<or>
                  li_redemption_session_hash x \<noteq> Some (ae_sha256 env binder) \<or> \<not> open_invitation env st u x
               then None else Some x))"

definition invitation_confirm_submit :: "auth_env \<Rightarrow> provider_reach \<Rightarrow> string \<Rightarrow> string \<Rightarrow> string \<Rightarrow> browser_session \<Rightarrow> auth_state \<Rightarrow> auth_result" where
  "invitation_confirm_submit env reach password code csrf b0 st0 =
     require_user env b0 st0 (\<lambda>u b st.
       if \<not> validate_csrf_token b csrf then bad_form_token b st
       else
         (let row = session_invitation env b u st;
              known = (row \<noteq> None \<and> has_password u \<and> verify_password env password (lu_password_hash u));
              proof_given = (if known \<and> lu_totp_enabled u then verify_totp env (decrypted_totp_secret env u) code else Some known) in
          (case proof_given of
             None \<Rightarrow> (Crash, b, st)
           | Some ok \<Rightarrow>
               (case rate_limited env (''oidc-invite-confirm:'' @ str_int (lu_id u)) 5 st of
                  (limited, st1) \<Rightarrow>
                    (case (if ok \<and> \<not> limited then row else None) of
                       None \<Rightarrow> page env 401 ''Invalid password or authentication code.'' b (write_audit env (Some (lu_id u)) ''oidc_link_invitation_rejected'' None st1)
                     | Some x \<Rightarrow>
                         (case claim_admin_link_invitation env x u st1 of
                            (False, st2) \<Rightarrow> (Redirect ''/profile?identity_error=invalid_invitation'', b, st2)
                          | (True, st2) \<Rightarrow>
                              (case provider_by_id st2 (li_provider_id x) of
                                 None \<Rightarrow> (Crash, b, st2)
                               | Some p \<Rightarrow> begin_oidc env reach p ''admin_link'' (Some (lu_id u)) (Some (lu_id u)) (Some (li_id x)) ''/profile''
                                   (b\<lparr>bs_invitation := None\<rparr>) (write_audit env (Some (lu_id u)) ''oidc_link_invitation_redeemed'' None st2))))))))"

definition revoke_link_invitation :: "auth_env \<Rightarrow> int \<Rightarrow> string \<Rightarrow> browser_session \<Rightarrow> auth_state \<Rightarrow> auth_result" where
  "revoke_link_invitation env i csrf b0 st0 =
     require_admin env b0 st0 (\<lambda>admin b st.
       if \<not> validate_csrf_token b csrf then bad_form_token b st
       else (Redirect ''/system/site-administration/authentication?tab=links'', b,
         (case revoke_admin_link_invitation env i st of
            (False, st1) \<Rightarrow> st1
          | (True, st1) \<Rightarrow> write_audit env (Some (lu_id admin)) ''oidc_link_invitation_revoked'' None st1)))"

end
