(* ===== verification/Auth_Steps.thy ===== *)
theory Auth_Steps
  imports Auth_Handlers
begin

text \<open>
  All requests of the sign-in component as one function, and the abstract view of what a request may write: a sequence of elementary writes
  (\<open>auth_write\<close>), each with the condition that the code checks before it. Every handler refines this view, so that properties of the tables
  follow by induction over the writes.
\<close>

section \<open>Requests\<close>

datatype auth_request =
    Visit
  | Login_page bool
  | Setup_page
  | Setup string bool string string string string string string string
  | Forgot_password bool string string
  | Reset_password_page string
  | Reset_password string string string string
  | Login string string string string string
  | Logout string
  | Change_password string string string string
  | Start_2fa string string
  | Enable_2fa string string
  | Disable_2fa string string
  | Oidc_login provider_reach string
  | Oidc_callback "category + (string \<times> json) list \<times> string" string string string
  | Link_identity provider_reach string
  | Confirm_link string string
  | Unlink_identity string
  | Admin_unlink int string
  | Emergency_page
  | Emergency_login string string string string
  | Create_invitation int string
  | Accept_invitation string
  | Open_invitation string string
  | Confirm_invitation provider_reach string string string
  | Revoke_invitation int string

fun handle :: "auth_env \<Rightarrow> auth_request \<Rightarrow> browser_session \<Rightarrow> auth_state \<Rightarrow> auth_result" where
  "handle env Visit b st = require_user env b st (\<lambda>u b' st'. (Page 200 [], b', st'))"
| "handle env (Login_page logged_out) b st = login_page env logged_out b st"
| "handle env Setup_page b st = setup_page env b st"
| "handle env (Setup expected busy first_name last_name email password confirmation token csrf) b st =
     setup_submit env expected busy first_name last_name email password confirmation token csrf b st"
| "handle env (Forgot_password sent email csrf) b st = forgot_password_submit env sent email csrf b st"
| "handle env (Reset_password_page token) b st = reset_password_page env token b st"
| "handle env (Reset_password token password confirmation csrf) b st = reset_password_submit env token password confirmation csrf b st"
| "handle env (Login dummy email password code csrf) b st = login env dummy email password code csrf b st"
| "handle env (Logout csrf) b st = sign_out env csrf b st"
| "handle env (Change_password old new confirmation csrf) b st = update_profile_password env old new confirmation csrf b st"
| "handle env (Start_2fa password csrf) b st = start_profile_2fa env password csrf b st"
| "handle env (Enable_2fa code csrf) b st = enable_profile_2fa env code csrf b st"
| "handle env (Disable_2fa password csrf) b st = disable_profile_2fa env password csrf b st"
| "handle env (Oidc_login reach return_to) b st = oidc_login env reach return_to b st"
| "handle env (Oidc_callback exchange state code fault) b st = oidc_callback env exchange state code fault b st"
| "handle env (Link_identity reach csrf) b st = profile_identity_link env reach csrf b st"
| "handle env (Confirm_link password csrf) b st = link_confirm_submit env password csrf b st"
| "handle env (Unlink_identity csrf) b st = profile_identity_unlink env csrf b st"
| "handle env (Admin_unlink i csrf) b st = admin_unlink_identity env i csrf b st"
| "handle env Emergency_page b st = emergency_login_page env b st"
| "handle env (Emergency_login email password code csrf) b st = emergency_login_submit env email password code csrf b st"
| "handle env (Create_invitation uid csrf) b st = create_link_invitation env uid csrf b st"
| "handle env (Accept_invitation token) b st = accept_link_invitation env token b st"
| "handle env (Open_invitation token csrf) b st = open_link_invitation env token csrf b st"
| "handle env (Confirm_invitation reach password code csrf) b st = invitation_confirm_submit env reach password code csrf b st"
| "handle env (Revoke_invitation i csrf) b st = revoke_link_invitation env i csrf b st"

section \<open>Elementary writes\<close>

definition same_account :: "login_user \<Rightarrow> login_user \<Rightarrow> bool" where
  "same_account u v \<longleftrightarrow> lu_id v = lu_id u \<and> lu_is_active v = lu_is_active u \<and> lu_role v = lu_role u"

definition same_session :: "app_session \<Rightarrow> app_session \<Rightarrow> bool" where
  "same_session s r \<longleftrightarrow> ss_session_id r = ss_session_id s \<and> ss_user_id r = ss_user_id s \<and> ss_created_at r = ss_created_at s \<and> ss_ended_at r = ss_ended_at s"

definition same_identity :: "external_identity \<Rightarrow> external_identity \<Rightarrow> bool" where
  "same_identity i j \<longleftrightarrow> ei_id j = ei_id i \<and> ei_user_id j = ei_user_id i \<and> ei_provider_id j = ei_provider_id i \<and> ei_issuer j = ei_issuer i \<and> ei_subject j = ei_subject i"

text \<open>
  A failed password is recorded only while the address is within its limit, a role changes only while another active administrator is left,
  an identity is new for its key and for its user, and what has ended or is used stays so.
\<close>

inductive auth_write :: "auth_env \<Rightarrow> auth_state \<Rightarrow> auth_state \<Rightarrow> bool" for env where
  Audit: "act \<noteq> ''login_failed'' \<Longrightarrow> auth_write env st (write_audit env uid act metadata st)"
| Failure: "length (filter (counts_against env address) (st_audit st)) < MAX_LOGIN_ATTEMPTS \<Longrightarrow>
    auth_write env st (write_audit env None ''login_failed'' (attempted_email_metadata address) st)"
| Memory: "auth_write env st (st\<lparr>st_login_failures := xs, st_reset_attempts := ys, st_action_attempts := zs\<rparr>)"
| Session: "(\<And>s. same_session s (f s)) \<Longrightarrow> auth_write env st (update_login_session sid f st)"
| End: "auth_write env st (st\<lparr>st_sessions := map (\<lambda>s. if p s then ended (ae_now env) s else s) (st_sessions st)\<rparr>)"
| Start: "start_user_session env u b st = Some (b', st') \<Longrightarrow> auth_write env st st'"
| User: "(\<And>u. u \<in> set (st_users st) \<Longrightarrow> lu_id u = i \<Longrightarrow> same_account u (f u)) \<Longrightarrow> auth_write env st (update_user (ae_now env) i f st)"
| Role: "(\<And>u. u \<in> set (st_users st) \<Longrightarrow> lu_id u = i \<Longrightarrow> lu_id (f u) = lu_id u \<and> lu_is_active (f u) = lu_is_active u) \<Longrightarrow>
    (\<And>u. u \<in> set (st_users st) \<Longrightarrow> lu_id u = i \<Longrightarrow> lu_role u = ''admin'' \<Longrightarrow> lu_role (f u) \<noteq> ''admin'' \<Longrightarrow> 1 < length (active_admins st)) \<Longrightarrow>
    auth_write env st (update_user (ae_now env) i f st)"
| New_user: "lu_id u = next_rowid (map lu_id (st_users st)) \<Longrightarrow> auth_write env st (st\<lparr>st_users := st_users st @ [u]\<rparr>)"
| New_identity: "ei_id i = next_rowid (map ei_id (st_identities st)) \<Longrightarrow> identity_of st (ei_provider_id i) (ei_issuer i) (ei_subject i) = None \<Longrightarrow>
    identity_of_user st (ei_provider_id i) (ei_user_id i) = None \<Longrightarrow> auth_write env st (st\<lparr>st_identities := st_identities st @ [i]\<rparr>)"
| Identity: "(\<And>i. same_identity i (f i)) \<Longrightarrow> auth_write env st (update_external_identity k f st)"
| Unlink: "auth_write env st (st\<lparr>st_identities := filter p (st_identities st)\<rparr>)"
| Transactions: "auth_write env st (st\<lparr>st_transactions := ts\<rparr>)"
| Invitations: "auth_write env st (st\<lparr>st_invitations := xs\<rparr>)"
| Provider: "auth_write env st (update_provider (ae_now env) i f st)"
| Reset_used: "auth_write env st (st\<lparr>st_reset_tokens := map (\<lambda>r. if p r then r\<lparr>rt_used_at := Some (ae_now env)\<rparr> else r) (st_reset_tokens st)\<rparr>)"
| Reset_token: "rt_token_hash r \<notin> rt_token_hash ` set (st_reset_tokens st) \<Longrightarrow> auth_write env st (st\<lparr>st_reset_tokens := st_reset_tokens st @ [r]\<rparr>)"

abbreviation auth_writes :: "auth_env \<Rightarrow> auth_state \<Rightarrow> auth_state \<Rightarrow> bool" where
  "auth_writes env \<equiv> (auth_write env)\<^sup>*\<^sup>*"

named_theorems writes \<open>the state that an operation returns is reached by elementary writes\<close>

lemma write_after: "auth_write env st st' \<Longrightarrow> auth_writes env st0 st \<Longrightarrow> auth_writes env st0 st'"
  by (rule rtranclp.rtrancl_into_rtrancl)

lemmas audit_write [writes] = auth_write.Audit [THEN write_after]
lemmas failure_write = auth_write.Failure [THEN write_after]
lemmas session_write = auth_write.Session [THEN write_after]
lemmas end_write = auth_write.End [THEN write_after]
lemmas start_write = auth_write.Start [THEN write_after]
lemmas user_write = auth_write.User [THEN write_after]
lemmas role_write = auth_write.Role [THEN write_after]
lemmas new_user_write = auth_write.New_user [THEN write_after]
lemmas new_identity_write = auth_write.New_identity [THEN write_after]
lemmas identity_write = auth_write.Identity [THEN write_after]
lemmas unlink_write [writes] = auth_write.Unlink [THEN write_after]
lemmas transactions_write [writes] = auth_write.Transactions [THEN write_after]
lemmas invitations_write [writes] = auth_write.Invitations [THEN write_after]
lemmas provider_write [writes] = auth_write.Provider [THEN write_after]
lemmas reset_used_write = auth_write.Reset_used [THEN write_after]
lemmas reset_token_write = auth_write.Reset_token [THEN write_after]

lemma no_write [writes]: "auth_writes env st st"
  by simp

lemma failures_write [writes]: "auth_writes env st0 st \<Longrightarrow> auth_writes env st0 (st\<lparr>st_login_failures := xs\<rparr>)"
  using auth_write.Memory [of env st, where xs = xs and ys = "st_reset_attempts st" and zs = "st_action_attempts st"] by (auto intro: write_after)

lemma reset_attempts_write [writes]: "auth_writes env st0 st \<Longrightarrow> auth_writes env st0 (st\<lparr>st_reset_attempts := xs\<rparr>)"
  using auth_write.Memory [of env st, where xs = "st_login_failures st" and ys = xs and zs = "st_action_attempts st"] by (auto intro: write_after)

lemma action_attempts_write [writes]: "auth_writes env st0 st \<Longrightarrow> auth_writes env st0 (st\<lparr>st_action_attempts := xs\<rparr>)"
  using auth_write.Memory [of env st, where xs = "st_login_failures st" and ys = "st_reset_attempts st" and zs = xs] by (auto intro: write_after)

section \<open>Operations\<close>

lemma login_is_limited_writes [writes]: "auth_writes env st0 st \<Longrightarrow> auth_writes env st0 (snd (login_is_limited env email st))"
  by (auto simp: login_is_limited_def split: prod.splits intro: writes)

lemma record_login_failure_writes [writes]: "auth_writes env st0 st \<Longrightarrow> auth_writes env st0 (record_login_failure env st)"
  by (auto simp: record_login_failure_def intro: writes)

lemma forget_failures_writes [writes]: "auth_writes env st0 st \<Longrightarrow> auth_writes env st0 (forget_failures env st)"
  by (auto simp: forget_failures_def intro: writes)

lemma reset_limited_writes [writes]: "auth_writes env st0 st \<Longrightarrow> auth_writes env st0 (snd (password_reset_is_limited env u email st))"
  by (auto simp: password_reset_is_limited_def split: prod.splits intro: writes)

lemma record_reset_writes [writes]: "auth_writes env st0 st \<Longrightarrow> auth_writes env st0 (record_password_reset_attempt env email st)"
  by (auto simp: record_password_reset_attempt_def intro: writes)

lemma rate_limited_writes [writes]: "auth_writes env st0 st \<Longrightarrow> auth_writes env st0 (snd (rate_limited env key limit st))"
  by (auto simp: rate_limited_def Let_def intro: writes)

lemma touch_writes [writes]: "auth_writes env st0 st \<Longrightarrow> auth_writes env st0 (snd (touch_user_session env s b st))"
  by (auto simp: touch_user_session_def Let_def same_session_def intro!: session_write)

lemma current_user_writes [writes]: "auth_writes env st0 st \<Longrightarrow> auth_writes env st0 (snd (snd (current_user env b st)))"
  by (simp add: current_user_def prod.case_eq_if touch_writes split: option.split)

lemma revoke_writes [writes]: "auth_writes env st0 st \<Longrightarrow> auth_writes env st0 (revoke_user_sessions (ae_now env) uid except st)"
  unfolding revoke_user_sessions_def by (rule end_write)

lemma end_writes [writes]: "auth_writes env st0 st \<Longrightarrow> auth_writes env st0 (end_user_session (ae_now env) b st)"
  by (auto simp: end_user_session_def split: option.splits intro: end_write)

lemma page_state [simp]: "snd (snd (page env status content b st)) = st"
  by (simp add: page_def)

lemma bad_form_token_state [simp]: "snd (snd (bad_form_token b st)) = st"
  by (simp add: bad_form_token_def)

lemma require_user_writes:
  assumes "\<And>u b' st'. auth_writes env st0 st' \<Longrightarrow> auth_writes env st0 (snd (snd (handler u b' st')))" "auth_writes env st0 st"
  shows "auth_writes env st0 (snd (snd (require_user env b st handler)))"
proof -
  have "auth_writes env st0 (snd (snd (current_user env b st)))" using assms(2) by (rule current_user_writes)
  then show ?thesis using assms(1)
    by (auto simp: require_user_def split: option.split prod.split auth_response.split) (metis snd_conv)+
qed

lemma require_admin_writes:
  assumes "\<And>u b' st'. auth_writes env st0 st' \<Longrightarrow> auth_writes env st0 (snd (snd (handler u b' st')))" "auth_writes env st0 st"
  shows "auth_writes env st0 (snd (snd (require_admin env b st handler)))"
  unfolding require_admin_def by (rule require_user_writes) (use assms in auto)

lemma start_session_as_writes:
  assumes "start_session_as env u way id_token b st = Some (b', st')" "auth_writes env st0 st"
  shows "auth_writes env st0 st'"
  using assms by (auto simp: start_session_as_def Let_def same_session_def split: option.splits if_splits intro!: session_write intro: start_write)

text \<open>Changes of an account that leave its key, its role and whether it is active.\<close>

lemma account_writes [writes]:
  assumes "auth_writes env st0 st"
  shows "auth_writes env st0 (update_user (ae_now env) i (\<lambda>v. v\<lparr>lu_password_hash := x v\<rparr>) st)"
    "auth_writes env st0 (update_user (ae_now env) i (\<lambda>v. v\<lparr>lu_totp_enabled := e\<rparr>) st)"
    "auth_writes env st0 (update_user (ae_now env) i (\<lambda>v. v\<lparr>lu_totp_secret := y, lu_totp_enabled := e\<rparr>) st)"
    "auth_writes env st0 (update_user (ae_now env) i (\<lambda>v. v\<lparr>lu_authentication_type := z v\<rparr>) st)"
    "auth_writes env st0 (update_user (ae_now env) i (\<lambda>v. v\<lparr>lu_authentication_type := z v, lu_role_source := w\<rparr>) st)"
  using assms by (auto simp: same_account_def intro!: user_write)

section \<open>Primary keys\<close>

definition users_ok :: "auth_state \<Rightarrow> bool" where
  "users_ok st \<longleftrightarrow> distinct (map lu_id (st_users st))"

lemma touched_id [simp]: "lu_id v = lu_id u \<Longrightarrow> lu_id (touched now u v) = lu_id u"
  by (simp add: touched_def)

lemma users_ok_update:
  assumes "users_ok st" "\<And>u. u \<in> set (st_users st) \<Longrightarrow> lu_id u = i \<Longrightarrow> lu_id (f u) = lu_id u"
  shows "users_ok (update_user now i f st)"
proof -
  have "map lu_id (st_users (update_user now i f st)) = map lu_id (st_users st)"
    using assms(2) by (auto simp: update_user_def)
  then show ?thesis using assms(1) by (simp add: users_ok_def)
qed

lemma users_ok_write: "auth_write env st st' \<Longrightarrow> users_ok st \<Longrightarrow> users_ok st'"
proof (induction rule: auth_write.induct)
  case (User st i f)
  then show ?case by (intro users_ok_update) (auto simp: same_account_def)
next
  case (Role st i f)
  then show ?case by (intro users_ok_update) auto
next
  case (New_user u st)
  then show ?case using next_rowid_not_in [of "map lu_id (st_users st)"] by (auto simp: users_ok_def simp del: next_rowid_not_in)
qed (auto simp: users_ok_def write_audit_def update_login_session_def start_user_session_def update_external_identity_def update_provider_def split: if_splits)

lemma users_ok_writes: "auth_writes env st st' \<Longrightarrow> users_ok st \<Longrightarrow> users_ok st'"
  by (induction rule: rtranclp_induct) (auto dest: users_ok_write)

lemma user_by_id_SomeD: "user_by_id st i = Some u \<Longrightarrow> u \<in> set (st_users st) \<and> lu_id u = i"
  by (auto simp: user_by_id_def dest: find_SomeD)

lemma users_ok_unique: "users_ok st \<Longrightarrow> u \<in> set (st_users st) \<Longrightarrow> v \<in> set (st_users st) \<Longrightarrow> lu_id u = lu_id v \<Longrightarrow> u = v"
  unfolding users_ok_def by (metis distinct_map inj_onD)

section \<open>Identities\<close>

lemma create_identity_writes:
  assumes "create_identity env p u v link_type linked_by st = Inr (i, st')" "auth_writes env st0 st"
  shows "auth_writes env st0 st'"
proof (cases "identity_of_user st (op_id p) (lu_id u)")
  case (Some j)
  with assms show ?thesis by (auto simp: create_identity_def split: if_splits)
next
  case None
  have new: "identity_of st (op_id p) (ic_iss v) (ic_sub v) = None"
  proof (rule ccontr)
    assume "identity_of st (op_id p) (ic_iss v) (ic_sub v) \<noteq> None"
    then obtain j where j: "identity_of st (op_id p) (ic_iss v) (ic_sub v) = Some j" by auto
    then have "ei_user_id j \<noteq> lu_id u"
      using None by (auto simp: identity_of_def identity_of_user_def find_None_iff dest!: find_SomeD)
    with j assms(1) show False by (simp add: create_identity_def)
  qed
  with None assms show ?thesis
    by (auto simp: create_identity_def Let_def new_identity_row_def intro!: account_writes new_identity_write)
qed

lemma profile_email_keeps:
  "profile_email p v st (profile_names p v u) = (c, w) \<Longrightarrow> lu_id w = lu_id u \<and> lu_is_active w = lu_is_active u \<and> lu_role w = lu_role u"
  by (auto simp: profile_email_def profile_names_def split: if_splits)

lemma profile_role_keeps:
  assumes "profile_role p i v st u = (c, w)"
  shows "lu_id w = lu_id u" "lu_is_active w = lu_is_active u"
    "lu_role u = ''admin'' \<Longrightarrow> lu_role w \<noteq> ''admin'' \<Longrightarrow> 1 < length (active_admins st)"
  using assms by (auto simp: profile_role_def split: if_splits option.splits)

lemma apply_profile_writes:
  assumes "users_ok st0" "auth_writes env st0 st" "user_by_id st (lu_id u) = Some u"
  shows "auth_writes env st0 (snd (apply_profile env p u i v st))"
proof -
  define st1 where "st1 = update_external_identity (ei_id i) (\<lambda>e. e\<lparr>ei_current_email := Some (ic_email v), ei_preferred_username := ic_preferred_username v,
    ei_last_login_at := Some (ae_now env)\<rparr>) st"
  have st1: "auth_writes env st0 st1" "st_users st1 = st_users st"
    unfolding st1_def by (rule identity_write) (use assms(2) in \<open>auto simp: same_identity_def update_external_identity_def\<close>)
  then have only: "w = u" if "w \<in> set (st_users st1)" "lu_id w = lu_id u" for w
    using users_ok_unique users_ok_writes assms user_by_id_SomeD that by metis
  obtain c w where w: "profile_email p v st (profile_names p v u) = (c, w)" by fastforce
  obtain c' w' where w': "profile_role p i v st w = (c', w')" by fastforce
  have "auth_writes env st0 (update_user (ae_now env) (lu_id u) (\<lambda>_. w) st1)"
    by (rule user_write) (use only profile_email_keeps [OF w] st1(1) in \<open>auto simp: same_account_def\<close>)
  moreover have "auth_writes env st0 (update_user (ae_now env) (lu_id u) (\<lambda>_. w') st1)"
    by (rule role_write)
       (use only profile_email_keeps [OF w] profile_role_keeps [OF w'] st1 in \<open>auto simp: active_admins_def\<close>)
  ultimately show ?thesis
    using w w' by (auto simp: apply_profile_def st1_def [symmetric] split: option.split)
qed

lemma update_transaction_writes [writes]: "auth_writes env st0 st \<Longrightarrow> auth_writes env st0 (update_transaction h f st)"
  unfolding update_transaction_def by (rule transactions_write)

lemma delete_transaction_writes [writes]: "auth_writes env st0 st \<Longrightarrow> auth_writes env st0 (delete_transaction t st)"
  unfolding delete_transaction_def by (rule transactions_write)

lemma update_invitations_writes [writes]: "auth_writes env st0 st \<Longrightarrow> auth_writes env st0 (snd (update_invitations cond f st))"
  by (auto simp: update_invitations_def intro: invitations_write)

lemma known_identity_writes:
  assumes "users_ok st0" "auth_writes env st0 st"
  shows "auth_writes env st0 (snd (known_identity env p i v st))"
  using assms apply_profile_writes [OF assms] user_by_id_SomeD
  by (fastforce simp: known_identity_def split: option.splits prod.splits dest: arg_cong [where f = snd])

lemma unknown_identity_writes:
  assumes "users_ok st0" "auth_writes env st0 st"
  shows "auth_writes env st0 (snd (unknown_identity env p t v st))"
proof -
  have jit: "auth_writes env st0 (st\<lparr>st_users := st_users st @ [provisioned_user env p v st]\<rparr>)"
    using assms(2) by (rule new_user_write [rotated]) (simp add: provisioned_user_def Let_def)
  have "auth_writes env st0 st2" if "create_identity env p u v m None st = Inr (i, st1)" "user_by_id st1 j = Some w"
    "apply_profile env p w i v st1 = (c, st2)" for u m i st1 j w c st2
    using apply_profile_writes [OF assms(1) create_identity_writes [OF that(1) assms(2)], of w p i v] that user_by_id_SomeD by force
  then show ?thesis
    using jit assms create_identity_writes
    by (auto simp: unknown_identity_def Let_def split: sum.splits option.splits prod.splits intro: update_transaction_writes)
qed

lemma resolve_login_writes:
  assumes "users_ok st0" "auth_writes env st0 st"
  shows "auth_writes env st0 (snd (resolve_login env p t claims st))"
  using assms known_identity_writes [OF assms] unknown_identity_writes [OF assms]
  by (auto simp: resolve_login_def split: sum.splits option.splits intro: update_transaction_writes)

lemma confirm_link_writes:
  assumes "auth_writes env st0 st"
  shows "auth_writes env st0 (snd (confirm_transaction_link env t current proven st))"
proof -
  have finish: "auth_writes env st0 s \<Longrightarrow> auth_writes env st0 (snd (finish_link env p u v m l s))" for p u v m l s
    by (auto simp: finish_link_def split: sum.splits dest: create_identity_writes)
  have "auth_writes env st0 s" if "update_invitations cond f st = (x, s)" for cond f x s
    using update_invitations_writes [OF assms, of cond f] that by simp
  then show ?thesis
    using assms finish by (auto simp: confirm_transaction_link_def split: option.splits sum.splits prod.splits bool.splits)
qed

lemma unlink_identity_writes:
  assumes "unlink_identity env i st = Inr st'" "auth_writes env st0 st"
  shows "auth_writes env st0 st'"
  using assms by (auto simp: unlink_identity_def split: option.splits if_splits intro!: account_writes unlink_write)

section \<open>Handlers\<close>

lemma sign_in_writes: "auth_writes env st0 st \<Longrightarrow> auth_writes env st0 (snd (snd (sign_in env u b st)))"
  by (auto simp: sign_in_def split: option.split prod.split intro!: audit_write forget_failures_writes intro: start_write)

lemma second_step_writes: "auth_writes env st0 st \<Longrightarrow> auth_writes env st0 (snd (snd (second_step env uid code b st)))"
  by (auto simp: second_step_def Let_def split: option.split intro!: audit_write record_login_failure_writes sign_in_writes)

lemma first_step_writes:
  assumes "auth_writes env st0 st" "length (filter (counts_against env address) (st_audit st)) < MAX_LOGIN_ATTEMPTS"
  shows "auth_writes env st0 (snd (snd (first_step env dummy address password b st)))"
proof -
  have "st_audit (record_login_failure env st) = st_audit st" by (simp add: record_login_failure_def)
  with assms have "auth_writes env st0 (write_audit env None ''login_failed'' (attempted_email_metadata address) (record_login_failure env st))"
    by (intro failure_write record_login_failure_writes) simp_all
  with assms(1) show ?thesis by (auto simp: first_step_def Let_def split: option.split intro!: audit_write sign_in_writes)
qed

lemma login_writes: "auth_writes env st (snd (snd (login env dummy email password code csrf b st)))"
proof -
  obtain limited st1 where l: "login_is_limited env (lower1 (strip1 email)) st = (limited, st1)" by fastforce
  then have "auth_writes env st st1" using login_is_limited_writes [OF no_write, of env st "lower1 (strip1 email)"] by simp
  moreover have "length (filter (counts_against env (lower1 (strip1 email))) (st_audit st1)) < MAX_LOGIN_ATTEMPTS" if "\<not> limited"
    using l that by (auto simp: login_is_limited_def split: prod.splits)
  ultimately show ?thesis using l
    by (auto simp: login_def Let_def split: option.split bool.split intro!: audit_write second_step_writes first_step_writes)
qed

lemma setup_writes: "auth_writes env st (snd (snd (setup_submit env expected busy first_name last_name email password confirmation token csrf b st)))"
  by (auto simp: setup_submit_def Let_def intro!: audit_write new_user_write)

lemma forgot_writes: "auth_writes env st (snd (snd (forgot_password_submit env sent email csrf b st)))"
proof -
  let ?u = "active_user_by_email st (lower1 (strip1 email))"
  obtain limited st1 where l: "password_reset_is_limited env ?u (lower1 (strip1 email)) st = (limited, st1)" by fastforce
  define st2 where "st2 = record_password_reset_attempt env (lower1 (strip1 email)) st1"
  have "auth_writes env st st1" using reset_limited_writes [OF no_write, of env st ?u "lower1 (strip1 email)"] l by simp
  then have st2: "auth_writes env st st2" unfolding st2_def by (rule record_reset_writes)
  have token: "auth_writes env st (st2\<lparr>st_reset_tokens := map (\<lambda>r. if p r then r\<lparr>rt_used_at := Some (ae_now env)\<rparr> else r) (st_reset_tokens st2) @ [r]\<rparr>)"
    if "rt_token_hash r \<notin> rt_token_hash ` set (st_reset_tokens st2)" for p r
    using reset_token_write [of r "st2\<lparr>st_reset_tokens := map (\<lambda>r. if p r then r\<lparr>rt_used_at := Some (ae_now env)\<rparr> else r) (st_reset_tokens st2)\<rparr>" env st]
      reset_used_write [OF st2, of p] that by (force simp: image_image)
  show ?thesis
    using l st2 token by (auto simp: forgot_password_submit_def Let_def st2_def [symmetric] split: option.split intro!: audit_write)
qed

lemma reset_writes: "auth_writes env st (snd (snd (reset_password_submit env token password confirmation csrf b st)))"
  by (auto simp: reset_password_submit_def Let_def split: option.split intro!: audit_write reset_used_write revoke_writes account_writes no_write)

lemma profile_writes:
  "auth_writes env st (snd (snd (update_profile_password env old new confirmation csrf b st)))"
  "auth_writes env st (snd (snd (start_profile_2fa env password csrf b st)))"
  "auth_writes env st (snd (snd (enable_profile_2fa env code csrf b st)))"
  "auth_writes env st (snd (snd (disable_profile_2fa env password csrf b st)))"
  unfolding update_profile_password_def start_profile_2fa_def enable_profile_2fa_def disable_profile_2fa_def
  by (rule require_user_writes; auto simp: Let_def split: option.split intro!: audit_write revoke_writes account_writes)+

lemma begin_writes:
  assumes "auth_writes env st0 st"
  shows "auth_writes env st0 (snd (snd (begin_oidc env reach p flow target initiated invitation return_path b st)))"
proof -
  obtain limited st1 where l: "rate_limited env (''oidc:'' @ client_key env) 10 st = (limited, st1)" by fastforce
  then have "auth_writes env st0 st1" using rate_limited_writes [OF assms, of "''oidc:'' @ client_key env" 10] by simp
  then show ?thesis using l
    by (auto simp: begin_oidc_def Let_def create_transaction_def split: option.splits bool.split intro!: audit_write transactions_write)
qed

lemma oidc_login_writes: "auth_writes env st (snd (snd (oidc_login env reach return_to b st)))"
  by (auto simp: oidc_login_def Let_def split: option.split intro!: begin_writes)

lemma callback_error_writes: "auth_writes env st0 st \<Longrightarrow> auth_writes env st0 (snd (snd (callback_error env t c b st)))"
  by (auto simp: callback_error_def Let_def split: option.split intro!: audit_write delete_transaction_writes)

lemma signed_in_writes:
  assumes "users_ok st0" "auth_writes env st0 st"
  shows "auth_writes env st0 (snd (snd (signed_in env t claims id_token p opaque b st)))"
proof -
  obtain r st1 where r: "resolve_login env p t claims st = (r, st1)" by fastforce
  then have "auth_writes env st0 st1" using resolve_login_writes [OF assms, of p t claims] by simp
  then show ?thesis using r
    by (auto simp: signed_in_def Let_def split: login_resolution.split option.split
        intro!: audit_write callback_error_writes delete_transaction_writes intro: start_session_as_writes)
qed

lemma callback_writes:
  assumes "users_ok st"
  shows "auth_writes env st (snd (snd (oidc_callback env exchange state code fault b st)))"
proof -
  obtain limited st1 where l: "rate_limited env (''oidc-callback:'' @ client_key env) 20 st = (limited, st1)" by fastforce
  then have st1: "auth_writes env st st1" using rate_limited_writes [OF no_write, of env st "''oidc-callback:'' @ client_key env" 20] by simp
  have "auth_writes env st st2" if "consume_transaction env opaque state st1 = Some (t, st2)" for opaque t st2
    using that st1 by (auto simp: consume_transaction_def Let_def split: if_splits intro!: transactions_write)
  then show ?thesis using l st1
    by (auto simp: oidc_callback_def complete_vault_assurance_def Let_def split: option.split sum.split bool.split
        intro!: audit_write callback_error_writes delete_transaction_writes provider_write signed_in_writes [OF assms])
qed

lemma confirm_link_handler_writes: "auth_writes env st (snd (snd (link_confirm_submit env password csrf b st)))"
proof -
  obtain limited st1 where l: "rate_limited env (''oidc-link-confirm:'' @ client_key env) 10 st = (limited, st1)" by fastforce
  then have st1: "auth_writes env st st1" using rate_limited_writes [OF no_write, of env st "''oidc-link-confirm:'' @ client_key env" 10] by simp
  have "auth_writes env st st2" if "confirm_transaction_link env t current proven st1 = (r, st2)" for t current proven r st2
    using confirm_link_writes [OF st1, of t current proven] that by simp
  then show ?thesis using l st1
    by (auto simp: link_confirm_submit_def Let_def split: option.split sum.split bool.split prod.split
        intro!: audit_write delete_transaction_writes intro: start_session_as_writes)
qed

lemma unlink_writes:
  "auth_writes env st (snd (snd (profile_identity_unlink env csrf b st)))"
  "auth_writes env st (snd (snd (admin_unlink_identity env i csrf b st)))"
  unfolding profile_identity_unlink_def admin_unlink_identity_def
  by (rule require_user_writes require_admin_writes; auto split: option.split sum.split intro!: audit_write intro: unlink_identity_writes)+

lemma emergency_writes: "auth_writes env st (snd (snd (emergency_login_submit env email password code csrf b st)))"
proof -
  obtain limited st1 where l: "login_is_limited env (lower1 (strip1 email)) st = (limited, st1)" by fastforce
  then have st1: "auth_writes env st st1" using login_is_limited_writes [OF no_write, of env st "lower1 (strip1 email)"] by simp
  have "auth_writes env st (snd (snd (emergency_sign_in env u b st1)))" for u
    using st1 by (auto simp: emergency_sign_in_def split: option.split prod.split intro!: audit_write intro: start_session_as_writes)
  moreover have "auth_writes env st (snd (snd (emergency_failed env found b st1)))" for found
    using st1 by (auto simp: emergency_failed_def intro!: audit_write record_login_failure_writes)
  ultimately show ?thesis using l st1
    by (auto simp: emergency_login_submit_def Let_def split: option.split bool.split intro!: audit_write)
qed

lemma invitation_writes:
  "auth_writes env st (snd (snd (accept_link_invitation env token b st)))"
  "auth_writes env st (snd (snd (open_link_invitation env token csrf b st)))"
  unfolding accept_link_invitation_def open_link_invitation_def
  by (rule require_user_writes; auto simp: Let_def split: option.split intro!: audit_write invitations_write)+

lemma create_invitation_writes: "auth_writes env st (snd (snd (create_link_invitation env uid csrf b st)))"
  unfolding create_link_invitation_def
proof (rule require_admin_writes, goal_cases)
  case (1 admin b' st')
  obtain limited st1 where l: "rate_limited env (''oidc-invite:'' @ str_int (lu_id admin)) 10 st' = (limited, st1)" by fastforce
  then have "auth_writes env st st1" using rate_limited_writes [OF 1, of "''oidc-invite:'' @ str_int (lu_id admin)" 10] by simp
  with 1 l show ?case by (auto simp: Let_def split: option.split bool.split intro!: audit_write invitations_write)
qed simp

lemma claim_writes: "auth_writes env st0 st \<Longrightarrow> auth_writes env st0 (snd (claim_admin_link_invitation env x u st))"
  by (auto simp: claim_admin_link_invitation_def split: option.split intro: update_invitations_writes)

lemma revoke_invitation_write: "auth_writes env st0 st \<Longrightarrow> auth_writes env st0 (snd (revoke_admin_link_invitation env i st))"
  unfolding revoke_admin_link_invitation_def by (rule update_invitations_writes)

lemma confirm_invitation_writes: "auth_writes env st (snd (snd (invitation_confirm_submit env reach password code csrf b st)))"
  unfolding invitation_confirm_submit_def
proof (rule require_user_writes, goal_cases)
  case (1 u b' st')
  obtain limited st1 where l: "rate_limited env (''oidc-invite-confirm:'' @ str_int (lu_id u)) 5 st' = (limited, st1)" by fastforce
  then have st1: "auth_writes env st st1" using rate_limited_writes [OF 1, of "''oidc-invite-confirm:'' @ str_int (lu_id u)" 5] by simp
  have "auth_writes env st st2" if "claim_admin_link_invitation env x u st1 = (c, st2)" for x c st2
    using claim_writes [OF st1, of x u] that by simp
  with 1 l st1 show ?case
    by (auto simp: Let_def split: option.split bool.split prod.split intro!: audit_write begin_writes)
qed simp

lemma revoke_invitation_writes: "auth_writes env st (snd (snd (revoke_link_invitation env i csrf b st)))"
  unfolding revoke_link_invitation_def
proof (rule require_admin_writes, goal_cases)
  case (1 admin b' st')
  have "auth_writes env st st2" if "revoke_admin_link_invitation env i st' = (c, st2)" for c st2
    using revoke_invitation_write [OF 1, of i] that by simp
  with 1 show ?case by (auto split: bool.split prod.split intro!: audit_write)
qed simp

text \<open>Every request refines the abstract view.\<close>

lemma handle_writes: "users_ok st \<Longrightarrow> auth_writes env st (snd (snd (handle env r b st)))"
proof (cases r)
  case Visit
  have "auth_writes env st (snd (snd (require_user env b st (\<lambda>u b' st'. (Page 200 [], b', st')))))"
    by (rule require_user_writes) auto
  with Visit show ?thesis by simp
next
  case (Link_identity reach csrf)
  have "auth_writes env st (snd (snd (profile_identity_link env reach csrf b st)))"
    unfolding profile_identity_link_def by (rule require_user_writes) (auto split: option.split intro!: begin_writes)
  with Link_identity show ?thesis by simp
qed (auto simp: login_page_def setup_page_def reset_password_page_def emergency_login_page_def sign_out_def Let_def
    intro!: setup_writes forgot_writes reset_writes login_writes profile_writes oidc_login_writes callback_writes confirm_link_handler_writes
      unlink_writes emergency_writes create_invitation_writes invitation_writes confirm_invitation_writes revoke_invitation_writes
      audit_write end_writes)

end
