(* ===== verification/Auth_Props.thy ===== *)
theory Auth_Props
  imports Auth_Steps
begin

text \<open>
  What sign-in guarantees over every sequence of requests: sessions that have ended stay ended, the last administrator is kept, single
  sign-on reaches the account that the identity is linked to, and a local sign-in needs the password and, where it is enabled, the
  one-time code.
\<close>

section \<open>Steps\<close>

text \<open>
  Any request, with any browser session; a restart of the server forgets the attempts. The key of an account is unique.
\<close>

inductive request_step :: "auth_state \<Rightarrow> auth_state \<Rightarrow> bool" where
  Request: "users_ok st \<Longrightarrow> handle env r b st = (response, b', st') \<Longrightarrow> request_step st st'"
| Restart: "request_step st (st\<lparr>st_login_failures := [], st_reset_attempts := [], st_action_attempts := []\<rparr>)"

text \<open>Beside requests, administrators change accounts, providers and settings.\<close>

inductive auth_step :: "auth_state \<Rightarrow> auth_state \<Rightarrow> bool" where
  Step: "request_step st st' \<Longrightarrow> auth_step st st'"
| Administration: "distinct (map lu_id us) \<Longrightarrow> auth_step st (st\<lparr>st_users := us, st_providers := ps, st_settings := settings\<rparr>)"

lemma request_step_writes: "request_step st st' \<Longrightarrow> \<exists>env. auth_writes env st st'"
proof (induction rule: request_step.induct)
  case (Request st env r b response b' st')
  then show ?case using handle_writes [of st env r b] by auto
next
  case (Restart st)
  have "auth_writes env st (st\<lparr>st_login_failures := [], st_reset_attempts := [], st_action_attempts := []\<rparr>)" for env
    by (rule r_into_rtranclp) (rule auth_write.Memory)
  then show ?case by blast
qed

text \<open>What every elementary write keeps, every request keeps.\<close>

lemma request_steps_keep:
  assumes "request_step\<^sup>*\<^sup>* st st'" "P st" "\<And>env s s'. auth_write env s s' \<Longrightarrow> P s \<Longrightarrow> P s'"
  shows "P st'"
proof -
  have writes_keep: "P s'" if "auth_writes env s s'" "P s" for env s s'
    using that by (induction rule: rtranclp_induct) (auto dest: assms(3))
  show ?thesis using assms(1,2) by (induction rule: rtranclp_induct) (metis request_step_writes writes_keep)+
qed

lemma auth_step_keep:
  assumes "auth_step st st'" "P st" "\<And>env s s'. auth_write env s s' \<Longrightarrow> P s \<Longrightarrow> P s'"
    "\<And>us ps settings. distinct (map lu_id us) \<Longrightarrow> P (st\<lparr>st_users := us, st_providers := ps, st_settings := settings\<rparr>)"
  shows "P st'"
  using assms(1)
proof cases
  case Step
  then show ?thesis using request_steps_keep [of st st' P] assms(2,3) by blast
next
  case (Administration us ps settings)
  then show ?thesis using assms(4) by simp
qed

section \<open>Sessions\<close>

definition login_session_closed :: "auth_state \<Rightarrow> string \<Rightarrow> bool" where
  "login_session_closed st sid \<longleftrightarrow> sid \<in> ss_session_id ` set (st_sessions st) \<and> (\<forall>s \<in> set (st_sessions st). ss_session_id s = sid \<longrightarrow> ss_ended_at s \<noteq> None)"

definition login_session_usable :: "auth_state \<Rightarrow> time \<Rightarrow> string \<Rightarrow> bool" where
  "login_session_usable st t sid \<longleftrightarrow> (\<exists>env b. ae_now env = t \<and> bs_session_id b = Some sid \<and> fst (current_user env b st) \<noteq> None)"

lemma login_session_closed_map:
  assumes "login_session_closed st sid" "st_sessions st' = map f (st_sessions st)"
    "\<And>s. ss_session_id (f s) = ss_session_id s \<and> (ss_ended_at s \<noteq> None \<longrightarrow> ss_ended_at (f s) \<noteq> None)"
  shows "login_session_closed st' sid"
  using assms unfolding login_session_closed_def by (auto simp: image_iff)

lemma login_session_closed_write: "auth_write env st st' \<Longrightarrow> login_session_closed st sid \<Longrightarrow> login_session_closed st' sid"
proof (induction rule: auth_write.induct)
  case (Session f st sid')
  have "ss_session_id (f s) = ss_session_id s" "ss_ended_at (f s) = ss_ended_at s" for s
    using Session(1) [of s] by (simp_all add: same_session_def)
  then show ?case using Session(2) 
    by (intro login_session_closed_map [OF Session(2), where f = "\<lambda>s. if ss_session_id s = sid' then f s else s"]) (simp_all add: update_login_session_def)
next
  case (End st p)
  then show ?case by (intro login_session_closed_map [OF End(1), where f = "\<lambda>s. if p s then ended (ae_now env) s else s"]) (simp_all add: ended_def)
qed (auto simp: login_session_closed_def write_audit_def start_user_session_def update_user_def update_external_identity_def update_provider_def split: if_splits)

lemma login_session_closed_unusable: "login_session_closed st sid \<Longrightarrow> \<not> login_session_usable st t sid"
proof -
  assume closed: "login_session_closed st sid"
  have "active_user_session st now (Some sid) uid = None" for now uid
    using closed by (auto simp: active_user_session_def login_session_closed_def live_session_def find_None_iff split: option.splits)
  then show ?thesis by (auto simp: login_session_usable_def current_user_def split: option.splits if_splits)
qed

interpretation login_sessions: closable auth_step login_session_closed login_session_usable
proof
  show "login_session_closed st' sid" if "auth_step st st'" "login_session_closed st sid" for st st' sid
  proof (rule auth_step_keep [OF that(1), where P = "\<lambda>s. login_session_closed s sid"])
    show "login_session_closed (st\<lparr>st_users := us, st_providers := ps, st_settings := settings\<rparr>) sid" for us ps settings
      using that(2) by (simp add: login_session_closed_def)
  qed (use that(2) in \<open>auto intro: login_session_closed_write\<close>)
qed (rule login_session_closed_unusable)

text \<open>The requests that end a session: the logout of its browser and a password reset of its account.\<close>

fun ends :: "auth_env \<Rightarrow> auth_request \<Rightarrow> browser_session \<Rightarrow> auth_state \<Rightarrow> app_session \<Rightarrow> bool" where
  "ends env (Logout csrf) b st s = (validate_csrf_token b csrf \<and> ss_session_id s \<noteq> [] \<and> bs_session_id b = Some (ss_session_id s))"
| "ends env (Reset_password token password confirmation csrf) b st s =
     (validate_csrf_token b csrf \<and> 12 \<le> length password \<and> password = confirmation \<and>
      (case resettable env token st of None \<Rightarrow> False | Some (r, u) \<Rightarrow> ss_user_id s = lu_id u))"
| "ends env _ b st s = False"

lemma ended_id [simp]: "ss_session_id (ended now s) = ss_session_id s"
  by (simp add: ended_def)

lemma ended_closed:
  assumes "distinct (map ss_session_id (st_sessions st))" "s \<in> set (st_sessions st)" "p s \<or> ss_ended_at s \<noteq> None"
    "st_sessions st' = map (\<lambda>s. if p s then ended now s else s) (st_sessions st)"
  shows "login_session_closed st' (ss_session_id s)"
proof -
  have "x = s" if "x \<in> set (st_sessions st)" "ss_session_id x = ss_session_id s" for x
    using assms(1,2) that by (metis distinct_map inj_onD)
  then have only: "ss_ended_at y \<noteq> None" if "y \<in> set (st_sessions st')" "ss_session_id y = ss_session_id s" for y
    using that assms(3,4) by (auto simp: ended_def split: if_splits)
  have "(if p s then ended now s else s) \<in> set (st_sessions st')" using assms(2,4) by auto
  then have "ss_session_id s \<in> ss_session_id ` set (st_sessions st')" by (metis (no_types, lifting) ended_id image_eqI)
  with only show ?thesis by (simp add: login_session_closed_def)
qed

lemma ends_closes:
  assumes "distinct (map ss_session_id (st_sessions st))" "s \<in> set (st_sessions st)" "ends env r b st s"
  shows "login_session_closed (snd (snd (handle env r b st))) (ss_session_id s)"
  using assms(3)
proof (cases r)
  case (Logout csrf)
  then show ?thesis using assms
    by (intro ended_closed [where p = "\<lambda>x. ss_session_id x = ss_session_id s \<and> ss_ended_at x = None" and now = "ae_now env"])
       (auto simp: sign_out_def end_user_session_def write_audit_def)
next
  case (Reset_password token password confirmation csrf)
  with assms(3) obtain x u where u: "resettable env token st = Some (x, u)" "ss_user_id s = lu_id u" by (auto split: option.splits)
  with Reset_password assms show ?thesis
    by (intro ended_closed [where p = "\<lambda>x. ss_user_id x = lu_id u \<and> ss_ended_at x = None" and now = "ae_now env"])
       (auto simp: reset_password_submit_def revoke_user_sessions_def write_audit_def update_user_def opt_text_or_def Let_def)
qed auto

text \<open>
  C12. Signed out for good. A session that its browser logs out, or that belongs to an account whose password is reset, is never accepted again: whatever requests, restarts and
  changes of accounts and settings by administrators follow, a browser session that names it has no user, even when a copy of the cookie was kept.
\<close>

theorem signed_out_for_good:
  assumes "distinct (map ss_session_id (st_sessions st))" "s \<in> set (st_sessions st)" "ends env r b st s"
    "handle env r b st = (response, b1, st1)" "auth_step\<^sup>*\<^sup>* st1 st2" "bs_session_id b2 = Some (ss_session_id s)"
  shows "fst (current_user env2 b2 st2) = None"
proof -
  have "login_session_closed st1 (ss_session_id s)" using ends_closes [OF assms(1-3)] assms(4) by simp
  then have "\<not> login_session_usable st2 (ae_now env2) (ss_session_id s)" by (rule login_sessions.closed_for_good [OF assms(5)])
  with assms(6) show ?thesis by (auto simp: login_session_usable_def)
qed

section \<open>Administrators\<close>

lemma active_admins_update:
  assumes "active_admins st \<noteq> []"
    "\<And>u. u \<in> set (st_users st) \<Longrightarrow> lu_id u = i \<Longrightarrow> lu_is_active (f u) = lu_is_active u"
    "\<And>u. u \<in> set (st_users st) \<Longrightarrow> lu_id u = i \<Longrightarrow> lu_role u = ''admin'' \<Longrightarrow> lu_role (f u) \<noteq> ''admin'' \<Longrightarrow> 1 < length (active_admins st)"
    "users_ok st"
  shows "active_admins (update_user now i f st) \<noteq> []"
proof -
  let ?g = "\<lambda>u. if lu_id u = i then touched now u (f u) else u"
  have keep: "?g u \<in> set (active_admins (update_user now i f st))" if "u \<in> set (active_admins st)" "lu_role (?g u) = ''admin''" for u
    using that assms(2) by (auto simp: active_admins_def update_user_def touched_def)
  show ?thesis
  proof (cases "\<exists>u \<in> set (active_admins st). lu_role (?g u) = ''admin''")
    case True
    with keep show ?thesis by (metis empty_iff empty_set)
  next
    case False
    then have all: "u \<in> set (active_admins st) \<Longrightarrow> lu_id u = i \<and> lu_role (f u) \<noteq> ''admin''" for u
      by (auto simp: active_admins_def touched_def split: if_splits)
    obtain u where u: "u \<in> set (active_admins st)" using assms(1) by (cases "active_admins st") auto
    have "1 < length (active_admins st)" using u all [OF u] assms(3) [of u] by (auto simp: active_admins_def)
    moreover have "distinct (map lu_id (active_admins st))"
      using assms(4) by (simp add: users_ok_def active_admins_def distinct_map_filter)
    moreover have "set (map lu_id (active_admins st)) \<subseteq> {i}" using all by auto
    ultimately have False using card_mono [of "{i}" "set (map lu_id (active_admins st))"] distinct_card [of "map lu_id (active_admins st)"] by simp
    then show ?thesis by simp
  qed
qed

lemma active_admins_write: "auth_write env st st' \<Longrightarrow> users_ok st \<and> active_admins st \<noteq> [] \<Longrightarrow> users_ok st' \<and> active_admins st' \<noteq> []"
proof (intro conjI)
  assume w: "auth_write env st st'" and ok: "users_ok st \<and> active_admins st \<noteq> []"
  then show "users_ok st'" by (auto intro: users_ok_write)
  from w ok show "active_admins st' \<noteq> []"
  proof (induction rule: auth_write.induct)
    case (User st i f)
    then show ?case by (intro active_admins_update) (auto simp: same_account_def)
  next
    case (Role st i f)
    then show ?case by (intro active_admins_update) auto
  qed (auto simp: active_admins_def write_audit_def update_login_session_def start_user_session_def update_external_identity_def update_provider_def split: if_splits)
qed

text \<open>
  C15. The last administrator is kept. As long as only requests of this component arrive, a system with an active administrator keeps one: single sign-on can change the role
  of an account, but never that of the last administrator.
\<close>

theorem last_administrator_is_kept:
  assumes "request_step\<^sup>*\<^sup>* st st'" "users_ok st" "u \<in> set (st_users st)" "lu_role u = ''admin''" "lu_is_active u"
  shows "\<exists>v \<in> set (st_users st'). lu_role v = ''admin'' \<and> lu_is_active v"
proof -
  have "users_ok st \<and> active_admins st \<noteq> []" using assms(2-5) by (auto simp: active_admins_def filter_empty_conv)
  then have "users_ok st' \<and> active_admins st' \<noteq> []"
    by (rule request_steps_keep [OF assms(1), where P = "\<lambda>s. users_ok s \<and> active_admins s \<noteq> []"]) (rule active_admins_write)
  then show ?thesis by (auto simp: active_admins_def filter_empty_conv)
qed

end
