(* ===== verification/Auth_Link_Props.thy ===== *)
theory Auth_Link_Props
  imports Auth_Props
begin

text \<open>
  Single sign-on: identities are unique in every reachable state, and a sign-in through a provider reaches exactly the account that the
  identity in its token is linked to.
\<close>

section \<open>Unique identities\<close>

definition identity_key :: "external_identity \<Rightarrow> int \<times> string \<times> string" where
  "identity_key i = (ei_provider_id i, ei_issuer i, ei_subject i)"

definition identities_ok :: "auth_state \<Rightarrow> bool" where
  "identities_ok st \<longleftrightarrow> distinct (map identity_key (st_identities st)) \<and> distinct (map (\<lambda>i. (ei_provider_id i, ei_user_id i)) (st_identities st))"

lemma identity_of_None: "identity_of st pid iss sub = None \<longleftrightarrow> (pid, iss, sub) \<notin> identity_key ` set (st_identities st)"
  by (auto simp: identity_of_def identity_key_def find_None_iff image_iff)

lemma identity_of_user_None: "identity_of_user st pid uid = None \<longleftrightarrow> (pid, uid) \<notin> (\<lambda>i. (ei_provider_id i, ei_user_id i)) ` set (st_identities st)"
  by (auto simp: identity_of_user_def find_None_iff image_iff)

lemma identities_ok_write: "auth_write env st st' \<Longrightarrow> identities_ok st \<Longrightarrow> identities_ok st'"
proof (induction rule: auth_write.induct)
  case (New_identity i st)
  then show ?case by (simp add: identities_ok_def identity_of_None identity_of_user_None identity_key_def [of i])
next
  case (Identity f st k)
  have "identity_key (f i) = identity_key i" "ei_provider_id (f i) = ei_provider_id i" "ei_user_id (f i) = ei_user_id i" for i
    using Identity(1) [of i] by (simp_all add: same_identity_def identity_key_def)
  then have "map identity_key (st_identities (update_external_identity k f st)) = map identity_key (st_identities st)"
    "map (\<lambda>i. (ei_provider_id i, ei_user_id i)) (st_identities (update_external_identity k f st)) = map (\<lambda>i. (ei_provider_id i, ei_user_id i)) (st_identities st)"
    by (simp_all add: update_external_identity_def)
  with Identity(2) show ?case by (simp add: identities_ok_def)
next
  case (Unlink st p)
  then show ?case by (simp add: identities_ok_def distinct_map_filter)
qed (auto simp: identities_ok_def write_audit_def update_login_session_def start_user_session_def update_user_def update_provider_def split: if_splits)

lemma identities_ok_steps:
  assumes "auth_step\<^sup>*\<^sup>* st st'" "identities_ok st"
  shows "identities_ok st'"
  using assms
proof (induction rule: rtranclp_induct)
  case (step s s')
  then have ok: "identities_ok s" by simp
  have "identities_ok (s\<lparr>st_users := us, st_providers := ps, st_settings := settings\<rparr>)" for us ps settings
    using ok by (simp add: identities_ok_def)
  then show ?case using ok identities_ok_write
    by (intro auth_step_keep [OF step(2), where P = identities_ok]) blast+
qed

section \<open>What a resolved sign-in has found\<close>

lemma user_by_id_update:
  assumes "\<And>w. lu_id w = i \<Longrightarrow> lu_id (f w) = i"
  shows "user_by_id (update_user now i f st) j = map_option (\<lambda>w. if lu_id w = i then touched now w (f w) else w) (user_by_id st j)"
  unfolding user_by_id_def update_user_def using assms by (simp add: find_map_same touched_def)

lemma apply_profile_keeps:
  assumes "user_by_id st (lu_id u) = Some u" "apply_profile env p u i v st = (c, st')"
  shows "\<exists>w. user_by_id st' (lu_id u) = Some w \<and> lu_id w = lu_id u \<and> lu_is_active w = lu_is_active u"
    and "st_identities st' = map (\<lambda>e. if ei_id e = ei_id i then e\<lparr>ei_current_email := Some (ic_email v), ei_preferred_username := ic_preferred_username v,
      ei_last_login_at := Some (ae_now env)\<rparr> else e) (st_identities st)"
    and "st_sessions st' = st_sessions st"
proof -
  obtain c1 w1 where w1: "profile_email p v st (profile_names p v u) = (c1, w1)" by fastforce
  obtain c2 w2 where w2: "profile_role p i v st w1 = (c2, w2)" by fastforce
  define w where "w = (if c1 = None then w2 else w1)"
  have w: "lu_id w = lu_id u" "lu_is_active w = lu_is_active u"
    using profile_email_keeps [OF w1] profile_role_keeps(1,2) [OF w2] by (simp_all add: w_def)
  have st': "st' = update_user (ae_now env) (lu_id u) (\<lambda>_. w) (update_external_identity (ei_id i) (\<lambda>e. e\<lparr>ei_current_email := Some (ic_email v),
      ei_preferred_username := ic_preferred_username v, ei_last_login_at := Some (ae_now env)\<rparr>) st)"
    using assms(2) w1 w2 by (auto simp: apply_profile_def w_def split: option.splits)
  then show "st_identities st' = map (\<lambda>e. if ei_id e = ei_id i then e\<lparr>ei_current_email := Some (ic_email v), ei_preferred_username := ic_preferred_username v,
      ei_last_login_at := Some (ae_now env)\<rparr> else e) (st_identities st)" "st_sessions st' = st_sessions st"
    by (simp_all add: update_user_def update_external_identity_def)
  have "user_by_id st' (lu_id u) = Some (touched (ae_now env) u w)"
    using assms(1) w(1) unfolding st' by (subst user_by_id_update) (simp_all add: user_by_id_def update_external_identity_def)
  then show "\<exists>w. user_by_id st' (lu_id u) = Some w \<and> lu_id w = lu_id u \<and> lu_is_active w = lu_is_active u"
    using w by (auto simp: touched_def)
qed

definition linked :: "auth_state \<Rightarrow> oidc_provider \<Rightarrow> identity_claims \<Rightarrow> int \<Rightarrow> bool" where
  "linked st p v uid \<longleftrightarrow> (\<exists>i \<in> set (st_identities st). identity_key i = (op_id p, ic_iss v, ic_sub v) \<and> ei_user_id i = uid)"

lemma linked_update:
  assumes "linked st p v uid" "st_identities st' = map f (st_identities st)" "\<And>i. same_identity i (f i)"
  shows "linked st' p v uid"
proof -
  obtain i where "i \<in> set (st_identities st)" "identity_key i = (op_id p, ic_iss v, ic_sub v)" "ei_user_id i = uid"
    using assms(1) by (auto simp: linked_def)
  with assms(2) assms(3) [of i] show ?thesis by (auto simp: linked_def identity_key_def same_identity_def intro!: bexI [of _ i])
qed

lemma apply_profile_linked:
  assumes "user_by_id st (lu_id u) = Some u" "apply_profile env p u i v st = (c, st')" "linked st p v uid"
  shows "linked st' p v uid"
  by (rule linked_update [OF assms(3) apply_profile_keeps(2) [OF assms(1,2)]]) (simp add: same_identity_def)

lemma identity_of_SomeD: "identity_of st (op_id p) (ic_iss v) (ic_sub v) = Some i \<Longrightarrow> linked st p v (ei_user_id i)"
  by (auto simp: identity_of_def linked_def identity_key_def dest!: find_SomeD)

lemma known_identity_resolved:
  assumes "known_identity env p i v st = (Resolved uid new, st')" "identity_of st (op_id p) (ic_iss v) (ic_sub v) = Some i"
  shows "uid = ei_user_id i \<and> linked st' p v uid \<and> (\<exists>u. user_by_id st' uid = Some u \<and> lu_id u = uid \<and> lu_is_active u)"
proof -
  obtain u where u: "user_by_id st (ei_user_id i) = Some u" "lu_is_active u" "apply_profile env p u i v st = (None, st')" "uid = lu_id u"
    using assms(1) by (auto simp: known_identity_def split: option.splits if_splits prod.splits)
  then have id: "lu_id u = ei_user_id i" by (auto dest: user_by_id_SomeD)
  with u have "user_by_id st (lu_id u) = Some u" by simp
  then show ?thesis
    using apply_profile_keeps(1) [OF _ u(3)] apply_profile_linked [OF _ u(3)] identity_of_SomeD [OF assms(2)] u id by force
qed

lemma create_identity_linked:
  assumes "create_identity env p u v link_type linked_by st = Inr (i, st')" "user_by_id st (lu_id u) = Some u"
  shows "linked st' p v (lu_id u)" and "\<exists>w. user_by_id st' (lu_id u) = Some w \<and> lu_id w = lu_id u \<and> lu_is_active w = lu_is_active u"
    and "st_sessions st' = st_sessions st"
proof -
  show "linked st' p v (lu_id u)"
    using assms(1) by (auto simp: create_identity_def Let_def new_identity_row_def linked_def identity_key_def update_user_def identity_of_user_def
        split: option.splits if_splits dest!: find_SomeD)
  show "\<exists>w. user_by_id st' (lu_id u) = Some w \<and> lu_id w = lu_id u \<and> lu_is_active w = lu_is_active u"
  proof (cases "identity_of_user st (op_id p) (lu_id u)")
    case None
    then have st': "st' = update_user (ae_now env) (lu_id u) (\<lambda>w. w\<lparr>lu_authentication_type := (if has_password w then ''local_and_oidc'' else ''oidc'')\<rparr>)
        (st\<lparr>st_identities := st_identities st @ [i]\<rparr>)"
      using assms(1) by (auto simp: create_identity_def Let_def split: option.splits if_splits)
    have "user_by_id st' (lu_id u) = Some (touched (ae_now env) u (u\<lparr>lu_authentication_type := (if has_password u then ''local_and_oidc'' else ''oidc'')\<rparr>))"
      using assms(2) unfolding st' by (subst user_by_id_update) (simp_all add: user_by_id_def)
    then show ?thesis by (simp add: touched_def)
  next
    case Some
    with assms show ?thesis by (auto simp: create_identity_def split: option.splits if_splits)
  qed
  show "st_sessions st' = st_sessions st"
    using assms(1) by (auto simp: create_identity_def Let_def update_user_def split: option.splits if_splits)
qed

lemma find_last: "\<forall>x \<in> set xs. \<not> p x \<Longrightarrow> p y \<Longrightarrow> find p (xs @ [y]) = Some y"
  by (induction xs) auto

lemma unknown_identity_resolved:
  assumes "users_ok st" "unknown_identity env p t v st = (Resolved uid new, st')"
  shows "linked st' p v uid \<and> (\<exists>u. user_by_id st' uid = Some u \<and> lu_id u = uid \<and> lu_is_active u)"
proof -
  define matching where "matching = filter (\<lambda>u. lu_email u = ic_email v \<and> lu_is_active u) (st_users st)"
  define fresh where "fresh = provisioned_user env p v st"
  have by_id: "user_by_id st (lu_id u) = Some u" if "u \<in> set (st_users st)" for u
  proof -
    have "user_by_id st (lu_id u) \<noteq> None" using that by (auto simp: user_by_id_def find_None_iff)
    then obtain w where "user_by_id st (lu_id u) = Some w" by blast
    then show ?thesis using users_ok_unique [OF assms(1)] that user_by_id_SomeD by blast
  qed
  consider (auto) i st1 u where "length matching = 1" "create_identity env p (hd matching) v ''verified_email_match'' None st = Inr (i, st1)"
      "user_by_id st1 (lu_id (hd matching)) = Some u" "apply_profile env p u i v st1 = (None, st')" "uid = lu_id u"
    | (jit) i where "create_identity env p fresh v ''jit_provisioning'' None (st\<lparr>st_users := st_users st @ [fresh]\<rparr>) = Inr (i, st')" "uid = lu_id fresh"
    using assms(2) unfolding unknown_identity_def Let_def matching_def [symmetric] fresh_def [symmetric]
    by (auto split: if_splits sum.splits option.splits prod.splits)
  then show ?thesis
  proof cases
    case auto
    then have "matching \<noteq> []" by auto
    then have hd: "hd matching \<in> set (st_users st)" "lu_is_active (hd matching)"
      using hd_in_set [of matching] unfolding matching_def by simp_all
    note created = create_identity_linked [OF auto(2) by_id [OF hd(1)]]
    from created(2) auto(3) hd(2) have u: "lu_id u = lu_id (hd matching)" "lu_is_active u" by auto
    with auto(3) have here: "user_by_id st1 (lu_id u) = Some u" by simp
    show ?thesis
      using apply_profile_keeps(1) [OF here auto(4)] apply_profile_linked [OF here auto(4) created(1)] auto(5) u by auto
  next
    case jit
    have "lu_id fresh \<notin> lu_id ` set (st_users st)"
      using next_rowid_not_in [of "map lu_id (st_users st)"] by (auto simp: fresh_def provisioned_user_def Let_def simp del: next_rowid_not_in)
    then have "user_by_id (st\<lparr>st_users := st_users st @ [fresh]\<rparr>) (lu_id fresh) = Some fresh"
      unfolding user_by_id_def by simp (rule find_last, metis image_eqI, simp)
    from create_identity_linked [OF jit(1) this] show ?thesis using jit(2) by (auto simp: fresh_def provisioned_user_def Let_def)
  qed
qed

lemma resolve_login_resolved:
  assumes "users_ok st" "resolve_login env p t claims st = (Resolved uid new, st')"
  shows "\<exists>v. normalised_identity_claims env p claims = Inr v \<and> linked st' p v uid \<and>
    (\<forall>i. identity_of st (op_id p) (ic_iss v) (ic_sub v) = Some i \<longrightarrow> ei_user_id i = uid) \<and>
    (\<exists>u. user_by_id st' uid = Some u \<and> lu_id u = uid \<and> lu_is_active u)"
  using assms known_identity_resolved unknown_identity_resolved [OF assms(1)]
  by (auto simp: resolve_login_def split: sum.splits option.splits if_splits)

section \<open>Sign-in through a provider\<close>

lemma other_sessions [simp]:
  "st_sessions (write_audit env uid act metadata st) = st_sessions st"
  "st_sessions (snd (rate_limited env key limit st)) = st_sessions st"
  "st_sessions (delete_transaction t st) = st_sessions st"
  "st_sessions (update_provider now i f st) = st_sessions st"
  "st_sessions (update_user now j g st) = st_sessions st"
  "st_sessions (update_transaction h k st) = st_sessions st"
  "st_sessions (snd (apply_profile env p u e v st)) = st_sessions st"
  by (simp_all add: write_audit_def rate_limited_def Let_def delete_transaction_def update_provider_def update_user_def update_transaction_def
      apply_profile_def update_external_identity_def split: prod.split)

lemma callback_error_sessions [simp]: "st_sessions (snd (snd (callback_error env t c b st))) = st_sessions st"
  by (simp add: callback_error_def Let_def split: option.split)

lemma create_identity_sessions: "create_identity env p u v m l st = Inr (i, st') \<Longrightarrow> st_sessions st' = st_sessions st"
  by (auto simp: create_identity_def Let_def split: option.splits if_splits)

lemma resolve_login_sessions: "st_sessions (snd (resolve_login env p t claims st)) = st_sessions st"
proof -
  have profile: "st_sessions s' = st_sessions s" if "apply_profile env p u i v s = (c, s')" for u i v s c s'
    using other_sessions(7) [of env p u i v s] that by simp
  then have "st_sessions (snd (known_identity env p i v st)) = st_sessions st" for i v
    by (auto simp: known_identity_def split: option.splits prod.splits)
  moreover have "st_sessions (snd (unknown_identity env p t v st)) = st_sessions st" for v
    by (auto simp: unknown_identity_def Let_def split: sum.splits option.splits prod.splits dest!: profile create_identity_sessions)
  ultimately show ?thesis by (auto simp: resolve_login_def split: sum.splits option.splits)
qed

lemma signed_in_sessions:
  assumes "signed_in env t claims id_token p opaque b st = (response, b', st')" "st_sessions st' \<noteq> st_sessions st"
  shows "\<exists>uid new st1 u. resolve_login env p t claims st = (Resolved uid new, st1) \<and> user_by_id st1 uid = Some u \<and>
    bs_user_id b' = Some (lu_id u) \<and> st_users st' = st_users st1 \<and> st_identities st' = st_identities st1"
proof -
  obtain r st1 where r: "resolve_login env p t claims st = (r, st1)" by fastforce
  then have same: "st_sessions st1 = st_sessions st" using resolve_login_sessions [of env p t claims st] by simp
  have error: "st_sessions s = st_sessions st1" if "callback_error env x c b st1 = (response, b', s)" for x c s
    using callback_error_sessions [of env x c b st1] that by simp
  show ?thesis using assms r same error
    by (auto simp: signed_in_def Let_def start_session_as_def start_user_session_def update_login_session_def write_audit_def delete_transaction_def
        split: login_resolution.splits option.splits if_splits)
qed

lemma rate_limited_kept:
  assumes "rate_limited env key limit st = (l, st')"
  shows "st_users st' = st_users st \<and> st_providers st' = st_providers st \<and> st_identities st' = st_identities st \<and>
    st_sessions st' = st_sessions st \<and> st_transactions st' = st_transactions st"
  using assms by (auto simp: rate_limited_def Let_def split: if_splits)

lemma consume_transaction_kept:
  assumes "consume_transaction env opaque state st = Some (t, st')"
  shows "st_users st' = st_users st \<and> st_providers st' = st_providers st \<and> st_identities st' = st_identities st \<and> st_sessions st' = st_sessions st"
  using assms by (auto simp: consume_transaction_def Let_def split: if_splits)

lemma consume_transaction_SomeD:
  assumes "consume_transaction env opaque state st = Some (t, st')"
  shows "\<exists>x key. opaque = Some key \<and> x \<in> set (st_transactions st) \<and> usable_transaction env key state x"
proof -
  have one: "length (filter (usable_transaction env (opt_text_or opaque []) state) (st_transactions st)) = 1" "opt_text_or opaque [] \<noteq> []"
    using assms by (auto simp: consume_transaction_def Let_def split: if_splits)
  then obtain x xs where "filter (usable_transaction env (opt_text_or opaque []) state) (st_transactions st) = x # xs"
    by (cases "filter (usable_transaction env (opt_text_or opaque []) state) (st_transactions st)") auto
  then have "x \<in> set (filter (usable_transaction env (opt_text_or opaque []) state) (st_transactions st))" by simp
  then show ?thesis
    using one(2) by (cases opaque) (auto simp: opt_text_or_def text_or_def split: if_splits)
qed

text \<open>
  C14. Single sign-on reaches the linked account. When the callback of a provider starts a session, the browser carries the secret of an unused, unexpired transaction whose state the request
  repeats, the provider is enabled, and the session is for the active account to which the identity in the validated token is linked; an identity that was linked before never signs in to another account.
\<close>

theorem sso_reaches_the_linked_account:
  assumes "users_ok st" "oidc_callback env exchange state code fault b st = (response, b', st')" "st_sessions st' \<noteq> st_sessions st"
  shows "\<exists>t key p claims id_token v u. bs_transaction b = Some key \<and> t \<in> set (st_transactions st) \<and> usable_transaction env key state t \<and>
    p \<in> set (st_providers st) \<and> op_is_enabled p \<and> exchange = Inr (claims, id_token) \<and> normalised_identity_claims env p claims = Inr v \<and>
    u \<in> set (st_users st') \<and> lu_is_active u \<and> bs_user_id b' = Some (lu_id u) \<and> linked st' p v (lu_id u) \<and>
    (\<forall>i. identity_of st (op_id p) (ic_iss v) (ic_sub v) = Some i \<longrightarrow> ei_user_id i = lu_id u)"
proof -
  obtain limited st0 where l: "rate_limited env (''oidc-callback:'' @ client_key env) 20 st = (limited, st0)" by fastforce
  have error: "st_sessions s = st_sessions s0" if "callback_error env x c d s0 = (response, b', s)" for x c d s s0
    using callback_error_sessions [of env x c d s0] that by simp
  have same: "st_sessions st0 = st_sessions st" using rate_limited_kept [OF l] by simp
  obtain t st1 p claims id_token where c: "consume_transaction env (bs_transaction b) state st0 = Some (t, st1)"
      "provider_by_id st1 (ot_provider_id t) = Some p" "op_is_enabled p" "exchange = Inr (claims, id_token)"
      "signed_in env t claims id_token p (bs_transaction b) (b\<lparr>bs_transaction := None\<rparr>) st1 = (response, b', st')"
    using assms(2,3) l same error
    by (auto simp: oidc_callback_def complete_vault_assurance_def Let_def split: bool.splits if_splits option.splits sum.splits
        dest!: consume_transaction_kept)
  have kept: "st_users st1 = st_users st" "st_providers st1 = st_providers st" "st_identities st1 = st_identities st" "st_sessions st1 = st_sessions st"
    "st_transactions st0 = st_transactions st"
    using consume_transaction_kept [OF c(1)] rate_limited_kept [OF l] by simp_all
  then have "users_ok st1" using assms(1) by (simp add: users_ok_def)
  from signed_in_sessions [OF c(5)] obtain uid new st2 u where r: "resolve_login env p t claims st1 = (Resolved uid new, st2)"
    "user_by_id st2 uid = Some u" "bs_user_id b' = Some (lu_id u)" "st_users st' = st_users st2" "st_identities st' = st_identities st2"
    using assms(3) kept by auto
  obtain v where v: "normalised_identity_claims env p claims = Inr v" "linked st2 p v uid" "lu_is_active u"
    "\<forall>i. identity_of st1 (op_id p) (ic_iss v) (ic_sub v) = Some i \<longrightarrow> ei_user_id i = uid"
    using resolve_login_resolved [OF \<open>users_ok st1\<close> r(1)] r(2) by auto
  obtain x key where x: "bs_transaction b = Some key" "x \<in> set (st_transactions st)" "usable_transaction env key state x"
    using consume_transaction_SomeD [OF c(1)] kept by auto
  have "p \<in> set (st_providers st)" using c(2) kept by (auto simp: provider_by_id_def dest: find_SomeD)
  moreover have "u \<in> set (st_users st')" "lu_id u = uid" using user_by_id_SomeD [OF r(2)] r(4) by auto
  moreover have "linked st' p v uid" using v(2) r(5) by (simp add: linked_def)
  moreover have "\<forall>i. identity_of st (op_id p) (ic_iss v) (ic_sub v) = Some i \<longrightarrow> ei_user_id i = uid"
    using v(4) kept by (simp add: identity_of_def)
  ultimately show ?thesis using x c(3,4) v(1,3) r(3) by blast
qed

end
