(* ===== verification/Auth_Login_Props.thy ===== *)
theory Auth_Login_Props
  imports Auth_Link_Props
begin

text \<open>
  Local sign-in: how often a password can be tried, why the emergency sign-in is not covered by that limit, and what a session proves.
\<close>

section \<open>Guessing\<close>

lemma sql_like_percent: "sql_like (CHR ''%'' # p) (a @ s)" if "sql_like p s"
  using that by (induction a) (cases s; auto)+

lemma sql_like_refl: "sql_like p p"
proof (induction p)
  case (Cons c p)
  then show ?case using sql_like_percent [of p p "[]"] by auto
qed simp

lemma sql_like_append: "sql_like p a \<Longrightarrow> sql_like q b \<Longrightarrow> sql_like (p @ q) (a @ b)"
proof (induction p a rule: sql_like.induct)
  case (1 s)
  then show ?case by simp
next
  case (2 p ps)
  then show ?case by (cases b) auto
next
  case (3 p ps c s)
  then show ?case by (auto split: if_splits)
qed

lemma sql_contains_append: "sql_contains m (a @ m @ b)"
proof -
  have "sql_like ''%'' b" using sql_like_percent [of "[]" "[]" b] by simp
  then have "sql_like (m @ ''%'') (m @ b)" by (rule sql_like_append [OF sql_like_refl])
  then show ?thesis using sql_like_percent [of "m @ ''%''" "m @ b" a] by (simp add: sql_contains_def)
qed

text \<open>An address that \<open>json.dumps\<close> writes as it is: no control character, quotation mark or backslash, nothing outside ASCII.\<close>

definition plain :: "string \<Rightarrow> bool" where
  "plain e \<longleftrightarrow> list_all (\<lambda>c. json_char c = [c]) e"

lemma concat_singletons: "list_all (\<lambda>c. f c = [c]) xs \<Longrightarrow> concat (map f xs) = xs"
  by (induction xs) auto

lemma json_char_cases: "json_char c = [c] \<or> CHR 0x5C \<in> set (json_char c)"
  by (auto simp: json_char_def)

lemma plain_backslash: "plain e \<Longrightarrow> CHR 0x5C \<notin> set e"
  by (auto simp: plain_def list_all_iff json_char_def dest!: bspec [where x = "CHR 0x5C"])

lemma json_text_plain:
  assumes "json_text a = json_text e" "plain e"
  shows "a = e"
proof -
  have e: "concat (map json_char e) = e" using assms(2) by (simp add: plain_def concat_singletons)
  then have "concat (map json_char a) = e" using assms(1) by (simp add: json_text_def)
  moreover have "list_all (\<lambda>c. json_char c = [c]) a"
  proof (rule ccontr)
    assume "\<not> ?thesis"
    then obtain c where "c \<in> set a" "json_char c \<noteq> [c]" by (auto simp: list_all_iff)
    then have "CHR 0x5C \<in> set (concat (map json_char a))" using json_char_cases [of c] by auto
    with calculation plain_backslash [OF assms(2)] show False by simp
  qed
  ultimately show ?thesis by (simp add: concat_singletons)
qed

lemma plain_take: "plain e \<Longrightarrow> plain (take n e)"
  unfolding plain_def by (metis append_take_drop_id list_all_append)

lemma plain_metadata:
  assumes "plain e"
  shows "sql_contains (email_pattern e) (json_dumps (JObj [(''attempted_email'', JStr (take 255 e))]))"
proof -
  have "plain (take 255 e)" using assms by (rule plain_take)
  then have "json_text (take 255 e) = [CHR 0x22] @ take 255 e @ [CHR 0x22]"
    unfolding plain_def json_text_def by (simp add: concat_singletons)
  then have "json_dumps (JObj [(''attempted_email'', JStr (take 255 e))]) = ''{'' @ email_pattern e @ ''}''"
    by (simp add: email_pattern_def json_text_def json_char_def)
  then show ?thesis by (simp only: sql_contains_append)
qed

definition failed_for :: "string \<Rightarrow> audit_log_row \<Rightarrow> bool" where
  "failed_for e a \<longleftrightarrow> au_action a = ''login_failed'' \<and> au_metadata a = attempted_email_metadata e"

lemma failed_for_counts:
  assumes "plain e" "e \<noteq> []" "failed_for e a" "au_created_at a \<ge> ae_now env - LOGIN_WINDOW"
  shows "counts_against env e a"
  using assms plain_metadata [OF assms(1)] by (simp add: failed_for_def counts_against_def attempted_email_metadata_def del: json_dumps.simps)

definition within :: "string \<Rightarrow> time \<Rightarrow> audit_log_row list \<Rightarrow> audit_log_row list" where
  "within e t = filter (\<lambda>a. failed_for e a \<and> t - LOGIN_WINDOW \<le> au_created_at a \<and> au_created_at a \<le> t)"

text \<open>The rows before each failure leave room for it.\<close>

definition paced :: "string \<Rightarrow> audit_log_row list \<Rightarrow> bool" where
  "paced e rows \<longleftrightarrow> (\<forall>xs a ys. rows = xs @ a # ys \<longrightarrow> failed_for e a \<longrightarrow>
     length (filter (\<lambda>x. failed_for e x \<and> au_created_at a - LOGIN_WINDOW \<le> au_created_at x) xs) < MAX_LOGIN_ATTEMPTS)"

lemma paced_snoc:
  assumes "paced e rows" "failed_for e a \<Longrightarrow> length (filter (\<lambda>x. failed_for e x \<and> au_created_at a - LOGIN_WINDOW \<le> au_created_at x) rows) < MAX_LOGIN_ATTEMPTS"
  shows "paced e (rows @ [a])"
  unfolding paced_def
proof (intro allI impI)
  fix xs b ys
  assume split: "rows @ [a] = xs @ b # ys" and b: "failed_for e b"
  show "length (filter (\<lambda>x. failed_for e x \<and> au_created_at b - LOGIN_WINDOW \<le> au_created_at x) xs) < MAX_LOGIN_ATTEMPTS"
  proof (cases ys rule: rev_cases)
    case Nil
    with split b assms(2) show ?thesis by simp
  next
    case (snoc zs z)
    with split have "rows = xs @ b # zs" by simp
    with assms(1) b show ?thesis unfolding paced_def by blast
  qed
qed

lemma length_filter_mono: "(\<And>x. x \<in> set xs \<Longrightarrow> p x \<Longrightarrow> q x) \<Longrightarrow> length (filter p xs) \<le> length (filter q xs)"
  by (induction xs) (auto simp: le_SucI)

lemma paced_window: "paced e rows \<Longrightarrow> length (within e t rows) \<le> MAX_LOGIN_ATTEMPTS"
proof (induction rows rule: rev_induct)
  case Nil
  then show ?case by (simp add: within_def)
next
  case (snoc a rows)
  have before: "paced e rows" using snoc.prems unfolding paced_def by (metis append.assoc append_Cons)
  show ?case
  proof (cases "within e t [a] = []")
    case True
    with snoc.IH [OF before] show ?thesis by (simp add: within_def split: if_splits)
  next
    case False
    then have a: "failed_for e a" "au_created_at a \<le> t" by (auto simp: within_def split: if_splits)
    have "length (within e t rows) \<le> length (filter (\<lambda>x. failed_for e x \<and> au_created_at a - LOGIN_WINDOW \<le> au_created_at x) rows)"
      unfolding within_def by (rule length_filter_mono) (use a(2) in auto)
    also have "\<dots> < MAX_LOGIN_ATTEMPTS" using snoc.prems a(1) unfolding paced_def by blast
    finally show ?thesis by (simp add: within_def)
  qed
qed

lemma metadata_text: "json_dumps (JObj [(k, JStr t)]) = ''{'' @ json_text k @ '':'' @ json_text t @ ''}''"
  by simp

lemma same_address:
  assumes "plain e" "attempted_email_metadata address = attempted_email_metadata e"
  shows "take 255 address = take 255 e"
proof -
  have "json_text (take 255 address) = json_text (take 255 e)" using assms(2) by (simp add: attempted_email_metadata_def metadata_text del: json_dumps.simps)
  then show ?thesis using plain_take [OF assms(1)] by (rule json_text_plain)
qed

lemma paced_write:
  assumes "plain e" "e \<noteq> []"
  shows "auth_write env st st' \<Longrightarrow> paced e (st_audit st) \<Longrightarrow> paced e (st_audit st')"
proof (induction rule: auth_write.induct)
  case (Audit act st uid metadata)
  then show ?case unfolding write_audit_def by (simp, intro paced_snoc) (simp_all add: failed_for_def)
next
  case (Failure address st)
  let ?row = "\<lparr>au_user_id = None, au_action = ''login_failed'', au_ip_address = ae_client env, au_metadata = attempted_email_metadata address, au_created_at = ae_now env\<rparr>"
  have "length (filter (\<lambda>x. failed_for e x \<and> au_created_at ?row - LOGIN_WINDOW \<le> au_created_at x) (st_audit st)) < MAX_LOGIN_ATTEMPTS" if "failed_for e ?row"
  proof -
    have same: "take 255 address = take 255 e" using that assms(1) by (intro same_address) (simp_all add: failed_for_def)
    then have "address \<noteq> []" using assms(2) by auto
    have pattern: "email_pattern address = email_pattern e" by (simp only: email_pattern_def same)
    have "counts_against env address = counts_against env e"
      unfolding counts_against_def fun_eq_iff pattern using \<open>address \<noteq> []\<close> assms(2) by simp
    then have "length (filter (\<lambda>x. failed_for e x \<and> au_created_at ?row - LOGIN_WINDOW \<le> au_created_at x) (st_audit st))
        \<le> length (filter (counts_against env address) (st_audit st))"
      using failed_for_counts [OF assms] by (intro length_filter_mono) simp
    with Failure(1) show ?thesis by simp
  qed
  then have "paced e (st_audit st @ [?row])" using Failure(2) by (intro paced_snoc) blast+
  then show ?case by (simp add: write_audit_def)
qed (auto simp: update_login_session_def start_user_session_def update_user_def update_external_identity_def update_provider_def split: if_splits)

lemma paced_steps:
  assumes "auth_step\<^sup>*\<^sup>* st st'" "plain e" "e \<noteq> []" "paced e (st_audit st)"
  shows "paced e (st_audit st')"
  using assms
proof (induction rule: rtranclp_induct)
  case (step s s')
  have "paced e (st_audit (s\<lparr>st_users := us, st_providers := ps, st_settings := settings\<rparr>))" for us ps settings
    using step by simp
  with step paced_write [OF assms(2,3)] show ?case
    by (intro auth_step_keep [OF step(2), where P = "\<lambda>x. paced e (st_audit x)"]) blast+
qed simp

text \<open>A wrong password is always recorded.\<close>

lemma failure_is_recorded:
  assumes "login env dummy email password code csrf b st = (Page 401 ''Invalid email or password'', b', st')"
  shows "\<exists>a. failed_for (lower1 (strip1 email)) a \<and> au_created_at a = ae_now env \<and> st_audit st' = st_audit st @ [a]"
proof -
  obtain limited st1 where l: "login_is_limited env (lower1 (strip1 email)) st = (limited, st1)" by fastforce
  then have "st_audit st1 = st_audit st" by (auto simp: login_is_limited_def split: prod.splits)
  with assms l show ?thesis
    by (auto simp: login_def Let_def first_step_def second_step_def sign_in_def bad_form_token_def page_def write_audit_def failed_for_def
        record_login_failure_def split: if_splits option.splits bool.splits prod.splits)
qed


section \<open>The emergency sign-in\<close>

text \<open>One attempt with the same password from each of a list of clients.\<close>

primrec emergency_attempts :: "auth_env \<Rightarrow> string \<Rightarrow> string \<Rightarrow> string \<Rightarrow> browser_session \<Rightarrow> string list \<Rightarrow> auth_state \<Rightarrow> auth_state" where
  "emergency_attempts env email password csrf b [] st = st"
| "emergency_attempts env email password csrf b (c # cs) st =
     emergency_attempts env email password csrf b cs (snd (snd (emergency_login_submit (env\<lparr>ae_client := Some c\<rparr>) email password [] csrf b st)))"

definition unlimited :: "string list \<Rightarrow> auth_state \<Rightarrow> bool" where
  "unlimited cs st \<longleftrightarrow> (\<forall>a \<in> set (st_audit st). au_action a = ''break_glass_login_failed'') \<and> (\<forall>c \<in> set cs. map_of (st_login_failures st) c = None)"

lemma unlimited_not_limited:
  assumes "unlimited cs st" "c \<in> set cs"
  shows "login_is_limited (env\<lparr>ae_client := Some c\<rparr>) email st = (False, st\<lparr>st_login_failures := dict_put c [] (st_login_failures st)\<rparr>)"
proof -
  have "filter (counts_against (env\<lparr>ae_client := Some c\<rparr>) email) (st_audit st) = []"
    using assms(1) by (auto simp: unlimited_def counts_against_def filter_empty_conv)
  with assms show ?thesis
    by (simp add: login_is_limited_def recent_logins_def stored_attempts_def client_key_def unlimited_def MAX_LOGIN_ATTEMPTS_def Let_def)
qed

lemma emergency_failure:
  assumes "unlimited (c # cs) st" "c \<notin> set cs" "emergency_enabled st" "validate_csrf_token b csrf" "bs_pending_break_glass b = None"
    "break_glass_user st (\<lambda>u. lu_email u = lower1 (strip1 email)) = Some u" "\<not> verify_password env password (lu_password_hash u)"
  shows "\<exists>a cache. emergency_login_submit (env\<lparr>ae_client := Some c\<rparr>) email password [] csrf b st =
      (Page 401 ''Invalid email, password, or authentication code.'', csrf_context env b, st\<lparr>st_audit := st_audit st @ [a], st_login_failures := cache\<rparr>) \<and>
    au_action a = ''break_glass_login_failed'' \<and> au_user_id a = Some (lu_id u) \<and> unlimited cs (st\<lparr>st_audit := st_audit st @ [a], st_login_failures := cache\<rparr>)"
proof -
  let ?e = "env\<lparr>ae_client := Some c\<rparr>"
  let ?st1 = "st\<lparr>st_login_failures := dict_put c [] (st_login_failures st)\<rparr>"
  let ?a = "\<lparr>au_user_id = Some (lu_id u), au_action = ''break_glass_login_failed'', au_ip_address = Some c, au_metadata = None, au_created_at = ae_now env\<rparr>"
  let ?cache = "note_attempt ?e LOGIN_WINDOW c (dict_put c [] (st_login_failures st))"
  have limited: "login_is_limited ?e (lower1 (strip1 email)) st = (False, ?st1)" using unlimited_not_limited [OF assms(1)] by simp
  have found: "break_glass_user ?st1 (\<lambda>u. lu_email u = lower1 (strip1 email)) = Some u" using assms(6) by (simp add: break_glass_user_def)
  have wrong: "\<not> verify_password ?e password (lu_password_hash u)" using assms(7) by (simp add: verify_password_def Let_def)
  have "emergency_login_submit ?e email password [] csrf b st = emergency_failed ?e (Some u) b ?st1"
    using assms(3-5) limited found wrong by (simp add: emergency_login_submit_def Let_def)
  also have "\<dots> = (Page 401 ''Invalid email, password, or authentication code.'', csrf_context env b, st\<lparr>st_audit := st_audit st @ [?a], st_login_failures := ?cache\<rparr>)"
    by (simp add: emergency_failed_def page_def write_audit_def record_login_failure_def client_key_def csrf_context_def)
  finally have step: "emergency_login_submit ?e email password [] csrf b st =
    (Page 401 ''Invalid email, password, or authentication code.'', csrf_context env b, st\<lparr>st_audit := st_audit st @ [?a], st_login_failures := ?cache\<rparr>)" .
  have "unlimited cs (st\<lparr>st_audit := st_audit st @ [?a], st_login_failures := ?cache\<rparr>)"
    using assms(1,2) by (auto simp: unlimited_def note_attempt_def recent_logins_def Let_def map_of_dict_put)
  with step show ?thesis by (intro exI [of _ ?a] exI [of _ ?cache]) simp
qed

lemma emergency_attempts_unlimited:
  assumes "unlimited (cs @ [c]) st" "distinct (cs @ [c])" "emergency_enabled st" "validate_csrf_token b csrf" "bs_pending_break_glass b = None"
    "break_glass_user st (\<lambda>u. lu_email u = lower1 (strip1 email)) = Some u" "\<not> verify_password env password (lu_password_hash u)"
  shows "\<exists>rows cache. emergency_attempts env email password csrf b cs st = st\<lparr>st_audit := st_audit st @ rows, st_login_failures := cache\<rparr> \<and>
    length rows = length cs \<and> (\<forall>a \<in> set rows. au_action a = ''break_glass_login_failed'' \<and> au_user_id a = Some (lu_id u)) \<and>
    unlimited [c] (st\<lparr>st_audit := st_audit st @ rows, st_login_failures := cache\<rparr>)"
  using assms(1-3,6)
proof (induction cs arbitrary: st)
  case Nil
  then show ?case by (intro exI [of _ "[]"] exI [of _ "st_login_failures st"]) simp
next
  case (Cons d cs)
  obtain a cache where step: "emergency_login_submit (env\<lparr>ae_client := Some d\<rparr>) email password [] csrf b st =
      (Page 401 ''Invalid email, password, or authentication code.'', csrf_context env b, st\<lparr>st_audit := st_audit st @ [a], st_login_failures := cache\<rparr>)"
    "au_action a = ''break_glass_login_failed''" "au_user_id a = Some (lu_id u)"
    "unlimited (cs @ [c]) (st\<lparr>st_audit := st_audit st @ [a], st_login_failures := cache\<rparr>)"
    using emergency_failure [of d "cs @ [c]" st b csrf email u env password] Cons.prems assms(4,5,7) by auto
  obtain rows cache' where rest: "emergency_attempts env email password csrf b cs (st\<lparr>st_audit := st_audit st @ [a], st_login_failures := cache\<rparr>) =
      st\<lparr>st_audit := (st_audit st @ [a]) @ rows, st_login_failures := cache'\<rparr>" "length rows = length cs"
    "\<forall>a \<in> set rows. au_action a = ''break_glass_login_failed'' \<and> au_user_id a = Some (lu_id u)"
    "unlimited [c] (st\<lparr>st_audit := (st_audit st @ [a]) @ rows, st_login_failures := cache'\<rparr>)"
    using Cons.IH [OF step(4)] Cons.prems by (auto simp: emergency_enabled_def break_glass_user_def)
  show ?case using step rest by (intro exI [of _ "a # rows"] exI [of _ cache']) simp
qed

text \<open>
  C36. The emergency sign-in is not limited by account. Its failures are recorded under an action that the limit does not count. From as many different clients as one likes, the password of a break-glass administrator
  can be tried within one instant: each attempt is compared with the stored hash, and the right password is still accepted afterwards.
\<close>

theorem emergency_guesses_are_unbounded:
  assumes "st_audit st = []" "st_login_failures st = []" "emergency_enabled st" "distinct (cs @ [c])"
    and "break_glass_user st (\<lambda>u. lu_email u = lower1 (strip1 email)) = Some u" "has_password u" "\<not> lu_totp_enabled u"
    and "\<not> verify_password env wrong (lu_password_hash u)" "verify_password env right (lu_password_hash u)"
    and "validate_csrf_token b csrf" "bs_pending_break_glass b = None" "ae_session_token env \<notin> ss_session_id ` set (st_sessions st)"
  shows "length (filter (\<lambda>a. au_action a = ''break_glass_login_failed'' \<and> au_user_id a = Some (lu_id u))
      (st_audit (emergency_attempts env email wrong csrf b cs st))) = length cs \<and>
    fst (emergency_login_submit (env\<lparr>ae_client := Some c\<rparr>) email right [] csrf b (emergency_attempts env email wrong csrf b cs st)) = Redirect ''/''"
proof -
  have "unlimited (cs @ [c]) st" using assms(1,2) by (simp add: unlimited_def)
  then obtain rows cache where r: "emergency_attempts env email wrong csrf b cs st = st\<lparr>st_audit := rows, st_login_failures := cache\<rparr>"
    "length rows = length cs" "\<forall>a \<in> set rows. au_action a = ''break_glass_login_failed'' \<and> au_user_id a = Some (lu_id u)"
    "unlimited [c] (st\<lparr>st_audit := rows, st_login_failures := cache\<rparr>)"
    using emergency_attempts_unlimited [of cs c st b csrf email u env wrong] assms by auto
  let ?e = "env\<lparr>ae_client := Some c\<rparr>" and ?st = "st\<lparr>st_audit := rows, st_login_failures := cache\<rparr>"
  have limited: "login_is_limited ?e (lower1 (strip1 email)) ?st = (False, ?st\<lparr>st_login_failures := dict_put c [] cache\<rparr>)"
    using unlimited_not_limited [OF r(4)] by simp
  have right: "verify_password ?e right (lu_password_hash u)" using assms(9) by (simp add: verify_password_def Let_def)
  have found: "break_glass_user (?st\<lparr>st_login_failures := dict_put c [] cache\<rparr>) (\<lambda>u. lu_email u = lower1 (strip1 email)) = Some u"
    using assms(5) by (simp add: break_glass_user_def)
  have enabled: "emergency_enabled ?st" using assms(3) by (simp add: emergency_enabled_def)
  have "fst (emergency_login_submit ?e email right [] csrf b ?st) = Redirect ''/''"
    using assms limited right found enabled
    by (simp add: emergency_login_submit_def Let_def emergency_sign_in_def start_session_as_def start_user_session_def opt_text_or_def)
  moreover have "filter (\<lambda>a. au_action a = ''break_glass_login_failed'' \<and> au_user_id a = Some (lu_id u)) rows = rows" using r(3) by simp
  ultimately show ?thesis using r(1,2) by simp
qed

section \<open>What a local session proves\<close>

text \<open>The account whose password a login request proves.\<close>

fun password_proof :: "auth_env \<Rightarrow> auth_request \<Rightarrow> auth_state \<Rightarrow> int option" where
  "password_proof env (Login dummy email password code csrf) st =
     (let found = active_user_by_email st (lower1 (strip1 email)) in if password_accepted env dummy password found then map_option lu_id found else None)"
| "password_proof env _ st = None"

text \<open>
  The system with the browser sessions that it has handed out and the accounts whose password was proven. A browser presents one of them, not
  necessarily the latest: the server cannot tell a copy of an old cookie from the current one, but it can tell a forged one.
\<close>

inductive auth_world :: "auth_state \<Rightarrow> browser_session set \<Rightarrow> int set \<Rightarrow> bool" where
  Begin: "auth_world st {cleared_session} {}"
| Serve: "auth_world st issued proven \<Longrightarrow> b \<in> issued \<Longrightarrow> handle env r b st = (response, b', st') \<Longrightarrow>
    auth_world st' (insert b' issued) (proven \<union> set_option (password_proof env r st))"
| Restart: "auth_world st issued proven \<Longrightarrow>
    auth_world (st\<lparr>st_login_failures := [], st_reset_attempts := [], st_action_attempts := []\<rparr>) issued proven"
| Administration: "auth_world st issued proven \<Longrightarrow> auth_world (st\<lparr>st_users := us, st_providers := ps, st_settings := settings\<rparr>) issued proven"

definition keeps_pending :: "browser_session \<Rightarrow> browser_session \<Rightarrow> bool" where
  "keeps_pending b b' \<longleftrightarrow> bs_pending_2fa b' = None \<or> bs_pending_2fa b' = bs_pending_2fa b"

lemma keeps_pending_simps [simp]:
  "keeps_pending b b" "keeps_pending b cleared_session" "keeps_pending b (csrf_context env d) = keeps_pending b d"
  "keeps_pending b (d\<lparr>bs_transaction := x\<rparr>) = keeps_pending b d" "keeps_pending b (d\<lparr>bs_invitation := y\<rparr>) = keeps_pending b d"
  "keeps_pending b (d\<lparr>bs_vault_approval := z\<rparr>) = keeps_pending b d" "keeps_pending b (d\<lparr>bs_pending_break_glass := g\<rparr>) = keeps_pending b d"
  "keeps_pending b (d\<lparr>bs_user_id := u\<rparr>) = keeps_pending b d" "keeps_pending b (d\<lparr>bs_user_id := u, bs_method := m\<rparr>) = keeps_pending b d"
  "keeps_pending b (d\<lparr>bs_pending_2fa := None\<rparr>)"
  by (simp_all add: keeps_pending_def csrf_context_def cleared_session_def)

lemma page_browser [simp]: "fst (snd (page env status content b st)) = csrf_context env b"
  by (simp add: page_def)

lemma bad_form_token_browser [simp]: "fst (snd (bad_form_token b st)) = b"
  by (simp add: bad_form_token_def)

lemma current_user_pending: "keeps_pending b (fst (snd (current_user env b st)))"
  by (auto simp: current_user_def touch_user_session_def Let_def keeps_pending_def cleared_session_def split: option.split)

lemma keeps_pending_trans: "keeps_pending b d \<Longrightarrow> keeps_pending d e \<Longrightarrow> keeps_pending b e"
  by (auto simp: keeps_pending_def)

lemma require_user_pending:
  assumes "\<And>u d st'. keeps_pending d (fst (snd (handler u d st')))"
  shows "keeps_pending b (fst (snd (require_user env b st handler)))"
proof -
  obtain u d st' where c: "current_user env b st = (u, d, st')" by (metis prod_cases3)
  then have d: "keeps_pending b d" using current_user_pending [of b env st] by simp
  show ?thesis
  proof (cases u)
    case (Some v)
    have "keeps_pending b (fst (snd (handler v d st')))" using d assms keeps_pending_trans by blast
    then show ?thesis using c Some by (auto simp: require_user_def split: prod.split auth_response.split)
  qed (simp add: c d require_user_def)
qed

lemma require_admin_pending:
  assumes "\<And>u d st'. keeps_pending d (fst (snd (handler u d st')))"
  shows "keeps_pending b (fst (snd (require_admin env b st handler)))"
  unfolding require_admin_def by (rule require_user_pending) (use assms in auto)

lemma start_session_pending: "start_session_as env u way id_token d st = Some (b', st') \<Longrightarrow> keeps_pending b b'"
  by (auto simp: start_session_as_def start_user_session_def Let_def keeps_pending_def cleared_session_def split: option.splits if_splits)

lemma sign_in_pending: "keeps_pending b (fst (snd (sign_in env u b st)))"
  by (auto simp: sign_in_def start_user_session_def keeps_pending_def cleared_session_def split: option.splits)

lemma begin_pending: "keeps_pending b (fst (snd (begin_oidc env reach p flow target initiated invitation return_path b st)))"
  by (auto simp: begin_oidc_def Let_def split: option.split bool.split prod.split)

lemma begin_pending_invitation:
  "keeps_pending b (fst (snd (begin_oidc env reach p flow target initiated invitation return_path (b\<lparr>bs_invitation := x\<rparr>) st)))"
  using begin_pending [of "b\<lparr>bs_invitation := x\<rparr>"] by (simp add: keeps_pending_def)

lemma callback_error_pending: "keeps_pending b (fst (snd (callback_error env t c (b\<lparr>bs_transaction := x\<rparr>) st)))"
  by (simp add: callback_error_def Let_def)

lemma callback_pending: "keeps_pending b (fst (snd (oidc_callback env exchange state code fault b st)))"
  by (auto simp: oidc_callback_def complete_vault_assurance_def signed_in_def callback_error_pending Let_def
      split: option.split bool.split sum.split prod.split login_resolution.split dest: start_session_pending)

lemma other_pending:
  assumes "\<And>dummy email password code csrf. r \<noteq> Login dummy email password code csrf"
  shows "keeps_pending b (fst (snd (handle env r b st)))"
proof (cases r)
  case (Login dummy email password code csrf)
  with assms show ?thesis by blast
next
  case (Confirm_link password csrf)
  then show ?thesis
    by (auto simp: link_confirm_submit_def Let_def split: option.split bool.split prod.split sum.split dest: start_session_pending)
next
  case (Emergency_login email password code csrf)
  then show ?thesis
    by (auto simp: emergency_login_submit_def emergency_failed_def emergency_sign_in_def Let_def split: option.split bool.split prod.split
        dest: start_session_pending)
next
  case (Oidc_callback exchange state code fault)
  then show ?thesis by (simp add: callback_pending)
next
  case (Forgot_password sent email csrf)
  then show ?thesis by (auto simp: forgot_password_submit_def Let_def split: option.split prod.split)
qed (auto simp: login_page_def setup_page_def setup_submit_def reset_password_page_def reset_password_submit_def emergency_login_page_def
    sign_out_def oidc_login_def update_profile_password_def start_profile_2fa_def enable_profile_2fa_def disable_profile_2fa_def profile_identity_link_def
    profile_identity_unlink_def admin_unlink_identity_def create_link_invitation_def accept_link_invitation_def open_link_invitation_def
    invitation_confirm_submit_def revoke_link_invitation_def Let_def begin_pending begin_pending_invitation
    split: option.split bool.split prod.split sum.split intro!: require_user_pending require_admin_pending begin_pending)

lemma login_pending:
  assumes "bs_pending_2fa (fst (snd (login env dummy email password code csrf b st))) = Some uid"
  shows "bs_pending_2fa b = Some uid \<or> password_proof env (Login dummy email password code csrf) st = Some uid"
proof -
  obtain limited st1 where l: "login_is_limited env (lower1 (strip1 email)) st = (limited, st1)" by fastforce
  then have same: "st_users st1 = st_users st" by (auto simp: login_is_limited_def split: prod.splits)
  have kept: "bs_pending_2fa b = Some uid" if "bs_pending_2fa (fst (snd (sign_in env u b st1))) = Some uid" for u
    using sign_in_pending [of b env u st1] that by (simp add: keeps_pending_def)
  have csrf: "bs_pending_2fa (csrf_context env d) = bs_pending_2fa d" for d by (simp add: csrf_context_def)
  have second: "bs_pending_2fa b = Some uid" if "bs_pending_2fa (fst (snd (second_step env i code b st1))) = Some uid" for i
    using that kept by (auto simp: second_step_def Let_def csrf split: option.splits if_splits)
  have first: "bs_pending_2fa b = Some uid \<or> password_proof env (Login dummy email password code csrf) st = Some uid"
    if "bs_pending_2fa (fst (snd (first_step env dummy (lower1 (strip1 email)) password b st1))) = Some uid"
    using that kept same by (auto simp: first_step_def Let_def csrf active_user_by_email_def cleared_session_def split: option.splits if_splits)
  show ?thesis using assms l first second by (auto simp: login_def Let_def csrf split: if_splits option.splits bool.splits)
qed

lemma pending_is_proven: "auth_world st issued proven \<Longrightarrow> b \<in> issued \<Longrightarrow> bs_pending_2fa b = Some uid \<Longrightarrow> uid \<in> proven"
proof (induction arbitrary: b uid rule: auth_world.induct)
  case (Begin st)
  then show ?case by (simp add: cleared_session_def)
next
  case (Serve st issued proven b0 env r response b' st')
  show ?case
  proof (cases "b = b'")
    case True
    have "bs_pending_2fa b0 = Some uid \<or> password_proof env r st = Some uid"
    proof (cases "\<exists>dummy email password code csrf. r = Login dummy email password code csrf")
      case login: True
      then obtain dummy email password code csrf where r: "r = Login dummy email password code csrf" by blast
      with Serve.hyps(3) True Serve.prems(2) login_pending [of env dummy email password code csrf b0 st uid] show ?thesis by simp
    next
      case False
      then have "keeps_pending b0 b'" using other_pending [of r b0 env st] Serve.hyps(3) by auto
      with True Serve.prems(2) show ?thesis by (auto simp: keeps_pending_def)
    qed
    then show ?thesis using Serve.IH [OF Serve.hyps(2)] by auto
  next
    case False
    then show ?thesis using Serve by auto
  qed
qed blast+

lemma sign_in_sessions:
  assumes "sign_in env u b st = (response, b', st')" "st_sessions st' \<noteq> st_sessions st"
  shows "bs_user_id b' = Some (lu_id u)" "\<exists>s. st_sessions st' = st_sessions st @ [s] \<and> ss_user_id s = lu_id u"
  using assms by (auto simp: sign_in_def start_user_session_def forget_failures_def split: option.splits if_splits)

text \<open>
  C13. A local session proves its credentials. When the login form starts a session in a system that was reached by any requests, with any browser session that the system has handed out, the session is for an active account, local sign-in
  is allowed, and the request or an earlier one has proven the password of that account; where two-factor sign-in is enabled, the request itself carries a valid code.
\<close>

theorem local_session_proves_credentials:
  assumes "auth_world st issued proven" "b \<in> issued" "login env dummy email password code csrf b st = (response, b', st')" "st_sessions st' \<noteq> st_sessions st"
  shows "\<exists>u s. u \<in> set (st_users st) \<and> lu_is_active u \<and> normal_local_login_allowed st \<and> bs_user_id b' = Some (lu_id u) \<and>
    st_sessions st' = st_sessions st @ [s] \<and> ss_user_id s = lu_id u \<and>
    (lu_totp_enabled u \<and> verify_totp env (decrypted_totp_secret env u) code = Some True \<and> lu_id u \<in> proven \<or>
     \<not> lu_totp_enabled u \<and> lu_email u = lower1 (strip1 email) \<and> verify_password env password (lu_password_hash u))"
proof -
  obtain limited st1 where l: "login_is_limited env (lower1 (strip1 email)) st = (limited, st1)" by fastforce
  then have same: "st_users st1 = st_users st" "st_sessions st1 = st_sessions st" by (auto simp: login_is_limited_def split: prod.splits)
  have allowed: "normal_local_login_allowed st" "\<not> limited"
    using assms(3,4) l same by (auto simp: login_def Let_def bad_form_token_def page_def split: if_splits)
  have start: "bs_user_id b' = Some (lu_id u) \<and> (\<exists>s. st_sessions st' = st_sessions st @ [s] \<and> ss_user_id s = lu_id u)"
    if "sign_in env u b st1 = (response, b', st')" for u
    using sign_in_sessions [OF that] assms(4) same by simp
  consider (second) uid where "bs_pending_2fa b = Some uid" "second_step env uid code b st1 = (response, b', st')"
    | (first) "first_step env dummy (lower1 (strip1 email)) password b st1 = (response, b', st')"
    using assms(3,4) l allowed by (auto simp: login_def Let_def bad_form_token_def split: if_splits option.splits)
  then show ?thesis
  proof cases
    case second
    then obtain u where u: "find (\<lambda>u. lu_id u = uid \<and> lu_is_active u) (st_users st) = Some u" "lu_totp_enabled u"
      "verify_totp env (decrypted_totp_secret env u) code = Some True" "sign_in env u b st1 = (response, b', st')"
      using assms(4) same by (auto simp: second_step_def Let_def page_def write_audit_def record_login_failure_def split: option.splits if_splits)
    then have "u \<in> set (st_users st)" "lu_id u = uid" "lu_is_active u" by (auto dest: find_SomeD)
    with u start [OF u(4)] allowed(1) pending_is_proven [OF assms(1,2) second(1)] show ?thesis by blast
  next
    case first
    then obtain u where u: "active_user_by_email st (lower1 (strip1 email)) = Some u" "\<not> lu_totp_enabled u"
      "password_accepted env dummy password (Some u)" "sign_in env u b st1 = (response, b', st')"
      using assms(4) same
      by (auto simp: first_step_def Let_def page_def write_audit_def record_login_failure_def active_user_by_email_def split: option.splits if_splits)
    then have "u \<in> set (st_users st)" "lu_is_active u" "lu_email u = lower1 (strip1 email)" by (auto simp: active_user_by_email_def dest: find_SomeD)
    moreover have "verify_password env password (lu_password_hash u)" using u(3) by (auto simp: password_accepted_def Let_def split: if_splits)
    ultimately show ?thesis using u(2) start [OF u(4)] allowed(1) by blast
  qed
qed

end
