(* ===== verification/Auth_Examples.thy ===== *)
theory Auth_Examples
  imports Auth_Login_Props
begin

text \<open>
  A small installation on which the theorems about sign-in are applied: one administrator with a local password and one provider. Two concrete
  histories show where the code does not do what it means to.
\<close>

section \<open>An installation\<close>

definition sign_in_request :: "time \<Rightarrow> string \<Rightarrow> auth_env" where
  "sign_in_request now token = \<lparr>ae_now = now, ae_monotonic = now, ae_client = Some ''c'', ae_address = Some ''c'', ae_user_agent = ''ua'',
     ae_session_token = ''s'' @ token, ae_csrf_token = ''f'' @ token, ae_token = token, ae_state_token = ''q'' @ token,
     ae_sha256 = (\<lambda>s. CHR ''#'' # s), ae_hash_password = (\<lambda>p. CHR ''h'' # p), ae_password_matches = (\<lambda>p h. h = CHR ''h'' # p),
     ae_encrypt = (\<lambda>s. s), ae_decrypt = (\<lambda>s. s), ae_hotp = (\<lambda>s n. ''123456''), ae_normal_email = Some\<rparr>"

definition demo_admin :: login_user where
  "demo_admin = \<lparr>lu_id = 1, lu_email = ''a@x'', lu_password_hash = Some ''hold password'', lu_first_name = None, lu_last_name = None, lu_role = ''admin'',
     lu_is_active = True, lu_totp_secret = None, lu_totp_enabled = False, lu_authentication_type = ''local'', lu_is_break_glass = True,
     lu_role_source = ''local'', lu_updated_at = 0\<rparr>"

definition demo_provider :: oidc_provider where
  "demo_provider = \<lparr>op_id = 1, op_name = ''p'', op_issuer = ''i'', op_client_id = ''k'', op_client_secret = Some ''k'', op_is_enabled = True,
     op_require_verified_email = False, op_allow_jit_provisioning = False, op_email_matching_mode = ''disabled'', op_allowed_email_domains = None,
     op_default_role = ''viewer'', op_sync_roles_on_login = True, op_update_names_on_login = True, op_update_email_on_login = True,
     op_email_claim = ''e'', op_email_verified_claim = ''v'', op_name_claim = ''n'', op_first_name_claim = ''g'', op_last_name_claim = ''l'',
     op_preferred_username_claim = ''u'', op_group_claim = ''r'',
     op_role_mappings = Some (JList [JObj [(''group'', JStr ''staff''), (''role'', JStr ''viewer'')]]), op_case_sensitive = True,
     op_discovery_status = Some ''ok'', op_test_login_succeeded_at = None, op_updated_at = 0\<rparr>"

definition demo_session :: app_session where
  "demo_session = \<lparr>ss_session_id = ''s'', ss_user_id = 1, ss_ip_address = None, ss_user_agent = None, ss_oidc_id_token = None, ss_created_at = 0,
     ss_last_seen_at = 0, ss_ended_at = None\<rparr>"

definition demo_reset :: reset_token where
  "demo_reset = \<lparr>rt_user_id = 1, rt_token_hash = ''#t'', rt_expires_at = minutes 60, rt_used_at = None, rt_created_at = 0\<rparr>"

definition demo_state :: auth_state where
  "demo_state = \<lparr>st_users = [demo_admin], st_sessions = [demo_session], st_reset_tokens = [demo_reset], st_audit = [], st_providers = [demo_provider],
     st_identities = [], st_transactions = [], st_invitations = [],
     st_settings = (\<lambda>k. if k = ''authentication_mode'' then ''local_and_oidc'' else if k = ''oidc_emergency_local_enabled'' then ''1'' else ''/''),
     st_login_failures = [], st_reset_attempts = [], st_action_attempts = []\<rparr>"

text \<open>The browser of the administrator, or a copy of its cookie.\<close>

definition demo_browser :: browser_session where
  "demo_browser = cleared_session\<lparr>bs_user_id := Some 1, bs_session_id := Some ''s'', bs_csrf := Some ''f''\<rparr>"

section \<open>A revoked session links an identity\<close>

text \<open>
  An intruder with a copy of the cookie starts to link an identity of their own and stops at the confirmation. The administrator resets the password, which ends
  every session. The intruder confirms, and signs in through the provider.
\<close>

definition intruder_claims :: "(string \<times> json) list" where
  "intruder_claims = [(''iss'', JStr ''i''), (''sub'', JStr ''m''), (''e'', JStr ''m@x'')]"

definition link_started :: auth_result where
  "link_started = profile_identity_link (sign_in_request 0 ''1'') Reached ''f'' demo_browser demo_state"

definition link_waiting :: auth_result where
  "link_waiting = oidc_callback (sign_in_request 0 ''2'') (Inr (intruder_claims, [])) ''q1'' ''code'' [] (fst (snd link_started)) (snd (snd link_started))"

definition password_reset :: auth_result where
  "password_reset = reset_password_submit (sign_in_request 0 ''3'') ''t'' ''a new password'' ''a new password'' ''f'' (cleared_session\<lparr>bs_csrf := Some ''f''\<rparr>) (snd (snd link_waiting))"

definition link_confirmed :: auth_result where
  "link_confirmed = link_confirm_submit (sign_in_request 0 ''4'') [] ''f'' (fst (snd link_waiting)) (snd (snd password_reset))"

definition intruder_started :: auth_result where
  "intruder_started = oidc_login (sign_in_request 0 ''5'') Reached ''/'' cleared_session (snd (snd link_confirmed))"

definition intruder_inside :: auth_result where
  "intruder_inside = oidc_callback (sign_in_request 0 ''6'') (Inr (intruder_claims, [])) ''q5'' ''code'' [] (fst (snd intruder_started)) (snd (snd intruder_started))"


section \<open>A refused sign-in changes the account\<close>

text \<open>The identity of the only administrator is linked; at the provider the address has changed and the group now stands for a viewer.\<close>

definition linked_state :: auth_state where
  "linked_state = demo_state\<lparr>st_identities := [\<lparr>ei_id = 1, ei_user_id = 1, ei_provider_id = 1, ei_issuer = ''i'', ei_subject = ''a'', ei_email_at_link_time = None,
     ei_current_email = None, ei_preferred_username = None, ei_role_management = ''oidc'', ei_linked_by_user_id = None, ei_link_method = ''self_service'',
     ei_last_login_at = None\<rparr>]\<rparr>"

definition admin_claims :: "(string \<times> json) list" where
  "admin_claims = [(''iss'', JStr ''i''), (''sub'', JStr ''a''), (''e'', JStr ''b@x''), (''r'', JList [JStr ''staff''])]"

definition admin_started :: auth_result where
  "admin_started = oidc_login (sign_in_request 0 ''1'') Reached ''/'' cleared_session linked_state"

definition admin_refused :: auth_result where
  "admin_refused = oidc_callback (sign_in_request 0 ''2'') (Inr (admin_claims, [])) ''q1'' ''code'' [] (fst (snd admin_started)) (snd (snd admin_started))"


section \<open>The theorems on the installation\<close>

lemma demo_users_ok: "users_ok demo_state" "users_ok (snd (snd intruder_started))" "users_ok (snd (snd admin_started))"
  unfolding users_ok_def by code_simp+

definition demo_logout :: auth_result where
  "demo_logout = handle (sign_in_request 0 ''1'') (Logout ''f'') demo_browser demo_state"

theorem signed_out_for_good_witness:
  "fst (current_user (sign_in_request 0 ''0'') demo_browser demo_state) = Some demo_admin \<and>
   fst (current_user (sign_in_request 1 ''2'') demo_browser (snd (snd demo_logout))) = None"
proof
  show "fst (current_user (sign_in_request 0 ''0'') demo_browser demo_state) = Some demo_admin" by code_simp
  have "distinct (map ss_session_id (st_sessions demo_state))" "demo_session \<in> set (st_sessions demo_state)"
    "ends (sign_in_request 0 ''1'') (Logout ''f'') demo_browser demo_state demo_session" "bs_session_id demo_browser = Some (ss_session_id demo_session)"
    by code_simp+
  then show "fst (current_user (sign_in_request 1 ''2'') demo_browser (snd (snd demo_logout))) = None"
    using signed_out_for_good [of demo_state demo_session "sign_in_request 0 ''1''" "Logout ''f''" demo_browser "fst demo_logout" "fst (snd demo_logout)"
        "snd (snd demo_logout)" "snd (snd demo_logout)" demo_browser "sign_in_request 1 ''2''"] by (simp add: demo_logout_def)
qed

theorem last_administrator_is_kept_witness:
  "\<exists>v \<in> set (st_users (snd (snd admin_refused))). lu_role v = ''admin'' \<and> lu_is_active v"
proof -
  have "handle (sign_in_request 0 ''2'') (Oidc_callback (Inr (admin_claims, [])) ''q1'' ''code'' []) (fst (snd admin_started)) (snd (snd admin_started)) =
      (fst admin_refused, fst (snd admin_refused), snd (snd admin_refused))"
    by (simp add: admin_refused_def)
  then have step: "request_step\<^sup>*\<^sup>* (snd (snd admin_started)) (snd (snd admin_refused))"
    using demo_users_ok(3) request_step.Request by blast
  have "demo_admin \<in> set (st_users (snd (snd admin_started)))" "lu_role demo_admin = ''admin''" "lu_is_active demo_admin" by code_simp+
  then show ?thesis using last_administrator_is_kept [OF step demo_users_ok(3), of demo_admin] by blast
qed

theorem sso_reaches_the_linked_account_witness:
  "\<exists>p v u. p \<in> set (st_providers (snd (snd intruder_started))) \<and> u \<in> set (st_users (snd (snd intruder_inside))) \<and>
     bs_user_id (fst (snd intruder_inside)) = Some (lu_id u) \<and> linked (snd (snd intruder_inside)) p v (lu_id u)"
proof -
  have call: "oidc_callback (sign_in_request 0 ''6'') (Inr (intruder_claims, [])) ''q5'' ''code'' [] (fst (snd intruder_started)) (snd (snd intruder_started)) =
      (fst intruder_inside, fst (snd intruder_inside), snd (snd intruder_inside))"
    by (simp add: intruder_inside_def)
  have "st_sessions (snd (snd intruder_inside)) \<noteq> st_sessions (snd (snd intruder_started))" by code_simp
  then show ?thesis using sso_reaches_the_linked_account [OF demo_users_ok(2) call] by blast
qed

definition wrong_login :: auth_result where
  "wrong_login = handle (sign_in_request 0 ''1'') (Login ''h'' ''a@x'' ''guess'' [] ''f'') demo_browser demo_state"


theorem emergency_guesses_are_unbounded_witness:
  "fst (emergency_login_submit ((sign_in_request 0 ''1'')\<lparr>ae_client := Some ''g''\<rparr>) ''a@x'' ''old password'' [] ''f'' demo_browser
     (emergency_attempts (sign_in_request 0 ''1'') ''a@x'' ''guess'' ''f'' demo_browser [''d'', ''e''] demo_state)) = Redirect ''/''"
proof -
  have "st_audit demo_state = []" "st_login_failures demo_state = []" "emergency_enabled demo_state" "distinct ([''d'', ''e''] @ [''g''])"
    "break_glass_user demo_state (\<lambda>u. lu_email u = lower1 (strip1 ''a@x'')) = Some demo_admin" "has_password demo_admin" "\<not> lu_totp_enabled demo_admin"
    "\<not> verify_password (sign_in_request 0 ''1'') ''guess'' (lu_password_hash demo_admin)" "verify_password (sign_in_request 0 ''1'') ''old password'' (lu_password_hash demo_admin)"
    "validate_csrf_token demo_browser ''f''" "bs_pending_break_glass demo_browser = None"
    "ae_session_token (sign_in_request 0 ''1'') \<notin> ss_session_id ` set (st_sessions demo_state)"
    by code_simp+
  then show ?thesis by (rule emergency_guesses_are_unbounded [THEN conjunct2])
qed

definition first_page :: auth_result where
  "first_page = handle (sign_in_request 0 ''1'') (Login_page False) cleared_session demo_state"

definition right_login :: auth_result where
  "right_login = login (sign_in_request 0 ''2'') ''h'' ''a@x'' ''old password'' [] ''f1'' (fst (snd first_page)) (snd (snd first_page))"

theorem local_session_proves_credentials_witness:
  "\<exists>u. u \<in> set (st_users (snd (snd first_page))) \<and> lu_is_active u \<and> bs_user_id (fst (snd right_login)) = Some (lu_id u)"
proof -
  have page: "handle (sign_in_request 0 ''1'') (Login_page False) cleared_session demo_state = (fst first_page, fst (snd first_page), snd (snd first_page))"
    by (simp add: first_page_def)
  have "auth_world (snd (snd first_page)) (insert (fst (snd first_page)) {cleared_session}) ({} \<union> set_option (password_proof (sign_in_request 0 ''1'') (Login_page False) demo_state))"
    by (rule auth_world.Serve [OF auth_world.Begin _ page]) simp
  moreover have "login (sign_in_request 0 ''2'') ''h'' ''a@x'' ''old password'' [] ''f1'' (fst (snd first_page)) (snd (snd first_page)) =
      (fst right_login, fst (snd right_login), snd (snd right_login))"
    by (simp add: right_login_def)
  moreover have "st_sessions (snd (snd right_login)) \<noteq> st_sessions (snd (snd first_page))" by code_simp
  ultimately show ?thesis using local_session_proves_credentials by blast
qed

end
