(* ===== verification/Spec2Isabelle.thy ===== *)
theory Spec2Isabelle
  imports HA_Failover_Start HA_Agent Flow_Collector_Props Client_IP Notify_Props Secure_Send_Sessions
    HA_Enrolment_Props HA_Keepalived_Props HA_Maintenance_Safety HA_Heartbeat_Props HA_Orders
    Auth_Examples
begin

text \<open>
  \<^bold>\<open>Kaya: high availability, flow accounting, notifications, Secure Send, sign-in and request identity.\<close>

  Kaya is a web application that manages a home network. This library models and verifies those of
  its parts that act on the network, tell people about it, or decide whom to trust:

  \<^item> the High Availability module, which pairs two Pi-hole servers behind a virtual IP and moves DNS
    and DHCP between them (\<open>app/services/ha_*.py\<close> on the server, \<open>ha_agent/\<close> on the nodes);
  \<^item> the NetFlow collector, which decodes NetFlow v9 and Cisco NSEL datagrams and turns them into
    traffic totals (\<open>app/services/flow_*.py\<close>, \<open>endpoint_traffic.py\<close>);
  \<^item> the notification pipeline, from a request of a module through the outbox to events, inboxes and the push and mail
    providers (\<open>notification_registry.py\<close>, \<open>notification_outbox.py\<close>, \<open>notifications.py\<close>, \<open>notification_delivery.py\<close>);
  \<^item> Secure Send, which hands encrypted notes and files to people without an account through a public gateway
    (\<open>services/secure_send.py\<close>, \<open>security_gateway.py\<close>, \<open>routers/secure_send.py\<close>);
  \<^item> sign-in: passwords, two-factor codes, login sessions, single sign-on with linked identities, the emergency sign-in
    (\<open>routers/auth.py\<close>, \<open>routers/oidc.py\<close>, \<open>services/sessions.py\<close>, \<open>authentication_policy.py\<close>, \<open>oidc_*.py\<close>);
  \<^item> the identification of the caller of a request behind reverse proxies (\<open>client_ip.py\<close>).

  \<^bold>\<open>How the parts interact.\<close> Agents on the nodes are enrolled with a token, sign every request, and report what they observe. \<open>HA_Topology\<close> reconciles
  the reports into owners, issues and a safety verdict. Keepalived moves the virtual IP with a configuration
  that the server renders and that agent and root helper check before they install it. The failover engine advances a run, a state
  machine over phases, on that verdict; for DHCP phases it hands the agents orders, which the demotion
  gate of \<open>HA_DHCP_Safety\<close> must allow and which the agent checks again on its own evidence. A run starts only
  when readiness, recovery and the final lease capture agree. Beside the transitions, repairs of a cluster (reconciliation of stored state, self-heal
  of DHCP, reinitialisation) are runs of a second state machine that is advanced by every heartbeat and by the watchdog; an order of a repair takes precedence over
  that of a transition in the desired state that an agent reads, and every result comes back through one operation that looks up the order it answers. Datagrams pass from the decoder to
  classification and attribution and from there to the tables. Modules
  queue notifications in the outbox within their own transaction; a worker claims and publishes the rows, which creates one
  event, one inbox row per recipient and the delivery attempts that a second worker hands to the providers. The sender pages and the
  public gateway of Secure Send work on the same tables, and a job cleans up what has expired. The login form and the callback of the identity provider start login sessions over the same accounts; every other page
  asks \<open>current_user\<close>, which accepts a cookie only with a live session. The middleware of
  \<open>Client_IP\<close> stands in front of every request.

  \<^bold>\<open>Theories.\<close>

  \<^item> \<open>Kaya_Base\<close>: the prelude. Instants in microseconds, optional values, ordered de-duplication, Python's text
    functions, integers from text. \<open>Kaya_Json\<close>: values of \<open>json.loads\<close>, truth value, \<open>str\<close>, \<open>int\<close>, canonical
    \<open>json.dumps\<close>. \<open>Kaya_Net\<close> and \<open>Kaya_Ip\<close>: addresses and networks as the \<open>ipaddress\<close> module reads and prints them.
  \<^item> \<open>HA_Model\<close>: the rows of \<open>app/models/models.py\<close> (nodes, clusters, runs, lease state, snapshots, events) as
    records with the same columns, and the reference cluster that the witnesses use.
  \<^item> \<open>HA_Topology\<close> (\<open>ha_topology.py\<close>): \<open>dhcp_observation\<close>, \<open>reconcile_topology\<close>. A safe topology has one owner of
    virtual IP and DHCP and no issue; stale reports prove nothing.
  \<^item> \<open>HA_DHCP_Safety\<close> (\<open>ha_dhcp_safety.py\<close>): \<open>authorise_dhcp_demotion\<close>. The only DHCP server is stopped only in an explicit
    handover to a replacement that is ready.
  \<^item> \<open>HA_Failover\<close> (\<open>ha_failover.py\<close>): readiness, automatic mode, orders, results, advance, rollback, one definition per
    function, the run and its cluster passed explicitly. \<open>HA_Failover_Safety\<close> states the abstract diagram of a run
    (\<open>phase_edge\<close>), proves that every operation refines it and derives the guarantees about whole lives of a run
    (\<open>run_trace\<close>): DHCP is started on a node only after the other one was seen to release it. \<open>HA_Failover_Progress\<close>
    proves that a well-founded rank falls with every change, that deadlines are left, that completion is verified,
    that results are fenced by generation and checksum, and exhibits concrete runs that go wrong.
    \<open>HA_Failover_Start\<close> holds the start of a run, which calls recovery and lease capture, and the status document.
  \<^item> \<open>HA_Recovery\<close> (\<open>ha_recovery.py\<close>): the recovery checks and the stability window before a node may take service back.
    \<open>HA_Leases\<close> (\<open>ha_leases.py\<close>): normalisation of DHCP leases, snapshots and their staging, with an invariant over all
    sequences of operations.
  \<^item> \<open>HA_Agent\<close> (\<open>ha_agent/failover_runtime.py\<close>, \<open>kaya_ha_transition.py\<close>): what a node checks before it starts or stops
    DHCP, on an order and on a Keepalived role change, over a log of the privileged commands.
  \<^item> \<open>HA_Enrolment\<close> (\<open>ha_agents.py\<close>): bootstrap tokens, registration, revocation, the two halves of the authentication of a request, the replay
    table. \<open>HA_Enrolment_Props\<close> lets requests in flight interleave with everything else and proves that replays are refused although the
    table forgets; tokens and identities are further instances of \<open>closable\<close>.
  \<^item> \<open>HA_Keepalived\<close> (\<open>ha_keepalived.py\<close>, the checks of \<open>keepalived_runtime.py\<close>) and \<open>HA_Keepalived_Host\<close> (\<open>kaya_ha_keepalived_helper.py\<close>, \<open>keepalived_runtime.py\<close>, the
    result in \<open>ha_agents.py\<close>): a configuration on its whole way. \<open>Kaya_Pattern\<close> bounds, by evaluation, how often a marker occurs in text of a
    given shape; \<open>HA_Keepalived_Text\<close> and \<open>HA_Keepalived_Props\<close> use it to show that what is rendered is accepted and arrives, and
    that a failed installation is undone.
  \<^item> \<open>HA_Maintenance\<close> (\<open>ha_maintenance.py\<close>, \<open>reconcile_cluster\<close> of \<open>ha_watchdog.py\<close>): inspection, the three repairs with their phases, orders and results, the failure latch,
    and the progress document. \<open>HA_Maintenance_Props\<close> describes what one operation may do to the row of a run (\<open>repair_move\<close>) and derives, over whole lives of a run (\<open>repair_trace\<close>), that DHCP is
    started only after a release, and that a restart of the server traps a run. \<open>HA_Maintenance_Safety\<close> lets all operations of the module interleave (\<open>maintained\<close>): one repair
    at a time; it shows when a self-heal starts and that a failed one is not repeated, whom a repair may stop, what success means, that reconciliation moves
    no service, and two ways in which a repair goes wrong.
  \<^item> \<open>HA_Heartbeat\<close> (\<open>ha_agents.py\<close>): heartbeats in their order of arrival, the reconciliation of ownership with its notifications, the adoption of an owner after an automatic
    failover, events of agents. \<open>HA_Heartbeat_Props\<close>: healthy means verified, adoption needs evidence, repeated events change nothing.
  \<^item> \<open>HA_Orders\<close> (\<open>ha_agents.py\<close>): the desired state of a node and the results of all kinds of actions, which are fenced and recorded once.
  \<^item> \<open>Flow_Protocol\<close> (\<open>flow_protocol.py\<close>): the decoder over lists of bytes with its template cache.
    \<open>Flow_Protocol_Props\<close>: bounds, isolation of exporters, exact tiling of data flowsets, round trips of templates,
    wrap-around of the sequence check.
  \<^item> \<open>Flow_Accounting\<close> (\<open>flow_accounting.py\<close>) and \<open>Flow_Collector\<close> (\<open>flow_collector.py\<close>, \<open>endpoint_traffic.py\<close>): classification,
    attribution, replay protection, cumulative counters, totals and rollups over the session as the application
    configures it. \<open>Flow_Collector_Props\<close>: replays, balance of the rollups, counters that add up, the rate limit; the
    columns that an upsert adds up are the interface \<open>additive_column\<close>, interpreted on the four columns of the code.
  \<^item> \<open>Notify_Model\<close> (\<open>notification_registry.py\<close>, \<open>modules.py\<close>, the tables): the catalogue of event types, text checks, access to modules.
    \<open>Notify_Publish\<close> (\<open>notifications.py\<close>), \<open>Notify_Outbox\<close> (\<open>notification_outbox.py\<close>), \<open>Notify_Delivery\<close> (\<open>notification_delivery.py\<close>):
    one definition per function, every branch and every way to fail included. \<open>Notify_Invariant\<close> lets requests, claims, publications, retention,
    deliveries and changes of the settings interleave (\<open>pipeline_step\<close>) and proves the typing of the rows and the uniqueness of active
    rows and open events for all reachable states; \<open>Notify_Props\<close> derives that no request is lost, that the worker drains
    the queue, and who can receive what.
  \<^item> \<open>Secure_Send\<close>: packages, files, recipient sessions, the gateway and the sender operations over one set of tables.
    \<open>Secure_Send_Props\<close> runs requests and jobs in any order with a log of the answers (\<open>send_run\<close>): single downloads, closed packages,
    the bound on guessing. \<open>Secure_Send_Sessions\<close> treats sessions and packages as instances of one interface, \<open>closable\<close> of \<open>Kaya_Base\<close>
    (what is closed stays closed), and shows what the clean-up destroys.
  \<^item> \<open>Auth_Model\<close> (the tables, \<open>sessions.py\<close>, \<open>authentication_policy.py\<close>, \<open>csrf.py\<close>), \<open>Auth_Login\<close> (\<open>routers/auth.py\<close>, \<open>totp.py\<close>), \<open>Auth_OIDC\<close>
    (\<open>oidc_identity.py\<close>, \<open>oidc_role_mapping.py\<close>) and \<open>Auth_Handlers\<close> (\<open>oidc_client.py\<close>, \<open>routers/oidc.py\<close>): one definition per handler, from the tables, the
    memory of the process and the browser's signed session to the answer and their new values. \<open>Auth_Steps\<close> gathers the requests (\<open>handle\<close>) and proves that each refines a sequence of guarded
    elementary writes (\<open>auth_write\<close>). From these follow, over all sequences of requests, restarts and administrative changes: \<open>Auth_Props\<close>, closed login sessions
    stay closed (another instance of \<open>closable\<close>) and the last administrator stays; \<open>Auth_Link_Props\<close>, a session of single sign-on is for the linked account;
    \<open>Auth_Login_Props\<close>, guesses per address are bounded, those of the emergency sign-in are not, and a local session proves its credentials even against clients that keep and
    replay every browser session they were given (\<open>auth_world\<close>). \<open>Auth_Examples\<close> applies the theorems to a concrete installation and shows two attacks on it.
  \<^item> \<open>Client_IP\<close> (\<open>client_ip.py\<close>): trusted proxies, forwarding headers and the middleware.

  \<^bold>\<open>Conventions.\<close> Python integers are \<open>int\<close>; bytes and the 32-bit sequence numbers are words; text is \<open>string\<close>, one
  character per code point up to 255; exceptions are values of a sum type, and an operation that changes state before
  it raises returns both. Database rows are lists in insertion order; \<open>commit\<close> and \<open>refresh\<close> are the identity, except in the flow
  collector, whose correctness depends on when rows are flushed. One operation reads the clock once
  and runs to its end before the next one starts, except where a theory says how operations interleave.

  \<^bold>\<open>Termination.\<close> All loops are structural recursions or have a measure on the bytes left; no fuel is used.

  \<^bold>\<open>Arguments for what lies outside.\<close> The digest functions, the outbox, the answers of the Pi-hole servers, the encryption of
  snapshots, the configuration synchronisation before a failback and within a repair, the instant at which the server process started, the privileged helpers of the agent and what the running agent writes during a
  hold-down, the accounting per device, the answers of push and mail providers, the
  cipher, password hash and random tokens of Secure Send and of the sign-in, the one-time codes, the rules of e-mail addresses, the validated claims or the error of the identity provider, the keys and signatures of agents, the exit codes and file
  system faults of the Keepalived helper, database faults, the floating-point conversion of router uptimes, and the local time zone are
  arguments of the definitions; what a theorem needs of them is a hypothesis of it.

  \<^bold>\<open>Not modelled.\<close> Web routers, templates and migrations (input, output and schema); the HTTP, SSH and SNMP clients; the threads, sockets and
  queues of the collector; the agent's main loop and privileged helpers (system commands and files). Of the HA module: the drafts and the deletion of clusters, which are form
  handling; \<open>ha_sync.py\<close> and \<open>ha_validation.py\<close>, which compare and write the configuration of Pi-hole over HTTP; the timers of the
  monitors; documents that only feed pages, log output and, except for the sign-in, audit rows. Of the sign-in: the pages that administer the provider, the exchange with it
  over HTTP, the landing page of a module, and what a logout or a new password closes in the vault and for push messages. The other services (address management, DNS reports, remote manager, monitoring) are mostly
  database reports and network clients.
\<close>

end
